(* ===== verification/Prelude.thy ===== *)
theory Prelude
  imports Main "HOL-Library.Char_ord" "HOL-Library.List_Lexorder"
begin

text \<open>
  Shared vocabulary of the development: results with errors as values, Go strings as their
  UTF-8 bytes with the operations of the standard library the sources call on them
  (\<open>strings.TrimSpace\<close>, \<open>strings.ToUpper\<close>, \<open>strings.ToLower\<close>, \<open>strings.EqualFold\<close>,
  \<open>strings.Contains\<close>, \<open>strings.Split\<close>, the length in runes), first-occurrence
  deduplication, and the two interfaces every stateful component shares: an invariant kept by a
  step function, and a row updated under an optimistic version.

  A Go string is a byte sequence, so it is a \<open>string\<close> (a \<open>char list\<close>, a \<open>char\<close> being a
  byte). Case mapping is the ASCII one: every vocabulary the code compares after
  \<open>ToUpper\<close> or \<open>ToLower\<close> is ASCII, and letters outside ASCII are left as they are.
\<close>

named_theorems go_str \<open>evaluation of string operations on the constants of the code\<close>
named_theorems res_simps \<open>inversion of results\<close>

section \<open>Results\<close>

text \<open>\<open>rbind\<close> is the \<open>if err != nil { return err }\<close> of the sources.\<close>

fun rbind :: "'e + 'a \<Rightarrow> ('a \<Rightarrow> 'e + 'b) \<Rightarrow> 'e + 'b" where
  "rbind (Inl e) f = Inl e"
| "rbind (Inr a) f = f a"

definition rguard :: "bool \<Rightarrow> 'e \<Rightarrow> 'e + unit" where
  "rguard ok e = (if ok then Inr () else Inl e)"

lemma rbind_eq_Inr [res_simps]: "rbind x f = Inr y \<longleftrightarrow> (\<exists>a. x = Inr a \<and> f a = Inr y)"
  by (cases x) auto

lemma rbind_eq_Inl [res_simps]:
  "rbind x f = Inl e \<longleftrightarrow> x = Inl e \<or> (\<exists>a. x = Inr a \<and> f a = Inl e)"
  by (cases x) auto

lemma rguard_eq_Inr [res_simps]: "rguard ok e = Inr u \<longleftrightarrow> ok"
  by (simp add: rguard_def)

lemma rguard_eq_Inl [res_simps]: "rguard ok e = Inl f \<longleftrightarrow> \<not> ok \<and> f = e"
  by (auto simp: rguard_def)

lemma rguard_True [simp]: "rguard True e = Inr ()"
  by (simp add: rguard_def)

lemma rguard_False [simp]: "rguard False e = Inl e"
  by (simp add: rguard_def)

lemma if_Inl_eq_Inr [res_simps]: "(if b then Inl e else r) = Inr y \<longleftrightarrow> \<not> b \<and> r = Inr y"
  by auto

lemma if_Inr_eq_Inl [res_simps]: "(if b then r else Inl e) = Inr y \<longleftrightarrow> b \<and> r = Inr y"
  by auto

section \<open>Strings\<close>

subsection \<open>White space and trimming\<close>

text \<open>
  The runes of \<open>unicode.IsSpace\<close> by the number of bytes of their UTF-8 encoding:
  the six ASCII ones; U+0085 and U+00A0; U+1680, U+2000 to U+200A, U+2028, U+2029, U+202F,
  U+205F and U+3000.
\<close>

definition space1 :: "char \<Rightarrow> bool" where
  "space1 a \<longleftrightarrow> a \<in> {CHR 0x09, CHR 0x0A, CHR 0x0B, CHR 0x0C, CHR 0x0D, CHR 0x20}"

definition space2 :: "char \<Rightarrow> char \<Rightarrow> bool" where
  "space2 a b \<longleftrightarrow> a = CHR 0xC2 \<and> b \<in> {CHR 0x85, CHR 0xA0}"

definition space3 :: "char \<Rightarrow> char \<Rightarrow> char \<Rightarrow> bool" where
  "space3 a b c \<longleftrightarrow>
     (a = CHR 0xE1 \<and> b = CHR 0x9A \<and> c = CHR 0x80) \<or>
     (a = CHR 0xE2 \<and> b = CHR 0x80 \<and>
        c \<in> {CHR 0x80, CHR 0x81, CHR 0x82, CHR 0x83, CHR 0x84, CHR 0x85, CHR 0x86, CHR 0x87,
             CHR 0x88, CHR 0x89, CHR 0x8A, CHR 0xA8, CHR 0xA9, CHR 0xAF}) \<or>
     (a = CHR 0xE2 \<and> b = CHR 0x81 \<and> c = CHR 0x9F) \<or>
     (a = CHR 0xE3 \<and> b = CHR 0x80 \<and> c = CHR 0x80)"

fun trim_left :: "string \<Rightarrow> string" where
  "trim_left [] = []"
| "trim_left [a] = (if space1 a then [] else [a])"
| "trim_left [a, b] =
     (if space1 a then trim_left [b] else if space2 a b then [] else [a, b])"
| "trim_left (a # b # c # s) =
     (if space1 a then trim_left (b # c # s)
      else if space2 a b then trim_left (c # s)
      else if space3 a b c then trim_left s
      else a # b # c # s)"

text \<open>The same from the end; the argument is the reversed string.\<close>

fun trim_rev :: "string \<Rightarrow> string" where
  "trim_rev [] = []"
| "trim_rev [a] = (if space1 a then [] else [a])"
| "trim_rev [a, b] =
     (if space1 a then trim_rev [b] else if space2 b a then [] else [a, b])"
| "trim_rev (a # b # c # s) =
     (if space1 a then trim_rev (b # c # s)
      else if space2 b a then trim_rev (c # s)
      else if space3 c b a then trim_rev s
      else a # b # c # s)"

definition trim_space :: "string \<Rightarrow> string" where
  "trim_space s = rev (trim_rev (rev (trim_left s)))"

abbreviation blank :: "string \<Rightarrow> bool" where
  "blank s \<equiv> trim_space s = []"

lemma trim_space_Nil [simp]: "trim_space [] = []"
  by (simp add: trim_space_def)

lemma trim_left_idem [simp]: "trim_left (trim_left s) = trim_left s"
  by (induction s rule: trim_left.induct) auto

lemma trim_rev_idem [simp]: "trim_rev (trim_rev s) = trim_rev s"
  by (induction s rule: trim_rev.induct) auto

text \<open>Trimming the end only drops a suffix, and a prefix of a left-trimmed string is one.\<close>

lemma trim_rev_suffix: "\<exists>p. s = p @ trim_rev s"
proof (induction s rule: trim_rev.induct)
  case (4 a b c s)
  show ?case
  proof (cases "space1 a")
    case True
    then obtain p where "b # c # s = p @ trim_rev (b # c # s)" using 4(1) by blast
    with True have "a # b # c # s = (a # p) @ trim_rev (a # b # c # s)" by simp
    then show ?thesis by blast
  next
    case F1: False
    show ?thesis
    proof (cases "space2 b a")
      case True
      then obtain p where "c # s = p @ trim_rev (c # s)" using 4(2) F1 by blast
      with True F1 have "a # b # c # s = (a # b # p) @ trim_rev (a # b # c # s)" by simp
      then show ?thesis by blast
    next
      case F2: False
      show ?thesis
      proof (cases "space3 c b a")
        case True
        then obtain p where "s = p @ trim_rev s" using 4(3) F1 F2 by blast
        with True F1 F2 have "a # b # c # s = (a # b # c # p) @ trim_rev (a # b # c # s)" by simp
        then show ?thesis by blast
      next
        case False
        with F1 F2 show ?thesis by auto
      qed
    qed
  qed
qed auto

lemma trim_left_length: "length (trim_left x) \<le> length x"
  by (induction x rule: trim_left.induct) auto

lemma trim_left_space1: "space1 a \<Longrightarrow> trim_left (a # s) = trim_left s"
  by (cases s; cases "tl s") auto

lemma trim_left_space2: "\<not> space1 a \<Longrightarrow> space2 a b \<Longrightarrow> trim_left (a # b # s) = trim_left s"
  by (cases s) auto

lemma trim_left_space3:
  "\<not> space1 a \<Longrightarrow> \<not> space2 a b \<Longrightarrow> space3 a b c \<Longrightarrow> trim_left (a # b # c # s) = trim_left s"
  by simp

lemma trim_left_shorter: "length s < n \<Longrightarrow> trim_left s = t \<Longrightarrow> length t < n"
  using trim_left_length [of s] by simp

lemma trim_left_fix1: "trim_left (a # s) = a # s \<Longrightarrow> \<not> space1 a"
  by (metis length_Cons lessI less_irrefl trim_left_shorter trim_left_space1)

lemma trim_left_fix2: "trim_left (a # b # s) = a # b # s \<Longrightarrow> \<not> space2 a b"
  by (metis length_Cons less_irrefl less_SucI lessI trim_left_fix1 trim_left_shorter trim_left_space2)

lemma trim_left_fix3: "trim_left (a # b # c # s) = a # b # c # s \<Longrightarrow> \<not> space3 a b c"
  by (metis length_Cons less_irrefl less_SucI lessI trim_left_fix1 trim_left_fix2 trim_left_shorter
      trim_left_space3)

lemma trim_left_fix_prefix: "trim_left (p @ q) = p @ q \<Longrightarrow> trim_left p = p"
proof -
  assume eq: "trim_left (p @ q) = p @ q"
  consider "p = []" | a where "p = [a]" | a b where "p = [a, b]"
    | a b c s where "p = a # b # c # s"
    by (metis list.exhaust)
  then show ?thesis
  proof cases
    case (2 a)
    with eq have "trim_left (a # q) = a # q" by (simp only: append.simps)
    with 2 show ?thesis by (simp only: trim_left.simps trim_left_fix1 if_False)
  next
    case (3 a b)
    with eq have "trim_left (a # b # q) = a # b # q" by (simp only: append.simps)
    with 3 show ?thesis by (simp only: trim_left.simps trim_left_fix1 trim_left_fix2 if_False)
  next
    case (4 a b c s)
    with eq have "trim_left (a # b # c # s @ q) = a # b # c # s @ q" by (simp only: append.simps)
    then have "\<not> space1 a" "\<not> space2 a b" "\<not> space3 a b c"
      by (rule trim_left_fix1, rule trim_left_fix2, rule trim_left_fix3)
    with 4 show ?thesis by simp
  qed simp
qed

theorem trim_space_idem [simp]: "trim_space (trim_space s) = trim_space s"
proof -
  let ?l = "trim_left s"
  obtain p where "rev ?l = p @ trim_rev (rev ?l)" using trim_rev_suffix by blast
  then have "?l = rev (trim_rev (rev ?l)) @ rev p" by (metis rev_append rev_rev_ident)
  then have "trim_left (rev (trim_rev (rev ?l)) @ rev p) = rev (trim_rev (rev ?l)) @ rev p"
    by (metis trim_left_idem)
  then have "trim_left (rev (trim_rev (rev ?l))) = rev (trim_rev (rev ?l))"
    by (rule trim_left_fix_prefix)
  then show ?thesis by (simp add: trim_space_def)
qed

subsection \<open>Case, search, splitting\<close>

definition upper_char :: "char \<Rightarrow> char" where
  "upper_char c = (if CHR ''a'' \<le> c \<and> c \<le> CHR ''z'' then char_of (of_char c - 32 :: nat) else c)"

definition lower_char :: "char \<Rightarrow> char" where
  "lower_char c = (if CHR ''A'' \<le> c \<and> c \<le> CHR ''Z'' then char_of (of_char c + 32 :: nat) else c)"

definition to_upper :: "string \<Rightarrow> string" where
  "to_upper s = map upper_char s"

definition to_lower :: "string \<Rightarrow> string" where
  "to_lower s = map lower_char s"

lemma of_char_upper:
  "(of_char (upper_char c) :: nat) =
     (if 97 \<le> (of_char c :: nat) \<and> (of_char c :: nat) \<le> 122 then of_char c - 32 else of_char c)"
  by (auto simp: upper_char_def less_eq_char_def)

lemma upper_char_idem [simp]: "upper_char (upper_char c) = upper_char c"
proof -
  have "(of_char (upper_char (upper_char c)) :: nat) = of_char (upper_char c)"
    by (simp only: of_char_upper) auto
  then show ?thesis by (simp only: of_char_eq_iff)
qed

lemma to_upper_idem [simp]: "to_upper (to_upper s) = to_upper s"
  by (simp add: to_upper_def)

text \<open>A byte outside the letters is the upper case of itself only, so trimming commutes with case.\<close>

lemma upper_char_eq_nonletter:
  assumes "\<not> (65 \<le> (of_char d :: nat) \<and> (of_char d :: nat) \<le> 90)"
    and "\<not> (97 \<le> (of_char d :: nat) \<and> (of_char d :: nat) \<le> 122)"
  shows "upper_char c = d \<longleftrightarrow> c = d"
proof -
  have "(of_char (upper_char c) :: nat) = of_char d \<longleftrightarrow> (of_char c :: nat) = of_char d"
    using assms by (simp only: of_char_upper) auto
  then show ?thesis by (simp only: of_char_eq_iff)
qed

lemma space_upper [simp]:
  "space1 (upper_char a) = space1 a"
  "space2 (upper_char a) (upper_char b) = space2 a b"
  "space3 (upper_char a) (upper_char b) (upper_char c) = space3 a b c"
  by (simp_all add: space1_def space2_def space3_def upper_char_eq_nonletter)

lemma trim_left_map_upper: "trim_left (map upper_char s) = map upper_char (trim_left s)"
  by (induction s rule: trim_left.induct) simp_all

lemma trim_rev_map_upper: "trim_rev (map upper_char s) = map upper_char (trim_rev s)"
  by (induction s rule: trim_rev.induct) simp_all

lemma trim_space_to_upper: "trim_space (to_upper s) = to_upper (trim_space s)"
  by (simp add: trim_space_def to_upper_def trim_left_map_upper trim_rev_map_upper rev_map)

definition equal_fold :: "string \<Rightarrow> string \<Rightarrow> bool" where
  "equal_fold s t \<longleftrightarrow> to_lower s = to_lower t"

fun str_contains :: "string \<Rightarrow> string \<Rightarrow> bool" where
  "str_contains [] t \<longleftrightarrow> t = []"
| "str_contains (c # s) t \<longleftrightarrow> take (length t) (c # s) = t \<or> str_contains s t"

lemma str_contains_iff: "str_contains s t \<longleftrightarrow> (\<exists>p q. s = p @ t @ q)"
proof (induction s)
  case (Cons c s)
  have "take (length t) (c # s) = t \<longleftrightarrow> (\<exists>q. c # s = t @ q)"
    by (metis append_eq_conv_conj)
  moreover have "(\<exists>p q. c # s = p @ t @ q) \<longleftrightarrow> (\<exists>q. c # s = t @ q) \<or> (\<exists>p q. s = p @ t @ q)"
    by (metis append_Cons append_Nil list.exhaust list.sel(3))
  ultimately show ?case using Cons.IH by simp
qed auto

text \<open>\<open>strings.Split\<close> on a non-empty separator, and \<open>strings.Join\<close>.\<close>

fun split_on_acc :: "string \<Rightarrow> nat \<Rightarrow> string \<Rightarrow> string \<Rightarrow> string list" where
  "split_on_acc sep k acc [] = [rev acc]"
| "split_on_acc sep k acc (c # s) =
     (if 0 < k then split_on_acc sep (k - 1) acc s
      else if take (length sep) (c # s) = sep
           then rev acc # split_on_acc sep (length sep - 1) [] s
           else split_on_acc sep 0 (c # acc) s)"

definition split_on :: "string \<Rightarrow> string \<Rightarrow> string list" where
  "split_on s sep = split_on_acc sep 0 [] s"

fun join_with :: "string \<Rightarrow> string list \<Rightarrow> string" where
  "join_with sep [] = []"
| "join_with sep [x] = x"
| "join_with sep (x # y # ys) = x @ sep @ join_with sep (y # ys)"

text \<open>
  The number of runes of a string of well-formed UTF-8 (\<open>len([]rune(s))\<close>,
  \<open>utf8.RuneCountInString\<close>): every byte that is not a continuation byte starts one.
\<close>

definition rune_count :: "string \<Rightarrow> nat" where
  "rune_count s = length (filter (\<lambda>c. \<not> (128 \<le> (of_char c :: nat) \<and> (of_char c :: nat) < 192)) s)"

lemma rune_count_le_length: "rune_count s \<le> length s"
  by (simp add: rune_count_def)

section \<open>First-occurrence deduplication\<close>

text \<open>
  The \<open>seen\<close>-map loops of the sources: a value is kept where it occurs first.
\<close>

fun uniq_from :: "'a list \<Rightarrow> 'a list \<Rightarrow> 'a list" where
  "uniq_from seen [] = []"
| "uniq_from seen (x # xs) =
     (if List.member seen x then uniq_from seen xs else x # uniq_from (x # seen) xs)"

definition uniq :: "'a list \<Rightarrow> 'a list" where
  "uniq xs = uniq_from [] xs"

lemma set_uniq_from [simp]: "set (uniq_from seen xs) = set xs - set seen"
  by (induction seen xs rule: uniq_from.induct) auto

lemma distinct_uniq_from [simp]: "distinct (uniq_from seen xs)"
  by (induction seen xs rule: uniq_from.induct) auto

lemma uniq_from_id: "distinct xs \<Longrightarrow> set xs \<inter> set seen = {} \<Longrightarrow> uniq_from seen xs = xs"
  by (induction seen xs rule: uniq_from.induct) auto

lemma set_uniq [simp]: "set (uniq xs) = set xs"
  by (simp add: uniq_def)

lemma distinct_uniq [simp]: "distinct (uniq xs)"
  by (simp add: uniq_def)

lemma uniq_idem [simp]: "uniq (uniq xs) = uniq xs"
  by (metis distinct_uniq inf_bot_right list.set(1) uniq_def uniq_from_id)

lemma distinct_singleton: "distinct xs \<Longrightarrow> set xs = {x} \<Longrightarrow> xs = [x]"
proof (cases xs)
  case (Cons y ys)
  assume "distinct xs" "set xs = {x}"
  with Cons have "y = x" "set ys \<subseteq> {x}" "x \<notin> set ys" by auto
  then have "ys = []" by (cases ys) auto
  with Cons \<open>y = x\<close> show ?thesis by simp
qed simp

lemma find_append: "find P (xs @ ys) = (case find P xs of None \<Rightarrow> find P ys | Some x \<Rightarrow> Some x)"
  by (induction xs) auto

section \<open>Interfaces\<close>

subsection \<open>Transactions that keep an invariant\<close>

text \<open>
  A command either commits a new state or fails, and a failed transaction leaves the state as
  it was. \<open>run_all\<close> runs a list of commands that way.
\<close>

fun run_all :: "('c \<Rightarrow> 's \<Rightarrow> 'e + 's) \<Rightarrow> 'c list \<Rightarrow> 's \<Rightarrow> 's" where
  "run_all step [] s = s"
| "run_all step (c # cs) s =
     run_all step cs (case step c s of Inl _ \<Rightarrow> s | Inr t \<Rightarrow> t)"

locale transactional =
  fixes step :: "'c \<Rightarrow> 's \<Rightarrow> 'e + 's"
    and admissible :: "'c \<Rightarrow> bool"
    and inv :: "'s \<Rightarrow> bool"
  assumes step_inv: "inv s \<Longrightarrow> admissible c \<Longrightarrow> step c s = Inr t \<Longrightarrow> inv t"
begin

lemma run_inv: "inv s \<Longrightarrow> \<forall>c \<in> set cs. admissible c \<Longrightarrow> inv (run_all step cs s)"
  by (induction cs arbitrary: s) (auto split: sum.splits dest: step_inv)

end

subsection \<open>Rows updated under an optimistic version\<close>

text \<open>
  A command may carry the version its author read (\<open>expected_version\<close>, 0 for none). The
  provider promises that a command with another version is refused or is a replay that leaves
  the row as it is, that the version never decreases, and that a change of the row increments it.
\<close>

locale versioned_row = transactional step admissible inv
  for step :: "'c \<Rightarrow> 's \<Rightarrow> 'e + 's" and admissible :: "'c \<Rightarrow> bool" and inv :: "'s \<Rightarrow> bool" +
  fixes row :: "'s \<Rightarrow> 'r"
    and version :: "'s \<Rightarrow> nat"
    and expected :: "'c \<Rightarrow> nat"
  assumes stale_no_effect:
      "inv s \<Longrightarrow> admissible c \<Longrightarrow> expected c \<noteq> 0 \<Longrightarrow> expected c \<noteq> version s \<Longrightarrow>
       step c s = Inr t \<Longrightarrow> row t = row s"
    and change_bumps:
      "inv s \<Longrightarrow> admissible c \<Longrightarrow> step c s = Inr t \<Longrightarrow> row t \<noteq> row s \<Longrightarrow> version s < version t"
    and version_mono: "inv s \<Longrightarrow> admissible c \<Longrightarrow> step c s = Inr t \<Longrightarrow> version s \<le> version t"
begin

lemma run_version_mono:
  "inv s \<Longrightarrow> \<forall>c \<in> set cs. admissible c \<Longrightarrow> version s \<le> version (run_all step cs s)"
proof (induction cs arbitrary: s)
  case (Cons c cs)
  then show ?case
    by (auto split: sum.splits intro: order_trans [OF version_mono] dest: step_inv)
qed simp

text \<open>While the version stands still, so does the row.\<close>

lemma run_row_same:
  "inv s \<Longrightarrow> \<forall>c \<in> set cs. admissible c \<Longrightarrow> version (run_all step cs s) = version s \<Longrightarrow>
   row (run_all step cs s) = row s"
proof (induction cs arbitrary: s)
  case (Cons c cs)
  show ?case
  proof (cases "step c s")
    case (Inr t)
    have inv: "inv t" using Cons.prems Inr by (auto intro: step_inv)
    have "version s \<le> version t" using Cons.prems Inr by (auto intro: version_mono)
    moreover have "version t \<le> version (run_all step cs t)"
      using run_version_mono [OF inv] Cons.prems by simp
    ultimately have v: "version t = version s" using Cons.prems(3) Inr by simp
    then have "row t = row s" using change_bumps [OF Cons.prems(1) _ Inr] Cons.prems(2) by fastforce
    with Cons.IH [OF inv] Cons.prems v Inr show ?thesis by simp
  qed (use Cons in simp)
qed simp

text \<open>
  No lost update: once a command has changed the row, no command whose author had read the same
  version changes it any more, whatever happened in between.
\<close>

lemma no_lost_update:
  assumes "inv s" and "admissible c" and "step c s = Inr t" and "row t \<noteq> row s"
    and "\<forall>c \<in> set cs. admissible c" and "admissible d"
    and "expected d = version s" and "expected d \<noteq> 0"
    and "step d (run_all step cs t) = Inr u"
  shows "row u = row (run_all step cs t)"
proof -
  have inv: "inv t" using assms(1,2,3) by (rule step_inv)
  have "version s < version t" using assms by (intro change_bumps)
  also have "version t \<le> version (run_all step cs t)" by (rule run_version_mono [OF inv assms(5)])
  finally show ?thesis
    using assms by (intro stale_no_effect [OF _ _ _ _ assms(9)] run_inv inv) auto
qed

end

end
