(* ===== verification/ProjectStatus.thy ===== *)
theory ProjectStatus
  imports Prelude "HOL-Library.Multiset"
begin

text \<open>
  \<open>internal/domain/project_status.go\<close>: the status vocabulary, the report phase table, and the
  values derived from the service items of a project (status, report stage, progress, risk,
  unknown codes). The statuses are Chinese text in the code; they appear here as the same
  UTF-8 bytes, under the names the code gives the constants. The two item statuses that have no
  constant in \<open>project_status.go\<close> (awaiting confirmation, awaiting review) get one here.
\<close>

section \<open>Vocabulary\<close>

definition ProjectStatusPendingDecomposition :: string where
  "ProjectStatusPendingDecomposition =
    [CHR 0xE5, CHR 0xBE, CHR 0x85, CHR 0xE6, CHR 0x8B, CHR 0x86, CHR 0xE8, CHR 0xA7, CHR 0xA3,
     CHR 0xE7, CHR 0xA1, CHR 0xAE, CHR 0xE8, CHR 0xAE, CHR 0xA4]"

definition ProjectStatusPendingAllocation :: string where
  "ProjectStatusPendingAllocation =
    [CHR 0xE5, CHR 0xBE, CHR 0x85, CHR 0xE5, CHR 0x88, CHR 0x86, CHR 0xE9, CHR 0x85, CHR 0x8D]"

definition ProjectStatusPendingExecution :: string where
  "ProjectStatusPendingExecution =
    [CHR 0xE5, CHR 0xBE, CHR 0x85, CHR 0xE5, CHR 0xAE, CHR 0x9E, CHR 0xE6, CHR 0x96, CHR 0xBD]"

definition ProjectStatusPreparing :: string where
  "ProjectStatusPreparing =
    [CHR 0xE5, CHR 0xAE, CHR 0x9E, CHR 0xE6, CHR 0x96, CHR 0xBD, CHR 0xE5, CHR 0x87, CHR 0x86,
     CHR 0xE5, CHR 0xA4, CHR 0x87, CHR 0xE4, CHR 0xB8, CHR 0xAD]"

definition ProjectStatusInProgress :: string where
  "ProjectStatusInProgress =
    [CHR 0xE5, CHR 0xAE, CHR 0x9E, CHR 0xE6, CHR 0x96, CHR 0xBD, CHR 0xE4, CHR 0xB8, CHR 0xAD]"

definition ProjectStatusException :: string where
  "ProjectStatusException =
    [CHR 0xE5, CHR 0xBC, CHR 0x82, CHR 0xE5, CHR 0xB8, CHR 0xB8, CHR 0xE5, CHR 0xA4, CHR 0x84,
     CHR 0xE7, CHR 0x90, CHR 0x86, CHR 0xE4, CHR 0xB8, CHR 0xAD]"

definition ProjectStatusFieldCompleted :: string where
  "ProjectStatusFieldCompleted =
    [CHR 0xE7, CHR 0x8E, CHR 0xB0, CHR 0xE5, CHR 0x9C, CHR 0xBA, CHR 0xE5, CHR 0xAE, CHR 0x9E,
     CHR 0xE6, CHR 0x96, CHR 0xBD, CHR 0xE5, CHR 0xAE, CHR 0x8C, CHR 0xE6, CHR 0x88, CHR 0x90]"

definition ProjectStatusReporting :: string where
  "ProjectStatusReporting =
    [CHR 0xE6, CHR 0x8A, CHR 0xA5, CHR 0xE5, CHR 0x91, CHR 0x8A, CHR 0xE7, CHR 0xBC, CHR 0x96,
     CHR 0xE5, CHR 0x88, CHR 0xB6]"

definition ProjectStatusCompleted :: string where
  "ProjectStatusCompleted =
    [CHR 0xE5, CHR 0xB7, CHR 0xB2, CHR 0xE5, CHR 0xAE, CHR 0x8C, CHR 0xE6, CHR 0x88, CHR 0x90]"

definition ProjectStatusTerminated :: string where
  "ProjectStatusTerminated =
    [CHR 0xE5, CHR 0xB7, CHR 0xB2, CHR 0xE7, CHR 0xBB, CHR 0x88, CHR 0xE6, CHR 0xAD, CHR 0xA2]"

definition ProjectStatusSupplementRequired :: string where
  "ProjectStatusSupplementRequired =
    [CHR 0xE8, CHR 0xA1, CHR 0xA5, CHR 0xE5, CHR 0x85, CHR 0x85, CHR 0xE5, CHR 0x8D, CHR 0x8F,
     CHR 0xE8, CHR 0xAE, CHR 0xAE, CHR 0xE5, CHR 0xA4, CHR 0x84, CHR 0xE7, CHR 0x90, CHR 0x86,
     CHR 0xE4, CHR 0xB8, CHR 0xAD]"

definition ServiceItemStatusPendingConfirm :: string where
  "ServiceItemStatusPendingConfirm =
    [CHR 0xE5, CHR 0xBE, CHR 0x85, CHR 0xE7, CHR 0xA1, CHR 0xAE, CHR 0xE8, CHR 0xAE, CHR 0xA4]"

definition ServiceItemStatusPendingReview :: string where
  "ServiceItemStatusPendingReview =
    [CHR 0xE5, CHR 0xBE, CHR 0x85, CHR 0xE5, CHR 0xA4, CHR 0x8D, CHR 0xE6, CHR 0xA0, CHR 0xB8]"

lemmas status_defs =
  ProjectStatusPendingDecomposition_def
  ProjectStatusPendingAllocation_def
  ProjectStatusPendingExecution_def
  ProjectStatusPreparing_def
  ProjectStatusInProgress_def
  ProjectStatusException_def
  ProjectStatusFieldCompleted_def
  ProjectStatusReporting_def
  ProjectStatusCompleted_def
  ProjectStatusTerminated_def
  ProjectStatusSupplementRequired_def
  ServiceItemStatusPendingConfirm_def
  ServiceItemStatusPendingReview_def

definition all_statuses :: "string list" where
  "all_statuses =
     [ProjectStatusPendingDecomposition,
      ProjectStatusPendingAllocation,
      ProjectStatusPendingExecution,
      ProjectStatusPreparing,
      ProjectStatusInProgress,
      ProjectStatusException,
      ProjectStatusFieldCompleted,
      ProjectStatusReporting,
      ProjectStatusCompleted,
      ProjectStatusTerminated,
      ProjectStatusSupplementRequired,
      ServiceItemStatusPendingConfirm,
      ServiceItemStatusPendingReview]"

lemma distinct_all_statuses: "distinct all_statuses"
  by (simp add: all_statuses_def status_defs)

lemma distinct_rev_statuses: "distinct (rev all_statuses)"
  by (simp add: distinct_all_statuses)

text \<open>The constants stay folded in the proofs: what is used of them is that they differ.\<close>

lemmas status_neq [simp] =
  distinct_all_statuses [unfolded all_statuses_def, simplified]
  distinct_rev_statuses [unfolded all_statuses_def rev.simps append.simps, simplified]

lemma status_nonempty [simp]:
  "ProjectStatusPendingDecomposition \<noteq> []"
  "ProjectStatusPendingAllocation \<noteq> []"
  "ProjectStatusPendingExecution \<noteq> []"
  "ProjectStatusPreparing \<noteq> []"
  "ProjectStatusInProgress \<noteq> []"
  "ProjectStatusException \<noteq> []"
  "ProjectStatusFieldCompleted \<noteq> []"
  "ProjectStatusReporting \<noteq> []"
  "ProjectStatusCompleted \<noteq> []"
  "ProjectStatusTerminated \<noteq> []"
  "ProjectStatusSupplementRequired \<noteq> []"
  "ServiceItemStatusPendingConfirm \<noteq> []"
  "ServiceItemStatusPendingReview \<noteq> []"
  by (simp_all add: status_defs)

lemma trim_status [simp]:
  "trim_space ProjectStatusPendingDecomposition = ProjectStatusPendingDecomposition"
  "trim_space ProjectStatusPendingAllocation = ProjectStatusPendingAllocation"
  "trim_space ProjectStatusPendingExecution = ProjectStatusPendingExecution"
  "trim_space ProjectStatusPreparing = ProjectStatusPreparing"
  "trim_space ProjectStatusInProgress = ProjectStatusInProgress"
  "trim_space ProjectStatusException = ProjectStatusException"
  "trim_space ProjectStatusFieldCompleted = ProjectStatusFieldCompleted"
  "trim_space ProjectStatusReporting = ProjectStatusReporting"
  "trim_space ProjectStatusCompleted = ProjectStatusCompleted"
  "trim_space ProjectStatusTerminated = ProjectStatusTerminated"
  "trim_space ProjectStatusSupplementRequired = ProjectStatusSupplementRequired"
  "trim_space ServiceItemStatusPendingConfirm = ServiceItemStatusPendingConfirm"
  "trim_space ServiceItemStatusPendingReview = ServiceItemStatusPendingReview"
  by code_simp+

definition projectStatusNodes :: "string list" where
  "projectStatusNodes =
     [ProjectStatusPendingDecomposition, ProjectStatusPendingAllocation,
      ProjectStatusPendingExecution, ProjectStatusPreparing, ProjectStatusInProgress,
      ProjectStatusException, ProjectStatusFieldCompleted, ProjectStatusReporting,
      ProjectStatusCompleted]"

section \<open>The report phase table\<close>

record report_phase_stage =
  rps_code :: string
  rps_phase :: nat
  rps_rank :: nat

definition reportPhaseStages :: "report_phase_stage list" where
  "reportPhaseStages =
     [\<lparr>rps_code = ''NONE'', rps_phase = 0, rps_rank = 6\<rparr>,
      \<lparr>rps_code = ''RECTIFYING'', rps_phase = 1, rps_rank = 7\<rparr>,
      \<lparr>rps_code = ''COMPILING'', rps_phase = 2, rps_rank = 7\<rparr>,
      \<lparr>rps_code = ''REVIEWED'', rps_phase = 3, rps_rank = 7\<rparr>,
      \<lparr>rps_code = ''ISSUED'', rps_phase = 4, rps_rank = 7\<rparr>,
      \<lparr>rps_code = ''ARCHIVED'', rps_phase = 5, rps_rank = 8\<rparr>]"

text \<open>The three maps \<open>init\<close> fills from the table, in the order of the loop.\<close>

definition reportPhaseByCode :: "string \<rightharpoonup> report_phase_stage" where
  "reportPhaseByCode = fold (\<lambda>s m. m(rps_code s \<mapsto> s)) reportPhaseStages Map.empty"

definition reportPhaseCodeByPhase :: "nat \<rightharpoonup> string" where
  "reportPhaseCodeByPhase = fold (\<lambda>s m. m(rps_phase s \<mapsto> rps_code s)) reportPhaseStages Map.empty"

definition reportLifecycleRank :: "string \<rightharpoonup> nat" where
  "reportLifecycleRank = fold (\<lambda>s m. m(rps_code s \<mapsto> rps_rank s)) reportPhaseStages Map.empty"

definition normalizeReportPhase :: "string \<Rightarrow> string" where
  "normalizeReportPhase code = to_upper (trim_space code)"

definition ReportPhaseRank :: "string \<Rightarrow> int" where
  "ReportPhaseRank code =
     (case reportPhaseByCode (normalizeReportPhase code) of
        Some s \<Rightarrow> int (rps_phase s) | None \<Rightarrow> -1)"

definition IsReportPhase :: "string \<Rightarrow> bool" where
  "IsReportPhase code \<longleftrightarrow> reportPhaseByCode (normalizeReportPhase code) \<noteq> None"

text \<open>A missing key of a Go map reads as the zero value, here the empty string.\<close>

definition ReportPhaseCode :: "int \<Rightarrow> string" where
  "ReportPhaseCode phase =
     (if phase < 0 then [] else case reportPhaseCodeByPhase (nat phase) of Some c \<Rightarrow> c | None \<Rightarrow> [])"

definition ReportPhaseSLACodes :: "string list" where
  "ReportPhaseSLACodes = map rps_code (filter (\<lambda>s. rps_phase s \<noteq> 0) reportPhaseStages)"

section \<open>Lifecycle ranks of service items\<close>

record status_stage =
  stg_rank :: nat
  stg_statuses :: "string list"

definition serviceItemStatusStages :: "status_stage list" where
  "serviceItemStatusStages =
     [\<lparr>stg_rank = 0, stg_statuses = [ServiceItemStatusPendingConfirm, ServiceItemStatusPendingReview]\<rparr>,
      \<lparr>stg_rank = 1, stg_statuses = [ProjectStatusPendingAllocation]\<rparr>,
      \<lparr>stg_rank = 2, stg_statuses = [ProjectStatusPendingExecution]\<rparr>,
      \<lparr>stg_rank = 3, stg_statuses = [ProjectStatusPreparing]\<rparr>,
      \<lparr>stg_rank = 4, stg_statuses = [ProjectStatusInProgress]\<rparr>,
      \<lparr>stg_rank = 5, stg_statuses = [ProjectStatusException]\<rparr>,
      \<lparr>stg_rank = 6, stg_statuses = [ProjectStatusFieldCompleted]\<rparr>]"

definition serviceItemStatusRank :: "string \<rightharpoonup> nat" where
  "serviceItemStatusRank =
     fold (\<lambda>stage m. fold (\<lambda>st m. m(st \<mapsto> stg_rank stage)) (stg_statuses stage) m)
       serviceItemStatusStages Map.empty"

record status_item =
  si_status :: string
  si_report :: string

definition serviceItemLifecycleRank :: "status_item \<Rightarrow> nat" where
  "serviceItemLifecycleRank item =
     (let status = trim_space (si_status item)
      in if status = ProjectStatusFieldCompleted
         then (case reportLifecycleRank (normalizeReportPhase (si_report item)) of
                 Some rank \<Rightarrow> (if 6 < rank then rank else 6) | None \<Rightarrow> 6)
         else (case serviceItemStatusRank status of Some rank \<Rightarrow> rank | None \<Rightarrow> 0))"

definition item_terminated :: "status_item \<Rightarrow> bool" where
  "item_terminated item \<longleftrightarrow> trim_space (si_status item) = ProjectStatusTerminated"

text \<open>The exported report stages, one group per lifecycle rank, derived from the phase table.\<close>

definition ServiceItemReportStages :: "status_stage list" where
  "ServiceItemReportStages =
     filter (\<lambda>g. stg_statuses g \<noteq> [])
       (map (\<lambda>rank. \<lparr>stg_rank = rank,
                     stg_statuses = map rps_code (filter (\<lambda>s. rps_rank s = rank) reportPhaseStages)\<rparr>)
          [7, 8])"

section \<open>Derived values of a project\<close>

fun unknown_scan :: "string list \<Rightarrow> status_item list \<Rightarrow> string list" where
  "unknown_scan seen [] = []"
| "unknown_scan seen (item # items) =
     (let status = trim_space (si_status item)
      in if status = ProjectStatusTerminated then unknown_scan seen items
         else if serviceItemStatusRank status \<noteq> None then unknown_scan seen items
         else if List.member seen status then unknown_scan seen items
         else status # unknown_scan (status # seen) items)"

definition UnknownServiceItemStatuses :: "status_item list \<Rightarrow> string list" where
  "UnknownServiceItemStatuses items = unknown_scan [] items"

definition IsRiskProjectStatus :: "string \<Rightarrow> bool" where
  "IsRiskProjectStatus status \<longleftrightarrow> status \<in> {ProjectStatusException, ProjectStatusTerminated}"

definition IsRiskProject :: "string \<Rightarrow> status_item list \<Rightarrow> bool" where
  "IsRiskProject status items \<longleftrightarrow> IsRiskProjectStatus status \<or> list_ex item_terminated items"

text \<open>The loop of \<open>DeriveProjectStatus\<close>: the lowest rank so far and the terminated items.\<close>

fun derive_scan :: "nat \<Rightarrow> nat \<Rightarrow> status_item list \<Rightarrow> nat \<times> nat" where
  "derive_scan lowest terminated [] = (lowest, terminated)"
| "derive_scan lowest terminated (item # items) =
     (if item_terminated item then derive_scan lowest (Suc terminated) items
      else let rank = serviceItemLifecycleRank item
           in derive_scan (if rank < lowest then rank else lowest) terminated items)"

definition DeriveProjectStatus :: "status_item list \<Rightarrow> string \<Rightarrow> string \<Rightarrow> string" where
  "DeriveProjectStatus items supplementStatus storedStatus =
     (if equal_fold (trim_space supplementStatus) ''REQUIRED'' then ProjectStatusSupplementRequired
      else if items = []
      then (let stored = trim_space storedStatus
            in if stored \<noteq> [] then stored else ProjectStatusPendingDecomposition)
      else let (lowest, terminated) = derive_scan (length projectStatusNodes - 1) 0 items
           in if terminated = length items then ProjectStatusTerminated
              else projectStatusNodes ! lowest)"

text \<open>
  The loop of \<open>DeriveProjectReportStage\<close>. \<open>None\<close> is the early \<open>return ""\<close>; otherwise the
  lowest phase (\<open>-1\<close> before the first item) and the number of active items.
\<close>

fun stage_scan :: "int \<Rightarrow> nat \<Rightarrow> status_item list \<Rightarrow> (int \<times> nat) option" where
  "stage_scan lowest active [] = Some (lowest, active)"
| "stage_scan lowest active (item # items) =
     (if item_terminated item then stage_scan lowest active items
      else if serviceItemLifecycleRank item < 6 then None
      else let code0 = normalizeReportPhase (si_report item);
               code = (if code0 = [] then ''NONE'' else code0)
           in if \<not> IsReportPhase code then None
              else let phase = ReportPhaseRank code
                   in stage_scan (if lowest < 0 \<or> phase < lowest then phase else lowest)
                        (Suc active) items)"

definition DeriveProjectReportStage :: "status_item list \<Rightarrow> string" where
  "DeriveProjectReportStage items =
     (case stage_scan (-1) 0 items of
        None \<Rightarrow> []
      | Some (lowest, active) \<Rightarrow> (if active = 0 then [] else ReportPhaseCode lowest))"

fun report_scan :: "string list \<Rightarrow> status_item list \<Rightarrow> string list" where
  "report_scan seen [] = []"
| "report_scan seen (item # items) =
     (if item_terminated item then report_scan seen items
      else let code = normalizeReportPhase (si_report item)
           in if code = [] \<or> IsReportPhase code then report_scan seen items
              else if List.member seen code then report_scan seen items
              else code # report_scan (code # seen) items)"

definition UnknownReportPhases :: "status_item list \<Rightarrow> string list" where
  "UnknownReportPhases items = report_scan [] items"

fun progress_scan :: "nat \<Rightarrow> nat \<Rightarrow> status_item list \<Rightarrow> nat \<times> nat" where
  "progress_scan ranks counted [] = (ranks, counted)"
| "progress_scan ranks counted (item # items) =
     (if item_terminated item then progress_scan ranks counted items
      else progress_scan (ranks + serviceItemLifecycleRank item) (Suc counted) items)"

definition DeriveProjectProgress :: "status_item list \<Rightarrow> nat" where
  "DeriveProjectProgress items =
     (if items = [] then 0
      else let maxRank = length projectStatusNodes - 1;
               (ranks, counted) = progress_scan 0 0 items
           in if counted = 0 then 0 else ranks * 100 div (maxRank * counted))"

section \<open>Evaluation of the tables\<close>

lemma upper_codes [simp]:
  "to_upper ''NONE'' = ''NONE''" "to_upper ''RECTIFYING'' = ''RECTIFYING''"
  "to_upper ''COMPILING'' = ''COMPILING''" "to_upper ''REVIEWED'' = ''REVIEWED''"
  "to_upper ''ISSUED'' = ''ISSUED''" "to_upper ''ARCHIVED'' = ''ARCHIVED''"
  "to_upper [] = []"
  by code_simp+

lemma trim_codes [simp]:
  "trim_space ''NONE'' = ''NONE''" "trim_space ''RECTIFYING'' = ''RECTIFYING''"
  "trim_space ''COMPILING'' = ''COMPILING''" "trim_space ''REVIEWED'' = ''REVIEWED''"
  "trim_space ''ISSUED'' = ''ISSUED''" "trim_space ''ARCHIVED'' = ''ARCHIVED''"
  by code_simp+

definition report_codes :: "string list" where
  "report_codes = [''NONE'', ''RECTIFYING'', ''COMPILING'', ''REVIEWED'', ''ISSUED'', ''ARCHIVED'']"

lemma reportPhaseByCode_eq:
  "reportPhaseByCode c =
     (if c = ''NONE'' then Some (reportPhaseStages ! 0)
      else if c = ''RECTIFYING'' then Some (reportPhaseStages ! 1)
      else if c = ''COMPILING'' then Some (reportPhaseStages ! 2)
      else if c = ''REVIEWED'' then Some (reportPhaseStages ! 3)
      else if c = ''ISSUED'' then Some (reportPhaseStages ! 4)
      else if c = ''ARCHIVED'' then Some (reportPhaseStages ! 5) else None)"
  by (simp add: reportPhaseByCode_def reportPhaseStages_def)

lemma reportLifecycleRank_eq:
  "reportLifecycleRank c =
     (if c = ''NONE'' then Some 6
      else if c \<in> {''RECTIFYING'', ''COMPILING'', ''REVIEWED'', ''ISSUED''} then Some 7
      else if c = ''ARCHIVED'' then Some 8 else None)"
  by (simp add: reportLifecycleRank_def reportPhaseStages_def)

lemma reportPhaseCodeByPhase_eq:
  "reportPhaseCodeByPhase n = (if n < 6 then Some (report_codes ! n) else None)"
proof -
  have "n < 6 \<longleftrightarrow> n \<in> {0, 1, 2, 3, 4, 5}" by auto
  then show ?thesis
    by (auto simp: reportPhaseCodeByPhase_def reportPhaseStages_def report_codes_def)
qed

lemma normalizeReportPhase_idem [simp]:
  "normalizeReportPhase ''NONE'' = ''NONE''" "normalizeReportPhase [] = []"
  by (simp_all add: normalizeReportPhase_def)

lemma ReportPhaseRank_codes [simp]:
  "ReportPhaseRank ''NONE'' = 0" "ReportPhaseRank ''RECTIFYING'' = 1"
  "ReportPhaseRank ''COMPILING'' = 2" "ReportPhaseRank ''REVIEWED'' = 3"
  "ReportPhaseRank ''ISSUED'' = 4" "ReportPhaseRank ''ARCHIVED'' = 5" "ReportPhaseRank [] = -1"
  by (simp_all add: ReportPhaseRank_def normalizeReportPhase_def reportPhaseByCode_eq
      reportPhaseStages_def)

lemma serviceItemStatusRank_eq:
  "serviceItemStatusRank st =
     (if st = ServiceItemStatusPendingConfirm \<or> st = ServiceItemStatusPendingReview then Some 0
      else if st = ProjectStatusPendingAllocation then Some 1
      else if st = ProjectStatusPendingExecution then Some 2
      else if st = ProjectStatusPreparing then Some 3
      else if st = ProjectStatusInProgress then Some 4
      else if st = ProjectStatusException then Some 5
      else if st = ProjectStatusFieldCompleted then Some 6 else None)"
  by (simp add: serviceItemStatusRank_def serviceItemStatusStages_def)

section \<open>What the derivations compute\<close>

definition active_items :: "status_item list \<Rightarrow> status_item list" where
  "active_items items = filter (\<lambda>i. \<not> item_terminated i) items"

definition archived_item :: "status_item \<Rightarrow> bool" where
  "archived_item i \<longleftrightarrow> trim_space (si_status i) = ProjectStatusFieldCompleted \<and>
     normalizeReportPhase (si_report i) = ''ARCHIVED''"

text \<open>The report code an item counts with: a missing one counts as \<open>NONE\<close>.\<close>

definition effective_report :: "status_item \<Rightarrow> string" where
  "effective_report i =
     (let c = normalizeReportPhase (si_report i) in if c = [] then ''NONE'' else c)"

lemma active_items_simps [simp]:
  "active_items [] = []"
  "active_items (i # is) = (if item_terminated i then active_items is else i # active_items is)"
  by (simp_all add: active_items_def)

lemma set_active_items: "set (active_items items) = {i \<in> set items. \<not> item_terminated i}"
  by (simp add: active_items_def)

lemma rank_cases:
  "serviceItemLifecycleRank i \<le> 8"
  "serviceItemLifecycleRank i = 8 \<longleftrightarrow> archived_item i"
  "6 \<le> serviceItemLifecycleRank i \<longleftrightarrow> trim_space (si_status i) = ProjectStatusFieldCompleted"
  by (auto simp: serviceItemLifecycleRank_def Let_def serviceItemStatusRank_eq
      reportLifecycleRank_eq archived_item_def)

lemma nodes_length [simp]: "length projectStatusNodes = 9"
  by (simp add: projectStatusNodes_def)

lemma distinct_nodes: "distinct projectStatusNodes"
  by (simp add: projectStatusNodes_def)

lemma branch_not_node:
  "n < 9 \<Longrightarrow> projectStatusNodes ! n \<noteq> ProjectStatusTerminated"
  "n < 9 \<Longrightarrow> projectStatusNodes ! n \<noteq> ProjectStatusSupplementRequired"
proof -
  have "ProjectStatusTerminated \<notin> set projectStatusNodes"
    "ProjectStatusSupplementRequired \<notin> set projectStatusNodes"
    by (simp_all add: projectStatusNodes_def)
  then show "n < 9 \<Longrightarrow> projectStatusNodes ! n \<noteq> ProjectStatusTerminated"
    "n < 9 \<Longrightarrow> projectStatusNodes ! n \<noteq> ProjectStatusSupplementRequired"
    by (metis nodes_length nth_mem)+
qed

lemma node_eq_iff:
  "m < 9 \<Longrightarrow> n < 9 \<Longrightarrow> projectStatusNodes ! m = projectStatusNodes ! n \<longleftrightarrow> m = n"
  using distinct_nodes by (simp add: nth_eq_iff_index_eq)

lemma node_0_8 [simp]:
  "projectStatusNodes ! 0 = ProjectStatusPendingDecomposition"
  "projectStatusNodes ! 8 = ProjectStatusCompleted"
  by (simp_all add: projectStatusNodes_def)

lemma derive_scan_eq:
  "derive_scan lowest t items =
     (fold min (map serviceItemLifecycleRank (active_items items)) lowest,
      t + (length items - length (active_items items)))"
proof (induction lowest t items rule: derive_scan.induct)
  case (2 lowest t item items)
  have le: "length (active_items items) \<le> length items"
    by (simp add: active_items_def)
  show ?case
  proof (cases "item_terminated item")
    case True
    with 2(1) le show ?thesis by (simp add: Suc_diff_le)
  next
    case False
    have "(if serviceItemLifecycleRank item < lowest then serviceItemLifecycleRank item else lowest)
        = min (serviceItemLifecycleRank item) lowest" by auto
    with False 2(2) show ?thesis by (simp add: Let_def)
  qed
qed simp

lemma active_shorter:
  "length items - length (active_items items) = length items \<longleftrightarrow> active_items items = []"
proof -
  have "length (active_items items) \<le> length items" by (simp add: active_items_def)
  then have "length items - length (active_items items) = length items
      \<longleftrightarrow> length (active_items items) = 0" by arith
  then show ?thesis by simp
qed

lemma fold_min_rank: "active_items items \<noteq> [] \<Longrightarrow>
   fold min (map serviceItemLifecycleRank (active_items items)) 8
     = Min (serviceItemLifecycleRank ` set (active_items items))"
proof -
  assume "active_items items \<noteq> []"
  then have "Min (serviceItemLifecycleRank ` set (active_items items))
      \<in> serviceItemLifecycleRank ` set (active_items items)"
    by (intro Min_in) auto
  then have "Min (serviceItemLifecycleRank ` set (active_items items)) \<le> 8"
    using rank_cases(1) by auto
  with \<open>active_items items \<noteq> []\<close> show ?thesis
    by (simp add: Min.set_eq_fold [symmetric] Min_insert)
qed

lemma project_status_lagging:
  "DeriveProjectStatus items supplement stored =
     (if equal_fold (trim_space supplement) ''REQUIRED'' then ProjectStatusSupplementRequired
      else if items = [] then
        (if blank stored then ProjectStatusPendingDecomposition else trim_space stored)
      else if active_items items = [] then ProjectStatusTerminated
      else projectStatusNodes ! Min (serviceItemLifecycleRank ` set (active_items items)))"
  using active_shorter [of items] fold_min_rank [of items]
  by (simp add: DeriveProjectStatus_def derive_scan_eq Let_def)

text \<open>
  C27. The project status is that of its most lagging service item: unless a supplement
  agreement is required, the project has no items or all of them are terminated, it is the
  lifecycle node whose index is the least rank of the items that are not terminated.
\<close>

theorem project_status_is_most_lagging:
  "DeriveProjectStatus items supplement stored =
     (if equal_fold (trim_space supplement) ''REQUIRED'' then ProjectStatusSupplementRequired
      else if items = [] then
        (if blank stored then ProjectStatusPendingDecomposition else trim_space stored)
      else if active_items items = [] then ProjectStatusTerminated
      else projectStatusNodes ! Min (serviceItemLifecycleRank ` set (active_items items)))"
  by (rule project_status_lagging)

lemma active_nonempty: "active_items items \<noteq> [] \<Longrightarrow> items \<noteq> []"
  by auto

text \<open>The rank of the derived node, for the comparisons below.\<close>

lemma min_rank_bound: "active_items items \<noteq> [] \<Longrightarrow>
   Min (serviceItemLifecycleRank ` set (active_items items)) < 9"
proof -
  assume "active_items items \<noteq> []"
  then have "Min (serviceItemLifecycleRank ` set (active_items items))
      \<in> serviceItemLifecycleRank ` set (active_items items)"
    by (intro Min_in) auto
  then obtain i where "Min (serviceItemLifecycleRank ` set (active_items items))
      = serviceItemLifecycleRank i" by blast
  then show ?thesis using rank_cases(1) [of i] by simp
qed

lemma status_eq_node_iff:
  assumes "active_items items \<noteq> []" and "\<not> equal_fold (trim_space supplement) ''REQUIRED''"
    and "n < 9"
  shows "DeriveProjectStatus items supplement stored = projectStatusNodes ! n \<longleftrightarrow>
    Min (serviceItemLifecycleRank ` set (active_items items)) = n"
  using assms active_nonempty [OF assms(1)] min_rank_bound [OF assms(1)]
  by (simp add: project_status_lagging node_eq_iff)

lemma progress_scan_eq:
  "progress_scan ranks counted items =
     (ranks + sum_list (map serviceItemLifecycleRank (active_items items)),
      counted + length (active_items items))"
  by (induction ranks counted items rule: progress_scan.induct) auto

lemma DeriveProjectProgress_eq:
  "DeriveProjectProgress items =
     (if active_items items = [] then 0
      else sum_list (map serviceItemLifecycleRank (active_items items)) * 100
             div (8 * length (active_items items)))"
  by (auto simp: DeriveProjectProgress_def progress_scan_eq Let_def)

lemma sum_rank_le: "sum_list (map serviceItemLifecycleRank xs) \<le> 8 * length xs"
proof (induction xs)
  case (Cons i xs)
  then show ?case using rank_cases(1) [of i] by simp
qed simp

lemma sum_rank_eq:
  "sum_list (map serviceItemLifecycleRank xs) = 8 * length xs \<longleftrightarrow> list_all archived_item xs"
proof (induction xs)
  case (Cons i xs)
  show ?case
    using Cons.IH sum_rank_le [of xs] rank_cases(1) [of i] rank_cases(2) [of i] by auto
qed simp

lemma percent_bounds:
  assumes "0 < n" and "(t::nat) \<le> n"
  shows "t * 100 div n \<le> 100" and "t * 100 div n = 100 \<longleftrightarrow> t = n"
proof -
  have "t * 100 div n \<le> n * 100 div n" using assms(2) by (intro div_le_mono) simp
  then show le: "t * 100 div n \<le> 100" using assms(1) by simp
  show "t * 100 div n = 100 \<longleftrightarrow> t = n"
  proof
    assume "t * 100 div n = 100"
    then have "100 * n \<le> t * 100" by (metis div_times_less_eq_dividend)
    then show "t = n" using assms(2) by simp
  qed (use assms(1) in simp)
qed

lemma progress_le_100: "DeriveProjectProgress items \<le> 100"
  using percent_bounds(1) [OF _ sum_rank_le [of "active_items items"]]
  by (simp add: DeriveProjectProgress_eq)

lemma progress_100_iff:
  "DeriveProjectProgress items = 100 \<longleftrightarrow>
     active_items items \<noteq> [] \<and> list_all archived_item (active_items items)"
  using percent_bounds(2) [OF _ sum_rank_le [of "active_items items"]] sum_rank_eq [of "active_items items"]
  by (simp add: DeriveProjectProgress_eq)

lemma Min_eq_8_iff: "xs \<noteq> [] \<Longrightarrow>
   Min (serviceItemLifecycleRank ` set xs) = 8 \<longleftrightarrow> list_all archived_item xs"
proof -
  assume ne: "xs \<noteq> []"
  have "Min (serviceItemLifecycleRank ` set xs) = 8
      \<longleftrightarrow> (\<forall>i\<in>set xs. serviceItemLifecycleRank i = 8)"
  proof
    assume m: "Min (serviceItemLifecycleRank ` set xs) = 8"
    show "\<forall>i\<in>set xs. serviceItemLifecycleRank i = 8"
    proof
      fix i assume "i \<in> set xs"
      then have "8 \<le> serviceItemLifecycleRank i" using m by (metis Min_le finite_imageI finite_set imageI)
      then show "serviceItemLifecycleRank i = 8" using rank_cases(1) [of i] by simp
    qed
  next
    assume "\<forall>i\<in>set xs. serviceItemLifecycleRank i = 8"
    then have "serviceItemLifecycleRank ` set xs = {8}" using ne by (cases xs) auto
    then show "Min (serviceItemLifecycleRank ` set xs) = 8" by simp
  qed
  then show ?thesis using rank_cases(2) by (simp add: list_all_iff)
qed

text \<open>
  C28. A project that has left the supplement branch is completed exactly when its progress is
  100, which is when it has an item that is not terminated and every such item is at field
  completion with an archived report; progress never exceeds 100.
\<close>

theorem completed_iff_progress_100:
  assumes "\<not> equal_fold (trim_space supplement) ''REQUIRED''" and "items \<noteq> []"
  shows "(DeriveProjectStatus items supplement stored = ProjectStatusCompleted \<longleftrightarrow>
          DeriveProjectProgress items = 100) \<and>
         (DeriveProjectProgress items = 100 \<longleftrightarrow>
          active_items items \<noteq> [] \<and> list_all archived_item (active_items items)) \<and>
         DeriveProjectProgress items \<le> 100"
proof (cases "active_items items = []")
  case True
  then show ?thesis
    using assms by (simp add: project_status_lagging DeriveProjectProgress_eq)
next
  case False
  have "DeriveProjectStatus items supplement stored = projectStatusNodes ! 8 \<longleftrightarrow>
      list_all archived_item (active_items items)"
    using status_eq_node_iff [OF False assms(1), of 8] Min_eq_8_iff [OF False] by simp
  then show ?thesis using False progress_100_iff progress_le_100 by simp
qed

theorem completed_iff_progress_100_witness:
  "DeriveProjectStatus
     [\<lparr>si_status = ProjectStatusFieldCompleted, si_report = ''ARCHIVED''\<rparr>,
      \<lparr>si_status = ProjectStatusTerminated, si_report = []\<rparr>] ''NONE'' [] = ProjectStatusCompleted"
proof -
  let ?items = "[\<lparr>si_status = ProjectStatusFieldCompleted, si_report = ''ARCHIVED''\<rparr>,
      \<lparr>si_status = ProjectStatusTerminated, si_report = []\<rparr>]"
  have "\<not> equal_fold (trim_space ''NONE'') ''REQUIRED''" by code_simp
  from completed_iff_progress_100 [OF this, of ?items "[]"] show ?thesis
    by (simp add: archived_item_def item_terminated_def normalizeReportPhase_def)
qed

section \<open>The report stage\<close>

lemma IsReportPhase_iff: "IsReportPhase c \<longleftrightarrow> normalizeReportPhase c \<in> set report_codes"
  by (simp add: IsReportPhase_def reportPhaseByCode_eq report_codes_def)

lemma normalizeReportPhase_twice [simp]:
  "normalizeReportPhase (normalizeReportPhase c) = normalizeReportPhase c"
  by (simp add: normalizeReportPhase_def trim_space_to_upper)

lemma report_code_normal: "c \<in> set report_codes \<Longrightarrow> normalizeReportPhase c = c"
  by (auto simp: report_codes_def normalizeReportPhase_def)

text \<open>A code the table knows, as its position in the chain.\<close>

lemma ReportPhaseRank_known:
  "normalizeReportPhase c \<in> set report_codes \<Longrightarrow>
     0 \<le> ReportPhaseRank c \<and> ReportPhaseRank c \<le> 5 \<and>
     report_codes ! nat (ReportPhaseRank c) = normalizeReportPhase c"
  by (auto simp: ReportPhaseRank_def reportPhaseByCode_eq reportPhaseStages_def report_codes_def)

definition report_evaluable :: "status_item list \<Rightarrow> bool" where
  "report_evaluable items \<longleftrightarrow> active_items items \<noteq> [] \<and>
     list_all (\<lambda>i. 6 \<le> serviceItemLifecycleRank i \<and> effective_report i \<in> set report_codes)
       (active_items items)"

lemma effective_report_normal [simp]: "normalizeReportPhase (effective_report i) = effective_report i"
  by (simp add: effective_report_def Let_def)

lemma stage_scan_eq:
  "stage_scan lowest active items =
     (if list_all (\<lambda>i. 6 \<le> serviceItemLifecycleRank i \<and> effective_report i \<in> set report_codes)
           (active_items items)
      then Some (fold (\<lambda>p l. if l < 0 \<or> p < l then p else l)
                   (map (\<lambda>i. ReportPhaseRank (effective_report i)) (active_items items)) lowest,
                 active + length (active_items items))
      else None)"
proof (induction lowest active items rule: stage_scan.induct)
  case (2 lowest active item items)
  then show ?case
    by (auto simp: Let_def effective_report_def IsReportPhase_iff not_less)
qed simp

lemma fold_lowest_phase:
  assumes "\<And>p. p \<in> set ps \<Longrightarrow> (0::int) \<le> p"
  shows "(0 \<le> l \<longrightarrow> fold (\<lambda>p l. if l < 0 \<or> p < l then p else l) ps l = Min (set (l # ps))) \<and>
         (l < 0 \<longrightarrow> ps \<noteq> [] \<longrightarrow> fold (\<lambda>p l. if l < 0 \<or> p < l then p else l) ps l = Min (set ps))"
  using assms
proof (induction ps arbitrary: l)
  case (Cons p ps)
  then have "0 \<le> p" by simp
  with Cons show ?case
    by (cases "ps = []") (auto simp: Min_insert2 min_def not_less)
qed simp

lemma report_stage_formula:
  "DeriveProjectReportStage items =
     (if report_evaluable items
      then report_codes ! nat (Min ((\<lambda>i. ReportPhaseRank (effective_report i)) ` set (active_items items)))
      else [])"
proof (cases "report_evaluable items")
  case True
  let ?ps = "map (\<lambda>i. ReportPhaseRank (effective_report i)) (active_items items)"
  have known: "\<And>p. p \<in> set ?ps \<Longrightarrow> 0 \<le> p \<and> p \<le> 5"
    using True ReportPhaseRank_known by (auto simp: report_evaluable_def list_all_iff)
  have ne: "?ps \<noteq> []" using True by (simp add: report_evaluable_def)
  define m where "m = Min ((\<lambda>i. ReportPhaseRank (effective_report i)) ` set (active_items items))"
  have "Min (set ?ps) \<in> set ?ps" using ne by (intro Min_in) auto
  then have "0 \<le> Min (set ?ps) \<and> Min (set ?ps) \<le> 5" by (rule known)
  then have m: "0 \<le> m" "nat m < 6" unfolding m_def set_map by linarith+
  have "fold (\<lambda>p l. if l < 0 \<or> p < l then p else l) ?ps (-1) = m"
    using fold_lowest_phase [of ?ps "-1"] known ne by (simp add: m_def)
  with m True show ?thesis
    unfolding m_def [symmetric]
    by (simp add: DeriveProjectReportStage_def stage_scan_eq report_evaluable_def
        ReportPhaseCode_def reportPhaseCodeByPhase_eq)
next
  case False
  then show ?thesis
    by (auto simp: DeriveProjectReportStage_def stage_scan_eq report_evaluable_def)
qed

text \<open>
  The report stage of a project is the least advanced report code of its active items when
  it has one, all of them are at field completion and all their codes are known (a missing code
  counting as \<open>NONE\<close>); in every other case it is empty, so an unknown code is never taken for
  a stage.
\<close>

theorem report_stage_is_least_advanced:
  "DeriveProjectReportStage items =
     (if report_evaluable items
      then report_codes ! nat (Min ((\<lambda>i. ReportPhaseRank (effective_report i)) ` set (active_items items)))
      else [])"
  by (rule report_stage_formula)

section \<open>Monotonicity, order of items, unknown codes\<close>

text \<open>\<open>b\<close> is \<open>a\<close> some steps further: the same items, none of them at an earlier stage.\<close>

definition advanced :: "status_item list \<Rightarrow> status_item list \<Rightarrow> bool" where
  "advanced = list_all2 (\<lambda>x y. item_terminated x = item_terminated y \<and>
     serviceItemLifecycleRank x \<le> serviceItemLifecycleRank y)"

lemma advanced_active:
  "advanced xs ys \<Longrightarrow>
     list_all2 (\<lambda>x y. serviceItemLifecycleRank x \<le> serviceItemLifecycleRank y)
       (active_items xs) (active_items ys)"
  unfolding advanced_def by (induction rule: list_all2_induct) auto

lemma list_all2_rank_sum:
  "list_all2 (\<lambda>x y. serviceItemLifecycleRank x \<le> serviceItemLifecycleRank y) xs ys \<Longrightarrow>
     sum_list (map serviceItemLifecycleRank xs) \<le> sum_list (map serviceItemLifecycleRank ys)"
  by (induction rule: list_all2_induct) auto

lemma list_all2_rank_Min:
  "list_all2 (\<lambda>x y. serviceItemLifecycleRank x \<le> serviceItemLifecycleRank y) xs ys \<Longrightarrow> xs \<noteq> [] \<Longrightarrow>
     Min (serviceItemLifecycleRank ` set xs) \<le> Min (serviceItemLifecycleRank ` set ys)"
proof -
  assume r: "list_all2 (\<lambda>x y. serviceItemLifecycleRank x \<le> serviceItemLifecycleRank y) xs ys"
    and ne: "xs \<noteq> []"
  then have "ys \<noteq> []" by auto
  then have "Min (serviceItemLifecycleRank ` set ys) \<in> serviceItemLifecycleRank ` set ys"
    by (intro Min_in) auto
  then obtain y where y: "y \<in> set ys" "Min (serviceItemLifecycleRank ` set ys) = serviceItemLifecycleRank y"
    by blast
  from y(1) r obtain x where "x \<in> set xs" "serviceItemLifecycleRank x \<le> serviceItemLifecycleRank y"
    by (metis in_set_conv_nth list_all2_conv_all_nth nth_mem)
  then show ?thesis using y(2) by (metis Min_le finite_imageI finite_set imageI order_trans)
qed

text \<open>
  C29. Progress of the items is progress of the project: when no item moves to an earlier
  stage, the derived status does not move to an earlier node and the percentage does not drop.
\<close>

theorem advancing_items_advances_project:
  assumes "advanced xs ys" and "active_items xs \<noteq> []"
    and "\<not> equal_fold (trim_space supplement) ''REQUIRED''"
  shows "\<exists>m n. m \<le> n \<and> n < length projectStatusNodes \<and>
      DeriveProjectStatus xs supplement stored = projectStatusNodes ! m \<and>
      DeriveProjectStatus ys supplement stored' = projectStatusNodes ! n \<and>
      DeriveProjectProgress xs \<le> DeriveProjectProgress ys"
proof -
  note r = advanced_active [OF assms(1)]
  have ne: "active_items ys \<noteq> []" and len: "length (active_items xs) = length (active_items ys)"
    using r assms(2) by (auto dest: list_all2_lengthD)
  have "DeriveProjectProgress xs \<le> DeriveProjectProgress ys"
    using list_all2_rank_sum [OF r] assms(2) ne len
    by (simp add: DeriveProjectProgress_eq div_le_mono)
  then show ?thesis
    using list_all2_rank_Min [OF r assms(2)] min_rank_bound [OF ne] assms(2,3) ne
      active_nonempty [OF assms(2)] active_nonempty [OF ne]
    by (intro exI conjI) (auto simp: project_status_lagging)
qed

theorem advancing_items_advances_project_witness:
  "\<exists>m n. m \<le> n \<and> n < length projectStatusNodes \<and>
      DeriveProjectStatus [\<lparr>si_status = ProjectStatusPreparing, si_report = []\<rparr>] [] [] = projectStatusNodes ! m \<and>
      DeriveProjectStatus [\<lparr>si_status = ProjectStatusInProgress, si_report = []\<rparr>] [] [] = projectStatusNodes ! n \<and>
      DeriveProjectProgress [\<lparr>si_status = ProjectStatusPreparing, si_report = []\<rparr>]
        \<le> DeriveProjectProgress [\<lparr>si_status = ProjectStatusInProgress, si_report = []\<rparr>]"
proof (rule advancing_items_advances_project)
  show "advanced [\<lparr>si_status = ProjectStatusPreparing, si_report = []\<rparr>]
          [\<lparr>si_status = ProjectStatusInProgress, si_report = []\<rparr>]"
    by (simp add: advanced_def item_terminated_def serviceItemLifecycleRank_def serviceItemStatusRank_eq)
  show "active_items [\<lparr>si_status = ProjectStatusPreparing, si_report = []\<rparr>] \<noteq> []"
    by (simp add: item_terminated_def)
  show "\<not> equal_fold (trim_space []) ''REQUIRED''" by code_simp
qed

text \<open>
  The derived values do not depend on the order in which the database returns the items.
\<close>

theorem derivations_ignore_item_order:
  assumes "mset xs = mset ys"
  shows "DeriveProjectStatus xs supplement stored = DeriveProjectStatus ys supplement stored \<and>
    DeriveProjectReportStage xs = DeriveProjectReportStage ys \<and>
    DeriveProjectProgress xs = DeriveProjectProgress ys \<and>
    IsRiskProject status xs = IsRiskProject status ys"
proof -
  have act: "mset (active_items xs) = mset (active_items ys)"
    unfolding active_items_def using assms by (metis mset_filter)
  have set_act: "set (active_items xs) = set (active_items ys)" and set_all: "set xs = set ys"
    using act assms by (metis set_mset_mset)+
  have nil: "active_items xs = [] \<longleftrightarrow> active_items ys = []" "xs = [] \<longleftrightarrow> ys = []"
    using act assms by (metis mset_zero_iff)+
  have len: "length (active_items xs) = length (active_items ys)"
    and sums: "sum_list (map serviceItemLifecycleRank (active_items xs))
      = sum_list (map serviceItemLifecycleRank (active_items ys))"
    using act by (metis size_mset, metis mset_map sum_mset_sum_list)
  have ev: "report_evaluable xs \<longleftrightarrow> report_evaluable ys"
    using nil(1) set_act by (simp add: report_evaluable_def list_all_iff)
  have "DeriveProjectReportStage zs =
     (if report_evaluable zs
      then report_codes ! nat (Min ((\<lambda>i. ReportPhaseRank (effective_report i)) ` set (active_items zs)))
      else [])" for zs
    by (rule report_stage_formula)
  then show ?thesis
    using nil len sums ev by (simp add: project_status_lagging DeriveProjectProgress_eq set_act
        IsRiskProject_def list_ex_iff set_all)
qed

theorem derivations_ignore_item_order_witness:
  "DeriveProjectStatus [\<lparr>si_status = ProjectStatusPreparing, si_report = []\<rparr>,
      \<lparr>si_status = ProjectStatusInProgress, si_report = []\<rparr>] [] []
   = DeriveProjectStatus [\<lparr>si_status = ProjectStatusInProgress, si_report = []\<rparr>,
      \<lparr>si_status = ProjectStatusPreparing, si_report = []\<rparr>] [] []"
proof -
  have m: "mset [\<lparr>si_status = ProjectStatusPreparing, si_report = []\<rparr>,
      \<lparr>si_status = ProjectStatusInProgress, si_report = []\<rparr>]
    = mset [\<lparr>si_status = ProjectStatusInProgress, si_report = []\<rparr>,
      \<lparr>si_status = ProjectStatusPreparing, si_report = []\<rparr>]" by simp
  show ?thesis using derivations_ignore_item_order [OF m, of "[]" "[]" "[]"] by blast
qed

lemma unknown_scan_eq:
  "set (unknown_scan seen items) =
     {trim_space (si_status i) | i. i \<in> set items \<and> \<not> item_terminated i \<and>
        serviceItemStatusRank (trim_space (si_status i)) = None} - set seen \<and>
   distinct (unknown_scan seen items)"
  by (induction seen items rule: unknown_scan.induct) (auto simp: Let_def item_terminated_def)

text \<open>
  C30. Every unknown status of an active item is reported, once, and nothing else is; and as
  long as one is reported the project stays at the first node (outside the supplement branch),
  so an unrecognised status never makes a project look further along than it is.
\<close>

theorem unknown_statuses_are_exposed_and_conservative:
  "set (UnknownServiceItemStatuses items) =
     {trim_space (si_status i) | i. i \<in> set items \<and> \<not> item_terminated i \<and>
        serviceItemStatusRank (trim_space (si_status i)) = None} \<and>
   distinct (UnknownServiceItemStatuses items) \<and>
   (UnknownServiceItemStatuses items = [] \<or> equal_fold (trim_space supplement) ''REQUIRED'' \<or>
    DeriveProjectStatus items supplement stored = ProjectStatusPendingDecomposition)"
proof -
  have "DeriveProjectStatus items supplement stored = projectStatusNodes ! 0"
    if u: "UnknownServiceItemStatuses items \<noteq> []" "\<not> equal_fold (trim_space supplement) ''REQUIRED''"
  proof -
    from u(1) obtain st where "st \<in> set (UnknownServiceItemStatuses items)"
      by (cases "UnknownServiceItemStatuses items") auto
    then obtain i where i: "i \<in> set (active_items items)"
      "serviceItemStatusRank (trim_space (si_status i)) = None"
      using unknown_scan_eq [of "[]" items]
      by (auto simp: UnknownServiceItemStatuses_def set_active_items)
    then have "serviceItemLifecycleRank i = 0"
      by (auto simp: serviceItemLifecycleRank_def Let_def serviceItemStatusRank_eq split: if_splits)
    with i(1) have "Min (serviceItemLifecycleRank ` set (active_items items)) \<le> 0"
      by (metis Min_le finite_imageI finite_set imageI)
    then have "Min (serviceItemLifecycleRank ` set (active_items items)) = 0" by simp
    moreover have "active_items items \<noteq> []" using i(1) by auto
    ultimately show ?thesis using status_eq_node_iff [of items supplement 0] u(2) by simp
  qed
  then show ?thesis using unknown_scan_eq [of "[]" items]
    by (auto simp: UnknownServiceItemStatuses_def)
qed

end
