(* ===== verification/GoTime.thy ===== *)
theory GoTime
  imports Prelude
begin

text \<open>
  Time as the code uses it: an instant is the number of nanoseconds since the Unix epoch
  (a Go \<open>time.Time\<close> without its location), \<open>time.Parse\<close> on the two layouts of the code
  (\<open>2006-01-02\<close> and RFC 3339, with the leniencies of the Go parser: one-digit hours, a
  fraction of any length, offsets up to 24:60), formatting on the same layouts in UTC, and the
  business calendar of \<open>internal/businessclock\<close>.

  The time zone database is not part of the repository, so the offset of the business zone is an
  argument: a function from instants to seconds. \<open>fixed_cst\<close> is the zone the code falls back to.
\<close>

type_synonym instant = int
type_synonym zone = "instant \<Rightarrow> int"

definition second_ns :: int where "second_ns = 1000000000"
definition minute_ns :: int where "minute_ns = 60000000000"
definition hour_ns :: int where "hour_ns = 3600000000000"
definition day_ns :: int where "day_ns = 86400000000000"

text \<open>The zero \<open>time.Time\<close>: 1 January of the year 1, UTC.\<close>

definition zero_time :: instant where
  "zero_time = -62135596800000000000"

section \<open>Civil dates\<close>

definition is_leap :: "int \<Rightarrow> bool" where
  "is_leap y \<longleftrightarrow> y mod 4 = 0 \<and> (y mod 100 \<noteq> 0 \<or> y mod 400 = 0)"

definition days_in :: "int \<Rightarrow> int \<Rightarrow> int" where
  "days_in y m = (if m = 2 then (if is_leap y then 29 else 28)
     else if m \<in> {4, 6, 9, 11} then 30 else 31)"

text \<open>Days since the epoch of a date of the proleptic Gregorian calendar, and back.\<close>

definition days_from_civil :: "int \<Rightarrow> int \<Rightarrow> int \<Rightarrow> int" where
  "days_from_civil y m d =
     (let y' = (if m \<le> 2 then y - 1 else y);
          era = y' div 400; yoe = y' mod 400;
          doy = (153 * (m + (if 2 < m then -3 else 9)) + 2) div 5 + d - 1;
          doe = yoe * 365 + yoe div 4 - yoe div 100 + doy
      in era * 146097 + doe - 719468)"

definition civil_from_days :: "int \<Rightarrow> int \<times> int \<times> int" where
  "civil_from_days z0 =
     (let z = z0 + 719468; era = z div 146097; doe = z mod 146097;
          yoe = (doe - doe div 1460 + doe div 36524 - doe div 146096) div 365;
          doy = doe - (365 * yoe + yoe div 4 - yoe div 100);
          mp = (5 * doy + 2) div 153;
          d = doy - (153 * mp + 2) div 5 + 1;
          m = (if mp < 10 then mp + 3 else mp - 9);
          y = yoe + era * 400
      in (if m \<le> 2 then y + 1 else y, m, d))"

section \<open>Parsing\<close>

definition digit_val :: "char \<Rightarrow> int option" where
  "digit_val c = (let n = (of_char c :: int) in if 48 \<le> n \<and> n \<le> 57 then Some (n - 48) else None)"

fun digits_val :: "int \<Rightarrow> string \<Rightarrow> int option" where
  "digits_val acc [] = Some acc"
| "digits_val acc (c # cs) =
     (case digit_val c of None \<Rightarrow> None | Some d \<Rightarrow> digits_val (10 * acc + d) cs)"

definition valid_date :: "int \<Rightarrow> int \<Rightarrow> int \<Rightarrow> bool" where
  "valid_date y m d \<longleftrightarrow> 1 \<le> m \<and> m \<le> 12 \<and> 1 \<le> d \<and> d \<le> days_in y m"

text \<open>The first ten bytes, \<open>yyyy-mm-dd\<close>, as days since the epoch.\<close>

fun parse_day :: "string \<Rightarrow> (int \<times> string) option" where
  "parse_day (y1 # y2 # y3 # y4 # s1 # m1 # m2 # s2 # d1 # d2 # rest) =
     (if s1 = CHR ''-'' \<and> s2 = CHR ''-'' then
        (case (digits_val 0 [y1, y2, y3, y4], digits_val 0 [m1, m2], digits_val 0 [d1, d2]) of
           (Some y, Some m, Some d) \<Rightarrow>
             (if valid_date y m d then Some (days_from_civil y m d, rest) else None)
         | _ \<Rightarrow> None)
      else None)"
| "parse_day _ = None"

text \<open>\<open>time.Parse("2006-01-02", s)\<close>.\<close>

definition parse_date :: "string \<Rightarrow> instant option" where
  "parse_date s = (case parse_day s of Some (n, []) \<Rightarrow> Some (n * day_ns) | _ \<Rightarrow> None)"

text \<open>One or two digits of an hour, then minute and second of exactly two digits.\<close>

fun parse_hour :: "string \<Rightarrow> (int \<times> string) option" where
  "parse_hour (a # b # rest) =
     (case (digit_val a, digit_val b) of
        (Some x, Some y) \<Rightarrow> Some (10 * x + y, rest)
      | (Some x, None) \<Rightarrow> Some (x, b # rest)
      | _ \<Rightarrow> None)"
| "parse_hour [a] = (case digit_val a of Some x \<Rightarrow> Some (x, []) | None \<Rightarrow> None)"
| "parse_hour [] = None"

fun parse_2 :: "string \<Rightarrow> (int \<times> string) option" where
  "parse_2 (a # b # rest) = (case digits_val 0 [a, b] of Some x \<Rightarrow> Some (x, rest) | None \<Rightarrow> None)"
| "parse_2 _ = None"

fun expect_char :: "char \<Rightarrow> string \<Rightarrow> string option" where
  "expect_char c (a # rest) = (if a = c then Some rest else None)"
| "expect_char c [] = None"

text \<open>A fraction: as many digits as there are, of which the first nine count.\<close>

fun frac_digits :: "int \<Rightarrow> int \<Rightarrow> string \<Rightarrow> int \<times> string" where
  "frac_digits scale acc [] = (acc, [])"
| "frac_digits scale acc (c # cs) =
     (case digit_val c of None \<Rightarrow> (acc, c # cs)
      | Some d \<Rightarrow> frac_digits (scale div 10) (acc + d * scale) cs)"

fun parse_frac :: "string \<Rightarrow> int \<times> string" where
  "parse_frac (p # c # cs) =
     (if (p = CHR ''.'' \<or> p = CHR '','') \<and> digit_val c \<noteq> None
      then frac_digits 100000000 0 (c # cs) else (0, p # c # cs))"
| "parse_frac s = (0, s)"

fun parse_zone :: "string \<Rightarrow> int option" where
  "parse_zone [c] = (if c = CHR ''Z'' then Some 0 else None)"
| "parse_zone [sg, h1, h2, co, m1, m2] =
     (if co = CHR '':'' then
        (case (digits_val 0 [h1, h2], digits_val 0 [m1, m2]) of
           (Some h, Some m) \<Rightarrow>
             (if 24 < h \<or> 60 < m then None
              else if sg = CHR ''+'' then Some (h * 3600 + m * 60)
              else if sg = CHR ''-'' then Some (- (h * 3600 + m * 60)) else None)
         | _ \<Rightarrow> None)
      else None)"
| "parse_zone _ = None"

text \<open>\<open>time.Parse(time.RFC3339, s)\<close>.\<close>

definition parse_rfc3339 :: "string \<Rightarrow> instant option" where
  "parse_rfc3339 s =
     Option.bind (parse_day s) (\<lambda>(day, s).
     Option.bind (expect_char (CHR ''T'') s) (\<lambda>s.
     Option.bind (parse_hour s) (\<lambda>(hh, s).
     Option.bind (expect_char (CHR '':'') s) (\<lambda>s.
     Option.bind (parse_2 s) (\<lambda>(mi, s).
     Option.bind (expect_char (CHR '':'') s) (\<lambda>s.
     Option.bind (parse_2 s) (\<lambda>(ss, s).
       let (ns, s) = parse_frac s in
     Option.bind (parse_zone s) (\<lambda>off.
       if hh < 24 \<and> mi < 60 \<and> ss < 60
       then Some (day * day_ns + hh * hour_ns + mi * minute_ns + (ss - off) * second_ns + ns)
       else None))))))))"

section \<open>Formatting\<close>

definition digit_char :: "int \<Rightarrow> char" where
  "digit_char n = char_of (nat (48 + n mod 10))"

definition fmt2 :: "int \<Rightarrow> string" where
  "fmt2 n = [digit_char (n div 10), digit_char n]"

definition fmt4 :: "int \<Rightarrow> string" where
  "fmt4 n = [digit_char (n div 1000), digit_char (n div 100), digit_char (n div 10), digit_char n]"

text \<open>\<open>t.Format("2006-01-02")\<close> of a UTC time of the years 0 to 9999.\<close>

definition format_date :: "instant \<Rightarrow> string" where
  "format_date t =
     (let (y, m, d) = civil_from_days (t div day_ns)
      in fmt4 y @ ''-'' @ fmt2 m @ ''-'' @ fmt2 d)"

definition format_rfc3339 :: "instant \<Rightarrow> string" where
  "format_rfc3339 t =
     (let s = t mod day_ns
      in format_date t @ ''T'' @ fmt2 (s div hour_ns) @ '':'' @ fmt2 (s mod hour_ns div minute_ns)
           @ '':'' @ fmt2 (s mod minute_ns div second_ns) @ ''Z'')"

section \<open>The business calendar\<close>

text \<open>\<open>time.FixedZone("CST", ZoneOffsetSeconds)\<close>, used when the zone cannot be loaded.\<close>

definition ZoneOffsetSeconds :: int where
  "ZoneOffsetSeconds = 8 * 3600"

definition fixed_cst :: zone where
  "fixed_cst = (\<lambda>_. ZoneOffsetSeconds)"

text \<open>The civil day of an instant on the clock of the zone, as days since the epoch.\<close>

definition local_day :: "zone \<Rightarrow> instant \<Rightarrow> int" where
  "local_day z t = (t + z t * second_ns) div day_ns"

definition YearOf :: "zone \<Rightarrow> instant \<Rightarrow> int" where
  "YearOf z t = fst (civil_from_days (local_day z t))"

definition DateString :: "zone \<Rightarrow> instant \<Rightarrow> string" where
  "DateString z t =
     (let (y, m, d) = civil_from_days (local_day z t) in fmt4 y @ fmt2 m @ fmt2 d)"

definition DateKey :: "zone \<Rightarrow> instant \<Rightarrow> string" where
  "DateKey z t = format_date (local_day z t * day_ns)"

definition CalendarDay :: "zone \<Rightarrow> instant \<Rightarrow> instant" where
  "CalendarDay z t = local_day z t * day_ns"

lemma CalendarDay_mono: "z s = z t \<Longrightarrow> s \<le> t \<Longrightarrow> CalendarDay z s \<le> CalendarDay z t"
  by (simp add: CalendarDay_def local_day_def day_ns_def zdiv_mono1)

lemma CalendarDay_dvd: "day_ns dvd CalendarDay z t"
  by (simp add: CalendarDay_def)

text \<open>A date column (midnight UTC) is its own calendar day for any zone ahead of UTC by less than a day.\<close>

lemma CalendarDay_date:
  assumes "day_ns dvd t" and "0 \<le> z t" and "z t < 86400"
  shows "CalendarDay z t = t"
proof -
  from assms(1) obtain k where k: "t = day_ns * k" by (elim dvdE)
  have "z t * second_ns div day_ns = 0"
    using assms(2,3) by (simp add: second_ns_def day_ns_def)
  then show ?thesis
    using k by (simp add: CalendarDay_def local_day_def day_ns_def)
qed

end
