(* ===== verification/Store.thy ===== *)
theory Store
  imports ProjectStatus GoTime "HOL-Library.Monad_Syntax"
begin

text \<open>
  The data model: errors (\<open>application/service.go\<close>), delivery event types
  (\<open>application/delivery_contract.go\<close>), event payloads as their JSON image, the rows of the
  tables the delivery code writes (\<open>infrastructure/mysql/models.go\<close> and the record types beside
  the operations), and the store that holds them.

  A table is the list of its rows in insertion order. A transaction is a function from a store
  to an error or the new store, so a failed one leaves the store as it was. SQL comparison is
  equality of strings. Auto-increment keys count the rows ever inserted. Row locks serialise the
  transactions that touch a service item, so a run is a sequence of transactions.
\<close>

section \<open>Errors\<close>

text \<open>
  The sentinels of \<open>application/service.go\<close>. \<open>ValidationError\<close>, \<open>PreconditionError\<close> and
  \<open>ConflictError\<close> wrap \<open>ErrValidation\<close>, \<open>ErrPrecondition\<close> and \<open>ErrResourceConflict\<close> with a
  message for the user; the message is not modelled. \<open>ErrStorage\<close> stands for any other error of
  the database or of decoding a stored JSON column.
\<close>

datatype app_error =
    ErrNotFound | ErrValidation | ErrConflict | ErrAlreadyApplied | ErrDuplicateContract
  | ErrDuplicateProject | ErrForbidden | ErrServiceTimeout | ErrPersonnelUnavailable
  | ErrContractUnavailable | ErrPrecondition | ErrResourceConflict | ErrImportConflict
  | ErrImportPolicy | ErrManagerFrozen | ErrStorage

section \<open>Event types\<close>

datatype event_type =
    EventContractActivated | EventContractStampStatus | EventDecompositionAdjusted
  | EventDecompositionReturned | EventTeamAssigned | EventTeamAssignmentRevoked
  | EventExecutionTeamAssigned | EventExecutionAssignmentRevoked | EventImplementationPlanned
  | EventImplementationPlanRevoked | EventPreparationStarted | EventPreparationRevoked
  | EventFieldStarted | EventFieldCheckedIn | EventFieldRecordSubmitted
  | EventFieldSignatureCaptured | EventRollbackRequested | EventRollbackApproved
  | EventRollbackRejected | EventRollbackWithdrawn | EventReportCorrectionRequested
  | EventReportCorrectionApproved | EventReportCorrectionRejected | EventDeviationReported
  | EventDeviationReviewed | EventFieldCompleted | EventSpecialMethodReviewed
  | EventReportStatusUpdated | EventEquipmentReturned | EventScopeChangeDetected
  | EventSupplementClosed | EventAutomationTriggered | EventWarningTriggered
  | EventOther string

fun event_name :: "event_type \<Rightarrow> string" where
  "event_name EventContractActivated = ''CONTRACT_ACTIVATED''"
| "event_name EventContractStampStatus = ''CONTRACT_STAMP_STATUS_SYNCED''"
| "event_name EventDecompositionAdjusted = ''DECOMPOSITION_ADJUSTED''"
| "event_name EventDecompositionReturned = ''DECOMPOSITION_RETURNED''"
| "event_name EventTeamAssigned = ''TEAM_ASSIGNED''"
| "event_name EventTeamAssignmentRevoked = ''TEAM_ASSIGNMENT_REVOKED''"
| "event_name EventExecutionTeamAssigned = ''EXECUTION_TEAM_ASSIGNED''"
| "event_name EventExecutionAssignmentRevoked = ''EXECUTION_ASSIGNMENT_REVOKED''"
| "event_name EventImplementationPlanned = ''IMPLEMENTATION_PLANNED''"
| "event_name EventImplementationPlanRevoked = ''IMPLEMENTATION_PLAN_REVOKED''"
| "event_name EventPreparationStarted = ''PREPARATION_STARTED''"
| "event_name EventPreparationRevoked = ''PREPARATION_REVOKED''"
| "event_name EventFieldStarted = ''FIELD_STARTED''"
| "event_name EventFieldCheckedIn = ''FIELD_CHECKED_IN''"
| "event_name EventFieldRecordSubmitted = ''FIELD_RECORD_SUBMITTED''"
| "event_name EventFieldSignatureCaptured = ''FIELD_SIGNATURE_CAPTURED''"
| "event_name EventRollbackRequested = ''ROLLBACK_REQUESTED''"
| "event_name EventRollbackApproved = ''ROLLBACK_APPROVED''"
| "event_name EventRollbackRejected = ''ROLLBACK_REJECTED''"
| "event_name EventRollbackWithdrawn = ''ROLLBACK_WITHDRAWN''"
| "event_name EventReportCorrectionRequested = ''REPORT_CORRECTION_REQUESTED''"
| "event_name EventReportCorrectionApproved = ''REPORT_CORRECTION_APPROVED''"
| "event_name EventReportCorrectionRejected = ''REPORT_CORRECTION_REJECTED''"
| "event_name EventDeviationReported = ''DEVIATION_REPORTED''"
| "event_name EventDeviationReviewed = ''DEVIATION_REVIEWED''"
| "event_name EventFieldCompleted = ''FIELD_COMPLETED''"
| "event_name EventSpecialMethodReviewed = ''SPECIAL_METHOD_REVIEWED''"
| "event_name EventReportStatusUpdated = ''REPORT_STATUS_UPDATED''"
| "event_name EventEquipmentReturned = ''EQUIPMENT_RETURNED''"
| "event_name EventScopeChangeDetected = ''SCOPE_CHANGE_DETECTED''"
| "event_name EventSupplementClosed = ''SUPPLEMENT_CLOSED''"
| "event_name EventAutomationTriggered = ''AUTOMATION_TRIGGERED''"
| "event_name EventWarningTriggered = ''WARNING_TRIGGERED''"
| "event_name (EventOther s) = s"

section \<open>JSON payloads\<close>

text \<open>
  A \<open>map[string]any\<close> payload is the association list of its keys. Its values are modelled by
  their JSON image: a Go \<open>string\<close> is a \<open>JStr\<close>, an integer a \<open>JNum\<close>, a slice a \<open>JArr\<close>, a nil
  slice or nil interface \<open>JNull\<close>, a struct the \<open>JObj\<close> of its tagged fields. Numbers are integers.
\<close>

datatype json = JNull | JBool bool | JNum int | JStr string | JArr "json list"
  | JObj "(string \<times> json) list"

type_synonym payload = "(string \<times> json) list"

text \<open>\<open>stringValue\<close>: a missing key or a value that is not a string reads as the empty string.\<close>

definition raw_string :: "payload \<Rightarrow> string \<Rightarrow> string" where
  "raw_string values key = (case map_of values key of Some (JStr v) \<Rightarrow> v | _ \<Rightarrow> [])"

definition stringValue :: "payload \<Rightarrow> string \<Rightarrow> string" where
  "stringValue values key = trim_space (raw_string values key)"

definition expectedVersionValue :: "payload \<Rightarrow> nat" where
  "expectedVersionValue values =
     (case map_of values ''expected_version'' of
        Some (JNum n) \<Rightarrow> if 0 < n then nat n else 0 | _ \<Rightarrow> 0)"

text \<open>
  \<open>jsonBytes\<close>: no bytes for a missing key or a null value; \<open>jsonValue\<close> writes null for both.
\<close>

definition jsonBytes :: "payload \<Rightarrow> string \<Rightarrow> json option" where
  "jsonBytes values key =
     (case map_of values key of None \<Rightarrow> None | Some JNull \<Rightarrow> None | Some v \<Rightarrow> Some v)"

definition jsonValue :: "payload \<Rightarrow> string \<Rightarrow> json" where
  "jsonValue values key = (case map_of values key of None \<Rightarrow> JNull | Some v \<Rightarrow> v)"

definition rfc3339Value :: "payload \<Rightarrow> string \<Rightarrow> instant option" where
  "rfc3339Value values key = parse_rfc3339 (stringValue values key)"

definition timePtr :: "instant \<Rightarrow> instant option" where
  "timePtr v = (if v = zero_time then None else Some v)"

text \<open>\<open>reflect.DeepEqual\<close> on decoded JSON: objects are maps, so the order of keys is ignored.\<close>

fun json_equal :: "json \<Rightarrow> json \<Rightarrow> bool" where
  "json_equal JNull JNull = True"
| "json_equal (JBool a) (JBool b) = (a = b)"
| "json_equal (JNum a) (JNum b) = (a = b)"
| "json_equal (JStr a) (JStr b) = (a = b)"
| "json_equal (JArr a) (JArr b) = list_all2 json_equal a b"
| "json_equal (JObj a) (JObj b) =
     (length a = length b \<and>
      list_all (\<lambda>(k, v). case map_of b k of None \<Rightarrow> False | Some w \<Rightarrow> json_equal v w) a)"
| "json_equal _ _ = False"

definition jsonSemanticallyEqual :: "payload \<Rightarrow> payload \<Rightarrow> bool" where
  "jsonSemanticallyEqual left right = json_equal (JObj left) (JObj right)"

text \<open>The shape a Go map has: every key once.\<close>

fun json_wf :: "json \<Rightarrow> bool" where
  "json_wf (JArr a) = list_all json_wf a"
| "json_wf (JObj a) = (distinct (map fst a) \<and> list_all (\<lambda>(k, v). json_wf v) a)"
| "json_wf _ = True"

lemma json_equal_refl: "json_wf a \<Longrightarrow> json_equal a a"
proof (induction a rule: json_wf.induct)
  case (1 a)
  then show ?case by (auto simp: list_all_iff list_all2_conv_all_nth)
next
  case (2 a)
  then show ?case by (force simp: list_all_iff)
qed simp_all

lemma jsonSemanticallyEqual_refl [simp]: "json_wf (JObj p) \<Longrightarrow> jsonSemanticallyEqual p p"
  using json_equal_refl [of "JObj p"] by (simp add: jsonSemanticallyEqual_def del: json_equal.simps)

lemma stringValue_trim [simp]: "trim_space (stringValue p k) = stringValue p k"
  by (simp add: stringValue_def)

text \<open>
  Decoding a JSON object into a struct: a missing or null field keeps its zero value, a field of
  another type is a decoding error.
\<close>

definition obj_str :: "payload \<Rightarrow> string \<Rightarrow> string option" where
  "obj_str obj k =
     (case map_of obj k of None \<Rightarrow> Some [] | Some JNull \<Rightarrow> Some [] | Some (JStr s) \<Rightarrow> Some s
      | _ \<Rightarrow> None)"

definition obj_nat :: "payload \<Rightarrow> string \<Rightarrow> nat option" where
  "obj_nat obj k =
     (case map_of obj k of None \<Rightarrow> Some 0 | Some JNull \<Rightarrow> Some 0
      | Some (JNum n) \<Rightarrow> if 0 \<le> n then Some (nat n) else None | _ \<Rightarrow> None)"

fun json_str :: "json \<Rightarrow> string option" where
  "json_str (JStr s) = Some s" | "json_str JNull = Some []" | "json_str _ = None"

fun json_list :: "(json \<Rightarrow> 'a option) \<Rightarrow> json \<Rightarrow> 'a list option" where
  "json_list f (JArr xs) = those (map f xs)"
| "json_list f JNull = Some []"
| "json_list f _ = None"

definition obj_strs :: "payload \<Rightarrow> string \<Rightarrow> string list option" where
  "obj_strs obj k = (case map_of obj k of None \<Rightarrow> Some [] | Some v \<Rightarrow> json_list json_str v)"

definition JStrs :: "string list \<Rightarrow> json" where
  "JStrs ss = JArr (map JStr ss)"

lemma those_map_Some [simp]: "those (map (\<lambda>x. Some (f x)) xs) = Some (map f xs)"
  by (induction xs) auto

lemma json_list_JStrs [simp]: "json_list json_str (JStrs ss) = Some ss"
  by (simp add: JStrs_def comp_def)

text \<open>A column of strings as the code reads it back; what does not decode counts as empty.\<close>

definition column_strs :: "json \<Rightarrow> string list" where
  "column_strs j = (case json_list json_str j of Some ss \<Rightarrow> ss | None \<Rightarrow> [])"

lemma column_strs_JStrs [simp]: "column_strs (JStrs ss) = ss"
  by (simp add: column_strs_def)

section \<open>Structures carried in payloads\<close>

text \<open>\<open>domain.PlanResource\<close>: a row of the personnel or equipment list of a plan.\<close>

record plan_resource =
  pr_type :: string
  pr_id :: string
  pr_name :: string
  pr_codes :: "string list"
  pr_valid_until :: string
  pr_start :: string
  pr_end :: string
  pr_note :: string
  pr_returned :: string

definition omit_empty :: "string \<Rightarrow> string \<Rightarrow> payload" where
  "omit_empty k v = (if v = [] then [] else [(k, JStr v)])"

definition encode_resource :: "plan_resource \<Rightarrow> json" where
  "encode_resource r = JObj
     ([(''resource_type'', JStr (pr_type r)), (''resource_id'', JStr (pr_id r)),
       (''resource_name'', JStr (pr_name r)), (''codes'', JStrs (pr_codes r))]
      @ omit_empty ''valid_until'' (pr_valid_until r) @ omit_empty ''window_start'' (pr_start r)
      @ omit_empty ''window_end'' (pr_end r) @ omit_empty ''note'' (pr_note r)
      @ omit_empty ''returned_at'' (pr_returned r))"

fun obj_of :: "json \<Rightarrow> payload option" where
  "obj_of (JObj p) = Some p" | "obj_of JNull = Some []" | "obj_of _ = None"

definition decode_resource :: "json \<Rightarrow> plan_resource option" where
  "decode_resource j =
     do { p \<leftarrow> obj_of j;
          t \<leftarrow> obj_str p ''resource_type''; i \<leftarrow> obj_str p ''resource_id'';
          n \<leftarrow> obj_str p ''resource_name''; c \<leftarrow> obj_strs p ''codes'';
          v \<leftarrow> obj_str p ''valid_until''; s \<leftarrow> obj_str p ''window_start'';
          e \<leftarrow> obj_str p ''window_end''; nt \<leftarrow> obj_str p ''note'';
          r \<leftarrow> obj_str p ''returned_at'';
          Some \<lparr>pr_type = t, pr_id = i, pr_name = n, pr_codes = c, pr_valid_until = v,
                pr_start = s, pr_end = e, pr_note = nt, pr_returned = r\<rparr> }"

abbreviation decode_resources :: "json \<Rightarrow> plan_resource list option" where
  "decode_resources \<equiv> json_list decode_resource"

definition encode_resources :: "plan_resource list \<Rightarrow> json" where
  "encode_resources rs = JArr (map encode_resource rs)"

lemma map_of_omit_empty:
  "map_of (omit_empty k v) k' = (if k' = k \<and> v \<noteq> [] then Some (JStr v) else None)"
  by (simp add: omit_empty_def)

lemma decode_encode_resource [simp]: "decode_resource (encode_resource r) = Some r"
  by (cases r) (simp add: decode_resource_def encode_resource_def obj_str_def obj_strs_def
      map_add_def map_of_omit_empty)

lemma decode_encode_resources [simp]: "decode_resources (encode_resources rs) = Some rs"
  by (simp add: encode_resources_def comp_def)

text \<open>\<open>domain.ReportArtifactInput\<close>: a receipt of the file gateway.\<close>

record artifact =
  af_file_id :: string
  af_name :: string
  af_mime :: string
  af_size :: nat
  af_sha256 :: string

definition decode_artifact :: "json \<Rightarrow> artifact option" where
  "decode_artifact j =
     do { p \<leftarrow> obj_of j;
          i \<leftarrow> obj_str p ''file_id''; n \<leftarrow> obj_str p ''file_name'';
          m \<leftarrow> obj_str p ''mime''; s \<leftarrow> obj_nat p ''size''; h \<leftarrow> obj_str p ''sha256'';
          Some \<lparr>af_file_id = i, af_name = n, af_mime = m, af_size = s, af_sha256 = h\<rparr> }"

definition encode_artifact :: "artifact \<Rightarrow> json" where
  "encode_artifact a = JObj
     [(''file_id'', JStr (af_file_id a)), (''file_name'', JStr (af_name a)),
      (''mime'', JStr (af_mime a)), (''size'', JNum (int (af_size a))),
      (''sha256'', JStr (af_sha256 a))]"

lemma decode_encode_artifact [simp]: "decode_artifact (encode_artifact a) = Some a"
  by (cases a) (simp add: decode_artifact_def encode_artifact_def obj_str_def obj_nat_def)

text \<open>
  The fields of \<open>domain.ServiceItem\<close> that a decomposition writes (\<open>delivery_events.go\<close>
  and \<open>delivery.go\<close> copy these and no others into a new row).
\<close>

record item_spec =
  sp_id :: string
  sp_source_service :: string
  sp_batch :: string
  sp_site :: string
  sp_site_code :: string
  sp_category :: string
  sp_requirement :: string
  sp_system :: string
  sp_system_level :: string
  sp_system_standard :: string
  sp_special :: string
  sp_test_mode :: string
  sp_codes :: "string list"
  sp_conflict :: string
  sp_tech_status :: string
  sp_status :: string

definition decode_item_spec :: "json \<Rightarrow> item_spec option" where
  "decode_item_spec j =
     do { p \<leftarrow> obj_of j;
          i \<leftarrow> obj_str p ''id''; ss \<leftarrow> obj_str p ''source_service_id'';
          b \<leftarrow> obj_str p ''batch''; s \<leftarrow> obj_str p ''site''; sc \<leftarrow> obj_str p ''site_code'';
          c \<leftarrow> obj_str p ''category''; rq \<leftarrow> obj_str p ''requirement'';
          sy \<leftarrow> obj_str p ''system''; sl \<leftarrow> obj_str p ''system_level'';
          sst \<leftarrow> obj_str p ''system_standard''; sp \<leftarrow> obj_str p ''special'';
          tm \<leftarrow> obj_str p ''test_mode''; codes \<leftarrow> obj_strs p ''required_codes'';
          cf \<leftarrow> obj_str p ''conflict_status''; tr \<leftarrow> obj_str p ''tech_review_status'';
          st \<leftarrow> obj_str p ''status'';
          Some \<lparr>sp_id = i, sp_source_service = ss, sp_batch = b, sp_site = s, sp_site_code = sc,
                sp_category = c, sp_requirement = rq, sp_system = sy, sp_system_level = sl,
                sp_system_standard = sst, sp_special = sp, sp_test_mode = tm, sp_codes = codes,
                sp_conflict = cf, sp_tech_status = tr, sp_status = st\<rparr> }"

section \<open>Tables\<close>

subsection \<open>Statements on a table\<close>

definition update_where :: "('r \<Rightarrow> bool) \<Rightarrow> ('r \<Rightarrow> 'r) \<Rightarrow> 'r list \<Rightarrow> 'r list" where
  "update_where P f rows = map (\<lambda>r. if P r then f r else r) rows"

definition count_where :: "('r \<Rightarrow> bool) \<Rightarrow> 'r list \<Rightarrow> nat" where
  "count_where P rows = length (filter P rows)"

lemma update_where_simps [simp]:
  "update_where P f [] = []"
  "update_where P f (r # rs) = (if P r then f r else r) # update_where P f rs"
  by (simp_all add: update_where_def)

lemma length_update_where [simp]: "length (update_where P f rows) = length rows"
  by (simp add: update_where_def)

lemma set_update_where:
  "set (update_where P f rows) = (\<lambda>r. if P r then f r else r) ` set rows"
  by (simp add: update_where_def)

lemma count_where_simps [simp]:
  "count_where P [] = 0"
  "count_where P (r # rs) = (if P r then Suc (count_where P rs) else count_where P rs)"
  by (simp_all add: count_where_def)

lemma count_where_0 [simp]: "count_where P rows = 0 \<longleftrightarrow> (\<forall>r \<in> set rows. \<not> P r)"
  by (simp add: count_where_def filter_empty_conv)

lemma count_where_pos: "0 < count_where P rows \<longleftrightarrow> (\<exists>r \<in> set rows. P r)"
  by (simp only: neq0_conv [symmetric] count_where_0) simp

lemma find_SomeD: "find P rows = Some r \<Longrightarrow> P r \<and> r \<in> set rows"
  by (metis find_Some_iff nth_mem)

lemma find_update_where:
  "(\<And>r. P r \<Longrightarrow> Q (f r) = Q r) \<Longrightarrow>
   find Q (update_where P f rows) = map_option (\<lambda>r. if P r then f r else r) (find Q rows)"
  by (induction rows) auto

lemma map_key_update_where:
  "(\<And>r. P r \<Longrightarrow> k (f r) = k r) \<Longrightarrow> map k (update_where P f rows) = map k rows"
  by (simp add: update_where_def)

text \<open>A row identified by its key is the one a lookup by the key finds.\<close>

lemma key_unique: "distinct (map k rows) \<Longrightarrow> r \<in> set rows \<Longrightarrow> s \<in> set rows \<Longrightarrow> k s = k r \<Longrightarrow> s = r"
  by (auto simp: distinct_map dest: inj_onD)

lemma find_key_unique:
  assumes "distinct (map k rows)" and "r \<in> set rows" and "P r" and "\<And>s. P s \<Longrightarrow> k s = k r"
  shows "find P rows = Some r"
proof -
  obtain s where s: "find P rows = Some s" using assms(2,3) by (cases "find P rows") (auto simp: find_None_iff)
  then have "s \<in> set rows" "P s" by (simp_all add: find_SomeD)
  then have "s = r" by (intro key_unique [OF assms(1,2)] assms(4))
  with s show ?thesis by simp
qed

lemma count_key_unique:
  assumes "distinct (map k rows)" and "r \<in> set rows" and "P r" and "\<And>s. P s \<Longrightarrow> k s = k r"
  shows "count_where P rows = 1"
proof -
  have "set (filter P rows) = {r}"
  proof (intro equalityI subsetI)
    fix s assume "s \<in> set (filter P rows)"
    then have "s \<in> set rows" "P s" by simp_all
    then have "s = r" by (intro key_unique [OF assms(1,2)] assms(4))
    then show "s \<in> {r}" by simp
  next
    fix s assume "s \<in> {r}"
    with assms(2,3) show "s \<in> set (filter P rows)" by simp
  qed
  moreover have "distinct (filter P rows)" using assms(1) by (simp add: distinct_map)
  ultimately show ?thesis by (metis card.empty card_insert_disjoint count_where_def distinct_card
      empty_iff finite.emptyI One_nat_def)
qed

subsection \<open>Rows\<close>

record service_item =
  it_id :: string
  it_tenant :: string
  it_project :: string
  it_source_service :: string
  it_batch :: string
  it_site :: string
  it_site_code :: string
  it_category :: string
  it_requirement :: string
  it_system :: string
  it_system_level :: string
  it_system_standard :: string
  it_special :: string
  it_test_mode :: string
  it_team_lead :: string
  it_manager :: string
  it_engineers :: json
  it_equipment :: json
  it_codes :: json
  it_planned_start :: "instant option"
  it_planned_end :: "instant option"
  it_conflict :: string
  it_tech_status :: string
  it_tech_at :: "instant option"
  it_tech_by :: string
  it_tech_comment :: string
  it_report_status :: string
  it_report_at :: "instant option"
  it_report_by :: string
  it_report_revision :: nat
  it_prepared_by :: string
  it_reviewed_by :: string
  it_issued_by :: string
  it_status :: string
  it_status_changed_at :: "instant option"
  it_version :: nat
  it_created_at :: instant
  it_updated_at :: instant
  it_updated_by :: string
  it_archived_at :: "instant option"

record project_row =
  pj_id :: string
  pj_tenant :: string
  pj_source_kind :: string
  pj_source_id :: string
  pj_scope_version :: nat
  pj_owner_org :: string
  pj_name :: string
  pj_customer :: string
  pj_customer_id :: string
  pj_contract :: string
  pj_contract_id :: string
  pj_contract_version :: string
  pj_supplement :: string
  pj_services :: nat
  pj_category :: string
  pj_team :: string
  pj_manager :: string
  pj_owner_identity :: string
  pj_manager_identity :: string
  pj_status :: string
  pj_progress :: nat
  pj_due :: string
  pj_created_at :: instant
  pj_updated_at :: instant
  pj_version :: nat

record revision_row =
  rv_id :: nat
  rv_tenant :: string
  rv_item :: string
  rv_subject_type :: string
  rv_subject :: string
  rv_revision :: nat
  rv_status :: string
  rv_validity :: string
  rv_correction_request :: string
  rv_correction_reason :: string
  rv_file_id :: string
  rv_file_name :: string
  rv_file_mime :: string
  rv_file_size :: nat
  rv_file_sha256 :: string
  rv_prepared_by :: string
  rv_prepared_at :: "instant option"
  rv_reviewed_by :: string
  rv_reviewed_at :: "instant option"
  rv_issued_by :: string
  rv_issued_at :: "instant option"
  rv_archived_by :: string
  rv_archived_at :: "instant option"
  rv_invalidated_by :: string
  rv_invalidated_at :: "instant option"
  rv_created_at :: instant
  rv_updated_at :: instant

record plan_row =
  pl_tenant :: string
  pl_item :: string
  pl_planned_start :: "instant option"
  pl_planned_end :: "instant option"
  pl_site_plan :: string
  pl_penetration_plan :: string
  pl_auth_doc_no :: string
  pl_auth_start :: "instant option"
  pl_auth_end :: "instant option"
  pl_auth_scope :: string
  pl_test_scope :: string
  pl_test_window :: string
  pl_emergency_contact :: string
  pl_rollback_plan :: string
  pl_personnel :: "json option"
  pl_equipment :: "json option"
  pl_updated_at :: instant
  pl_updated_by :: string

record reservation_row =
  rs_tenant :: string
  rs_resource :: string
  rs_use_date :: instant
  rs_item :: string
  rs_window_start :: instant
  rs_window_end :: instant
  rs_created_at :: instant

record capability_row =
  cp_id :: string
  cp_tenant :: string
  cp_type :: string
  cp_resource :: string
  cp_name :: string
  cp_codes :: "string list"
  cp_valid_from :: "instant option"
  cp_valid_until :: "instant option"
  cp_status :: string
  cp_usage :: string
  cp_user :: string
  cp_identity :: string

record evidence_row =
  ev_tenant :: string
  ev_item :: string
  ev_kind :: string
  ev_file :: artifact
  ev_created_by :: string
  ev_created_at :: instant

record package_row =
  pk_id :: string
  pk_tenant :: string
  pk_project :: string
  pk_parent :: string
  pk_decision :: string
  pk_contact :: string
  pk_communicated_at :: "instant option"
  pk_summary :: string
  pk_change_reason :: string
  pk_planned_start :: "instant option"
  pk_planned_end :: "instant option"
  pk_engineers :: "string list"
  pk_auth_doc_no :: string
  pk_auth_start :: "instant option"
  pk_auth_end :: "instant option"
  pk_auth_scope :: string
  pk_test_scope :: string
  pk_test_window :: string
  pk_emergency_contact :: string
  pk_rollback_plan :: string
  pk_execution :: string
  pk_report_status :: string
  pk_report_revision :: nat
  pk_version :: nat
  pk_created_at :: instant
  pk_updated_at :: instant
  pk_updated_by :: string

record package_event_row =
  pe_tenant :: string
  pe_package :: string
  pe_type :: string
  pe_actor :: string
  pe_key :: string
  pe_payload :: json
  pe_created_at :: instant

text \<open>
  A notification carried by an event (\<open>domain.NotificationMessage\<close>), the deferred one resolved
  by role (\<open>domain.RoleNotification\<close>), and the event itself (\<open>domain.DeliveryEvent\<close>).
\<close>

record notification =
  nt_event_id :: string
  nt_event_type :: string
  nt_scope :: string
  nt_priority :: string
  nt_title :: string
  nt_content :: string
  nt_reference_type :: string
  nt_reference_id :: string
  nt_recipients :: "string list"
  nt_occurred_at :: instant
  nt_key :: string

record role_notification =
  rn_message :: notification
  rn_roles :: "string list"

record delivery_event =
  de_id :: string
  de_tenant :: string
  de_project :: string
  de_item :: string
  de_type :: event_type
  de_actor :: string
  de_payload :: payload
  de_created_at :: instant
  de_operation :: string
  de_captured_at :: "instant option"
  de_notification :: "notification option"
  de_role_notification :: "role_notification option"

record event_row =
  er_id :: string
  er_tenant :: string
  er_project :: string
  er_item :: string
  er_type :: event_type
  er_actor :: string
  er_operation :: "string option"
  er_captured_at :: "instant option"
  er_payload :: payload
  er_created_at :: instant

record outbox_row =
  ob_id :: nat
  ob_event_id :: string
  ob_tenant :: string
  ob_key :: string
  ob_event_type :: string
  ob_aggregate_type :: string
  ob_aggregate :: string
  ob_message :: notification
  ob_status :: string
  ob_retry_count :: nat
  ob_next_retry_at :: "instant option"
  ob_locked_by :: string
  ob_locked_until :: "instant option"
  ob_error :: string
  ob_created_at :: instant
  ob_sent_at :: "instant option"

record audit_row =
  au_tenant :: string
  au_actor :: "string option"
  au_actor_type :: string
  au_action :: string
  au_resource_type :: string
  au_resource :: string
  au_result :: string
  au_delivery_status :: string

record rule =
  ru_id :: nat
  ru_tenant :: string
  ru_kind :: string
  ru_name :: string
  ru_check_type :: string
  ru_threshold :: string
  ru_trigger :: string
  ru_target :: string
  ru_status :: string
  ru_deadline_hours :: int
  ru_remind_hours :: int
  ru_enabled :: bool

record warning =
  wn_conflicts :: "string list"
  wn_rules :: "string list"
  wn_threshold :: nat

record effects =
  ef_id :: string
  ef_event :: delivery_event
  ef_targets :: "string list"
  ef_warning :: "warning option"
  ef_role_notification :: "role_notification option"

text \<open>A job of the effects outbox; a payload that does not decode is \<open>None\<close>.\<close>

record effects_row =
  ex_id :: nat
  ex_tenant :: string
  ex_source :: string
  ex_effects :: "effects option"
  ex_status :: string
  ex_retry_count :: nat
  ex_next_retry_at :: "instant option"
  ex_locked_by :: string
  ex_locked_until :: "instant option"
  ex_error :: string
  ex_created_at :: instant
  ex_completed_at :: "instant option"

record import_binding =
  ib_tenant :: string
  ib_source :: string
  ib_contract :: string
  ib_project :: string

subsection \<open>The store\<close>

text \<open>
  Besides the tables, three counters for the auto-increment keys. \<open>st_pending_scopes\<close> holds the
  (tenant, project) pairs with a pending change of a native scope.
\<close>

record store =
  st_items :: "service_item list"
  st_projects :: "project_row list"
  st_events :: "event_row list"
  st_revisions :: "revision_row list"
  st_plans :: "plan_row list"
  st_reservations :: "reservation_row list"
  st_capabilities :: "capability_row list"
  st_evidence :: "evidence_row list"
  st_packages :: "package_row list"
  st_package_events :: "package_event_row list"
  st_outbox :: "outbox_row list"
  st_audit :: "audit_row list"
  st_automations :: "rule list"
  st_warning_rules :: "rule list"
  st_effects :: "effects_row list"
  st_bindings :: "import_binding list"
  st_pending_scopes :: "(string \<times> string) list"
  st_next_revision :: nat
  st_next_outbox :: nat
  st_next_effects :: nat

text \<open>
  Rows of service items are deleted softly: every statement of GORM on them but the insertion
  sees the rows whose \<open>archived_at\<close> is NULL.
\<close>

definition item_live :: "service_item \<Rightarrow> bool" where
  "item_live i \<longleftrightarrow> it_archived_at i = None"

definition item_key :: "string \<Rightarrow> string \<Rightarrow> service_item \<Rightarrow> bool" where
  "item_key tenant key i \<longleftrightarrow> it_tenant i = tenant \<and> it_id i = key \<and> item_live i"

definition find_item :: "store \<Rightarrow> string \<Rightarrow> string \<Rightarrow> service_item option" where
  "find_item s tenant key = find (item_key tenant key) (st_items s)"

definition project_key :: "string \<Rightarrow> string \<Rightarrow> project_row \<Rightarrow> bool" where
  "project_key tenant key p \<longleftrightarrow> pj_tenant p = tenant \<and> pj_id p = key"

definition find_project :: "store \<Rightarrow> string \<Rightarrow> string \<Rightarrow> project_row option" where
  "find_project s tenant key = find (project_key tenant key) (st_projects s)"

text \<open>The rows the unique keys of the schema allow.\<close>

definition keys_ok :: "store \<Rightarrow> bool" where
  "keys_ok s \<longleftrightarrow>
     distinct (map it_id (st_items s)) \<and>
     distinct (map pj_id (st_projects s)) \<and>
     distinct (map er_id (st_events s)) \<and>
     distinct (map rv_id (st_revisions s)) \<and>
     (\<forall>r \<in> set (st_revisions s). rv_id r < st_next_revision s) \<and>
     distinct (map (\<lambda>r. (rv_tenant r, rv_subject_type r, rv_subject r, rv_revision r)) (st_revisions s)) \<and>
     distinct (map (\<lambda>p. (pl_tenant p, pl_item p)) (st_plans s)) \<and>
     distinct (map (\<lambda>r. (rs_tenant r, rs_resource r, rs_use_date r)) (st_reservations s)) \<and>
     distinct (map cp_id (st_capabilities s)) \<and>
     distinct (map (\<lambda>e. (ev_tenant e, af_file_id (ev_file e))) (st_evidence s)) \<and>
     distinct (map pk_id (st_packages s)) \<and>
     distinct (map (\<lambda>p. (pk_tenant p, pk_parent p)) (st_packages s)) \<and>
     distinct (map (\<lambda>e. (pe_tenant e, pe_key e)) (st_package_events s))"

subsection \<open>Inputs of a transaction\<close>

text \<open>
  What a transaction reads from outside the database: the business zone, the wall clock
  (\<open>time.Now().UTC()\<close>), the role codes of the embedded authorization catalog, the identifier
  the transaction draws with \<open>ulid.Make()\<close>, and the collation of the resource-id columns: MySQL
  compares them without regard to case and accents, so equality there is equality of
  collation keys.
\<close>

record env =
  env_zone :: zone
  env_clock :: instant
  env_roles :: "string list"
  env_ulid :: string
  env_fold :: "string \<Rightarrow> string"

definition sql_eq :: "env \<Rightarrow> string \<Rightarrow> string \<Rightarrow> bool" where
  "sql_eq env a b \<longleftrightarrow> env_fold env a = env_fold env b"

lemma sql_eq_refl [simp]: "sql_eq env a a"
  by (simp add: sql_eq_def)

lemma sql_eq_sym: "sql_eq env a b \<Longrightarrow> sql_eq env b a"
  by (simp add: sql_eq_def)

text \<open>A status constant compared as a literal in the SQL-facing code.\<close>

definition SubjectServiceItem :: string where
  "SubjectServiceItem = ''SERVICE_ITEM''"

definition SubjectPenetration :: string where
  "SubjectPenetration = ''PENETRATION_WORK_PACKAGE''"

lemma subjects_differ [simp]:
  "SubjectServiceItem \<noteq> SubjectPenetration" "SubjectPenetration \<noteq> SubjectServiceItem"
  by (simp_all add: SubjectServiceItem_def SubjectPenetration_def)

section \<open>Sample data\<close>

text \<open>An empty store, a blank item and event, and an environment, for the witnesses.\<close>

definition empty_store :: store where
  "empty_store = \<lparr>st_items = [], st_projects = [], st_events = [], st_revisions = [], st_plans = [],
     st_reservations = [], st_capabilities = [], st_evidence = [], st_packages = [],
     st_package_events = [], st_outbox = [], st_audit = [], st_automations = [],
     st_warning_rules = [], st_effects = [], st_bindings = [], st_pending_scopes = [],
     st_next_revision = 1, st_next_outbox = 1, st_next_effects = 1\<rparr>"

definition sample_env :: env where
  "sample_env = \<lparr>env_zone = fixed_cst, env_clock = 0, env_roles = [''pm''], env_ulid = ''U1'',
     env_fold = to_lower\<rparr>"

definition sample_item :: service_item where
  "sample_item = \<lparr>it_id = ''SI-1'', it_tenant = ''T1'', it_project = ''PJ-1'',
     it_source_service = [], it_batch = [], it_site = [], it_site_code = [], it_category = [],
     it_requirement = [], it_system = [], it_system_level = [], it_system_standard = [],
     it_special = [], it_test_mode = ''STANDARD'', it_team_lead = [], it_manager = [],
     it_engineers = JNull, it_equipment = JNull, it_codes = JNull, it_planned_start = None,
     it_planned_end = None, it_conflict = ''UNCHECKED'', it_tech_status = ''NONE'',
     it_tech_at = None, it_tech_by = [], it_tech_comment = [], it_report_status = [],
     it_report_at = None, it_report_by = [], it_report_revision = 0, it_prepared_by = [],
     it_reviewed_by = [], it_issued_by = [], it_status = ProjectStatusPendingAllocation,
     it_status_changed_at = None, it_version = 1, it_created_at = 0, it_updated_at = 0,
     it_updated_by = [], it_archived_at = None\<rparr>"

definition sample_project :: project_row where
  "sample_project = \<lparr>pj_id = ''PJ-1'', pj_tenant = ''T1'', pj_source_kind = ''CONTRACT'',
     pj_source_id = [], pj_scope_version = 0, pj_owner_org = [], pj_name = [], pj_customer = [],
     pj_customer_id = [], pj_contract = [], pj_contract_id = [], pj_contract_version = [],
     pj_supplement = ''NONE'', pj_services = 1, pj_category = [], pj_team = [], pj_manager = [],
     pj_owner_identity = [], pj_manager_identity = [], pj_status = ProjectStatusPendingAllocation,
     pj_progress = 0, pj_due = [], pj_created_at = 0, pj_updated_at = 0, pj_version = 1\<rparr>"

definition sample_event :: "string \<Rightarrow> event_type \<Rightarrow> string \<Rightarrow> payload \<Rightarrow> delivery_event" where
  "sample_event i ty actor p = \<lparr>de_id = i, de_tenant = ''T1'', de_project = ''PJ-1'',
     de_item = ''SI-1'', de_type = ty, de_actor = actor, de_payload = p, de_created_at = 0,
     de_operation = [], de_captured_at = None, de_notification = None,
     de_role_notification = None\<rparr>"

definition sample_master :: capability_row where
  "sample_master = \<lparr>cp_id = ''C1'', cp_tenant = ''T1'', cp_type = ''EQUIPMENT'',
     cp_resource = ''EQ-1'', cp_name = ''scanner'', cp_codes = [], cp_valid_from = None,
     cp_valid_until = None, cp_status = ''ACTIVE'', cp_usage = ''ANY'', cp_user = [],
     cp_identity = []\<rparr>"

definition sample_resource :: plan_resource where
  "sample_resource = \<lparr>pr_type = ''EQUIPMENT'', pr_id = ''eq-1'', pr_name = ''scanner'',
     pr_codes = [], pr_valid_until = [], pr_start = ''2026-01-05'', pr_end = ''2026-01-07'',
     pr_note = [], pr_returned = []\<rparr>"

definition sample_plan :: plan_row where
  "sample_plan = \<lparr>pl_tenant = ''T1'', pl_item = ''SI-1'', pl_planned_start = None,
     pl_planned_end = None, pl_site_plan = [], pl_penetration_plan = [], pl_auth_doc_no = [],
     pl_auth_start = None, pl_auth_end = None, pl_auth_scope = [], pl_test_scope = [],
     pl_test_window = [], pl_emergency_contact = [], pl_rollback_plan = [], pl_personnel = None,
     pl_equipment = Some (encode_resources [sample_resource\<lparr>pr_id := ''EQ-1''\<rparr>]),
     pl_updated_at = 0, pl_updated_by = []\<rparr>"

end
