(* ===== verification/ReportLedger.thy ===== *)
theory ReportLedger
  imports Store
begin

text \<open>
  The report ledger (\<open>infrastructure/mysql/delivery_report.go\<close> and \<open>reworkReportRevision\<close> of
  \<open>delivery.go\<close>): the revisions of the main report of a service item, the four-eyes rule on
  them, evidence files, and the checks that a rollback or a correction is decided once, by
  someone else than its author.
\<close>

section \<open>Revisions\<close>

definition new_revision ::
  "string \<Rightarrow> string \<Rightarrow> string \<Rightarrow> string \<Rightarrow> nat \<Rightarrow> string \<Rightarrow> instant \<Rightarrow> revision_row" where
  "new_revision tenant item subject_type subject revision status now =
     \<lparr>rv_id = 0, rv_tenant = tenant, rv_item = item, rv_subject_type = subject_type,
      rv_subject = subject, rv_revision = revision, rv_status = status, rv_validity = ''ACTIVE'',
      rv_correction_request = [], rv_correction_reason = [], rv_file_id = [], rv_file_name = [],
      rv_file_mime = [], rv_file_size = 0, rv_file_sha256 = [], rv_prepared_by = [],
      rv_prepared_at = None, rv_reviewed_by = [], rv_reviewed_at = None, rv_issued_by = [],
      rv_issued_at = None, rv_archived_by = [], rv_archived_at = None, rv_invalidated_by = [],
      rv_invalidated_at = None, rv_created_at = now, rv_updated_at = now\<rparr>"

definition revision_key :: "string \<Rightarrow> string \<Rightarrow> string \<Rightarrow> nat \<Rightarrow> revision_row \<Rightarrow> bool" where
  "revision_key tenant subject_type subject revision r \<longleftrightarrow>
     rv_tenant r = tenant \<and> rv_subject_type r = subject_type \<and> rv_subject r = subject \<and>
     rv_revision r = revision"

text \<open>An insertion takes the next auto-increment id and is refused on a duplicate key.\<close>

definition insert_revision :: "revision_row \<Rightarrow> store \<Rightarrow> app_error + store" where
  "insert_revision r s =
     (if list_ex (revision_key (rv_tenant r) (rv_subject_type r) (rv_subject r) (rv_revision r))
           (st_revisions s)
      then Inl ErrStorage
      else Inr (s\<lparr>st_revisions := st_revisions s @ [r\<lparr>rv_id := st_next_revision s\<rparr>],
                 st_next_revision := Suc (st_next_revision s)\<rparr>))"

abbreviation item_revision :: "service_item \<Rightarrow> nat \<Rightarrow> revision_row \<Rightarrow> bool" where
  "item_revision item n \<equiv> revision_key (it_tenant item) SubjectServiceItem (it_id item) n"

definition allowedReportPhase :: "string \<Rightarrow> bool" where
  "allowedReportPhase phase \<longleftrightarrow> 0 < ReportPhaseRank phase"

definition ensureReportRevision :: "service_item \<Rightarrow> instant \<Rightarrow> store \<Rightarrow> app_error + store" where
  "ensureReportRevision item now s =
     (if 0 < count_where (item_revision item (it_report_revision item)) (st_revisions s) then Inr s
      else let status = to_upper (trim_space (it_report_status item));
               status = (if ReportPhaseRank status \<le> 0 then ''NONE'' else status)
           in insert_revision
                (new_revision (it_tenant item) (it_id item) SubjectServiceItem (it_id item)
                   (it_report_revision item) status now) s)"

definition lockReportRevision ::
  "env \<Rightarrow> service_item \<Rightarrow> store \<Rightarrow> app_error + (store \<times> revision_row)" where
  "lockReportRevision env item s =
     rbind (ensureReportRevision item (env_clock env) s) (\<lambda>s.
       case find (item_revision item (it_report_revision item)) (st_revisions s) of
         None \<Rightarrow> Inl ErrStorage | Some r \<Rightarrow> Inr (s, r))"

text \<open>
  The phase a revision advances to decides which duty is recorded: the result is the update of
  the row, or the refusal.
\<close>

definition advance_updates ::
  "revision_row \<Rightarrow> string \<Rightarrow> delivery_event \<Rightarrow> app_error + (revision_row \<Rightarrow> revision_row)" where
  "advance_updates revision phase event =
     (let actor = trim_space (de_actor event);
          now = de_created_at event;
          base = (\<lambda>r. r\<lparr>rv_status := phase, rv_updated_at := now\<rparr>)
      in if actor = [] then Inl ErrValidation
         else if phase = ''RECTIFYING'' then Inr base
         else if phase = ''COMPILING''
         then Inr (\<lambda>r. base (r\<lparr>rv_prepared_by := actor, rv_prepared_at := Some now\<rparr>))
         else if phase = ''REVIEWED''
         then if rv_prepared_by revision = [] \<or> actor = rv_prepared_by revision
              then Inl ErrPrecondition
              else if blank (rv_file_id revision) \<or> blank (rv_file_sha256 revision)
              then Inl ErrPrecondition
              else Inr (\<lambda>r. base (r\<lparr>rv_reviewed_by := actor, rv_reviewed_at := Some now\<rparr>))
         else if phase = ''ISSUED''
         then if rv_reviewed_by revision = [] \<or> actor = rv_prepared_by revision
                 \<or> actor = rv_reviewed_by revision
              then Inl ErrPrecondition
              else Inr (\<lambda>r. base (r\<lparr>rv_issued_by := actor, rv_issued_at := Some now\<rparr>))
         else if phase = ''ARCHIVED''
         then if rv_issued_by revision = [] then Inl ErrPrecondition
              else Inr (\<lambda>r. base (r\<lparr>rv_archived_by := actor, rv_archived_at := Some now\<rparr>))
         else Inl ErrValidation)"

text \<open>A conditional update that must hit exactly one row.\<close>

definition update_revision ::
  "(revision_row \<Rightarrow> bool) \<Rightarrow> (revision_row \<Rightarrow> revision_row) \<Rightarrow> store \<Rightarrow> app_error + store" where
  "update_revision P f s =
     (if count_where P (st_revisions s) \<noteq> 1 then Inl ErrConflict
      else Inr (s\<lparr>st_revisions := update_where P f (st_revisions s)\<rparr>))"

definition advanceReportRevision ::
  "revision_row \<Rightarrow> string \<Rightarrow> delivery_event \<Rightarrow> store \<Rightarrow> app_error + store" where
  "advanceReportRevision revision phase event s =
     rbind (advance_updates revision phase event) (\<lambda>f.
       update_revision
         (\<lambda>r. rv_id r = rv_id revision \<and> rv_status r = rv_status revision \<and>
              rv_validity r = ''ACTIVE'') f s)"

definition invalidateAndCreateReportRevision ::
  "env \<Rightarrow> service_item \<Rightarrow> delivery_event \<Rightarrow> store \<Rightarrow> app_error + store" where
  "invalidateAndCreateReportRevision env item event s =
     rbind (lockReportRevision env item s) (\<lambda>(s, current).
       if rv_validity current \<noteq> ''ACTIVE'' then Inl ErrConflict
       else rbind (update_revision (\<lambda>r. rv_id r = rv_id current \<and> rv_validity r = ''ACTIVE'')
              (\<lambda>r. r\<lparr>rv_validity := ''VOID'', rv_invalidated_by := de_actor event,
                     rv_invalidated_at := Some (de_created_at event),
                     rv_updated_at := de_created_at event\<rparr>) s) (\<lambda>s.
         insert_revision
           (new_revision (it_tenant item) (it_id item) SubjectServiceItem (it_id item)
              (it_report_revision item + 1) ''NONE'' (de_created_at event)
            \<lparr>rv_correction_request := stringValue (de_payload event) ''request_id'',
             rv_correction_reason := stringValue (de_payload event) ''reason''\<rparr>) s))"

definition reworkReportRevision ::
  "service_item \<Rightarrow> delivery_event \<Rightarrow> store \<Rightarrow> app_error + store" where
  "reworkReportRevision item event s =
     (let s = s\<lparr>st_revisions := update_where
                 (\<lambda>r. item_revision item (it_report_revision item) r \<and> rv_validity r = ''ACTIVE'')
                 (\<lambda>r. r\<lparr>rv_validity := ''SUPERSEDED'', rv_updated_at := de_created_at event\<rparr>)
                 (st_revisions s)\<rparr>
      in if 0 < count_where (item_revision item (it_report_revision item + 1)) (st_revisions s)
         then Inr s
         else insert_revision
                (new_revision (it_tenant item) (it_id item) SubjectServiceItem (it_id item)
                   (it_report_revision item + 1) ''NONE'' (de_created_at event)) s)"

definition RegisterReportArtifact ::
  "string \<Rightarrow> string \<Rightarrow> nat \<Rightarrow> artifact \<Rightarrow> instant \<Rightarrow> store \<Rightarrow> app_error + store" where
  "RegisterReportArtifact tenant itemID revision input now s =
     (case find_item s tenant itemID of None \<Rightarrow> Inl ErrNotFound
      | Some item \<Rightarrow>
          if it_report_revision item \<noteq> revision \<or>
             (it_report_status item \<noteq> ''COMPILING'' \<and> it_report_status item \<noteq> ''NONE'')
          then Inl ErrPrecondition
          else rbind (ensureReportRevision item now s) (\<lambda>s.
            update_revision
              (\<lambda>r. revision_key tenant SubjectServiceItem itemID revision r \<and>
                   rv_validity r = ''ACTIVE'')
              (\<lambda>r. r\<lparr>rv_file_id := af_file_id input, rv_file_name := af_name input,
                     rv_file_mime := af_mime input, rv_file_size := af_size input,
                     rv_file_sha256 := af_sha256 input, rv_updated_at := now\<rparr>) s))"

section \<open>Evidence files\<close>

definition evidenceFileReuseError :: "string \<Rightarrow> string \<Rightarrow> app_error + unit" where
  "evidenceFileReuseError existingServiceItemID serviceItemID =
     (if existingServiceItemID = serviceItemID then Inr () else Inl ErrValidation)"

definition evidence_key :: "string \<Rightarrow> string \<Rightarrow> evidence_row \<Rightarrow> bool" where
  "evidence_key tenant file e \<longleftrightarrow> ev_tenant e = tenant \<and> af_file_id (ev_file e) = file"

fun persist_files ::
  "service_item \<Rightarrow> delivery_event \<Rightarrow> string \<Rightarrow> artifact list \<Rightarrow> store \<Rightarrow> app_error + store" where
  "persist_files item event kind [] s = Inr s"
| "persist_files item event kind (file # files) s =
     (case find (evidence_key (it_tenant item) (af_file_id file)) (st_evidence s) of
        Some existing \<Rightarrow>
          rbind (evidenceFileReuseError (ev_item existing) (it_id item))
            (\<lambda>_. persist_files item event kind files s)
      | None \<Rightarrow>
          persist_files item event kind files
            (s\<lparr>st_evidence := st_evidence s @
                 [\<lparr>ev_tenant = it_tenant item, ev_item = it_id item, ev_kind = kind, ev_file = file,
                   ev_created_by = de_actor event, ev_created_at = de_created_at event\<rparr>]\<rparr>))"

definition persistEvidenceFiles ::
  "service_item \<Rightarrow> delivery_event \<Rightarrow> string \<Rightarrow> store \<Rightarrow> app_error + store" where
  "persistEvidenceFiles item event kind s =
     (case jsonBytes (de_payload event) ''evidence_files'' of
        None \<Rightarrow> Inr s
      | Some raw \<Rightarrow>
          (case json_list decode_artifact raw of
             None \<Rightarrow> Inl ErrValidation
           | Some files \<Rightarrow> persist_files item event kind files s))"

section \<open>Decisions on requests\<close>

definition find_request ::
  "store \<Rightarrow> service_item \<Rightarrow> event_type \<Rightarrow> string \<Rightarrow> event_row option" where
  "find_request s item kind requestID =
     find (\<lambda>e. er_tenant e = it_tenant item \<and> er_id e = requestID \<and> er_item e = it_id item \<and>
               er_type e = kind) (st_events s)"

definition decisions ::
  "store \<Rightarrow> string \<Rightarrow> event_type list \<Rightarrow> string \<Rightarrow> event_row list" where
  "decisions s tenant kinds requestID =
     filter (\<lambda>e. er_tenant e = tenant \<and> List.member kinds (er_type e) \<and>
                 raw_string (er_payload e) ''request_id'' = requestID) (st_events s)"

definition rollback_decisions :: "event_type list" where
  "rollback_decisions = [EventRollbackApproved, EventRollbackRejected, EventRollbackWithdrawn]"

definition correction_decisions :: "event_type list" where
  "correction_decisions = [EventReportCorrectionApproved, EventReportCorrectionRejected]"

definition validateRollbackApproval ::
  "store \<Rightarrow> service_item \<Rightarrow> delivery_event \<Rightarrow> app_error + unit" where
  "validateRollbackApproval s item event =
     (let requestID = stringValue (de_payload event) ''request_id''
      in if requestID = [] then Inl ErrValidation
         else case find_request s item EventRollbackRequested requestID of
             None \<Rightarrow> Inl ErrNotFound
           | Some request \<Rightarrow>
               if er_actor request = de_actor event then Inl ErrForbidden
               else if stringValue (de_payload event) ''kind'' = [] then Inl ErrValidation
               else if decisions s (it_tenant item) rollback_decisions requestID \<noteq> []
               then Inl ErrConflict else Inr ())"

definition validateRollbackWithdrawal ::
  "store \<Rightarrow> service_item \<Rightarrow> delivery_event \<Rightarrow> app_error + unit" where
  "validateRollbackWithdrawal s item event =
     (let requestID = stringValue (de_payload event) ''request_id''
      in if requestID = [] then Inl ErrValidation
         else case find_request s item EventRollbackRequested requestID of
             None \<Rightarrow> Inl ErrNotFound
           | Some request \<Rightarrow>
               if er_actor request \<noteq> de_actor event then Inl ErrForbidden
               else if decisions s (it_tenant item) rollback_decisions requestID \<noteq> []
               then Inl ErrConflict else Inr ())"

definition validateReportCorrectionApproval ::
  "store \<Rightarrow> service_item \<Rightarrow> delivery_event \<Rightarrow> app_error + unit" where
  "validateReportCorrectionApproval s item event =
     (let requestID = stringValue (de_payload event) ''request_id''
      in if requestID = [] then Inl ErrValidation
         else case find_request s item EventReportCorrectionRequested requestID of
             None \<Rightarrow> Inl ErrNotFound
           | Some request \<Rightarrow>
               if er_actor request = de_actor event then Inl ErrForbidden
               else if decisions s (it_tenant item) correction_decisions requestID \<noteq> []
               then Inl ErrConflict else Inr ())"

section \<open>What the operations do\<close>

lemma insert_revision_Inr [res_simps]:
  "insert_revision r s = Inr t \<longleftrightarrow>
     (\<forall>q \<in> set (st_revisions s).
        \<not> revision_key (rv_tenant r) (rv_subject_type r) (rv_subject r) (rv_revision r) q) \<and>
     t = s\<lparr>st_revisions := st_revisions s @ [r\<lparr>rv_id := st_next_revision s\<rparr>],
           st_next_revision := Suc (st_next_revision s)\<rparr>"
  by (auto simp: insert_revision_def list_ex_iff)

lemma update_revision_Inr [res_simps]:
  "update_revision P f s = Inr t \<longleftrightarrow>
     count_where P (st_revisions s) = 1 \<and>
     t = s\<lparr>st_revisions := update_where P f (st_revisions s)\<rparr>"
  by (auto simp: update_revision_def)

text \<open>The operations of the ledger leave every other table alone.\<close>

definition same_but_revisions :: "store \<Rightarrow> store \<Rightarrow> bool" where
  "same_but_revisions s t \<longleftrightarrow>
     t = s\<lparr>st_revisions := st_revisions t, st_next_revision := st_next_revision t\<rparr>"

lemma same_but_revisions_refl [simp]: "same_but_revisions s s"
  by (simp add: same_but_revisions_def)

lemma same_but_revisions_upd [simp]:
  "same_but_revisions s (s\<lparr>st_revisions := rs\<rparr>)"
  "same_but_revisions s (s\<lparr>st_revisions := rs, st_next_revision := n\<rparr>)"
  by (simp_all add: same_but_revisions_def)

lemma same_but_revisions_trans [trans]:
  "same_but_revisions s t \<Longrightarrow> same_but_revisions t u \<Longrightarrow> same_but_revisions s u"
  unfolding same_but_revisions_def by (cases s; cases t; cases u) simp

lemma same_but_revisions_fields:
  assumes "same_but_revisions s t"
  shows "st_items t = st_items s" "st_projects t = st_projects s" "st_events t = st_events s"
    "st_plans t = st_plans s" "st_reservations t = st_reservations s"
    "st_capabilities t = st_capabilities s" "st_evidence t = st_evidence s"
    "st_packages t = st_packages s" "st_package_events t = st_package_events s"
    "st_outbox t = st_outbox s" "st_pending_scopes t = st_pending_scopes s"
  using assms unfolding same_but_revisions_def by (cases s; cases t; simp)+

lemma ensure_frame: "ensureReportRevision item now s = Inr t \<Longrightarrow> same_but_revisions s t"
  by (auto simp: ensureReportRevision_def Let_def res_simps split: if_splits)

lemma lock_frame: "lockReportRevision env item s = Inr (t, r) \<Longrightarrow> same_but_revisions s t"
  by (auto simp: lockReportRevision_def res_simps ensure_frame split: option.splits)

lemma advance_frame: "advanceReportRevision r phase event s = Inr t \<Longrightarrow> same_but_revisions s t"
  by (auto simp: advanceReportRevision_def res_simps)

lemma invalidate_frame:
  "invalidateAndCreateReportRevision env item event s = Inr t \<Longrightarrow> same_but_revisions s t"
  unfolding invalidateAndCreateReportRevision_def
  by (auto simp: res_simps dest!: lock_frame elim!: same_but_revisions_trans)

lemma rework_frame: "reworkReportRevision item event s = Inr t \<Longrightarrow> same_but_revisions s t"
  by (auto simp: reworkReportRevision_def Let_def res_simps split: if_splits)

lemma persist_files_frame:
  "persist_files item event kind files s = Inr t \<Longrightarrow> \<exists>es. t = s\<lparr>st_evidence := es\<rparr>"
proof (induction item event kind files s rule: persist_files.induct)
  case (1 item event kind s)
  then have "t = s\<lparr>st_evidence := st_evidence s\<rparr>" by simp
  then show ?case ..
next
  case (2 item event kind a files s)
  then show ?case by (fastforce simp: res_simps split: option.splits)
qed

lemma persistEvidence_frame:
  "persistEvidenceFiles item event kind s = Inr t \<Longrightarrow> \<exists>es. t = s\<lparr>st_evidence := es\<rparr>"
proof -
  have "\<exists>es. s = s\<lparr>st_evidence := es\<rparr>" by (rule exI [of _ "st_evidence s"]) simp
  then show "persistEvidenceFiles item event kind s = Inr t \<Longrightarrow> ?thesis"
    by (auto simp: persistEvidenceFiles_def dest: persist_files_frame split: option.splits)
qed

section \<open>The four-eyes rule on a row\<close>

text \<open>
  A duty is recorded on a revision only from its phase on; the reviewer is not the author, the
  signatory is neither, and what was reviewed is a registered file.
\<close>

definition duties_separate :: "revision_row \<Rightarrow> bool" where
  "duties_separate r \<longleftrightarrow>
     (rv_reviewed_by r \<noteq> [] \<longrightarrow> rv_prepared_by r \<noteq> [] \<and> rv_reviewed_by r \<noteq> rv_prepared_by r) \<and>
     (rv_issued_by r \<noteq> [] \<longrightarrow> rv_reviewed_by r \<noteq> [] \<and> rv_issued_by r \<noteq> rv_prepared_by r \<and>
        rv_issued_by r \<noteq> rv_reviewed_by r) \<and>
     (rv_archived_by r \<noteq> [] \<longrightarrow> rv_issued_by r \<noteq> [])"

definition duties_timely :: "revision_row \<Rightarrow> bool" where
  "duties_timely r \<longleftrightarrow>
     0 \<le> ReportPhaseRank (rv_status r) \<and>
     (rv_prepared_by r \<noteq> [] \<longrightarrow> 2 \<le> ReportPhaseRank (rv_status r)) \<and>
     (rv_reviewed_by r \<noteq> [] \<longrightarrow> 3 \<le> ReportPhaseRank (rv_status r)) \<and>
     (rv_issued_by r \<noteq> [] \<longrightarrow> 4 \<le> ReportPhaseRank (rv_status r)) \<and>
     (rv_archived_by r \<noteq> [] \<longrightarrow> 5 \<le> ReportPhaseRank (rv_status r))"

definition reviewed_has_file :: "revision_row \<Rightarrow> bool" where
  "reviewed_has_file r \<longleftrightarrow>
     (rv_reviewed_by r \<noteq> [] \<longrightarrow> \<not> blank (rv_file_id r) \<and> \<not> blank (rv_file_sha256 r))"

definition revision_ok :: "revision_row \<Rightarrow> bool" where
  "revision_ok r \<longleftrightarrow>
     (rv_subject_type r = SubjectServiceItem \<longrightarrow>
        duties_separate r \<and> duties_timely r \<and> reviewed_has_file r)"

lemmas revision_ok_defs = revision_ok_def duties_separate_def duties_timely_def reviewed_has_file_def

lemma new_revision_ok:
  "0 \<le> ReportPhaseRank status \<Longrightarrow> revision_ok (new_revision tenant item st sub n status now)"
  by (simp add: revision_ok_defs new_revision_def)

lemma advance_updates_Inr:
  "advance_updates r ''RECTIFYING'' event = Inr f \<longleftrightarrow>
     \<not> blank (de_actor event) \<and>
     f = (\<lambda>r. r\<lparr>rv_status := ''RECTIFYING'', rv_updated_at := de_created_at event\<rparr>)"
  "advance_updates r ''COMPILING'' event = Inr f \<longleftrightarrow>
     \<not> blank (de_actor event) \<and>
     f = (\<lambda>r. r\<lparr>rv_prepared_by := trim_space (de_actor event),
              rv_prepared_at := Some (de_created_at event), rv_status := ''COMPILING'',
              rv_updated_at := de_created_at event\<rparr>)"
  "advance_updates r ''REVIEWED'' event = Inr f \<longleftrightarrow>
     \<not> blank (de_actor event) \<and>
     rv_prepared_by r \<noteq> [] \<and> trim_space (de_actor event) \<noteq> rv_prepared_by r \<and>
     \<not> blank (rv_file_id r) \<and> \<not> blank (rv_file_sha256 r) \<and>
     f = (\<lambda>r. r\<lparr>rv_reviewed_by := trim_space (de_actor event),
              rv_reviewed_at := Some (de_created_at event), rv_status := ''REVIEWED'',
              rv_updated_at := de_created_at event\<rparr>)"
  "advance_updates r ''ISSUED'' event = Inr f \<longleftrightarrow>
     \<not> blank (de_actor event) \<and>
     rv_reviewed_by r \<noteq> [] \<and> trim_space (de_actor event) \<noteq> rv_prepared_by r \<and>
     trim_space (de_actor event) \<noteq> rv_reviewed_by r \<and>
     f = (\<lambda>r. r\<lparr>rv_issued_by := trim_space (de_actor event),
              rv_issued_at := Some (de_created_at event), rv_status := ''ISSUED'',
              rv_updated_at := de_created_at event\<rparr>)"
  "advance_updates r ''ARCHIVED'' event = Inr f \<longleftrightarrow>
     \<not> blank (de_actor event) \<and> rv_issued_by r \<noteq> [] \<and>
     f = (\<lambda>r. r\<lparr>rv_archived_by := trim_space (de_actor event),
              rv_archived_at := Some (de_created_at event), rv_status := ''ARCHIVED'',
              rv_updated_at := de_created_at event\<rparr>)"
  by (auto simp: advance_updates_def Let_def)

lemma advance_other:
  "phase \<noteq> ''RECTIFYING'' \<Longrightarrow> phase \<noteq> ''COMPILING'' \<Longrightarrow> phase \<noteq> ''REVIEWED'' \<Longrightarrow> phase \<noteq> ''ISSUED'' \<Longrightarrow>
   phase \<noteq> ''ARCHIVED'' \<Longrightarrow> advance_updates r phase event = Inl ErrValidation"
  by (simp add: advance_updates_def Let_def)

lemma advance_updates_phase:
  "advance_updates r phase event = Inr f \<Longrightarrow>
     phase = ''RECTIFYING'' \<or> phase = ''COMPILING'' \<or> phase = ''REVIEWED'' \<or> phase = ''ISSUED'' \<or>
     phase = ''ARCHIVED''"
  using advance_other [of phase r event] by (metis Inl_Inr_False)

lemma advance_updates_ok:
  assumes f: "advance_updates r phase event = Inr f"
    and rank: "ReportPhaseRank phase = ReportPhaseRank (rv_status r) + 1" and ok: "revision_ok r"
  shows "revision_ok (f r)"
  using advance_updates_phase [OF f]
proof (elim disjE)
  assume [simp]: "phase = ''RECTIFYING''" 
  show ?thesis using f rank ok by (simp add: advance_updates_Inr revision_ok_defs)
next
  assume [simp]: "phase = ''COMPILING''"
  show ?thesis using f rank ok by (auto simp: advance_updates_Inr revision_ok_defs)
next
  assume [simp]: "phase = ''REVIEWED''"
  show ?thesis using f rank ok by (auto simp: advance_updates_Inr revision_ok_defs)
next
  assume [simp]: "phase = ''ISSUED''"
  show ?thesis using f rank ok by (auto simp: advance_updates_Inr revision_ok_defs)
next
  assume [simp]: "phase = ''ARCHIVED''"
  show ?thesis using f rank ok by (auto simp: advance_updates_Inr revision_ok_defs)
qed

lemma advance_updates_fields:
  assumes "advance_updates r phase event = Inr f"
  shows "rv_status (f q) = phase \<and> rv_id (f q) = rv_id q \<and> rv_tenant (f q) = rv_tenant q \<and>
    rv_subject_type (f q) = rv_subject_type q \<and> rv_subject (f q) = rv_subject q \<and>
    rv_revision (f q) = rv_revision q \<and> rv_validity (f q) = rv_validity q"
  using advance_updates_phase [OF assms] assms by (elim disjE) (simp_all add: advance_updates_Inr)

section \<open>The ledger of an item\<close>

definition subject_rows :: "string \<Rightarrow> string \<Rightarrow> revision_row list \<Rightarrow> revision_row list" where
  "subject_rows tenant item rs =
     filter (\<lambda>r. rv_tenant r = tenant \<and> rv_subject_type r = SubjectServiceItem \<and>
                 rv_subject r = item) rs"

text \<open>
  Unique keys, identifiers below the counter, and the rule on duties for every row.
\<close>

definition ledger_keys :: "revision_row list \<Rightarrow> nat \<Rightarrow> bool" where
  "ledger_keys rs n \<longleftrightarrow>
     distinct (map rv_id rs) \<and> (\<forall>r \<in> set rs. rv_id r < n) \<and>
     distinct (map (\<lambda>r. (rv_tenant r, rv_subject_type r, rv_subject r, rv_revision r)) rs)"

definition ledger_inv :: "store \<Rightarrow> bool" where
  "ledger_inv s \<longleftrightarrow> ledger_keys (st_revisions s) (st_next_revision s) \<and>
     (\<forall>r \<in> set (st_revisions s). revision_ok r)"

text \<open>
  The ledger agrees with its item: a report only advances once the field work is complete, the
  revision in force is the greatest, ACTIVE and in the phase of the item, and earlier revisions
  are no longer ACTIVE.
\<close>

definition item_ledger :: "revision_row list \<Rightarrow> service_item \<Rightarrow> bool" where
  "item_ledger rs item \<longleftrightarrow>
     (it_status item \<noteq> ProjectStatusFieldCompleted \<longrightarrow> ReportPhaseRank (it_report_status item) \<le> 0) \<and>
     (it_status item = ProjectStatusFieldCompleted \<longrightarrow>
        (\<exists>r \<in> set (subject_rows (it_tenant item) (it_id item) rs).
           rv_revision r = it_report_revision item)) \<and>
     (\<forall>r \<in> set (subject_rows (it_tenant item) (it_id item) rs).
        rv_revision r \<le> it_report_revision item \<and>
        (rv_revision r < it_report_revision item \<longrightarrow> rv_validity r \<noteq> ''ACTIVE'') \<and>
        (rv_revision r = it_report_revision item \<longrightarrow>
           rv_validity r = ''ACTIVE'' \<and>
           ReportPhaseRank (rv_status r) = max 0 (ReportPhaseRank (it_report_status item))))"

lemma set_subject_rows:
  "r \<in> set (subject_rows tenant item rs) \<longleftrightarrow>
     r \<in> set rs \<and> rv_tenant r = tenant \<and> rv_subject_type r = SubjectServiceItem \<and> rv_subject r = item"
  by (auto simp: subject_rows_def)

lemma subject_rows_append [simp]:
  "subject_rows tenant item (rs @ [r]) =
     subject_rows tenant item rs @
       (if rv_tenant r = tenant \<and> rv_subject_type r = SubjectServiceItem \<and> rv_subject r = item
        then [r] else [])"
  by (simp add: subject_rows_def)

lemma item_revision_iff:
  "item_revision item n r \<longleftrightarrow>
     rv_tenant r = it_tenant item \<and> rv_subject_type r = SubjectServiceItem \<and>
     rv_subject r = it_id item \<and> rv_revision r = n"
  by (simp add: revision_key_def)

lemma new_revision_fields [simp]:
  "rv_tenant (new_revision t i st sub n status now) = t"
  "rv_subject_type (new_revision t i st sub n status now) = st"
  "rv_subject (new_revision t i st sub n status now) = sub"
  "rv_revision (new_revision t i st sub n status now) = n"
  "rv_status (new_revision t i st sub n status now) = status"
  "rv_validity (new_revision t i st sub n status now) = ''ACTIVE''"
  by (simp_all add: new_revision_def)

lemma revision_ok_id [simp]: "revision_ok (r\<lparr>rv_id := n\<rparr>) = revision_ok r"
  by (simp add: revision_ok_defs)

lemma revision_ok_correction [simp]:
  "revision_ok (r\<lparr>rv_correction_request := a, rv_correction_reason := b\<rparr>) = revision_ok r"
  by (simp add: revision_ok_defs)

lemma insert_ledger_inv:
  assumes "insert_revision r s = Inr t" and "ledger_inv s" and "revision_ok r"
  shows "ledger_inv t"
  using assms by (fastforce simp: res_simps ledger_inv_def ledger_keys_def revision_key_def)

text \<open>An update of a row that keeps what identifies it.\<close>

definition keeps_key :: "(revision_row \<Rightarrow> revision_row) \<Rightarrow> bool" where
  "keeps_key f \<longleftrightarrow> (\<forall>r. rv_id (f r) = rv_id r \<and> rv_tenant (f r) = rv_tenant r \<and>
     rv_subject_type (f r) = rv_subject_type r \<and> rv_subject (f r) = rv_subject r \<and>
     rv_revision (f r) = rv_revision r)"

lemma keeps_keyD:
  "keeps_key f \<Longrightarrow> rv_id (f r) = rv_id r" "keeps_key f \<Longrightarrow> rv_tenant (f r) = rv_tenant r"
  "keeps_key f \<Longrightarrow> rv_subject_type (f r) = rv_subject_type r"
  "keeps_key f \<Longrightarrow> rv_subject (f r) = rv_subject r"
  "keeps_key f \<Longrightarrow> rv_revision (f r) = rv_revision r"
  by (simp_all add: keeps_key_def)

lemma advance_keeps_key: "advance_updates r phase event = Inr f \<Longrightarrow> keeps_key f"
  unfolding keeps_key_def using advance_updates_fields [of r phase event f] by blast

lemma update_ledger_inv:
  assumes "ledger_inv s" and "keeps_key f"
    and "\<And>r. r \<in> set (st_revisions s) \<Longrightarrow> P r \<Longrightarrow> revision_ok (f r)"
  shows "ledger_inv (s\<lparr>st_revisions := update_where P f (st_revisions s)\<rparr>)"
  using assms(1,3) by (auto simp: ledger_inv_def ledger_keys_def set_update_where
      map_key_update_where keeps_keyD [OF assms(2)])

text \<open>An update of rows of one item leaves the rows of the others.\<close>

lemma subject_rows_update_own:
  assumes "keeps_key f"
  shows "subject_rows tenant item (update_where P f rs) = update_where P f (subject_rows tenant item rs)"
  by (induction rs) (auto simp: subject_rows_def keeps_keyD [OF assms])

lemma subject_rows_update:
  assumes "keeps_key f" and "\<And>r. r \<in> set (subject_rows tenant item rs) \<Longrightarrow> \<not> P r"
  shows "subject_rows tenant item (update_where P f rs) = subject_rows tenant item rs"
  unfolding subject_rows_update_own [OF assms(1)]
  by (simp add: update_where_def map_idI assms(2))

text \<open>The three parts of the agreement, as an introduction rule after an update.\<close>

lemma item_ledger_update:
  assumes "keeps_key f" and item: "it_tenant item' = it_tenant item" "it_id item' = it_id item"
    and status: "it_status item' \<noteq> ProjectStatusFieldCompleted \<Longrightarrow>
           ReportPhaseRank (it_report_status item') \<le> 0"
    and ex: "it_status item' = ProjectStatusFieldCompleted \<Longrightarrow>
           \<exists>r \<in> set (subject_rows (it_tenant item) (it_id item) rs). rv_revision r = it_report_revision item'"
    and rows: "\<And>r. r \<in> set (subject_rows (it_tenant item) (it_id item) rs) \<Longrightarrow>
      rv_revision r \<le> it_report_revision item' \<and>
      (rv_revision r < it_report_revision item' \<longrightarrow> rv_validity (if P r then f r else r) \<noteq> ''ACTIVE'') \<and>
      (rv_revision r = it_report_revision item' \<longrightarrow>
         rv_validity (if P r then f r else r) = ''ACTIVE'' \<and>
         ReportPhaseRank (rv_status (if P r then f r else r)) =
           max 0 (ReportPhaseRank (it_report_status item')))"
  shows "item_ledger (update_where P f rs) item'"
proof -
  let ?g = "\<lambda>r. if P r then f r else r"
  let ?rows = "subject_rows (it_tenant item) (it_id item) rs"
  have rev: "rv_revision (?g r) = rv_revision r" for r by (simp add: keeps_keyD [OF assms(1)])
  have img: "set (subject_rows (it_tenant item) (it_id item) (update_where P f rs)) = ?g ` set ?rows"
    by (simp only: subject_rows_update_own [OF assms(1)] set_update_where)
  have "\<exists>q \<in> ?g ` set ?rows. rv_revision q = it_report_revision item'"
    if "it_status item' = ProjectStatusFieldCompleted"
  proof -
    note st = that
    obtain r where "r \<in> set ?rows" "rv_revision r = it_report_revision item'"
      using ex [OF st] by blast
    then show ?thesis by (intro bexI [of _ "?g r"]) (simp_all add: rev)
  qed
  moreover have "rv_revision q \<le> it_report_revision item' \<and>
      (rv_revision q < it_report_revision item' \<longrightarrow> rv_validity q \<noteq> ''ACTIVE'') \<and>
      (rv_revision q = it_report_revision item' \<longrightarrow> rv_validity q = ''ACTIVE'' \<and>
         ReportPhaseRank (rv_status q) = max 0 (ReportPhaseRank (it_report_status item')))"
    if "q \<in> ?g ` set ?rows" for q
  proof -
    from that obtain r where r: "r \<in> set ?rows" "q = ?g r" by blast
    show ?thesis using rows [OF r(1)] rev [of r] unfolding r(2) by presburger
  qed
  ultimately show ?thesis unfolding item_ledger_def item img using status by blast
qed

lemma item_ledger_cong:
  "subject_rows (it_tenant i) (it_id i) rs = subject_rows (it_tenant i) (it_id i) rs' \<Longrightarrow>
   item_ledger rs i \<Longrightarrow> item_ledger rs' i"
  by (simp add: item_ledger_def)

definition others_same :: "service_item \<Rightarrow> revision_row list \<Rightarrow> revision_row list \<Rightarrow> bool" where
  "others_same item rs rs' \<longleftrightarrow>
     (\<forall>t i. (t, i) \<noteq> (it_tenant item, it_id item) \<longrightarrow> subject_rows t i rs' = subject_rows t i rs)"

lemma others_same_refl [simp]: "others_same item rs rs"
  by (simp add: others_same_def)

lemma others_same_trans [trans]: "others_same i a b \<Longrightarrow> others_same i b c \<Longrightarrow> others_same i a c"
  by (simp add: others_same_def)

lemma ensure_ok:
  assumes inv: "ledger_inv s" and item: "item_ledger (st_revisions s) item"
  obtains t where "ensureReportRevision item now s = Inr t" "ledger_inv t"
    "item_ledger (st_revisions t) item" "others_same item (st_revisions s) (st_revisions t)"
    "\<exists>r \<in> set (st_revisions t). item_revision item (it_report_revision item) r"
proof (cases "0 < count_where (item_revision item (it_report_revision item)) (st_revisions s)")
  case True
  then have "ensureReportRevision item now s = Inr s" by (simp add: ensureReportRevision_def)
  with that [of s] True inv item show ?thesis by (simp add: count_where_pos)
next
  case False
  let ?st = "to_upper (trim_space (it_report_status item))"
  let ?status = "if ReportPhaseRank ?st \<le> 0 then ''NONE'' else ?st"
  let ?r = "new_revision (it_tenant item) (it_id item) SubjectServiceItem (it_id item)
              (it_report_revision item) ?status now"
  let ?t = "s\<lparr>st_revisions := st_revisions s @ [?r\<lparr>rv_id := st_next_revision s\<rparr>],
             st_next_revision := Suc (st_next_revision s)\<rparr>"
  have none: "\<forall>q \<in> set (st_revisions s). \<not> item_revision item (it_report_revision item) q"
    using False by (simp add: count_where_pos)
  have ins: "insert_revision ?r s = Inr ?t" by (simp add: insert_revision_Inr none)
  have rank: "ReportPhaseRank ?st = ReportPhaseRank (it_report_status item)"
    by (simp add: ReportPhaseRank_def normalizeReportPhase_def trim_space_to_upper)
  have ens: "ensureReportRevision item now s = Inr ?t"
    using False ins by (simp only: ensureReportRevision_def Let_def if_False)
  have "revision_ok ?r" by (rule new_revision_ok) simp
  with ins inv have "ledger_inv ?t" by (rule insert_ledger_inv)
  moreover have "item_ledger (st_revisions ?t) item"
    using item none by (auto simp: item_ledger_def rank set_subject_rows revision_key_def)
  ultimately show ?thesis using that [OF ens] by (simp add: others_same_def revision_key_def)
qed

lemma lock_ok:
  assumes "ledger_inv s" and "item_ledger (st_revisions s) item"
  obtains t r where "lockReportRevision env item s = Inr (t, r)" "ledger_inv t"
    "item_ledger (st_revisions t) item" "others_same item (st_revisions s) (st_revisions t)"
    "r \<in> set (st_revisions t)" "item_revision item (it_report_revision item) r"
proof -
  obtain t where t: "ensureReportRevision item (env_clock env) s = Inr t" "ledger_inv t"
    "item_ledger (st_revisions t) item" "others_same item (st_revisions s) (st_revisions t)"
    and ex: "\<exists>r \<in> set (st_revisions t). item_revision item (it_report_revision item) r"
    using ensure_ok [OF assms] by blast
  obtain r where r: "find (item_revision item (it_report_revision item)) (st_revisions t) = Some r"
    using ex by (cases "find (item_revision item (it_report_revision item)) (st_revisions t)")
      (auto simp: find_None_iff)
  with t(1) have "lockReportRevision env item s = Inr (t, r)" by (simp add: lockReportRevision_def)
  from that [OF this t(2,3,4)] find_SomeD [OF r] show ?thesis by blast
qed

lemma lockE:
  assumes "lockReportRevision env item s = Inr (t, r)" and "ledger_inv s"
    and "item_ledger (st_revisions s) item"
  shows "ledger_inv t" "item_ledger (st_revisions t) item"
    "others_same item (st_revisions s) (st_revisions t)" "r \<in> set (st_revisions t)"
    "item_revision item (it_report_revision item) r" "rv_validity r = ''ACTIVE''"
    "ReportPhaseRank (rv_status r) = max 0 (ReportPhaseRank (it_report_status item))"
proof -
  obtain t' r' where "lockReportRevision env item s = Inr (t', r')" and *: "ledger_inv t'"
    "item_ledger (st_revisions t') item" "others_same item (st_revisions s) (st_revisions t')"
    "r' \<in> set (st_revisions t')" "item_revision item (it_report_revision item) r'"
    using lock_ok [OF assms(2,3)] by blast
  with assms(1) have eq: "t' = t" "r' = r" by simp_all
  show "ledger_inv t" "item_ledger (st_revisions t) item"
    "others_same item (st_revisions s) (st_revisions t)" "r \<in> set (st_revisions t)"
    "item_revision item (it_report_revision item) r" using * by (simp_all add: eq)
  then show "rv_validity r = ''ACTIVE''"
    "ReportPhaseRank (rv_status r) = max 0 (ReportPhaseRank (it_report_status item))"
    by (auto simp: item_ledger_def set_subject_rows item_revision_iff)
qed

text \<open>A row of the ledger is known by its identifier.\<close>

lemma ledger_id_unique:
  "ledger_inv s \<Longrightarrow> r \<in> set (st_revisions s) \<Longrightarrow> q \<in> set (st_revisions s) \<Longrightarrow> rv_id q = rv_id r \<Longrightarrow> q = r"
  by (rule key_unique [of rv_id]) (simp_all add: ledger_inv_def ledger_keys_def)

lemma ledger_distinct: "ledger_inv s \<Longrightarrow> distinct (map rv_id (st_revisions s))"
  by (simp add: ledger_inv_def ledger_keys_def)

lemma ledger_key_unique:
  "ledger_inv s \<Longrightarrow> r \<in> set (st_revisions s) \<Longrightarrow> q \<in> set (st_revisions s) \<Longrightarrow>
   item_revision item n r \<Longrightarrow> item_revision item n q \<Longrightarrow> q = r"
  by (rule key_unique [of "\<lambda>r. (rv_tenant r, rv_subject_type r, rv_subject r, rv_revision r)"])
    (simp_all add: ledger_inv_def ledger_keys_def item_revision_iff)

lemma others_same_update:
  assumes "keeps_key f"
    and "\<And>r. r \<in> set rs \<Longrightarrow> P r \<Longrightarrow> rv_tenant r = it_tenant item \<and> rv_subject r = it_id item"
  shows "others_same item rs (update_where P f rs)"
  unfolding others_same_def
  by (intro allI impI subject_rows_update assms(1)) (auto simp: set_subject_rows dest: assms(2))

lemma advance_ok:
  assumes adv: "advanceReportRevision r phase event s = Inr t"
    and inv: "ledger_inv s" and item: "item_ledger (st_revisions s) item"
    and r: "r \<in> set (st_revisions s)" "item_revision item (it_report_revision item) r"
    and rank: "ReportPhaseRank phase = ReportPhaseRank (rv_status r) + 1"
    and new: "it_tenant item' = it_tenant item" "it_id item' = it_id item"
      "it_report_revision item' = it_report_revision item" "it_report_status item' = phase"
      "it_status item' = ProjectStatusFieldCompleted"
  shows "ledger_inv t \<and> others_same item (st_revisions s) (st_revisions t) \<and>
    item_ledger (st_revisions t) item'"
proof -
  let ?P = "\<lambda>q. rv_id q = rv_id r \<and> rv_status q = rv_status r \<and> rv_validity q = ''ACTIVE''"
  obtain f where f: "advance_updates r phase event = Inr f"
    and t: "st_revisions t = update_where ?P f (st_revisions s)"
      "t = s\<lparr>st_revisions := update_where ?P f (st_revisions s)\<rparr>"
    using adv by (auto simp: advanceReportRevision_def res_simps)
  note key = advance_keeps_key [OF f]
  have only: "q = r" if "q \<in> set (st_revisions s)" "?P q" for q
    using ledger_id_unique [OF inv r(1)] that by blast
  have "revision_ok (f q)" if "q \<in> set (st_revisions s)" "?P q" for q
    using only [OF that] advance_updates_ok [OF f rank] inv r(1) by (simp add: ledger_inv_def)
  then have "ledger_inv t" unfolding t(2) by (intro update_ledger_inv inv key)
  moreover have "others_same item (st_revisions s) (st_revisions t)"
    unfolding t(1)
    by (intro others_same_update key) (use only r(2) in \<open>auto simp: item_revision_iff\<close>)
  moreover have "item_ledger (st_revisions t) item'"
  proof -
    have r': "r \<in> set (subject_rows (it_tenant item) (it_id item) (st_revisions s))"
      "rv_revision r = it_report_revision item"
      using r by (simp_all add: set_subject_rows item_revision_iff)
    with item have act: "rv_validity r = ''ACTIVE''" and pos: "0 \<le> ReportPhaseRank (rv_status r)"
      by (auto simp: item_ledger_def)
    have one: "q = r" if "q \<in> set (subject_rows (it_tenant item) (it_id item) (st_revisions s))"
      "rv_revision q = it_report_revision item" for q
      using ledger_key_unique [OF inv r(1), of q item] that r(2)
      by (simp add: set_subject_rows item_revision_iff)
    have P_iff: "?P q \<longleftrightarrow> rv_revision q = it_report_revision item"
      if "q \<in> set (subject_rows (it_tenant item) (it_id item) (st_revisions s))" for q
      using one [OF that] only [of q] that act r' by (auto simp: set_subject_rows)
    show ?thesis
      unfolding t(1)
    proof (rule item_ledger_update [where item = item, OF key])
      fix q assume q: "q \<in> set (subject_rows (it_tenant item) (it_id item) (st_revisions s))"
      with item have q': "rv_revision q \<le> it_report_revision item"
        "rv_revision q < it_report_revision item \<longrightarrow> rv_validity q \<noteq> ''ACTIVE''"
        by (auto simp: item_ledger_def)
      let ?q = "if ?P q then f q else q"
      have val: "rv_validity ?q = rv_validity q" by (simp add: advance_updates_fields [OF f])
      have st: "rv_status ?q = phase \<and> rv_validity q = ''ACTIVE''"
        if "rv_revision q = it_report_revision item"
        using P_iff [OF q] that by (simp add: advance_updates_fields [OF f])
      have "ReportPhaseRank phase = max 0 (ReportPhaseRank phase)" using rank pos by simp
      with q' st show "rv_revision q \<le> it_report_revision item' \<and>
        (rv_revision q < it_report_revision item' \<longrightarrow> rv_validity ?q \<noteq> ''ACTIVE'') \<and>
        (rv_revision q = it_report_revision item' \<longrightarrow> rv_validity ?q = ''ACTIVE'' \<and>
         ReportPhaseRank (rv_status ?q) = max 0 (ReportPhaseRank (it_report_status item')))"
        unfolding val new by metis
    next
      show "\<exists>r \<in> set (subject_rows (it_tenant item) (it_id item) (st_revisions s)).
          rv_revision r = it_report_revision item'"
        using r' by (intro bexI [of _ r]) (simp_all add: new)
    qed (simp_all add: new)
  qed
  ultimately show ?thesis by blast
qed

text \<open>Opening the next revision once the current one is retired.\<close>

definition retired :: "revision_row list \<Rightarrow> service_item \<Rightarrow> bool" where
  "retired rs item \<longleftrightarrow>
     (\<forall>r \<in> set (subject_rows (it_tenant item) (it_id item) rs).
        rv_revision r \<le> it_report_revision item \<and> rv_validity r \<noteq> ''ACTIVE'')"

lemma retire_update:
  assumes inv: "ledger_inv s" and item: "item_ledger (st_revisions s) item" and key: "keeps_key f"
    and P: "\<And>r. r \<in> set (st_revisions s) \<Longrightarrow> P r \<longleftrightarrow> item_revision item (it_report_revision item) r"
    and f: "\<And>r. rv_validity (f r) \<noteq> ''ACTIVE''" "\<And>r. revision_ok r \<Longrightarrow> revision_ok (f r)"
    and t: "t = s\<lparr>st_revisions := update_where P f (st_revisions s)\<rparr>"
  shows "ledger_inv t" "others_same item (st_revisions s) (st_revisions t)" "retired (st_revisions t) item"
proof -
  show "ledger_inv t" unfolding t
    by (rule update_ledger_inv [OF inv key]) (use inv f(2) in \<open>auto simp: ledger_inv_def\<close>)
  have rows: "st_revisions t = update_where P f (st_revisions s)" by (simp add: t)
  show "others_same item (st_revisions s) (st_revisions t)" unfolding rows
    by (rule others_same_update [OF key]) (simp_all add: P revision_key_def)
  show "retired (st_revisions t) item"
    unfolding retired_def rows subject_rows_update_own [OF key] set_update_where
  proof (intro ballI, elim imageE)
    fix q r assume r: "r \<in> set (subject_rows (it_tenant item) (it_id item) (st_revisions s))"
      and q: "q = (if P r then f r else r)"
    have "P r \<longleftrightarrow> rv_revision r = it_report_revision item"
      using r P by (simp add: set_subject_rows revision_key_def)
    moreover have "rv_revision r \<le> it_report_revision item"
      "rv_revision r < it_report_revision item \<longrightarrow> rv_validity r \<noteq> ''ACTIVE''"
      using r item by (auto simp: item_ledger_def)
    ultimately show "rv_revision q \<le> it_report_revision item \<and> rv_validity q \<noteq> ''ACTIVE''"
      using f(1) by (auto simp: q le_less keeps_keyD [OF key])
  qed
qed

lemma retired_no_next:
  assumes "retired rs item" shows "\<forall>q \<in> set rs. \<not> item_revision item (Suc (it_report_revision item)) q"
proof (intro ballI notI)
  fix q assume q: "q \<in> set rs" "item_revision item (Suc (it_report_revision item)) q"
  then have "q \<in> set (subject_rows (it_tenant item) (it_id item) rs)"
    by (simp add: set_subject_rows revision_key_def)
  with assms have "rv_revision q \<le> it_report_revision item" by (simp add: retired_def)
  with q(2) show False by (simp add: revision_key_def)
qed

lemma next_revision_ok:
  assumes inv: "ledger_inv s" and ret: "retired (st_revisions s) item"
    and row: "rv_tenant row = it_tenant item" "rv_subject_type row = SubjectServiceItem"
      "rv_subject row = it_id item" "rv_revision row = Suc (it_report_revision item)"
      "rv_validity row = ''ACTIVE''" "rv_status row = ''NONE''" "revision_ok row"
    and new: "it_tenant item' = it_tenant item" "it_id item' = it_id item"
      "it_report_revision item' = Suc (it_report_revision item)"
      "ReportPhaseRank (it_report_status item') \<le> 0"
  obtains t where "insert_revision row s = Inr t" "ledger_inv t"
    "others_same item (st_revisions s) (st_revisions t)" "item_ledger (st_revisions t) item'"
proof -
  let ?t = "s\<lparr>st_revisions := st_revisions s @ [row\<lparr>rv_id := st_next_revision s\<rparr>],
             st_next_revision := Suc (st_next_revision s)\<rparr>"
  have none: "\<forall>q \<in> set (st_revisions s). \<not> item_revision item (Suc (it_report_revision item)) q"
    using ret by (rule retired_no_next)
  have ins: "insert_revision row s = Inr ?t" by (simp add: insert_revision_Inr row none)
  moreover from ins inv row(7) have "ledger_inv ?t" by (rule insert_ledger_inv)
  moreover have "others_same item (st_revisions s) (st_revisions ?t)"
    by (simp add: others_same_def row)
  moreover have "item_ledger (st_revisions ?t) item'"
    using ret new(4) by (fastforce simp: item_ledger_def retired_def new(1-3) row)
  ultimately show ?thesis by (rule that)
qed

lemma void_ok:
  assumes inv: "ledger_inv s" and item: "item_ledger (st_revisions s) item"
    and new: "it_tenant item' = it_tenant item" "it_id item' = it_id item"
      "it_report_revision item' = Suc (it_report_revision item)"
      "ReportPhaseRank (it_report_status item') \<le> 0"
  obtains t where "invalidateAndCreateReportRevision env item event s = Inr t" "ledger_inv t"
    "others_same item (st_revisions s) (st_revisions t)" "item_ledger (st_revisions t) item'"
proof -
  obtain u r where lock: "lockReportRevision env item s = Inr (u, r)"
    using lock_ok [OF inv item] by metis
  note u = lockE [OF lock inv item]
  let ?P = "\<lambda>q. rv_id q = rv_id r \<and> rv_validity q = ''ACTIVE''"
  let ?f = "\<lambda>q. q\<lparr>rv_validity := ''VOID'', rv_invalidated_by := de_actor event,
              rv_invalidated_at := Some (de_created_at event), rv_updated_at := de_created_at event\<rparr>"
  define v where "v = u\<lparr>st_revisions := update_where ?P ?f (st_revisions u)\<rparr>"
  have P: "?P q \<longleftrightarrow> item_revision item (it_report_revision item) q" if "q \<in> set (st_revisions u)" for q
    using ledger_id_unique [OF u(1,4) that] ledger_key_unique [OF u(1,4) that u(5)] u(5,6) by metis
  have "count_where ?P (st_revisions u) = 1"
    by (rule count_key_unique [OF ledger_distinct [OF u(1)] u(4)]) (simp_all add: u(6))
  then have upd: "update_revision ?P ?f u = Inr v" by (simp add: update_revision_Inr v_def)
  have key: "keeps_key ?f" by (simp add: keeps_key_def)
  have ok: "revision_ok q \<Longrightarrow> revision_ok (?f q)" for q by (simp add: revision_ok_defs)
  have void: "rv_validity (?f q) \<noteq> ''ACTIVE''" for q by simp
  note v = retire_update [OF u(1,2) key P void ok v_def]
  define row where "row = new_revision (it_tenant item) (it_id item) SubjectServiceItem (it_id item)
              (Suc (it_report_revision item)) ''NONE'' (de_created_at event)
            \<lparr>rv_correction_request := stringValue (de_payload event) ''request_id'',
             rv_correction_reason := stringValue (de_payload event) ''reason''\<rparr>"
  have row: "rv_tenant row = it_tenant item" "rv_subject_type row = SubjectServiceItem"
    "rv_subject row = it_id item" "rv_revision row = Suc (it_report_revision item)"
    "rv_validity row = ''ACTIVE''" "rv_status row = ''NONE''" "revision_ok row"
    by (simp_all add: row_def new_revision_ok)
  obtain t where "insert_revision row v = Inr t"
    and t: "ledger_inv t" "others_same item (st_revisions v) (st_revisions t)"
      "item_ledger (st_revisions t) item'"
    using next_revision_ok [OF v(1,3) row new] by blast
  with lock u(6) upd have "invalidateAndCreateReportRevision env item event s = Inr t"
    by (simp add: invalidateAndCreateReportRevision_def row_def [symmetric])
  moreover have "others_same item (st_revisions s) (st_revisions t)"
    using u(3) v(2) t(2) by (blast intro: others_same_trans)
  ultimately show ?thesis using that t by blast
qed

lemma rework_ok:
  assumes inv: "ledger_inv s" and item: "item_ledger (st_revisions s) item"
    and new: "it_tenant item' = it_tenant item" "it_id item' = it_id item"
      "it_report_revision item' = Suc (it_report_revision item)"
      "ReportPhaseRank (it_report_status item') \<le> 0"
  obtains t where "reworkReportRevision item event s = Inr t" "ledger_inv t"
    "others_same item (st_revisions s) (st_revisions t)" "item_ledger (st_revisions t) item'"
proof -
  let ?P = "\<lambda>r. item_revision item (it_report_revision item) r \<and> rv_validity r = ''ACTIVE''"
  let ?f = "\<lambda>r. r\<lparr>rv_validity := ''SUPERSEDED'', rv_updated_at := de_created_at event\<rparr>"
  define u where "u = s\<lparr>st_revisions := update_where ?P ?f (st_revisions s)\<rparr>"
  have P: "?P r \<longleftrightarrow> item_revision item (it_report_revision item) r" if "r \<in> set (st_revisions s)" for r
    using item that by (auto simp: item_ledger_def set_subject_rows revision_key_def)
  have key: "keeps_key ?f" by (simp add: keeps_key_def)
  have ok: "revision_ok q \<Longrightarrow> revision_ok (?f q)" for q by (simp add: revision_ok_defs)
  have superseded: "rv_validity (?f q) \<noteq> ''ACTIVE''" for q by simp
  note u = retire_update [OF inv item key P superseded ok u_def]
  have "\<not> 0 < count_where (item_revision item (it_report_revision item + 1)) (st_revisions u)"
    unfolding count_where_pos Suc_eq_plus1 [symmetric] using retired_no_next [OF u(3)] by blast
  moreover
  define row where "row = new_revision (it_tenant item) (it_id item) SubjectServiceItem (it_id item)
              (it_report_revision item + 1) ''NONE'' (de_created_at event)"
  have row: "rv_tenant row = it_tenant item" "rv_subject_type row = SubjectServiceItem"
    "rv_subject row = it_id item" "rv_revision row = Suc (it_report_revision item)"
    "rv_validity row = ''ACTIVE''" "rv_status row = ''NONE''" "revision_ok row"
    by (simp_all add: row_def new_revision_ok)
  obtain t where "insert_revision row u = Inr t"
    and t: "ledger_inv t" "others_same item (st_revisions u) (st_revisions t)"
      "item_ledger (st_revisions t) item'"
    using next_revision_ok [OF u(1,3) row new] by blast
  ultimately have "reworkReportRevision item event s = Inr t"
    by (simp only: reworkReportRevision_def Let_def u_def [symmetric] row_def if_False)
  moreover have "others_same item (st_revisions s) (st_revisions t)"
    using u(2) t(2) by (blast intro: others_same_trans)
  ultimately show ?thesis using that t by blast
qed

section \<open>The whole ledger\<close>

text \<open>
  The agreement holds for every item, a revision of a main report belongs to an item, and items
  are known by their identifier.
\<close>

definition ledger_ok :: "store \<Rightarrow> bool" where
  "ledger_ok s \<longleftrightarrow> ledger_inv s \<and> distinct (map it_id (st_items s)) \<and>
     (\<forall>i \<in> set (st_items s). item_ledger (st_revisions s) i) \<and>
     (\<forall>r \<in> set (st_revisions s). rv_subject_type r = SubjectServiceItem \<longrightarrow>
        (\<exists>i \<in> set (st_items s). it_tenant i = rv_tenant r \<and> it_id i = rv_subject r))"

lemma find_item_SomeD:
  "find_item s tenant key = Some i \<Longrightarrow> i \<in> set (st_items s) \<and> it_tenant i = tenant \<and> it_id i = key \<and> item_live i"
  by (auto simp: find_item_def item_key_def dest: find_SomeD)

text \<open>
  An operation on the ledger of one item that ends in agreement with the item keeps the whole
  ledger when the item's row is replaced.
\<close>

lemma ledger_okI:
  assumes ok: "ledger_ok s" and i: "i \<in> set (st_items s)"
    and t: "ledger_inv t" "others_same i (st_revisions s) (st_revisions t)"
      "item_ledger (st_revisions t) i'" "it_id i' = it_id i" "it_tenant i' = it_tenant i"
    and items: "st_items t = update_where (\<lambda>j. it_id j = it_id i) (\<lambda>_. i') (st_items s)"
  shows "ledger_ok t"
proof -
  have only: "j = i" if "j \<in> set (st_items s)" "it_id j = it_id i" for j
    using key_unique [of it_id "st_items s" i j] ok i that by (simp add: ledger_ok_def)
  have "distinct (map it_id (st_items t))"
    using ok unfolding items by (subst map_key_update_where) (simp_all add: t ledger_ok_def)
  moreover have "item_ledger (st_revisions t) j" if "j \<in> set (st_items t)" for j
  proof (cases "j = i'")
    case False
    with that have j: "j \<in> set (st_items s)" "it_id j \<noteq> it_id i"
      by (auto simp: items set_update_where split: if_splits)
    then have "subject_rows (it_tenant j) (it_id j) (st_revisions t) =
        subject_rows (it_tenant j) (it_id j) (st_revisions s)"
      using t(2) by (simp add: others_same_def)
    with ok j(1) show ?thesis by (simp add: ledger_ok_def item_ledger_def)
  qed (simp add: t)
  moreover have "\<exists>j \<in> set (st_items t). it_tenant j = rv_tenant r \<and> it_id j = rv_subject r"
    if r: "r \<in> set (st_revisions t)" "rv_subject_type r = SubjectServiceItem" for r
  proof (cases "(rv_tenant r, rv_subject r) = (it_tenant i, it_id i)")
    case True
    have "i' \<in> set (st_items t)"
      unfolding items set_update_where by (rule image_eqI [of _ _ i]) (simp_all add: i)
    with True show ?thesis by (intro bexI [of _ i']) (simp_all add: t)
  next
    case False
    then have "subject_rows (rv_tenant r) (rv_subject r) (st_revisions t) =
        subject_rows (rv_tenant r) (rv_subject r) (st_revisions s)"
      using t(2) by (auto simp: others_same_def)
    moreover have "r \<in> set (subject_rows (rv_tenant r) (rv_subject r) (st_revisions t))"
      using r by (simp add: set_subject_rows)
    ultimately have "r \<in> set (st_revisions s)" by (simp add: set_subject_rows)
    with ok r(2) obtain j where j: "j \<in> set (st_items s)" "it_tenant j = rv_tenant r" "it_id j = rv_subject r"
      by (auto simp: ledger_ok_def)
    have "it_id j \<noteq> it_id i" using only [OF j(1)] False j(2,3) by auto
    with j show ?thesis by (intro bexI [of _ j]) (auto simp: items set_update_where image_iff)
  qed
  ultimately show ?thesis using t(1) by (simp add: ledger_ok_def)
qed

lemma update_where_same: "distinct (map k rows) \<Longrightarrow> r \<in> set rows \<Longrightarrow> update_where (\<lambda>q. k q = k r) (\<lambda>_. r) rows = rows"
  unfolding update_where_def by (rule map_idI) (auto dest: key_unique)

lemma register_ledger_ok:
  assumes reg: "RegisterReportArtifact tenant itemID revision input now s = Inr t" and ok: "ledger_ok s"
  shows "ledger_ok t"
proof -
  obtain item u where find: "find_item s tenant itemID = Some item"
    and st: "it_report_revision item = revision"
      "it_report_status item = ''COMPILING'' \<or> it_report_status item = ''NONE''"
    and ens: "ensureReportRevision item now s = Inr u"
    and upd: "update_revision
              (\<lambda>r. revision_key tenant SubjectServiceItem itemID revision r \<and> rv_validity r = ''ACTIVE'')
              (\<lambda>r. r\<lparr>rv_file_id := af_file_id input, rv_file_name := af_name input,
                     rv_file_mime := af_mime input, rv_file_size := af_size input,
                     rv_file_sha256 := af_sha256 input, rv_updated_at := now\<rparr>) u = Inr t"
    using reg by (auto simp: RegisterReportArtifact_def res_simps split: option.splits if_splits)
  let ?P = "\<lambda>r. revision_key tenant SubjectServiceItem itemID revision r \<and> rv_validity r = ''ACTIVE''"
  let ?f = "\<lambda>r. r\<lparr>rv_file_id := af_file_id input, rv_file_name := af_name input,
                     rv_file_mime := af_mime input, rv_file_size := af_size input,
                     rv_file_sha256 := af_sha256 input, rv_updated_at := now\<rparr>"
  note i = find_item_SomeD [OF find]
  have il: "item_ledger (st_revisions s) item" "ledger_inv s" using ok i by (simp_all add: ledger_ok_def)
  obtain u' where "ensureReportRevision item now s = Inr u'" and u': "ledger_inv u'"
    "item_ledger (st_revisions u') item" "others_same item (st_revisions s) (st_revisions u')"
    using ensure_ok [OF il(2,1)] by metis
  with ens have u: "ledger_inv u" "item_ledger (st_revisions u) item"
    "others_same item (st_revisions s) (st_revisions u)" by simp_all
  have key: "keeps_key ?f" by (simp add: keeps_key_def)
  have t: "t = u\<lparr>st_revisions := update_where ?P ?f (st_revisions u)\<rparr>"
    using upd by (simp add: update_revision_Inr)
  then have rows: "st_revisions t = update_where ?P ?f (st_revisions u)" by simp
  have P: "rv_revision r = it_report_revision item \<and> rv_tenant r = it_tenant item \<and>
      rv_subject r = it_id item \<and> rv_subject_type r = SubjectServiceItem" if "?P r" for r
    using that i st(1) by (simp add: revision_key_def)
  have early: "ReportPhaseRank (rv_status r) \<le> 2" if "r \<in> set (st_revisions u)" "?P r" for r
    using u(2) st(2) that(1) P [OF that(2)] by (auto simp: item_ledger_def set_subject_rows)
  have "revision_ok (?f r)" if "r \<in> set (st_revisions u)" "?P r" for r
  proof -
    have "revision_ok r" using u(1) that(1) by (simp add: ledger_inv_def)
    with early [OF that] P [OF that(2)] show ?thesis by (auto simp: revision_ok_defs)
  qed
  then have "ledger_inv t" unfolding t by (intro update_ledger_inv u(1) key)
  moreover have "others_same item (st_revisions u) (st_revisions t)"
    unfolding rows by (rule others_same_update [OF key]) (simp_all add: P)
  with u(3) have "others_same item (st_revisions s) (st_revisions t)" by (rule others_same_trans)
  moreover have "item_ledger (st_revisions t) item"
    unfolding rows
    by (rule item_ledger_update [OF key]) (use u(2) in \<open>auto simp: item_ledger_def\<close>)
  moreover have "st_items t = update_where (\<lambda>j. it_id j = it_id item) (\<lambda>_. item) (st_items s)"
    using update_where_same [of it_id "st_items s" item] ok i ensure_frame [OF ens]
    by (simp add: t ledger_ok_def same_but_revisions_fields)
  ultimately show ?thesis using ok i by (intro ledger_okI [of s item t item]) simp_all
qed

end
