(* ===== verification/Equipment.thy ===== *)
theory Equipment
  imports Store
begin

text \<open>
  Equipment and implementation plans inside the delivery transactions
  (\<open>infrastructure/mysql/delivery_events.go\<close>): the plan row of a service item, the daily
  reservations of equipment, the lock on the equipment masters all reservation changes share,
  and the return of a device.
\<close>

section \<open>Plan rows\<close>

definition plan_key :: "service_item \<Rightarrow> plan_row \<Rightarrow> bool" where
  "plan_key item p \<longleftrightarrow> pl_tenant p = it_tenant item \<and> pl_item p = it_id item"

definition find_plan :: "store \<Rightarrow> service_item \<Rightarrow> plan_row option" where
  "find_plan s item = find (plan_key item) (st_plans s)"

definition plan_of_event :: "service_item \<Rightarrow> delivery_event \<Rightarrow> plan_row" where
  "plan_of_event item event =
     (let p = de_payload event in
      \<lparr>pl_tenant = it_tenant item, pl_item = it_id item,
       pl_planned_start = rfc3339Value p ''planned_start'',
       pl_planned_end = rfc3339Value p ''planned_end'',
       pl_site_plan = stringValue p ''site_plan'',
       pl_penetration_plan = stringValue p ''penetration_test_plan'',
       pl_auth_doc_no = stringValue p ''auth_doc_no'',
       pl_auth_start = rfc3339Value p ''auth_start'',
       pl_auth_end = rfc3339Value p ''auth_end'',
       pl_auth_scope = stringValue p ''auth_scope'',
       pl_test_scope = stringValue p ''test_scope'',
       pl_test_window = stringValue p ''test_window'',
       pl_emergency_contact = stringValue p ''emergency_contact'',
       pl_rollback_plan = stringValue p ''rollback_plan'',
       pl_personnel = jsonBytes p ''personnel'',
       pl_equipment = None,
       pl_updated_at = de_created_at event, pl_updated_by = de_actor event\<rparr>)"

text \<open>An insertion that, on a duplicate key, updates every listed column: all but the equipment.\<close>

definition upsertImplPlan :: "service_item \<Rightarrow> delivery_event \<Rightarrow> store \<Rightarrow> store" where
  "upsertImplPlan item event s =
     (let new = plan_of_event item event
      in if list_ex (plan_key item) (st_plans s)
         then s\<lparr>st_plans := update_where (plan_key item)
                 (\<lambda>p. new\<lparr>pl_equipment := pl_equipment p\<rparr>) (st_plans s)\<rparr>
         else s\<lparr>st_plans := st_plans s @ [new]\<rparr>)"

definition clearImplPlan :: "service_item \<Rightarrow> delivery_event \<Rightarrow> bool \<Rightarrow> store \<Rightarrow> store" where
  "clearImplPlan item event clearPlan s =
     s\<lparr>st_plans := update_where (plan_key item)
         (\<lambda>p. let p = p\<lparr>pl_equipment := None, pl_updated_at := de_created_at event,
                         pl_updated_by := de_actor event\<rparr>
              in if clearPlan
                 then p\<lparr>pl_planned_start := None, pl_planned_end := None, pl_site_plan := [],
                        pl_penetration_plan := [], pl_auth_doc_no := [], pl_auth_start := None,
                        pl_auth_end := None, pl_auth_scope := [], pl_test_scope := [],
                        pl_test_window := [], pl_emergency_contact := [],
                        pl_rollback_plan := [], pl_personnel := None\<rparr>
                 else p)
         (st_plans s)\<rparr>"

definition updateImplPlanEquipment ::
  "service_item \<Rightarrow> delivery_event \<Rightarrow> store \<Rightarrow> app_error + store" where
  "updateImplPlanEquipment item event s =
     (case jsonBytes (de_payload event) ''equipment'' of None \<Rightarrow> Inr s
      | Some equipment \<Rightarrow>
          if count_where (plan_key item) (st_plans s) = 0 then Inl ErrConflict
          else Inr (s\<lparr>st_plans := update_where (plan_key item)
                 (\<lambda>p. p\<lparr>pl_equipment := Some equipment, pl_updated_at := de_created_at event,
                        pl_updated_by := de_actor event\<rparr>) (st_plans s)\<rparr>))"

section \<open>Windows\<close>

text \<open>
  The days a resource is used: its own window when both ends are given, else the planned period
  of the item on the calendar of the business zone.
\<close>

definition equipmentWindow ::
  "env \<Rightarrow> service_item \<Rightarrow> plan_resource \<Rightarrow> app_error + (instant \<times> instant)" where
  "equipmentWindow env item resource =
     (let startText = trim_space (pr_start resource); endText = trim_space (pr_end resource)
      in if startText = [] \<or> endText = []
         then (case (it_planned_start item, it_planned_end item) of
                 (Some ps, Some pe) \<Rightarrow>
                   Inr (CalendarDay (env_zone env) ps, CalendarDay (env_zone env) pe)
               | _ \<Rightarrow> Inl ErrValidation)
         else (case parse_date startText of None \<Rightarrow> Inl ErrValidation
               | Some start \<Rightarrow>
                   (case parse_date endText of None \<Rightarrow> Inl ErrValidation
                    | Some end \<Rightarrow>
                        if end < start \<or> end - start > 366 * 24 * hour_ns then Inl ErrValidation
                        else Inr (start, end))))"

text \<open>\<open>for day := start; !day.After(end); day = day.AddDate(0, 0, 1)\<close>.\<close>

function day_range :: "instant \<Rightarrow> instant \<Rightarrow> instant list" where
  "day_range day end = (if day > end then [] else day # day_range (day + day_ns) end)"
  by auto
termination
  by (relation "measure (\<lambda>(day, end). nat (end - day + 1))") (auto simp: day_ns_def)

declare day_range.simps [simp del]

section \<open>The lock on equipment masters\<close>

definition equipment_master :: "env \<Rightarrow> string \<Rightarrow> string \<Rightarrow> capability_row \<Rightarrow> bool" where
  "equipment_master env tenant resource c \<longleftrightarrow>
     cp_tenant c = tenant \<and> cp_type c = ''EQUIPMENT'' \<and> sql_eq env (cp_resource c) resource"

text \<open>
  The locked masters under the lower case of the requested id (a single request) or of their own
  (several, in the order of their primary key); a later entry overwrites an earlier one.
\<close>

definition lockEquipmentResources ::
  "env \<Rightarrow> string \<Rightarrow> string list \<Rightarrow> store \<Rightarrow> (string \<times> capability_row) list" where
  "lockEquipmentResources env tenant ids s =
     (let keys = uniq (filter (\<lambda>k. k \<noteq> []) (map trim_space ids))
      in case keys of
           [] \<Rightarrow> []
         | [key] \<Rightarrow>
             (case find (equipment_master env tenant key) (st_capabilities s) of
                None \<Rightarrow> [] | Some row \<Rightarrow> [(to_lower key, row)])
         | _ \<Rightarrow>
             (let candidates = sort_key cp_id
                    (filter (\<lambda>c. list_ex (\<lambda>key. equipment_master env tenant key c) keys)
                       (st_capabilities s))
              in rev (map (\<lambda>row. (to_lower (cp_resource row), row)) candidates)))"

definition reservation_of :: "string \<Rightarrow> string \<Rightarrow> reservation_row \<Rightarrow> bool" where
  "reservation_of tenant itemID r \<longleftrightarrow> rs_tenant r = tenant \<and> rs_item r = itemID"

definition plan_resources :: "store \<Rightarrow> service_item \<Rightarrow> app_error + plan_resource list" where
  "plan_resources s item =
     (case find_plan s item of None \<Rightarrow> Inr []
      | Some p \<Rightarrow>
          (case pl_equipment p of None \<Rightarrow> Inr []
           | Some raw \<Rightarrow>
               (case decode_resources raw of None \<Rightarrow> Inl ErrStorage | Some rs \<Rightarrow> Inr rs)))"

definition lockItemEquipment ::
  "env \<Rightarrow> service_item \<Rightarrow> plan_resource list \<Rightarrow> store \<Rightarrow>
     app_error + (string \<times> capability_row) list" where
  "lockItemEquipment env item incoming s =
     rbind (plan_resources s item) (\<lambda>resources.
       Inr (lockEquipmentResources env (it_tenant item)
             (map pr_id (resources @ incoming) @
              map rs_resource (filter (reservation_of (it_tenant item) (it_id item)) (st_reservations s)))
             s))"

section \<open>Reservations\<close>

definition deleteEquipmentReservationRows ::
  "env \<Rightarrow> string \<Rightarrow> string \<Rightarrow> string \<Rightarrow> store \<Rightarrow> store" where
  "deleteEquipmentReservationRows env tenant itemID resource s =
     s\<lparr>st_reservations := filter
         (\<lambda>r. \<not> (reservation_of tenant itemID r \<and> (resource \<noteq> [] \<longrightarrow> sql_eq env (rs_resource r) resource)))
         (st_reservations s)\<rparr>"

definition deleteEquipmentReservations ::
  "env \<Rightarrow> service_item \<Rightarrow> store \<Rightarrow> app_error + store" where
  "deleteEquipmentReservations env item s =
     rbind (lockItemEquipment env item [] s) (\<lambda>_.
       Inr (deleteEquipmentReservationRows env (it_tenant item) (it_id item) [] s))"

text \<open>The primary key of a reservation: one row for a device and a day.\<close>

definition slot :: "env \<Rightarrow> reservation_row \<Rightarrow> string \<times> string \<times> instant" where
  "slot env r = (rs_tenant r, env_fold env (rs_resource r), rs_use_date r)"

fun reserve_days ::
  "env \<Rightarrow> (instant \<Rightarrow> reservation_row) \<Rightarrow> instant list \<Rightarrow> store \<Rightarrow> app_error + store" where
  "reserve_days env row [] s = Inr s"
| "reserve_days env row (day # days) s =
     (if list_ex (\<lambda>r. slot env r = slot env (row day)) (st_reservations s) then Inl ErrConflict
      else reserve_days env row days (s\<lparr>st_reservations := st_reservations s @ [row day]\<rparr>))"

definition master_usable :: "env \<Rightarrow> capability_row \<Rightarrow> instant \<Rightarrow> instant \<Rightarrow> bool" where
  "master_usable env master start end \<longleftrightarrow>
     cp_status master = ''ACTIVE'' \<and> cp_usage master \<noteq> ''COMPANY_ONLY'' \<and>
     (case cp_valid_from master of None \<Rightarrow> True | Some v \<Rightarrow> \<not> start < CalendarDay (env_zone env) v) \<and>
     (case cp_valid_until master of None \<Rightarrow> True | Some v \<Rightarrow> \<not> CalendarDay (env_zone env) v < end)"

definition skipped :: "plan_resource \<Rightarrow> bool" where
  "skipped r \<longleftrightarrow> \<not> blank (pr_returned r) \<or> blank (pr_id r)"

fun reserve_all ::
  "env \<Rightarrow> service_item \<Rightarrow> delivery_event \<Rightarrow> (string \<times> capability_row) list \<Rightarrow>
     plan_resource list \<Rightarrow> store \<Rightarrow> app_error + store" where
  "reserve_all env item event locked [] s = Inr s"
| "reserve_all env item event locked (resource # resources) s =
     (if skipped resource then reserve_all env item event locked resources s
      else rbind (equipmentWindow env item resource) (\<lambda>(start, end).
        case map_of locked (to_lower (trim_space (pr_id resource))) of
          None \<Rightarrow> Inl ErrConflict
        | Some master \<Rightarrow>
            if \<not> master_usable env master start end then Inl ErrConflict
            else rbind (reserve_days env
                (\<lambda>day. \<lparr>rs_tenant = it_tenant item, rs_resource = cp_resource master,
                        rs_use_date = day, rs_item = it_id item, rs_window_start = start,
                        rs_window_end = end, rs_created_at = de_created_at event\<rparr>)
                (day_range start end) s)
              (reserve_all env item event locked resources)))"

definition syncEquipmentReservations ::
  "env \<Rightarrow> service_item \<Rightarrow> delivery_event \<Rightarrow> store \<Rightarrow> app_error + store" where
  "syncEquipmentReservations env item event s =
     (case jsonBytes (de_payload event) ''equipment'' of None \<Rightarrow> Inl ErrValidation
      | Some encoded \<Rightarrow>
          (case decode_resources encoded of None \<Rightarrow> Inl ErrStorage
           | Some resources \<Rightarrow>
               rbind (lockItemEquipment env item resources s) (\<lambda>locked.
                 reserve_all env item event locked resources
                   (deleteEquipmentReservationRows env (it_tenant item) (it_id item) [] s))))"

section \<open>Returning a device\<close>

definition returned_now :: "capability_row \<Rightarrow> plan_resource \<Rightarrow> bool" where
  "returned_now master r \<longleftrightarrow> pr_id r = cp_resource master \<and> blank (pr_returned r)"

definition markEquipmentReturned ::
  "env \<Rightarrow> service_item \<Rightarrow> delivery_event \<Rightarrow> store \<Rightarrow> app_error + store" where
  "markEquipmentReturned env item event s =
     (let resourceID = trim_space (stringValue (de_payload event) ''resource_id'')
      in if resourceID = [] then Inl ErrValidation
         else rbind (lockItemEquipment env item [] s) (\<lambda>locked.
           case find (equipment_master env (it_tenant item) resourceID) (st_capabilities s) of
             None \<Rightarrow> Inr s
           | Some master \<Rightarrow>
               (case find_plan s item of None \<Rightarrow> Inl ErrNotFound
                | Some _ \<Rightarrow>
                    rbind (plan_resources s item) (\<lambda>resources.
                      if \<not> list_ex (returned_now master) resources then Inr s
                      else if \<not> list_ex (\<lambda>(k, row). cp_id row = cp_id master) locked then Inl ErrConflict
                      else
                        let updated = map (\<lambda>r. if returned_now master r
                              then r\<lparr>pr_returned := format_rfc3339 (de_created_at event)\<rparr> else r) resources;
                            s = s\<lparr>st_plans := update_where (plan_key item)
                              (\<lambda>p. p\<lparr>pl_equipment := Some (encode_resources updated),
                                     pl_updated_at := de_created_at event,
                                     pl_updated_by := de_actor event\<rparr>) (st_plans s)\<rparr>
                        in Inr (deleteEquipmentReservationRows env (it_tenant item) (it_id item)
                                  (cp_resource master) s)))))"

section \<open>What a preparation reserves\<close>

lemma day_range_set: "day \<in> set (day_range a b) \<longleftrightarrow> (\<exists>k. day = a + int k * day_ns \<and> day \<le> b)"
proof (induction a b rule: day_range.induct)
  case (1 a b)
  show ?case
  proof (cases "a > b")
    case True
    have "0 \<le> int k * day_ns" for k by (simp add: day_ns_def)
    with True have "\<not> (\<exists>k. day = a + int k * day_ns \<and> day \<le> b)" by (smt (verit))
    with True show ?thesis by (simp add: day_range.simps [of a b])
  next
    case False
    have "(\<exists>k. day = a + int k * day_ns \<and> day \<le> b) \<longleftrightarrow>
        (day = a \<and> day \<le> b) \<or> (\<exists>k. day = a + int (Suc k) * day_ns \<and> day \<le> b)"
      by (metis add.right_neutral int_eq_iff_numeral mult_zero_left not0_implies_Suc of_nat_0)
    also have "\<dots> \<longleftrightarrow> day = a \<or> (\<exists>k. day = a + day_ns + int k * day_ns \<and> day \<le> b)"
      using False by (auto simp: algebra_simps)
    finally show ?thesis using 1 False by (simp add: day_range.simps [of a b])
  qed
qed

lemma day_range_distinct: "distinct (day_range a b)"
proof (induction a b rule: day_range.induct)
  case (1 a b)
  have "a \<notin> set (day_range (a + day_ns) b)"
    unfolding day_range_set by (simp add: day_ns_def)
  with 1 show ?case by (simp add: day_range.simps [of a b])
qed

lemma day_range_length: "a \<le> b \<Longrightarrow> length (day_range a b) = nat ((b - a) div day_ns) + 1"
proof (induction a b rule: day_range.induct)
  case (1 a b)
  show ?case
  proof (cases "a + day_ns \<le> b")
    case True
    have "(b - a) div day_ns = (b - (a + day_ns)) div day_ns + 1"
      by (simp add: day_ns_def div_plus_div_distrib_dvd_right flip: diff_diff_eq)
    moreover have "0 \<le> (b - (a + day_ns)) div day_ns" using True by (simp add: day_ns_def)
    ultimately show ?thesis using 1 True by (simp add: day_range.simps [of a b] nat_add_distrib)
  next
    case False
    then have "(b - a) div day_ns = 0" using 1(2) by (simp add: div_pos_pos_trivial)
    with False 1(2) show ?thesis by (simp add: day_range.simps [of a b] day_range.simps [of "a + day_ns" b])
  qed
qed

text \<open>No device is booked twice on a day: what the primary key of the table promises.\<close>

definition single_booked :: "env \<Rightarrow> reservation_row list \<Rightarrow> bool" where
  "single_booked env rows \<longleftrightarrow> distinct (map (slot env) rows)"

lemma reserve_days_Inr:
  "reserve_days env row days s = Inr t \<Longrightarrow>
     t = s\<lparr>st_reservations := st_reservations s @ map row days\<rparr> \<and>
     (single_booked env (st_reservations s) \<longrightarrow> single_booked env (st_reservations t))"
proof (induction env row days s rule: reserve_days.induct)
  case (2 env row day days s)
  let ?u = "s\<lparr>st_reservations := st_reservations s @ [row day]\<rparr>"
  have new: "\<not> list_ex (\<lambda>r. slot env r = slot env (row day)) (st_reservations s)"
    using 2(2) by (auto split: if_splits)
  then have t: "t = ?u\<lparr>st_reservations := st_reservations ?u @ map row days\<rparr>"
    and single: "single_booked env (st_reservations ?u) \<longrightarrow> single_booked env (st_reservations t)"
    using 2 by auto
  moreover have "single_booked env (st_reservations s) \<longrightarrow> single_booked env (st_reservations ?u)"
    using new by (auto simp: single_booked_def list_ex_iff image_iff eq_commute)
  ultimately show ?case by simp
qed simp

definition rows_of ::
  "env \<Rightarrow> service_item \<Rightarrow> delivery_event \<Rightarrow> (string \<times> capability_row) list \<Rightarrow>
     plan_resource \<Rightarrow> reservation_row list" where
  "rows_of env item event locked resource =
     (if skipped resource then []
      else case equipmentWindow env item resource of Inl _ \<Rightarrow> []
        | Inr (start, end) \<Rightarrow>
            (case map_of locked (to_lower (trim_space (pr_id resource))) of None \<Rightarrow> []
             | Some master \<Rightarrow>
                 map (\<lambda>day. \<lparr>rs_tenant = it_tenant item, rs_resource = cp_resource master,
                        rs_use_date = day, rs_item = it_id item, rs_window_start = start,
                        rs_window_end = end, rs_created_at = de_created_at event\<rparr>)
                   (day_range start end)))"

text \<open>What makes a row of the equipment list acceptable.\<close>

definition bookable ::
  "env \<Rightarrow> service_item \<Rightarrow> (string \<times> capability_row) list \<Rightarrow> plan_resource \<Rightarrow> bool" where
  "bookable env item locked resource \<longleftrightarrow> skipped resource \<or>
     (\<exists>start end master. equipmentWindow env item resource = Inr (start, end) \<and>
        map_of locked (to_lower (trim_space (pr_id resource))) = Some master \<and>
        master_usable env master start end)"

lemma reserve_all_Inr:
  "reserve_all env item event locked resources s = Inr t \<Longrightarrow>
     t = s\<lparr>st_reservations := st_reservations s @ concat (map (rows_of env item event locked) resources)\<rparr> \<and>
     (\<forall>r \<in> set resources. bookable env item locked r) \<and>
     (single_booked env (st_reservations s) \<longrightarrow> single_booked env (st_reservations t))"
proof (induction env item event locked resources s rule: reserve_all.induct)
  case (2 env item event locked resource resources s)
  show ?case
  proof (cases "skipped resource")
    case True
    with 2(1,3) show ?thesis by (auto simp: rows_of_def bookable_def)
  next
    case False
    with 2(3) obtain start "end" master u where w: "equipmentWindow env item resource = Inr (start, end)"
      "map_of locked (to_lower (trim_space (pr_id resource))) = Some master"
      "master_usable env master start end"
      and u: "reserve_days env
                (\<lambda>day. \<lparr>rs_tenant = it_tenant item, rs_resource = cp_resource master,
                        rs_use_date = day, rs_item = it_id item, rs_window_start = start,
                        rs_window_end = end, rs_created_at = de_created_at event\<rparr>)
                (day_range start end) s = Inr u"
      and rest: "reserve_all env item event locked resources u = Inr t"
      by (auto simp: res_simps split: option.splits if_splits prod.splits)
    have "map (\<lambda>day. \<lparr>rs_tenant = it_tenant item, rs_resource = cp_resource master,
                        rs_use_date = day, rs_item = it_id item, rs_window_start = start,
                        rs_window_end = end, rs_created_at = de_created_at event\<rparr>)
            (day_range start end) = rows_of env item event locked resource"
      using False w by (simp add: rows_of_def)
    note eq = this
    have "u = s\<lparr>st_reservations := st_reservations s @ rows_of env item event locked resource\<rparr>"
      "single_booked env (st_reservations s) \<longrightarrow> single_booked env (st_reservations u)"
      using reserve_days_Inr [OF u] unfolding eq by blast+
    moreover have "bookable env item locked resource" using w by (auto simp: bookable_def)
    moreover have "\<not> \<not> master_usable env master start end" using w(3) by simp
    note ih = 2(2) [OF False w(2) this rest]
    ultimately show ?thesis
    proof (intro conjI ballI)
      fix r assume "r \<in> set (resource # resources)"
      then show "bookable env item locked r" using ih \<open>bookable env item locked resource\<close> by auto
    next
      show "single_booked env (st_reservations s) \<longrightarrow> single_booked env (st_reservations t)"
        using ih \<open>single_booked env (st_reservations s) \<longrightarrow> single_booked env (st_reservations u)\<close>
        by blast
    qed (use ih in simp)
  qed
qed simp

lemma delete_rows_fields [simp]:
  "st_reservations (deleteEquipmentReservationRows env tenant i [] s) =
     filter (\<lambda>r. \<not> reservation_of tenant i r) (st_reservations s)"
  "st_capabilities (deleteEquipmentReservationRows env tenant i res s) = st_capabilities s"
  by (simp_all add: deleteEquipmentReservationRows_def)

lemma delete_rows_frame:
  "deleteEquipmentReservationRows env tenant i res s =
     s\<lparr>st_reservations := st_reservations (deleteEquipmentReservationRows env tenant i res s)\<rparr>"
  by (simp add: deleteEquipmentReservationRows_def)

lemma single_booked_filter [intro]: "single_booked env rows \<Longrightarrow> single_booked env (filter P rows)"
  by (simp add: single_booked_def distinct_map_filter)

lemma syncE:
  assumes "syncEquipmentReservations env item event s = Inr t"
  obtains raw resources locked where
    "jsonBytes (de_payload event) ''equipment'' = Some raw" "decode_resources raw = Some resources"
    "lockItemEquipment env item resources s = Inr locked"
    "t = s\<lparr>st_reservations :=
        filter (\<lambda>r. \<not> reservation_of (it_tenant item) (it_id item) r) (st_reservations s) @
        concat (map (rows_of env item event locked) resources)\<rparr>"
    "\<forall>r \<in> set resources. bookable env item locked r"
    "single_booked env (st_reservations s) \<Longrightarrow> single_booked env (st_reservations t)"
proof -
  obtain raw resources locked where 1: "jsonBytes (de_payload event) ''equipment'' = Some raw"
    "decode_resources raw = Some resources" and 2: "lockItemEquipment env item resources s = Inr locked"
    and 3: "reserve_all env item event locked resources
        (deleteEquipmentReservationRows env (it_tenant item) (it_id item) [] s) = Inr t"
    using assms by (auto simp: syncEquipmentReservations_def res_simps split: option.splits)
  from reserve_all_Inr [OF 3] have t:
    "t = s\<lparr>st_reservations :=
        filter (\<lambda>r. \<not> reservation_of (it_tenant item) (it_id item) r) (st_reservations s) @
        concat (map (rows_of env item event locked) resources)\<rparr>"
    by (subst (asm) delete_rows_frame) simp
  show ?thesis
  proof (rule that [OF 1 2 t])
    show "\<forall>r \<in> set resources. bookable env item locked r" using reserve_all_Inr [OF 3] by blast
    show "single_booked env (st_reservations t)" if "single_booked env (st_reservations s)"
    proof -
      let ?u = "deleteEquipmentReservationRows env (it_tenant item) (it_id item) [] s"
      have "single_booked env (st_reservations ?u)" using that by (simp add: single_booked_filter)
      then show ?thesis using reserve_all_Inr [OF 3] by blast
    qed
  qed
qed

lemma sync_frame:
  "syncEquipmentReservations env item event s = Inr t \<Longrightarrow> \<exists>rs. t = s\<lparr>st_reservations := rs\<rparr>"
  by (erule syncE) blast

lemma sync_single_booked:
  "syncEquipmentReservations env item event s = Inr t \<Longrightarrow> single_booked env (st_reservations s) \<Longrightarrow>
   single_booked env (st_reservations t)"
  by (erule syncE) blast

lemma delete_frame:
  "deleteEquipmentReservations env item s = Inr t \<Longrightarrow>
     t = s\<lparr>st_reservations := filter (\<lambda>r. \<not> reservation_of (it_tenant item) (it_id item) r) (st_reservations s)\<rparr>"
  by (auto simp: deleteEquipmentReservations_def deleteEquipmentReservationRows_def res_simps)

lemma upsert_frame: "\<exists>ps. upsertImplPlan item event s = s\<lparr>st_plans := ps\<rparr>"
  by (auto simp: upsertImplPlan_def Let_def)

lemma clear_frame: "\<exists>ps. clearImplPlan item event b s = s\<lparr>st_plans := ps\<rparr>"
  by (auto simp: clearImplPlan_def)

lemma update_equipment_frame:
  "updateImplPlanEquipment item event s = Inr t \<Longrightarrow> \<exists>ps. t = s\<lparr>st_plans := ps\<rparr>"
proof -
  have "\<exists>ps. t = t\<lparr>st_plans := ps\<rparr>" by (rule exI [of _ "st_plans t"]) simp
  then show "updateImplPlanEquipment item event s = Inr t \<Longrightarrow> ?thesis"
    by (auto simp: updateImplPlanEquipment_def split: option.splits if_splits)
qed

text \<open>The row list with the returned device marked.\<close>

definition mark_returned :: "capability_row \<Rightarrow> delivery_event \<Rightarrow> plan_resource list \<Rightarrow> plan_resource list" where
  "mark_returned master event resources =
     map (\<lambda>r. if returned_now master r
              then r\<lparr>pr_returned := format_rfc3339 (de_created_at event)\<rparr> else r) resources"

definition return_device :: "env \<Rightarrow> service_item \<Rightarrow> delivery_event \<Rightarrow> capability_row \<Rightarrow>
    plan_resource list \<Rightarrow> store \<Rightarrow> store" where
  "return_device env item event master resources s =
     deleteEquipmentReservationRows env (it_tenant item) (it_id item) (cp_resource master)
       (s\<lparr>st_plans := update_where (plan_key item)
            (\<lambda>p. p\<lparr>pl_equipment := Some (encode_resources (mark_returned master event resources)),
                   pl_updated_at := de_created_at event, pl_updated_by := de_actor event\<rparr>)
            (st_plans s)\<rparr>)"

lemma markE:
  assumes "markEquipmentReturned env item event s = Inr t"
  obtains "t = s"
  | master resources where
    "find (equipment_master env (it_tenant item) (stringValue (de_payload event) ''resource_id''))
       (st_capabilities s) = Some master"
    "plan_resources s item = Inr resources" "list_ex (returned_now master) resources"
    "t = return_device env item event master resources s"
proof -
  let ?rid = "stringValue (de_payload event) ''resource_id''"
  from assms obtain locked where l: "lockItemEquipment env item [] s = Inr locked"
    by (auto simp: markEquipmentReturned_def Let_def res_simps)
  have ne: "?rid \<noteq> []" using assms by (auto simp: markEquipmentReturned_def Let_def)
  show ?thesis
  proof (cases "find (equipment_master env (it_tenant item) ?rid) (st_capabilities s)")
    case None
    with assms l ne that(1) show ?thesis by (simp add: markEquipmentReturned_def Let_def)
  next
    case (Some master)
    from assms l ne Some obtain resources where r: "plan_resources s item = Inr resources"
      by (cases "find_plan s item") (auto simp: markEquipmentReturned_def Let_def res_simps)
    show ?thesis
    proof (cases "list_ex (returned_now master) resources")
      case False
      with assms l ne Some r that(1) show ?thesis
        by (cases "find_plan s item") (simp_all add: markEquipmentReturned_def Let_def)
    next
      case True
      with assms l ne Some r have "t = return_device env item event master resources s"
        by (cases "find_plan s item")
          (auto simp: markEquipmentReturned_def Let_def return_device_def mark_returned_def split: if_splits)
      with that(2) Some r True show ?thesis by blast
    qed
  qed
qed

lemma return_device_frame:
  "\<exists>ps rs. return_device env item event master resources s = s\<lparr>st_plans := ps, st_reservations := rs\<rparr>"
  by (auto simp: return_device_def deleteEquipmentReservationRows_def)

lemma mark_frame:
  "markEquipmentReturned env item event s = Inr t \<Longrightarrow>
     \<exists>ps rs. t = s\<lparr>st_plans := ps, st_reservations := rs\<rparr>"
proof (erule markE)
  assume "t = s"
  then have "t = s\<lparr>st_plans := st_plans s, st_reservations := st_reservations s\<rparr>" by simp
  then show ?thesis by blast
qed (use return_device_frame in blast)

lemma mark_single_booked:
  "markEquipmentReturned env item event s = Inr t \<Longrightarrow> single_booked env (st_reservations s) \<Longrightarrow>
   single_booked env (st_reservations t)"
  by (erule markE) (auto simp: return_device_def deleteEquipmentReservationRows_def)

lemma locked_master:
  assumes "map_of (lockEquipmentResources env tenant ids s) k = Some m"
  shows "m \<in> set (st_capabilities s) \<and> cp_tenant m = tenant \<and> cp_type m = ''EQUIPMENT''"
proof -
  from assms have mem: "(k, m) \<in> set (lockEquipmentResources env tenant ids s)" by (rule map_of_SomeD)
  consider "uniq (filter (\<lambda>k. k \<noteq> []) (map trim_space ids)) = []"
    | key where "uniq (filter (\<lambda>k. k \<noteq> []) (map trim_space ids)) = [key]"
    | k1 k2 ks where "uniq (filter (\<lambda>k. k \<noteq> []) (map trim_space ids)) = k1 # k2 # ks"
    by (metis list.exhaust)
  then show ?thesis
  proof cases
    case 1
    with mem show ?thesis by (simp add: lockEquipmentResources_def Let_def)
  next
    case (2 key)
    then have "lockEquipmentResources env tenant ids s =
        (case find (equipment_master env tenant key) (st_capabilities s) of
           None \<Rightarrow> [] | Some row \<Rightarrow> [(to_lower key, row)])"
      by (simp add: lockEquipmentResources_def)
    with mem have "find (equipment_master env tenant key) (st_capabilities s) = Some m"
      by (simp split: option.splits)
    from find_SomeD [OF this] show ?thesis by (simp add: equipment_master_def)
  next
    case (3 k1 k2 ks)
    then have "m \<in> set (filter (\<lambda>c. list_ex (\<lambda>key. equipment_master env tenant key c) (k1 # k2 # ks))
        (st_capabilities s))"
      using mem by (simp only: lockEquipmentResources_def Let_def list.case) auto
    then show ?thesis by (auto simp: equipment_master_def list_ex_iff)
  qed
qed

text \<open>
  The master a requested device is booked under: the one the collation of the database finds for
  the identifier, when it is the only one requested, else one of the same identifier up to case.
\<close>

definition master_for :: "env \<Rightarrow> plan_resource \<Rightarrow> capability_row \<Rightarrow> bool" where
  "master_for env r master \<longleftrightarrow> sql_eq env (cp_resource master) (trim_space (pr_id r)) \<or>
     to_lower (cp_resource master) = to_lower (trim_space (pr_id r))"

lemma locked_master_for:
  assumes m: "map_of (lockEquipmentResources env tenant ids s) (to_lower (trim_space (pr_id r))) = Some master"
    and r: "pr_id r \<in> set ids" "\<not> blank (pr_id r)"
  shows "master_for env r master"
proof -
  let ?k = "trim_space (pr_id r)" and ?keys = "uniq (filter (\<lambda>k. k \<noteq> []) (map trim_space ids))"
  from m have mem: "(to_lower ?k, master) \<in> set (lockEquipmentResources env tenant ids s)" by (rule map_of_SomeD)
  have k: "?k \<in> set ?keys" using r by auto
  consider key where "?keys = [key]" | k1 k2 ks where "?keys = k1 # k2 # ks"
    using k by (metis empty_iff list.exhaust list.set(1))
  then show ?thesis
  proof cases
    case (1 key)
    with k have key: "key = ?k" by simp
    from 1 mem have "find (equipment_master env tenant key) (st_capabilities s) = Some master"
      by (simp add: lockEquipmentResources_def split: option.splits)
    from find_SomeD [OF this] key show ?thesis by (simp add: equipment_master_def master_for_def)
  next
    case (2 k1 k2 ks)
    with mem have "to_lower ?k = to_lower (cp_resource master)"
      by (simp only: lockEquipmentResources_def Let_def list.case) auto
    then show ?thesis by (simp add: master_for_def)
  qed
qed

lemma rows_of_item: "r \<in> set (rows_of env item event locked resource) \<Longrightarrow> reservation_of (it_tenant item) (it_id item) r"
  by (auto simp: rows_of_def reservation_of_def split: if_splits sum.splits option.splits)

text \<open>
  C31. A successful preparation books what it says. Every device on the list that is neither
  returned nor blank has an active master of its identifier (as the database compares it, or up to
  case) that may leave the company, and the item holds a reservation of that master on each day of
  the window of the device; the reservations of every other item are untouched; and no device is
  booked twice under one date.
\<close>

theorem preparation_books_every_day:
  assumes "syncEquipmentReservations env item event s = Inr t"
    and "jsonBytes (de_payload event) ''equipment'' = Some raw"
    and "decode_resources raw = Some resources"
    and "single_booked env (st_reservations s)"
  shows "single_booked env (st_reservations t) \<and>
    filter (\<lambda>r. \<not> reservation_of (it_tenant item) (it_id item) r) (st_reservations t) =
      filter (\<lambda>r. \<not> reservation_of (it_tenant item) (it_id item) r) (st_reservations s) \<and>
    (\<forall>r \<in> set resources. \<not> skipped r \<longrightarrow>
      (\<exists>start end. \<exists>master \<in> set (st_capabilities s).
         equipmentWindow env item r = Inr (start, end) \<and>
         cp_tenant master = it_tenant item \<and> cp_type master = ''EQUIPMENT'' \<and>
         master_for env r master \<and> master_usable env master start end \<and>
         (\<forall>day \<in> set (day_range start end). \<exists>q \<in> set (st_reservations t).
            reservation_of (it_tenant item) (it_id item) q \<and> rs_resource q = cp_resource master \<and>
            rs_use_date q = day)))"
proof -
  obtain locked where l: "lockItemEquipment env item resources s = Inr locked"
    and t: "t = s\<lparr>st_reservations :=
        filter (\<lambda>r. \<not> reservation_of (it_tenant item) (it_id item) r) (st_reservations s) @
        concat (map (rows_of env item event locked) resources)\<rparr>"
    and book: "\<forall>r \<in> set resources. bookable env item locked r"
    using assms(1-3) by (elim syncE) auto
  have "single_booked env (st_reservations t)" using assms(1,4) by (rule sync_single_booked)
  moreover have "filter (\<lambda>r. \<not> reservation_of (it_tenant item) (it_id item) r) (st_reservations t) =
      filter (\<lambda>r. \<not> reservation_of (it_tenant item) (it_id item) r) (st_reservations s)"
    by (auto simp: t filter_empty_conv dest: rows_of_item)
  moreover have "\<exists>start end. \<exists>master \<in> set (st_capabilities s).
         equipmentWindow env item r = Inr (start, end) \<and>
         cp_tenant master = it_tenant item \<and> cp_type master = ''EQUIPMENT'' \<and>
         master_for env r master \<and> master_usable env master start end \<and>
         (\<forall>day \<in> set (day_range start end). \<exists>q \<in> set (st_reservations t).
            reservation_of (it_tenant item) (it_id item) q \<and> rs_resource q = cp_resource master \<and>
            rs_use_date q = day)" if r: "r \<in> set resources" "\<not> skipped r" for r
  proof -
    obtain start "end" master where w: "equipmentWindow env item r = Inr (start, end)"
      "map_of locked (to_lower (trim_space (pr_id r))) = Some master" "master_usable env master start end"
      using book r by (auto simp: bookable_def)
    have m: "master \<in> set (st_capabilities s) \<and> cp_tenant master = it_tenant item \<and> cp_type master = ''EQUIPMENT''"
      using l w(2) by (auto simp: lockItemEquipment_def res_simps dest: locked_master)
    have "master_for env r master"
      using l w(2) r by (auto simp: lockItemEquipment_def res_simps skipped_def intro!: locked_master_for)
    moreover have "\<exists>q \<in> set (rows_of env item event locked r). rs_resource q = cp_resource master \<and> rs_use_date q = day"
      if "day \<in> set (day_range start end)" for day
      using r w that by (auto simp: rows_of_def)
    then have "\<forall>day \<in> set (day_range start end). \<exists>q \<in> set (st_reservations t).
        reservation_of (it_tenant item) (it_id item) q \<and> rs_resource q = cp_resource master \<and> rs_use_date q = day"
      using r(1) rows_of_item by (fastforce simp: t)
    ultimately show ?thesis using w m by blast
  qed
  ultimately show ?thesis by blast
qed

subsection \<open>Returning twice\<close>

lemma ascii_not_wide:
  assumes "of_char d < (128 :: nat)"
  shows "\<not> space2 b d" "\<not> space2 d b" "\<not> space3 c b d" "\<not> space3 d b c"
  using assms by (auto simp: space2_def space3_def)

lemma trim_rev_ascii: "of_char d < (128 :: nat) \<Longrightarrow> \<not> space1 d \<Longrightarrow> trim_rev (d # x) = d # x"
  by (cases x rule: trim_rev.cases) (simp_all add: ascii_not_wide)

lemma trim_left_ascii: "of_char d < (128 :: nat) \<Longrightarrow> \<not> space1 d \<Longrightarrow> trim_left (d # x) = d # x"
  by (cases x rule: trim_left.cases) (simp_all add: ascii_not_wide)

lemma trim_space_ascii_ends:
  "of_char c < (128 :: nat) \<Longrightarrow> \<not> space1 c \<Longrightarrow> of_char d < (128 :: nat) \<Longrightarrow> \<not> space1 d \<Longrightarrow>
   trim_space (c # x @ [d]) = c # x @ [d]"
  by (simp add: trim_space_def trim_left_ascii trim_rev_ascii)

lemma format_rfc3339_not_blank [simp]: "\<not> blank (format_rfc3339 t)"
proof -
  have dig: "of_char (digit_char n) < (128 :: nat)" "\<not> space1 (digit_char n)" for n
  proof -
    have n: "nat (48 + n mod 10) < 58" "48 \<le> nat (48 + n mod 10)" by auto
    then have o: "of_char (digit_char n) = nat (48 + n mod 10)" by (simp add: digit_char_def)
    with n show "of_char (digit_char n) < (128 :: nat)" by simp
    show "\<not> space1 (digit_char n)"
    proof
      assume "space1 (digit_char n)"
      then have "of_char (digit_char n) < (48 :: nat)" by (auto simp: space1_def)
      with o n show False by simp
    qed
  qed
  obtain y m d where "civil_from_days (t div day_ns) = (y, m, d)" by (cases "civil_from_days (t div day_ns)")
  then have "\<exists>c x. format_rfc3339 t = digit_char c # x @ [CHR ''Z'']"
    by (auto simp: format_rfc3339_def format_date_def Let_def fmt4_def)
  then obtain c x where "format_rfc3339 t = digit_char c # x @ [CHR ''Z'']" by blast
  moreover have "\<not> space1 (CHR ''Z'')" by (simp add: space1_def)
  ultimately show ?thesis by (simp add: trim_space_ascii_ends dig)
qed

lemma find_update_same: "(\<And>r. P r \<Longrightarrow> P (f r)) \<Longrightarrow> find P (update_where P f rows) = map_option f (find P rows)"
  by (induction rows) auto

lemma return_device_find:
  "find_plan (return_device env item event master resources s) item =
     map_option (\<lambda>p. p\<lparr>pl_equipment := Some (encode_resources (mark_returned master event resources)),
              pl_updated_at := de_created_at event, pl_updated_by := de_actor event\<rparr>) (find_plan s item)"
  unfolding find_plan_def return_device_def deleteEquipmentReservationRows_def
  by (subst find_update_same [symmetric]) (simp_all add: plan_key_def)

lemma return_device_plan:
  "find_plan s item = Some p \<Longrightarrow>
   plan_resources (return_device env item event master resources s) item =
    Inr (mark_returned master event resources)"
  by (simp add: plan_resources_def return_device_find)

lemma mark_returned_done: "\<not> list_ex (returned_now master) (mark_returned master event resources)"
  by (auto simp: mark_returned_def list_ex_iff returned_now_def)

text \<open>
  Returning a device frees it, once. Afterwards the item holds no reservation of the device,
  no reservation was added and those of other items are untouched; and repeating the return is
  accepted and changes nothing.
\<close>

theorem returned_device_is_free:
  assumes "markEquipmentReturned env item event s = Inr t"
  shows "markEquipmentReturned env item event t = Inr t \<and>
    set (st_reservations t) \<subseteq> set (st_reservations s) \<and>
    filter (\<lambda>r. \<not> reservation_of (it_tenant item) (it_id item) r) (st_reservations t) =
      filter (\<lambda>r. \<not> reservation_of (it_tenant item) (it_id item) r) (st_reservations s) \<and>
    (t = s \<or>
     (\<forall>r \<in> set (st_reservations t). reservation_of (it_tenant item) (it_id item) r \<longrightarrow>
        \<not> sql_eq env (rs_resource r) (stringValue (de_payload event) ''resource_id'')))"
  using assms
proof (cases rule: markE)
  case 1
  with assms show ?thesis by simp
next
  case (2 master resources)
  let ?rid = "stringValue (de_payload event) ''resource_id''"
  have same: "sql_eq env (cp_resource master) ?rid"
    using find_SomeD [OF 2(1)] by (simp add: equipment_master_def)
  obtain p where p: "find_plan s item = Some p"
    using 2(2,3) by (cases "find_plan s item") (auto simp: plan_resources_def)
  have caps: "st_capabilities t = st_capabilities s" by (simp add: 2(4) return_device_def)
  have res: "plan_resources t item = Inr (mark_returned master event resources)"
    unfolding 2(4) by (rule return_device_plan [OF p])
  have "?rid \<noteq> []" using assms by (auto simp: markEquipmentReturned_def Let_def)
  moreover obtain p' where "find_plan t item = Some p'"
    unfolding 2(4) return_device_find p by simp
  ultimately have again: "markEquipmentReturned env item event t = Inr t"
    using 2(1) res mark_returned_done [of master event resources]
    by (simp add: markEquipmentReturned_def Let_def lockItemEquipment_def caps)
  have rows: "st_reservations t = filter
      (\<lambda>r. \<not> (reservation_of (it_tenant item) (it_id item) r \<and>
         (cp_resource master \<noteq> [] \<longrightarrow> sql_eq env (rs_resource r) (cp_resource master)))) (st_reservations s)"
    by (simp add: 2(4) return_device_def deleteEquipmentReservationRows_def)
  have "\<not> sql_eq env (rs_resource r) ?rid"
    if "r \<in> set (st_reservations t)" "reservation_of (it_tenant item) (it_id item) r" for r
    using that same unfolding rows by (auto simp: sql_eq_def)
  moreover have "filter (\<lambda>r. \<not> reservation_of (it_tenant item) (it_id item) r) (st_reservations t) =
      filter (\<lambda>r. \<not> reservation_of (it_tenant item) (it_id item) r) (st_reservations s)"
    unfolding rows filter_filter by (rule filter_cong) auto
  moreover have "set (st_reservations t) \<subseteq> set (st_reservations s)" unfolding rows by auto
  ultimately show ?thesis using again by blast
qed

subsection \<open>Witnesses\<close>

definition sample_prepared_store :: store where
  "sample_prepared_store = empty_store\<lparr>st_capabilities := [sample_master], st_plans := [sample_plan]\<rparr>"

theorem preparation_books_every_day_witness:
  "\<exists>t. syncEquipmentReservations sample_env sample_item
        (sample_event ''E1'' EventPreparationStarted ''pm''
           [(''equipment'', encode_resources [sample_resource])]) sample_prepared_store = Inr t \<and>
     (\<exists>q \<in> set (st_reservations t). rs_resource q = ''EQ-1'')"
proof -
  let ?e = "sample_event ''E1'' EventPreparationStarted ''pm'' [(''equipment'', encode_resources [sample_resource])]"
  have "\<not> isl (syncEquipmentReservations sample_env sample_item ?e sample_prepared_store)" by code_simp
  then obtain t where t: "syncEquipmentReservations sample_env sample_item ?e sample_prepared_store = Inr t"
    by (cases "syncEquipmentReservations sample_env sample_item ?e sample_prepared_store") auto
  have "\<not> skipped sample_resource" by code_simp
  moreover have win: "equipmentWindow sample_env sample_item sample_resource = Inr (1767571200000000000, 1767744000000000000)"
    by code_simp
  ultimately obtain master where m: "master \<in> set (st_capabilities sample_prepared_store)"
    "\<forall>day \<in> set (day_range 1767571200000000000 1767744000000000000). \<exists>q \<in> set (st_reservations t).
       rs_resource q = cp_resource master"
    using preparation_books_every_day [OF t, of "encode_resources [sample_resource]" "[sample_resource]"]
    by (auto simp: sample_event_def jsonBytes_def encode_resources_def single_booked_def
        sample_prepared_store_def empty_store_def)
  have "1767571200000000000 \<in> set (day_range 1767571200000000000 1767744000000000000)"
    by (simp add: day_range.simps [of 1767571200000000000])
  with m have "\<exists>q \<in> set (st_reservations t). rs_resource q = ''EQ-1''"
    by (auto simp: sample_prepared_store_def sample_master_def)
  with t show ?thesis by blast
qed

theorem returned_device_is_free_witness:
  "\<exists>t. markEquipmentReturned sample_env sample_item
        (sample_event ''E2'' EventEquipmentReturned ''pm'' [(''resource_id'', JStr ''EQ-1'')])
        sample_prepared_store = Inr t \<and>
     markEquipmentReturned sample_env sample_item
        (sample_event ''E2'' EventEquipmentReturned ''pm'' [(''resource_id'', JStr ''EQ-1'')]) t = Inr t"
proof -
  let ?e = "sample_event ''E2'' EventEquipmentReturned ''pm'' [(''resource_id'', JStr ''EQ-1'')]"
  have "\<not> isl (markEquipmentReturned sample_env sample_item ?e sample_prepared_store)" by code_simp
  then obtain t where t: "markEquipmentReturned sample_env sample_item ?e sample_prepared_store = Inr t"
    by (cases "markEquipmentReturned sample_env sample_item ?e sample_prepared_store") auto
  from returned_device_is_free [OF t] t show ?thesis by blast
qed

end
