(* ===== verification/Penetration.thy ===== *)
theory Penetration
  imports ReportLedger
begin

text \<open>
  The penetration-test work package embedded in a classified-protection service item
  (\<open>infrastructure/mysql/penetration.go\<close>, \<open>application/penetration.go\<close>): its creation, the
  mutations under a version and an idempotency key, its own report ledger, and the two gates it
  puts before the parent item (field completion, report issue and archive).
\<close>

section \<open>Inputs\<close>

record decision_input =
  di_status :: string
  di_contact :: string
  di_communicated_at :: string
  di_summary :: string
  di_change_reason :: string
  di_version :: nat
  di_key :: string

record plan_input =
  pi_planned_start :: string
  pi_planned_end :: string
  pi_engineers :: "string list"
  pi_auth_doc_no :: string
  pi_auth_start :: string
  pi_auth_end :: string
  pi_auth_scope :: string
  pi_test_scope :: string
  pi_test_window :: string
  pi_emergency_contact :: string
  pi_rollback_plan :: string
  pi_version :: nat
  pi_key :: string

record execution_input =
  xi_action :: string
  xi_contact :: string
  xi_communicated_at :: string
  xi_summary :: string
  xi_reason :: string
  xi_version :: nat
  xi_key :: string

record report_input =
  ri_phase :: string
  ri_version :: nat
  ri_key :: string

record artifact_input =
  ai_file :: artifact
  ai_version :: nat
  ai_key :: string

text \<open>The inputs as the event ledger stores them.\<close>

definition decision_json :: "decision_input \<Rightarrow> json" where
  "decision_json i = JObj
     [(''decision_status'', JStr (di_status i)), (''customer_contact'', JStr (di_contact i)),
      (''communicated_at'', JStr (di_communicated_at i)),
      (''communication_summary'', JStr (di_summary i)),
      (''change_reason'', JStr (di_change_reason i)),
      (''expected_version'', JNum (int (di_version i)))]"

definition plan_json :: "plan_input \<Rightarrow> json" where
  "plan_json i = JObj
     [(''planned_start'', JStr (pi_planned_start i)), (''planned_end'', JStr (pi_planned_end i)),
      (''engineer_ids'', JStrs (pi_engineers i)), (''auth_doc_no'', JStr (pi_auth_doc_no i)),
      (''auth_start'', JStr (pi_auth_start i)), (''auth_end'', JStr (pi_auth_end i)),
      (''auth_scope'', JStr (pi_auth_scope i)), (''test_scope'', JStr (pi_test_scope i)),
      (''test_window'', JStr (pi_test_window i)),
      (''emergency_contact'', JStr (pi_emergency_contact i)),
      (''rollback_plan'', JStr (pi_rollback_plan i)),
      (''expected_version'', JNum (int (pi_version i)))]"

definition execution_json :: "execution_input \<Rightarrow> json" where
  "execution_json i = JObj
     ([(''action'', JStr (xi_action i))] @ omit_empty ''customer_contact'' (xi_contact i)
      @ omit_empty ''communicated_at'' (xi_communicated_at i)
      @ omit_empty ''communication_summary'' (xi_summary i) @ omit_empty ''reason'' (xi_reason i)
      @ [(''expected_version'', JNum (int (xi_version i)))])"

definition report_json :: "report_input \<Rightarrow> json" where
  "report_json i = JObj
     [(''phase'', JStr (ri_phase i)), (''expected_version'', JNum (int (ri_version i)))]"

definition artifact_json :: "artifact_input \<Rightarrow> json" where
  "artifact_json i =
     (case encode_artifact (ai_file i) of
        JObj fs \<Rightarrow> JObj (fs @ [(''expected_version'', JNum (int (ai_version i)))]) | j \<Rightarrow> j)"

section \<open>Which items have a package\<close>

text \<open>\<open>strings.ReplaceAll(s, " ", "")\<close>.\<close>

definition drop_blanks :: "string \<Rightarrow> string" where
  "drop_blanks s = filter (\<lambda>c. c \<noteq> CHR '' '') s"

definition isEqualProtectionCategory :: "string \<Rightarrow> bool" where
  "isEqualProtectionCategory category \<longleftrightarrow>
     (let category = drop_blanks (trim_space category)
      in str_contains category [CHR 0xE7, CHR 0xAD, CHR 0x89, CHR 0xE4, CHR 0xBF, CHR 0x9D] \<or>
         str_contains category
           [CHR 0xE7, CHR 0xAD, CHR 0x89, CHR 0xE7, CHR 0xBA, CHR 0xA7,
            CHR 0xE4, CHR 0xBF, CHR 0x9D, CHR 0xE6, CHR 0x8A, CHR 0xA4])"

definition package_exempt :: "service_item \<Rightarrow> bool" where
  "package_exempt item \<longleftrightarrow>
     equal_fold (trim_space (it_test_mode item)) ''PENETRATION'' \<or>
     \<not> isEqualProtectionCategory (it_category item)"

definition package_key :: "string \<Rightarrow> string \<Rightarrow> package_row \<Rightarrow> bool" where
  "package_key tenant itemID p \<longleftrightarrow> pk_tenant p = tenant \<and> pk_parent p = itemID"

definition find_package :: "store \<Rightarrow> string \<Rightarrow> string \<Rightarrow> package_row option" where
  "find_package s tenant itemID = find (package_key tenant itemID) (st_packages s)"

section \<open>The event ledger of packages\<close>

definition package_event_key :: "string \<Rightarrow> string \<Rightarrow> package_event_row \<Rightarrow> bool" where
  "package_event_key tenant key e \<longleftrightarrow> pe_tenant e = tenant \<and> pe_key e = key"

definition createPenetrationEvent ::
  "package_row \<Rightarrow> string \<Rightarrow> string \<Rightarrow> string \<Rightarrow> json \<Rightarrow> instant \<Rightarrow> store \<Rightarrow> app_error + store" where
  "createPenetrationEvent row eventType actor key payload now s =
     (if list_ex (package_event_key (pk_tenant row) key) (st_package_events s)
      then Inl ErrResourceConflict
      else Inr (s\<lparr>st_package_events := st_package_events s @
             [\<lparr>pe_tenant = pk_tenant row, pe_package = pk_id row, pe_type = eventType,
               pe_actor = actor, pe_key = key, pe_payload = payload, pe_created_at = now\<rparr>]\<rparr>))"

text \<open>A row whose primary key or unique key is taken is not inserted.\<close>

definition package_duplicate :: "package_row \<Rightarrow> store \<Rightarrow> bool" where
  "package_duplicate row s \<longleftrightarrow>
     list_ex (\<lambda>p. pk_id p = pk_id row \<or> package_key (pk_tenant row) (pk_parent row) p) (st_packages s)"

definition new_package :: "env \<Rightarrow> service_item \<Rightarrow> string \<Rightarrow> instant \<Rightarrow> package_row" where
  "new_package env item actor now =
     \<lparr>pk_id = env_ulid env, pk_tenant = it_tenant item, pk_project = it_project item,
      pk_parent = it_id item, pk_decision = ''PENDING'', pk_contact = [],
      pk_communicated_at = None, pk_summary = [], pk_change_reason = [],
      pk_planned_start = None, pk_planned_end = None, pk_engineers = [], pk_auth_doc_no = [],
      pk_auth_start = None, pk_auth_end = None, pk_auth_scope = [], pk_test_scope = [],
      pk_test_window = [], pk_emergency_contact = [], pk_rollback_plan = [],
      pk_execution = ''NOT_STARTED'', pk_report_status = ''NONE'', pk_report_revision = 0,
      pk_version = 1, pk_created_at = now, pk_updated_at = now, pk_updated_by = actor\<rparr>"

definition ensureEmbeddedPenetrationPackage ::
  "env \<Rightarrow> service_item \<Rightarrow> string \<Rightarrow> string \<Rightarrow> instant \<Rightarrow> store \<Rightarrow> app_error + store" where
  "ensureEmbeddedPenetrationPackage env item actor key now s =
     (if package_exempt item \<or> blank (it_manager item) then Inr s
      else if 0 < count_where (package_key (it_tenant item) (it_id item)) (st_packages s) then Inr s
      else let row = new_package env item actor now
           in if package_duplicate row s then Inr s
              else createPenetrationEvent row ''WORK_PACKAGE_CREATED'' actor key
                     (JObj [(''source'', JStr ''PROJECT_MANAGER_ASSIGNED'')]) now
                     (s\<lparr>st_packages := st_packages s @ [row]\<rparr>))"

section \<open>Gates\<close>

definition penetrationFieldCompletionGate :: "package_row option \<Rightarrow> app_error + unit" where
  "penetrationFieldCompletionGate row =
     (case row of None \<Rightarrow> Inl ErrPrecondition
      | Some p \<Rightarrow>
          if pk_decision p = ''NOT_REQUIRED'' then Inr ()
          else if pk_decision p \<noteq> ''REQUIRED'' \<or> pk_execution p \<noteq> ''COMPLETED''
          then Inl ErrPrecondition else Inr ())"

definition validatePenetrationFieldCompletionGate ::
  "store \<Rightarrow> service_item \<Rightarrow> app_error + unit" where
  "validatePenetrationFieldCompletionGate s item =
     (if package_exempt item then Inr ()
      else penetrationFieldCompletionGate (find_package s (it_tenant item) (it_id item)))"

definition penetrationReportGate :: "package_row option \<Rightarrow> string \<Rightarrow> app_error + unit" where
  "penetrationReportGate row parentPhase =
     (case row of None \<Rightarrow> Inl ErrPrecondition
      | Some p \<Rightarrow>
          if pk_decision p = ''NOT_REQUIRED'' then Inr ()
          else if parentPhase = ''ISSUED'' \<and> pk_report_status p \<noteq> ''ISSUED'' \<and>
                  pk_report_status p \<noteq> ''ARCHIVED'' then Inl ErrPrecondition
          else if parentPhase = ''ARCHIVED'' \<and> pk_report_status p \<noteq> ''ARCHIVED''
          then Inl ErrPrecondition else Inr ())"

definition validatePenetrationReportGate ::
  "store \<Rightarrow> service_item \<Rightarrow> string \<Rightarrow> app_error + unit" where
  "validatePenetrationReportGate s item parentPhase =
     (if package_exempt item \<or> (parentPhase \<noteq> ''ISSUED'' \<and> parentPhase \<noteq> ''ARCHIVED'') then Inr ()
      else penetrationReportGate (find_package s (it_tenant item) (it_id item)) parentPhase)"

section \<open>Mutations\<close>

type_synonym package_mutation =
  "package_row \<Rightarrow> store \<Rightarrow> app_error + (store \<times> (package_row \<Rightarrow> package_row))"

text \<open>
  The transaction all mutations share: the row lock, the replay of an idempotency key, the
  version, the mutation, the update under the version read, the event. The mutation returns the
  store it has written and the update of the row.
\<close>

definition mutatePenetrationPackage ::
  "string \<Rightarrow> string \<Rightarrow> nat \<Rightarrow> string \<Rightarrow> string \<Rightarrow> string \<Rightarrow> json \<Rightarrow> instant \<Rightarrow>
     package_mutation \<Rightarrow> store \<Rightarrow> app_error + store" where
  "mutatePenetrationPackage tenant itemID expectedVersion key eventType actor payload now mutate s =
     (case find_package s tenant itemID of None \<Rightarrow> Inl ErrNotFound
      | Some row \<Rightarrow>
          (case find (package_event_key tenant key) (st_package_events s) of
             Some prior \<Rightarrow>
               if pe_type prior \<noteq> eventType then Inl ErrResourceConflict
               else if pk_id row \<noteq> pe_package prior then Inl ErrResourceConflict
               else Inr s
           | None \<Rightarrow>
               if expectedVersion = 0 \<or> pk_version row \<noteq> expectedVersion then Inl ErrConflict
               else rbind (mutate row s) (\<lambda>(s, f).
                 let P = (\<lambda>p. pk_tenant p = tenant \<and> pk_id p = pk_id row \<and> pk_version p = pk_version row)
                 in if count_where P (st_packages s) \<noteq> 1 then Inl ErrConflict
                    else createPenetrationEvent row eventType actor key payload now
                      (s\<lparr>st_packages := update_where P
                          (\<lambda>p. (f p)\<lparr>pk_version := pk_version p + 1, pk_updated_at := now,
                                     pk_updated_by := actor\<rparr>) (st_packages s)\<rparr>))))"

definition decision_mutation :: "decision_input \<Rightarrow> package_mutation" where
  "decision_mutation input row s =
     (case parse_rfc3339 (di_communicated_at input) of None \<Rightarrow> Inl ErrValidation
      | Some communicatedAt \<Rightarrow>
          Inr (s, \<lambda>p.
            let p = p\<lparr>pk_decision := di_status input, pk_contact := di_contact input,
                      pk_communicated_at := Some communicatedAt, pk_summary := di_summary input,
                      pk_change_reason := trim_space (di_change_reason input)\<rparr>
            in if di_status input = ''NOT_REQUIRED''
               then p\<lparr>pk_execution := ''CANCELLED'', pk_report_status := ''NONE'',
                      pk_planned_start := None, pk_planned_end := None, pk_engineers := [],
                      pk_auth_doc_no := [], pk_auth_start := None, pk_auth_end := None,
                      pk_auth_scope := [], pk_test_scope := [], pk_test_window := [],
                      pk_emergency_contact := [], pk_rollback_plan := []\<rparr>
               else if pk_decision row = ''NOT_REQUIRED''
               then p\<lparr>pk_execution := ''NOT_STARTED'', pk_report_status := ''NONE''\<rparr>
               else p))"

definition SavePenetrationDecision ::
  "string \<Rightarrow> string \<Rightarrow> decision_input \<Rightarrow> string \<Rightarrow> instant \<Rightarrow> store \<Rightarrow> app_error + store" where
  "SavePenetrationDecision tenant itemID input actor now =
     mutatePenetrationPackage tenant itemID (di_version input) (di_key input)
       ''DECISION_RECORDED'' actor (decision_json input) now (decision_mutation input)"

text \<open>A parse error is ignored there and leaves the zero time.\<close>

definition parsed_or_zero :: "string \<Rightarrow> instant" where
  "parsed_or_zero s = (case parse_rfc3339 s of Some t \<Rightarrow> t | None \<Rightarrow> zero_time)"

definition plan_mutation :: "plan_input \<Rightarrow> package_mutation" where
  "plan_mutation input row s =
     (if pk_decision row \<noteq> ''REQUIRED'' \<or>
         (pk_execution row \<noteq> ''NOT_STARTED'' \<and> pk_execution row \<noteq> ''CANCELLED'')
      then Inl ErrPrecondition
      else Inr (s, \<lambda>p. p\<lparr>pk_planned_start := Some (parsed_or_zero (pi_planned_start input)),
             pk_planned_end := Some (parsed_or_zero (pi_planned_end input)),
             pk_engineers := pi_engineers input,
             pk_auth_doc_no := trim_space (pi_auth_doc_no input),
             pk_auth_start := Some (parsed_or_zero (pi_auth_start input)),
             pk_auth_end := Some (parsed_or_zero (pi_auth_end input)),
             pk_auth_scope := trim_space (pi_auth_scope input),
             pk_test_scope := trim_space (pi_test_scope input),
             pk_test_window := trim_space (pi_test_window input),
             pk_emergency_contact := trim_space (pi_emergency_contact input),
             pk_rollback_plan := trim_space (pi_rollback_plan input),
             pk_execution := ''NOT_STARTED''\<rparr>))"

definition SavePenetrationPlan ::
  "string \<Rightarrow> string \<Rightarrow> plan_input \<Rightarrow> string \<Rightarrow> instant \<Rightarrow> store \<Rightarrow> app_error + store" where
  "SavePenetrationPlan tenant itemID input actor now =
     mutatePenetrationPackage tenant itemID (pi_version input) (pi_key input)
       ''PLAN_SAVED'' actor (plan_json input) now (plan_mutation input)"

definition execution_mutation :: "execution_input \<Rightarrow> package_mutation" where
  "execution_mutation input row s =
     (if xi_action input = ''START''
      then if pk_decision row \<noteq> ''REQUIRED'' \<or> pk_execution row \<noteq> ''NOT_STARTED'' \<or>
              pk_planned_start row = None \<or> pk_auth_start row = None
           then Inl ErrPrecondition
           else Inr (s, \<lambda>p. p\<lparr>pk_execution := ''IN_PROGRESS''\<rparr>)
      else if xi_action input = ''COMPLETE''
      then if pk_execution row \<noteq> ''IN_PROGRESS'' then Inl ErrPrecondition
           else Inr (s, \<lambda>p. p\<lparr>pk_execution := ''COMPLETED''\<rparr>)
      else if xi_action input = ''CANCEL''
      then if pk_execution row = ''COMPLETED'' \<or> pk_report_status row \<noteq> ''NONE''
           then Inl ErrPrecondition
           else (case parse_rfc3339 (xi_communicated_at input) of None \<Rightarrow> Inl ErrValidation
                 | Some communicatedAt \<Rightarrow>
                     Inr (s, \<lambda>p. p\<lparr>pk_decision := ''NOT_REQUIRED'', pk_execution := ''CANCELLED'',
                       pk_contact := trim_space (xi_contact input),
                       pk_communicated_at := Some communicatedAt,
                       pk_summary := trim_space (xi_summary input),
                       pk_change_reason := trim_space (xi_reason input)\<rparr>))
      else Inl ErrValidation)"

definition AdvancePenetrationExecution ::
  "string \<Rightarrow> string \<Rightarrow> execution_input \<Rightarrow> string \<Rightarrow> instant \<Rightarrow> store \<Rightarrow> app_error + store" where
  "AdvancePenetrationExecution tenant itemID input actor now =
     mutatePenetrationPackage tenant itemID (xi_version input) (xi_key input)
       (''EXECUTION_'' @ xi_action input) actor (execution_json input) now (execution_mutation input)"

subsection \<open>The report of a package\<close>

abbreviation package_revision :: "package_row \<Rightarrow> revision_row \<Rightarrow> bool" where
  "package_revision row \<equiv>
     revision_key (pk_tenant row) SubjectPenetration (pk_id row) (pk_report_revision row)"

definition lockPenetrationReportRevision ::
  "package_row \<Rightarrow> instant \<Rightarrow> store \<Rightarrow> app_error + (store \<times> revision_row)" where
  "lockPenetrationReportRevision row now s =
     (case find (package_revision row) (st_revisions s) of Some r \<Rightarrow> Inr (s, r)
      | None \<Rightarrow>
          let r = new_revision (pk_tenant row) (pk_parent row) SubjectPenetration (pk_id row)
                    (pk_report_revision row) ''NONE'' now
          in rbind (insert_revision r s) (\<lambda>t. Inr (t, r\<lparr>rv_id := st_next_revision s\<rparr>)))"

definition next_package_phase :: "string \<Rightarrow> string" where
  "next_package_phase phase =
     (if phase = ''NONE'' then ''DRAFTING'' else if phase = ''DRAFTING'' then ''SUBMITTED''
      else if phase = ''SUBMITTED'' then ''APPROVED'' else if phase = ''APPROVED'' then ''ISSUED''
      else if phase = ''ISSUED'' then ''ARCHIVED'' else [])"

definition package_report_updates ::
  "revision_row \<Rightarrow> string \<Rightarrow> string \<Rightarrow> instant \<Rightarrow> app_error + (revision_row \<Rightarrow> revision_row)" where
  "package_report_updates revision phase actor now =
     (let base = (\<lambda>r. r\<lparr>rv_status := phase, rv_updated_at := now\<rparr>)
      in if phase = ''DRAFTING''
         then Inr (\<lambda>r. base (r\<lparr>rv_prepared_by := actor, rv_prepared_at := Some now\<rparr>))
         else if phase = ''SUBMITTED''
         then if rv_prepared_by revision = [] \<or> blank (rv_file_id revision)
              then Inl ErrPrecondition else Inr base
         else if phase = ''APPROVED''
         then if rv_prepared_by revision = [] \<or> actor = rv_prepared_by revision
              then Inl ErrPrecondition
              else Inr (\<lambda>r. base (r\<lparr>rv_reviewed_by := actor, rv_reviewed_at := Some now\<rparr>))
         else if phase = ''ISSUED''
         then if rv_reviewed_by revision = [] \<or> actor = rv_prepared_by revision \<or>
                 actor = rv_reviewed_by revision
              then Inl ErrPrecondition
              else Inr (\<lambda>r. base (r\<lparr>rv_issued_by := actor, rv_issued_at := Some now\<rparr>))
         else if phase = ''ARCHIVED''
         then if rv_issued_by revision = [] then Inl ErrPrecondition
              else Inr (\<lambda>r. base (r\<lparr>rv_archived_by := actor, rv_archived_at := Some now\<rparr>))
         else Inr base)"

definition report_mutation :: "report_input \<Rightarrow> string \<Rightarrow> instant \<Rightarrow> package_mutation" where
  "report_mutation input actor now row s =
     (if pk_execution row \<noteq> ''COMPLETED'' then Inl ErrPrecondition
      else let nxt = next_package_phase (pk_report_status row)
        in if nxt = [] \<or> ri_phase input \<noteq> nxt then Inl ErrValidation
           else rbind (lockPenetrationReportRevision row now s) (\<lambda>(s, revision).
             rbind (package_report_updates revision (ri_phase input) actor now) (\<lambda>f.
               rbind (update_revision
                   (\<lambda>r. rv_id r = rv_id revision \<and> rv_status r = rv_status revision) f s) (\<lambda>s.
                 Inr (s, \<lambda>p. p\<lparr>pk_report_status := ri_phase input\<rparr>)))))"

definition AdvancePenetrationReport ::
  "string \<Rightarrow> string \<Rightarrow> report_input \<Rightarrow> string \<Rightarrow> instant \<Rightarrow> store \<Rightarrow> app_error + store" where
  "AdvancePenetrationReport tenant itemID input actor now =
     mutatePenetrationPackage tenant itemID (ri_version input) (ri_key input)
       ''REPORT_STATUS_UPDATED'' actor (report_json input) now (report_mutation input actor now)"

definition artifact_mutation :: "artifact_input \<Rightarrow> instant \<Rightarrow> package_mutation" where
  "artifact_mutation input now row s =
     (if pk_report_status row \<noteq> ''DRAFTING'' then Inl ErrPrecondition
      else rbind (lockPenetrationReportRevision row now s) (\<lambda>(s, revision).
        rbind (update_revision (\<lambda>r. rv_id r = rv_id revision \<and> rv_status r = ''DRAFTING'')
            (\<lambda>r. r\<lparr>rv_file_id := af_file_id (ai_file input), rv_file_name := af_name (ai_file input),
                   rv_file_mime := af_mime (ai_file input), rv_file_size := af_size (ai_file input),
                   rv_file_sha256 := af_sha256 (ai_file input), rv_updated_at := now\<rparr>) s)
          (\<lambda>s. Inr (s, \<lambda>p. p))))"

definition RegisterPenetrationReportArtifact ::
  "string \<Rightarrow> string \<Rightarrow> artifact_input \<Rightarrow> string \<Rightarrow> instant \<Rightarrow> store \<Rightarrow> app_error + store" where
  "RegisterPenetrationReportArtifact tenant itemID input actor now =
     mutatePenetrationPackage tenant itemID (ai_version input) (ai_key input)
       ''REPORT_ARTIFACT_REGISTERED'' actor (artifact_json input) now (artifact_mutation input now)"

definition EnsurePenetrationWorkPackage ::
  "env \<Rightarrow> string \<Rightarrow> string \<Rightarrow> nat \<Rightarrow> string \<Rightarrow> string \<Rightarrow> instant \<Rightarrow> store \<Rightarrow> app_error + store" where
  "EnsurePenetrationWorkPackage env tenant itemID version actor key now s =
     (case find_item s tenant itemID of None \<Rightarrow> Inl ErrNotFound
      | Some row \<Rightarrow>
          if version \<noteq> 0 \<and> it_version row \<noteq> version then Inl ErrConflict
          else ensureEmbeddedPenetrationPackage env row actor key now s)"

section \<open>Checks of the service layer\<close>

text \<open>
  The checks \<open>application/penetration.go\<close> makes before it calls the repository, on the package
  it has read (the argument \<open>current\<close>) and on the input.
\<close>

definition text_fits :: "string \<Rightarrow> nat \<Rightarrow> bool" where
  "text_fits value limit \<longleftrightarrow> rune_count (trim_space value) \<le> limit"

definition validateProjectTextLength :: "string \<Rightarrow> nat \<Rightarrow> app_error + unit" where
  "validateProjectTextLength value limit = rguard (text_fits value limit) ErrValidation"

definition requireIdempotencyKey :: "string \<Rightarrow> app_error + string" where
  "requireIdempotencyKey value =
     (let value = trim_space value
      in if value = [] \<or> 128 < length value then Inl ErrValidation else Inr value)"

definition requireProjectManager :: "string \<Rightarrow> service_item \<Rightarrow> app_error + unit" where
  "requireProjectManager userID item =
     (if blank (it_manager item) then Inl ErrPrecondition
      else if trim_space (it_manager item) \<noteq> trim_space userID then Inl ErrForbidden else Inr ())"

definition validatePenetrationDecisionTexts :: "decision_input \<Rightarrow> app_error + unit" where
  "validatePenetrationDecisionTexts input =
     rguard (text_fits (di_contact input) 128 \<and> text_fits (di_summary input) 2000 \<and>
             text_fits (di_change_reason input) 1000) ErrValidation"

definition checkPenetrationDecision ::
  "string \<Rightarrow> service_item \<Rightarrow> package_row option \<Rightarrow> decision_input \<Rightarrow> app_error + decision_input" where
  "checkPenetrationDecision userID item current input =
     rbind (requireProjectManager userID item) (\<lambda>_.
     let input = input\<lparr>di_status := to_upper (trim_space (di_status input))\<rparr>
     in if di_status input \<noteq> ''REQUIRED'' \<and> di_status input \<noteq> ''NOT_REQUIRED''
        then Inl ErrValidation
        else let input = input\<lparr>di_contact := trim_space (di_contact input),
                               di_summary := trim_space (di_summary input)\<rparr>
        in if di_contact input = [] \<or> di_summary input = [] then Inl ErrValidation
           else rbind (validatePenetrationDecisionTexts input) (\<lambda>_.
             if parse_rfc3339 (di_communicated_at input) = None then Inl ErrValidation
             else rbind (requireIdempotencyKey (di_key input)) (\<lambda>key.
               let input = input\<lparr>di_key := key\<rparr>
               in case current of None \<Rightarrow> Inl ErrNotFound
                  | Some current \<Rightarrow>
                      if pk_decision current \<noteq> ''PENDING'' \<and>
                         pk_decision current \<noteq> di_status input \<and> blank (di_change_reason input)
                      then Inl ErrValidation
                      else if pk_execution current = ''IN_PROGRESS'' \<or>
                              pk_execution current = ''COMPLETED'' \<or>
                              pk_report_status current \<noteq> ''NONE''
                      then Inl ErrPrecondition
                      else Inr input)))"

subsection \<open>The scope of a test\<close>

text \<open>
  \<open>strings.Join(strings.Fields(s), "")\<close> drops every white space rune; \<open>strings.FieldsFunc\<close> cuts
  at the five separators (two of them full-width, three bytes each) and drops empty pieces.
\<close>

fun drop_space :: "string \<Rightarrow> string" where
  "drop_space [] = []"
| "drop_space [a] = (if space1 a then [] else [a])"
| "drop_space [a, b] =
     (if space1 a then drop_space [b] else if space2 a b then [] else a # drop_space [b])"
| "drop_space (a # b # c # s) =
     (if space1 a then drop_space (b # c # s)
      else if space2 a b then drop_space (c # s)
      else if space3 a b c then drop_space s
      else a # drop_space (b # c # s))"

definition separator1 :: "char \<Rightarrow> bool" where
  "separator1 c \<longleftrightarrow> c = CHR '','' \<or> c = CHR '';'' \<or> c = CHR 0x0A"

definition separator3 :: "char \<Rightarrow> char \<Rightarrow> char \<Rightarrow> bool" where
  "separator3 a b c \<longleftrightarrow> a = CHR 0xEF \<and> b = CHR 0xBC \<and> (c = CHR 0x8C \<or> c = CHR 0x9B)"

fun scope_parts :: "string \<Rightarrow> string \<Rightarrow> string list" where
  "scope_parts acc [] = (if acc = [] then [] else [rev acc])"
| "scope_parts acc (a # s) =
     (if separator1 a then (if acc = [] then [] else [rev acc]) @ scope_parts [] s
      else case s of
             b # c # s' \<Rightarrow>
               if separator3 a b c then (if acc = [] then [] else [rev acc]) @ scope_parts [] s'
               else scope_parts (a # acc) s
           | _ \<Rightarrow> scope_parts (a # acc) s)"

definition scopeContained :: "string \<Rightarrow> string \<Rightarrow> bool" where
  "scopeContained testScope authScope \<longleftrightarrow>
     (let authorized = to_lower (drop_space authScope);
          parts = scope_parts [] (to_lower testScope)
      in parts \<noteq> [] \<and>
         list_all (\<lambda>part. let part = drop_space part in part \<noteq> [] \<and> str_contains authorized part) parts)"

definition validatePenetrationPlanTexts :: "plan_input \<Rightarrow> app_error + unit" where
  "validatePenetrationPlanTexts input =
     rguard (text_fits (pi_auth_doc_no input) 128 \<and> text_fits (pi_auth_scope input) 5000 \<and>
             text_fits (pi_test_scope input) 5000 \<and> text_fits (pi_test_window input) 128 \<and>
             text_fits (pi_emergency_contact input) 128 \<and> text_fits (pi_rollback_plan input) 5000)
       ErrValidation"

definition validateEmbeddedPenetrationPlan ::
  "plan_input \<Rightarrow> app_error + (instant \<times> instant \<times> instant \<times> instant)" where
  "validateEmbeddedPenetrationPlan input =
     (if list_ex blank [pi_auth_doc_no input, pi_auth_scope input, pi_test_scope input,
           pi_test_window input, pi_emergency_contact input, pi_rollback_plan input]
      then Inl ErrValidation
      else case (parse_rfc3339 (pi_planned_start input), parse_rfc3339 (pi_planned_end input),
                 parse_rfc3339 (pi_auth_start input), parse_rfc3339 (pi_auth_end input)) of
             (Some start, Some end, Some authStart, Some authEnd) \<Rightarrow>
               if \<not> start < end \<or> \<not> authStart < authEnd then Inl ErrValidation
               else if \<not> scopeContained (pi_test_scope input) (pi_auth_scope input)
               then Inl ErrValidation
               else Inr (start, end, authStart, authEnd)
           | _ \<Rightarrow> Inl ErrValidation)"

fun personnel_scan :: "nat \<Rightarrow> string list \<Rightarrow> string list \<Rightarrow> string list" where
  "personnel_scan limit seen [] = []"
| "personnel_scan limit seen (i # ids) =
     (let i = trim_space i
      in if i = [] \<or> List.member seen i then personnel_scan limit seen ids
         else if limit \<le> Suc (length seen) then [i]
         else i # personnel_scan limit (i # seen) ids)"

definition maximumPersonnelNameLookups :: nat where
  "maximumPersonnelNameLookups = 50"

definition normalizePersonnelIDs :: "string list \<Rightarrow> string list" where
  "normalizePersonnelIDs ids = personnel_scan maximumPersonnelNameLookups [] ids"

definition qualifiedUserID :: "string \<Rightarrow> capability_row list \<Rightarrow> string option" where
  "qualifiedUserID candidate items =
     map_option (\<lambda>c. trim_space (cp_user c))
       (find (\<lambda>c. cp_type c = ''PERSON'' \<and> cp_status c = ''ACTIVE'' \<and> cp_identity c = ''ACTIVE'' \<and>
                  \<not> blank (cp_user c) \<and>
                  (trim_space candidate = trim_space (cp_user c) \<or>
                   trim_space candidate = trim_space (cp_resource c))) items)"

definition validatePenetrationEngineers :: "capability_row list \<Rightarrow> string list \<Rightarrow> app_error + unit" where
  "validatePenetrationEngineers capabilities ids =
     rguard (list_all (\<lambda>candidate. list_ex (\<lambda>c. qualifiedUserID candidate [c] \<noteq> None \<and>
        list_ex (\<lambda>code. equal_fold (trim_space code) ''PENETRATION_TEST'') (cp_codes c)) capabilities) ids)
       ErrPrecondition"

text \<open>
  The plan as the service checks it: \<open>capabilities\<close> is what \<open>FindCapabilities\<close> returned and
  \<open>conflicts\<close> what \<open>ListPenetrationPersonnelConflicts\<close> did.
\<close>

definition checkPenetrationPlan ::
  "string \<Rightarrow> service_item \<Rightarrow> capability_row list \<Rightarrow> string list \<Rightarrow> plan_input \<Rightarrow> app_error + plan_input" where
  "checkPenetrationPlan userID item capabilities conflicts input =
     rbind (requireProjectManager userID item) (\<lambda>_.
     rbind (validatePenetrationPlanTexts input) (\<lambda>_.
     rbind (validateEmbeddedPenetrationPlan input) (\<lambda>(start, end, authStart, authEnd).
     let input = input\<lparr>pi_engineers := normalizePersonnelIDs (pi_engineers input)\<rparr>
     in if pi_engineers input = [] then Inl ErrValidation
        else rbind (validatePenetrationEngineers capabilities (pi_engineers input)) (\<lambda>_.
          if conflicts \<noteq> [] then Inl ErrResourceConflict
          else if start < authStart \<or> authEnd < end then Inl ErrValidation
          else rbind (requireIdempotencyKey (pi_key input)) (\<lambda>key.
            Inr (input\<lparr>pi_key := key\<rparr>))))))"

text \<open>What an overlap of schedules is (\<open>ListPenetrationPersonnelConflicts\<close>).\<close>

definition overlaps :: "instant option \<Rightarrow> instant option \<Rightarrow> instant \<Rightarrow> instant \<Rightarrow> bool" where
  "overlaps ps pe start end =
     (case (ps, pe) of (Some a, Some b) \<Rightarrow> a < end \<and> start < b | _ \<Rightarrow> False)"

definition ListPenetrationPersonnelConflicts ::
  "store \<Rightarrow> string \<Rightarrow> string \<Rightarrow> string list \<Rightarrow> instant \<Rightarrow> instant \<Rightarrow> (string \<times> string) list" where
  "ListPenetrationPersonnelConflicts s tenant itemID engineers start end =
     concat (map (\<lambda>e.
       map (\<lambda>i. (e, it_id i))
         (filter (\<lambda>i. it_tenant i = tenant \<and> it_id i \<noteq> itemID \<and> item_live i \<and>
            overlaps (it_planned_start i) (it_planned_end i) start end \<and>
            List.member (column_strs (it_engineers i)) e) (st_items s)) @
       map (\<lambda>p. (e, pk_parent p))
         (filter (\<lambda>p. pk_tenant p = tenant \<and> pk_parent p \<noteq> itemID \<and> pk_decision p = ''REQUIRED'' \<and>
            (pk_execution p = ''NOT_STARTED'' \<or> pk_execution p = ''IN_PROGRESS'') \<and>
            overlaps (pk_planned_start p) (pk_planned_end p) start end \<and>
            List.member (pk_engineers p) e) (st_packages s))) engineers)"

text \<open>\<open>FindCapabilities\<close>: active personnel with an active identity, by archive or user id.\<close>

definition FindCapabilities :: "store \<Rightarrow> string \<Rightarrow> string list \<Rightarrow> capability_row list" where
  "FindCapabilities s tenant ids =
     filter (\<lambda>c. cp_tenant c = tenant \<and> cp_type c = ''PERSON'' \<and>
         (List.member ids (cp_resource c) \<or> List.member ids (cp_user c)) \<and>
         cp_status c = ''ACTIVE'' \<and> cp_identity c = ''ACTIVE'') (st_capabilities s)"

text \<open>A stored time as a client reads it back, to the second.\<close>

definition to_second :: "instant option \<Rightarrow> instant option" where
  "to_second t = map_option (\<lambda>t. t - t mod second_ns) t"

definition containsString :: "string list \<Rightarrow> string \<Rightarrow> bool" where
  "containsString values expected = list_ex (\<lambda>v. trim_space v = trim_space expected) values"

definition checkPenetrationExecution ::
  "store \<Rightarrow> string \<Rightarrow> service_item \<Rightarrow> package_row option \<Rightarrow> instant \<Rightarrow> execution_input \<Rightarrow>
     app_error + execution_input" where
  "checkPenetrationExecution s userID item current now input =
     (let input = input\<lparr>xi_action := to_upper (trim_space (xi_action input))\<rparr>
      in if xi_action input \<noteq> ''START'' \<and> xi_action input \<noteq> ''COMPLETE'' \<and> xi_action input \<noteq> ''CANCEL''
         then Inl ErrValidation
         else case current of None \<Rightarrow> Inl ErrNotFound
         | Some current \<Rightarrow>
             rbind (if xi_action input = ''CANCEL''
                    then rbind (requireProjectManager userID item) (\<lambda>_.
                      if blank (xi_reason input) \<or> blank (xi_contact input) \<or> blank (xi_summary input)
                      then Inl ErrValidation
                      else rguard (text_fits (xi_reason input) 1000 \<and> text_fits (xi_contact input) 128 \<and>
                             text_fits (xi_summary input) 2000 \<and>
                             parse_rfc3339 (xi_communicated_at input) \<noteq> None) ErrValidation)
                    else rguard (containsString (pk_engineers current) userID) ErrForbidden) (\<lambda>_.
             rbind (if xi_action input = ''START''
                    then case (to_second (pk_auth_start current), to_second (pk_auth_end current)) of
                           (Some authStart, Some authEnd) \<Rightarrow>
                             if now < authStart \<or> authEnd < now then Inl ErrPrecondition
                             else rbind (validatePenetrationEngineers
                                 (FindCapabilities s (it_tenant item) (pk_engineers current))
                                 (pk_engineers current)) (\<lambda>_.
                               case (to_second (pk_planned_start current), to_second (pk_planned_end current)) of
                                 (Some plannedStart, Some plannedEnd) \<Rightarrow>
                                   rguard (ListPenetrationPersonnelConflicts s (it_tenant item) (it_id item)
                                       (pk_engineers current) plannedStart plannedEnd = []) ErrResourceConflict
                               | _ \<Rightarrow> Inl ErrPrecondition)
                         | _ \<Rightarrow> Inl ErrPrecondition
                    else Inr ()) (\<lambda>_.
             rbind (requireIdempotencyKey (xi_key input)) (\<lambda>key. Inr (input\<lparr>xi_key := key\<rparr>)))))"

subsection \<open>Service calls\<close>

text \<open>
  A service call on the package of an item by a user at a time: the checks on what it reads, then
  the repository transaction. The permission checks of the principal are not part of it.
\<close>

datatype package_command =
    CDecision decision_input | CPlan plan_input | CExecution execution_input
  | CReport report_input | CArtifact artifact_input

record package_call =
  pc_command :: package_command
  pc_user :: string
  pc_now :: instant

definition planned_window :: "plan_input \<Rightarrow> instant \<times> instant" where
  "planned_window input =
     (parsed_or_zero (pi_planned_start input), parsed_or_zero (pi_planned_end input))"

fun package_commit ::
  "string \<Rightarrow> string \<Rightarrow> package_command \<Rightarrow> string \<Rightarrow> instant \<Rightarrow> store \<Rightarrow> app_error + store" where
  "package_commit tenant itemID (CDecision input) = SavePenetrationDecision tenant itemID input"
| "package_commit tenant itemID (CPlan input) = SavePenetrationPlan tenant itemID input"
| "package_commit tenant itemID (CExecution input) = AdvancePenetrationExecution tenant itemID input"
| "package_commit tenant itemID (CReport input) = AdvancePenetrationReport tenant itemID input"
| "package_commit tenant itemID (CArtifact input) =
     RegisterPenetrationReportArtifact tenant itemID input"

text \<open>The checks of the service, which normalise the command.\<close>

fun check_package_command ::
  "service_item \<Rightarrow> package_command \<Rightarrow> string \<Rightarrow> instant \<Rightarrow> store \<Rightarrow> app_error + package_command" where
  "check_package_command item (CDecision input) user now s =
     rbind (checkPenetrationDecision user item (find_package s (it_tenant item) (it_id item)) input)
       (\<lambda>input. Inr (CDecision input))"
| "check_package_command item (CPlan input) user now s =
     (let engineers = normalizePersonnelIDs (pi_engineers input);
          (start, end) = planned_window input
      in rbind (checkPenetrationPlan user item (FindCapabilities s (it_tenant item) engineers)
           (map fst (ListPenetrationPersonnelConflicts s (it_tenant item) (it_id item) engineers start end))
           input) (\<lambda>input. Inr (CPlan input)))"
| "check_package_command item (CExecution input) user now s =
     rbind (checkPenetrationExecution s user item
         (find_package s (it_tenant item) (it_id item)) now input) (\<lambda>input. Inr (CExecution input))"
| "check_package_command item (CReport input) user now s =
     rbind (requireIdempotencyKey (ri_key input)) (\<lambda>key.
       Inr (CReport (input\<lparr>ri_phase := to_upper (trim_space (ri_phase input)), ri_key := key\<rparr>)))"
| "check_package_command item (CArtifact input) user now s =
     rbind (requireIdempotencyKey (ai_key input)) (\<lambda>key. Inr (CArtifact (input\<lparr>ai_key := key\<rparr>)))"

text \<open>
  The checks read the tables before the transaction begins: \<open>package_service_at\<close> takes the tables
  they read and those the transaction finds, which others may have changed in between.
  \<open>package_service\<close> is the call nobody interferes with.
\<close>

definition package_service_at ::
  "service_item \<Rightarrow> package_call \<Rightarrow> store \<Rightarrow> store \<Rightarrow> app_error + store" where
  "package_service_at item call read s =
     rbind (check_package_command item (pc_command call) (pc_user call) (pc_now call) read) (\<lambda>command.
       package_commit (it_tenant item) (it_id item) command (pc_user call) (pc_now call) s)"

definition package_service :: "service_item \<Rightarrow> package_call \<Rightarrow> store \<Rightarrow> app_error + store" where
  "package_service item call s =
     rbind (check_package_command item (pc_command call) (pc_user call) (pc_now call) s) (\<lambda>command.
       package_commit (it_tenant item) (it_id item) command (pc_user call) (pc_now call) s)"

section \<open>The life cycle of a package\<close>

text \<open>
  Testing runs only on a package the customer decided on, planned and authorised; a report exists
  only for a completed test; a package that is not required is cancelled and has no report.
\<close>

definition package_ok :: "package_row \<Rightarrow> bool" where
  "package_ok p \<longleftrightarrow>
     (pk_decision p = ''PENDING'' \<or> pk_decision p = ''REQUIRED'' \<or> pk_decision p = ''NOT_REQUIRED'') \<and>
     (pk_decision p = ''PENDING'' \<longrightarrow> pk_execution p = ''NOT_STARTED'') \<and>
     (pk_decision p = ''NOT_REQUIRED'' \<longrightarrow> pk_execution p = ''CANCELLED'') \<and>
     (pk_execution p = ''IN_PROGRESS'' \<or> pk_execution p = ''COMPLETED'' \<longrightarrow>
        pk_decision p = ''REQUIRED'' \<and> pk_planned_start p \<noteq> None \<and> pk_auth_start p \<noteq> None) \<and>
     (pk_report_status p \<noteq> ''NONE'' \<longrightarrow> pk_execution p = ''COMPLETED'')"

text \<open>What a recorded decision may rely on, by the checks of the service.\<close>

definition decision_admissible :: "decision_input \<Rightarrow> package_row \<Rightarrow> bool" where
  "decision_admissible input row \<longleftrightarrow>
     (di_status input = ''REQUIRED'' \<or> di_status input = ''NOT_REQUIRED'') \<and>
     pk_execution row \<noteq> ''IN_PROGRESS'' \<and> pk_execution row \<noteq> ''COMPLETED'' \<and>
     pk_report_status row = ''NONE''"

lemma checkPenetrationDecision_admissible:
  "checkPenetrationDecision u item (Some row) input = Inr input' \<Longrightarrow> decision_admissible input' row"
  by (auto simp: checkPenetrationDecision_def Let_def res_simps decision_admissible_def split: if_splits)

lemma new_package_ok: "package_ok (new_package env item actor now)"
  by (simp add: package_ok_def new_package_def)

section \<open>The contract of a mutation\<close>

text \<open>
  What the shared transaction relies on: a mutation writes no table but the ledger, keeps what
  identifies the row, its version and its report revision, and keeps the life cycle when its
  precondition on the row holds.
\<close>

locale package_mutator =
  fixes mutate :: package_mutation
    and pre :: "package_row \<Rightarrow> bool"
  assumes frame: "mutate row s = Inr (t, f) \<Longrightarrow> same_but_revisions s t"
    and keeps: "mutate row s = Inr (t, f) \<Longrightarrow>
      pk_id (f p) = pk_id p \<and> pk_tenant (f p) = pk_tenant p \<and> pk_parent (f p) = pk_parent p \<and>
      pk_project (f p) = pk_project p \<and> pk_version (f p) = pk_version p \<and>
      pk_report_revision (f p) = pk_report_revision p"
    and lifecycle: "mutate row s = Inr (t, f) \<Longrightarrow> pre row \<Longrightarrow> package_ok row \<Longrightarrow> package_ok (f row)"

lemma package_lock_frame: "lockPenetrationReportRevision row now s = Inr (t, r) \<Longrightarrow> same_but_revisions s t"
  by (auto simp: lockPenetrationReportRevision_def Let_def res_simps split: option.splits)

interpretation decision: package_mutator "decision_mutation input" "decision_admissible input" for input
proof
  show "decision_mutation input row s = Inr (t, f) \<Longrightarrow> same_but_revisions s t" for row s t f
    by (auto simp: decision_mutation_def split: option.splits)
next
  show "pk_id (f p) = pk_id p \<and> pk_tenant (f p) = pk_tenant p \<and> pk_parent (f p) = pk_parent p \<and>
      pk_project (f p) = pk_project p \<and> pk_version (f p) = pk_version p \<and>
      pk_report_revision (f p) = pk_report_revision p"
    if "decision_mutation input row s = Inr (t, f)" for row s t f p
    using that by (auto simp: decision_mutation_def Let_def split: option.splits)
next
  show "package_ok (f row)" if "decision_mutation input row s = Inr (t, f)"
    "decision_admissible input row" "package_ok row" for row s t f
    using that by (auto simp: decision_mutation_def Let_def package_ok_def decision_admissible_def
        split: option.splits)
qed

interpretation plan: package_mutator "plan_mutation input" "\<lambda>_. True" for input
proof
  fix row s t f
  assume m: "plan_mutation input row s = Inr (t, f)"
  then have st: "pk_decision row = ''REQUIRED''"
    "pk_execution row = ''NOT_STARTED'' \<or> pk_execution row = ''CANCELLED''"
    by (simp_all add: plan_mutation_def split: if_splits)
  with m show "same_but_revisions s t" by (auto simp: plan_mutation_def)
  show "pk_id (f p) = pk_id p \<and> pk_tenant (f p) = pk_tenant p \<and> pk_parent (f p) = pk_parent p \<and>
      pk_project (f p) = pk_project p \<and> pk_version (f p) = pk_version p \<and>
      pk_report_revision (f p) = pk_report_revision p" for p
    using m st by (auto simp: plan_mutation_def)
  assume "package_ok row"
  with st have "pk_report_status row = ''NONE''" by (auto simp: package_ok_def)
  with m st show "package_ok (f row)" by (auto simp: plan_mutation_def package_ok_def)
qed

lemma execution_mutation_Inr:
  "execution_mutation input row s = Inr (t, f) \<Longrightarrow> t = s \<and>
     (pk_decision row = ''REQUIRED'' \<and> pk_execution row = ''NOT_STARTED'' \<and>
        pk_planned_start row \<noteq> None \<and> pk_auth_start row \<noteq> None \<and>
        f = (\<lambda>p. p\<lparr>pk_execution := ''IN_PROGRESS''\<rparr>) \<or>
      pk_execution row = ''IN_PROGRESS'' \<and> f = (\<lambda>p. p\<lparr>pk_execution := ''COMPLETED''\<rparr>) \<or>
      pk_execution row \<noteq> ''COMPLETED'' \<and> pk_report_status row = ''NONE'' \<and>
        f = (\<lambda>p. p\<lparr>pk_decision := ''NOT_REQUIRED'', pk_execution := ''CANCELLED'',
           pk_contact := trim_space (xi_contact input),
           pk_communicated_at := parse_rfc3339 (xi_communicated_at input),
           pk_summary := trim_space (xi_summary input),
           pk_change_reason := trim_space (xi_reason input)\<rparr>))"
  by (cases "xi_action input = ''START''"; cases "xi_action input = ''COMPLETE''";
      cases "xi_action input = ''CANCEL''")
    (simp_all add: execution_mutation_def split: if_splits option.splits)

interpretation execution: package_mutator "execution_mutation input" "\<lambda>_. True" for input
proof
  fix row s t f
  assume m: "execution_mutation input row s = Inr (t, f)"
  note f = execution_mutation_Inr [OF m]
  show "same_but_revisions s t" using f by simp
  show "pk_id (f p) = pk_id p \<and> pk_tenant (f p) = pk_tenant p \<and> pk_parent (f p) = pk_parent p \<and>
      pk_project (f p) = pk_project p \<and> pk_version (f p) = pk_version p \<and>
      pk_report_revision (f p) = pk_report_revision p" for p
    using f by auto
  assume ok: "package_ok row"
  from conjunct2 [OF f] show "package_ok (f row)"
  proof (elim disjE conjE)
    assume "pk_decision row = ''REQUIRED''" "pk_planned_start row \<noteq> None" "pk_auth_start row \<noteq> None"
      "pk_execution row = ''NOT_STARTED''" and f: "f = (\<lambda>p. p\<lparr>pk_execution := ''IN_PROGRESS''\<rparr>)"
    with ok show ?thesis unfolding f by (simp add: package_ok_def)
  next
    assume "pk_execution row = ''IN_PROGRESS''" and f: "f = (\<lambda>p. p\<lparr>pk_execution := ''COMPLETED''\<rparr>)"
    with ok show ?thesis unfolding f by (simp add: package_ok_def)
  next
    assume "pk_report_status row = ''NONE''" and f: "f = (\<lambda>p. p\<lparr>pk_decision := ''NOT_REQUIRED'',
           pk_execution := ''CANCELLED'', pk_contact := trim_space (xi_contact input),
           pk_communicated_at := parse_rfc3339 (xi_communicated_at input),
           pk_summary := trim_space (xi_summary input),
           pk_change_reason := trim_space (xi_reason input)\<rparr>)"
    then show ?thesis unfolding f by (simp add: package_ok_def)
  qed
qed

interpretation artifact: package_mutator "artifact_mutation input now" "\<lambda>_. True" for input now
proof
  show "artifact_mutation input now row s = Inr (t, f) \<Longrightarrow> same_but_revisions s t" for row s t f
    by (auto simp: artifact_mutation_def res_simps dest!: package_lock_frame
        elim!: same_but_revisions_trans)
qed (auto simp: artifact_mutation_def res_simps)

interpretation report: package_mutator "report_mutation input actor now" "\<lambda>_. True" for input actor now
proof
  show "report_mutation input actor now row s = Inr (t, f) \<Longrightarrow> same_but_revisions s t" for row s t f
    by (auto simp: report_mutation_def res_simps Let_def dest!: package_lock_frame
        elim!: same_but_revisions_trans)
qed (auto simp: report_mutation_def res_simps Let_def package_ok_def)

section \<open>Preservation\<close>

definition package_keys :: "store \<Rightarrow> bool" where
  "package_keys s \<longleftrightarrow>
     distinct (map pk_id (st_packages s)) \<and>
     distinct (map (\<lambda>p. (pk_tenant p, pk_parent p)) (st_packages s))"

definition package_inv :: "store \<Rightarrow> bool" where
  "package_inv s \<longleftrightarrow>
     distinct (map pk_id (st_packages s)) \<and>
     distinct (map (\<lambda>p. (pk_tenant p, pk_parent p)) (st_packages s)) \<and>
     (\<forall>p \<in> set (st_packages s). package_ok p)"

lemma package_inv_keys: "package_inv s \<Longrightarrow> package_keys s"
  by (simp add: package_inv_def package_keys_def)

lemma find_package_SomeD:
  "find_package s tenant itemID = Some row \<Longrightarrow>
     row \<in> set (st_packages s) \<and> pk_tenant row = tenant \<and> pk_parent row = itemID"
  by (auto simp: find_package_def package_key_def dest: find_SomeD)

text \<open>The row after a mutation, and the write of the transaction.\<close>

definition mutated ::
  "(package_row \<Rightarrow> package_row) \<Rightarrow> instant \<Rightarrow> string \<Rightarrow> package_row \<Rightarrow> package_row" where
  "mutated f now actor p =
     (f p)\<lparr>pk_version := pk_version p + 1, pk_updated_at := now, pk_updated_by := actor\<rparr>"

lemma mutatePenetrationPackage_Inr:
  assumes "mutatePenetrationPackage tenant itemID v key ety actor payload now mutate s = Inr t"
  shows "find_package s tenant itemID \<noteq> None"
    and "t = s \<and> list_ex (package_event_key tenant key) (st_package_events s) \<or>
      (\<exists>row u f. find_package s tenant itemID = Some row \<and> v \<noteq> 0 \<and> v = pk_version row \<and>
         \<not> list_ex (package_event_key tenant key) (st_package_events s) \<and>
         mutate row s = Inr (u, f) \<and>
         t = u\<lparr>st_packages := update_where
                (\<lambda>p. pk_tenant p = tenant \<and> pk_id p = pk_id row \<and> pk_version p = pk_version row)
                (mutated f now actor) (st_packages u),
               st_package_events := st_package_events u @
                [\<lparr>pe_tenant = pk_tenant row, pe_package = pk_id row, pe_type = ety,
                  pe_actor = actor, pe_key = key, pe_payload = payload, pe_created_at = now\<rparr>]\<rparr>)"
proof -
  from assms obtain row where row: "find_package s tenant itemID = Some row"
    by (auto simp: mutatePenetrationPackage_def split: option.splits)
  then show "find_package s tenant itemID \<noteq> None" by simp
  show "t = s \<and> list_ex (package_event_key tenant key) (st_package_events s) \<or>
      (\<exists>row u f. find_package s tenant itemID = Some row \<and> v \<noteq> 0 \<and> v = pk_version row \<and>
         \<not> list_ex (package_event_key tenant key) (st_package_events s) \<and>
         mutate row s = Inr (u, f) \<and>
         t = u\<lparr>st_packages := update_where
                (\<lambda>p. pk_tenant p = tenant \<and> pk_id p = pk_id row \<and> pk_version p = pk_version row)
                (mutated f now actor) (st_packages u),
               st_package_events := st_package_events u @
                [\<lparr>pe_tenant = pk_tenant row, pe_package = pk_id row, pe_type = ety,
                  pe_actor = actor, pe_key = key, pe_payload = payload, pe_created_at = now\<rparr>]\<rparr>)"
  proof (cases "find (package_event_key tenant key) (st_package_events s)")
    case (Some prior)
    then have "list_ex (package_event_key tenant key) (st_package_events s)"
      by (auto simp: list_ex_iff dest: find_SomeD)
    moreover from assms row Some have "t = s"
      by (simp add: mutatePenetrationPackage_def split: if_splits)
    ultimately show ?thesis by simp
  next
    case None
    then have no: "\<not> list_ex (package_event_key tenant key) (st_package_events s)"
      by (auto simp: list_ex_iff find_None_iff)
    from assms row None obtain u f where v: "v \<noteq> 0" "pk_version row = v"
      and m: "mutate row s = Inr (u, f)"
      by (auto simp: mutatePenetrationPackage_def res_simps split: if_splits)
    from assms row None v m have "t = u\<lparr>st_packages := update_where
                (\<lambda>p. pk_tenant p = tenant \<and> pk_id p = pk_id row \<and> pk_version p = pk_version row)
                (mutated f now actor) (st_packages u),
               st_package_events := st_package_events u @
                [\<lparr>pe_tenant = pk_tenant row, pe_package = pk_id row, pe_type = ety,
                  pe_actor = actor, pe_key = key, pe_payload = payload, pe_created_at = now\<rparr>]\<rparr>"
      by (simp add: mutatePenetrationPackage_def res_simps Let_def createPenetrationEvent_def
          mutated_def [abs_def] split: if_splits)
    with row v m no show ?thesis by blast
  qed
qed


lemma mutated_ok_iff: "package_ok (mutated f now actor p) = package_ok (f p)"
  by (simp add: mutated_def package_ok_def)

context package_mutator
begin

text \<open>
  A committed transaction replays a known key and changes nothing, or replaces the package by the
  mutated row under the version read.
\<close>

lemma packages_after:
  assumes "mutatePenetrationPackage tenant itemID v key ety actor payload now mutate s = Inr t"
    and inv: "package_keys s"
  shows "t = s \<or>
    (\<exists>row u f. find_package s tenant itemID = Some row \<and> v = pk_version row \<and>
       mutate row s = Inr (u, f) \<and>
       st_packages t = update_where (\<lambda>p. p = row) (mutated f now actor) (st_packages s))"
  using mutatePenetrationPackage_Inr(2) [OF assms(1)]
proof (elim disjE exE conjE)
  fix row u f
  assume row: "find_package s tenant itemID = Some row" and v: "v = pk_version row"
    and m: "mutate row s = Inr (u, f)"
    and t: "t = u\<lparr>st_packages := update_where
                (\<lambda>p. pk_tenant p = tenant \<and> pk_id p = pk_id row \<and> pk_version p = pk_version row)
                (mutated f now actor) (st_packages u),
               st_package_events := st_package_events u @
                [\<lparr>pe_tenant = pk_tenant row, pe_package = pk_id row, pe_type = ety,
                  pe_actor = actor, pe_key = key, pe_payload = payload, pe_created_at = now\<rparr>]\<rparr>"
  have u: "st_packages u = st_packages s"
    by (rule same_but_revisions_fields [OF frame [OF m]])
  note r = find_package_SomeD [OF row]
  have "p = row" if "p \<in> set (st_packages s)" "pk_id p = pk_id row" for p
    using key_unique [of pk_id "st_packages s" row p] inv r that by (simp add: package_keys_def)
  then have "update_where (\<lambda>p. pk_tenant p = tenant \<and> pk_id p = pk_id row \<and> pk_version p = pk_version row)
      (mutated f now actor) (st_packages s) = update_where (\<lambda>p. p = row) (mutated f now actor) (st_packages s)"
    using r by (auto simp: update_where_def)
  with row v m t u show ?thesis by auto
qed simp

lemma mutated_key:
  "mutate row s = Inr (u, f) \<Longrightarrow>
   pk_id (mutated f now actor p) = pk_id p \<and> pk_tenant (mutated f now actor p) = pk_tenant p \<and>
   pk_parent (mutated f now actor p) = pk_parent p \<and>
   pk_version (mutated f now actor p) = pk_version p + 1"
  using keeps [of row s u f p] by (simp add: mutated_def)

lemma mutated_ok:
  "mutate row s = Inr (u, f) \<Longrightarrow> pre row \<Longrightarrow> package_ok row \<Longrightarrow> package_ok (mutated f now actor row)"
  unfolding mutated_ok_iff by (rule lifecycle)

lemma preserves_keys:
  assumes "mutatePenetrationPackage tenant itemID v key ety actor payload now mutate s = Inr t"
    and inv: "package_keys s"
  shows "package_keys t"
  using packages_after [OF assms]
proof (elim disjE exE conjE)
  fix row u f
  assume m: "mutate row s = Inr (u, f)"
    and t: "st_packages t = update_where (\<lambda>p. p = row) (mutated f now actor) (st_packages s)"
  have "map pk_id (st_packages t) = map pk_id (st_packages s)"
    "map (\<lambda>p. (pk_tenant p, pk_parent p)) (st_packages t)
       = map (\<lambda>p. (pk_tenant p, pk_parent p)) (st_packages s)"
    unfolding t by (rule map_key_update_where, simp add: mutated_key [OF m])+
  with inv show ?thesis by (simp add: package_keys_def)
qed (use inv in simp)

lemma preserves:
  assumes c: "mutatePenetrationPackage tenant itemID v key ety actor payload now mutate s = Inr t"
    and inv: "package_inv s"
    and pre: "\<And>row. find_package s tenant itemID = Some row \<Longrightarrow> pre row"
  shows "package_inv t"
  using packages_after [OF c package_inv_keys [OF inv]]
proof (elim disjE exE conjE)
  fix row u f
  assume row: "find_package s tenant itemID = Some row" and m: "mutate row s = Inr (u, f)"
    and t: "st_packages t = update_where (\<lambda>p. p = row) (mutated f now actor) (st_packages s)"
  have "package_ok (mutated f now actor row)"
    using mutated_ok [OF m pre [OF row]] inv find_package_SomeD [OF row] by (simp add: package_inv_def)
  then have "\<forall>p \<in> set (st_packages t). package_ok p"
    using inv unfolding t by (auto simp: set_update_where package_inv_def)
  then show ?thesis
    using preserves_keys [OF c package_inv_keys [OF inv]] by (simp add: package_inv_def package_keys_def)
qed (use inv in simp)

lemma find_after:
  assumes "mutatePenetrationPackage tenant itemID v key ety actor payload now mutate s = Inr t"
    and inv: "package_keys s"
  shows "t = s \<or>
    (\<exists>row f u. find_package s tenant itemID = Some row \<and> v = pk_version row \<and>
       mutate row s = Inr (u, f) \<and>
       find_package t tenant itemID = Some (mutated f now actor row))"
  using packages_after [OF assms]
proof (elim disjE exE conjE)
  fix row u f
  assume row: "find_package s tenant itemID = Some row" and m: "mutate row s = Inr (u, f)"
    and v: "v = pk_version row"
    and t: "st_packages t = update_where (\<lambda>p. p = row) (mutated f now actor) (st_packages s)"
  have "find_package t tenant itemID = map_option (\<lambda>p. if p = row then mutated f now actor p else p)
      (find_package s tenant itemID)"
    unfolding find_package_def t
    by (rule find_update_where) (simp add: package_key_def mutated_key [OF m])
  with row v m show ?thesis by auto
qed simp

lemma changed_row:
  assumes "mutatePenetrationPackage tenant itemID v key ety actor payload now mutate s = Inr t"
    and "package_keys s" and "find_package s tenant itemID = Some p"
    and "find_package t tenant itemID = Some q" and "q \<noteq> p"
  obtains u f where "v = pk_version p" "mutate p s = Inr (u, f)" "q = mutated f now actor p"
  using find_after [OF assms(1,2)] assms(3-5) by auto

text \<open>Packages of other items stay.\<close>

lemma find_other:
  assumes "mutatePenetrationPackage tenant itemID v key ety actor payload now mutate s = Inr t"
    and inv: "package_keys s" and other: "(tenant', itemID') \<noteq> (tenant, itemID)"
  shows "find_package t tenant' itemID' = find_package s tenant' itemID'"
  using packages_after [OF assms(1,2)]
proof (elim disjE exE conjE)
  fix row u f
  assume row: "find_package s tenant itemID = Some row" and m: "mutate row s = Inr (u, f)"
    and t: "st_packages t = update_where (\<lambda>p. p = row) (mutated f now actor) (st_packages s)"
  have "find_package t tenant' itemID' = map_option (\<lambda>p. if p = row then mutated f now actor p else p)
      (find_package s tenant' itemID')"
    unfolding find_package_def t
    by (rule find_update_where) (simp add: package_key_def mutated_key [OF m])
  moreover have "p \<noteq> row" if "find_package s tenant' itemID' = Some p" for p
    using find_package_SomeD [OF that] find_package_SomeD [OF row] other by auto
  ultimately show ?thesis by (cases "find_package s tenant' itemID'") auto
qed simp

end

section \<open>Service calls under the contract\<close>

fun command_version :: "package_command \<Rightarrow> nat" where
  "command_version (CDecision input) = di_version input"
| "command_version (CPlan input) = pi_version input"
| "command_version (CExecution input) = xi_version input"
| "command_version (CReport input) = ri_version input"
| "command_version (CArtifact input) = ai_version input"

lemma check_keeps_version:
  "check_package_command item c user now s = Inr c' \<Longrightarrow> command_version c' = command_version c"
  by (cases c) (auto simp: res_simps Let_def checkPenetrationDecision_def checkPenetrationPlan_def
      checkPenetrationExecution_def case_prod_beta split: if_splits option.splits)

lemma check_admissible:
  "check_package_command item (CDecision i) user now s = Inr (CDecision input) \<Longrightarrow>
   find_package s (it_tenant item) (it_id item) = Some row \<Longrightarrow> decision_admissible input row"
  by (auto simp: res_simps dest: checkPenetrationDecision_admissible)

lemma check_same_command:
  "check_package_command item c user now s = Inr (CDecision input) \<Longrightarrow> \<exists>i. c = CDecision i"
  by (cases c) (auto simp: res_simps Let_def case_prod_beta)

lemmas commit_defs = SavePenetrationDecision_def SavePenetrationPlan_def AdvancePenetrationExecution_def
  AdvancePenetrationReport_def RegisterPenetrationReportArtifact_def

text \<open>What a committed command leaves: the package as it was, or the next version of it.\<close>

definition package_stepped :: "string \<Rightarrow> string \<Rightarrow> nat \<Rightarrow> store \<Rightarrow> store \<Rightarrow> bool" where
  "package_stepped tenant itemID v s t \<longleftrightarrow>
     find_package t tenant itemID = find_package s tenant itemID \<or>
     (\<exists>row row'. find_package s tenant itemID = Some row \<and> v = pk_version row \<and>
        find_package t tenant itemID = Some row' \<and> pk_version row' = pk_version row + 1)"

context package_mutator
begin

lemma stepped:
  assumes "mutatePenetrationPackage tenant itemID v key ety actor payload now mutate s = Inr t"
    and "package_keys s"
  shows "package_stepped tenant itemID v s t"
  using find_after [OF assms] mutated_key by (fastforce simp: package_stepped_def)

end

lemma commit_preserves:
  assumes "package_commit tenant itemID c user now s = Inr t" and inv: "package_inv s"
    and "\<And>input row. c = CDecision input \<Longrightarrow> find_package s tenant itemID = Some row \<Longrightarrow>
           decision_admissible input row"
  shows "package_inv t"
proof (cases c)
  case (CDecision input)
  with assms show ?thesis by (auto simp: commit_defs intro: decision.preserves)
next
  case (CPlan input)
  with assms show ?thesis by (auto simp: commit_defs intro: plan.preserves)
next
  case (CExecution input)
  with assms show ?thesis by (auto simp: commit_defs intro: execution.preserves)
next
  case (CReport input)
  with assms show ?thesis by (auto simp: commit_defs intro: report.preserves)
next
  case (CArtifact input)
  with assms show ?thesis by (auto simp: commit_defs intro: artifact.preserves)
qed

lemma commit_stepped:
  "package_commit tenant itemID c user now s = Inr t \<Longrightarrow> package_keys s \<Longrightarrow>
   package_stepped tenant itemID (command_version c) s t"
  by (cases c) (auto simp: commit_defs
      intro: decision.stepped plan.stepped execution.stepped report.stepped artifact.stepped)

lemma commit_keys:
  "package_commit tenant itemID c user now s = Inr t \<Longrightarrow> package_keys s \<Longrightarrow> package_keys t"
  by (cases c) (auto simp: commit_defs intro: decision.preserves_keys plan.preserves_keys
      execution.preserves_keys report.preserves_keys artifact.preserves_keys)

lemma commit_other:
  "package_commit tenant itemID c user now s = Inr t \<Longrightarrow> package_keys s \<Longrightarrow>
   (tenant', itemID') \<noteq> (tenant, itemID) \<Longrightarrow> find_package t tenant' itemID' = find_package s tenant' itemID'"
  by (cases c; simp only: package_commit.simps commit_defs;
      erule (2) decision.find_other plan.find_other execution.find_other report.find_other artifact.find_other)

lemma service_preserves:
  assumes "package_service item call s = Inr t" and "package_inv s"
  shows "package_inv t"
proof -
  from assms(1) obtain c
    where c: "check_package_command item (pc_command call) (pc_user call) (pc_now call) s = Inr c"
      and t: "package_commit (it_tenant item) (it_id item) c (pc_user call) (pc_now call) s = Inr t"
    by (auto simp: package_service_def res_simps)
  show ?thesis
  proof (rule commit_preserves [OF t assms(2)])
    fix input row
    assume "c = CDecision input" "find_package s (it_tenant item) (it_id item) = Some row"
    with c show "decision_admissible input row"
      using check_same_command check_admissible by metis
  qed
qed

lemma service_stepped:
  assumes "package_service item call s = Inr t" and "package_inv s"
  shows "package_stepped (it_tenant item) (it_id item) (command_version (pc_command call)) s t"
proof -
  from assms(1) obtain c
    where c: "check_package_command item (pc_command call) (pc_user call) (pc_now call) s = Inr c"
      and t: "package_commit (it_tenant item) (it_id item) c (pc_user call) (pc_now call) s = Inr t"
    by (auto simp: package_service_def res_simps)
  from commit_stepped [OF t package_inv_keys [OF assms(2)]] check_keeps_version [OF c] show ?thesis by simp
qed

definition current_package :: "service_item \<Rightarrow> store \<Rightarrow> package_row option" where
  "current_package item s = find_package s (it_tenant item) (it_id item)"

definition current_version :: "service_item \<Rightarrow> store \<Rightarrow> nat" where
  "current_version item s = (case current_package item s of None \<Rightarrow> 0 | Some p \<Rightarrow> pk_version p)"

interpretation service: versioned_row "package_service item" "\<lambda>_. True" package_inv
  "current_package item" "current_version item" "\<lambda>call. command_version (pc_command call)"
  for item
proof
  show "package_inv s \<Longrightarrow> True \<Longrightarrow> package_service item c s = Inr t \<Longrightarrow> package_inv t" for s c t
    by (rule service_preserves)
next
  fix s c t
  assume "package_inv s" and "package_service item c s = Inr t"
  then have st: "package_stepped (it_tenant item) (it_id item) (command_version (pc_command c)) s t"
    by (rule service_stepped [rotated])
  show "current_version item s \<le> current_version item t"
    using st by (auto simp: package_stepped_def current_version_def current_package_def)
  show "current_package item t \<noteq> current_package item s \<Longrightarrow> current_version item s < current_version item t"
    using st by (auto simp: package_stepped_def current_version_def current_package_def)
  show "current_package item t = current_package item s"
    if "command_version (pc_command c) \<noteq> current_version item s"
    using st that by (auto simp: package_stepped_def current_version_def current_package_def)
qed

subsection \<open>Transactions between the checks and the commit\<close>

text \<open>Any transaction on any package, by anybody, with or without checks.\<close>

record any_commit =
  an_tenant :: string
  an_item :: string
  an_command :: package_command
  an_user :: string
  an_now :: instant

definition commit_any :: "any_commit \<Rightarrow> store \<Rightarrow> app_error + store" where
  "commit_any c = package_commit (an_tenant c) (an_item c) (an_command c) (an_user c) (an_now c)"

definition package_version :: "string \<Rightarrow> string \<Rightarrow> store \<Rightarrow> nat" where
  "package_version tenant itemID s =
     (case find_package s tenant itemID of None \<Rightarrow> 0 | Some p \<Rightarrow> pk_version p)"

definition any_expected :: "string \<Rightarrow> string \<Rightarrow> any_commit \<Rightarrow> nat" where
  "any_expected tenant itemID c =
     (if an_tenant c = tenant \<and> an_item c = itemID then command_version (an_command c) else 0)"

interpretation commits: versioned_row commit_any "\<lambda>_. True" package_keys
  "\<lambda>s. find_package s tenant itemID" "package_version tenant itemID" "any_expected tenant itemID"
  for tenant itemID
proof
  show "package_keys s \<Longrightarrow> True \<Longrightarrow> commit_any c s = Inr t \<Longrightarrow> package_keys t" for s c t
    by (auto simp: commit_any_def intro: commit_keys)
next
  fix s c t
  assume k: "package_keys s" and c: "commit_any c s = Inr t"
  have st: "find_package t tenant itemID = find_package s tenant itemID \<or>
      any_expected tenant itemID c = package_version tenant itemID s \<and>
      package_version tenant itemID t = package_version tenant itemID s + 1"
  proof (cases "an_tenant c = tenant \<and> an_item c = itemID")
    case True
    with commit_stepped [OF c [unfolded commit_any_def] k] show ?thesis
      by (auto simp: package_stepped_def any_expected_def package_version_def)
  next
    case False
    then have "(tenant, itemID) \<noteq> (an_tenant c, an_item c)" by auto
    with commit_other [OF c [unfolded commit_any_def] k] show ?thesis by simp
  qed
  show "package_version tenant itemID s \<le> package_version tenant itemID t"
    using st by (auto simp: package_version_def)
  show "find_package t tenant itemID \<noteq> find_package s tenant itemID \<Longrightarrow>
      package_version tenant itemID s < package_version tenant itemID t"
    using st by auto
  show "find_package t tenant itemID = find_package s tenant itemID"
    if "any_expected tenant itemID c \<noteq> package_version tenant itemID s"
    using st that by auto
qed

text \<open>Only the start of a test puts a package under test.\<close>

lemma only_start_begins:
  assumes c: "package_commit tenant itemID c user now s = Inr t" and k: "package_keys s"
    and p: "find_package s tenant itemID = Some p" and before: "pk_execution p \<noteq> ''IN_PROGRESS''"
    and q: "find_package t tenant itemID = Some q" and after: "pk_execution q = ''IN_PROGRESS''"
  obtains input where "c = CExecution input" "xi_action input = ''START''" "xi_version input = pk_version p"
    "q = p\<lparr>pk_execution := ''IN_PROGRESS'', pk_version := pk_version p + 1, pk_updated_at := now,
            pk_updated_by := user\<rparr>"
proof -
  have ne: "q \<noteq> p" using before after by auto
  show thesis
  proof (cases c)
    case (CDecision input)
    with c show ?thesis using before after
      by (auto simp: commit_defs mutated_def decision_mutation_def Let_def split: option.splits if_splits
          elim!: decision.changed_row [OF _ k p q ne])
  next
    case (CPlan input)
    with c show ?thesis using after
      by (auto simp: commit_defs mutated_def plan_mutation_def split: if_splits
          elim!: plan.changed_row [OF _ k p q ne])
  next
    case (CExecution input)
    with c show ?thesis using after that
      by (auto simp: commit_defs mutated_def execution_mutation_def split: if_splits option.splits
          elim!: execution.changed_row [OF _ k p q ne])
  next
    case (CReport input)
    with c show ?thesis using before after
      by (auto simp: commit_defs mutated_def report_mutation_def Let_def res_simps
          elim!: report.changed_row [OF _ k p q ne])
  next
    case (CArtifact input)
    with c show ?thesis using before after
      by (auto simp: commit_defs mutated_def artifact_mutation_def res_simps
          elim!: artifact.changed_row [OF _ k p q ne])
  qed
qed

section \<open>Properties of the work package\<close>

lemma package_okD:
  "package_ok p \<Longrightarrow>
     (pk_execution p = ''IN_PROGRESS'' \<or> pk_execution p = ''COMPLETED'' \<longrightarrow>
        pk_decision p = ''REQUIRED'' \<and> pk_planned_start p \<noteq> None \<and> pk_auth_start p \<noteq> None) \<and>
     (pk_decision p = ''NOT_REQUIRED'' \<longrightarrow> pk_execution p = ''CANCELLED'') \<and>
     (pk_report_status p \<noteq> ''NONE'' \<longrightarrow> pk_execution p = ''COMPLETED'')"
  unfolding package_ok_def by (elim conjE, intro conjI; assumption)

text \<open>
  C32. The life cycle of every work package. Whatever service calls are made on the item, by
  whoever and in whatever order, testing is under way or done only where the customer's decision
  is to test and the plan and the authorisation are recorded; a test that is not required is
  cancelled; and a report has begun only for a completed test.
\<close>

theorem package_life_cycle:
  assumes "package_inv s"
    and "p \<in> set (st_packages (run_all (package_service item) calls s))"
  shows "(pk_execution p = ''IN_PROGRESS'' \<or> pk_execution p = ''COMPLETED'' \<longrightarrow>
            pk_decision p = ''REQUIRED'' \<and> pk_planned_start p \<noteq> None \<and> pk_auth_start p \<noteq> None) \<and>
         (pk_decision p = ''NOT_REQUIRED'' \<longrightarrow> pk_execution p = ''CANCELLED'') \<and>
         (pk_report_status p \<noteq> ''NONE'' \<longrightarrow> pk_execution p = ''COMPLETED'')"
proof (rule package_okD)
  have "package_inv (run_all (package_service item) calls s)"
    by (rule service.run_inv [OF assms(1)]) simp
  with assms(2) show "package_ok p" by (simp only: package_inv_def)
qed

definition protected_item :: service_item where
  "protected_item = sample_item\<lparr>it_category :=
     [CHR 0xE7, CHR 0xAD, CHR 0x89, CHR 0xE4, CHR 0xBF, CHR 0x9D], it_manager := ''pm1''\<rparr>"

definition sample_package :: package_row where
  "sample_package = new_package sample_env protected_item ''pm1'' 0"

definition package_store :: store where
  "package_store = empty_store\<lparr>st_packages := [sample_package]\<rparr>"

definition sample_decision :: package_call where
  "sample_decision = \<lparr>pc_command = CDecision \<lparr>di_status = ''required'', di_contact = ''c'',
       di_communicated_at = ''2026-01-05T08:00:00Z'', di_summary = ''s'', di_change_reason = [],
       di_version = 1, di_key = ''k1''\<rparr>, pc_user = ''pm1'', pc_now = 5\<rparr>"

lemma package_store_inv: "package_inv package_store"
  by (simp add: package_inv_def package_store_def sample_package_def new_package_ok)

definition waived_decision :: package_call where
  "waived_decision = sample_decision\<lparr>pc_command := CDecision \<lparr>di_status = ''not_required'',
       di_contact = ''c'', di_communicated_at = ''2026-01-05T08:00:00Z'', di_summary = ''s'',
       di_change_reason = [], di_version = 1, di_key = ''k1''\<rparr>\<rparr>"

theorem package_life_cycle_witness:
  "\<exists>p \<in> set (st_packages (run_all (package_service protected_item) [waived_decision] package_store)).
     pk_decision p = ''NOT_REQUIRED'' \<and> pk_execution p = ''CANCELLED''"
proof -
  have "list_ex (\<lambda>p. pk_decision p = ''NOT_REQUIRED'')
      (st_packages (run_all (package_service protected_item) [waived_decision] package_store))"
    by code_simp
  then obtain p where p: "pk_decision p = ''NOT_REQUIRED''"
    "p \<in> set (st_packages (run_all (package_service protected_item) [waived_decision] package_store))"
    by (auto simp: list_ex_iff)
  from package_life_cycle [OF package_store_inv p(2)] p(1) have "pk_execution p = ''CANCELLED''" by blast
  with p show ?thesis by blast
qed

text \<open>
  C33. No update of a package is lost. Once a call has changed the package, a call whose author
  had read the same version never changes it, however many other calls came between.
\<close>

theorem package_no_lost_update:
  assumes "package_inv s"
    and "package_service item first s = Inr t"
    and "find_package t (it_tenant item) (it_id item) \<noteq> find_package s (it_tenant item) (it_id item)"
    and "find_package s (it_tenant item) (it_id item) = Some p"
    and "command_version (pc_command late) = pk_version p" and "pk_version p \<noteq> 0"
    and "package_service item late (run_all (package_service item) calls t) = Inr u"
  shows "find_package u (it_tenant item) (it_id item)
    = find_package (run_all (package_service item) calls t) (it_tenant item) (it_id item)"
proof -
  have "command_version (pc_command late) = current_version item s"
    using assms(4,5) by (simp add: current_version_def current_package_def)
  moreover have "command_version (pc_command late) \<noteq> 0" using assms(5,6) by simp
  ultimately show ?thesis
    using service.no_lost_update [OF assms(1) TrueI assms(2), of calls late u] assms(3,7)
    by (simp add: current_package_def)
qed

theorem package_no_lost_update_witness:
  "\<exists>t u. package_service protected_item sample_decision package_store = Inr t \<and>
     package_service protected_item sample_decision t = Inr u \<and>
     find_package u ''T1'' ''SI-1'' = find_package t ''T1'' ''SI-1''"
proof -
  define t where "t = (case package_service protected_item sample_decision package_store of Inr t \<Rightarrow> t
    | Inl _ \<Rightarrow> package_store)"
  define u where "u = (case package_service protected_item sample_decision t of Inr t \<Rightarrow> t
    | Inl _ \<Rightarrow> package_store)"
  have t: "package_service protected_item sample_decision package_store = Inr t"
    unfolding t_def by code_simp
  have u: "package_service protected_item sample_decision t = Inr u"
    unfolding u_def t_def by code_simp
  have i: "it_tenant protected_item = ''T1''" "it_id protected_item = ''SI-1''"
    by (simp_all add: protected_item_def sample_item_def)
  have p: "find_package package_store (it_tenant protected_item) (it_id protected_item) = Some sample_package"
    "command_version (pc_command sample_decision) = pk_version sample_package" "pk_version sample_package \<noteq> 0"
    by code_simp+
  have c: "find_package t (it_tenant protected_item) (it_id protected_item)
      \<noteq> find_package package_store (it_tenant protected_item) (it_id protected_item)"
    unfolding t_def by code_simp
  have "package_service protected_item sample_decision
      (run_all (package_service protected_item) [] t) = Inr u" using u by simp
  from package_no_lost_update [OF package_store_inv t c p this] t u show ?thesis by (simp add: i)
qed

lemma find_append_None: "find P xs = None \<Longrightarrow> find P (xs @ ys) = find P ys"
  by (induction xs) (auto split: if_splits)

context package_mutator
begin

lemma replays:
  assumes "mutatePenetrationPackage tenant itemID v key ety actor payload now mutate s = Inr t"
    and "package_keys s"
  shows "mutatePenetrationPackage tenant itemID v key ety actor' payload now' mutate' t = Inr t"
proof (cases "find (package_event_key tenant key) (st_package_events s)")
  case (Some prior)
  with assms(1) have "t = s" by (simp add: mutatePenetrationPackage_def split: if_splits option.splits)
  with assms(1) Some show ?thesis
    by (cases "find_package s tenant itemID") (simp_all add: mutatePenetrationPackage_def split: if_splits)
next
  case None
  then have n: "\<not> list_ex (package_event_key tenant key) (st_package_events s)"
    by (auto simp: list_ex_iff find_None_iff)
  with mutatePenetrationPackage_Inr(2) [OF assms(1)] obtain row u f
    where row: "find_package s tenant itemID = Some row" and m: "mutate row s = Inr (u, f)"
      and t: "st_package_events t = st_package_events u @
                [\<lparr>pe_tenant = pk_tenant row, pe_package = pk_id row, pe_type = ety,
                  pe_actor = actor, pe_key = key, pe_payload = payload, pe_created_at = now\<rparr>]"
    by auto
  have tenant: "pk_tenant row = tenant" using row by (simp add: find_package_SomeD)
  have u: "st_package_events u = st_package_events s"
    by (rule same_but_revisions_fields [OF frame [OF m]])
  have e: "find (package_event_key tenant key) (st_package_events t)
      = Some \<lparr>pe_tenant = pk_tenant row, pe_package = pk_id row, pe_type = ety,
              pe_actor = actor, pe_key = key, pe_payload = payload, pe_created_at = now\<rparr>"
    unfolding t u by (subst find_append_None [OF None]) (simp add: package_event_key_def tenant)
  have "t \<noteq> s" using n e by (auto simp: list_ex_iff dest: find_SomeD)
  with find_after [OF assms] row m
  have "\<exists>row'. find_package t tenant itemID = Some row' \<and> pk_id row' = pk_id row"
    using mutated_key by fastforce
  with e show ?thesis by (auto simp: mutatePenetrationPackage_def)
qed

end

text \<open>
  C34. A retry of a committed command is accepted and changes nothing: whoever sends it again and
  whenever, the store it leaves is the store it found. (The service checks the command again
  before, on the package as it is then.)
\<close>

theorem package_commit_idempotent:
  assumes "package_commit tenant itemID c user now s = Inr t" and "package_inv s"
  shows "package_commit tenant itemID c user' now' t = Inr t"
proof -
  note assms = assms(1) package_inv_keys [OF assms(2)]
  show ?thesis
  proof (cases c)
    case (CDecision input)
    with assms show ?thesis by (auto simp: commit_defs intro: decision.replays)
  next
    case (CPlan input)
    with assms show ?thesis by (auto simp: commit_defs intro: plan.replays)
  next
    case (CExecution input)
    with assms show ?thesis by (auto simp: commit_defs intro: execution.replays)
  next
    case (CReport input)
    with assms show ?thesis by (auto simp: commit_defs intro: report.replays)
  next
    case (CArtifact input)
    with assms show ?thesis by (auto simp: commit_defs intro: artifact.replays)
  qed
qed

definition sample_command :: package_command where
  "sample_command = CDecision \<lparr>di_status = ''REQUIRED'', di_contact = ''c'',
       di_communicated_at = ''2026-01-05T08:00:00Z'', di_summary = ''s'', di_change_reason = [],
       di_version = 1, di_key = ''k1''\<rparr>"

theorem package_commit_idempotent_witness:
  "\<exists>t. package_commit ''T1'' ''SI-1'' sample_command ''pm1'' 5 package_store = Inr t \<and>
       package_commit ''T1'' ''SI-1'' sample_command ''pm2'' 9 t = Inr t"
proof -
  define t where "t = (case package_commit ''T1'' ''SI-1'' sample_command ''pm1'' 5 package_store of
      Inr t \<Rightarrow> t | Inl _ \<Rightarrow> package_store)"
  have "package_commit ''T1'' ''SI-1'' sample_command ''pm1'' 5 package_store = Inr t"
    unfolding t_def by code_simp
  then show ?thesis using package_commit_idempotent package_store_inv by blast
qed

text \<open>Who holds an archive that qualifies an engineer, and when two plans overlap.\<close>

definition may_test :: "store \<Rightarrow> string \<Rightarrow> string \<Rightarrow> bool" where
  "may_test s tenant e \<longleftrightarrow> (\<exists>c \<in> set (st_capabilities s).
     cp_tenant c = tenant \<and> cp_status c = ''ACTIVE'' \<and> cp_identity c = ''ACTIVE'' \<and>
     (\<exists>code \<in> set (cp_codes c). equal_fold (trim_space code) ''PENETRATION_TEST'') \<and>
     (trim_space e = trim_space (cp_user c) \<or> trim_space e = trim_space (cp_resource c)))"

lemma engineers_may_test:
  assumes "validatePenetrationEngineers (FindCapabilities s tenant ids) ids = Inr ()" and "e \<in> set ids"
  shows "may_test s tenant e"
proof -
  from assms obtain c where "c \<in> set (FindCapabilities s tenant ids)" and "qualifiedUserID e [c] \<noteq> None"
    and "\<exists>code \<in> set (cp_codes c). equal_fold (trim_space code) ''PENETRATION_TEST''"
    unfolding validatePenetrationEngineers_def res_simps list_all_iff list_ex_iff by auto blast
  then show ?thesis unfolding may_test_def
    by (intro bexI [of _ c]) (auto simp: FindCapabilities_def qualifiedUserID_def split: if_splits)
qed

lemma checked_start:
  assumes "checkPenetrationExecution s user item (Some p) now input = Inr input'"
    and "xi_action input' = ''START''"
  obtains a b start fin where "containsString (pk_engineers p) user"
    "to_second (pk_auth_start p) = Some a" "to_second (pk_auth_end p) = Some b" "a \<le> now" "now \<le> b"
    "\<forall>e \<in> set (pk_engineers p). may_test s (it_tenant item) e"
    "to_second (pk_planned_start p) = Some start" "to_second (pk_planned_end p) = Some fin"
    "ListPenetrationPersonnelConflicts s (it_tenant item) (it_id item) (pk_engineers p) start fin = []"
proof -
  have a: "to_upper (trim_space (xi_action input)) = ''START''"
    using assms by (auto simp: checkPenetrationExecution_def Let_def res_simps split: if_splits)
  from assms(1) a obtain x y start fin where
    c: "containsString (pk_engineers p) user" and
    w: "to_second (pk_auth_start p) = Some x" "to_second (pk_auth_end p) = Some y" "\<not> now < x" "\<not> y < now"
    "to_second (pk_planned_start p) = Some start" "to_second (pk_planned_end p) = Some fin" and
    v: "validatePenetrationEngineers (FindCapabilities s (it_tenant item) (pk_engineers p))
      (pk_engineers p) = Inr ()" and
    l: "ListPenetrationPersonnelConflicts s (it_tenant item) (it_id item) (pk_engineers p) start fin = []"
    by (auto simp: checkPenetrationExecution_def Let_def res_simps split: if_splits option.splits)
  show thesis
    by (rule that [OF c w(1,2) _ _ _ w(5,6) l]) (use w(3,4) engineers_may_test [OF v] in auto)
qed

lemma no_conflicts:
  assumes "ListPenetrationPersonnelConflicts s tenant itemID engineers start fin = []" and e: "e \<in> set engineers"
  shows "i \<in> set (st_items s) \<Longrightarrow> it_tenant i = tenant \<Longrightarrow> it_id i \<noteq> itemID \<Longrightarrow> item_live i \<Longrightarrow>
      e \<in> set (column_strs (it_engineers i)) \<Longrightarrow> it_planned_start i = Some x \<Longrightarrow> it_planned_end i = Some y \<Longrightarrow>
      fin \<le> x \<or> y \<le> start"
    and "p \<in> set (st_packages s) \<Longrightarrow> pk_tenant p = tenant \<Longrightarrow> pk_parent p \<noteq> itemID \<Longrightarrow>
      pk_decision p = ''REQUIRED'' \<Longrightarrow> pk_execution p = ''NOT_STARTED'' \<or> pk_execution p = ''IN_PROGRESS'' \<Longrightarrow>
      e \<in> set (pk_engineers p) \<Longrightarrow> pk_planned_start p = Some x \<Longrightarrow> pk_planned_end p = Some y \<Longrightarrow>
      fin \<le> x \<or> y \<le> start"
  using assms unfolding ListPenetrationPersonnelConflicts_def
  by (fastforce simp: filter_empty_conv overlaps_def not_less)+

text \<open>
  C35. A test starts only where it may. Let a service call read the tables (\<open>read\<close>), let any
  transactions on any packages follow, and let the call's transaction then put the package under
  test, with the version the service has read. Then the author is one of the planned engineers; the
  time lies in the authorised window; every planned engineer has, in what was read, an active
  archive with the penetration-test capability; and neither another live item nor another required
  and unfinished package that names one of the engineers is planned for a time that meets the
  planned window. The engineers and windows are those of the package now under test.
\<close>

theorem test_starts_only_authorised:
  assumes keys: "package_keys read" and s: "s = run_all commit_any calls read"
    and call: "package_service_at item call read s = Inr t"
    and seen: "find_package read (it_tenant item) (it_id item) = Some p0"
      "command_version (pc_command call) = pk_version p0"
    and before: "find_package s (it_tenant item) (it_id item) = Some p" "pk_execution p \<noteq> ''IN_PROGRESS''"
    and after: "find_package t (it_tenant item) (it_id item) = Some q" "pk_execution q = ''IN_PROGRESS''"
  shows "containsString (pk_engineers q) (pc_user call) \<and>
    (\<exists>a b. to_second (pk_auth_start q) = Some a \<and> to_second (pk_auth_end q) = Some b \<and>
       a \<le> pc_now call \<and> pc_now call \<le> b) \<and>
    (\<exists>start fin. to_second (pk_planned_start q) = Some start \<and> to_second (pk_planned_end q) = Some fin \<and>
       (\<forall>e \<in> set (pk_engineers q). may_test read (it_tenant item) e \<and>
         (\<forall>i x y. i \<in> set (st_items read) \<and> it_tenant i = it_tenant item \<and> it_id i \<noteq> it_id item \<and>
            item_live i \<and> e \<in> set (column_strs (it_engineers i)) \<and>
            it_planned_start i = Some x \<and> it_planned_end i = Some y \<longrightarrow> fin \<le> x \<or> y \<le> start) \<and>
         (\<forall>k x y. k \<in> set (st_packages read) \<and> pk_tenant k = it_tenant item \<and> pk_parent k \<noteq> it_id item \<and>
            pk_decision k = ''REQUIRED'' \<and> (pk_execution k = ''NOT_STARTED'' \<or> pk_execution k = ''IN_PROGRESS'') \<and>
            e \<in> set (pk_engineers k) \<and>
            pk_planned_start k = Some x \<and> pk_planned_end k = Some y \<longrightarrow> fin \<le> x \<or> y \<le> start)))"
proof -
  from call obtain c where chk: "check_package_command item (pc_command call) (pc_user call) (pc_now call) read = Inr c"
    and com: "package_commit (it_tenant item) (it_id item) c (pc_user call) (pc_now call) s = Inr t"
    by (auto simp: package_service_at_def res_simps)
  have "package_keys s" unfolding s by (rule commits.run_inv [OF keys]) simp
  from only_start_begins [OF com this before after] obtain input where c: "c = CExecution input"
    and st: "xi_action input = ''START''" "xi_version input = pk_version p"
    and q: "q = p\<lparr>pk_execution := ''IN_PROGRESS'', pk_version := pk_version p + 1,
            pk_updated_at := pc_now call, pk_updated_by := pc_user call\<rparr>" .
  have "package_version (it_tenant item) (it_id item) s = package_version (it_tenant item) (it_id item) read"
    using check_keeps_version [OF chk] c st(2) seen before(1) by (simp add: package_version_def)
  then have p: "p = p0"
    using commits.run_row_same [OF keys, of calls "it_tenant item" "it_id item"] seen(1) before(1) by (simp add: s)
  obtain input0 where "checkPenetrationExecution read (pc_user call) item (Some p) (pc_now call) input0 = Inr input"
    using chk c seen(1) by (cases "pc_command call") (auto simp: res_simps Let_def case_prod_beta p)
  then obtain a b start fin where f: "containsString (pk_engineers p) (pc_user call)"
    "to_second (pk_auth_start p) = Some a" "to_second (pk_auth_end p) = Some b" "a \<le> pc_now call" "pc_now call \<le> b"
    "\<forall>e \<in> set (pk_engineers p). may_test read (it_tenant item) e"
    "to_second (pk_planned_start p) = Some start" "to_second (pk_planned_end p) = Some fin"
    "ListPenetrationPersonnelConflicts read (it_tenant item) (it_id item) (pk_engineers p) start fin = []"
    using st(1) by (rule checked_start)
  have sel: "pk_engineers q = pk_engineers p" "pk_auth_start q = pk_auth_start p" "pk_auth_end q = pk_auth_end p"
    "pk_planned_start q = pk_planned_start p" "pk_planned_end q = pk_planned_end p" by (simp_all add: q)
  show ?thesis unfolding sel
    using f(1-8) no_conflicts [OF f(9)] by (intro conjI exI [of _ a] exI [of _ b] exI [of _ start] exI [of _ fin]) blast+
qed

definition engineer :: capability_row where
  "engineer = sample_master\<lparr>cp_type := ''PERSON'', cp_resource := ''P-1'', cp_user := ''u1'',
     cp_identity := ''ACTIVE'', cp_codes := [''penetration_test'']\<rparr>"

definition planned_package :: package_row where
  "planned_package = sample_package\<lparr>pk_decision := ''REQUIRED'', pk_engineers := [''u1''],
     pk_planned_start := Some 0, pk_planned_end := Some second_ns,
     pk_auth_start := Some 0, pk_auth_end := Some second_ns\<rparr>"

definition start_input :: execution_input where
  "start_input = \<lparr>xi_action = ''START'', xi_contact = [], xi_communicated_at = [],
     xi_summary = [], xi_reason = [], xi_version = 1, xi_key = ''k2''\<rparr>"

definition start_store :: store where
  "start_store = package_store\<lparr>st_packages := [planned_package], st_capabilities := [engineer]\<rparr>"

definition start_call :: package_call where
  "start_call = \<lparr>pc_command = CExecution start_input, pc_user = ''u1'', pc_now = 5\<rparr>"

theorem test_starts_only_authorised_witness:
  "\<exists>t q. package_service_at protected_item start_call start_store start_store = Inr t \<and>
     find_package t ''T1'' ''SI-1'' = Some q \<and> pk_execution q = ''IN_PROGRESS'' \<and>
     containsString (pk_engineers q) ''u1''"
proof -
  define t where "t = projr (package_service_at protected_item start_call start_store start_store)"
  have c: "package_service_at protected_item start_call start_store start_store = Inr t"
    unfolding t_def by code_simp
  have "case find_package t ''T1'' ''SI-1'' of None \<Rightarrow> False | Some q \<Rightarrow> pk_execution q = ''IN_PROGRESS''"
    unfolding t_def by code_simp
  then obtain q where q: "find_package t ''T1'' ''SI-1'' = Some q" "pk_execution q = ''IN_PROGRESS''"
    by (auto split: option.splits)
  have i: "it_tenant protected_item = ''T1''" "it_id protected_item = ''SI-1''"
    by (simp_all add: protected_item_def sample_item_def)
  have "package_keys start_store" by code_simp
  moreover have p: "find_package start_store ''T1'' ''SI-1'' = Some planned_package"
    and "command_version (pc_command start_call) = pk_version planned_package"
    and "pk_execution planned_package \<noteq> ''IN_PROGRESS''" by code_simp+
  ultimately have "containsString (pk_engineers q) (pc_user start_call)"
    using test_starts_only_authorised [of start_store start_store "[]" protected_item start_call t
        planned_package planned_package q] c q by (simp add: i)
  with c q show ?thesis by (auto simp: start_call_def)
qed

lemma personnel_scan_take:
  "length seen < limit \<Longrightarrow>
   personnel_scan limit seen ids =
     take (limit - length seen) (uniq_from seen (filter (\<lambda>i. i \<noteq> []) (map trim_space ids)))"
proof (induction limit seen ids rule: personnel_scan.induct)
  case (2 limit seen i ids)
  show ?case
  proof (cases "trim_space i = [] \<or> List.member seen (trim_space i) \<or> Suc (length seen) < limit")
    case True
    with 2 show ?thesis by (auto simp: Let_def Suc_diff_Suc [symmetric])
  next
    case False
    then have "limit \<le> Suc (length seen)" by simp
    then have "limit - length seen = Suc 0" using 2(3) by linarith
    with False show ?thesis by (simp add: Let_def)
  qed
qed simp

text \<open>
  C36. The engineers of a plan are the first fifty different non-blank identifiers of the request,
  trimmed and in the order given: what comes after the fiftieth is dropped without an error.
\<close>

theorem planned_engineers_are_first_fifty:
  "normalizePersonnelIDs ids = take 50 (uniq (filter (\<lambda>i. i \<noteq> []) (map trim_space ids)))"
  by (simp add: normalizePersonnelIDs_def maximumPersonnelNameLookups_def personnel_scan_take uniq_def)

text \<open>
  Containment of scopes is containment of strings: a host counts as authorised when its text
  occurs inside the text of another one.
\<close>

lemma scope_admits_substring: "scopeContained ''10.0.0.1'' ''10.0.0.10''"
  by code_simp

end
