(* ===== verification/GoText.thy ===== *)
theory GoText
  imports GoTime
begin

text \<open>
  Numbers in text: \<open>strconv.Atoi\<close> on a 64-bit platform, \<open>fmt.Sprintf("%d")\<close> and \<open>"%03d"\<close> of a
  natural number, and \<open>strings.TrimPrefix\<close>.
\<close>

definition max_int64 :: int where
  "max_int64 = 9223372036854775807"

definition unsigned_atoi :: "string \<Rightarrow> int option" where
  "unsigned_atoi s = (if s = [] then None else digits_val 0 s)"

definition Atoi :: "string \<Rightarrow> int option" where
  "Atoi s =
     (case (case s of
              c # cs \<Rightarrow> if c = CHR ''-'' then map_option uminus (unsigned_atoi cs)
                        else if c = CHR ''+'' then unsigned_atoi cs else unsigned_atoi s
            | [] \<Rightarrow> None) of
        None \<Rightarrow> None
      | Some n \<Rightarrow> if - max_int64 - 1 \<le> n \<and> n \<le> max_int64 then Some n else None)"

fun show_nat :: "nat \<Rightarrow> string" where
  "show_nat n = (if n < 10 then [digit_char (int n)] else show_nat (n div 10) @ [digit_char (int n)])"

declare show_nat.simps [simp del]

definition show_nat3 :: "nat \<Rightarrow> string" where
  "show_nat3 n = (let s = show_nat n in replicate (3 - length s) (CHR ''0'') @ s)"

text \<open>\<open>"%03d"\<close> of an \<open>int\<close>, whose sign counts for the width, and the wrap-around of \<open>int\<close>.\<close>

definition show_int3 :: "int \<Rightarrow> string" where
  "show_int3 n =
     (if 0 \<le> n then show_nat3 (nat n)
      else let s = show_nat (nat (- n)) in ''-'' @ replicate (2 - length s) (CHR ''0'') @ s)"

definition wrap_int :: "int \<Rightarrow> int" where
  "wrap_int n = (n + max_int64 + 1) mod (2 * max_int64 + 2) - max_int64 - 1"

lemma wrap_int_small [simp]: "- max_int64 - 1 \<le> n \<Longrightarrow> n \<le> max_int64 \<Longrightarrow> wrap_int n = n"
  by (simp add: wrap_int_def max_int64_def)

definition trim_prefix :: "string \<Rightarrow> string \<Rightarrow> string" where
  "trim_prefix p s = (if take (length p) s = p then drop (length p) s else s)"

lemma digit_val_char:
  assumes "0 \<le> d" "d < 10"
  shows "digit_val (digit_char d) = Some d"
proof -
  have "(of_char (char_of (nat (48 + d)) :: char) :: int) = int (of_char (char_of (nat (48 + d)) :: char))"
    by (rule of_nat_of_char [symmetric])
  also have "\<dots> = int (nat (48 + d) mod 256)" by (simp only: of_char_of)
  also have "\<dots> = 48 + d" using assms by (simp add: zmod_int)
  finally show ?thesis using assms by (simp add: digit_val_def digit_char_def Let_def)
qed

lemma digit_char_mod: "digit_char (int n) = digit_char (int (n mod 10))"
  by (simp add: digit_char_def zmod_int)

lemma digits_val_append:
  "digits_val acc (s @ t) = (case digits_val acc s of None \<Rightarrow> None | Some n \<Rightarrow> digits_val n t)"
  by (induction acc s rule: digits_val.induct) (auto split: option.splits)

lemma digits_val_show: "digits_val 0 (show_nat n) = Some (int n)"
proof (induction n rule: show_nat.induct)
  case (1 n)
  have last: "digit_val (digit_char (int n)) = Some (int (n mod 10))"
    unfolding digit_char_mod [of n] by (rule digit_val_char) simp_all
  show ?case
  proof (cases "n < 10")
    case True
    then show ?thesis using last by (simp add: show_nat.simps [of n])
  next
    case False
    with 1 last show ?thesis
      by (simp add: show_nat.simps [of n] digits_val_append) presburger
  qed
qed

lemma digits_val_zeros: "digits_val 0 (replicate k (CHR ''0'') @ s) = digits_val 0 s"
  by (induction k) (simp_all add: digit_val_def)

lemma show_nat_not_Nil [simp]: "show_nat n \<noteq> []"
  by (simp add: show_nat.simps [of n])

lemma digits_val_show3: "digits_val 0 (show_nat3 n) = Some (int n)"
  by (simp add: show_nat3_def Let_def digits_val_zeros digits_val_show)

lemma set_show_nat: "c \<in> set (show_nat n) \<Longrightarrow> digit_val c \<noteq> None"
proof (induction n rule: show_nat.induct)
  case (1 n)
  have last: "digit_val (digit_char (int n)) \<noteq> None"
    unfolding digit_char_mod [of n] by (subst digit_val_char) simp_all
  from 1 last show ?case by (auto simp: show_nat.simps [of n] split: if_splits)
qed

lemma Atoi_digits:
  assumes "digits_val 0 s = Some (int n)" and "s \<noteq> []" and "int n \<le> max_int64"
  shows "Atoi s = Some (int n)"
proof -
  obtain c cs where s: "s = c # cs" using assms(2) by (cases s) auto
  with assms(1) have "digit_val c \<noteq> None" by (auto split: option.splits)
  then have "c \<noteq> CHR ''-''" "c \<noteq> CHR ''+''" by (auto simp: digit_val_def)
  with s assms show ?thesis by (simp add: Atoi_def unsigned_atoi_def max_int64_def)
qed

lemma Atoi_show3: "int n \<le> max_int64 \<Longrightarrow> Atoi (show_nat3 n) = Some (int n)"
  by (rule Atoi_digits [OF digits_val_show3]) (simp_all add: show_nat3_def Let_def)

lemma set_show_nat3: "c \<in> set (show_nat3 n) \<Longrightarrow> digit_val c \<noteq> None"
proof -
  assume "c \<in> set (show_nat3 n)"
  then have "c = CHR ''0'' \<or> c \<in> set (show_nat n)" by (auto simp: show_nat3_def Let_def)
  then show ?thesis using set_show_nat [of c n] by (auto simp: digit_val_def)
qed

end
