(* ===== verification/ItemEvents.thy ===== *)
theory ItemEvents
  imports Equipment Penetration
begin

text \<open>
  Events on a service item (\<open>applyItemEvent\<close> of \<open>infrastructure/mysql/delivery_events.go\<close>): for
  every event type the guard on the locked row, the writes on the tables it concerns, and the
  conditional update of the row, with its version and the time it entered its status.
\<close>

section \<open>Guards shared by the events\<close>

text \<open>The mark of a special method, and the plan precondition of \<open>application/delivery_plan.go\<close>.\<close>

definition special_yes :: string where
  "special_yes = [CHR 0xE6, CHR 0x98, CHR 0xAF]"

definition CheckImplementationPlanPrecondition :: "service_item \<Rightarrow> app_error + unit" where
  "CheckImplementationPlanPrecondition item =
     (if trim_space (it_status item) \<noteq> ProjectStatusPendingAllocation then Inl ErrPrecondition
      else if blank (it_manager item) then Inl ErrPrecondition
      else if it_conflict item \<noteq> ''PASSED'' then Inl ErrPrecondition
      else if it_special item = special_yes \<and> it_tech_status item \<noteq> ''APPROVED''
      then Inl ErrPrecondition else Inr ())"

text \<open>A native project with a pending change of its scope refuses every write on its items.\<close>

definition ensureNoPendingNativeScope :: "store \<Rightarrow> project_row \<Rightarrow> app_error + unit" where
  "ensureNoPendingNativeScope s project =
     rguard (\<not> List.member (st_pending_scopes s) (pj_tenant project, pj_id project)) ErrPrecondition"

definition guardNativeScopeMutation :: "store \<Rightarrow> service_item \<Rightarrow> app_error + unit" where
  "guardNativeScopeMutation s item =
     (case find_project s (it_tenant item) (it_project item) of None \<Rightarrow> Inr ()
      | Some project \<Rightarrow>
          if pj_source_kind project = [] \<or> pj_source_kind project = ''CONTRACT'' then Inr ()
          else if pj_source_kind project \<noteq> ''NATIVE'' then Inl ErrPrecondition
          else ensureNoPendingNativeScope s project)"

definition deviationReviewStatus :: "string \<Rightarrow> string option" where
  "deviationReviewStatus decision =
     (if decision = ''RELEASE'' \<or> decision = ''RETEST'' then Some ProjectStatusInProgress
      else if decision = ''TERMINATE'' then Some ProjectStatusTerminated else None)"

definition missingFieldEvidence :: "store \<Rightarrow> string \<Rightarrow> string \<Rightarrow> event_type list" where
  "missingFieldEvidence s tenant itemID =
     filter (\<lambda>ty. count_where (\<lambda>e. er_tenant e = tenant \<and> er_item e = itemID \<and> er_type e = ty)
                   (st_events s) = 0)
       [EventFieldCheckedIn, EventFieldRecordSubmitted, EventFieldSignatureCaptured]"

definition canStartPreparation :: "string \<Rightarrow> bool" where
  "canStartPreparation status \<longleftrightarrow>
     status = ProjectStatusPendingExecution \<or> status = ProjectStatusPreparing"

fun isAuditOnlyEvent :: "event_type \<Rightarrow> bool" where
  "isAuditOnlyEvent EventContractActivated = True"
| "isAuditOnlyEvent EventContractStampStatus = True"
| "isAuditOnlyEvent EventWarningTriggered = True"
| "isAuditOnlyEvent EventAutomationTriggered = True"
| "isAuditOnlyEvent EventRollbackRequested = True"
| "isAuditOnlyEvent EventRollbackRejected = True"
| "isAuditOnlyEvent EventReportCorrectionRequested = True"
| "isAuditOnlyEvent EventReportCorrectionRejected = True"
| "isAuditOnlyEvent _ = False"

section \<open>What an event writes\<close>

text \<open>
  A branch returns the store with the other tables written, and what it does to the row: nothing
  at all (the function returns before its update), or an update with the status it sets, if any.
\<close>

datatype item_write =
    NoWrite
  | Write "string option" "service_item \<Rightarrow> service_item"

type_synonym branch_result = "app_error + (store \<times> item_write)"

abbreviation at_status :: "service_item \<Rightarrow> string \<Rightarrow> branch_result \<Rightarrow> branch_result" where
  "at_status item status branch \<equiv>
     (if it_status item \<noteq> status then Inl ErrValidation else branch)"

subsection \<open>Assignment\<close>

definition release_team :: "service_item \<Rightarrow> service_item" where
  "release_team i = i\<lparr>it_manager := [], it_engineers := JStrs [], it_equipment := JStrs [],
                      it_conflict := ''UNCHECKED''\<rparr>"

definition team_assigned :: "service_item \<Rightarrow> delivery_event \<Rightarrow> store \<Rightarrow> branch_result" where
  "team_assigned item event s =
     at_status item ProjectStatusPendingAllocation
       (Inr (s, Write None (\<lambda>i. i\<lparr>it_team_lead := stringValue (de_payload event) ''team_lead_id''\<rparr>)))"

definition team_revoked :: "service_item \<Rightarrow> store \<Rightarrow> branch_result" where
  "team_revoked item s =
     (if it_status item \<noteq> ProjectStatusPendingAllocation \<or> it_team_lead item = []
      then Inl ErrValidation
      else Inr (s, Write None (\<lambda>i. (release_team i)\<lparr>it_team_lead := []\<rparr>)))"

definition decomposition_returned :: "service_item \<Rightarrow> store \<Rightarrow> branch_result" where
  "decomposition_returned item s =
     at_status item ProjectStatusPendingAllocation
       (Inr (s, Write (Some ServiceItemStatusPendingConfirm)
          (\<lambda>i. (release_team i)\<lparr>it_team_lead := [], it_tech_status := ''NONE'',
                 it_tech_at := None, it_tech_by := [], it_tech_comment := []\<rparr>)))"

definition execution_assigned :: "service_item \<Rightarrow> delivery_event \<Rightarrow> store \<Rightarrow> branch_result" where
  "execution_assigned item event s =
     at_status item ProjectStatusPendingAllocation
       (if it_team_lead item = [] then Inl ErrValidation
        else let p = de_payload event in
          Inr (s, Write None (\<lambda>i. i\<lparr>it_manager := stringValue p ''project_manager_id'',
                 it_engineers := jsonValue p ''engineer_ids'',
                 it_equipment := jsonValue p ''equipment_ids'',
                 it_codes := jsonValue p ''required_codes'',
                 it_conflict := stringValue p ''conflict_status''\<rparr>)))"

definition execution_revoked :: "service_item \<Rightarrow> store \<Rightarrow> branch_result" where
  "execution_revoked item s =
     (if it_status item \<noteq> ProjectStatusPendingAllocation \<or> it_team_lead item = [] \<or>
         it_manager item = [] then Inl ErrValidation
      else Inr (s, Write None release_team))"

subsection \<open>Planning and preparation\<close>

definition implementation_planned :: "service_item \<Rightarrow> delivery_event \<Rightarrow> store \<Rightarrow> branch_result" where
  "implementation_planned item event s =
     rbind (CheckImplementationPlanPrecondition item) (\<lambda>_.
       if it_test_mode item = ''PENETRATION'' \<and>
          stringValue (de_payload event) ''penetration_test_plan'' = [] then Inl ErrValidation
       else Inr (upsertImplPlan item event s, Write (Some ProjectStatusPendingExecution)
         (\<lambda>i. i\<lparr>it_planned_start := rfc3339Value (de_payload event) ''planned_start'',
                it_planned_end := rfc3339Value (de_payload event) ''planned_end''\<rparr>)))"

definition plan_revoked :: "service_item \<Rightarrow> delivery_event \<Rightarrow> store \<Rightarrow> branch_result" where
  "plan_revoked item event s =
     at_status item ProjectStatusPendingExecution
       (Inr (clearImplPlan item event True s, Write (Some ProjectStatusPendingAllocation)
         (\<lambda>i. i\<lparr>it_planned_start := None, it_planned_end := None\<rparr>)))"

definition special_reviewed :: "service_item \<Rightarrow> delivery_event \<Rightarrow> store \<Rightarrow> branch_result" where
  "special_reviewed item event s =
     (if it_special item \<noteq> special_yes then Inl ErrValidation
      else let decision = to_upper (stringValue (de_payload event) ''decision'')
        in if decision \<noteq> ''APPROVED'' \<and> decision \<noteq> ''REJECTED'' then Inl ErrValidation
           else if it_tech_status item \<noteq> ''PENDING'' \<and> it_tech_status item \<noteq> ''REJECTED''
           then Inl ErrValidation
           else Inr (s, Write None (\<lambda>i. i\<lparr>it_tech_status := decision,
                  it_tech_at := Some (de_created_at event), it_tech_by := de_actor event,
                  it_tech_comment := stringValue (de_payload event) ''comment''\<rparr>)))"

definition preparation_started ::
  "env \<Rightarrow> service_item \<Rightarrow> delivery_event \<Rightarrow> store \<Rightarrow> branch_result" where
  "preparation_started env item event s =
     (if \<not> canStartPreparation (it_status item) then Inl ErrValidation
      else rbind (syncEquipmentReservations env item event s) (\<lambda>s.
           rbind (updateImplPlanEquipment item event s) (\<lambda>s.
             Inr (s, Write (Some ProjectStatusPreparing) (\<lambda>i. i)))))"

definition preparation_revoked ::
  "env \<Rightarrow> service_item \<Rightarrow> delivery_event \<Rightarrow> store \<Rightarrow> branch_result" where
  "preparation_revoked env item event s =
     at_status item ProjectStatusPreparing
       (rbind (deleteEquipmentReservations env item s) (\<lambda>s.
          Inr (clearImplPlan item event False s, Write (Some ProjectStatusPendingExecution) (\<lambda>i. i))))"

definition equipment_returned ::
  "env \<Rightarrow> service_item \<Rightarrow> delivery_event \<Rightarrow> store \<Rightarrow> branch_result" where
  "equipment_returned env item event s =
     (if it_status item = ServiceItemStatusPendingConfirm \<or>
         it_status item = ServiceItemStatusPendingReview \<or>
         it_status item = ProjectStatusPendingAllocation \<or>
         it_status item = ProjectStatusTerminated then Inl ErrValidation
      else rbind (markEquipmentReturned env item event s) (\<lambda>s. Inr (s, Write None (\<lambda>i. i))))"

subsection \<open>Field work\<close>

definition field_started :: "service_item \<Rightarrow> store \<Rightarrow> branch_result" where
  "field_started item s =
     at_status item ProjectStatusPreparing (Inr (s, Write (Some ProjectStatusInProgress) (\<lambda>i. i)))"

definition field_recorded :: "service_item \<Rightarrow> delivery_event \<Rightarrow> store \<Rightarrow> branch_result" where
  "field_recorded item event s =
     at_status item ProjectStatusInProgress
       (rbind (persistEvidenceFiles item event ''FIELD'' s) (\<lambda>s. Inr (s, Write None (\<lambda>i. i))))"

definition field_checked_in :: "service_item \<Rightarrow> store \<Rightarrow> branch_result" where
  "field_checked_in item s =
     at_status item ProjectStatusInProgress (Inr (s, Write None (\<lambda>i. i)))"

definition field_completed :: "service_item \<Rightarrow> delivery_event \<Rightarrow> store \<Rightarrow> branch_result" where
  "field_completed item event s =
     at_status item ProjectStatusInProgress
       (rbind (validatePenetrationFieldCompletionGate s item) (\<lambda>_.
          if missingFieldEvidence s (it_tenant item) (it_id item) \<noteq> [] \<and>
             blank (stringValue (de_payload event) ''incomplete_reason'') then Inl ErrPrecondition
          else rbind (ensureReportRevision item (de_created_at event) s) (\<lambda>s.
            Inr (s, Write (Some ProjectStatusFieldCompleted)
                   (\<lambda>i. i\<lparr>it_report_status := ''NONE''\<rparr>)))))"

definition deviation_reported :: "service_item \<Rightarrow> delivery_event \<Rightarrow> store \<Rightarrow> branch_result" where
  "deviation_reported item event s =
     at_status item ProjectStatusInProgress
       (rbind (persistEvidenceFiles item event ''DEVIATION'' s) (\<lambda>s.
          Inr (s, Write (Some ProjectStatusException) (\<lambda>i. i))))"

text \<open>
  The last reported deviation of an item: \<open>ORDER BY created_at DESC, id DESC LIMIT 1\<close>, identifiers
  compared as the byte strings they are.
\<close>

fun str_less :: "string \<Rightarrow> string \<Rightarrow> bool" where
  "str_less _ [] = False"
| "str_less [] (d # ds) = True"
| "str_less (c # cs) (d # ds) =
     ((of_char c :: nat) < of_char d \<or> c = d \<and> str_less cs ds)"

definition later_event :: "event_row \<Rightarrow> event_row \<Rightarrow> event_row" where
  "later_event a b =
     (if er_created_at a < er_created_at b \<or>
         er_created_at a = er_created_at b \<and> str_less (er_id a) (er_id b) then b else a)"

fun latest_event :: "event_row list \<Rightarrow> event_row option" where
  "latest_event [] = None"
| "latest_event (e # es) =
     (case latest_event es of None \<Rightarrow> Some e | Some l \<Rightarrow> Some (later_event e l))"

definition deviation_reviewed ::
  "env \<Rightarrow> service_item \<Rightarrow> delivery_event \<Rightarrow> store \<Rightarrow> branch_result" where
  "deviation_reviewed env item event s =
     (let deviation = stringValue (de_payload event) ''deviation_id'';
          of_item = (\<lambda>ty e. er_tenant e = de_tenant event \<and> er_item e = de_item event \<and> er_type e = ty)
      in if deviation = [] then Inl ErrValidation
         else case latest_event (filter (of_item EventDeviationReported) (st_events s)) of
           None \<Rightarrow> Inl ErrNotFound
         | Some reported \<Rightarrow>
             if stringValue (er_payload reported) ''deviation_id'' \<noteq> deviation then Inl ErrConflict
             else if 0 < count_where (\<lambda>e. of_item EventDeviationReviewed e \<and>
                       raw_string (er_payload e) ''deviation_id'' = deviation) (st_events s)
             then Inr (s, NoWrite)
             else if it_status item \<noteq> ProjectStatusException then Inl ErrValidation
             else case deviationReviewStatus (stringValue (de_payload event) ''decision'') of
               None \<Rightarrow> Inl ErrValidation
             | Some status \<Rightarrow>
                 rbind (if status = ProjectStatusTerminated
                        then deleteEquipmentReservations env item s else Inr s)
                   (\<lambda>s. Inr (s, Write (Some status) (\<lambda>i. i))))"

subsection \<open>Reports and rollbacks\<close>

definition record_duty :: "string \<Rightarrow> delivery_event \<Rightarrow> service_item \<Rightarrow> service_item" where
  "record_duty phase event i =
     (if phase = ''COMPILING'' then i\<lparr>it_prepared_by := de_actor event\<rparr>
      else if phase = ''REVIEWED'' then i\<lparr>it_reviewed_by := de_actor event\<rparr>
      else if phase = ''ISSUED'' then i\<lparr>it_issued_by := de_actor event\<rparr> else i)"

definition report_moved :: "string \<Rightarrow> delivery_event \<Rightarrow> service_item \<Rightarrow> service_item" where
  "report_moved phase event i =
     i\<lparr>it_report_status := phase, it_report_at := Some (de_created_at event),
       it_report_by := de_actor event\<rparr>"

definition report_updated ::
  "env \<Rightarrow> service_item \<Rightarrow> delivery_event \<Rightarrow> store \<Rightarrow> branch_result" where
  "report_updated env item event s =
     at_status item ProjectStatusFieldCompleted
       (let phase = to_upper (stringValue (de_payload event) ''phase'');
            current = ReportPhaseRank (it_report_status item)
        in if \<not> allowedReportPhase phase then Inl ErrValidation
           else if ReportPhaseRank phase \<noteq> current + 1 then Inl ErrValidation
           else rbind (validatePenetrationReportGate s item phase) (\<lambda>_.
                rbind (lockReportRevision env item s) (\<lambda>(s, revision).
                  if rv_validity revision \<noteq> ''ACTIVE'' \<or> ReportPhaseRank (rv_status revision) \<noteq> current
                  then Inl ErrConflict
                  else rbind (advanceReportRevision revision phase event s) (\<lambda>s.
                    Inr (s, Write None (\<lambda>i. record_duty phase event (report_moved phase event i)))))))"

definition next_revision :: "delivery_event \<Rightarrow> service_item \<Rightarrow> service_item" where
  "next_revision event i =
     (report_moved ''NONE'' event i)\<lparr>it_report_revision := it_report_revision i + 1\<rparr>"

definition rollback_approved :: "service_item \<Rightarrow> delivery_event \<Rightarrow> store \<Rightarrow> branch_result" where
  "rollback_approved item event s =
     rbind (validateRollbackApproval s item event) (\<lambda>_.
       let kind = stringValue (de_payload event) ''kind''
       in if kind = ''FIELD_TO_PREPARATION''
          then at_status item ProjectStatusInProgress
                 (Inr (s, Write (Some ProjectStatusPreparing) (\<lambda>i. i)))
          else if kind = ''REPORT_TO_FIELD''
          then if it_status item \<noteq> ProjectStatusFieldCompleted \<or>
                  (it_report_status item \<noteq> ''RECTIFYING'' \<and> it_report_status item \<noteq> ''COMPILING'' \<and>
                   it_report_status item \<noteq> ''REVIEWED'') then Inl ErrValidation
               else rbind (reworkReportRevision item event s) (\<lambda>s.
                 Inr (s, Write (Some ProjectStatusInProgress) (next_revision event)))
          else Inl ErrValidation)"

definition rollback_withdrawn :: "service_item \<Rightarrow> delivery_event \<Rightarrow> store \<Rightarrow> branch_result" where
  "rollback_withdrawn item event s =
     rbind (validateRollbackWithdrawal s item event) (\<lambda>_. Inr (s, Write None (\<lambda>i. i)))"

definition correction_approved ::
  "env \<Rightarrow> service_item \<Rightarrow> delivery_event \<Rightarrow> store \<Rightarrow> branch_result" where
  "correction_approved env item event s =
     rbind (validateReportCorrectionApproval s item event) (\<lambda>_.
       if it_status item \<noteq> ProjectStatusFieldCompleted \<or>
          (it_report_status item \<noteq> ''ISSUED'' \<and> it_report_status item \<noteq> ''ARCHIVED'')
       then Inl ErrValidation
       else rbind (invalidateAndCreateReportRevision env item event s) (\<lambda>s.
         Inr (s, Write None (\<lambda>i. (next_revision event i)
           \<lparr>it_prepared_by := [], it_reviewed_by := [], it_issued_by := []\<rparr>))))"

section \<open>The dispatch and the update of the row\<close>

fun item_branch :: "env \<Rightarrow> service_item \<Rightarrow> delivery_event \<Rightarrow> store \<Rightarrow> event_type \<Rightarrow> branch_result" where
  "item_branch env item event s EventTeamAssigned = team_assigned item event s"
| "item_branch env item event s EventTeamAssignmentRevoked = team_revoked item s"
| "item_branch env item event s EventDecompositionReturned = decomposition_returned item s"
| "item_branch env item event s EventExecutionTeamAssigned = execution_assigned item event s"
| "item_branch env item event s EventExecutionAssignmentRevoked = execution_revoked item s"
| "item_branch env item event s EventImplementationPlanned = implementation_planned item event s"
| "item_branch env item event s EventImplementationPlanRevoked = plan_revoked item event s"
| "item_branch env item event s EventSpecialMethodReviewed = special_reviewed item event s"
| "item_branch env item event s EventReportStatusUpdated = report_updated env item event s"
| "item_branch env item event s EventEquipmentReturned = equipment_returned env item event s"
| "item_branch env item event s EventPreparationStarted = preparation_started env item event s"
| "item_branch env item event s EventPreparationRevoked = preparation_revoked env item event s"
| "item_branch env item event s EventRollbackApproved = rollback_approved item event s"
| "item_branch env item event s EventRollbackWithdrawn = rollback_withdrawn item event s"
| "item_branch env item event s EventReportCorrectionApproved = correction_approved env item event s"
| "item_branch env item event s EventFieldStarted = field_started item s"
| "item_branch env item event s EventFieldRecordSubmitted = field_recorded item event s"
| "item_branch env item event s EventFieldCheckedIn = field_checked_in item s"
| "item_branch env item event s EventFieldSignatureCaptured = field_recorded item event s"
| "item_branch env item event s EventFieldCompleted = field_completed item event s"
| "item_branch env item event s EventDeviationReported = deviation_reported item event s"
| "item_branch env item event s EventDeviationReviewed = deviation_reviewed env item event s"
| "item_branch env item event s ty =
     (if isAuditOnlyEvent ty then Inr (s, NoWrite) else Inl ErrValidation)"

text \<open>The columns every update sets: status and its time when it changes, version, author, time.\<close>

definition written_item ::
  "delivery_event \<Rightarrow> string option \<Rightarrow> (service_item \<Rightarrow> service_item) \<Rightarrow> service_item \<Rightarrow> service_item" where
  "written_item event status f i =
     (let i = (f i)\<lparr>it_updated_at := de_created_at event, it_updated_by := de_actor event,
                    it_version := it_version i + 1\<rparr>
      in case status of None \<Rightarrow> i
         | Some st \<Rightarrow> i\<lparr>it_status := st, it_status_changed_at := Some (de_created_at event)\<rparr>)"

definition same_version :: "service_item \<Rightarrow> service_item \<Rightarrow> bool" where
  "same_version item i \<longleftrightarrow>
     item_key (it_tenant item) (it_id item) i \<and> it_version i = it_version item"

definition write_item ::
  "service_item \<Rightarrow> delivery_event \<Rightarrow> item_write \<Rightarrow> store \<Rightarrow> app_error + store" where
  "write_item item event w s =
     (case w of NoWrite \<Rightarrow> Inr s
      | Write status f \<Rightarrow>
          if count_where (same_version item) (st_items s) \<noteq> 1 then Inl ErrConflict
          else Inr (s\<lparr>st_items := update_where (same_version item) (written_item event status f)
                        (st_items s)\<rparr>))"

definition applyItemEvent ::
  "env \<Rightarrow> service_item \<Rightarrow> delivery_event \<Rightarrow> store \<Rightarrow> app_error + store" where
  "applyItemEvent env item event s =
     rbind (guardNativeScopeMutation s item) (\<lambda>_.
       let expected = expectedVersionValue (de_payload event)
       in if expected \<noteq> 0 \<and> it_version item \<noteq> expected then Inl ErrConflict
          else rbind (item_branch env item event s (de_type event)) (\<lambda>(s, w).
            write_item item event w s))"

section \<open>Frames\<close>

text \<open>A branch writes plans, reservations, evidence and the report ledger, and nothing else.\<close>

definition branch_frame :: "store \<Rightarrow> store \<Rightarrow> bool" where
  "branch_frame s t \<longleftrightarrow>
     t = s\<lparr>st_plans := st_plans t, st_reservations := st_reservations t, st_evidence := st_evidence t,
           st_revisions := st_revisions t, st_next_revision := st_next_revision t\<rparr>"

lemma branch_frame_simps [simp]:
  "branch_frame s s"
  "branch_frame s (s\<lparr>st_plans := ps\<rparr>)"
  "branch_frame s (s\<lparr>st_reservations := rs\<rparr>)"
  "branch_frame s (s\<lparr>st_plans := ps, st_reservations := rs\<rparr>)"
  "branch_frame s (s\<lparr>st_evidence := es\<rparr>)"
  by (simp_all add: branch_frame_def)

lemma branch_frame_trans [trans]: "branch_frame s t \<Longrightarrow> branch_frame t u \<Longrightarrow> branch_frame s u"
  unfolding branch_frame_def by (cases s; cases t; cases u) simp

lemma branch_frame_revisions: "same_but_revisions s t \<Longrightarrow> branch_frame s t"
  unfolding branch_frame_def same_but_revisions_def by (cases s; cases t) simp

lemma branch_frame_fields:
  assumes "branch_frame s t"
  shows "st_items t = st_items s" "st_projects t = st_projects s" "st_events t = st_events s"
    "st_capabilities t = st_capabilities s" "st_packages t = st_packages s"
    "st_package_events t = st_package_events s" "st_outbox t = st_outbox s" "st_audit t = st_audit s"
    "st_effects t = st_effects s" "st_pending_scopes t = st_pending_scopes s"
    "st_automations t = st_automations s" "st_warning_rules t = st_warning_rules s"
  using assms unfolding branch_frame_def by (cases s; cases t; simp)+

lemmas op_frames =
  sync_frame mark_frame update_equipment_frame delete_frame persistEvidence_frame

lemmas ledger_frames =
  ensure_frame lock_frame advance_frame invalidate_frame rework_frame

lemma op_branch_frame:
  "syncEquipmentReservations env item event s = Inr t \<Longrightarrow> branch_frame s t"
  "markEquipmentReturned env item event s = Inr t \<Longrightarrow> branch_frame s t"
  "updateImplPlanEquipment item event s = Inr t \<Longrightarrow> branch_frame s t"
  "deleteEquipmentReservations env item s = Inr t \<Longrightarrow> branch_frame s t"
  "persistEvidenceFiles item event kind s = Inr t \<Longrightarrow> branch_frame s t"
  using op_frames by (metis branch_frame_simps)+

lemma plan_branch_frame:
  "branch_frame s (upsertImplPlan item event s)" "branch_frame s (clearImplPlan item event b s)"
  by (metis upsert_frame clear_frame branch_frame_simps(2))+

lemma item_branch_frame:
  assumes "item_branch env item event s ty = Inr (t, w)"
  shows "branch_frame s t"
proof (cases ty)
  case EventPreparationStarted
  with assms show ?thesis
    by (auto simp: preparation_started_def res_simps split: if_splits
        dest!: op_branch_frame elim: branch_frame_trans)
next
  case EventPreparationRevoked
  with assms show ?thesis
    by (auto simp: preparation_revoked_def res_simps split: if_splits
        dest!: op_branch_frame intro: branch_frame_trans plan_branch_frame)
next
  case EventReportStatusUpdated
  with assms show ?thesis
    by (auto simp: report_updated_def res_simps Let_def split: if_splits
        dest!: ledger_frames branch_frame_revisions elim: branch_frame_trans)
next
  case EventDeviationReviewed
  with assms show ?thesis
    by (auto simp: deviation_reviewed_def res_simps Let_def split: if_splits option.splits
        dest: op_branch_frame)
qed (use assms in \<open>auto simp: res_simps Let_def team_assigned_def team_revoked_def
    decomposition_returned_def execution_assigned_def execution_revoked_def
    implementation_planned_def plan_revoked_def special_reviewed_def equipment_returned_def
    rollback_approved_def rollback_withdrawn_def correction_approved_def field_started_def
    field_recorded_def field_checked_in_def field_completed_def deviation_reported_def
    plan_branch_frame
    split: if_splits dest: op_branch_frame ledger_frames [THEN branch_frame_revisions]\<close>)

section \<open>The row after an event\<close>

lemma applyItemEventE:
  assumes "applyItemEvent env item event s = Inr t"
  obtains u where "item_branch env item event s (de_type event) = Inr (u, NoWrite)" "t = u"
  | u status f where "item_branch env item event s (de_type event) = Inr (u, Write status f)"
      "count_where (same_version item) (st_items u) = 1"
      "t = u\<lparr>st_items := update_where (same_version item) (written_item event status f) (st_items u)\<rparr>"
proof -
  from assms obtain u w where b: "item_branch env item event s (de_type event) = Inr (u, w)"
    and w: "write_item item event w u = Inr t"
    by (auto simp: applyItemEvent_def Let_def res_simps split: if_splits)
  show ?thesis
  proof (cases w)
    case NoWrite
    with b w that(1) show ?thesis by (simp add: write_item_def)
  next
    case (Write status f)
    with b w that(2) show ?thesis by (auto simp: write_item_def split: if_splits)
  qed
qed

lemma apply_expected_version:
  "applyItemEvent env item event s = Inr t \<Longrightarrow> expectedVersionValue (de_payload event) \<noteq> 0 \<Longrightarrow>
   it_version item = expectedVersionValue (de_payload event)"
  by (auto simp: applyItemEvent_def Let_def res_simps split: if_splits)

text \<open>Where identifiers are unique, the update hits the locked row alone.\<close>

lemma same_version_iff:
  assumes "distinct (map it_id (st_items s))" and "find_item s (it_tenant item) (it_id item) = Some item"
    and "i \<in> set (st_items s)"
  shows "same_version item i \<longleftrightarrow> i = item"
proof
  assume "same_version item i"
  then have "it_id i = it_id item" by (simp add: same_version_def item_key_def)
  then show "i = item"
    using key_unique [OF assms(1), of item i] find_item_SomeD [OF assms(2)] assms(3) by simp
next
  assume "i = item"
  then show "same_version item i"
    using find_item_SomeD [OF assms(2)] by (simp add: same_version_def item_key_def)
qed

lemma update_same_version:
  assumes "distinct (map it_id (st_items s))" and "find_item s (it_tenant item) (it_id item) = Some item"
  shows "update_where (same_version item) f (st_items s)
    = update_where (\<lambda>j. it_id j = it_id item) (\<lambda>_. f item) (st_items s)"
proof -
  have "it_id j = it_id item \<longleftrightarrow> j = item" if "j \<in> set (st_items s)" for j
    using key_unique [OF assms(1), of item j] find_item_SomeD [OF assms(2)] that by auto
  with same_version_iff [OF assms] show ?thesis by (simp add: update_where_def)
qed

lemma written_fields [simp]:
  "it_id (f i) = it_id i \<Longrightarrow> it_id (written_item event status f i) = it_id i"
  "it_tenant (f i) = it_tenant i \<Longrightarrow> it_tenant (written_item event status f i) = it_tenant i"
  "it_project (f i) = it_project i \<Longrightarrow> it_project (written_item event status f i) = it_project i"
  "it_archived_at (f i) = it_archived_at i \<Longrightarrow>
     it_archived_at (written_item event status f i) = it_archived_at i"
  "it_version (written_item event status f i) = it_version i + 1"
  "it_report_status (written_item event status f i) = it_report_status (f i)"
  "it_report_revision (written_item event status f i) = it_report_revision (f i)"
  by (simp_all add: written_item_def Let_def split: option.splits)

lemma written_status:
  "it_status (written_item event status f i) = (case status of None \<Rightarrow> it_status (f i) | Some st \<Rightarrow> st)"
  by (simp add: written_item_def Let_def split: option.splits)

text \<open>What no update of a branch changes: the identity of the row and its status column.\<close>

definition keeps_row :: "(service_item \<Rightarrow> service_item) \<Rightarrow> bool" where
  "keeps_row f \<longleftrightarrow> (\<forall>i. it_id (f i) = it_id i \<and> it_tenant (f i) = it_tenant i \<and>
     it_project (f i) = it_project i \<and> it_archived_at (f i) = it_archived_at i \<and>
     it_status (f i) = it_status i \<and> it_created_at (f i) = it_created_at i \<and>
     it_special (f i) = it_special i \<and> it_test_mode (f i) = it_test_mode i \<and>
     it_category (f i) = it_category i)"

lemma item_branch_keeps_row:
  assumes "item_branch env item event s ty = Inr (t, Write status f)"
  shows "keeps_row f"
proof (cases ty)
  case EventDeviationReviewed
  with assms show ?thesis
    by (auto simp: deviation_reviewed_def res_simps Let_def keeps_row_def
        split: if_splits option.splits)
qed (use assms in \<open>auto simp: res_simps Let_def keeps_row_def team_assigned_def team_revoked_def
    decomposition_returned_def execution_assigned_def execution_revoked_def
    implementation_planned_def plan_revoked_def special_reviewed_def equipment_returned_def
    rollback_approved_def rollback_withdrawn_def correction_approved_def field_started_def
    field_recorded_def field_checked_in_def field_completed_def deviation_reported_def
    preparation_started_def preparation_revoked_def report_updated_def release_team_def
    next_revision_def report_moved_def record_duty_def split: if_splits\<close>)

lemma find_item_after:
  assumes d: "distinct (map it_id (st_items s))"
    and i: "find_item s (it_tenant item) (it_id item) = Some item" and f: "keeps_row f"
    and t: "st_items t = update_where (same_version item) (written_item event status f) (st_items s)"
  shows "find_item t (it_tenant item) (it_id item) = Some (written_item event status f item)"
proof -
  have "find_item t (it_tenant item) (it_id item) =
      map_option (\<lambda>r. if same_version item r then written_item event status f r else r)
        (find_item s (it_tenant item) (it_id item))"
    unfolding find_item_def t
    by (rule find_update_where) (use f in \<open>simp add: item_key_def item_live_def keeps_row_def\<close>)
  with i same_version_iff [OF d i] find_item_SomeD [OF i] show ?thesis by simp
qed

section \<open>The life cycle as an abstract machine\<close>

text \<open>
  The contract of the events: from which status to which each one moves an item. Every other
  event keeps the status.
\<close>

inductive moves :: "event_type \<Rightarrow> string \<Rightarrow> string \<Rightarrow> bool" where
  return_to_decomposition:
    "moves EventDecompositionReturned ProjectStatusPendingAllocation ServiceItemStatusPendingConfirm"
| plan: "trim_space st = ProjectStatusPendingAllocation \<Longrightarrow>
    moves EventImplementationPlanned st ProjectStatusPendingExecution"
| revoke_plan:
    "moves EventImplementationPlanRevoked ProjectStatusPendingExecution ProjectStatusPendingAllocation"
| prepare: "st = ProjectStatusPendingExecution \<or> st = ProjectStatusPreparing \<Longrightarrow>
    moves EventPreparationStarted st ProjectStatusPreparing"
| revoke_preparation: "moves EventPreparationRevoked ProjectStatusPreparing ProjectStatusPendingExecution"
| start_field: "moves EventFieldStarted ProjectStatusPreparing ProjectStatusInProgress"
| complete_field: "moves EventFieldCompleted ProjectStatusInProgress ProjectStatusFieldCompleted"
| report_deviation: "moves EventDeviationReported ProjectStatusInProgress ProjectStatusException"
| review_deviation: "st = ProjectStatusInProgress \<or> st = ProjectStatusTerminated \<Longrightarrow>
    moves EventDeviationReviewed ProjectStatusException st"
| review_again: "moves EventDeviationReviewed st st"
| roll_back_field: "moves EventRollbackApproved ProjectStatusInProgress ProjectStatusPreparing"
| roll_back_report: "moves EventRollbackApproved ProjectStatusFieldCompleted ProjectStatusInProgress"
| assign: "ty = EventTeamAssigned \<or> ty = EventTeamAssignmentRevoked \<or>
      ty = EventExecutionTeamAssigned \<or> ty = EventExecutionAssignmentRevoked \<Longrightarrow>
    moves ty ProjectStatusPendingAllocation ProjectStatusPendingAllocation"
| field_evidence: "ty = EventFieldRecordSubmitted \<or> ty = EventFieldCheckedIn \<or>
      ty = EventFieldSignatureCaptured \<Longrightarrow> moves ty ProjectStatusInProgress ProjectStatusInProgress"
| report_work: "ty = EventReportStatusUpdated \<or> ty = EventReportCorrectionApproved \<Longrightarrow>
    moves ty ProjectStatusFieldCompleted ProjectStatusFieldCompleted"
| return_equipment: "st \<noteq> ServiceItemStatusPendingConfirm \<Longrightarrow> st \<noteq> ServiceItemStatusPendingReview \<Longrightarrow>
    st \<noteq> ProjectStatusPendingAllocation \<Longrightarrow> st \<noteq> ProjectStatusTerminated \<Longrightarrow>
    moves EventEquipmentReturned st st"
| on_file: "ty = EventSpecialMethodReviewed \<or> ty = EventRollbackWithdrawn \<or> isAuditOnlyEvent ty \<Longrightarrow>
    moves ty st st"

definition branch_moves :: "event_type \<Rightarrow> string \<Rightarrow> item_write \<Rightarrow> bool" where
  "branch_moves ty st w \<longleftrightarrow>
     (case w of NoWrite \<Rightarrow> moves ty st st
      | Write status f \<Rightarrow> moves ty st (case status of None \<Rightarrow> st | Some st' \<Rightarrow> st'))"

lemma item_branch_moves:
  assumes "item_branch env item event s ty = Inr (t, w)"
  shows "branch_moves ty (it_status item) w"
proof (cases ty)
  case EventDeviationReviewed
  with assms show ?thesis
    by (auto simp: deviation_reviewed_def deviationReviewStatus_def res_simps Let_def branch_moves_def
        split: if_splits option.splits intro: moves.intros)
next
  case EventImplementationPlanned
  with assms show ?thesis
    by (auto simp: implementation_planned_def CheckImplementationPlanPrecondition_def res_simps
        branch_moves_def split: if_splits intro: moves.intros)
next
  case EventPreparationStarted
  with assms show ?thesis
    by (auto simp: preparation_started_def canStartPreparation_def res_simps
        branch_moves_def split: if_splits intro: moves.intros)
qed (use assms in \<open>auto simp: res_simps Let_def branch_moves_def team_assigned_def team_revoked_def
    decomposition_returned_def execution_assigned_def execution_revoked_def
    plan_revoked_def special_reviewed_def equipment_returned_def
    rollback_approved_def rollback_withdrawn_def correction_approved_def field_started_def
    field_recorded_def field_checked_in_def field_completed_def deviation_reported_def
    preparation_revoked_def report_updated_def split: if_splits intro: moves.intros\<close>)

inductive_cases movesE: "moves ty st st'"

lemma trim_terminated: "trim_space ProjectStatusTerminated \<noteq> ProjectStatusPendingAllocation"
  by code_simp

lemma terminated_absorbs: "moves ty ProjectStatusTerminated st \<Longrightarrow> st = ProjectStatusTerminated"
  by (erule movesE) (use trim_terminated in \<open>auto simp: status_defs\<close>)

text \<open>The row a committed event leaves.\<close>

definition item_stepped :: "delivery_event \<Rightarrow> service_item \<Rightarrow> service_item \<Rightarrow> bool" where
  "item_stepped event item item' \<longleftrightarrow>
     it_id item' = it_id item \<and> it_tenant item' = it_tenant item \<and>
     it_project item' = it_project item \<and> it_archived_at item' = it_archived_at item \<and>
     moves (de_type event) (it_status item) (it_status item') \<and>
     (expectedVersionValue (de_payload event) \<noteq> 0 \<longrightarrow>
        it_version item = expectedVersionValue (de_payload event)) \<and>
     (item' = item \<or> it_version item' = it_version item + 1 \<and>
        it_updated_by item' = de_actor event \<and> it_updated_at item' = de_created_at event \<and>
        (it_status item' \<noteq> it_status item \<longrightarrow>
           it_status_changed_at item' = Some (de_created_at event)))"

lemma item_event_row:
  assumes "applyItemEvent env item event s = Inr t"
    and "find_item s (it_tenant item) (it_id item) = Some item"
    and "distinct (map it_id (st_items s))"
  obtains item' where "find_item t (it_tenant item) (it_id item) = Some item'"
    "item_stepped event item item'"
    "st_items t = update_where (\<lambda>j. it_id j = it_id item) (\<lambda>_. item') (st_items s)"
  using assms(1)
proof (cases rule: applyItemEventE)
  case (1 u)
  have u: "st_items u = st_items s" by (rule branch_frame_fields [OF item_branch_frame [OF 1(1)]])
  moreover have "moves (de_type event) (it_status item) (it_status item)"
    using item_branch_moves [OF 1(1)] by (simp add: branch_moves_def)
  then have "item_stepped event item item"
    using apply_expected_version [OF assms(1)] by (auto simp: item_stepped_def)
  moreover have "st_items t = update_where (\<lambda>j. it_id j = it_id item) (\<lambda>_. item) (st_items s)"
    using update_where_same [OF assms(3)] find_item_SomeD [OF assms(2)] u by (simp add: 1(2))
  moreover have "find_item t (it_tenant item) (it_id item) = Some item"
    using assms(2) u by (simp add: 1(2) find_item_def)
  ultimately show ?thesis using that by blast
next
  case (2 u status f)
  have u: "st_items u = st_items s" by (rule branch_frame_fields [OF item_branch_frame [OF 2(1)]])
  note f = item_branch_keeps_row [OF 2(1)]
  let ?i = "written_item event status f item"
  have t: "st_items t = update_where (same_version item) (written_item event status f) (st_items s)"
    by (simp add: 2(3) u)
  have "moves (de_type event) (it_status item) (it_status ?i)"
    using item_branch_moves [OF 2(1)] f
    by (simp add: branch_moves_def written_status keeps_row_def split: option.splits)
  moreover have "it_version ?i = it_version item + 1 \<and> it_updated_by ?i = de_actor event \<and>
      it_updated_at ?i = de_created_at event \<and>
      (it_status ?i \<noteq> it_status item \<longrightarrow> it_status_changed_at ?i = Some (de_created_at event))"
    using f by (simp add: written_item_def Let_def keeps_row_def split: option.splits)
  ultimately have "item_stepped event item ?i"
    using f apply_expected_version [OF assms(1)] by (simp add: item_stepped_def keeps_row_def)
  with that find_item_after [OF assms(3,2) f t] t [unfolded update_same_version [OF assms(3,2)]]
  show ?thesis by blast
qed

text \<open>
  C24. Events move an item along the life cycle. A committed event takes the locked item from its
  status to one the machine allows for that event, leaves every other item alone, and either
  leaves the row as it was or gives it the next version and, where the status is set, the time of
  the event as the moment it entered the status.
\<close>

theorem item_event_refines_life_cycle:
  assumes "applyItemEvent env item event s = Inr t"
    and "find_item s (it_tenant item) (it_id item) = Some item"
    and "distinct (map it_id (st_items s))"
  shows "\<exists>item'. find_item t (it_tenant item) (it_id item) = Some item' \<and>
      moves (de_type event) (it_status item) (it_status item') \<and>
      st_items t = update_where (\<lambda>j. it_id j = it_id item) (\<lambda>_. item') (st_items s) \<and>
      (item' = item \<or> it_version item' = it_version item + 1 \<and>
        it_updated_by item' = de_actor event \<and> it_updated_at item' = de_created_at event \<and>
        (it_status item' \<noteq> it_status item \<longrightarrow>
           it_status_changed_at item' = Some (de_created_at event)))"
  using item_event_row [OF assms] unfolding item_stepped_def by metis

theorem item_event_refines_life_cycle_witness:
  "\<exists>t item'. applyItemEvent sample_env (sample_item\<lparr>it_status := ProjectStatusPreparing\<rparr>)
      (sample_event ''E1'' EventFieldStarted ''pm'' [])
      (empty_store\<lparr>st_items := [sample_item\<lparr>it_status := ProjectStatusPreparing\<rparr>]\<rparr>) = Inr t \<and>
    find_item t ''T1'' ''SI-1'' = Some item' \<and>
    moves EventFieldStarted ProjectStatusPreparing (it_status item')"
proof -
  define i where "i = sample_item\<lparr>it_status := ProjectStatusPreparing\<rparr>"
  define s where "s = empty_store\<lparr>st_items := [i]\<rparr>"
  define e where "e = sample_event ''E1'' EventFieldStarted ''pm'' []"
  obtain t where t: "applyItemEvent sample_env i e s = Inr t"
  proof -
    have "case applyItemEvent sample_env i e s of Inr _ \<Rightarrow> True | Inl _ \<Rightarrow> False"
      unfolding i_def s_def e_def by code_simp
    with that show thesis by (auto split: sum.splits)
  qed
  have f: "find_item s (it_tenant i) (it_id i) = Some i" "distinct (map it_id (st_items s))"
    by (simp_all add: s_def i_def empty_store_def sample_item_def find_item_def item_key_def item_live_def)
  from item_event_refines_life_cycle [OF t f] t show ?thesis
    by (auto simp: i_def s_def e_def sample_event_def sample_item_def)
qed

section \<open>The report ledger under events\<close>

lemma item_ledger_fields:
  "item_ledger rs i \<Longrightarrow> it_tenant i' = it_tenant i \<Longrightarrow> it_id i' = it_id i \<Longrightarrow>
   it_report_revision i' = it_report_revision i \<Longrightarrow> it_report_status i' = it_report_status i \<Longrightarrow>
   it_status i' = it_status i \<or>
     it_status i \<noteq> ProjectStatusFieldCompleted \<and> it_status i' \<noteq> ProjectStatusFieldCompleted \<Longrightarrow>
   item_ledger rs i'"
  by (auto simp: item_ledger_def)

text \<open>What a branch makes of the ledger: the row it leaves is the one the update writes.\<close>

definition ledger_step :: "service_item \<Rightarrow> service_item \<Rightarrow> store \<Rightarrow> store \<Rightarrow> bool" where
  "ledger_step item item' s u \<longleftrightarrow>
     ledger_inv u \<and> others_same item (st_revisions s) (st_revisions u) \<and>
     item_ledger (st_revisions u) item'"

definition after_write :: "delivery_event \<Rightarrow> item_write \<Rightarrow> service_item \<Rightarrow> service_item" where
  "after_write event w item =
     (case w of NoWrite \<Rightarrow> item | Write status f \<Rightarrow> written_item event status f item)"

text \<open>A branch that leaves the ledger and the report columns alone.\<close>

lemma ledger_step_quiet:
  assumes "ledger_inv s" and "item_ledger (st_revisions s) item"
    and "st_revisions u = st_revisions s" "st_next_revision u = st_next_revision s"
    and "keeps_row f" "it_report_revision (f item) = it_report_revision item"
      "it_report_status (f item) = it_report_status item"
    and "case status of None \<Rightarrow> True
         | Some st \<Rightarrow> it_status item \<noteq> ProjectStatusFieldCompleted \<and> st \<noteq> ProjectStatusFieldCompleted"
  shows "ledger_step item (written_item event status f item) s u"
proof -
  have "item_ledger (st_revisions s) (written_item event status f item)"
    by (rule item_ledger_fields [OF assms(2)])
      (use assms(5-8) in \<open>auto simp: keeps_row_def written_status split: option.splits\<close>)
  with assms show ?thesis by (simp add: ledger_step_def ledger_inv_def)
qed

lemma ledger_step_none:
  "ledger_inv s \<Longrightarrow> item_ledger (st_revisions s) item \<Longrightarrow> st_revisions u = st_revisions s \<Longrightarrow>
   st_next_revision u = st_next_revision s \<Longrightarrow> ledger_step item item s u"
  by (simp add: ledger_step_def ledger_inv_def)

lemma report_updated_ledger:
  assumes "report_updated env item event s = Inr (u, w)" and inv: "ledger_inv s"
    and item: "item_ledger (st_revisions s) item"
  shows "ledger_step item (after_write event w item) s u"
proof -
  let ?phase = "to_upper (stringValue (de_payload event) ''phase'')"
  from assms(1) obtain v r where st: "it_status item = ProjectStatusFieldCompleted"
    and rank: "ReportPhaseRank ?phase = ReportPhaseRank (it_report_status item) + 1"
    and lock: "lockReportRevision env item s = Inr (v, r)"
    and cur: "ReportPhaseRank (rv_status r) = ReportPhaseRank (it_report_status item)"
    and adv: "advanceReportRevision r ?phase event v = Inr u"
    and w: "w = Write None (\<lambda>i. record_duty ?phase event (report_moved ?phase event i))"
    by (auto simp: report_updated_def Let_def res_simps split: if_splits)
  note v = lockE [OF lock inv item]
  let ?i = "after_write event w item"
  have new: "it_tenant ?i = it_tenant item" "it_id ?i = it_id item"
    "it_report_revision ?i = it_report_revision item" "it_report_status ?i = ?phase"
    "it_status ?i = ProjectStatusFieldCompleted"
    using st by (simp_all add: after_write_def w written_item_def record_duty_def report_moved_def)
  have "ReportPhaseRank ?phase = ReportPhaseRank (rv_status r) + 1" using rank cur by simp
  from advance_ok [OF adv v(1,2,4,5) this new] v(3) show ?thesis
    by (auto simp: ledger_step_def intro: others_same_trans)
qed

lemma field_completed_ledger:
  assumes "field_completed item event s = Inr (u, w)" and inv: "ledger_inv s"
    and item: "item_ledger (st_revisions s) item"
  shows "ledger_step item (after_write event w item) s u"
proof -
  from assms(1) have st: "it_status item = ProjectStatusInProgress"
    and ens: "ensureReportRevision item (de_created_at event) s = Inr u"
    and w: "w = Write (Some ProjectStatusFieldCompleted) (\<lambda>i. i\<lparr>it_report_status := ''NONE''\<rparr>)"
    by (auto simp: field_completed_def res_simps split: if_splits)
  obtain u' where "ensureReportRevision item (de_created_at event) s = Inr u'" "ledger_inv u'"
    "item_ledger (st_revisions u') item" "others_same item (st_revisions s) (st_revisions u')"
    "\<exists>r \<in> set (st_revisions u'). item_revision item (it_report_revision item) r"
    using ensure_ok [OF inv item] by metis
  with ens have u: "ledger_inv u" "item_ledger (st_revisions u) item"
    "others_same item (st_revisions s) (st_revisions u)"
    "\<exists>r \<in> set (st_revisions u). item_revision item (it_report_revision item) r" by simp_all
  let ?i = "after_write event w item"
  have new: "it_tenant ?i = it_tenant item" "it_id ?i = it_id item"
    "it_report_revision ?i = it_report_revision item" "it_report_status ?i = ''NONE''"
    "it_status ?i = ProjectStatusFieldCompleted"
    by (simp_all add: after_write_def w written_item_def)
  have rank: "ReportPhaseRank ''NONE'' = 0" by code_simp
  have "ReportPhaseRank (it_report_status item) \<le> 0"
    using u(2) st by (simp add: item_ledger_def status_defs)
  then have "max 0 (ReportPhaseRank (it_report_status item)) = 0" by simp
  with u(2) have "item_ledger (st_revisions u) ?i"
    using u(4) unfolding item_ledger_def new rank by (auto simp: set_subject_rows revision_key_def)
  with u show ?thesis by (simp add: ledger_step_def)
qed

lemma rollback_ledger:
  assumes "rollback_approved item event s = Inr (u, w)" and inv: "ledger_inv s"
    and item: "item_ledger (st_revisions s) item"
  shows "ledger_step item (after_write event w item) s u"
proof (cases "stringValue (de_payload event) ''kind'' = ''FIELD_TO_PREPARATION''")
  case True
  with assms(1) have "it_status item = ProjectStatusInProgress" "u = s"
    and w: "w = Write (Some ProjectStatusPreparing) (\<lambda>i. i)"
    by (auto simp: rollback_approved_def res_simps Let_def split: if_splits)
  then show ?thesis unfolding w after_write_def item_write.case
    by (intro ledger_step_quiet inv item) (simp_all add: keeps_row_def status_defs)
next
  case False
  with assms(1) have rw: "reworkReportRevision item event s = Inr u"
    and w: "w = Write (Some ProjectStatusInProgress) (next_revision event)"
    by (auto simp: rollback_approved_def res_simps Let_def split: if_splits)
  let ?i = "after_write event w item"
  have none: "ReportPhaseRank ''NONE'' \<le> 0" by code_simp
  have new: "it_tenant ?i = it_tenant item" "it_id ?i = it_id item"
    "it_report_revision ?i = Suc (it_report_revision item)"
    "ReportPhaseRank (it_report_status ?i) \<le> 0"
    using none by (simp_all add: after_write_def w written_item_def next_revision_def report_moved_def)
  show ?thesis using rework_ok [OF inv item new] rw unfolding ledger_step_def by (metis Inr_inject)
qed

lemma correction_ledger:
  assumes "correction_approved env item event s = Inr (u, w)" and inv: "ledger_inv s"
    and item: "item_ledger (st_revisions s) item"
  shows "ledger_step item (after_write event w item) s u"
proof -
  from assms(1) have iv: "invalidateAndCreateReportRevision env item event s = Inr u"
    and w: "w = Write None (\<lambda>i. (next_revision event i)
           \<lparr>it_prepared_by := [], it_reviewed_by := [], it_issued_by := []\<rparr>)"
    by (auto simp: correction_approved_def res_simps split: if_splits)
  let ?i = "after_write event w item"
  have none: "ReportPhaseRank ''NONE'' \<le> 0" by code_simp
  have new: "it_tenant ?i = it_tenant item" "it_id ?i = it_id item"
    "it_report_revision ?i = Suc (it_report_revision item)"
    "ReportPhaseRank (it_report_status ?i) \<le> 0"
    using none by (simp_all add: after_write_def w written_item_def next_revision_def report_moved_def)
  show ?thesis using void_ok [OF inv item new] iv unfolding ledger_step_def by (metis Inr_inject)
qed

lemma quiet_op_ledger:
  assumes "\<exists>ps rs es. u = s\<lparr>st_plans := ps, st_reservations := rs, st_evidence := es\<rparr>"
  shows "st_revisions u = st_revisions s" "st_next_revision u = st_next_revision s"
  using assms by auto

lemma op_quiet:
  "syncEquipmentReservations env item event s = Inr t \<Longrightarrow>
     st_revisions t = st_revisions s \<and> st_next_revision t = st_next_revision s"
  "markEquipmentReturned env item event s = Inr t \<Longrightarrow>
     st_revisions t = st_revisions s \<and> st_next_revision t = st_next_revision s"
  "updateImplPlanEquipment item event s = Inr t \<Longrightarrow>
     st_revisions t = st_revisions s \<and> st_next_revision t = st_next_revision s"
  "deleteEquipmentReservations env item s = Inr t \<Longrightarrow>
     st_revisions t = st_revisions s \<and> st_next_revision t = st_next_revision s"
  "persistEvidenceFiles item event kind s = Inr t \<Longrightarrow>
     st_revisions t = st_revisions s \<and> st_next_revision t = st_next_revision s"
  by (drule op_frames, force)+

lemma plan_quiet:
  "st_revisions (upsertImplPlan item event s) = st_revisions s"
  "st_next_revision (upsertImplPlan item event s) = st_next_revision s"
  "st_revisions (clearImplPlan item event b s) = st_revisions s"
  "st_next_revision (clearImplPlan item event b s) = st_next_revision s"
  using upsert_frame [of item event s] clear_frame [of item event b s] by auto

text \<open>The branches that are quiet for the ledger, and how they set the status.\<close>

definition report_event :: "event_type \<Rightarrow> bool" where
  "report_event ty \<longleftrightarrow> ty = EventReportStatusUpdated \<or> ty = EventFieldCompleted \<or>
     ty = EventRollbackApproved \<or> ty = EventReportCorrectionApproved"

definition quiet_write :: "service_item \<Rightarrow> item_write \<Rightarrow> bool" where
  "quiet_write item w \<longleftrightarrow>
     (case w of NoWrite \<Rightarrow> True
      | Write status f \<Rightarrow> it_report_revision (f item) = it_report_revision item \<and>
          it_report_status (f item) = it_report_status item \<and>
          (case status of None \<Rightarrow> True
           | Some st \<Rightarrow> it_status item \<noteq> ProjectStatusFieldCompleted \<and>
               st \<noteq> ProjectStatusFieldCompleted))"

lemma trim_field_completed: "trim_space ProjectStatusFieldCompleted \<noteq> ProjectStatusPendingAllocation"
  by code_simp

lemma item_branch_quiet:
  assumes "item_branch env item event s ty = Inr (u, w)" and "\<not> report_event ty"
  shows "quiet_write item w \<and> st_revisions u = st_revisions s \<and>
    st_next_revision u = st_next_revision s"
proof (cases ty)
  case EventDeviationReviewed
  with assms show ?thesis
    by (auto simp: deviation_reviewed_def deviationReviewStatus_def res_simps Let_def quiet_write_def
        status_defs split: if_splits option.splits dest: op_quiet)
next
  case EventImplementationPlanned
  with assms trim_field_completed show ?thesis
    by (auto simp: implementation_planned_def CheckImplementationPlanPrecondition_def res_simps
        quiet_write_def plan_quiet status_defs split: if_splits)
next
  case EventPreparationStarted
  with assms show ?thesis
    by (auto simp: preparation_started_def canStartPreparation_def res_simps quiet_write_def
        status_defs split: if_splits dest!: op_quiet)
qed (use assms in \<open>auto simp: res_simps Let_def quiet_write_def team_assigned_def team_revoked_def
    decomposition_returned_def execution_assigned_def execution_revoked_def report_event_def
    plan_revoked_def special_reviewed_def equipment_returned_def release_team_def
    rollback_withdrawn_def field_started_def plan_quiet status_defs
    field_recorded_def field_checked_in_def deviation_reported_def
    preparation_revoked_def split: if_splits dest!: op_quiet\<close>)

lemma item_branch_ledger:
  assumes b: "item_branch env item event s ty = Inr (u, w)" and inv: "ledger_inv s"
    and item: "item_ledger (st_revisions s) item"
  shows "ledger_step item (after_write event w item) s u"
proof (cases "report_event ty")
  case True
  with b show ?thesis
    by (auto simp: report_event_def
        intro: report_updated_ledger [OF _ inv item] field_completed_ledger [OF _ inv item]
          rollback_ledger [OF _ inv item] correction_ledger [OF _ inv item])
next
  case False
  note q = item_branch_quiet [OF b False]
  show ?thesis
  proof (cases w)
    case NoWrite
    with q inv item show ?thesis by (simp add: after_write_def ledger_step_none)
  next
    case (Write status f)
    have "keeps_row f" by (rule item_branch_keeps_row [OF b [unfolded Write]])
    moreover have "it_report_revision (f item) = it_report_revision item"
      "it_report_status (f item) = it_report_status item"
      "case status of None \<Rightarrow> True
       | Some st \<Rightarrow> it_status item \<noteq> ProjectStatusFieldCompleted \<and> st \<noteq> ProjectStatusFieldCompleted"
      using q unfolding Write quiet_write_def item_write.case by blast+
    ultimately have "ledger_step item (written_item event status f item) s u"
      using q by (intro ledger_step_quiet [OF inv item]) blast+
    then show ?thesis by (simp only: Write after_write_def item_write.case)
  qed
qed

lemma item_event_ledger_ok:
  assumes a: "applyItemEvent env item event s = Inr t" and ok: "ledger_ok s"
    and i: "find_item s (it_tenant item) (it_id item) = Some item"
  shows "ledger_ok t"
proof -
  have item: "item \<in> set (st_items s)" using find_item_SomeD [OF i] by blast
  have d: "distinct (map it_id (st_items s))" and inv: "ledger_inv s"
    and il: "item_ledger (st_revisions s) item"
    using ok item by (simp_all add: ledger_ok_def)
  from a show ?thesis
  proof (cases rule: applyItemEventE)
    case (1 u)
    have "st_items u = st_items s" by (rule branch_frame_fields [OF item_branch_frame [OF 1(1)]])
    then have items: "st_items u = update_where (\<lambda>j. it_id j = it_id item) (\<lambda>_. item) (st_items s)"
      using update_where_same [OF d] item by simp
    from item_branch_ledger [OF 1(1) inv il] have "ledger_inv u"
      "others_same item (st_revisions s) (st_revisions u)" "item_ledger (st_revisions u) item"
      by (simp_all add: ledger_step_def after_write_def)
    then show ?thesis unfolding 1(2) by (rule ledger_okI [OF ok item _ _ _ refl refl items])
  next
    case (2 u status f)
    have u: "st_items u = st_items s" by (rule branch_frame_fields [OF item_branch_frame [OF 2(1)]])
    have f: "keeps_row f" by (rule item_branch_keeps_row [OF 2(1)])
    have items: "st_items t = update_where (\<lambda>j. it_id j = it_id item)
        (\<lambda>_. written_item event status f item) (st_items s)"
      by (simp add: 2(3) u update_same_version [OF d i])
    from item_branch_ledger [OF 2(1) inv il] have l: "ledger_inv t"
      "others_same item (st_revisions s) (st_revisions t)"
      "item_ledger (st_revisions t) (written_item event status f item)"
      by (simp_all add: ledger_step_def after_write_def 2(3) ledger_inv_def)
    show ?thesis
      by (rule ledger_okI [OF ok item l _ _ items]) (use f in \<open>simp_all add: keeps_row_def\<close>)
  qed
qed

lemma item_event_single_booked:
  assumes "applyItemEvent env item event s = Inr t" and b: "single_booked env (st_reservations s)"
  shows "single_booked env (st_reservations t)"
proof -
  have "single_booked env (st_reservations u)"
    if "item_branch env item event s ty = Inr (u, w)" for u w ty
  proof (cases ty)
    case EventPreparationStarted
    with that b show ?thesis
      by (auto simp: preparation_started_def res_simps split: if_splits
          dest!: sync_single_booked update_equipment_frame)
  next
    case EventPreparationRevoked
    with that b clear_frame show ?thesis
      by (auto simp: preparation_revoked_def res_simps clearImplPlan_def split: if_splits dest!: delete_frame)
  next
    case EventEquipmentReturned
    with that b show ?thesis
      by (auto simp: equipment_returned_def res_simps split: if_splits dest: mark_single_booked)
  next
    case EventDeviationReviewed
    with that b show ?thesis
      by (auto simp: deviation_reviewed_def res_simps Let_def split: if_splits option.splits
          dest!: delete_frame)
  qed (use that b in \<open>auto simp: res_simps Let_def team_assigned_def team_revoked_def
    decomposition_returned_def execution_assigned_def execution_revoked_def
    implementation_planned_def upsertImplPlan_def plan_revoked_def clearImplPlan_def special_reviewed_def
    rollback_approved_def rollback_withdrawn_def correction_approved_def field_started_def
    field_recorded_def field_checked_in_def field_completed_def deviation_reported_def report_updated_def
    split: if_splits dest!: persistEvidence_frame
      ledger_frames [THEN same_but_revisions_fields(5)]\<close>)
  with assms(1) show ?thesis by (cases rule: applyItemEventE) auto
qed

end
