(* ===== verification/EventRecord.thy ===== *)
theory EventRecord
  imports Store GoText
begin

text \<open>
  What the transaction of an event records besides the change itself (\<open>createEvent\<close> of
  \<open>infrastructure/mysql/delivery_events.go\<close>, \<open>delivery_effects.go\<close>, \<open>delivery_notification.go\<close>,
  \<open>application/delivery_effects.go\<close> and \<open>delivery_support.go\<close>): the event, the snapshot of the
  rules it triggers as a job of the effects outbox, the audit entry and the notification.
\<close>

section \<open>Warning rules\<close>

definition warningCheckQualification :: string where
  "warningCheckQualification = [CHR 0xE8, CHR 0xB5, CHR 0x84, CHR 0xE8, CHR 0xB4, CHR 0xA8, CHR 0xE8, CHR 0x83, CHR 0xBD, CHR 0xE5, CHR 0x8A, CHR 0x9B, CHR 0xE5, CHR 0x86, CHR 0xB2, CHR 0xE7, CHR 0xAA, CHR 0x81]"

definition warningCheckCapability :: string where
  "warningCheckCapability = [CHR 0xE8, CHR 0x83, CHR 0xBD, CHR 0xE5, CHR 0x8A, CHR 0x9B, CHR 0xE7, CHR 0xBC, CHR 0xBA, CHR 0xE5, CHR 0xA4, CHR 0xB1]"

definition warningCheckOther :: string where
  "warningCheckOther = [CHR 0xE5, CHR 0x85, CHR 0xB6, CHR 0xE4, CHR 0xBB, CHR 0x96, CHR 0xE5, CHR 0x86, CHR 0xB2, CHR 0xE7, CHR 0xAA, CHR 0x81]"

definition conflictKind :: "string \<Rightarrow> string" where
  "conflictKind conflict =
     (if str_contains conflict [CHR 0xE8, CHR 0xB5, CHR 0x84, CHR 0xE8, CHR 0xB4, CHR 0xA8]
      then warningCheckQualification
      else if str_contains conflict [CHR 0xE7, CHR 0xBC, CHR 0xBA, CHR 0xE5, CHR 0xB0, CHR 0x91, CHR 0xE8, CHR 0x83, CHR 0xBD, CHR 0xE5, CHR 0x8A, CHR 0x9B]
      then warningCheckCapability else warningCheckOther)"

definition warningRuleMatches :: "rule \<Rightarrow> string \<Rightarrow> bool" where
  "warningRuleMatches rule conflict \<longleftrightarrow>
     (let checkType = trim_space (ru_check_type rule)
      in checkType = [] \<or> str_contains (conflictKind conflict) checkType \<or>
         str_contains conflict checkType)"

text \<open>The first run of digits of the threshold text; anything but a positive int reads as 1.\<close>

definition is_digit :: "char \<Rightarrow> bool" where
  "is_digit c \<longleftrightarrow> digit_val c \<noteq> None"

definition first_digits :: "string \<Rightarrow> string" where
  "first_digits s = takeWhile is_digit (dropWhile (\<lambda>c. \<not> is_digit c) s)"

definition warningThreshold :: "rule \<Rightarrow> nat" where
  "warningThreshold rule =
     (let raw = trim_space (ru_threshold rule)
      in if raw = [] then 1
         else case Atoi (first_digits raw) of
           None \<Rightarrow> 1 | Some value \<Rightarrow> if value < 1 then 1 else nat value)"

text \<open>The loop over the rules: names, matched conflicts and the least threshold so far (0 for none).\<close>

fun warning_scan ::
  "string list \<Rightarrow> rule list \<Rightarrow> string list \<times> string list \<times> nat \<Rightarrow> string list \<times> string list \<times> nat" where
  "warning_scan conflicts [] acc = acc"
| "warning_scan conflicts (rule # rules) (names, matched, threshold) =
     (if \<not> ru_enabled rule then warning_scan conflicts rules (names, matched, threshold)
      else let hits = filter (warningRuleMatches rule) conflicts;
               required = warningThreshold rule
        in if length hits < required then warning_scan conflicts rules (names, matched, threshold)
           else warning_scan conflicts rules (names @ [ru_name rule], matched @ hits,
                  if threshold = 0 \<or> required < threshold then required else threshold))"

definition matchingWarningPayload :: "rule list \<Rightarrow> string list \<Rightarrow> warning option" where
  "matchingWarningPayload rules conflicts =
     (let (names, matched, threshold) = warning_scan conflicts rules ([], [], 0)
      in if names = [] then None
         else Some \<lparr>wn_conflicts = uniq matched, wn_rules = names, wn_threshold = threshold\<rparr>)"

text \<open>A list of strings in a payload, trimmed and without blanks.\<close>

definition payloadTextList :: "payload \<Rightarrow> string \<Rightarrow> string list" where
  "payloadTextList payload key =
     (case map_of payload key of
        Some v \<Rightarrow> filter (\<lambda>t. t \<noteq> []) (map trim_space
          (case json_list json_str v of Some ss \<Rightarrow> ss | None \<Rightarrow> []))
      | None \<Rightarrow> [])"

section \<open>The snapshot of effects\<close>

definition validateCatalogRole :: "env \<Rightarrow> string \<Rightarrow> bool" where
  "validateCatalogRole env role \<longleftrightarrow> List.member (env_roles env) role"

definition derived_event :: "event_type \<Rightarrow> bool" where
  "derived_event ty \<longleftrightarrow> ty = EventAutomationTriggered \<or> ty = EventWarningTriggered"

definition SnapshotDeliveryEffects :: "env \<Rightarrow> delivery_event \<Rightarrow> rule list \<Rightarrow> rule list \<Rightarrow> effects" where
  "SnapshotDeliveryEffects env event automations warnings =
     (let none = \<lparr>ef_id = env_ulid env, ef_event = event, ef_targets = [], ef_warning = None,
                  ef_role_notification = de_role_notification event\<rparr>
      in if derived_event (de_type event) then none
         else none\<lparr>ef_targets := uniq (filter (validateCatalogRole env) (map (\<lambda>r. trim_space (ru_target r))
                     (filter (\<lambda>r. ru_enabled r \<and> trim_space (ru_trigger r) = event_name (de_type event))
                        automations))),
                   ef_warning := matchingWarningPayload warnings
                     (payloadTextList (de_payload event) ''conflicts'')\<rparr>)"

text \<open>\<open>TRIM\<close> of SQL drops blanks only.\<close>

definition sql_trim :: "string \<Rightarrow> string" where
  "sql_trim s = rev (dropWhile (\<lambda>c. c = CHR '' '') (rev (dropWhile (\<lambda>c. c = CHR '' '') s)))"

definition enabled_rules :: "string \<Rightarrow> rule list \<Rightarrow> rule list" where
  "enabled_rules tenant rules = sort_key ru_id (filter (\<lambda>r. ru_tenant r = tenant \<and> ru_enabled r) rules)"

definition new_job :: "delivery_event \<Rightarrow> effects \<Rightarrow> nat \<Rightarrow> effects_row" where
  "new_job event effects i =
     \<lparr>ex_id = i, ex_tenant = de_tenant event, ex_source = de_id event, ex_effects = Some effects,
      ex_status = ''PENDING'', ex_retry_count = 0, ex_next_retry_at = None, ex_locked_by = [],
      ex_locked_until = None, ex_error = [], ex_created_at = de_created_at event,
      ex_completed_at = None\<rparr>"

definition createDeliveryEffects :: "env \<Rightarrow> delivery_event \<Rightarrow> store \<Rightarrow> app_error + store" where
  "createDeliveryEffects env event s =
     (if derived_event (de_type event) then Inr s
      else let automations = filter (\<lambda>r. sql_trim (ru_trigger r) = event_name (de_type event))
                 (enabled_rules (de_tenant event) (st_automations s));
               warnings = (if de_type event = EventExecutionTeamAssigned
                 then enabled_rules (de_tenant event) (st_warning_rules s) else []);
               effects = SnapshotDeliveryEffects env event automations warnings
        in if ef_targets effects = [] \<and> ef_warning effects = None \<and> ef_role_notification effects = None
           then Inr s
           else if list_ex (\<lambda>x. ex_tenant x = de_tenant event \<and> ex_source x = de_id event) (st_effects s)
           then Inl ErrStorage
           else Inr (s\<lparr>st_effects := st_effects s @ [new_job event effects (st_next_effects s)],
                  st_next_effects := Suc (st_next_effects s)\<rparr>))"

section \<open>The event and its audit entry\<close>

definition auditActorType :: "event_type \<Rightarrow> string" where
  "auditActorType ty = (if derived_event ty then ''SYSTEM'' else ''USER'')"

definition actorPointer :: "string \<Rightarrow> string option" where
  "actorPointer value = (if blank value then None else Some value)"

definition event_record :: "delivery_event \<Rightarrow> event_row" where
  "event_record event =
     \<lparr>er_id = de_id event, er_tenant = de_tenant event, er_project = de_project event,
      er_item = de_item event, er_type = de_type event, er_actor = de_actor event,
      er_operation = (if de_operation event = [] then None else Some (de_operation event)),
      er_captured_at = de_captured_at event, er_payload = de_payload event,
      er_created_at = de_created_at event\<rparr>"

text \<open>The keys of the event table: the identifier, and the operation of a device where there is one.\<close>

definition event_duplicate :: "event_row \<Rightarrow> event_row \<Rightarrow> bool" where
  "event_duplicate r e \<longleftrightarrow> er_id e = er_id r \<or>
     er_operation r \<noteq> None \<and> er_operation e = er_operation r \<and> er_tenant e = er_tenant r \<and>
     er_item e = er_item r \<and> er_actor e = er_actor r"

definition audit_entry :: "delivery_event \<Rightarrow> audit_row" where
  "audit_entry event =
     \<lparr>au_tenant = de_tenant event, au_actor = actorPointer (de_actor event),
      au_actor_type = (if raw_string (de_payload event) ''origin_kind'' = ''IMPORTED'' then ''SYSTEM''
                       else auditActorType (de_type event)),
      au_action = ''PROJECT_MANAGEMENT:'' @ event_name (de_type event),
      au_resource_type = ''project'', au_resource = de_project event, au_result = ''SUCCESS'',
      au_delivery_status = ''pending''\<rparr>"

definition createEvent :: "env \<Rightarrow> delivery_event \<Rightarrow> store \<Rightarrow> app_error + store" where
  "createEvent env event s =
     (if list_ex (event_duplicate (event_record event)) (st_events s) then Inl ErrStorage
      else rbind (createDeliveryEffects env event (s\<lparr>st_events := st_events s @ [event_record event]\<rparr>))
        (\<lambda>s. Inr (s\<lparr>st_audit := st_audit s @ [audit_entry event]\<rparr>)))"

section \<open>The notification\<close>

definition outbox_duplicate :: "outbox_row \<Rightarrow> outbox_row \<Rightarrow> bool" where
  "outbox_duplicate r q \<longleftrightarrow> ob_event_id q = ob_event_id r \<or>
     ob_tenant q = ob_tenant r \<and> ob_key q = ob_key r"

definition new_outbox ::
  "string \<Rightarrow> string \<Rightarrow> string \<Rightarrow> string \<Rightarrow> string \<Rightarrow> string \<Rightarrow> notification \<Rightarrow> instant \<Rightarrow> outbox_row" where
  "new_outbox event_id tenant key ty aggregate_type aggregate message now =
     \<lparr>ob_id = 0, ob_event_id = event_id, ob_tenant = tenant, ob_key = key, ob_event_type = ty,
      ob_aggregate_type = aggregate_type, ob_aggregate = aggregate, ob_message = message,
      ob_status = ''PENDING'', ob_retry_count = 0, ob_next_retry_at = None, ob_locked_by = [],
      ob_locked_until = None, ob_error = [], ob_created_at = now, ob_sent_at = None\<rparr>"

definition append_outbox :: "outbox_row \<Rightarrow> store \<Rightarrow> store" where
  "append_outbox r s =
     s\<lparr>st_outbox := st_outbox s @ [r\<lparr>ob_id := st_next_outbox s\<rparr>],
       st_next_outbox := Suc (st_next_outbox s)\<rparr>"

definition notification_key :: "string \<Rightarrow> notification \<Rightarrow> string" where
  "notification_key fallback message =
     (let key = trim_space (nt_key message) in if key = [] then fallback else key)"

definition createNotificationOutbox :: "delivery_event \<Rightarrow> store \<Rightarrow> app_error + store" where
  "createNotificationOutbox event s =
     (case de_notification event of None \<Rightarrow> Inr s
      | Some message \<Rightarrow>
          if nt_recipients message = [] then Inr s
          else let r = new_outbox (de_id event) (de_tenant event) (notification_key (de_id event) message)
                     (event_name (de_type event)) ''service_item'' (de_item event) message
                     (de_created_at event)
            in if list_ex (outbox_duplicate r) (st_outbox s) then Inl ErrStorage
               else Inr (append_outbox r s))"

end
