(* ===== verification/Delivery.thy ===== *)
theory Delivery
  imports ItemEvents EventRecord
begin

text \<open>
  The transaction of a delivery event (\<open>ApplyDeliveryEvent\<close> of \<open>infrastructure/mysql/delivery.go\<close>,
  \<open>applyProjectEvent\<close> and \<open>syncProjectStatusColumn\<close> of \<open>delivery_events.go\<close>): the replay of an
  offline operation, the event on the item, the event on the project, the derived status of the
  project, the record of the event. An error of any step rolls all of it back.
\<close>

section \<open>Identifiers of service items\<close>

definition serviceItemIDFor :: "string \<Rightarrow> int \<Rightarrow> string" where
  "serviceItemIDFor projectID sequence =
     ''SI-'' @ trim_prefix ''PJ-'' projectID @ ''-'' @ show_int3 sequence"

definition serviceItemSequence :: "string \<Rightarrow> int" where
  "serviceItemSequence itemID =
     (case Atoi (last (split_on (trim_space itemID) ''-'')) of
        None \<Rightarrow> 0 | Some sequence \<Rightarrow> if sequence < 0 then 0 else sequence)"

section \<open>Events on the project\<close>

definition project_item :: "project_row \<Rightarrow> service_item \<Rightarrow> bool" where
  "project_item project i \<longleftrightarrow>
     it_tenant i = pj_tenant project \<and> it_project i = pj_id project \<and> item_live i"

definition codes_json :: "string list \<Rightarrow> json" where
  "codes_json codes = (if codes = [] then JNull else JStrs codes)"

definition item_of_spec :: "project_row \<Rightarrow> delivery_event \<Rightarrow> string \<Rightarrow> item_spec \<Rightarrow> service_item" where
  "item_of_spec project event i sp =
     \<lparr>it_id = i, it_tenant = pj_tenant project, it_project = pj_id project,
      it_source_service = sp_source_service sp, it_batch = sp_batch sp, it_site = sp_site sp,
      it_site_code = sp_site_code sp, it_category = sp_category sp,
      it_requirement = sp_requirement sp, it_system = sp_system sp,
      it_system_level = sp_system_level sp, it_system_standard = sp_system_standard sp,
      it_special = sp_special sp, it_test_mode = sp_test_mode sp, it_team_lead = [],
      it_manager = [], it_engineers = JNull, it_equipment = JNull,
      it_codes = codes_json (sp_codes sp), it_planned_start = None, it_planned_end = None,
      it_conflict = sp_conflict sp, it_tech_status = sp_tech_status sp, it_tech_at = None,
      it_tech_by = [], it_tech_comment = [], it_report_status = [], it_report_at = None,
      it_report_by = [], it_report_revision = 0, it_prepared_by = [], it_reviewed_by = [],
      it_issued_by = [], it_status = sp_status sp,
      it_status_changed_at = Some (de_created_at event), it_version = 1,
      it_created_at = de_created_at event, it_updated_at = de_created_at event,
      it_updated_by = de_actor event, it_archived_at = None\<rparr>"

text \<open>
  The insertion loop: a blank identifier is completed from the greatest sequence of the old items
  and the position in the list; an identifier in use, archived rows included, is refused.
\<close>

fun insert_items ::
  "project_row \<Rightarrow> delivery_event \<Rightarrow> int \<Rightarrow> nat \<Rightarrow> item_spec list \<Rightarrow> service_item list \<Rightarrow>
     app_error + service_item list" where
  "insert_items project event maxSequence index [] rows = Inr rows"
| "insert_items project event maxSequence index (sp # sps) rows =
     (let i = (if blank (sp_id sp)
               then serviceItemIDFor (pj_id project) (wrap_int (maxSequence + int index + 1))
               else sp_id sp)
      in if list_ex (\<lambda>r. it_id r = i) rows then Inl ErrStorage
         else insert_items project event maxSequence (Suc index) sps
                (rows @ [item_of_spec project event i sp]))"

definition max_sequence :: "service_item list \<Rightarrow> int" where
  "max_sequence items = fold (\<lambda>i m. max (serviceItemSequence (it_id i)) m) items 0"

definition adjust_decomposition ::
  "env \<Rightarrow> project_row \<Rightarrow> delivery_event \<Rightarrow> store \<Rightarrow> app_error + (store \<times> nat)" where
  "adjust_decomposition env project event s =
     (if 0 < count_where (\<lambda>i. project_item project i \<and>
               it_status i \<noteq> ServiceItemStatusPendingConfirm \<and>
               it_status i \<noteq> ServiceItemStatusPendingReview) (st_items s)
      then Inl ErrValidation
      else case json_list decode_item_spec (jsonValue (de_payload event) ''service_items'') of
        None \<Rightarrow> Inl ErrValidation
      | Some specs \<Rightarrow>
          if specs = [] then Inl ErrValidation
          else rbind (insert_items project event
                 (max_sequence (filter (project_item project) (st_items s))) 0 specs
                 (update_where (project_item project)
                    (\<lambda>i. i\<lparr>it_archived_at := Some (env_clock env)\<rparr>) (st_items s)))
               (\<lambda>rows. Inr (s\<lparr>st_items := rows\<rparr>, length specs)))"

definition same_project_version :: "project_row \<Rightarrow> project_row \<Rightarrow> bool" where
  "same_project_version project p \<longleftrightarrow>
     project_key (pj_tenant project) (pj_id project) p \<and> pj_version p = pj_version project"

definition write_project ::
  "project_row \<Rightarrow> delivery_event \<Rightarrow> (project_row \<Rightarrow> project_row) \<Rightarrow> store \<Rightarrow> app_error + store" where
  "write_project project event f s =
     (if count_where (same_project_version project) (st_projects s) \<noteq> 1 then Inl ErrConflict
      else Inr (s\<lparr>st_projects := update_where (same_project_version project)
             (\<lambda>p. (f p)\<lparr>pj_updated_at := de_created_at event, pj_version := pj_version p + 1\<rparr>)
             (st_projects s)\<rparr>))"

definition supplement_required :: "project_row \<Rightarrow> project_row" where
  "supplement_required p =
     p\<lparr>pj_supplement := ''REQUIRED'', pj_status := ProjectStatusSupplementRequired\<rparr>"

definition applyProjectEvent ::
  "env \<Rightarrow> project_row \<Rightarrow> delivery_event \<Rightarrow> store \<Rightarrow> app_error + store" where
  "applyProjectEvent env project event s =
     rbind (if pj_source_kind project = ''NATIVE''
            then if de_type event = EventScopeChangeDetected \<or>
                    de_type event = EventDecompositionAdjusted \<or>
                    de_type event = EventSupplementClosed then Inl ErrPrecondition
                 else ensureNoPendingNativeScope s project
            else Inr ()) (\<lambda>_.
       if de_type event = EventScopeChangeDetected
       then write_project project event supplement_required s
       else if de_type event = EventDecompositionAdjusted
       then rbind (adjust_decomposition env project event s) (\<lambda>(s, n).
              write_project project event (\<lambda>p. (supplement_required p)\<lparr>pj_services := n\<rparr>) s)
       else if de_type event = EventSupplementClosed
       then if \<not> equal_fold (trim_space (pj_supplement project)) ''REQUIRED'' then Inl ErrConflict
            else write_project project event (\<lambda>p. p\<lparr>pj_supplement := ''NONE''\<rparr>) s
       else Inr s)"

section \<open>The derived status of the project\<close>

definition status_items :: "store \<Rightarrow> string \<Rightarrow> string \<Rightarrow> status_item list" where
  "status_items s tenant projectID =
     map (\<lambda>i. \<lparr>si_status = it_status i, si_report = it_report_status i\<rparr>)
       (filter (\<lambda>i. it_tenant i = tenant \<and> it_project i = projectID \<and> item_live i) (st_items s))"

definition syncProjectStatusColumn :: "env \<Rightarrow> string \<Rightarrow> string \<Rightarrow> store \<Rightarrow> app_error + store" where
  "syncProjectStatusColumn env tenant projectID s =
     (case find_project s tenant projectID of None \<Rightarrow> Inl ErrStorage
      | Some project \<Rightarrow>
          let items = status_items s tenant projectID
          in Inr (s\<lparr>st_projects := update_where (project_key tenant projectID)
               (\<lambda>p. p\<lparr>pj_status := DeriveProjectStatus items (pj_supplement project) (pj_status project),
                      pj_progress := DeriveProjectProgress items,
                      pj_updated_at := env_clock env\<rparr>) (st_projects s)\<rparr>))"

section \<open>The transaction\<close>

text \<open>
  \<open>JSON_UNQUOTE(JSON_EXTRACT(payload, '$.key')) = v\<close> where the member is a string, which is what
  the events read that way hold.
\<close>

definition has_text :: "payload \<Rightarrow> string \<Rightarrow> string \<Rightarrow> bool" where
  "has_text p key v \<longleftrightarrow> map_of p key = Some (JStr v)"

definition first_event :: "(event_row \<Rightarrow> bool) \<Rightarrow> store \<Rightarrow> event_row option" where
  "first_event P s =
     fold (\<lambda>e best. case best of None \<Rightarrow> Some e
             | Some b \<Rightarrow> if str_less (er_id e) (er_id b) then Some e else best)
       (filter P (st_events s)) None"

definition checkOrdinarySupplementImport :: "store \<Rightarrow> string \<Rightarrow> string \<Rightarrow> string \<Rightarrow> app_error + unit" where
  "checkOrdinarySupplementImport s tenant i project =
     rguard (count_where (\<lambda>b. ib_tenant b = tenant \<and> ib_source b = ''contract_management'' \<and>
        ib_contract b = i \<and> ib_project b \<noteq> [] \<and> ib_project b \<noteq> project) (st_bindings s) = 0)
       ErrImportConflict"

definition supplement_check :: "delivery_event \<Rightarrow> store \<Rightarrow> app_error + unit" where
  "supplement_check event s =
     (let i = stringValue (de_payload event) ''supplement_contract_id''
      in if de_type event = EventDecompositionAdjusted \<and> i \<noteq> []
         then checkOrdinarySupplementImport s (de_tenant event) i (de_project event) else Inr ())"

text \<open>A review is directed to the project and the item of the deviation it names.\<close>

definition direct_review :: "delivery_event \<Rightarrow> store \<Rightarrow> app_error + delivery_event" where
  "direct_review event s =
     (if de_type event = EventDeviationReviewed
      then let deviation = stringValue (de_payload event) ''deviation_id''
        in case first_event (\<lambda>e. er_tenant e = de_tenant event \<and> er_type e = EventDeviationReported \<and>
                  has_text (er_payload e) ''deviation_id'' deviation) s of
             None \<Rightarrow> Inl ErrNotFound
           | Some reported \<Rightarrow>
               Inr (event\<lparr>de_project := er_project reported, de_item := er_item reported\<rparr>)
      else Inr event)"

text \<open>An operation of an offline device is applied once.\<close>

definition replay_check :: "delivery_event \<Rightarrow> store \<Rightarrow> app_error + unit" where
  "replay_check event s =
     (if de_operation event = [] then Inr ()
      else case find (\<lambda>e. er_tenant e = de_tenant event \<and> er_item e = de_item event \<and>
                 er_actor e = de_actor event \<and> er_operation e = Some (de_operation event))
               (st_events s) of
        None \<Rightarrow> Inr ()
      | Some existing \<Rightarrow>
          if er_type existing = de_type event \<and>
             jsonSemanticallyEqual (er_payload existing) (de_payload event)
          then Inl ErrAlreadyApplied else Inl ErrConflict)"

definition item_part :: "env \<Rightarrow> delivery_event \<Rightarrow> store \<Rightarrow> app_error + (delivery_event \<times> store)" where
  "item_part env event s =
     (if de_item event = [] then Inr (event, s)
      else case find_item s (de_tenant event) (de_item event) of
        None \<Rightarrow> Inl ErrNotFound
      | Some item \<Rightarrow>
          let event = event\<lparr>de_project := it_project item\<rparr>
          in rbind (replay_check event s) (\<lambda>_.
             rbind (applyItemEvent env item event s) (\<lambda>s.
               if de_type event \<noteq> EventExecutionTeamAssigned then Inr (event, s)
               else case find_item s (it_tenant item) (it_id item) of
                 None \<Rightarrow> Inl ErrStorage
               | Some item \<Rightarrow>
                   rbind (ensureEmbeddedPenetrationPackage env item (de_actor event)
                       (de_id event @ ''-penetration-package'') (de_created_at event) s)
                     (\<lambda>s. Inr (event, s)))))"

definition project_part :: "env \<Rightarrow> delivery_event \<Rightarrow> store \<Rightarrow> app_error + store" where
  "project_part env event s =
     (if de_project event = [] then Inr s
      else case find_project s (de_tenant event) (de_project event) of
        None \<Rightarrow> Inl ErrNotFound
      | Some project \<Rightarrow>
          rbind (applyProjectEvent env project event s)
            (syncProjectStatusColumn env (de_tenant event) (de_project event)))"

definition ApplyDeliveryEvent :: "env \<Rightarrow> delivery_event \<Rightarrow> store \<Rightarrow> app_error + store" where
  "ApplyDeliveryEvent env event s =
     rbind (supplement_check event s) (\<lambda>_.
     rbind (direct_review event s) (\<lambda>event.
     rbind (item_part env event s) (\<lambda>(event, s).
     rbind (project_part env event s) (\<lambda>s.
     rbind (createEvent env event s) (\<lambda>s.
       createNotificationOutbox event s)))))"

section \<open>Frames of the transaction\<close>

definition record_frame :: "store \<Rightarrow> store \<Rightarrow> bool" where
  "record_frame s t \<longleftrightarrow>
     t = s\<lparr>st_events := st_events t, st_effects := st_effects t, st_next_effects := st_next_effects t,
           st_audit := st_audit t, st_outbox := st_outbox t, st_next_outbox := st_next_outbox t\<rparr>"

lemma record_frame_fields:
  assumes "record_frame s t"
  shows "st_items t = st_items s" "st_projects t = st_projects s" "st_revisions t = st_revisions s"
    "st_next_revision t = st_next_revision s" "st_reservations t = st_reservations s"
    "st_packages t = st_packages s" "st_package_events t = st_package_events s"
    "st_plans t = st_plans s" "st_capabilities t = st_capabilities s" "st_evidence t = st_evidence s"
  using assms unfolding record_frame_def by (cases s; cases t; simp)+

lemma record_frame_trans [trans]: "record_frame s t \<Longrightarrow> record_frame t u \<Longrightarrow> record_frame s u"
  unfolding record_frame_def by (cases s; cases t; cases u) simp

lemma createEvent_frame:
  assumes "createEvent env event s = Inr t"
  shows "record_frame s t" "st_events t = st_events s @ [event_record event]"
  using assms by (auto simp: createEvent_def createDeliveryEffects_def res_simps Let_def
      record_frame_def split: if_splits)

lemma notification_frame:
  assumes "createNotificationOutbox event s = Inr t"
  shows "record_frame s t" "st_events t = st_events s"
  using assms by (auto simp: createNotificationOutbox_def append_outbox_def Let_def record_frame_def
      split: option.splits if_splits)

lemma ApplyDeliveryEventE:
  assumes "ApplyDeliveryEvent env event s = Inr t"
  obtains e1 e2 s1 s2 where "direct_review event s = Inr e1" "item_part env e1 s = Inr (e2, s1)"
    "project_part env e2 s1 = Inr s2" "record_frame s2 t"
    "st_events t = st_events s2 @ [event_record e2]"
proof -
  from assms obtain e1 e2 s1 s2 s3 where "direct_review event s = Inr e1"
    "item_part env e1 s = Inr (e2, s1)" "project_part env e2 s1 = Inr s2"
    and r: "createEvent env e2 s2 = Inr s3" "createNotificationOutbox e2 s3 = Inr t"
    by (auto simp: ApplyDeliveryEvent_def res_simps)
  moreover have "record_frame s2 t"
    using createEvent_frame(1) [OF r(1)] notification_frame(1) [OF r(2)] by (rule record_frame_trans)
  moreover have "st_events t = st_events s2 @ [event_record e2]"
    using createEvent_frame(2) [OF r(1)] notification_frame(2) [OF r(2)] by simp
  ultimately show ?thesis using that by blast
qed

text \<open>The embedded package of an assigned item.\<close>

lemma ensure_package_frame:
  assumes "ensureEmbeddedPenetrationPackage env item actor key now s = Inr t"
  shows "\<exists>ps es. t = s\<lparr>st_packages := ps, st_package_events := es\<rparr>"
proof -
  have same: "\<exists>ps es. u = u\<lparr>st_packages := ps, st_package_events := es\<rparr>" for u :: store
    by (rule exI [of _ "st_packages u"], rule exI [of _ "st_package_events u"]) simp
  then show ?thesis
    using assms by (auto simp: ensureEmbeddedPenetrationPackage_def createPenetrationEvent_def Let_def
        split: if_splits)
qed

lemma ensure_package_inv:
  assumes "ensureEmbeddedPenetrationPackage env item actor key now s = Inr t" and "package_inv s"
  shows "package_inv t"
proof (cases "t = s")
  case False
  with assms(1) have "\<not> package_duplicate (new_package env item actor now) s"
    and "st_packages t = st_packages s @ [new_package env item actor now]"
    by (auto simp: ensureEmbeddedPenetrationPackage_def createPenetrationEvent_def Let_def
        split: if_splits)
  with assms(2) show ?thesis
    by (auto simp: package_inv_def package_duplicate_def list_ex_iff package_key_def new_package_ok)
qed (use assms in simp)

text \<open>What the part on the item does.\<close>

lemma item_partE:
  assumes "item_part env e s = Inr (e', t)"
  obtains "de_item e = []" "e' = e" "t = s"
  | item u where "de_item e \<noteq> []" "find_item s (de_tenant e) (de_item e) = Some item"
      "e' = e\<lparr>de_project := it_project item\<rparr>" "replay_check e' s = Inr ()"
      "applyItemEvent env item e' s = Inr u"
      "t = u \<or> (\<exists>i. ensureEmbeddedPenetrationPackage env i (de_actor e)
          (de_id e @ ''-penetration-package'') (de_created_at e) u = Inr t)"
  using assms by (auto simp: item_part_def Let_def res_simps split: if_splits option.splits)


lemma ensure_package_fields:
  assumes "ensureEmbeddedPenetrationPackage env item actor key now s = Inr t"
  shows "st_items t = st_items s" "st_revisions t = st_revisions s"
    "st_next_revision t = st_next_revision s" "st_reservations t = st_reservations s"
    "st_projects t = st_projects s" "st_events t = st_events s"
  using ensure_package_frame [OF assms] by auto

lemma item_part_ledger:
  assumes "item_part env e s = Inr (e', t)" and "ledger_ok s"
  shows "ledger_ok t"
  using assms(1)
proof (cases rule: item_partE)
  case (2 item u)
  note i = find_item_SomeD [OF 2(2)]
  have "ledger_ok u"
    by (rule item_event_ledger_ok [OF 2(5) assms(2)]) (use 2(2) i in simp)
  with 2(6) ensure_package_fields show ?thesis
    by (auto simp: ledger_ok_def ledger_inv_def)
qed (use assms in simp)

lemma item_part_single_booked:
  assumes "item_part env e s = Inr (e', t)" and "single_booked env (st_reservations s)"
  shows "single_booked env (st_reservations t)"
  using assms(1)
proof (cases rule: item_partE)
  case (2 item u)
  with item_event_single_booked [OF 2(5) assms(2)] ensure_package_fields(4) show ?thesis by auto
qed (use assms in simp)

lemma applyItemEvent_fields:
  assumes "applyItemEvent env item event s = Inr t"
  shows "st_packages t = st_packages s" "st_projects t = st_projects s" "st_events t = st_events s"
    "st_package_events t = st_package_events s"
  using assms by (cases rule: applyItemEventE; simp add: branch_frame_fields [OF item_branch_frame])+

lemma item_part_packages:
  assumes "item_part env e s = Inr (e', t)" and "package_inv s"
  shows "package_inv t"
  using assms(1)
proof (cases rule: item_partE)
  case (2 item u)
  have "package_inv u"
    using assms(2) applyItemEvent_fields(1) [OF 2(5)] by (simp add: package_inv_def)
  with 2(6) ensure_package_inv show ?thesis by auto
qed (use assms in simp)

text \<open>The part on the project writes projects and, for a decomposition, items.\<close>

lemma write_project_frame:
  "write_project project event f s = Inr t \<Longrightarrow> \<exists>ps. t = s\<lparr>st_projects := ps\<rparr>"
  by (auto simp: write_project_def split: if_splits)

lemma adjust_frame:
  "adjust_decomposition env project event s = Inr (t, n) \<Longrightarrow> \<exists>is. t = s\<lparr>st_items := is\<rparr>"
  by (auto simp: adjust_decomposition_def res_simps split: if_splits option.splits)

lemma project_event_frame:
  assumes "applyProjectEvent env project event s = Inr t"
  shows "\<exists>is ps. t = s\<lparr>st_items := is, st_projects := ps\<rparr>"
proof -
  have items: "\<exists>is ps. s\<lparr>st_projects := p\<rparr> = s\<lparr>st_items := is, st_projects := ps\<rparr>" for p
    by (rule exI [of _ "st_items s"], rule exI [of _ p]) simp
  have "\<exists>is ps. s = s\<lparr>st_items := is, st_projects := ps\<rparr>"
    using items [of "st_projects s"] by simp
  with assms items show ?thesis
    by (auto simp: applyProjectEvent_def res_simps split: if_splits
        dest!: write_project_frame adjust_frame)
qed

lemma sync_frame_projects:
  "syncProjectStatusColumn env tenant p s = Inr t \<Longrightarrow> \<exists>ps. t = s\<lparr>st_projects := ps\<rparr>"
  by (auto simp: syncProjectStatusColumn_def Let_def split: option.splits)

lemma project_part_frame:
  assumes "project_part env event s = Inr t"
  shows "\<exists>is ps. t = s\<lparr>st_items := is, st_projects := ps\<rparr>"
proof (cases "de_project event = []")
  case True
  with assms have "t = s\<lparr>st_items := st_items s, st_projects := st_projects s\<rparr>"
    by (simp add: project_part_def)
  then show ?thesis by blast
next
  case False
  with assms obtain project u where "applyProjectEvent env project event s = Inr u"
    and "syncProjectStatusColumn env (de_tenant event) (de_project event) u = Inr t"
    by (auto simp: project_part_def res_simps split: option.splits)
  then obtain "is" ps qs where "u = s\<lparr>st_items := is, st_projects := ps\<rparr>" "t = u\<lparr>st_projects := qs\<rparr>"
    using project_event_frame sync_frame_projects by blast
  then have "t = s\<lparr>st_items := is, st_projects := qs\<rparr>" by simp
  then show ?thesis by blast
qed

lemma project_part_fields:
  assumes "project_part env event s = Inr t"
  shows "st_revisions t = st_revisions s" "st_next_revision t = st_next_revision s"
    "st_reservations t = st_reservations s" "st_packages t = st_packages s"
    "st_package_events t = st_package_events s" "st_events t = st_events s"
  using project_part_frame [OF assms] by auto


section \<open>A decomposition and the ledger\<close>

text \<open>
  What the application sends for a decomposition: every item in one of the two statuses before
  the allocation.
\<close>

definition decomposition_ok :: "delivery_event \<Rightarrow> bool" where
  "decomposition_ok event \<longleftrightarrow>
     (case json_list decode_item_spec (jsonValue (de_payload event) ''service_items'') of None \<Rightarrow> True
      | Some specs \<Rightarrow> list_all (\<lambda>sp. sp_status sp = ServiceItemStatusPendingConfirm \<or>
            sp_status sp = ServiceItemStatusPendingReview) specs)"

definition admissible_event :: "delivery_event \<Rightarrow> bool" where
  "admissible_event event \<longleftrightarrow>
     (de_type event = EventDecompositionAdjusted \<longrightarrow> decomposition_ok event)"

lemma insert_items_Inr:
  "insert_items project event m k sps rows = Inr rows' \<Longrightarrow>
   \<exists>new. rows' = rows @ new \<and> (\<forall>i \<in> set new. \<exists>sp \<in> set sps. \<exists>n. i = item_of_spec project event n sp) \<and>
     (distinct (map it_id rows) \<longrightarrow> distinct (map it_id rows'))"
proof (induction project event m k sps rows rule: insert_items.induct)
  case (2 project event m k sp sps rows)
  define i where "i = (if blank (sp_id sp)
     then serviceItemIDFor (pj_id project) (wrap_int (m + int k + 1)) else sp_id sp)"
  from 2(2) have fresh: "\<not> list_ex (\<lambda>r. it_id r = i) rows"
    and rest: "insert_items project event m (Suc k) sps (rows @ [item_of_spec project event i sp]) = Inr rows'"
    by (simp_all add: i_def [symmetric] Let_def split: if_splits)
  have "it_id (item_of_spec project event i sp) = i" by (simp add: item_of_spec_def)
  with fresh have d: "distinct (map it_id rows) \<longrightarrow>
      distinct (map it_id (rows @ [item_of_spec project event i sp]))"
    by (auto simp: list_ex_iff)
  from 2(1) [OF i_def fresh rest] obtain new where
    "rows' = (rows @ [item_of_spec project event i sp]) @ new"
    "\<forall>i \<in> set new. \<exists>sp \<in> set sps. \<exists>n. i = item_of_spec project event n sp"
    "distinct (map it_id (rows @ [item_of_spec project event i sp])) \<longrightarrow> distinct (map it_id rows')"
    by blast
  with d show ?case by (intro exI [of _ "item_of_spec project event i sp # new"]) auto
qed simp

lemma adjustE:
  assumes "adjust_decomposition env project event s = Inr (t, n)"
  obtains specs new where
    "json_list decode_item_spec (jsonValue (de_payload event) ''service_items'') = Some specs"
    "specs \<noteq> []" "n = length specs"
    "st_items t = update_where (project_item project)
       (\<lambda>i. i\<lparr>it_archived_at := Some (env_clock env)\<rparr>) (st_items s) @ new"
    "\<forall>i \<in> set new. \<exists>sp \<in> set specs. \<exists>k. i = item_of_spec project event k sp"
    "distinct (map it_id (st_items s)) \<longrightarrow> distinct (map it_id (st_items t))"
    "\<forall>i \<in> set (st_items s). project_item project i \<longrightarrow>
       it_status i = ServiceItemStatusPendingConfirm \<or> it_status i = ServiceItemStatusPendingReview"
proof -
  let ?archived = "update_where (project_item project)
       (\<lambda>i. i\<lparr>it_archived_at := Some (env_clock env)\<rparr>) (st_items s)"
  from assms obtain specs rows where
    specs: "json_list decode_item_spec (jsonValue (de_payload event) ''service_items'') = Some specs"
    "specs \<noteq> []" "n = length specs"
    and rows: "insert_items project event
        (max_sequence (filter (project_item project) (st_items s))) 0 specs ?archived = Inr rows"
    and t: "t = s\<lparr>st_items := rows\<rparr>"
    and before: "count_where (\<lambda>i. project_item project i \<and> it_status i \<noteq> ServiceItemStatusPendingConfirm \<and>
               it_status i \<noteq> ServiceItemStatusPendingReview) (st_items s) = 0"
    by (auto simp: adjust_decomposition_def res_simps split: if_splits option.splits)
  have ids: "map it_id ?archived = map it_id (st_items s)" by (rule map_key_update_where) simp
  from insert_items_Inr [OF rows] obtain new where "rows = ?archived @ new"
    "\<forall>i \<in> set new. \<exists>sp \<in> set specs. \<exists>k. i = item_of_spec project event k sp"
    "distinct (map it_id (st_items s)) \<longrightarrow> distinct (map it_id rows)"
    unfolding ids by blast
  with that [OF specs] t before show ?thesis by auto
qed

lemma item_of_spec_fields [simp]:
  "it_id (item_of_spec project event k sp) = k" "it_status (item_of_spec project event k sp) = sp_status sp"
  "it_tenant (item_of_spec project event k sp) = pj_tenant project"
  "it_project (item_of_spec project event k sp) = pj_id project"
  "it_report_status (item_of_spec project event k sp) = []"
  "it_report_revision (item_of_spec project event k sp) = 0"
  "it_archived_at (item_of_spec project event k sp) = None"
  by (simp_all add: item_of_spec_def)

lemma adjust_ledger:
  assumes a: "adjust_decomposition env project event s = Inr (t, n)" and ok: "ledger_ok s"
    and adm: "decomposition_ok event"
  shows "ledger_ok t"
proof -
  from a obtain specs new where
    specs: "json_list decode_item_spec (jsonValue (de_payload event) ''service_items'') = Some specs"
    and items: "st_items t = update_where (project_item project)
       (\<lambda>i. i\<lparr>it_archived_at := Some (env_clock env)\<rparr>) (st_items s) @ new"
    and new: "\<forall>i \<in> set new. \<exists>sp \<in> set specs. \<exists>k. i = item_of_spec project event k sp"
    and d: "distinct (map it_id (st_items s)) \<longrightarrow> distinct (map it_id (st_items t))"
    by (rule adjustE) blast
  have rev: "st_revisions t = st_revisions s" "st_next_revision t = st_next_revision s"
    using adjust_frame [OF a] by auto
  have d: "distinct (map it_id (st_items t))" using ok d by (simp add: ledger_ok_def)
  have old: "\<exists>i' \<in> set (st_items t). it_id i' = it_id i \<and> it_tenant i' = it_tenant i"
    if "i \<in> set (st_items s)" for i
  proof -
    let ?i = "if project_item project i then i\<lparr>it_archived_at := Some (env_clock env)\<rparr> else i"
    have "?i \<in> set (st_items t)" using that by (auto simp: items set_update_where)
    then show ?thesis by (intro bexI [of _ ?i]) simp_all
  qed
  have "item_ledger (st_revisions s) i" if i: "i \<in> set (st_items t)" for i
  proof (cases "i \<in> set new")
    case True
    with new obtain sp k where sp: "sp \<in> set specs" "i = item_of_spec project event k sp" by blast
    then have st: "it_status i \<noteq> ProjectStatusFieldCompleted"
      using adm specs by (auto simp: decomposition_ok_def list_all_iff status_defs)
    have none: "subject_rows (it_tenant i) (it_id i) (st_revisions s) = []"
    proof (rule ccontr)
      assume "subject_rows (it_tenant i) (it_id i) (st_revisions s) \<noteq> []"
      then obtain r where "r \<in> set (st_revisions s)" "rv_subject_type r = SubjectServiceItem"
        "rv_subject r = it_id i"
        by (auto simp: subject_rows_def filter_empty_conv)
      with ok obtain j where "j \<in> set (st_items s)" "it_id j = it_id i" by (auto simp: ledger_ok_def)
      moreover have "map it_id (update_where (project_item project)
          (\<lambda>i. i\<lparr>it_archived_at := Some (env_clock env)\<rparr>) (st_items s)) = map it_id (st_items s)"
        by (rule map_key_update_where) simp
      with d have "set (map it_id (st_items s)) \<inter> it_id ` set new = {}" by (simp add: items)
      ultimately show False using True by force
    qed
    have rank: "ReportPhaseRank [] \<le> 0" by code_simp
    have rs: "it_report_status i = []" by (simp add: sp(2))
    show ?thesis unfolding item_ledger_def none rs using st rank by (simp del: not_le)
  next
    case False
    with i obtain j where j: "j \<in> set (st_items s)"
      and i: "i = (if project_item project j then j\<lparr>it_archived_at := Some (env_clock env)\<rparr> else j)"
      by (auto simp: items set_update_where)
    have "item_ledger (st_revisions s) j" using ok j by (simp add: ledger_ok_def)
    then show ?thesis unfolding i by (rule item_ledger_fields) simp_all
  qed
  moreover have "\<exists>i \<in> set (st_items t). it_tenant i = rv_tenant r \<and> it_id i = rv_subject r"
    if "r \<in> set (st_revisions s)" "rv_subject_type r = SubjectServiceItem" for r
    using ok that old by (fastforce simp: ledger_ok_def)
  ultimately show ?thesis using ok d rev by (simp add: ledger_ok_def ledger_inv_def)
qed


lemma ledger_ok_cong:
  "ledger_ok s \<Longrightarrow> st_items t = st_items s \<Longrightarrow> st_revisions t = st_revisions s \<Longrightarrow>
   st_next_revision t = st_next_revision s \<Longrightarrow> ledger_ok t"
  by (simp add: ledger_ok_def ledger_inv_def)

lemma project_event_ledger:
  assumes a: "applyProjectEvent env project event s = Inr t" and ok: "ledger_ok s"
    and adm: "admissible_event event"
  shows "ledger_ok t"
proof (cases "de_type event = EventDecompositionAdjusted")
  case True
  with a obtain u n where u: "adjust_decomposition env project event s = Inr (u, n)"
    and t: "write_project project event (\<lambda>p. (supplement_required p)\<lparr>pj_services := n\<rparr>) u = Inr t"
    by (auto simp: applyProjectEvent_def res_simps split: if_splits)
  have "decomposition_ok event" using adm True by (simp add: admissible_event_def)
  with u ok have "ledger_ok u" by (rule adjust_ledger)
  with write_project_frame [OF t] show ?thesis by (auto intro: ledger_ok_cong)
next
  case False
  with a have "t = s \<or> (\<exists>f. write_project project event f s = Inr t)"
    by (auto simp: applyProjectEvent_def res_simps split: if_splits)
  with ok show ?thesis by (auto dest!: write_project_frame intro: ledger_ok_cong)
qed

lemma project_part_ledger:
  assumes a: "project_part env event s = Inr t" and ok: "ledger_ok s" and adm: "admissible_event event"
  shows "ledger_ok t"
proof (cases "de_project event = []")
  case False
  with a obtain project u where u: "applyProjectEvent env project event s = Inr u"
    and t: "syncProjectStatusColumn env (de_tenant event) (de_project event) u = Inr t"
    by (auto simp: project_part_def res_simps split: option.splits)
  from project_event_ledger [OF u ok adm] sync_frame_projects [OF t] show ?thesis
    by (auto intro: ledger_ok_cong)
qed (use a ok in \<open>simp add: project_part_def\<close>)

lemma direct_review_type: "direct_review event s = Inr e \<Longrightarrow> de_type e = de_type event \<and> de_payload e = de_payload event \<and>
   de_tenant e = de_tenant event \<and> de_operation e = de_operation event \<and> de_actor e = de_actor event"
  by (auto simp: direct_review_def Let_def split: if_splits option.splits)

lemma item_part_event: "item_part env e s = Inr (e', t) \<Longrightarrow> \<exists>p. e' = e\<lparr>de_project := p\<rparr>"
proof (erule item_partE)
  assume "e' = e"
  then have "e' = e\<lparr>de_project := de_project e\<rparr>" by simp
  then show ?thesis by blast
qed blast

section \<open>The invariant of the transaction\<close>

definition delivery_inv :: "env \<Rightarrow> store \<Rightarrow> bool" where
  "delivery_inv env s \<longleftrightarrow> ledger_ok s \<and> single_booked env (st_reservations s) \<and> package_inv s"

lemma delivery_preserves:
  assumes "ApplyDeliveryEvent env event s = Inr t" and inv: "delivery_inv env s"
    and adm: "admissible_event event"
  shows "delivery_inv env t"
proof -
  from assms(1) obtain e1 e2 s1 s2 where e1: "direct_review event s = Inr e1"
    and s1: "item_part env e1 s = Inr (e2, s1)" and s2: "project_part env e2 s1 = Inr s2"
    and t: "record_frame s2 t"
    by (rule ApplyDeliveryEventE)
  have "admissible_event e2"
    using adm direct_review_type [OF e1] item_part_event [OF s1]
    by (auto simp: admissible_event_def decomposition_ok_def)
  then have "ledger_ok s2"
    using inv by (intro project_part_ledger [OF s2] item_part_ledger [OF s1]) (simp_all add: delivery_inv_def)
  then have "ledger_ok t" by (rule ledger_ok_cong) (simp_all add: record_frame_fields [OF t])
  moreover have "single_booked env (st_reservations t)"
    using item_part_single_booked [OF s1] inv
    by (simp add: delivery_inv_def record_frame_fields [OF t] project_part_fields [OF s2])
  moreover have "package_inv t"
    using item_part_packages [OF s1] inv
    by (simp add: delivery_inv_def package_inv_def record_frame_fields [OF t] project_part_fields [OF s2])
  ultimately show ?thesis by (simp add: delivery_inv_def)
qed

interpretation delivery: transactional "ApplyDeliveryEvent env" admissible_event "delivery_inv env" for env
  by unfold_locales (rule delivery_preserves)

end
