(* ===== verification/Platform.thy ===== *)
theory Platform
  imports Delivery
begin

text \<open>
  The transactions that share the tables of a service item, as one machine: delivery events,
  registrations of report files, service calls on work packages. Every one of them keeps the
  report ledger, the reservation index and the packages sound, so runs that interleave them in
  any order do.
\<close>

section \<open>Work packages and the ledger\<close>

text \<open>A write on the ledger that no main report sees.\<close>

definition quiet_ledger :: "store \<Rightarrow> store \<Rightarrow> bool" where
  "quiet_ledger s t \<longleftrightarrow> ledger_inv t \<and> st_items t = st_items s \<and>
     (\<forall>tenant i. subject_rows tenant i (st_revisions t) = subject_rows tenant i (st_revisions s))"

lemma quiet_ledger_refl: "ledger_inv s \<Longrightarrow> quiet_ledger s s"
  by (simp add: quiet_ledger_def)

lemma quiet_ledger_trans: "quiet_ledger s t \<Longrightarrow> quiet_ledger t u \<Longrightarrow> quiet_ledger s u"
  by (simp add: quiet_ledger_def)

lemma quiet_ledger_ok:
  assumes q: "quiet_ledger s t" and ok: "ledger_ok s"
  shows "ledger_ok t"
proof -
  have "\<exists>i \<in> set (st_items s). it_tenant i = rv_tenant r \<and> it_id i = rv_subject r"
    if "r \<in> set (st_revisions t)" "rv_subject_type r = SubjectServiceItem" for r
  proof -
    have "r \<in> set (subject_rows (rv_tenant r) (rv_subject r) (st_revisions t))"
      using that by (simp add: set_subject_rows)
    then have "r \<in> set (subject_rows (rv_tenant r) (rv_subject r) (st_revisions s))"
      using q by (simp only: quiet_ledger_def)
    then have "r \<in> set (st_revisions s)" by (simp add: set_subject_rows)
    with ok that(2) show ?thesis by (simp add: ledger_ok_def)
  qed
  with q ok show ?thesis by (simp add: quiet_ledger_def ledger_ok_def item_ledger_def)
qed

lemma package_lock_quiet:
  assumes lock: "lockPenetrationReportRevision row now s = Inr (t, r)" and inv: "ledger_inv s"
  shows "quiet_ledger s t" "r \<in> set (st_revisions t)" "rv_subject_type r = SubjectPenetration"
proof -
  have "quiet_ledger s t \<and> r \<in> set (st_revisions t) \<and> rv_subject_type r = SubjectPenetration"
  proof (cases "find (package_revision row) (st_revisions s)")
    case (Some q)
    with lock inv find_SomeD [OF Some] show ?thesis
      by (simp add: lockPenetrationReportRevision_def quiet_ledger_refl revision_key_def)
  next
    case None
    let ?new = "new_revision (pk_tenant row) (pk_parent row) SubjectPenetration (pk_id row)
                    (pk_report_revision row) ''NONE'' now"
    from None lock have i: "insert_revision ?new s = Inr t"
      and r: "r = ?new\<lparr>rv_id := st_next_revision s\<rparr>"
      by (auto simp: lockPenetrationReportRevision_def Let_def res_simps)
    have "revision_ok ?new" by (simp add: revision_ok_def)
    with i inv have "ledger_inv t" by (rule insert_ledger_inv)
    with i r show ?thesis by (simp add: quiet_ledger_def res_simps)
  qed
  then show "quiet_ledger s t" "r \<in> set (st_revisions t)" "rv_subject_type r = SubjectPenetration" by blast+
qed

lemma package_update_quiet:
  assumes upd: "update_revision P f s = Inr t" and inv: "ledger_inv s" and f: "keeps_key f"
    and r: "r \<in> set (st_revisions s)" "rv_subject_type r = SubjectPenetration"
    and P: "\<And>q. P q \<Longrightarrow> rv_id q = rv_id r"
  shows "quiet_ledger s t"
proof -
  have only: "q = r" if "q \<in> set (st_revisions s)" "P q" for q
    using ledger_id_unique [OF inv r(1) that(1) P [OF that(2)]] .
  have t: "t = s\<lparr>st_revisions := update_where P f (st_revisions s)\<rparr>"
    using upd by (simp add: res_simps)
  have "revision_ok (f q)" if "q \<in> set (st_revisions s)" "P q" for q
    using only [OF that] r(2) by (simp add: revision_ok_def keeps_keyD [OF f])
  then have "ledger_inv t" unfolding t by (intro update_ledger_inv inv f)
  moreover have "subject_rows tenant i (st_revisions t) = subject_rows tenant i (st_revisions s)" for tenant i
    unfolding t by (simp, rule subject_rows_update [OF f])
      (use only r(2) in \<open>auto simp: set_subject_rows\<close>)
  ultimately show ?thesis by (simp add: quiet_ledger_def t)
qed

lemma package_report_keeps_key:
  "package_report_updates r phase actor now = Inr f \<Longrightarrow> keeps_key f"
  by (auto simp: package_report_updates_def Let_def keeps_key_def split: if_splits)

lemma package_mutations_quiet:
  assumes inv: "ledger_inv s"
  shows "decision_mutation di row s = Inr (t, f) \<Longrightarrow> quiet_ledger s t"
    and "plan_mutation pi row s = Inr (t, f) \<Longrightarrow> quiet_ledger s t"
    and "execution_mutation xi row s = Inr (t, f) \<Longrightarrow> quiet_ledger s t"
    and "artifact_mutation ai now row s = Inr (t, f) \<Longrightarrow> quiet_ledger s t"
    and "report_mutation ri actor now row s = Inr (t, f) \<Longrightarrow> quiet_ledger s t"
proof -
  show "decision_mutation di row s = Inr (t, f) \<Longrightarrow> quiet_ledger s t"
    using inv by (auto simp: decision_mutation_def quiet_ledger_refl split: option.splits)
  show "plan_mutation pi row s = Inr (t, f) \<Longrightarrow> quiet_ledger s t"
    using inv by (auto simp: plan_mutation_def quiet_ledger_refl split: if_splits)
  show "execution_mutation xi row s = Inr (t, f) \<Longrightarrow> quiet_ledger s t"
    using execution_mutation_Inr [of xi row s t f] quiet_ledger_refl [OF inv] by simp
next
  assume "artifact_mutation ai now row s = Inr (t, f)"
  then obtain u r g where lock: "lockPenetrationReportRevision row now s = Inr (u, r)"
    and upd: "update_revision (\<lambda>q. rv_id q = rv_id r \<and> rv_status q = ''DRAFTING'') g u = Inr t"
    and g: "keeps_key g"
    by (fastforce simp: artifact_mutation_def res_simps keeps_key_def split: if_splits)
  note l = package_lock_quiet [OF lock inv]
  have "quiet_ledger u t"
    by (rule package_update_quiet [OF upd _ g l(2,3)]) (use l(1) in \<open>simp_all add: quiet_ledger_def\<close>)
  with l(1) show "quiet_ledger s t" by (rule quiet_ledger_trans)
next
  assume "report_mutation ri actor now row s = Inr (t, f)"
  then obtain u r g where lock: "lockPenetrationReportRevision row now s = Inr (u, r)"
    and g: "package_report_updates r (ri_phase ri) actor now = Inr g"
    and upd: "update_revision (\<lambda>q. rv_id q = rv_id r \<and> rv_status q = rv_status r) g u = Inr t"
    by (auto simp: report_mutation_def res_simps Let_def split: if_splits)
  note l = package_lock_quiet [OF lock inv]
  have "quiet_ledger u t"
    by (rule package_update_quiet [OF upd _ package_report_keeps_key [OF g] l(2,3)])
      (use l(1) in \<open>simp_all add: quiet_ledger_def\<close>)
  with l(1) show "quiet_ledger s t" by (rule quiet_ledger_trans)
qed

lemma commit_frame:
  assumes c: "package_commit tenant itemID c user now s = Inr t"
  shows "st_items t = st_items s" "st_projects t = st_projects s" "st_events t = st_events s"
    "st_reservations t = st_reservations s"
proof -
  have *: "st_items t = st_items s \<and> st_projects t = st_projects s \<and> st_events t = st_events s \<and>
      st_reservations t = st_reservations s"
    if m: "mutatePenetrationPackage tenant itemID v key ety actor payload now mutate s = Inr t"
      and fr: "\<And>row u f. mutate row s = Inr (u, f) \<Longrightarrow> same_but_revisions s u"
    for v key ety actor payload mutate
    using mutatePenetrationPackage_Inr(2) [OF m]
    by (elim disjE exE conjE) (simp_all add: same_but_revisions_fields [OF fr])
  have "st_items t = st_items s \<and> st_projects t = st_projects s \<and> st_events t = st_events s \<and>
      st_reservations t = st_reservations s"
  proof (cases c)
    case (CDecision i)
    show ?thesis
      by (rule * [OF c [unfolded CDecision package_commit.simps commit_defs]]) (erule decision.frame)
  next
    case (CPlan i)
    show ?thesis by (rule * [OF c [unfolded CPlan package_commit.simps commit_defs]]) (erule plan.frame)
  next
    case (CExecution i)
    show ?thesis
      by (rule * [OF c [unfolded CExecution package_commit.simps commit_defs]]) (erule execution.frame)
  next
    case (CReport i)
    show ?thesis by (rule * [OF c [unfolded CReport package_commit.simps commit_defs]]) (erule report.frame)
  next
    case (CArtifact i)
    show ?thesis
      by (rule * [OF c [unfolded CArtifact package_commit.simps commit_defs]]) (erule artifact.frame)
  qed
  then show "st_items t = st_items s" "st_projects t = st_projects s" "st_events t = st_events s"
    "st_reservations t = st_reservations s" by simp_all
qed

lemma commit_quiet:
  assumes c: "package_commit tenant itemID c user now s = Inr t" and inv: "ledger_inv s"
  shows "quiet_ledger s t \<and> st_reservations t = st_reservations s"
proof -
  have *: "quiet_ledger s t \<and> st_reservations t = st_reservations s"
    if m: "mutatePenetrationPackage tenant itemID v key ety actor payload now mutate s = Inr t"
      and q: "\<And>row u f. mutate row s = Inr (u, f) \<Longrightarrow> quiet_ledger s u"
      and fr: "\<And>row u f. mutate row s = Inr (u, f) \<Longrightarrow> same_but_revisions s u"
    for v key ety actor payload mutate
    using mutatePenetrationPackage_Inr(2) [OF m]
  proof (elim disjE exE conjE)
    fix row u f
    assume "mutate row s = Inr (u, f)" and t: "t = u\<lparr>st_packages := update_where
                (\<lambda>p. pk_tenant p = tenant \<and> pk_id p = pk_id row \<and> pk_version p = pk_version row)
                (mutated f now actor) (st_packages u),
               st_package_events := st_package_events u @
                [\<lparr>pe_tenant = pk_tenant row, pe_package = pk_id row, pe_type = ety,
                  pe_actor = actor, pe_key = key, pe_payload = payload, pe_created_at = now\<rparr>]\<rparr>"
    then have "quiet_ledger s u" "same_but_revisions s u" by (simp_all add: q fr)
    then show ?thesis by (simp add: t quiet_ledger_def ledger_inv_def same_but_revisions_fields)
  qed (use inv in \<open>simp add: quiet_ledger_refl\<close>)
  note quiet = package_mutations_quiet [OF inv]
  show ?thesis
  proof (cases c)
    case (CDecision i)
    show ?thesis by (rule * [OF c [unfolded CDecision package_commit.simps commit_defs]]) (erule quiet decision.frame)+
  next
    case (CPlan i)
    show ?thesis by (rule * [OF c [unfolded CPlan package_commit.simps commit_defs]]) (erule quiet plan.frame)+
  next
    case (CExecution i)
    show ?thesis by (rule * [OF c [unfolded CExecution package_commit.simps commit_defs]]) (erule quiet execution.frame)+
  next
    case (CReport i)
    show ?thesis by (rule * [OF c [unfolded CReport package_commit.simps commit_defs]]) (erule quiet report.frame)+
  next
    case (CArtifact i)
    show ?thesis by (rule * [OF c [unfolded CArtifact package_commit.simps commit_defs]]) (erule quiet artifact.frame)+
  qed
qed

section \<open>The machine\<close>

datatype transaction =
    TEvent delivery_event
  | TReportFile string string nat artifact instant
  | TPackage service_item package_call

fun execute :: "env \<Rightarrow> transaction \<Rightarrow> store \<Rightarrow> app_error + store" where
  "execute env (TEvent event) s = ApplyDeliveryEvent env event s"
| "execute env (TReportFile tenant itemID revision input now) s =
     RegisterReportArtifact tenant itemID revision input now s"
| "execute env (TPackage item call) s = package_service item call s"

fun admissible :: "transaction \<Rightarrow> bool" where
  "admissible (TEvent event) = admissible_event event"
| "admissible _ = True"

lemma register_fields:
  "RegisterReportArtifact tenant itemID revision input now s = Inr t \<Longrightarrow>
     st_reservations t = st_reservations s \<and> st_packages t = st_packages s"
  by (auto simp: RegisterReportArtifact_def res_simps split: option.splits if_splits
      dest: ensure_frame [THEN same_but_revisions_fields(5)] ensure_frame [THEN same_but_revisions_fields(8)])

lemma execute_preserves:
  assumes "execute env tr s = Inr t" and inv: "delivery_inv env s" and "admissible tr"
  shows "delivery_inv env t"
proof (cases tr)
  case (TEvent event)
  with assms show ?thesis by (simp add: delivery_preserves)
next
  case (TReportFile tenant itemID revision input now)
  then have r: "RegisterReportArtifact tenant itemID revision input now s = Inr t" using assms(1) by simp
  with inv show ?thesis using register_ledger_ok [OF r] register_fields [OF r]
    by (simp add: delivery_inv_def package_inv_def)
next
  case (TPackage item call)
  then have p: "package_service item call s = Inr t" using assms(1) by simp
  from p obtain c where "package_commit (it_tenant item) (it_id item) c (pc_user call) (pc_now call) s = Inr t"
    by (auto simp: package_service_def res_simps)
  with inv have q: "quiet_ledger s t" "st_reservations t = st_reservations s"
    using commit_quiet by (auto simp: delivery_inv_def ledger_ok_def)
  show ?thesis
    using inv service_preserves [OF p] quiet_ledger_ok [OF q(1)] q(2) by (simp add: delivery_inv_def)
qed

interpretation platform: transactional "execute env" admissible "delivery_inv env" for env
  by unfold_locales (rule execute_preserves)

section \<open>Properties of every run\<close>

lemma run_delivery_inv:
  assumes "delivery_inv env s" and "list_all admissible trs"
  shows "delivery_inv env (run_all (execute env) trs s)"
  by (rule platform.run_inv [OF assms(1)]) (use assms(2) in \<open>simp add: list_all_iff\<close>)

text \<open>
  C3. Reports pass four eyes. In whatever order events, report files and work-package calls are
  interleaved, no revision of a main report was reviewed by its author or issued by its author or
  its reviewer, only a revision with a registered file was reviewed, and only an issued one was
  archived.
\<close>

theorem reports_pass_four_eyes:
  assumes "delivery_inv env s" and "list_all admissible trs"
    and "r \<in> set (st_revisions (run_all (execute env) trs s))"
    and "rv_subject_type r = SubjectServiceItem"
  shows "(rv_reviewed_by r \<noteq> [] \<longrightarrow> rv_prepared_by r \<noteq> [] \<and> rv_reviewed_by r \<noteq> rv_prepared_by r \<and>
            \<not> blank (rv_file_id r) \<and> \<not> blank (rv_file_sha256 r)) \<and>
         (rv_issued_by r \<noteq> [] \<longrightarrow> rv_reviewed_by r \<noteq> [] \<and> rv_issued_by r \<noteq> rv_prepared_by r \<and>
            rv_issued_by r \<noteq> rv_reviewed_by r) \<and>
         (rv_archived_by r \<noteq> [] \<longrightarrow> rv_issued_by r \<noteq> [])"
proof -
  have "revision_ok r"
    using run_delivery_inv [OF assms(1,2)] assms(3)
    by (simp add: delivery_inv_def ledger_ok_def ledger_inv_def)
  with assms(4) show ?thesis unfolding revision_ok_defs by blast
qed

definition reported_item :: service_item where
  "reported_item = sample_item\<lparr>it_status := ProjectStatusFieldCompleted,
     it_report_status := ''COMPILING'', it_prepared_by := ''author''\<rparr>"

definition compiled_revision :: revision_row where
  "compiled_revision = (new_revision ''T1'' ''SI-1'' SubjectServiceItem ''SI-1'' 0 ''COMPILING'' 0)
     \<lparr>rv_prepared_by := ''author'', rv_prepared_at := Some 0\<rparr>"

definition report_store :: store where
  "report_store = empty_store\<lparr>st_items := [reported_item], st_projects := [sample_project],
     st_revisions := [compiled_revision]\<rparr>"

definition sample_file :: artifact where
  "sample_file = \<lparr>af_file_id = ''F1'', af_name = ''r.pdf'', af_mime = ''application/pdf'',
     af_size = 1, af_sha256 = ''00''\<rparr>"

definition report_run :: "transaction list" where
  "report_run = [TReportFile ''T1'' ''SI-1'' 0 sample_file 1,
     TEvent (sample_event ''E1'' EventReportStatusUpdated ''checker'' [(''phase'', JStr ''reviewed'')])]"

lemma report_store_inv: "delivery_inv sample_env report_store"
  by code_simp

lemma report_run_admissible: "list_all admissible report_run"
  by code_simp

theorem reports_pass_four_eyes_witness:
  "\<exists>r \<in> set (st_revisions (run_all (execute sample_env) report_run report_store)).
     rv_reviewed_by r = ''checker'' \<and> rv_reviewed_by r \<noteq> rv_prepared_by r"
proof -
  have "list_ex (\<lambda>r. rv_reviewed_by r = ''checker'' \<and> rv_subject_type r = SubjectServiceItem)
      (st_revisions (run_all (execute sample_env) report_run report_store))"
    by code_simp
  then obtain r where r: "rv_reviewed_by r = ''checker''" "rv_subject_type r = SubjectServiceItem"
    "r \<in> set (st_revisions (run_all (execute sample_env) report_run report_store))"
    by (auto simp: list_ex_iff)
  from reports_pass_four_eyes [OF report_store_inv report_run_admissible r(3,2)] r(1)
  have "rv_reviewed_by r \<noteq> rv_prepared_by r" by auto
  with r show ?thesis by blast
qed

text \<open>
  C11. One report is in force. After any run, an item whose field work is complete has exactly one
  ACTIVE revision; it is the one the item names, and it is in the phase the item shows.
\<close>

theorem one_report_in_force:
  assumes "delivery_inv env s" and "list_all admissible trs"
    and "i \<in> set (st_items (run_all (execute env) trs s))"
    and "it_status i = ProjectStatusFieldCompleted"
  shows "\<exists>r. filter (\<lambda>r. rv_tenant r = it_tenant i \<and> rv_subject_type r = SubjectServiceItem \<and>
                rv_subject r = it_id i \<and> rv_validity r = ''ACTIVE'')
             (st_revisions (run_all (execute env) trs s)) = [r] \<and>
           rv_revision r = it_report_revision i \<and>
           ReportPhaseRank (rv_status r) = max 0 (ReportPhaseRank (it_report_status i))"
proof -
  define t where "t = run_all (execute env) trs s"
  let ?P = "\<lambda>r. rv_tenant r = it_tenant i \<and> rv_subject_type r = SubjectServiceItem \<and>
                rv_subject r = it_id i \<and> rv_validity r = ''ACTIVE''"
  have ok: "ledger_ok t" using run_delivery_inv [OF assms(1,2)] by (simp add: delivery_inv_def t_def)
  then have inv: "ledger_inv t" and il: "item_ledger (st_revisions t) i"
    using assms(3) by (simp_all add: ledger_ok_def t_def)
  obtain r where r: "r \<in> set (subject_rows (it_tenant i) (it_id i) (st_revisions t))"
    "rv_revision r = it_report_revision i"
    using il assms(4) by (auto simp: item_ledger_def)
  have r': "?P r" "ReportPhaseRank (rv_status r) = max 0 (ReportPhaseRank (it_report_status i))"
    using il r by (auto simp: item_ledger_def set_subject_rows)
  have "q = r" if "q \<in> set (st_revisions t)" "?P q" for q
  proof -
    have q: "q \<in> set (subject_rows (it_tenant i) (it_id i) (st_revisions t))"
      using that by (simp add: set_subject_rows)
    have "rv_revision q = it_report_revision i" using il q that(2) by (fastforce simp: item_ledger_def)
    with that(2) r r'(1) show "q = r"
      by (intro ledger_key_unique [OF inv, of r q i "it_report_revision i"])
        (simp_all add: that(1) set_subject_rows item_revision_iff)
  qed
  moreover have "r \<in> set (st_revisions t)" using r(1) by (simp add: set_subject_rows)
  ultimately have "set (filter ?P (st_revisions t)) = {r}" using r'(1) unfolding set_filter by blast
  moreover have "distinct (filter ?P (st_revisions t))"
    using ledger_distinct [OF inv] by (simp add: distinct_map)
  ultimately have "filter ?P (st_revisions t) = [r]"
    by (intro distinct_singleton)
  with r(2) r'(2) show ?thesis by (auto simp: t_def)
qed


theorem one_report_in_force_witness:
  "\<exists>r. filter (\<lambda>r. rv_tenant r = ''T1'' \<and> rv_subject_type r = SubjectServiceItem \<and>
          rv_subject r = ''SI-1'' \<and> rv_validity r = ''ACTIVE'')
       (st_revisions (run_all (execute sample_env) report_run report_store)) = [r]"
proof -
  have "list_ex (\<lambda>i. it_status i = ProjectStatusFieldCompleted \<and> it_tenant i = ''T1'' \<and> it_id i = ''SI-1'')
      (st_items (run_all (execute sample_env) report_run report_store))" by code_simp
  then obtain i where i: "i \<in> set (st_items (run_all (execute sample_env) report_run report_store))"
    "it_status i = ProjectStatusFieldCompleted" "it_tenant i = ''T1''" "it_id i = ''SI-1''"
    by (auto simp: list_ex_iff)
  from one_report_in_force [OF report_store_inv report_run_admissible i(1,2)] i(3,4)
  show ?thesis by auto
qed

end
