(* ===== verification/ItemRuns.thy ===== *)
theory ItemRuns
  imports Platform
begin

text \<open>
  A service item under runs of the whole machine: what one transaction does to its row, that a
  terminated item stays terminated, and that its row is one under an optimistic version.
\<close>

section \<open>One item under runs\<close>

lemma update_one_find:
  assumes items: "rows' = update_where (\<lambda>j. it_id j = it_id i) (\<lambda>_. i') rows"
    and d: "distinct (map it_id rows)" and i: "i \<in> set rows"
    and same: "it_id i' = it_id i" "it_tenant i' = it_tenant i" "it_archived_at i' = it_archived_at i"
    and j: "find (item_key tenant key) rows = Some j"
  shows "find (item_key tenant key) rows' = Some (if j = i then i' else j)"
proof -
  have only: "q = i" if "q \<in> set rows" "it_id q = it_id i" for q
    using key_unique [OF d i that] .
  have "find (item_key tenant key) rows' =
      find (item_key tenant key) (update_where (\<lambda>q. q = i) (\<lambda>_. i') rows)"
    unfolding items update_where_def using only by (intro arg_cong [where f = "find _"] map_cong) auto
  also have "\<dots> = map_option (\<lambda>r. if r = i then i' else r) (find (item_key tenant key) rows)"
    by (rule find_update_where) (use same in \<open>simp add: item_key_def item_live_def\<close>)
  finally show ?thesis using j by simp
qed

lemma item_part_row:
  assumes p: "item_part env e s = Inr (e', t)" and d: "distinct (map it_id (st_items s))"
    and j: "find_item s tenant key = Some j"
  obtains j' where "find_item t tenant key = Some j'" "it_project j' = it_project j"
    "j' = j \<or> tenant = de_tenant e \<and> key = de_item e \<and> item_stepped e j j'"
    "distinct (map it_id (st_items t))"
  using p
proof (cases rule: item_partE)
  case 1
  with that j d show ?thesis by simp
next
  case (2 item u)
  note i = find_item_SomeD [OF 2(2)]
  have f: "find_item s (it_tenant item) (it_id item) = Some item" using 2(2) i by simp
  from item_event_row [OF 2(5) f d] obtain item' where st: "item_stepped e' item item'"
    and items: "st_items u = update_where (\<lambda>j. it_id j = it_id item) (\<lambda>_. item') (st_items s)" by blast
  have t: "st_items t = st_items u" using 2(6) ensure_package_fields(1) by auto
  have same: "it_id item' = it_id item" "it_tenant item' = it_tenant item"
    "it_archived_at item' = it_archived_at item"
    using st by (simp_all add: item_stepped_def)
  have "find_item t tenant key = Some (if j = item then item' else j)"
    unfolding find_item_def t
    by (rule update_one_find [OF items d _ same]) (use i j in \<open>simp_all add: find_item_def\<close>)
  moreover have "tenant = de_tenant e \<and> key = de_item e \<and> item_stepped e j item'" if "j = item"
    using that find_item_SomeD [OF j] i st by (simp add: 2(3) item_stepped_def)
  moreover have "distinct (map it_id (st_items t))"
    using d unfolding t items by (subst map_key_update_where) (simp_all add: same)
  moreover have "it_project (if j = item then item' else j) = it_project j"
    using st by (simp add: item_stepped_def)
  moreover have "(if j = item then item' else j) = j \<or>
      tenant = de_tenant e \<and> key = de_item e \<and> item_stepped e j (if j = item then item' else j)"
    using calculation(2) by (cases "j = item") simp_all
  ultimately show ?thesis by (intro that [of "if j = item then item' else j"])
qed

text \<open>The part on the project leaves the items alone, or archives those of its project and adds new ones.\<close>

lemma project_part_items:
  assumes p: "project_part env e s = Inr t"
  obtains "st_items t = st_items s"
  | project new where "de_type e = EventDecompositionAdjusted"
      "st_items t = update_where (project_item project)
         (\<lambda>i. i\<lparr>it_archived_at := Some (env_clock env)\<rparr>) (st_items s) @ new"
      "\<forall>i \<in> set new. it_version i = 1"
      "\<forall>i \<in> set (st_items s). project_item project i \<longrightarrow>
         it_status i = ServiceItemStatusPendingConfirm \<or> it_status i = ServiceItemStatusPendingReview"
proof (cases "de_project e = []")
  case True
  with p that(1) show ?thesis by (simp add: project_part_def)
next
  case False
  with p obtain project u where a: "applyProjectEvent env project e s = Inr u"
    and sync: "syncProjectStatusColumn env (de_tenant e) (de_project e) u = Inr t"
    by (auto simp: project_part_def res_simps split: option.splits)
  have t: "st_items t = st_items u" using sync_frame_projects [OF sync] by auto
  show ?thesis
  proof (cases "de_type e = EventDecompositionAdjusted")
    case True
    with a obtain v n where v: "adjust_decomposition env project e s = Inr (v, n)"
      and w: "write_project project e (\<lambda>p. (supplement_required p)\<lparr>pj_services := n\<rparr>) v = Inr u"
      by (auto simp: applyProjectEvent_def res_simps split: if_splits)
    have u: "st_items u = st_items v" using write_project_frame [OF w] by auto
    from v obtain specs new where items: "st_items v = update_where (project_item project)
       (\<lambda>i. i\<lparr>it_archived_at := Some (env_clock env)\<rparr>) (st_items s) @ new"
      and new: "\<forall>i \<in> set new. \<exists>sp \<in> set specs. \<exists>k. i = item_of_spec project e k sp"
      and before: "\<forall>i \<in> set (st_items s). project_item project i \<longrightarrow>
       it_status i = ServiceItemStatusPendingConfirm \<or> it_status i = ServiceItemStatusPendingReview"
      by (rule adjustE) blast
    have "\<forall>i \<in> set new. it_version i = 1" using new by (auto simp: item_of_spec_def)
    with that(2) [OF True] items before show ?thesis by (simp add: t u)
  next
    case False
    with a have "u = s \<or> (\<exists>f. write_project project e f s = Inr u)"
      by (auto simp: applyProjectEvent_def res_simps split: if_splits)
    with that(1) show ?thesis by (auto simp: t dest!: write_project_frame)
  qed
qed

lemma find_archive:
  assumes "find P rows = Some j" and "\<not> Q j" and "\<And>r. P (f r) \<Longrightarrow> P r"
  shows "find P (update_where Q f rows) = Some j"
  using assms by (induction rows) (auto split: if_splits)

lemma project_part_row:
  assumes p: "project_part env e s = Inr t" and j: "find_item s tenant key = Some j"
    and keep: "it_status j \<noteq> ServiceItemStatusPendingConfirm" "it_status j \<noteq> ServiceItemStatusPendingReview"
  shows "find_item t tenant key = Some j"
  using p
proof (cases rule: project_part_items)
  case 1
  with j show ?thesis by (simp add: find_item_def)
next
  case (2 project new)
  have "\<not> project_item project j" using 2(4) keep find_item_SomeD [OF j] by blast
  then have "find (item_key tenant key) (update_where (project_item project)
      (\<lambda>i. i\<lparr>it_archived_at := Some (env_clock env)\<rparr>) (st_items s)) = Some j"
    by (intro find_archive) (use j in \<open>auto simp: find_item_def item_key_def item_live_def\<close>)
  then show ?thesis by (simp add: find_item_def 2(2) find_append)
qed

lemma decomposition_moves: "\<not> moves EventDecompositionAdjusted st st'"
  by (auto elim!: movesE)

lemma other_transactions_items:
  assumes "execute env tr s = Inr t" and "\<And>event. tr \<noteq> TEvent event"
  shows "st_items t = st_items s"
proof (cases tr)
  case (TReportFile tenant itemID revision input now)
  with assms(1) show ?thesis
    by (auto simp: RegisterReportArtifact_def res_simps split: option.splits if_splits
        dest: ensure_frame [THEN same_but_revisions_fields(1)])
next
  case (TPackage item call)
  with assms(1) obtain c where
    "package_commit (it_tenant item) (it_id item) c (pc_user call) (pc_now call) s = Inr t"
    by (auto simp: package_service_def res_simps)
  then show ?thesis by (rule commit_frame)
qed (use assms in simp)

text \<open>
  Terminated items stay: one transaction keeps a terminated item in the tables, terminated.
\<close>

lemma terminated_step:
  assumes e: "execute env tr s = Inr t" and inv: "delivery_inv env s"
    and j: "find_item s tenant key = Some j" and st: "it_status j = ProjectStatusTerminated"
  shows "\<exists>j'. find_item t tenant key = Some j' \<and> it_status j' = ProjectStatusTerminated"
proof (cases "\<exists>event. tr = TEvent event")
  case True
  then obtain event where "ApplyDeliveryEvent env event s = Inr t" using e by auto
  then obtain e1 e2 s1 s2 where i1: "item_part env e1 s = Inr (e2, s1)"
    and p: "project_part env e2 s1 = Inr s2" and t: "record_frame s2 t"
    by (rule ApplyDeliveryEventE)
  have "distinct (map it_id (st_items s))" using inv by (simp add: delivery_inv_def ledger_ok_def)
  from item_part_row [OF i1 this j] obtain j' where j': "find_item s1 tenant key = Some j'"
    and "j' = j \<or> item_stepped e1 j j'" by metis
  then have st': "it_status j' = ProjectStatusTerminated"
    using st terminated_absorbs by (auto simp: item_stepped_def)
  have "find_item s2 tenant key = Some j'"
    by (rule project_part_row [OF p j']) (simp_all add: st' status_defs)
  with st' show ?thesis by (simp add: find_item_def record_frame_fields [OF t])
next
  case False
  with other_transactions_items [OF e] j st show ?thesis by (auto simp: find_item_def)
qed

text \<open>
  C2. Termination is final. Once a service item is terminated, no sequence of events, report files
  and work-package calls brings it back to life or archives it.
\<close>

theorem terminated_is_final:
  assumes "delivery_inv env s" and "list_all admissible trs"
    and "find_item s tenant key = Some j" and "it_status j = ProjectStatusTerminated"
  shows "\<exists>j'. find_item (run_all (execute env) trs s) tenant key = Some j' \<and>
    it_status j' = ProjectStatusTerminated"
  using assms
proof (induction trs arbitrary: s j)
  case (Cons tr trs)
  show ?case
  proof (cases "execute env tr s")
    case (Inr t)
    have "delivery_inv env t" using execute_preserves [OF Inr] Cons.prems by simp
    with terminated_step [OF Inr Cons.prems(1,3,4)] Cons.IH Cons.prems(2) Inr show ?thesis by auto
  next
    case (Inl x)
    with Cons.IH [OF Cons.prems(1) _ Cons.prems(3,4)] Cons.prems(2) show ?thesis by simp
  qed
qed auto

text \<open>An item terminated by a review, and an attempt to take it up again.\<close>

definition exception_store :: store where
  "exception_store = empty_store\<lparr>
     st_items := [sample_item\<lparr>it_status := ProjectStatusTerminated\<rparr>],
     st_projects := [sample_project]\<rparr>"

definition revival_run :: "transaction list" where
  "revival_run =
     [TEvent (sample_event ''E1'' EventTeamAssigned ''pm'' [(''team_lead_id'', JStr ''lead'')]),
      TEvent (sample_event ''E2'' EventFieldStarted ''pm'' []),
      TEvent (sample_event ''E3'' EventContractStampStatus ''pm'' [])]"

theorem terminated_is_final_witness:
  "length (st_events (run_all (execute sample_env) revival_run exception_store)) = 1 \<and>
   (\<exists>j'. find_item (run_all (execute sample_env) revival_run exception_store) ''T1'' ''SI-1'' = Some j' \<and>
      it_status j' = ProjectStatusTerminated)"
proof
  show "length (st_events (run_all (execute sample_env) revival_run exception_store)) = 1" by code_simp
  have inv: "delivery_inv sample_env exception_store" by code_simp
  have adm: "list_all admissible revival_run" by code_simp
  have i: "find_item exception_store ''T1'' ''SI-1'' = Some (sample_item\<lparr>it_status := ProjectStatusTerminated\<rparr>)"
    by (simp add: exception_store_def find_item_def item_key_def item_live_def sample_item_def empty_store_def)
  from terminated_is_final [OF inv adm i]
  show "\<exists>j'. find_item (run_all (execute sample_env) revival_run exception_store) ''T1'' ''SI-1'' = Some j' \<and>
      it_status j' = ProjectStatusTerminated" by simp
qed

section \<open>Items under an optimistic version\<close>

text \<open>
  The row of an item, archived or not, apart from its archive mark; the version it carries, and
  the version a transaction expects of it. A review finds its item by the deviation, so what it
  expects is not known from the command.
\<close>

definition item_content :: "string \<Rightarrow> store \<Rightarrow> service_item option" where
  "item_content key s =
     map_option (\<lambda>i. i\<lparr>it_archived_at := None\<rparr>) (find (\<lambda>i. it_id i = key) (st_items s))"

definition item_version_of :: "string \<Rightarrow> store \<Rightarrow> nat" where
  "item_version_of key s = (case item_content key s of None \<Rightarrow> 0 | Some i \<Rightarrow> it_version i)"

fun item_expected :: "string \<Rightarrow> transaction \<Rightarrow> nat" where
  "item_expected key (TEvent event) =
     (if key \<noteq> [] \<and> de_item event = key \<and> de_type event \<noteq> EventDeviationReviewed
      then expectedVersionValue (de_payload event) else 0)"
| "item_expected key _ = 0"

definition content_stepped :: "string \<Rightarrow> nat \<Rightarrow> store \<Rightarrow> store \<Rightarrow> bool" where
  "content_stepped key expected s t \<longleftrightarrow>
     item_content key t = item_content key s \<or>
     (item_version_of key t = item_version_of key s + 1 \<and>
      (expected \<noteq> 0 \<longrightarrow> item_version_of key s = expected))"

lemma content_unchanged: "st_items t = st_items s \<Longrightarrow> content_stepped key n s t"
  by (simp add: content_stepped_def item_content_def)

lemma content_weaken: "content_stepped key n s t \<Longrightarrow> content_stepped key 0 s t"
  by (auto simp: content_stepped_def)

lemma content_items: "st_items t = st_items u \<Longrightarrow> content_stepped key n s t = content_stepped key n s u"
  by (simp add: content_stepped_def item_content_def item_version_of_def)

lemma find_update_other:
  assumes "\<And>r. Q r \<Longrightarrow> \<not> P r" and "\<And>r. Q r \<Longrightarrow> \<not> P (f r)"
  shows "find P (update_where Q f rows) = find P rows"
  using assms by (induction rows) auto

lemma item_part_content:
  assumes p: "item_part env e s = Inr (e', t)" and d: "distinct (map it_id (st_items s))"
  shows "content_stepped key (if key \<noteq> [] \<and> de_item e = key then expectedVersionValue (de_payload e) else 0) s t"
  using p
proof (cases rule: item_partE)
  case 1
  then show ?thesis by (simp add: content_stepped_def)
next
  case (2 item u)
  note i = find_item_SomeD [OF 2(2)]
  have f: "find_item s (it_tenant item) (it_id item) = Some item" using 2(2) i by simp
  from item_event_row [OF 2(5) f d] obtain item' where st: "item_stepped e' item item'"
    and items: "st_items u = update_where (\<lambda>j. it_id j = it_id item) (\<lambda>_. item') (st_items s)" by blast
  have t: "st_items t = st_items u" using 2(6) ensure_package_fields(1) by auto
  have same: "it_id item' = it_id item" using st by (simp add: item_stepped_def)
  show ?thesis
  proof (cases "it_id item = key")
    case False
    have "find (\<lambda>j. it_id j = key) (st_items t) = find (\<lambda>j. it_id j = key) (st_items s)"
      unfolding t items by (rule find_update_other) (use False same in auto)
    then show ?thesis by (simp add: content_stepped_def item_content_def)
  next
    case True
    have a: "find (\<lambda>j. it_id j = key) (st_items s) = Some item"
      by (rule find_key_unique [OF d]) (use i True in auto)
    have b: "find (\<lambda>j. it_id j = key) (st_items t) = Some item'"
      using a True same unfolding t items by (subst find_update_where) auto
    show ?thesis using st a b 2(3)
      by (auto simp: content_stepped_def item_content_def item_version_of_def item_stepped_def)
  qed
qed


lemma project_part_content:
  assumes p: "project_part env e s = Inr t" and e: "de_type e \<noteq> EventDecompositionAdjusted \<or> n = 0"
  shows "content_stepped key n s t"
  using p
proof (cases rule: project_part_items)
  case 1
  then show ?thesis by (rule content_unchanged)
next
  case (2 project new)
  let ?P = "\<lambda>i. it_id i = key"
  let ?arch = "\<lambda>i. i\<lparr>it_archived_at := Some (env_clock env)\<rparr>"
  have a: "find ?P (update_where (project_item project) ?arch (st_items s)) =
      map_option (\<lambda>i. if project_item project i then ?arch i else i) (find ?P (st_items s))"
    by (rule find_update_where) simp
  show ?thesis
  proof (cases "find ?P (st_items s)")
    case None
    with a have t: "find ?P (st_items t) = find ?P new" by (simp add: 2(2) find_append)
    show ?thesis
    proof (cases "find ?P new")
      case None
      with t \<open>find ?P (st_items s) = None\<close> show ?thesis by (simp add: content_stepped_def item_content_def)
    next
      case (Some i)
      then have "it_version i = 1" using 2(3) by (auto simp: find_Some_iff)
      with t Some \<open>find ?P (st_items s) = None\<close> e 2(1) show ?thesis
        by (simp add: content_stepped_def item_content_def item_version_of_def)
    qed
  next
    case (Some i)
    with a have "find ?P (st_items t) = Some (if project_item project i then ?arch i else i)"
      by (simp add: 2(2) find_append)
    with Some have "item_content key t = item_content key s" by (simp add: item_content_def)
    then show ?thesis by (simp add: content_stepped_def)
  qed
qed

lemma item_part_no_decomposition:
  assumes p: "item_part env e s = Inr (e', t)" and d: "distinct (map it_id (st_items s))"
    and e: "de_type e = EventDecompositionAdjusted"
  shows "de_item e = [] \<and> t = s"
  using p
proof (cases rule: item_partE)
  case (2 item u)
  note i = find_item_SomeD [OF 2(2)]
  have f: "find_item s (it_tenant item) (it_id item) = Some item" using 2(2) i by simp
  from item_event_row [OF 2(5) f d] obtain item' where "item_stepped e' item item'" by blast
  with e 2(3) show ?thesis by (simp add: item_stepped_def decomposition_moves)
qed simp

lemma transaction_content:
  assumes e: "execute env tr s = Inr t" and inv: "delivery_inv env s"
  shows "content_stepped key (item_expected key tr) s t"
proof (cases "\<exists>event. tr = TEvent event")
  case False
  with other_transactions_items [OF e] show ?thesis by (intro content_unchanged) blast
next
  case True
  then obtain event where tr: "tr = TEvent event" by blast
  with e obtain e1 e2 s1 s2 where e1: "direct_review event s = Inr e1"
    and i: "item_part env e1 s = Inr (e2, s1)" and p: "project_part env e2 s1 = Inr s2"
    and t: "record_frame s2 t"
    by (auto elim: ApplyDeliveryEventE)
  have d: "distinct (map it_id (st_items s))" using inv by (simp add: delivery_inv_def ledger_ok_def)
  have same: "de_type e1 = de_type event" "de_payload e1 = de_payload event"
    using direct_review_type [OF e1] by simp_all
  have e2: "de_type e2 = de_type e1" using item_part_event [OF i] by auto
  have it: "st_items t = st_items s2" by (simp add: record_frame_fields [OF t])
  let ?n = "if key \<noteq> [] \<and> de_item e1 = key then expectedVersionValue (de_payload e1) else 0"
  show ?thesis
  proof (cases "de_type event = EventDecompositionAdjusted")
    case True
    then have "de_item e1 = []" "s1 = s" "e1 = event"
      using item_part_no_decomposition [OF i d] e1 same by (auto simp: direct_review_def)
    with True have "item_expected key tr = 0" by (auto simp: tr)
    with project_part_content [OF p, of 0 key] \<open>s1 = s\<close> content_items [OF it, of key 0 s]
    show ?thesis by simp
  next
    case False
    have "st_items s2 = st_items s1" using p
      by (cases rule: project_part_items) (use False e2 same in auto)
    then have items: "st_items t = st_items s1" by (simp add: it)
    have st: "content_stepped key ?n s t"
      using item_part_content [OF i d, of key] unfolding content_items [OF items] .
    have "item_expected key tr = ?n \<or> item_expected key tr = 0"
      using e1 by (cases "de_type event = EventDeviationReviewed") (simp_all add: tr direct_review_def)
    with st show ?thesis by (elim disjE) (simp_all only: content_weaken)
  qed
qed

interpretation item_row: versioned_row "execute env" admissible "delivery_inv env"
  "item_content key" "item_version_of key" "item_expected key" for env key
proof
  fix s c t
  assume "delivery_inv env s" and "execute env c s = Inr t"
  then have st: "content_stepped key (item_expected key c) s t" by (rule transaction_content [rotated])
  show "item_version_of key s \<le> item_version_of key t"
    using st by (auto simp: content_stepped_def item_version_of_def)
  show "item_version_of key s < item_version_of key t" if "item_content key t \<noteq> item_content key s"
    using st that by (simp add: content_stepped_def)
  show "item_content key t = item_content key s"
    if "item_expected key c \<noteq> 0" "item_expected key c \<noteq> item_version_of key s"
    using st that by (auto simp: content_stepped_def)
qed

lemma accepted_expected:
  assumes "ApplyDeliveryEvent env d s = Inr u" and inv: "delivery_inv env s"
    and "de_item d \<noteq> []" and ty: "de_type d \<noteq> EventDeviationReviewed"
    and n: "expectedVersionValue (de_payload d) \<noteq> 0"
  shows "item_version_of (de_item d) s = expectedVersionValue (de_payload d)"
proof -
  from assms(1) obtain e2 s1 where "item_part env d s = Inr (e2, s1)"
    using ty by (elim ApplyDeliveryEventE) (auto simp: direct_review_def)
  then obtain item where i: "find_item s (de_tenant d) (de_item d) = Some item"
    and "\<exists>v. applyItemEvent env item (d\<lparr>de_project := it_project item\<rparr>) s = Inr v"
    using assms(3) by (elim item_partE) blast+
  then have "it_version item = expectedVersionValue (de_payload d)"
    using apply_expected_version [of env item "d\<lparr>de_project := it_project item\<rparr>" s] n by auto
  moreover have "find (\<lambda>j. it_id j = de_item d) (st_items s) = Some item"
    by (rule find_key_unique [of it_id])
      (use inv find_item_SomeD [OF i] in \<open>auto simp: delivery_inv_def ledger_ok_def\<close>)
  ultimately show ?thesis by (simp add: item_version_of_def item_content_def)
qed

text \<open>
  C1. No event overwrites an item its author has not seen. When two events carry the same expected
  version of an item and the first one changes the item, the second is refused, however many
  transactions of whatever kind lie between them.
\<close>

theorem item_no_lost_update:
  assumes "delivery_inv env s" and "admissible_event e" and "ApplyDeliveryEvent env e s = Inr t"
    and "item_content (de_item d) t \<noteq> item_content (de_item d) s"
    and "list_all admissible trs"
    and "de_item d \<noteq> []" and "de_type d \<noteq> EventDeviationReviewed"
    and "expectedVersionValue (de_payload d) = item_version_of (de_item d) s"
    and "item_version_of (de_item d) s \<noteq> 0"
  shows "isl (ApplyDeliveryEvent env d (run_all (execute env) trs t))"
proof (cases "ApplyDeliveryEvent env d (run_all (execute env) trs t)")
  case (Inr u)
  have inv: "delivery_inv env t" using delivery_preserves [OF assms(3,1,2)] .
  have "item_version_of (de_item d) s < item_version_of (de_item d) t"
    using item_row.change_bumps [of env s "TEvent e" t "de_item d"] assms(1-4) by simp
  also have "\<dots> \<le> item_version_of (de_item d) (run_all (execute env) trs t)"
    using item_row.run_version_mono [OF inv] assms(5) by (simp add: list_all_iff)
  finally show ?thesis
    using accepted_expected [OF Inr run_delivery_inv [OF inv assms(5)] assms(6,7)] assms(8,9) by simp
qed simp

text \<open>Two assignments of a team by authors who both saw version 1.\<close>

definition contested_store :: store where
  "contested_store = empty_store\<lparr>st_items := [sample_item], st_projects := [sample_project]\<rparr>"

definition assignment :: "string \<Rightarrow> string \<Rightarrow> delivery_event" where
  "assignment i lead = sample_event i EventTeamAssigned ''pm''
     [(''team_lead_id'', JStr lead), (''expected_version'', JNum 1)]"

theorem item_no_lost_update_witness:
  "\<exists>t. ApplyDeliveryEvent sample_env (assignment ''E1'' ''lead'') contested_store = Inr t \<and>
     isl (ApplyDeliveryEvent sample_env (assignment ''E2'' ''other'')
       (run_all (execute sample_env) [TEvent (sample_event ''E3'' EventContractStampStatus ''pm'' [])] t))"
proof -
  have inv: "delivery_inv sample_env contested_store" by code_simp
  have v: "item_version_of ''SI-1'' contested_store = 1" by code_simp
  have "case ApplyDeliveryEvent sample_env (assignment ''E1'' ''lead'') contested_store of Inl _ \<Rightarrow> False
     | Inr t \<Rightarrow> item_version_of ''SI-1'' t = 2" by code_simp
  then obtain t where t: "ApplyDeliveryEvent sample_env (assignment ''E1'' ''lead'') contested_store = Inr t"
    and "item_version_of ''SI-1'' t = 2" by (auto split: sum.splits)
  with v have change: "item_content ''SI-1'' t \<noteq> item_content ''SI-1'' contested_store"
    by (auto simp: item_version_of_def)
  have "isl (ApplyDeliveryEvent sample_env (assignment ''E2'' ''other'')
       (run_all (execute sample_env) [TEvent (sample_event ''E3'' EventContractStampStatus ''pm'' [])] t))"
    by (rule item_no_lost_update [OF inv _ t])
      (use change v in \<open>simp_all add: assignment_def sample_event_def admissible_event_def
        expectedVersionValue_def\<close>)
  with t show ?thesis by blast
qed

end
