(* ===== verification/ProjectSync.thy ===== *)
theory ProjectSync
  imports ItemRuns
begin

text \<open>
  The columns of a project that cache its derived state (\<open>syncProjectStatusColumn\<close> of
  \<open>infrastructure/mysql/delivery_events.go\<close>): what the events of one project touch, and that the
  cached status and progress are the derived ones after every event.
\<close>

section \<open>What the events of one project touch\<close>

definition project_synced :: "store \<Rightarrow> project_row \<Rightarrow> bool" where
  "project_synced s p \<longleftrightarrow>
     (let items = status_items s (pj_tenant p) (pj_id p)
      in pj_status p = DeriveProjectStatus items (pj_supplement p) (pj_status p) \<and>
         pj_progress p = DeriveProjectProgress items)"

definition projects_inv :: "store \<Rightarrow> bool" where
  "projects_inv s \<longleftrightarrow>
     distinct (map pj_id (st_projects s)) \<and> list_all (\<lambda>i. it_project i \<noteq> []) (st_items s) \<and>
     list_all (project_synced s) (st_projects s)"

text \<open>Between two states only the project with the given key, and its items, may differ.\<close>

definition touches :: "string \<Rightarrow> string \<Rightarrow> store \<Rightarrow> store \<Rightarrow> bool" where
  "touches tenant key s t \<longleftrightarrow>
     (\<forall>tn k. (tn, k) \<noteq> (tenant, key) \<longrightarrow> status_items t tn k = status_items s tn k) \<and>
     map pj_id (st_projects t) = map pj_id (st_projects s) \<and>
     (\<forall>p \<in> set (st_projects t). p \<in> set (st_projects s) \<or> pj_tenant p = tenant \<and> pj_id p = key) \<and>
     (list_all (\<lambda>i. it_project i \<noteq> []) (st_items s) \<longrightarrow> list_all (\<lambda>i. it_project i \<noteq> []) (st_items t))"

lemma touches_refl: "st_items t = st_items s \<Longrightarrow> st_projects t = st_projects s \<Longrightarrow> touches tenant key s t"
  by (simp add: touches_def status_items_def)

lemma touches_trans:
  assumes "touches tenant key s t" and "touches tenant key t u"
  shows "touches tenant key s u"
proof -
  have "status_items u tn k = status_items s tn k" if "(tn, k) \<noteq> (tenant, key)" for tn k
    using assms that unfolding touches_def by simp
  then show ?thesis using assms unfolding touches_def by metis
qed

lemma status_items_update:
  assumes "\<And>r. P r \<Longrightarrow> Q r \<Longrightarrow> it_tenant r = tenant \<and> it_project r = key \<and>
      it_tenant (f r) = tenant \<and> it_project (f r) = key"
    and "\<And>r. r \<in> set rows \<Longrightarrow> P r \<Longrightarrow> Q r"
    and "(tn, k) \<noteq> (tenant, key)"
  shows "filter (\<lambda>i. it_tenant i = tn \<and> it_project i = k \<and> item_live i) (update_where P f rows) =
     filter (\<lambda>i. it_tenant i = tn \<and> it_project i = k \<and> item_live i) rows"
  using assms by (induction rows) auto

lemma write_project_touches:
  assumes w: "write_project project e f s = Inr t" and f: "\<And>p. pj_id (f p) = pj_id p \<and> pj_tenant (f p) = pj_tenant p"
  shows "touches (pj_tenant project) (pj_id project) s t"
proof -
  from w have t: "t = s\<lparr>st_projects := update_where (same_project_version project)
             (\<lambda>p. (f p)\<lparr>pj_updated_at := de_created_at e, pj_version := pj_version p + 1\<rparr>)
             (st_projects s)\<rparr>" by (simp add: write_project_def split: if_splits)
  have ids: "map pj_id (st_projects t) = map pj_id (st_projects s)"
    unfolding t using f by (simp add: map_key_update_where)
  have "p \<in> set (st_projects s) \<or> pj_tenant p = pj_tenant project \<and> pj_id p = pj_id project"
    if "p \<in> set (st_projects t)" for p
    using that f by (auto simp: t set_update_where same_project_version_def project_key_def)
  with ids show ?thesis by (simp add: touches_def status_items_def t)
qed

lemma adjust_touches:
  assumes a: "adjust_decomposition env project e s = Inr (t, n)" and p: "pj_id project \<noteq> []"
  shows "touches (pj_tenant project) (pj_id project) s t"
proof -
  from a obtain specs new where items: "st_items t = update_where (project_item project)
       (\<lambda>i. i\<lparr>it_archived_at := Some (env_clock env)\<rparr>) (st_items s) @ new"
    and new: "\<forall>i \<in> set new. \<exists>sp \<in> set specs. \<exists>k. i = item_of_spec project e k sp"
    by (rule adjustE) blast
  have new: "it_tenant i = pj_tenant project \<and> it_project i = pj_id project" if "i \<in> set new" for i
    using new that by auto
  have "status_items t tn k = status_items s tn k" if k: "(tn, k) \<noteq> (pj_tenant project, pj_id project)" for tn k
  proof -
    have "filter (\<lambda>i. it_tenant i = tn \<and> it_project i = k \<and> item_live i) new = []"
      using new k by (auto simp: filter_empty_conv)
    with status_items_update [OF _ _ k, of "project_item project" "\<lambda>_. True"] show ?thesis
      by (simp add: status_items_def items project_item_def)
  qed
  moreover have "st_projects t = st_projects s" using adjust_frame [OF a] by auto
  moreover have "list_all (\<lambda>i. it_project i \<noteq> []) (st_items s) \<longrightarrow> list_all (\<lambda>i. it_project i \<noteq> []) (st_items t)"
    using new p by (auto simp: items list_all_iff set_update_where)
  ultimately show ?thesis by (simp add: touches_def)
qed

lemma applyProjectEvent_touches:
  assumes a: "applyProjectEvent env project e s = Inr t" and p: "pj_id project \<noteq> []"
  shows "touches (pj_tenant project) (pj_id project) s t"
proof (cases "de_type e = EventDecompositionAdjusted")
  case True
  with a obtain u n where u: "adjust_decomposition env project e s = Inr (u, n)"
    and w: "write_project project e (\<lambda>p. (supplement_required p)\<lparr>pj_services := n\<rparr>) u = Inr t"
    by (auto simp: applyProjectEvent_def res_simps split: if_splits)
  show ?thesis
    by (rule touches_trans [OF adjust_touches [OF u p] write_project_touches [OF w]])
      (simp add: supplement_required_def)
next
  case False
  with a have "t = s \<or> write_project project e supplement_required s = Inr t \<or>
      write_project project e (\<lambda>p. p\<lparr>pj_supplement := ''NONE''\<rparr>) s = Inr t"
    by (auto simp: applyProjectEvent_def res_simps split: if_splits)
  then show ?thesis
    by (elim disjE) (auto intro: touches_refl elim!: write_project_touches simp: supplement_required_def)
qed

lemma item_part_touches:
  assumes i: "item_part env e s = Inr (e', t)" and d: "distinct (map it_id (st_items s))"
  shows "touches (de_tenant e) (de_project e') s t" and "de_tenant e' = de_tenant e"
    and "de_item e \<noteq> [] \<Longrightarrow> \<exists>item \<in> set (st_items s). de_project e' = it_project item"
proof -
  show "de_tenant e' = de_tenant e" using item_part_event [OF i] by auto
  show "\<exists>item \<in> set (st_items s). de_project e' = it_project item" if "de_item e \<noteq> []"
    using i by (cases rule: item_partE) (use that find_item_SomeD in auto)
  show "touches (de_tenant e) (de_project e') s t"
    using i
  proof (cases rule: item_partE)
    case 1
    then show ?thesis by (simp add: touches_refl)
  next
    case (2 item u)
    note it = find_item_SomeD [OF 2(2)]
    have f: "find_item s (it_tenant item) (it_id item) = Some item" using 2(2) it by simp
    from item_event_row [OF 2(5) f d] obtain item' where st: "item_stepped e' item item'"
      and items: "st_items u = update_where (\<lambda>j. it_id j = it_id item) (\<lambda>_. item') (st_items s)" by blast
    have t: "st_items t = st_items u" "st_projects t = st_projects s"
      using 2(6) ensure_package_fields(1,5) applyItemEvent_fields(2) [OF 2(5)] by auto
    have only: "q = item" if "q \<in> set (st_items s)" "it_id q = it_id item" for q
      using key_unique [OF d _ that] it by blast
    have same: "it_tenant item' = it_tenant item" "it_project item' = it_project item"
      "it_archived_at item' = it_archived_at item"
      using st by (simp_all add: item_stepped_def)
    have "status_items t tn k = status_items s tn k" if k: "(tn, k) \<noteq> (de_tenant e, de_project e')" for tn k
      unfolding status_items_def t items
      by (rule arg_cong [where f = "map _"], rule status_items_update [OF _ only k])
        (use same it in \<open>auto simp: 2(3)\<close>)
    moreover have "list_all (\<lambda>i. it_project i \<noteq> []) (st_items t)" if "list_all (\<lambda>i. it_project i \<noteq> []) (st_items s)"
      using that it same by (auto simp: t items list_all_iff set_update_where)
    ultimately show ?thesis by (simp add: touches_def t)
  qed
qed

section \<open>The stored status is the derived one\<close>

lemma derive_stored_idem:
  "DeriveProjectStatus items suppl (DeriveProjectStatus items suppl stored) = DeriveProjectStatus items suppl stored"
proof -
  have "trim_space ProjectStatusPendingDecomposition = ProjectStatusPendingDecomposition" by code_simp
  then show ?thesis by (simp add: DeriveProjectStatus_def Let_def)
qed

lemma derive_stored_unused:
  "items \<noteq> [] \<Longrightarrow> DeriveProjectStatus items suppl stored = DeriveProjectStatus items suppl []"
  by (simp add: DeriveProjectStatus_def)

lemma synced_cong:
  "project_synced s p \<Longrightarrow> status_items t (pj_tenant p) (pj_id p) = status_items s (pj_tenant p) (pj_id p) \<Longrightarrow>
   project_synced t p"
  by (simp add: project_synced_def)

lemma sync_columns:
  assumes y: "syncProjectStatusColumn env tenant key u = Inr t"
    and st: "touches tenant key s u" and d: "distinct (map pj_id (st_projects s))"
  shows "touches tenant key s t" and "st_items t = st_items u"
    and "q \<in> set (st_projects t) \<Longrightarrow> pj_tenant q = tenant \<Longrightarrow> pj_id q = key \<Longrightarrow> project_synced t q"
proof -
  from y obtain project where f: "find_project u tenant key = Some project"
    and t: "t = u\<lparr>st_projects := update_where (project_key tenant key)
      (\<lambda>p. p\<lparr>pj_status := DeriveProjectStatus (status_items u tenant key) (pj_supplement project) (pj_status project),
             pj_progress := DeriveProjectProgress (status_items u tenant key),
             pj_updated_at := env_clock env\<rparr>) (st_projects u)\<rparr>"
    by (auto simp: syncProjectStatusColumn_def Let_def split: option.splits)
  have d: "distinct (map pj_id (st_projects u))" using st d by (simp add: touches_def)
  have same: "status_items t = status_items u" by (intro ext) (simp add: status_items_def t)
  have pr: "project \<in> set (st_projects u)" "project_key tenant key project"
    using f by (auto simp: find_project_def find_Some_iff)
  show "st_items t = st_items u" by (simp add: t)
  have "touches tenant key u t"
    by (auto simp: touches_def status_items_def t map_key_update_where set_update_where project_key_def)
  with st show "touches tenant key s t" by (rule touches_trans)
  assume "q \<in> set (st_projects t)" and k: "pj_tenant q = tenant" "pj_id q = key"
  then obtain p where p: "p \<in> set (st_projects u)" "project_key tenant key p"
    and q: "q = p\<lparr>pj_status := DeriveProjectStatus (status_items u tenant key) (pj_supplement project) (pj_status project),
             pj_progress := DeriveProjectProgress (status_items u tenant key),
             pj_updated_at := env_clock env\<rparr>"
    by (auto simp: t set_update_where project_key_def split: if_splits)
  have "p = project" using key_unique [OF d p(1) pr(1)] p(2) pr(2) by (simp add: project_key_def)
  with k q show "project_synced t q" by (simp add: project_synced_def same Let_def derive_stored_idem)
qed

text \<open>
  What an event leaves: the project it records is derived again, whatever its columns were before,
  and no other project changes.
\<close>

lemma event_columns:
  assumes e: "ApplyDeliveryEvent env event s = Inr t" and d: "distinct (map it_id (st_items s))"
    and pd: "distinct (map pj_id (st_projects s))"
    and np: "list_all (\<lambda>i. it_project i \<noteq> []) (st_items s)"
  obtains tenant key where "touches tenant key s t"
    "er_tenant (last (st_events t)) = tenant" "er_project (last (st_events t)) = key"
    "key \<noteq> [] \<Longrightarrow> \<forall>q \<in> set (st_projects t). pj_tenant q = tenant \<longrightarrow> pj_id q = key \<longrightarrow> project_synced t q"
    "key = [] \<Longrightarrow> st_projects t = st_projects s \<and> status_items t = status_items s"
proof -
  from e obtain e1 e2 s1 s2 where i: "item_part env e1 s = Inr (e2, s1)"
    and p: "project_part env e2 s1 = Inr s2" and t: "record_frame s2 t"
    and ev: "st_events t = st_events s2 @ [event_record e2]"
    by (rule ApplyDeliveryEventE)
  note touch = item_part_touches [OF i d]
  have f: "status_items t = status_items s2" "st_projects t = st_projects s2" "st_items t = st_items s2"
    "project_synced t = project_synced s2"
    by (simp_all add: project_synced_def [abs_def] status_items_def [abs_def] record_frame_fields [OF t])
  have ft: "touches tn k s t = touches tn k s s2" for tn k by (simp add: touches_def f)
  have lst: "er_tenant (last (st_events t)) = de_tenant e2" "er_project (last (st_events t)) = de_project e2"
    by (simp_all add: ev event_record_def)
  show thesis
  proof (cases "de_project e2 = []")
    case True
    with touch(3) np have "de_item e1 = []"
      by (cases "de_item e1 = []") (auto simp: list_all_iff)
    with i p True have "s2 = s" by (simp add: item_part_def project_part_def)
    then have "touches (de_tenant e2) (de_project e2) s t" by (simp add: ft touches_refl)
    with True lst f \<open>s2 = s\<close> that show ?thesis by simp
  next
    case False
    with p obtain project u where find: "find_project s1 (de_tenant e2) (de_project e2) = Some project"
      and a: "applyProjectEvent env project e2 s1 = Inr u"
      and y: "syncProjectStatusColumn env (de_tenant e2) (de_project e2) u = Inr s2"
      by (auto simp: project_part_def res_simps split: option.splits)
    have k: "pj_tenant project = de_tenant e2" "pj_id project = de_project e2"
      using find by (auto simp: find_project_def find_Some_iff project_key_def)
    have "touches (de_tenant e2) (de_project e2) s1 u"
      using applyProjectEvent_touches [OF a] k False by simp
    with touch(1,2) have "touches (de_tenant e2) (de_project e2) s u" by (simp add: touches_trans)
    note c = sync_columns [OF y this pd]
    show ?thesis
      by (rule that [of "de_tenant e2" "de_project e2"]) (use c False lst in \<open>auto simp: ft f\<close>)
  qed
qed

lemma event_projects_inv:
  assumes e: "ApplyDeliveryEvent env event s = Inr t" and d: "distinct (map it_id (st_items s))"
    and inv: "projects_inv s"
  shows "projects_inv t"
proof -
  from inv have pd: "distinct (map pj_id (st_projects s))" and np: "list_all (\<lambda>i. it_project i \<noteq> []) (st_items s)"
    by (simp_all add: projects_inv_def)
  from e d pd np obtain tenant key where touch: "touches tenant key s t"
    and y: "key \<noteq> [] \<Longrightarrow> \<forall>q \<in> set (st_projects t). pj_tenant q = tenant \<longrightarrow> pj_id q = key \<longrightarrow> project_synced t q"
    and n: "key = [] \<Longrightarrow> st_projects t = st_projects s \<and> status_items t = status_items s"
    by (rule event_columns) blast
  have "project_synced t q" if q: "q \<in> set (st_projects t)" for q
  proof (cases "key \<noteq> [] \<and> pj_tenant q = tenant \<and> pj_id q = key")
    case True
    with y q show ?thesis by blast
  next
    case False
    then have "q \<in> set (st_projects s) \<and>
        status_items t (pj_tenant q) (pj_id q) = status_items s (pj_tenant q) (pj_id q)"
      using touch n q by (cases "key = []") (auto simp: touches_def)
    with inv synced_cong show ?thesis by (auto simp: projects_inv_def list_all_iff)
  qed
  with touch inv show ?thesis by (simp add: projects_inv_def touches_def list_all_iff)
qed

lemma other_transactions_projects:
  assumes "execute env tr s = Inr t" and "\<And>event. tr \<noteq> TEvent event"
  shows "st_projects t = st_projects s"
proof (cases tr)
  case (TReportFile tenant itemID revision input now)
  with assms(1) show ?thesis
    by (auto simp: RegisterReportArtifact_def res_simps split: option.splits if_splits
        dest: ensure_frame [THEN same_but_revisions_fields(2)])
next
  case (TPackage item call)
  with assms(1) obtain c where
    "package_commit (it_tenant item) (it_id item) c (pc_user call) (pc_now call) s = Inr t"
    by (auto simp: package_service_def res_simps)
  then show ?thesis by (rule commit_frame)
qed (use assms in simp)

lemma projects_preserved:
  assumes e: "execute env tr s = Inr t" and d: "delivery_inv env s" and inv: "projects_inv s"
  shows "projects_inv t"
proof (cases "\<exists>event. tr = TEvent event")
  case True
  with e d inv show ?thesis
    by (auto simp: delivery_inv_def ledger_ok_def intro: event_projects_inv)
next
  case False
  with other_transactions_items [OF e] other_transactions_projects [OF e] inv
  show ?thesis by (auto simp: projects_inv_def project_synced_def [abs_def] status_items_def)
qed

interpretation synced: transactional "execute env" admissible "\<lambda>s. delivery_inv env s \<and> projects_inv s" for env
  by unfold_locales (blast intro: execute_preserves projects_preserved)

end
