(* ===== verification/EventHistory.thy ===== *)
theory EventHistory
  imports ProjectSync
begin

text \<open>
  The history of events: it only grows; an operation of an offline device is applied once; the
  decisions on rollbacks and report corrections pass four eyes and are taken once
  (\<open>ApplyDeliveryEvent\<close> of \<open>delivery.go\<close> and the validations of \<open>delivery_report.go\<close>).
\<close>

section \<open>The history only grows\<close>

lemma event_history:
  assumes "ApplyDeliveryEvent env event s = Inr t"
  obtains e1 e2 where "direct_review event s = Inr e1" "\<exists>p. e2 = e1\<lparr>de_project := p\<rparr>"
    "st_events t = st_events s @ [event_record e2]"
    "\<exists>s1. item_part env e1 s = Inr (e2, s1)"
proof -
  from assms obtain e1 e2 s1 s2 where e1: "direct_review event s = Inr e1"
    and i: "item_part env e1 s = Inr (e2, s1)" and p: "project_part env e2 s1 = Inr s2"
    and t: "st_events t = st_events s2 @ [event_record e2]"
    by (rule ApplyDeliveryEventE)
  have "st_events s1 = st_events s" using i
    by (cases rule: item_partE) (auto simp: applyItemEvent_fields(3) ensure_package_fields(6))
  then have "st_events t = st_events s @ [event_record e2]"
    using t project_part_fields(6) [OF p] by simp
  with that e1 item_part_event [OF i] i show ?thesis by blast
qed

lemma other_transactions_events:
  assumes "execute env tr s = Inr t" and "\<And>event. tr \<noteq> TEvent event"
  shows "st_events t = st_events s"
proof (cases tr)
  case (TReportFile tenant itemID revision input now)
  with assms(1) show ?thesis
    by (auto simp: RegisterReportArtifact_def res_simps split: option.splits if_splits
        dest: ensure_frame [THEN same_but_revisions_fields(3)])
next
  case (TPackage item call)
  with assms(1) obtain c where
    "package_commit (it_tenant item) (it_id item) c (pc_user call) (pc_now call) s = Inr t"
    by (auto simp: package_service_def res_simps)
  then show ?thesis by (rule commit_frame)
qed (use assms in simp)

lemma execute_history:
  assumes "execute env tr s = Inr t"
  shows "\<exists>es. st_events t = st_events s @ es"
proof (cases tr)
  case (TEvent event)
  with assms show ?thesis by (auto elim: event_history)
qed (use other_transactions_events [OF assms] in auto)

lemma run_history: "\<exists>es. st_events (run_all (execute env) trs s) = st_events s @ es"
proof (induction trs arbitrary: s)
  case (Cons tr trs)
  show ?case
  proof (cases "execute env tr s")
    case (Inr t)
    from execute_history [OF Inr] Cons.IH [of t] Inr show ?thesis by auto
  next
    case (Inl x)
    with Cons.IH [of s] show ?thesis by simp
  qed
qed simp

section \<open>Offline operations\<close>

text \<open>The recorded operation an event of a device repeats.\<close>

definition repeats :: "delivery_event \<Rightarrow> event_row \<Rightarrow> bool" where
  "repeats d e \<longleftrightarrow> er_tenant e = de_tenant d \<and> er_item e = de_item d \<and> er_actor e = de_actor d \<and>
     er_operation e = Some (de_operation d)"

lemma replay_check_find:
  "de_operation d \<noteq> [] \<Longrightarrow> replay_check d s =
     (case find (repeats d) (st_events s) of None \<Rightarrow> Inr ()
      | Some e \<Rightarrow> Inl (if er_type e = de_type d \<and> jsonSemanticallyEqual (er_payload e) (de_payload d)
          then ErrAlreadyApplied else ErrConflict))"
  by (auto simp: replay_check_def repeats_def [abs_def] split: option.splits)

lemma repeats_project [simp]: "repeats (d\<lparr>de_project := p\<rparr>) = repeats d"
  by (intro ext) (simp add: repeats_def)

lemma find_append_Some: "find P xs = None \<Longrightarrow> P x \<Longrightarrow> find P (xs @ x # ys) = Some x"
  by (induction xs) (auto split: if_splits)

text \<open>
  C21. An offline operation is applied once. When a device sends an operation again after it was
  accepted, whatever happened meanwhile, the answer is \<open>ErrAlreadyApplied\<close> for the same content
  and \<open>ErrConflict\<close> for another one, and nothing changes.
\<close>

theorem offline_operation_applied_once:
  assumes "ApplyDeliveryEvent env e s = Inr t"
    and "de_operation e \<noteq> []" and "de_item e \<noteq> []" and "de_type e \<noteq> EventDeviationReviewed"
    and "de_tenant d = de_tenant e" and "de_item d = de_item e" and "de_actor d = de_actor e"
    and "de_operation d = de_operation e"
    and "de_type d \<noteq> EventDeviationReviewed" and "de_type d \<noteq> EventDecompositionAdjusted"
  shows "ApplyDeliveryEvent env d (run_all (execute env) trs t) =
    Inl (if find_item (run_all (execute env) trs t) (de_tenant e) (de_item e) = None then ErrNotFound
         else if de_type e = de_type d \<and> jsonSemanticallyEqual (de_payload e) (de_payload d)
         then ErrAlreadyApplied else ErrConflict)"
proof -
  define u where "u = run_all (execute env) trs t"
  from assms(1) obtain e2 s1 p where e2: "e2 = e\<lparr>de_project := p\<rparr>"
    and h: "st_events t = st_events s @ [event_record e2]" and i: "item_part env e s = Inr (e2, s1)"
    using assms(4) by (elim event_history) (auto simp: direct_review_def)
  have rep: "repeats d = repeats e" using assms(5-8) by (intro ext) (simp add: repeats_def)
  have "replay_check e2 s = Inr ()" using i by (cases rule: item_partE) (use assms(3) in simp_all)
  then have none: "find (repeats d) (st_events s) = None"
    using replay_check_find [of e2 s] assms(2) rep by (auto simp: e2 split: option.splits)
  obtain es where "st_events u = st_events s @ event_record e2 # es"
    using run_history [of env trs t] h by (auto simp: u_def)
  moreover have "repeats d (event_record e2)"
    using assms(2) by (simp add: rep e2 repeats_def event_record_def)
  ultimately have found: "find (repeats d) (st_events u) = Some (event_record e2)"
    using find_append_Some [OF none] by simp
  have "supplement_check d u = Inr ()" using assms(10) by (simp add: supplement_check_def)
  moreover have "direct_review d u = Inr d" using assms(9) by (simp add: direct_review_def)
  moreover have "item_part env d u = Inl (if find_item u (de_tenant e) (de_item e) = None then ErrNotFound
         else if de_type e = de_type d \<and> jsonSemanticallyEqual (de_payload e) (de_payload d)
         then ErrAlreadyApplied else ErrConflict)"
  proof (cases "find_item u (de_tenant e) (de_item e)")
    case None
    then show ?thesis using assms(3,5,6) by (simp add: item_part_def)
  next
    case (Some item)
    have "replay_check (d\<lparr>de_project := it_project item\<rparr>) u =
        Inl (if de_type e = de_type d \<and> jsonSemanticallyEqual (de_payload e) (de_payload d)
         then ErrAlreadyApplied else ErrConflict)"
      using assms(2,8) by (subst replay_check_find) (simp_all add: found e2 event_record_def)
    with Some show ?thesis using assms(3,5,6) by (simp add: item_part_def Let_def)
  qed
  ultimately show ?thesis by (simp add: ApplyDeliveryEvent_def u_def)
qed

text \<open>A field record sent three times by a tablet, the last time with another content.\<close>

definition field_store :: store where
  "field_store = empty_store\<lparr>st_items := [sample_item\<lparr>it_status := ProjectStatusInProgress\<rparr>],
     st_projects := [sample_project]\<rparr>"

definition field_record :: "string \<Rightarrow> string \<Rightarrow> delivery_event" where
  "field_record i note = (sample_event i EventFieldRecordSubmitted ''eng''
     [(''note'', JStr note)])\<lparr>de_operation := ''op-1''\<rparr>"

theorem offline_operation_applied_once_witness:
  "\<exists>t. ApplyDeliveryEvent sample_env (field_record ''E1'' ''a'') field_store = Inr t \<and>
     ApplyDeliveryEvent sample_env (field_record ''E2'' ''a'') t = Inl ErrAlreadyApplied \<and>
     ApplyDeliveryEvent sample_env (field_record ''E3'' ''b'') t = Inl ErrConflict"
proof -
  have "case ApplyDeliveryEvent sample_env (field_record ''E1'' ''a'') field_store of Inl _ \<Rightarrow> False
     | Inr t \<Rightarrow> find_item t ''T1'' ''SI-1'' \<noteq> None" by code_simp
  then obtain t where t: "ApplyDeliveryEvent sample_env (field_record ''E1'' ''a'') field_store = Inr t"
    and i: "find_item t ''T1'' ''SI-1'' \<noteq> None" by (auto split: sum.splits)
  have same: "jsonSemanticallyEqual [(''note'', JStr ''a'')] [(''note'', JStr ''a'')]"
    "\<not> jsonSemanticallyEqual [(''note'', JStr ''a'')] [(''note'', JStr ''b'')]" by code_simp+
  note replay = offline_operation_applied_once [OF t, where trs = "[]"]
  have "ApplyDeliveryEvent sample_env (field_record ''E2'' ''a'') t = Inl ErrAlreadyApplied"
    using replay [of "field_record ''E2'' ''a''"] i same by (simp add: field_record_def sample_event_def)
  moreover have "ApplyDeliveryEvent sample_env (field_record ''E3'' ''b'') t = Inl ErrConflict"
    using replay [of "field_record ''E3'' ''b''"] i same by (simp add: field_record_def sample_event_def)
  ultimately show ?thesis using t by blast
qed

section \<open>Decisions on requests\<close>

text \<open>
  The decisions on a request of a kind. The transaction checks those that act: the approval of a
  rollback, its withdrawal, the approval of a correction; a rejection it only records. A decision of
  the application names an item, and the request by its identifier.
\<close>

definition request_of :: "payload \<Rightarrow> string" where
  "request_of p = raw_string p ''request_id''"

fun deciding :: "event_type \<Rightarrow> event_type option" where
  "deciding EventRollbackApproved = Some EventRollbackRequested"
| "deciding EventRollbackWithdrawn = Some EventRollbackRequested"
| "deciding EventReportCorrectionApproved = Some EventReportCorrectionRequested"
| "deciding EventRollbackRejected = Some EventRollbackRequested"
| "deciding EventReportCorrectionRejected = Some EventReportCorrectionRequested"
| "deciding _ = None"

definition rejecting :: "event_type \<Rightarrow> bool" where
  "rejecting ty \<longleftrightarrow> ty = EventRollbackRejected \<or> ty = EventReportCorrectionRejected"

definition decision_ok :: "delivery_event \<Rightarrow> bool" where
  "decision_ok e \<longleftrightarrow>
     (deciding (de_type e) \<noteq> None \<and> \<not> rejecting (de_type e) \<longrightarrow>
        de_item e \<noteq> [] \<and> trim_space (request_of (de_payload e)) = request_of (de_payload e))"

fun orderly :: "transaction \<Rightarrow> bool" where
  "orderly (TEvent e) = decision_ok e"
| "orderly _ = True"

text \<open>
  What an approval or a withdrawal found when it was taken: the request, its author, and no
  decision on it, rejections included.
\<close>

definition decided_on :: "event_row list \<Rightarrow> event_row \<Rightarrow> bool" where
  "decided_on before a \<longleftrightarrow>
     (\<forall>kind. deciding (er_type a) = Some kind \<and> \<not> rejecting (er_type a) \<longrightarrow>
        (\<exists>r \<in> set before. er_type r = kind \<and> er_tenant r = er_tenant a \<and> er_item r = er_item a \<and>
           er_id r = request_of (er_payload a) \<and>
           (er_actor r = er_actor a \<longleftrightarrow> er_type a = EventRollbackWithdrawn)) \<and>
        (\<forall>b \<in> set before. deciding (er_type b) = Some kind \<and> er_tenant b = er_tenant a \<longrightarrow>
           request_of (er_payload b) \<noteq> request_of (er_payload a)))"

fun orderly_history :: "event_row list \<Rightarrow> event_row list \<Rightarrow> bool" where
  "orderly_history before [] = True"
| "orderly_history before (e # es) = (decided_on before e \<and> orderly_history (before @ [e]) es)"

lemma orderly_history_append:
  "orderly_history before (xs @ [a]) \<longleftrightarrow> orderly_history before xs \<and> decided_on (before @ xs) a"
  by (induction xs arbitrary: before) auto

lemma find_requestD:
  "find_request s item kind r = Some e \<Longrightarrow> e \<in> set (st_events s) \<and> er_tenant e = it_tenant item \<and>
     er_id e = r \<and> er_item e = it_id item \<and> er_type e = kind"
  by (auto simp: find_request_def find_Some_iff)

lemma no_decisionsD:
  "decisions s tenant kinds r = [] \<Longrightarrow> b \<in> set (st_events s) \<Longrightarrow> List.member kinds (er_type b) \<Longrightarrow>
     er_tenant b = tenant \<Longrightarrow> request_of (er_payload b) \<noteq> r"
  by (auto simp: decisions_def filter_empty_conv request_of_def)

lemma deciding_kinds:
  "deciding ty = Some EventRollbackRequested \<Longrightarrow> List.member rollback_decisions ty"
  "deciding ty = Some EventReportCorrectionRequested \<Longrightarrow> List.member correction_decisions ty"
  by (cases ty; simp add: rollback_decisions_def correction_decisions_def)+

lemma branch_decided:
  assumes b: "item_branch env item e s (de_type e) = Inr (u, w)" and ok: "decision_ok e"
    and it: "it_tenant item = de_tenant e" "it_id item = de_item e"
  shows "decided_on (st_events s) (event_record e)"
proof -
  have r: "stringValue (de_payload e) ''request_id'' = request_of (de_payload e)" if "deciding (de_type e) \<noteq> None" "\<not> rejecting (de_type e)"
    using ok that by (simp add: decision_ok_def stringValue_def request_of_def)
  show ?thesis
  proof (cases "de_type e")
    case EventRollbackApproved
    with b obtain q where "find_request s item EventRollbackRequested (request_of (de_payload e)) = Some q"
      and "er_actor q \<noteq> de_actor e" and "decisions s (it_tenant item) rollback_decisions (request_of (de_payload e)) = []"
      using r by (auto simp: rejecting_def rollback_approved_def validateRollbackApproval_def Let_def res_simps
          split: if_splits option.splits)
    with EventRollbackApproved show ?thesis
      using find_requestD no_decisionsD deciding_kinds(1) it
      by (fastforce simp: decided_on_def event_record_def rejecting_def)
  next
    case EventRollbackWithdrawn
    with b obtain q where "find_request s item EventRollbackRequested (request_of (de_payload e)) = Some q"
      and "er_actor q = de_actor e" and "decisions s (it_tenant item) rollback_decisions (request_of (de_payload e)) = []"
      using r by (auto simp: rejecting_def rollback_withdrawn_def validateRollbackWithdrawal_def Let_def res_simps
          split: if_splits option.splits)
    with EventRollbackWithdrawn show ?thesis
      using find_requestD no_decisionsD deciding_kinds(1) it
      by (fastforce simp: decided_on_def event_record_def rejecting_def)
  next
    case EventReportCorrectionApproved
    with b obtain q where "find_request s item EventReportCorrectionRequested (request_of (de_payload e)) = Some q"
      and "er_actor q \<noteq> de_actor e" and "decisions s (it_tenant item) correction_decisions (request_of (de_payload e)) = []"
      using r by (auto simp: rejecting_def correction_approved_def validateReportCorrectionApproval_def Let_def res_simps
          split: if_splits option.splits)
    with EventReportCorrectionApproved show ?thesis
      using find_requestD no_decisionsD deciding_kinds(2) it
      by (fastforce simp: decided_on_def event_record_def rejecting_def)
  qed (simp_all add: decided_on_def event_record_def rejecting_def)
qed

lemma event_decided:
  assumes "ApplyDeliveryEvent env event s = Inr t" and ok: "decision_ok event"
  shows "\<exists>a. st_events t = st_events s @ [a] \<and> decided_on (st_events s) a"
proof -
  from assms(1) obtain e1 e2 s1 where e1: "direct_review event s = Inr e1"
    and e2: "\<exists>p. e2 = e1\<lparr>de_project := p\<rparr>"
    and h: "st_events t = st_events s @ [event_record e2]" and i: "item_part env e1 s = Inr (e2, s1)"
    by (rule event_history) blast
  have "decided_on (st_events s) (event_record e2)"
  proof (cases "deciding (de_type event) = None \<or> rejecting (de_type event)")
    case True
    then show ?thesis using direct_review_type [OF e1] e2 by (auto simp: decided_on_def event_record_def)
  next
    case Some: False
    then have "event = e1" using e1 by (auto simp: direct_review_def split: if_splits)
    with i ok Some show ?thesis
    proof (cases rule: item_partE)
      case (2 item u)
      have it: "it_tenant item = de_tenant e2" "it_id item = de_item e2"
        using find_item_SomeD [OF 2(2)] 2(3) by simp_all
      have "decision_ok e2" using ok \<open>event = e1\<close> by (simp add: 2(3) decision_ok_def)
      with 2(5) it show ?thesis
        by (cases rule: applyItemEventE) (auto intro: branch_decided)
    qed (simp_all add: decision_ok_def)
  qed
  with h show ?thesis by blast
qed

interpretation history: transactional "execute env" orderly "\<lambda>s. orderly_history [] (st_events s)" for env
proof
  fix s tr t
  assume h: "orderly_history [] (st_events s)" and "orderly tr" and e: "execute env tr s = Inr t"
  show "orderly_history [] (st_events t)"
  proof (cases tr)
    case (TEvent event)
    with e \<open>orderly tr\<close> have "\<exists>a. st_events t = st_events s @ [a] \<and> decided_on (st_events s) a"
      by (intro event_decided) simp_all
    with h show ?thesis by (auto simp: orderly_history_append)
  qed (use other_transactions_events [OF e] h in auto)
qed

lemma orderly_nth: "orderly_history before es \<Longrightarrow> n < length es \<Longrightarrow> decided_on (before @ take n es) (es ! n)"
proof (induction es arbitrary: before n)
  case (Cons e es)
  show ?case
  proof (cases n)
    case (Suc k)
    with Cons.IH [of "before @ [e]" k] Cons.prems show ?thesis by simp
  qed (use Cons.prems in simp)
qed simp

text \<open>
  C13. Rollbacks and corrections pass four eyes, and act once. In the history after any run, every
  approval comes after its request, of the same item and by another person; a withdrawal comes after
  its request, by the same person; and before an approval or a withdrawal nobody has decided on the
  request in any way, be it approved, rejected or withdrawn. (A rejection is recorded without these
  checks, so it may follow another decision.)
\<close>

theorem requests_decided_once_by_another:
  assumes "orderly_history [] (st_events s)" and "list_all orderly trs"
    and "h = st_events (run_all (execute env) trs s)"
    and "n < length h" and "deciding (er_type (h ! n)) = Some kind" and "\<not> rejecting (er_type (h ! n))"
  shows "(\<exists>m<n. er_type (h ! m) = kind \<and> er_item (h ! m) = er_item (h ! n) \<and>
      er_id (h ! m) = request_of (er_payload (h ! n)) \<and>
      (er_actor (h ! m) = er_actor (h ! n) \<longleftrightarrow> er_type (h ! n) = EventRollbackWithdrawn)) \<and>
    (\<forall>m<n. deciding (er_type (h ! m)) = Some kind \<longrightarrow> er_tenant (h ! m) = er_tenant (h ! n) \<longrightarrow>
      request_of (er_payload (h ! m)) \<noteq> request_of (er_payload (h ! n)))"
proof -
  have "orderly_history [] h" using history.run_inv [of s trs env] assms by (simp add: list_all_iff)
  from orderly_nth [OF this assms(4)] have d: "decided_on (take n h) (h ! n)" by simp
  have in_take: "x \<in> set (take n h) \<longleftrightarrow> (\<exists>m<n. x = h ! m)" for x
    using assms(4) by (auto simp: in_set_conv_nth)
  from d assms(5,6) have "(\<exists>r \<in> set (take n h). er_type r = kind \<and> er_item r = er_item (h ! n) \<and>
      er_id r = request_of (er_payload (h ! n)) \<and>
      (er_actor r = er_actor (h ! n) \<longleftrightarrow> er_type (h ! n) = EventRollbackWithdrawn)) \<and>
    (\<forall>b \<in> set (take n h). deciding (er_type b) = Some kind \<longrightarrow> er_tenant b = er_tenant (h ! n) \<longrightarrow>
      request_of (er_payload b) \<noteq> request_of (er_payload (h ! n)))"
    unfolding decided_on_def by blast
  then show ?thesis unfolding Bex_def Ball_def in_take by blast
qed

text \<open>A rollback of the field work: requested, approved, and approved again.\<close>

definition rollback_event :: "string \<Rightarrow> event_type \<Rightarrow> string \<Rightarrow> delivery_event" where
  "rollback_event i ty actor = sample_event i ty actor
     [(''request_id'', JStr ''R1''), (''kind'', JStr ''FIELD_TO_PREPARATION'')]"

definition rollback_run :: "transaction list" where
  "rollback_run =
     [TEvent (sample_event ''R1'' EventRollbackRequested ''eng'' [(''kind'', JStr ''FIELD_TO_PREPARATION'')]),
      TEvent (rollback_event ''E1'' EventRollbackApproved ''eng''),
      TEvent (rollback_event ''E2'' EventRollbackApproved ''lead''),
      TEvent (sample_event ''E3'' EventFieldStarted ''eng'' []),
      TEvent (rollback_event ''E4'' EventRollbackApproved ''lead'')]"

theorem requests_decided_once_by_another_witness:
  "map er_id (st_events (run_all (execute sample_env) rollback_run field_store)) = [''R1'', ''E2'', ''E3''] \<and>
   er_actor (st_events (run_all (execute sample_env) rollback_run field_store) ! 0) \<noteq> ''lead''"
proof
  define h where "h = st_events (run_all (execute sample_env) rollback_run field_store)"
  show ids: "map er_id (st_events (run_all (execute sample_env) rollback_run field_store)) = [''R1'', ''E2'', ''E3'']"
    by code_simp
  have "orderly_history [] (st_events field_store)"
    by (simp_all add: field_store_def empty_store_def)
  moreover have "list_all orderly rollback_run" by code_simp
  moreover have "deciding (er_type (h ! 1)) = Some EventRollbackRequested" "er_type (h ! 1) = EventRollbackApproved"
    "er_actor (h ! 1) = ''lead''" "\<not> rejecting (er_type (h ! 1))" unfolding h_def by code_simp+
  moreover have "1 < length h" using ids [folded h_def] by (cases h; cases "tl h") auto
  ultimately have "\<exists>m<1. er_actor (h ! m) \<noteq> ''lead''"
    using requests_decided_once_by_another [OF _ _ h_def, of 1 EventRollbackRequested] by auto
  then show "er_actor (st_events (run_all (execute sample_env) rollback_run field_store) ! 0) \<noteq> ''lead''"
    by (simp add: h_def)
qed

end
