(* ===== verification/Identifiers.thy ===== *)
theory Identifiers
  imports Delivery
begin

text \<open>
  Identifiers of service items (\<open>serviceItemIDFor\<close>, \<open>serviceItemSequence\<close> and the decomposition in
  \<open>infrastructure/mysql/delivery_events.go\<close>): a number read back from an identifier is the one it
  was made from, and the server's numbering of a decomposition always finds free identifiers.
\<close>

section \<open>Trimming leaves visible ASCII text\<close>

definition visible :: "char \<Rightarrow> bool" where
  "visible c \<longleftrightarrow> (of_char c :: int) < 128 \<and> \<not> space1 c"

lemma visible_no_space:
  assumes "visible c"
  shows "\<not> space1 c" "\<not> space2 c d" "\<not> space2 d c" "\<not> space3 c d e" "\<not> space3 e d c"
  using assms by (auto simp: visible_def space2_def space3_def)

lemma trim_left_visible: "visible c \<Longrightarrow> trim_left (c # s) = c # s"
  by (cases s; cases "tl s") (auto simp: visible_no_space)

lemma trim_rev_visible: "visible c \<Longrightarrow> trim_rev (c # s) = c # s"
  by (cases s; cases "tl s") (auto simp: visible_no_space)

lemma trim_space_visible:
  assumes "s \<noteq> []" and "visible (hd s)" and "visible (last s)"
  shows "trim_space s = s"
proof -
  have "trim_left s = s" using assms(1,2) trim_left_visible [of "hd s" "tl s"] by simp
  moreover have r: "rev s = last s # rev (butlast s)"
    using assms(1) by (metis append_butlast_last_id rev.simps(2) rev_append rev_rev_ident rev_singleton_conv append_Cons append_Nil)
  have "trim_rev (rev s) = rev s" unfolding r by (rule trim_rev_visible [OF assms(3)])
  ultimately show ?thesis by (simp add: trim_space_def)
qed

section \<open>The last part of an identifier\<close>

lemma split_no_sep:
  "c \<notin> set s \<Longrightarrow> split_on_acc [c] 0 acc s = [rev acc @ s]"
  by (induction s arbitrary: acc) auto

lemma split_nonempty: "split_on_acc sep k acc s \<noteq> []"
  by (induction sep k acc s rule: split_on_acc.induct) auto

lemma last_split_acc:
  assumes "c \<notin> set digits"
  shows "last (split_on_acc [c] 0 acc (pre @ c # digits)) = digits"
proof (induction pre arbitrary: acc)
  case Nil
  show ?case using split_no_sep [OF assms, of "[]"] by simp
next
  case (Cons p pre)
  then show ?case using split_nonempty by auto
qed

lemma last_split_on: "c \<notin> set digits \<Longrightarrow> last (split_on (pre @ c # digits) [c]) = digits"
  unfolding split_on_def by (rule last_split_acc)

lemma digit_visible: "digit_val c \<noteq> None \<Longrightarrow> visible c \<and> c \<noteq> CHR ''-''"
  by (auto simp: digit_val_def visible_def space1_def Let_def split: if_splits)

lemma show_int3_digits:
  assumes "0 \<le> n"
  shows "show_int3 n \<noteq> []" "c \<in> set (show_int3 n) \<Longrightarrow> digit_val c \<noteq> None"
  using assms set_show_nat3 [of c "nat n"] digits_val_show3 [of "nat n"]
  by (auto simp: show_int3_def show_nat3_def Let_def)

lemma item_sequence_of_id:
  assumes "0 \<le> n" and "n \<le> max_int64"
  shows "serviceItemSequence (serviceItemIDFor p n) = n"
proof -
  let ?d = "show_int3 n"
  note d = show_int3_digits [OF assms(1)]
  have id: "serviceItemIDFor p n = (''SI-'' @ trim_prefix ''PJ-'' p) @ CHR ''-'' # ?d"
    by (simp add: serviceItemIDFor_def)
  have "last (serviceItemIDFor p n) \<in> set ?d" using d(1) by (simp add: id)
  then have "visible (last (serviceItemIDFor p n))" using d(2) digit_visible by blast
  moreover have "visible (hd (serviceItemIDFor p n))" by (simp add: id visible_def space1_def)
  ultimately have t: "trim_space (serviceItemIDFor p n) = serviceItemIDFor p n"
    by (intro trim_space_visible) (simp_all add: id)
  have "CHR ''-'' \<notin> set ?d" using d(2) digit_visible by blast
  then have "last (split_on (trim_space (serviceItemIDFor p n)) ''-'') = ?d"
    by (subst t, subst id, rule last_split_on)
  moreover have "Atoi ?d = Some n" using assms Atoi_show3 [of "nat n"] by (simp add: show_int3_def)
  ultimately show ?thesis using assms(1) by (simp add: serviceItemSequence_def)
qed

text \<open>
  C23. Item numbers round trip. The sequence read back from an identifier the system made is the
  one it was made from, whatever the project.
\<close>

theorem service_item_id_round_trip:
  assumes "0 \<le> n" and "n \<le> max_int64"
  shows "serviceItemSequence (serviceItemIDFor p n) = n"
  using assms by (rule item_sequence_of_id)

theorem service_item_id_round_trip_witness:
  "serviceItemSequence (serviceItemIDFor ''PJ-2024-17'' 1234) = 1234"
  by (rule service_item_id_round_trip) (simp_all add: max_int64_def)

section \<open>Numbering of a decomposition\<close>

lemma service_item_id_inject:
  "serviceItemIDFor p m = serviceItemIDFor p n \<Longrightarrow> 0 \<le> m \<Longrightarrow> m \<le> max_int64 \<Longrightarrow> 0 \<le> n \<Longrightarrow> n \<le> max_int64 \<Longrightarrow> m = n"
  using item_sequence_of_id [of m p] item_sequence_of_id [of n p] by metis

lemma max_sequence_ge: "0 \<le> max_sequence items"
proof -
  have "m \<le> fold (\<lambda>i m. max (serviceItemSequence (it_id i)) m) items m" for m
    by (induction items arbitrary: m) (auto intro: order_trans [OF max.cobounded2])
  then show ?thesis by (simp add: max_sequence_def)
qed

definition numbered_items ::
  "project_row \<Rightarrow> delivery_event \<Rightarrow> int \<Rightarrow> nat \<Rightarrow> item_spec list \<Rightarrow> service_item list" where
  "numbered_items project event m k sps =
     map (\<lambda>(j, sp). item_of_spec project event (serviceItemIDFor (pj_id project) (m + int j + 1)) sp)
       (enumerate k sps)"

lemma numbered_insert:
  assumes "list_all (\<lambda>sp. blank (sp_id sp)) sps" and "0 \<le> m" and "m + int k + int (length sps) \<le> max_int64"
    and "\<forall>r \<in> set rows. \<forall>n. m + int k < n \<longrightarrow> n \<le> max_int64 \<longrightarrow> it_id r \<noteq> serviceItemIDFor (pj_id project) n"
  shows "insert_items project event m k sps rows = Inr (rows @ numbered_items project event m k sps)"
  using assms
proof (induction sps arbitrary: k rows)
  case (Cons sp sps)
  define n where "n = m + int k + 1"
  have n: "0 \<le> n" "n \<le> max_int64" "m + int k < n" using Cons.prems(2,3) by (simp_all add: n_def)
  have w: "wrap_int (m + int k + 1) = n" using n by (simp add: n_def)
  have fresh: "\<not> list_ex (\<lambda>r. it_id r = serviceItemIDFor (pj_id project) n) rows"
    using Cons.prems(4) n by (auto simp: list_ex_iff)
  let ?new = "item_of_spec project event (serviceItemIDFor (pj_id project) n) sp"
  have "insert_items project event m (Suc k) sps (rows @ [?new]) =
      Inr ((rows @ [?new]) @ numbered_items project event m (Suc k) sps)"
  proof (rule Cons.IH)
    show "\<forall>r \<in> set (rows @ [?new]). \<forall>q. m + int (Suc k) < q \<longrightarrow> q \<le> max_int64 \<longrightarrow>
        it_id r \<noteq> serviceItemIDFor (pj_id project) q"
      using Cons.prems(4) n by (auto simp: n_def dest: service_item_id_inject)
  qed (use Cons.prems in simp_all)
  with fresh w Cons.prems(1) show ?case by (simp add: numbered_items_def n_def Let_def)
qed (simp add: numbered_items_def)

definition live_maximum :: "project_row \<Rightarrow> store \<Rightarrow> int" where
  "live_maximum project s = max_sequence (filter (project_item project) (st_items s))"

text \<open>No row, archived ones included, has a number of the project above those of its live items.\<close>

definition numbers_below :: "project_row \<Rightarrow> store \<Rightarrow> bool" where
  "numbers_below project s \<longleftrightarrow>
     (\<forall>r \<in> set (st_items s). \<forall>n. live_maximum project s < n \<longrightarrow> n \<le> max_int64 \<longrightarrow>
        it_id r \<noteq> serviceItemIDFor (pj_id project) n)"

lemma numbered_ids:
  "map it_id (numbered_items project event m k sps) =
     map (\<lambda>j. serviceItemIDFor (pj_id project) (m + int j + 1)) [k..<k + length sps]"
  by (induction sps arbitrary: k) (simp_all add: numbered_items_def upt_conv_Cons del: upt_Suc)

lemma max_sequence_numbered:
  assumes "0 \<le> m" and "m + int k + int (length sps) \<le> max_int64" and "b \<le> m + int k" and "0 \<le> b"
  shows "fold (\<lambda>i m. max (serviceItemSequence (it_id i)) m) (numbered_items project event m k sps) b =
    (if sps = [] then b else m + int k + int (length sps))"
  using assms
proof (induction sps arbitrary: k b)
  case (Cons sp sps)
  have "serviceItemSequence (serviceItemIDFor (pj_id project) (m + int k + 1)) = m + int k + 1"
    using Cons.prems by (intro item_sequence_of_id) simp_all
  then show ?case using Cons.IH [of "Suc k" "m + int k + 1"] Cons.prems
    by (simp add: numbered_items_def max_def)
qed (simp add: numbered_items_def)

text \<open>
  C22. A decomposition without identifiers always finds free numbers. It succeeds, numbers the new
  items in their order directly after the live ones, and leaves the numbering such that the next
  one succeeds too, archived rows notwithstanding.
\<close>

theorem decomposition_numbers_are_fresh:
  assumes "list_all (\<lambda>i. project_item project i \<longrightarrow>
      it_status i = ServiceItemStatusPendingConfirm \<or> it_status i = ServiceItemStatusPendingReview) (st_items s)"
    and "json_list decode_item_spec (jsonValue (de_payload e) ''service_items'') = Some specs" and "specs \<noteq> []"
    and "list_all (\<lambda>sp. blank (sp_id sp)) specs"
    and "numbers_below project s" and "live_maximum project s + int (length specs) \<le> max_int64"
  shows "\<exists>t. adjust_decomposition env project e s = Inr (t, length specs) \<and>
    map it_id (filter (project_item project) (st_items t)) =
      map (\<lambda>j. serviceItemIDFor (pj_id project) (live_maximum project s + int j + 1)) [0..<length specs] \<and>
    live_maximum project t = live_maximum project s + int (length specs) \<and> numbers_below project t"
proof -
  let ?m = "live_maximum project s"
  let ?old = "update_where (project_item project) (\<lambda>i. i\<lparr>it_archived_at := Some (env_clock env)\<rparr>) (st_items s)"
  let ?new = "numbered_items project e ?m 0 specs"
  let ?t = "s\<lparr>st_items := ?old @ ?new\<rparr>"
  have m: "0 \<le> ?m" by (simp add: live_maximum_def max_sequence_ge)
  have ids: "set (map it_id ?old) = set (map it_id (st_items s))"
    by (subst map_key_update_where) simp_all
  have old: "it_id r \<noteq> serviceItemIDFor (pj_id project) n"
    if "r \<in> set ?old" "?m < n" "n \<le> max_int64" for r n
  proof -
    from that(1) ids obtain q where "q \<in> set (st_items s)" "it_id q = it_id r"
      by (metis (no_types, lifting) image_iff list.set_map)
    with assms(5) that(2,3) show ?thesis by (auto simp: numbers_below_def)
  qed
  have "insert_items project e ?m 0 specs ?old = Inr (?old @ ?new)"
    by (rule numbered_insert) (use assms(4,6) m old in simp_all)
  moreover have "count_where (\<lambda>i. project_item project i \<and>
               it_status i \<noteq> ServiceItemStatusPendingConfirm \<and>
               it_status i \<noteq> ServiceItemStatusPendingReview) (st_items s) = 0"
    using assms(1) by (auto simp: count_where_def filter_empty_conv list_all_iff)
  ultimately have t: "adjust_decomposition env project e s = Inr (?t, length specs)"
    using assms(2,3) by (simp add: adjust_decomposition_def live_maximum_def)
  have "filter (project_item project) ?old = []"
    by (auto simp: filter_empty_conv set_update_where project_item_def item_live_def)
  moreover have "filter (project_item project) ?new = ?new"
    by (auto simp: filter_id_conv numbered_items_def project_item_def item_live_def item_of_spec_def
        dest!: in_set_enumerate_eq [THEN iffD1])
  ultimately have live: "filter (project_item project) (st_items ?t) = ?new" by simp
  have mt: "live_maximum project ?t = ?m + int (length specs)"
    using max_sequence_numbered [of ?m 0 specs 0 project e] m assms(3,6)
    unfolding live_maximum_def [of project ?t] live max_sequence_def by simp
  have "numbers_below project ?t"
  proof -
    have "it_id r \<noteq> serviceItemIDFor (pj_id project) n"
      if r: "r \<in> set ?new" and n: "?m + int (length specs) < n" "n \<le> max_int64" for r n
    proof
      assume same: "it_id r = serviceItemIDFor (pj_id project) n"
      from r have "it_id r \<in> set (map it_id ?new)" by simp
      then obtain j where "j < length specs" "it_id r = serviceItemIDFor (pj_id project) (?m + int j + 1)"
        by (auto simp: numbered_ids)
      with same service_item_id_inject [of "pj_id project" "?m + int j + 1" n] m n show False by simp
    qed
    with old mt show ?thesis by (auto simp: numbers_below_def)
  qed
  with t live mt numbered_ids [of project e ?m 0 specs] show ?thesis by simp
qed

definition numbered_store :: store where
  "numbered_store = empty_store\<lparr>st_items :=
     [sample_item\<lparr>it_id := serviceItemIDFor ''PJ-1'' 1, it_status := ServiceItemStatusPendingConfirm\<rparr>],
     st_projects := [sample_project]\<rparr>"

definition two_items :: delivery_event where
  "two_items = (sample_event ''E1'' EventDecompositionAdjusted ''pm''
     [(''service_items'', JArr [JObj [(''site'', JStr ''a'')], JObj [(''site'', JStr ''b'')]])])\<lparr>de_item := []\<rparr>"

theorem decomposition_numbers_are_fresh_witness:
  "\<exists>t. adjust_decomposition sample_env sample_project two_items numbered_store = Inr (t, 2) \<and>
     map it_id (filter (project_item sample_project) (st_items t)) =
       [serviceItemIDFor ''PJ-1'' 2, serviceItemIDFor ''PJ-1'' 3]"
proof -
  have pending: "list_all (\<lambda>i. project_item sample_project i \<longrightarrow>
      it_status i = ServiceItemStatusPendingConfirm \<or> it_status i = ServiceItemStatusPendingReview)
      (st_items numbered_store)" by code_simp
  have m: "live_maximum sample_project numbered_store = 1" by code_simp
  have "case json_list decode_item_spec (jsonValue (de_payload two_items) ''service_items'') of None \<Rightarrow> False
     | Some specs \<Rightarrow> length specs = 2 \<and> list_all (\<lambda>sp. blank (sp_id sp)) specs" by code_simp
  then obtain specs where specs: "json_list decode_item_spec (jsonValue (de_payload two_items) ''service_items'') = Some specs"
    "length specs = 2" "list_all (\<lambda>sp. blank (sp_id sp)) specs"
    by (auto split: option.splits)
  have below: "numbers_below sample_project numbered_store"
    unfolding numbers_below_def m
    by (auto simp: numbered_store_def sample_project_def max_int64_def dest: service_item_id_inject)
  have pj: "pj_id sample_project = ''PJ-1''" by (simp add: sample_project_def)
  have small: "live_maximum sample_project numbered_store + int (length specs) \<le> max_int64"
    by (simp add: m specs(2) max_int64_def)
  from specs(2) have "specs \<noteq> []" by auto
  from decomposition_numbers_are_fresh [OF pending specs(1) this specs(3) below small, of sample_env]
  show ?thesis by (auto simp: m specs(2) pj upt_rec)
qed

end
