(* ===== verification/Leases.thy ===== *)
theory Leases
  imports GoTime
begin

text \<open>
  The contract of a table of jobs that workers take under a lease, shared by the notification
  outbox and the effects outbox: the states of a job as an abstract machine, and the interface of
  a table whose operations follow it.
\<close>

section \<open>The states of a job\<close>

datatype job_state = Waiting | Held string instant | Finished

text \<open>
  One call of a worker at a moment. A worker takes a waiting job, or one whose lease is over; only
  the holder, while its lease lasts, finishes the job or puts it back.
\<close>

inductive job_moves :: "string \<Rightarrow> instant \<Rightarrow> job_state \<Rightarrow> job_state \<Rightarrow> bool" for w now where
  stay: "job_moves w now j j"
| take_waiting: "now < until \<Longrightarrow> job_moves w now Waiting (Held w until)"
| take_over: "u \<le> now \<Longrightarrow> now < until \<Longrightarrow> job_moves w now (Held v u) (Held w until)"
| finish: "now < u \<Longrightarrow> job_moves w now (Held w u) Finished"
| put_back: "now < u \<Longrightarrow> job_moves w now (Held w u) Waiting"

inductive_cases job_movesE: "job_moves w now j j'"

lemma finished_stays: "job_moves w now Finished j \<Longrightarrow> j = Finished"
  by (auto elim: job_movesE)

lemma held_by_other: "job_moves w now (Held v u) j \<Longrightarrow> w \<noteq> v \<Longrightarrow> now < u \<Longrightarrow> j = Held v u"
  by (auto elim: job_movesE)

lemma only_holder_ends:
  "job_moves w now j j' \<Longrightarrow> j' = Finished \<Longrightarrow> j \<noteq> Finished \<Longrightarrow> \<exists>u. j = Held w u \<and> now < u"
  by (auto elim: job_movesE)

section \<open>A table of leased jobs\<close>

text \<open>
  \<open>job s k\<close> is the state of the job with key \<open>k\<close>, \<open>None\<close> where there is none; \<open>worker\<close> and \<open>moment\<close>
  are who calls and when. The provider promises that a call moves every job along the machine and
  loses none.
\<close>

locale leased_table =
  fixes step :: "'c \<Rightarrow> 's \<Rightarrow> 'e + 's"
    and job :: "'s \<Rightarrow> 'k \<Rightarrow> job_state option"
    and worker :: "'c \<Rightarrow> string"
    and moment :: "'c \<Rightarrow> instant"
    and inv :: "'s \<Rightarrow> bool"
  assumes table_inv: "inv s \<Longrightarrow> step c s = Inr t \<Longrightarrow> inv t"
    and moves_along: "inv s \<Longrightarrow> step c s = Inr t \<Longrightarrow> job s k = Some j \<Longrightarrow>
      \<exists>j'. job t k = Some j' \<and> job_moves (worker c) (moment c) j j'"
begin

lemma run_table_inv: "inv s \<Longrightarrow> inv (run_all step cs s)"
  by (induction cs arbitrary: s) (auto split: sum.splits dest: table_inv)

lemma run_finished:
  "inv s \<Longrightarrow> job s k = Some Finished \<Longrightarrow> job (run_all step cs s) k = Some Finished"
proof (induction cs arbitrary: s)
  case (Cons c cs)
  show ?case
  proof (cases "step c s")
    case (Inr t)
    from moves_along [OF Cons.prems(1) Inr Cons.prems(2)] have "job t k = Some Finished"
      by (auto dest: finished_stays)
    with Inr Cons.IH [OF table_inv [OF Cons.prems(1) Inr]] show ?thesis by simp
  qed (use Cons in simp)
qed simp

text \<open>While a lease lasts, the calls of the other workers leave the job to its holder.\<close>

lemma run_exclusive:
  assumes "inv s" and "job s k = Some (Held v u)"
    and "\<forall>c \<in> set cs. worker c \<noteq> v \<and> moment c < u"
  shows "job (run_all step cs s) k = Some (Held v u)"
  using assms
proof (induction cs arbitrary: s)
  case (Cons c cs)
  show ?case
  proof (cases "step c s")
    case (Inr t)
    from moves_along [OF Cons.prems(1) Inr Cons.prems(2)] Cons.prems(3)
    have "job t k = Some (Held v u)" by (auto dest: held_by_other)
    with Inr Cons.IH [OF table_inv [OF Cons.prems(1) Inr]] Cons.prems(3) show ?thesis by simp
  qed (use Cons in simp)
qed simp

end

end
