(* ===== verification/Outbox.thy ===== *)
theory Outbox
  imports Leases EventHistory
begin

text \<open>
  The two outboxes a background worker empties (\<open>infrastructure/mysql/delivery_notification.go\<close>,
  \<open>delivery_effects.go\<close>): claiming jobs under a lease of two minutes, finishing them, putting them
  back. Claims skip rows another transaction has locked; the model runs transactions one after the
  other, so none is locked.
\<close>

section \<open>Shared parts\<close>

definition ValidateOutboxIdentity :: "string \<Rightarrow> string \<Rightarrow> app_error + unit" where
  "ValidateOutboxIdentity tenantID owner =
     (if blank tenantID \<or> 64 < length tenantID \<or> blank owner \<or> 128 < length owner
      then Inl ErrValidation else Inr ())"

definition lease_time :: instant where
  "lease_time = 2 * minute_ns"

definition claim_limit :: "int \<Rightarrow> nat" where
  "claim_limit limit = (if limit \<le> 0 \<or> 100 < limit then 50 else nat limit)"

definition due :: "instant option \<Rightarrow> instant \<Rightarrow> bool" where
  "due at now \<longleftrightarrow> (case at of None \<Rightarrow> True | Some t \<Rightarrow> t \<le> now)"

definition claimable_status :: "string \<Rightarrow> bool" where
  "claimable_status st \<longleftrightarrow> st = ''PENDING'' \<or> st = ''RETRY_WAIT'' \<or> st = ''PROCESSING''"

definition lease_held :: "string \<Rightarrow> string \<Rightarrow> instant option \<Rightarrow> string \<Rightarrow> instant \<Rightarrow> bool" where
  "lease_held st by until worker now \<longleftrightarrow>
     st = ''PROCESSING'' \<and> by = worker \<and> (case until of None \<Rightarrow> False | Some u \<Rightarrow> now < u)"

section \<open>The notification outbox\<close>

definition EnqueueNotification :: "string \<Rightarrow> notification \<Rightarrow> store \<Rightarrow> bool \<times> store" where
  "EnqueueNotification tenantID message s =
     (let r = new_outbox (nt_event_id message) tenantID (notification_key (nt_event_id message) message)
            (nt_event_type message) (nt_reference_type message) (nt_reference_id message) message
            (nt_occurred_at message)
      in if list_ex (outbox_duplicate r) (st_outbox s) then (False, s) else (True, append_outbox r s))"

record outbox_item =
  oi_id :: nat
  oi_message :: notification
  oi_retry_count :: nat

definition notification_claimable :: "string \<Rightarrow> instant \<Rightarrow> outbox_row \<Rightarrow> bool" where
  "notification_claimable tenantID now r \<longleftrightarrow>
     ob_tenant r = tenantID \<and> claimable_status (ob_status r) \<and> due (ob_next_retry_at r) now \<and>
     due (ob_locked_until r) now"

definition ClaimNotificationOutbox ::
  "string \<Rightarrow> string \<Rightarrow> int \<Rightarrow> instant \<Rightarrow> store \<Rightarrow> app_error + (outbox_item list \<times> store)" where
  "ClaimNotificationOutbox tenantID workerID limit now s =
     rbind (ValidateOutboxIdentity tenantID workerID) (\<lambda>_.
       let claimed = take (claim_limit limit)
             (sort_key ob_created_at (filter (notification_claimable tenantID now) (st_outbox s)));
           ids = map ob_id claimed
       in Inr (map (\<lambda>r. \<lparr>oi_id = ob_id r, oi_message = (ob_message r)\<lparr>nt_key := ob_key r\<rparr>,
                         oi_retry_count = ob_retry_count r\<rparr>) claimed,
            s\<lparr>st_outbox := update_where (\<lambda>r. ob_tenant r = tenantID \<and> List.member ids (ob_id r))
               (\<lambda>r. r\<lparr>ob_status := ''PROCESSING'', ob_locked_by := workerID,
                       ob_locked_until := Some (now + lease_time)\<rparr>) (st_outbox s)\<rparr>))"

definition notification_held :: "string \<Rightarrow> nat \<Rightarrow> string \<Rightarrow> instant \<Rightarrow> outbox_row \<Rightarrow> bool" where
  "notification_held tenantID i workerID now r \<longleftrightarrow>
     ob_tenant r = tenantID \<and> ob_id r = i \<and>
     lease_held (ob_status r) (ob_locked_by r) (ob_locked_until r) workerID now"

definition mark_notification ::
  "string \<Rightarrow> nat \<Rightarrow> string \<Rightarrow> instant \<Rightarrow> (outbox_row \<Rightarrow> outbox_row) \<Rightarrow> store \<Rightarrow> app_error + store" where
  "mark_notification tenantID i workerID now f s =
     rbind (ValidateOutboxIdentity tenantID workerID) (\<lambda>_.
       if count_where (notification_held tenantID i workerID now) (st_outbox s) \<noteq> 1 then Inl ErrConflict
       else Inr (s\<lparr>st_outbox := update_where (notification_held tenantID i workerID now) f (st_outbox s)\<rparr>))"

definition MarkNotificationOutboxSent ::
  "string \<Rightarrow> nat \<Rightarrow> string \<Rightarrow> instant \<Rightarrow> store \<Rightarrow> app_error + store" where
  "MarkNotificationOutboxSent tenantID i workerID now =
     mark_notification tenantID i workerID now
       (\<lambda>r. r\<lparr>ob_status := ''SENT'', ob_sent_at := Some now, ob_locked_by := [],
               ob_locked_until := None, ob_error := []\<rparr>)"

definition MarkNotificationOutboxRetry ::
  "string \<Rightarrow> nat \<Rightarrow> string \<Rightarrow> instant \<Rightarrow> instant \<Rightarrow> bool \<Rightarrow> store \<Rightarrow> app_error + store" where
  "MarkNotificationOutboxRetry tenantID i workerID now next dead =
     mark_notification tenantID i workerID now
       (\<lambda>r. r\<lparr>ob_status := (if dead then ''DEAD_LETTER'' else ''RETRY_WAIT''),
               ob_retry_count := ob_retry_count r + 1, ob_next_retry_at := Some next,
               ob_locked_by := [], ob_locked_until := None\<rparr>)"

section \<open>The effects outbox\<close>

record effects_item =
  xi_id :: nat
  xi_tenant :: string
  xi_effects :: "effects option"
  xi_retry_count :: nat

definition effects_claimable :: "string \<Rightarrow> instant \<Rightarrow> effects_row \<Rightarrow> bool" where
  "effects_claimable tenantID now r \<longleftrightarrow>
     ex_tenant r = tenantID \<and> claimable_status (ex_status r) \<and> due (ex_next_retry_at r) now \<and>
     due (ex_locked_until r) now"

text \<open>A payload that does not decode is returned as such; one that does carries the tenant of the row.\<close>

definition ClaimDeliveryEffects ::
  "string \<Rightarrow> string \<Rightarrow> int \<Rightarrow> instant \<Rightarrow> store \<Rightarrow> app_error + (effects_item list \<times> store)" where
  "ClaimDeliveryEffects tenantID workerID limit now s =
     rbind (ValidateOutboxIdentity tenantID workerID) (\<lambda>_.
       let claimed = take (claim_limit limit)
             (sort_key ex_id (filter (effects_claimable tenantID now) (st_effects s)));
           ids = map ex_id claimed
       in Inr (map (\<lambda>r. \<lparr>xi_id = ex_id r, xi_tenant = ex_tenant r,
                xi_effects = map_option (\<lambda>e. e\<lparr>ef_event := (ef_event e)\<lparr>de_tenant := ex_tenant r\<rparr>\<rparr>) (ex_effects r),
                xi_retry_count = ex_retry_count r\<rparr>) claimed,
            s\<lparr>st_effects := update_where (\<lambda>r. ex_tenant r = tenantID \<and> List.member ids (ex_id r))
               (\<lambda>r. r\<lparr>ex_status := ''PROCESSING'', ex_locked_by := workerID,
                       ex_locked_until := Some (now + lease_time)\<rparr>) (st_effects s)\<rparr>))"

definition effects_held :: "string \<Rightarrow> nat \<Rightarrow> string \<Rightarrow> instant \<Rightarrow> effects_row \<Rightarrow> bool" where
  "effects_held tenantID i workerID now r \<longleftrightarrow>
     ex_tenant r = tenantID \<and> ex_id r = i \<and>
     lease_held (ex_status r) (ex_locked_by r) (ex_locked_until r) workerID now"

fun record_derived :: "env \<Rightarrow> string \<Rightarrow> delivery_event list \<Rightarrow> store \<Rightarrow> app_error + store" where
  "record_derived env tenant [] s = Inr s"
| "record_derived env tenant (e # es) s =
     (if de_tenant e \<noteq> tenant \<or> \<not> derived_event (de_type e) then Inl ErrValidation
      else rbind (createEvent env e s) (record_derived env tenant es))"

text \<open>A message whose key is taken is skipped; its row keeps the key as it is.\<close>

definition insert_message :: "string \<Rightarrow> notification \<Rightarrow> store \<Rightarrow> store" where
  "insert_message tenant message s =
     (let r = new_outbox (nt_event_id message) tenant (nt_key message) (nt_event_type message)
            (nt_reference_type message) (nt_reference_id message) message (nt_occurred_at message)
      in if list_ex (outbox_duplicate r) (st_outbox s) then s else append_outbox r s)"

definition CompleteDeliveryEffects ::
  "env \<Rightarrow> string \<Rightarrow> nat \<Rightarrow> string \<Rightarrow> delivery_event list \<Rightarrow> notification list \<Rightarrow> instant \<Rightarrow> store \<Rightarrow>
     app_error + store" where
  "CompleteDeliveryEffects env tenantID i workerID events messages now s =
     rbind (ValidateOutboxIdentity tenantID workerID) (\<lambda>_.
       case find (effects_held tenantID i workerID now) (st_effects s) of
         None \<Rightarrow> Inl ErrConflict
       | Some job \<Rightarrow>
           rbind (record_derived env (ex_tenant job) events s) (\<lambda>s.
             let s = fold (insert_message (ex_tenant job)) messages s
             in Inr (s\<lparr>st_effects := update_where (effects_held tenantID i workerID now)
                  (\<lambda>r. r\<lparr>ex_status := ''COMPLETED'', ex_completed_at := Some now, ex_locked_by := [],
                          ex_locked_until := None, ex_error := []\<rparr>) (st_effects s)\<rparr>)))"

definition RetryDeliveryEffects ::
  "string \<Rightarrow> nat \<Rightarrow> string \<Rightarrow> instant \<Rightarrow> instant \<Rightarrow> string \<Rightarrow> store \<Rightarrow> app_error + store" where
  "RetryDeliveryEffects tenantID i workerID now next failureCode s =
     rbind (ValidateOutboxIdentity tenantID workerID) (\<lambda>_.
       if count_where (effects_held tenantID i workerID now) (st_effects s) \<noteq> 1 then Inl ErrConflict
       else Inr (s\<lparr>st_effects := update_where (effects_held tenantID i workerID now)
              (\<lambda>r. r\<lparr>ex_status := ''RETRY_WAIT'', ex_retry_count := ex_retry_count r + 1,
                      ex_next_retry_at := Some next, ex_locked_by := [], ex_locked_until := None,
                      ex_error := failureCode\<rparr>) (st_effects s)\<rparr>))"

end
