(* ===== verification/Machine.thy ===== *)
theory Machine
  imports Outbox
begin

text \<open>
  The transactions of the users and the work of the background workers as one machine: both
  outboxes follow the contract of leased jobs, and the invariants of all components hold together
  in every interleaving.
\<close>

section \<open>The machine\<close>

datatype background =
    BEnqueue string notification
  | BClaimNotifications string string int instant
  | BSent string nat string instant
  | BRetry string nat string instant instant bool
  | BClaimEffects string string int instant
  | BComplete string nat string "delivery_event list" "notification list" instant
  | BRetryEffects string nat string instant instant string

fun work :: "env \<Rightarrow> background \<Rightarrow> store \<Rightarrow> app_error + store" where
  "work env (BEnqueue tenant message) s = Inr (snd (EnqueueNotification tenant message s))"
| "work env (BClaimNotifications tenant w limit now) s =
     rbind (ClaimNotificationOutbox tenant w limit now s) (\<lambda>(_, s). Inr s)"
| "work env (BSent tenant i w now) s = MarkNotificationOutboxSent tenant i w now s"
| "work env (BRetry tenant i w now next dead) s = MarkNotificationOutboxRetry tenant i w now next dead s"
| "work env (BClaimEffects tenant w limit now) s =
     rbind (ClaimDeliveryEffects tenant w limit now s) (\<lambda>(_, s). Inr s)"
| "work env (BComplete tenant i w events messages now) s =
     CompleteDeliveryEffects env tenant i w events messages now s"
| "work env (BRetryEffects tenant i w now next code) s = RetryDeliveryEffects tenant i w now next code s"

datatype call = Front transaction | Back background

fun perform :: "env \<Rightarrow> call \<Rightarrow> store \<Rightarrow> app_error + store" where
  "perform env (Front tr) s = execute env tr s"
| "perform env (Back b) s = work env b s"

fun call_worker :: "call \<Rightarrow> string" where
  "call_worker (Back (BClaimNotifications _ w _ _)) = w"
| "call_worker (Back (BSent _ _ w _)) = w"
| "call_worker (Back (BRetry _ _ w _ _ _)) = w"
| "call_worker (Back (BClaimEffects _ w _ _)) = w"
| "call_worker (Back (BComplete _ _ w _ _ _)) = w"
| "call_worker (Back (BRetryEffects _ _ w _ _ _)) = w"
| "call_worker _ = []"

fun call_moment :: "call \<Rightarrow> instant" where
  "call_moment (Back (BClaimNotifications _ _ _ now)) = now"
| "call_moment (Back (BSent _ _ _ now)) = now"
| "call_moment (Back (BRetry _ _ _ now _ _)) = now"
| "call_moment (Back (BClaimEffects _ _ _ now)) = now"
| "call_moment (Back (BComplete _ _ _ _ _ now)) = now"
| "call_moment (Back (BRetryEffects _ _ _ now _ _)) = now"
| "call_moment _ = 0"

section \<open>The jobs of the two tables\<close>

definition lease_state :: "string \<Rightarrow> string \<Rightarrow> instant option \<Rightarrow> job_state" where
  "lease_state st by until =
     (if st = ''PROCESSING'' then case until of None \<Rightarrow> Waiting | Some u \<Rightarrow> Held by u
      else if st = ''PENDING'' \<or> st = ''RETRY_WAIT'' then Waiting else Finished)"

definition notification_state :: "outbox_row \<Rightarrow> job_state" where
  "notification_state r = lease_state (ob_status r) (ob_locked_by r) (ob_locked_until r)"

definition effects_state :: "effects_row \<Rightarrow> job_state" where
  "effects_state r = lease_state (ex_status r) (ex_locked_by r) (ex_locked_until r)"

definition notification_job :: "store \<Rightarrow> nat \<Rightarrow> job_state option" where
  "notification_job s k = map_option notification_state (find (\<lambda>r. ob_id r = k) (st_outbox s))"

definition effects_job :: "store \<Rightarrow> nat \<Rightarrow> job_state option" where
  "effects_job s k = map_option effects_state (find (\<lambda>r. ex_id r = k) (st_effects s))"

text \<open>A claim takes a row it found claimable; an ending or a retry changes a row the worker holds.\<close>

lemma lease_state_processing [simp]: "lease_state ''PROCESSING'' w (Some u) = Held w u"
  by (simp add: lease_state_def)

lemma lease_state_ended [simp]:
  "lease_state ''SENT'' w u = Finished" "lease_state ''DEAD_LETTER'' w u = Finished"
  "lease_state ''COMPLETED'' w u = Finished" "lease_state ''RETRY_WAIT'' w u = Waiting"
  by (simp_all add: lease_state_def)

lemma claim_moves:
  assumes "claimable_status st" and "due until now"
  shows "job_moves w now (lease_state st by until) (Held w (now + lease_time))"
proof -
  have later: "now < now + lease_time" by (simp add: lease_time_def minute_ns_def)
  show ?thesis
  proof (cases "st = ''PROCESSING''")
    case True
    with assms(2) later show ?thesis
      by (cases until) (simp_all add: lease_state_def due_def job_moves.intros)
  next
    case False
    with assms(1) have "lease_state st by until = Waiting" by (simp add: lease_state_def claimable_status_def)
    with later show ?thesis by (simp add: take_waiting)
  qed
qed

lemma held_state: "lease_held st by until w now \<Longrightarrow> \<exists>u. lease_state st by until = Held w u \<and> now < u"
  by (cases until) (simp_all add: lease_state_def lease_held_def)

section \<open>Queues that only grow\<close>

definition queue_inv :: "store \<Rightarrow> bool" where
  "queue_inv s \<longleftrightarrow>
     distinct (map ob_id (st_outbox s)) \<and> (\<forall>r \<in> set (st_outbox s). ob_id r < st_next_outbox s) \<and>
     distinct (map ex_id (st_effects s)) \<and> (\<forall>r \<in> set (st_effects s). ex_id r < st_next_effects s)"

definition queue_grows :: "store \<Rightarrow> store \<Rightarrow> bool" where
  "queue_grows s t \<longleftrightarrow>
     (\<exists>new. st_outbox t = st_outbox s @ new) \<and> (\<exists>new. st_effects t = st_effects s @ new) \<and>
     (queue_inv s \<longrightarrow> queue_inv t)"

lemma queue_grows_same:
  "st_outbox t = st_outbox s \<Longrightarrow> st_effects t = st_effects s \<Longrightarrow> st_next_outbox t = st_next_outbox s \<Longrightarrow>
   st_next_effects t = st_next_effects s \<Longrightarrow> queue_grows s t"
  by (simp add: queue_grows_def queue_inv_def)

lemma queue_grows_trans: "queue_grows s t \<Longrightarrow> queue_grows t u \<Longrightarrow> queue_grows s u"
  unfolding queue_grows_def by force

lemma append_outbox_grows: "queue_grows s (append_outbox r s)"
  by (auto simp: append_outbox_def queue_grows_def queue_inv_def less_Suc_eq)

lemma append_effects_grows:
  "ex_id r = st_next_effects s \<Longrightarrow>
   queue_grows s (s\<lparr>st_effects := st_effects s @ [r], st_next_effects := Suc (st_next_effects s)\<rparr>)"
  by (auto simp: queue_grows_def queue_inv_def less_Suc_eq)

lemma createDeliveryEffects_grows:
  assumes "createDeliveryEffects env event s = Inr t"
  shows "queue_grows s t"
proof -
  have "t = s \<or> (\<exists>effects. t = s\<lparr>st_effects := st_effects s @ [new_job event effects (st_next_effects s)],
      st_next_effects := Suc (st_next_effects s)\<rparr>)"
    using assms unfolding createDeliveryEffects_def Let_def by (auto split: if_splits)
  then show ?thesis by (elim disjE exE) (simp_all add: queue_grows_same append_effects_grows new_job_def)
qed

lemma createEvent_grows:
  assumes "createEvent env event s = Inr t"
  shows "queue_grows s t"
proof -
  let ?s = "s\<lparr>st_events := st_events s @ [event_record event]\<rparr>"
  from assms obtain u where u: "createDeliveryEffects env event ?s = Inr u"
    and t: "t = u\<lparr>st_audit := st_audit u @ [audit_entry event]\<rparr>"
    by (auto simp: createEvent_def res_simps split: if_splits)
  have "queue_grows s ?s" "queue_grows u t" by (simp_all add: t queue_grows_same)
  with createDeliveryEffects_grows [OF u] show ?thesis by (blast intro: queue_grows_trans)
qed

lemma notification_grows: "createNotificationOutbox event s = Inr t \<Longrightarrow> queue_grows s t"
  by (auto simp: createNotificationOutbox_def Let_def append_outbox_grows queue_grows_same
      split: option.splits if_splits)

lemma insert_messages_grow: "queue_grows s (fold (insert_message tenant) messages s)"
proof (induction messages arbitrary: s)
  case (Cons m ms)
  have "queue_grows s (insert_message tenant m s)"
    by (auto simp: insert_message_def Let_def append_outbox_grows queue_grows_same)
  with Cons.IH [of "insert_message tenant m s"] show ?case by (auto intro: queue_grows_trans)
qed (simp add: queue_grows_same)

lemma record_derived_grows: "record_derived env tenant es s = Inr t \<Longrightarrow> queue_grows s t"
  by (induction es arbitrary: s)
    (auto simp: res_simps queue_grows_same split: if_splits dest!: createEvent_grows intro: queue_grows_trans)

definition queue_same :: "store \<Rightarrow> store \<Rightarrow> bool" where
  "queue_same s t \<longleftrightarrow> st_outbox t = st_outbox s \<and> st_effects t = st_effects s \<and>
     st_next_outbox t = st_next_outbox s \<and> st_next_effects t = st_next_effects s"

lemma queue_same_grows: "queue_same s t \<Longrightarrow> queue_grows s t"
  by (simp add: queue_same_def queue_grows_same)

lemma queue_same_trans: "queue_same s t \<Longrightarrow> queue_same t u \<Longrightarrow> queue_same s u"
  by (simp add: queue_same_def)

lemma branch_queue: "branch_frame s t \<Longrightarrow> queue_same s t"
  unfolding branch_frame_def queue_same_def by (cases s; cases t; simp)

lemma revisions_queue: "same_but_revisions s t \<Longrightarrow> queue_same s t"
  unfolding same_but_revisions_def queue_same_def by (cases s; cases t; simp)

lemma item_event_queue:
  assumes "applyItemEvent env item event s = Inr t"
  shows "queue_same s t"
  using assms
  by (cases rule: applyItemEventE)
    (use branch_queue [OF item_branch_frame] in \<open>auto simp: queue_same_def\<close>)

lemma item_part_queue:
  assumes "item_part env e s = Inr (e', t)"
  shows "queue_same s t"
  using assms
proof (cases rule: item_partE)
  case (2 item u)
  have "queue_same u t" using 2(6)
    by (auto simp: queue_same_def dest!: ensure_package_frame)
  with item_event_queue [OF 2(5)] show ?thesis by (rule queue_same_trans)
qed (simp add: queue_same_def)

lemma event_grows:
  assumes "ApplyDeliveryEvent env event s = Inr t"
  shows "queue_grows s t"
proof -
  from assms obtain e1 e2 s1 s2 s3 where i: "item_part env e1 s = Inr (e2, s1)"
    and p: "project_part env e2 s1 = Inr s2" and r: "createEvent env e2 s2 = Inr s3"
    and n: "createNotificationOutbox e2 s3 = Inr t"
    by (auto simp: ApplyDeliveryEvent_def res_simps)
  have "queue_same s1 s2" using project_part_frame [OF p] by (auto simp: queue_same_def)
  with item_part_queue [OF i] have "queue_grows s s2" by (blast intro: queue_same_trans queue_same_grows)
  with createEvent_grows [OF r] notification_grows [OF n] show ?thesis by (blast intro: queue_grows_trans)
qed

lemma package_queue:
  assumes c: "package_commit tenant itemID c user now s = Inr t"
  shows "queue_same s t"
proof -
  have *: "queue_same s t"
    if m: "mutatePenetrationPackage tenant itemID v key ety actor payload now mutate s = Inr t"
      and fr: "\<And>row u f. mutate row s = Inr (u, f) \<Longrightarrow> same_but_revisions s u"
    for v key ety actor payload mutate
    using mutatePenetrationPackage_Inr(2) [OF m]
    by (elim disjE exE conjE) (use revisions_queue [OF fr] in \<open>simp_all add: queue_same_def\<close>)
  show ?thesis
  proof (cases c)
    case (CDecision i)
    show ?thesis
      by (rule * [OF c [unfolded CDecision package_commit.simps commit_defs]]) (erule decision.frame)
  next
    case (CPlan i)
    show ?thesis by (rule * [OF c [unfolded CPlan package_commit.simps commit_defs]]) (erule plan.frame)
  next
    case (CExecution i)
    show ?thesis
      by (rule * [OF c [unfolded CExecution package_commit.simps commit_defs]]) (erule execution.frame)
  next
    case (CReport i)
    show ?thesis by (rule * [OF c [unfolded CReport package_commit.simps commit_defs]]) (erule report.frame)
  next
    case (CArtifact i)
    show ?thesis
      by (rule * [OF c [unfolded CArtifact package_commit.simps commit_defs]]) (erule artifact.frame)
  qed
qed

lemma execute_grows:
  assumes "execute env tr s = Inr t"
  shows "queue_grows s t"
proof (cases tr)
  case (TEvent event)
  with assms show ?thesis by (simp add: event_grows)
next
  case (TReportFile tenant itemID revision input now)
  with assms obtain item u where "ensureReportRevision item now s = Inr u"
    and "st_outbox t = st_outbox u \<and> st_effects t = st_effects u \<and>
      st_next_outbox t = st_next_outbox u \<and> st_next_effects t = st_next_effects u"
    by (auto simp: RegisterReportArtifact_def res_simps split: option.splits if_splits)
  with revisions_queue [OF ensure_frame] show ?thesis
    by (intro queue_same_grows) (auto simp: queue_same_def)
next
  case (TPackage item call)
  with assms obtain c where
    "package_commit (it_tenant item) (it_id item) c (pc_user call) (pc_now call) s = Inr t"
    by (auto simp: package_service_def res_simps)
  then show ?thesis by (intro queue_same_grows package_queue)
qed

text \<open>A queue that grows keeps every job.\<close>

lemma grows_keeps_jobs:
  assumes "queue_grows s t"
  shows "notification_job s k = Some j \<Longrightarrow> notification_job t k = Some j"
    and "effects_job s k = Some j \<Longrightarrow> effects_job t k = Some j"
proof -
  obtain new where "st_outbox t = st_outbox s @ new" using assms by (auto simp: queue_grows_def)
  then show "notification_job s k = Some j \<Longrightarrow> notification_job t k = Some j"
    by (auto simp: notification_job_def find_append)
  obtain new where "st_effects t = st_effects s @ new" using assms by (auto simp: queue_grows_def)
  then show "effects_job s k = Some j \<Longrightarrow> effects_job t k = Some j"
    by (auto simp: effects_job_def find_append)
qed

section \<open>The two tables follow the machine\<close>

lemma key_find_update:
  assumes f: "\<And>r. k (f r) = k r" and j: "find (\<lambda>r. k r = i) rows = Some r"
  shows "find (\<lambda>r. k r = i) (update_where P f rows) = Some (if P r then f r else r)"
  using j by (subst find_update_where) (simp_all add: f)

text \<open>The state of a row after a claim, and after the holder let it go.\<close>

lemma notification_claim_moves:
  assumes c: "ClaimNotificationOutbox tenant w limit now s = Inr (items, t)" and inv: "queue_inv s"
    and j: "notification_job s k = Some j"
  shows "\<exists>j'. notification_job t k = Some j' \<and> job_moves w now j j'"
proof -
  define claimed where "claimed = take (claim_limit limit)
     (sort_key ob_created_at (filter (notification_claimable tenant now) (st_outbox s)))"
  let ?P = "\<lambda>r. ob_tenant r = tenant \<and> List.member (map ob_id claimed) (ob_id r)"
  let ?f = "\<lambda>r. r\<lparr>ob_status := ''PROCESSING'', ob_locked_by := w, ob_locked_until := Some (now + lease_time)\<rparr>"
  from c have t: "st_outbox t = update_where ?P ?f (st_outbox s)"
    by (auto simp: ClaimNotificationOutbox_def res_simps Let_def claimed_def)
  from j obtain r where r: "find (\<lambda>r. ob_id r = k) (st_outbox s) = Some r" "j = notification_state r"
    by (auto simp: notification_job_def)
  have "notification_job t k = Some (notification_state (if ?P r then ?f r else r))"
    unfolding notification_job_def t by (subst key_find_update [OF _ r(1)]) simp_all
  moreover have "job_moves w now j (notification_state (?f r))" if "?P r"
  proof -
    from that obtain q where q: "q \<in> set claimed" "ob_id q = ob_id r" by auto
    then have "q \<in> set (st_outbox s)" "notification_claimable tenant now q"
      by (auto simp: claimed_def dest!: in_set_takeD)
    moreover have "q = r"
      using inv find_SomeD [OF r(1)] q calculation(1) by (auto simp: queue_inv_def intro: key_unique)
    ultimately show ?thesis
      by (simp add: r(2) notification_state_def notification_claimable_def claim_moves)
  qed
  ultimately show ?thesis using r(2) by (cases "?P r") (auto intro: stay)
qed

lemma effects_claim_moves:
  assumes c: "ClaimDeliveryEffects tenant w limit now s = Inr (items, t)" and inv: "queue_inv s"
    and j: "effects_job s k = Some j"
  shows "\<exists>j'. effects_job t k = Some j' \<and> job_moves w now j j'"
proof -
  define claimed where "claimed = take (claim_limit limit)
     (sort_key ex_id (filter (effects_claimable tenant now) (st_effects s)))"
  let ?P = "\<lambda>r. ex_tenant r = tenant \<and> List.member (map ex_id claimed) (ex_id r)"
  let ?f = "\<lambda>r. r\<lparr>ex_status := ''PROCESSING'', ex_locked_by := w, ex_locked_until := Some (now + lease_time)\<rparr>"
  from c have t: "st_effects t = update_where ?P ?f (st_effects s)"
    by (auto simp: ClaimDeliveryEffects_def res_simps Let_def claimed_def)
  from j obtain r where r: "find (\<lambda>r. ex_id r = k) (st_effects s) = Some r" "j = effects_state r"
    by (auto simp: effects_job_def)
  have "effects_job t k = Some (effects_state (if ?P r then ?f r else r))"
    unfolding effects_job_def t by (subst key_find_update [OF _ r(1)]) simp_all
  moreover have "job_moves w now j (effects_state (?f r))" if "?P r"
  proof -
    from that obtain q where q: "q \<in> set claimed" "ex_id q = ex_id r" by auto
    then have "q \<in> set (st_effects s)" "effects_claimable tenant now q"
      by (auto simp: claimed_def dest!: in_set_takeD)
    moreover have "q = r"
      using inv find_SomeD [OF r(1)] q calculation(1) by (auto simp: queue_inv_def intro: key_unique)
    ultimately show ?thesis
      by (simp add: r(2) effects_state_def effects_claimable_def claim_moves)
  qed
  ultimately show ?thesis using r(2) by (cases "?P r") (auto intro: stay)
qed

lemma notification_update_moves:
  assumes t: "st_outbox t = update_where (notification_held tenant i w now) f (st_outbox s)"
    and f: "\<And>r. ob_id (f r) = ob_id r" "\<And>r. notification_state (f r) = Finished \<or> notification_state (f r) = Waiting"
    and j: "notification_job s k = Some j"
  shows "\<exists>j'. notification_job t k = Some j' \<and> job_moves w now j j'"
proof -
  from j obtain r where r: "find (\<lambda>r. ob_id r = k) (st_outbox s) = Some r" "j = notification_state r"
    by (auto simp: notification_job_def)
  let ?P = "notification_held tenant i w now"
  have "notification_job t k = Some (notification_state (if ?P r then f r else r))"
    unfolding notification_job_def t by (subst key_find_update [OF _ r(1)]) (simp_all add: f)
  moreover have "job_moves w now j (notification_state (f r))" if "?P r"
    using that f(2) [of r] held_state [of "ob_status r" "ob_locked_by r" "ob_locked_until r" w now]
    by (auto simp: r(2) notification_held_def notification_state_def intro: job_moves.intros)
  ultimately show ?thesis using r(2) by (cases "?P r") (auto intro: stay)
qed

lemma effects_update_moves:
  assumes t: "st_effects t = update_where (effects_held tenant i w now) f (st_effects s)"
    and f: "\<And>r. ex_id (f r) = ex_id r" "\<And>r. effects_state (f r) = Finished \<or> effects_state (f r) = Waiting"
    and j: "effects_job s k = Some j"
  shows "\<exists>j'. effects_job t k = Some j' \<and> job_moves w now j j'"
proof -
  from j obtain r where r: "find (\<lambda>r. ex_id r = k) (st_effects s) = Some r" "j = effects_state r"
    by (auto simp: effects_job_def)
  let ?P = "effects_held tenant i w now"
  have "effects_job t k = Some (effects_state (if ?P r then f r else r))"
    unfolding effects_job_def t by (subst key_find_update [OF _ r(1)]) (simp_all add: f)
  moreover have "job_moves w now j (effects_state (f r))" if "?P r"
    using that f(2) [of r] held_state [of "ex_status r" "ex_locked_by r" "ex_locked_until r" w now]
    by (auto simp: r(2) effects_held_def effects_state_def intro: job_moves.intros)
  ultimately show ?thesis using r(2) by (cases "?P r") (auto intro: stay)
qed

text \<open>What a call does to the queues, and that it keeps their keys.\<close>

lemma queue_inv_update:
  assumes "queue_inv s" and "\<And>r. ob_id (f r) = ob_id r" and "\<And>r. ex_id (g r) = ex_id r"
  shows "queue_inv (s\<lparr>st_outbox := update_where P f (st_outbox s)\<rparr>)"
    and "queue_inv (s\<lparr>st_effects := update_where Q g (st_effects s)\<rparr>)"
  using assms by (auto simp: queue_inv_def map_key_update_where set_update_where)

lemma complete_parts:
  assumes "CompleteDeliveryEffects env tenant i w events messages now s = Inr t"
  obtains u where "queue_grows s u" "t = u\<lparr>st_effects := update_where (effects_held tenant i w now)
      (\<lambda>r. r\<lparr>ex_status := ''COMPLETED'', ex_completed_at := Some now, ex_locked_by := [],
              ex_locked_until := None, ex_error := []\<rparr>) (st_effects u)\<rparr>"
    "\<exists>job. find (effects_held tenant i w now) (st_effects s) = Some job"
proof -
  from assms obtain job v where job: "find (effects_held tenant i w now) (st_effects s) = Some job"
    and v: "record_derived env (ex_tenant job) events s = Inr v"
    and t: "t = (fold (insert_message (ex_tenant job)) messages v)\<lparr>st_effects :=
       update_where (effects_held tenant i w now)
      (\<lambda>r. r\<lparr>ex_status := ''COMPLETED'', ex_completed_at := Some now, ex_locked_by := [],
              ex_locked_until := None, ex_error := []\<rparr>)
         (st_effects (fold (insert_message (ex_tenant job)) messages v))\<rparr>"
    by (auto simp: CompleteDeliveryEffects_def res_simps Let_def split: option.splits)
  from queue_grows_trans [OF record_derived_grows [OF v] insert_messages_grow] that t job
  show ?thesis by blast
qed

lemma perform_queue_inv:
  assumes "perform env c s = Inr t" and inv: "queue_inv s"
  shows "queue_inv t"
proof (cases c)
  case (Front tr)
  with assms execute_grows show ?thesis by (auto simp: queue_grows_def)
next
  case (Back b)
  with assms(1) have w: "work env b s = Inr t" by simp
  show ?thesis
  proof (cases b)
    case (BEnqueue tenant message)
    with w have "queue_grows s t"
      by (auto simp: EnqueueNotification_def Let_def append_outbox_grows queue_grows_same split: if_splits)
    with inv show ?thesis by (simp add: queue_grows_def)
  next
    case (BComplete tenant i w events messages now)
    with w have "CompleteDeliveryEffects env tenant i w events messages now s = Inr t" by simp
    then show ?thesis
      by (rule complete_parts) (use inv in \<open>auto simp: queue_grows_def intro!: queue_inv_update\<close>)
  qed (use w inv in \<open>auto simp: ClaimNotificationOutbox_def ClaimDeliveryEffects_def res_simps Let_def
      MarkNotificationOutboxSent_def MarkNotificationOutboxRetry_def mark_notification_def
      RetryDeliveryEffects_def intro!: queue_inv_update split: if_splits\<close>)
qed

lemma perform_notification_moves:
  assumes p: "perform env c s = Inr t" and inv: "queue_inv s" and j: "notification_job s k = Some j"
  shows "\<exists>j'. notification_job t k = Some j' \<and> job_moves (call_worker c) (call_moment c) j j'"
proof (cases c)
  case (Front tr)
  with p grows_keeps_jobs(1) [OF execute_grows _, OF _ j] show ?thesis by (auto intro: stay)
next
  case (Back b)
  with p have w: "work env b s = Inr t" by simp
  have keep: ?thesis if "queue_grows s t"
    using grows_keeps_jobs(1) [OF that j] by (auto intro: stay)
  have same: ?thesis if "st_outbox t = st_outbox s"
    using j that by (auto simp: notification_job_def intro: stay)
  show ?thesis
  proof (cases b)
    case (BEnqueue tenant message)
    with w show ?thesis
      by (intro keep) (auto simp: EnqueueNotification_def Let_def append_outbox_grows queue_grows_same split: if_splits)
  next
    case (BClaimNotifications tenant wk limit now)
    with w obtain items where "ClaimNotificationOutbox tenant wk limit now s = Inr (items, t)"
      by (auto simp: res_simps)
    from notification_claim_moves [OF this inv j] show ?thesis by (simp add: Back BClaimNotifications)
  next
    case (BSent tenant i wk now)
    with w have t: "st_outbox t = update_where (notification_held tenant i wk now)
       (\<lambda>r. r\<lparr>ob_status := ''SENT'', ob_sent_at := Some now, ob_locked_by := [],
               ob_locked_until := None, ob_error := []\<rparr>) (st_outbox s)"
      by (auto simp: MarkNotificationOutboxSent_def mark_notification_def res_simps split: if_splits)
    have "\<exists>j'. notification_job t k = Some j' \<and> job_moves wk now j j'"
      by (rule notification_update_moves [OF t _ _ j]) (simp_all add: notification_state_def)
    then show ?thesis by (simp add: Back BSent)
  next
    case (BRetry tenant i wk now "next" dead)
    with w have t: "st_outbox t = update_where (notification_held tenant i wk now)
       (\<lambda>r. r\<lparr>ob_status := (if dead then ''DEAD_LETTER'' else ''RETRY_WAIT''),
               ob_retry_count := ob_retry_count r + 1, ob_next_retry_at := Some next,
               ob_locked_by := [], ob_locked_until := None\<rparr>) (st_outbox s)"
      by (auto simp: MarkNotificationOutboxRetry_def mark_notification_def res_simps split: if_splits)
    have "\<exists>j'. notification_job t k = Some j' \<and> job_moves wk now j j'"
      by (rule notification_update_moves [OF t _ _ j]) (simp_all add: notification_state_def)
    then show ?thesis by (simp add: Back BRetry)
  next
    case (BClaimEffects tenant wk limit now)
    with w show ?thesis by (intro same) (auto simp: ClaimDeliveryEffects_def res_simps Let_def)
  next
    case (BComplete tenant i wk events messages now)
    with w have "CompleteDeliveryEffects env tenant i wk events messages now s = Inr t" by simp
    then obtain u where g: "queue_grows s u" and t: "st_outbox t = st_outbox u" by (rule complete_parts) auto
    have "notification_job t k = Some j"
      using grows_keeps_jobs(1) [OF g j] by (simp add: notification_job_def t)
    then show ?thesis by (auto intro: stay)
  next
    case (BRetryEffects tenant i wk now "next" code)
    with w show ?thesis by (intro same) (auto simp: RetryDeliveryEffects_def res_simps split: if_splits)
  qed
qed

lemma perform_effects_moves:
  assumes p: "perform env c s = Inr t" and inv: "queue_inv s" and j: "effects_job s k = Some j"
  shows "\<exists>j'. effects_job t k = Some j' \<and> job_moves (call_worker c) (call_moment c) j j'"
proof (cases c)
  case (Front tr)
  with p grows_keeps_jobs(2) [OF execute_grows _, OF _ j] show ?thesis by (auto intro: stay)
next
  case (Back b)
  with p have w: "work env b s = Inr t" by simp
  have same: ?thesis if "st_effects t = st_effects s"
    using j that by (auto simp: effects_job_def intro: stay)
  show ?thesis
  proof (cases b)
    case (BEnqueue tenant message)
    with w show ?thesis
      by (intro same) (auto simp: EnqueueNotification_def Let_def append_outbox_def split: if_splits)
  next
    case (BClaimNotifications tenant wk limit now)
    with w show ?thesis by (intro same) (auto simp: ClaimNotificationOutbox_def res_simps Let_def)
  next
    case (BSent tenant i wk now)
    with w show ?thesis
      by (intro same) (auto simp: MarkNotificationOutboxSent_def mark_notification_def res_simps split: if_splits)
  next
    case (BRetry tenant i wk now "next" dead)
    with w show ?thesis
      by (intro same) (auto simp: MarkNotificationOutboxRetry_def mark_notification_def res_simps split: if_splits)
  next
    case (BClaimEffects tenant wk limit now)
    with w obtain items where "ClaimDeliveryEffects tenant wk limit now s = Inr (items, t)"
      by (auto simp: res_simps)
    from effects_claim_moves [OF this inv j] show ?thesis by (simp add: Back BClaimEffects)
  next
    case (BComplete tenant i wk events messages now)
    with w have "CompleteDeliveryEffects env tenant i wk events messages now s = Inr t" by simp
    then obtain u where g: "queue_grows s u" and t: "t = u\<lparr>st_effects := update_where (effects_held tenant i wk now)
      (\<lambda>r. r\<lparr>ex_status := ''COMPLETED'', ex_completed_at := Some now, ex_locked_by := [],
              ex_locked_until := None, ex_error := []\<rparr>) (st_effects u)\<rparr>"
      by (rule complete_parts)
    have u: "st_effects t = update_where (effects_held tenant i wk now)
      (\<lambda>r. r\<lparr>ex_status := ''COMPLETED'', ex_completed_at := Some now, ex_locked_by := [],
              ex_locked_until := None, ex_error := []\<rparr>) (st_effects u)" by (simp add: t)
    have "\<exists>j'. effects_job t k = Some j' \<and> job_moves wk now j j'"
      by (rule effects_update_moves [OF u _ _ grows_keeps_jobs(2) [OF g j]]) (simp_all add: effects_state_def)
    then show ?thesis by (simp add: Back BComplete)
  next
    case (BRetryEffects tenant i wk now "next" code)
    with w have t: "st_effects t = update_where (effects_held tenant i wk now)
         (\<lambda>r. r\<lparr>ex_status := ''RETRY_WAIT'', ex_retry_count := ex_retry_count r + 1,
                      ex_next_retry_at := Some next, ex_locked_by := [], ex_locked_until := None,
                      ex_error := code\<rparr>) (st_effects s)"
      by (auto simp: RetryDeliveryEffects_def res_simps split: if_splits)
    have "\<exists>j'. effects_job t k = Some j' \<and> job_moves wk now j j'"
      by (rule effects_update_moves [OF t _ _ j]) (simp_all add: effects_state_def)
    then show ?thesis by (simp add: Back BRetryEffects)
  qed
qed

interpretation notifications: leased_table "perform env" notification_job call_worker call_moment queue_inv
  for env
  by unfold_locales (blast intro: perform_queue_inv perform_notification_moves)+

interpretation effects_jobs: leased_table "perform env" effects_job call_worker call_moment queue_inv
  for env
  by unfold_locales (blast intro: perform_queue_inv perform_effects_moves)+

section \<open>Leases in every run\<close>

lemma effects_job_held:
  assumes "find (effects_held tenant k w now) (st_effects s) = Some r" and "queue_inv s"
  shows "\<exists>u. effects_job s k = Some (Held w u) \<and> now < u"
proof -
  note r = find_SomeD [OF assms(1)]
  have "find (\<lambda>r. ex_id r = k) (st_effects s) = Some r"
    by (rule find_key_unique [of ex_id]) (use r assms(2) in \<open>auto simp: queue_inv_def effects_held_def\<close>)
  moreover have "\<exists>u. effects_state r = Held w u \<and> now < u"
    using held_state r by (auto simp: effects_held_def effects_state_def)
  ultimately show ?thesis by (auto simp: effects_job_def)
qed

text \<open>
  C26. A job of either outbox is in one pair of hands. From the moment a worker holds a notification
  under a lease, every call of the other workers that comes before the lease ends leaves it to that
  worker, whatever calls they are and in whatever order they come.
\<close>

theorem notification_lease_is_exclusive:
  assumes "queue_inv s" and "notification_job s k = Some (Held w u)"
    and "list_all (\<lambda>c. call_worker c \<noteq> w \<and> call_moment c < u) cs"
  shows "notification_job (run_all (perform env) cs s) k = Some (Held w u)"
  by (rule notifications.run_exclusive) (use assms in \<open>simp_all add: list_all_iff\<close>)

text \<open>
  C25. The effects of an event are applied once. When a worker completes a job of the effects
  outbox, and with it the derived events and notifications, no later completion or retry of that
  job by any worker is accepted.
\<close>

theorem effects_are_applied_once:
  assumes "queue_inv s" and "CompleteDeliveryEffects env tenant k w events messages now s = Inr t"
  shows "CompleteDeliveryEffects env tenant' k w' events' messages' now' (run_all (perform env) cs t) =
      Inl (if isl (ValidateOutboxIdentity tenant' w') then ErrValidation else ErrConflict) \<and>
    RetryDeliveryEffects tenant' k w' now' next code (run_all (perform env) cs t) =
      Inl (if isl (ValidateOutboxIdentity tenant' w') then ErrValidation else ErrConflict)"
proof -
  let ?done = "\<lambda>r. r\<lparr>ex_status := ''COMPLETED'', ex_completed_at := Some now, ex_locked_by := [],
              ex_locked_until := None, ex_error := []\<rparr>"
  from assms(2) obtain u r where g: "queue_grows s u"
    and t: "t = u\<lparr>st_effects := update_where (effects_held tenant k w now) ?done (st_effects u)\<rparr>"
    and r: "find (effects_held tenant k w now) (st_effects s) = Some r"
    by (rule complete_parts) blast
  have inv: "queue_inv t"
    using perform_queue_inv [of env "Back (BComplete tenant k w events messages now)" s t] assms by simp
  obtain new where u: "st_effects u = st_effects s @ new" using g by (auto simp: queue_grows_def)
  have held: "effects_held tenant k w now r" using find_SomeD [OF r] by simp
  have "find (\<lambda>r. ex_id r = k) (st_effects s) = Some r"
    by (rule find_key_unique [of ex_id])
      (use find_SomeD [OF r] assms(1) in \<open>auto simp: queue_inv_def effects_held_def\<close>)
  then have "find (\<lambda>r. ex_id r = k) (st_effects u) = Some r" by (simp add: u find_append)
  then have "find (\<lambda>r. ex_id r = k) (st_effects t) = Some (?done r)"
    using held by (simp add: t key_find_update [of ex_id])
  then have "effects_job t k = Some Finished" by (simp add: effects_job_def effects_state_def)
  then have fin: "effects_job (run_all (perform env) cs t) k = Some Finished"
    by (rule effects_jobs.run_finished [OF inv])
  let ?v = "run_all (perform env) cs t"
  have inv': "queue_inv ?v" by (rule effects_jobs.run_table_inv [OF inv])
  have none: "find (effects_held tenant' k w' now') (st_effects ?v) = None"
  proof (cases "find (effects_held tenant' k w' now') (st_effects ?v)")
    case (Some q)
    from effects_job_held [OF this inv'] fin show ?thesis by simp
  qed
  then have "\<not> 0 < count_where (effects_held tenant' k w' now') (st_effects ?v)"
    unfolding count_where_pos by (auto simp: find_None_iff)
  then have "count_where (effects_held tenant' k w' now') (st_effects ?v) \<noteq> 1" by linarith
  with none show ?thesis
    by (cases "ValidateOutboxIdentity tenant' w'")
      (auto simp: CompleteDeliveryEffects_def RetryDeliveryEffects_def ValidateOutboxIdentity_def split: if_splits)
qed

text \<open>A notification claimed by one worker, and two attempts of another.\<close>

definition sample_message :: notification where
  "sample_message = \<lparr>nt_event_id = ''N1'', nt_event_type = ''TEAM_ASSIGNED'', nt_scope = ''SYSTEM'',
     nt_priority = ''NORMAL'', nt_title = ''title'', nt_content = ''content'',
     nt_reference_type = ''service_item'', nt_reference_id = ''SI-1'', nt_recipients = [''u1''],
     nt_occurred_at = 0, nt_key = ''key-1''\<rparr>"

definition claimed_store :: store where
  "claimed_store = run_all (perform sample_env)
     [Back (BEnqueue ''T1'' sample_message), Back (BClaimNotifications ''T1'' ''w1'' 10 0)] empty_store"

theorem notification_lease_is_exclusive_witness:
  "notification_job (run_all (perform sample_env)
      [Back (BClaimNotifications ''T1'' ''w2'' 10 1), Back (BSent ''T1'' 1 ''w2'' 2)] claimed_store) 1 =
    Some (Held ''w1'' lease_time)"
proof -
  have 1: "queue_inv claimed_store" by code_simp
  have 2: "notification_job claimed_store 1 = Some (Held ''w1'' lease_time)" by code_simp
  have 3: "list_all (\<lambda>c. call_worker c \<noteq> ''w1'' \<and> call_moment c < lease_time)
      [Back (BClaimNotifications ''T1'' ''w2'' 10 1), Back (BSent ''T1'' 1 ''w2'' 2)]" by code_simp
  show ?thesis by (rule notification_lease_is_exclusive [OF 1 2 3])
qed

definition effects_store :: store where
  "effects_store = empty_store\<lparr>st_next_effects := 2, st_effects :=
     [(new_job (sample_event ''E1'' EventFieldStarted ''pm'' [])
        \<lparr>ef_id = ''X1'', ef_event = sample_event ''E1'' EventFieldStarted ''pm'' [], ef_targets = [],
         ef_warning = None, ef_role_notification = None\<rparr> 1)
      \<lparr>ex_status := ''PROCESSING'', ex_locked_by := ''w1'', ex_locked_until := Some 100\<rparr>]\<rparr>"

theorem effects_are_applied_once_witness:
  "\<exists>t. CompleteDeliveryEffects sample_env ''T1'' 1 ''w1'' [] [sample_message] 50 effects_store = Inr t \<and>
     length (st_outbox t) = 1 \<and>
     CompleteDeliveryEffects sample_env ''T1'' 1 ''w1'' [] [sample_message] 60 t = Inl ErrConflict"
proof -
  have inv: "queue_inv effects_store" by code_simp
  have "case CompleteDeliveryEffects sample_env ''T1'' 1 ''w1'' [] [sample_message] 50 effects_store of
      Inl _ \<Rightarrow> False | Inr t \<Rightarrow> length (st_outbox t) = 1" by code_simp
  then obtain t where t: "CompleteDeliveryEffects sample_env ''T1'' 1 ''w1'' [] [sample_message] 50 effects_store = Inr t"
    and n: "length (st_outbox t) = 1" by (auto split: sum.splits)
  have ok: "ValidateOutboxIdentity ''T1'' ''w1'' = Inr ()" by code_simp
  from effects_are_applied_once [OF inv t, where cs = "[]" and tenant' = "''T1''" and w' = "''w1''"
      and events' = "[]" and messages' = "[sample_message]" and now' = 60] t n ok
  show ?thesis by auto
qed

section \<open>The whole machine\<close>

text \<open>Background work leaves the domain tables alone and records only derived events.\<close>

lemma messages_record_frame: "record_frame s (fold (insert_message tenant) messages s)"
proof (induction messages arbitrary: s)
  case (Cons m ms)
  have "record_frame s (insert_message tenant m s)"
    by (auto simp: insert_message_def Let_def append_outbox_def record_frame_def)
  with Cons.IH show ?case by (auto intro: record_frame_trans)
qed (simp add: record_frame_def)

lemma messages_events: "st_events (fold (insert_message tenant) messages s) = st_events s"
proof (induction messages arbitrary: s)
  case (Cons m ms)
  have "st_events (insert_message tenant m s) = st_events s"
    by (auto simp: insert_message_def Let_def append_outbox_def)
  with Cons.IH show ?case by simp
qed simp

lemma derived_record_frame:
  "record_derived env tenant es s = Inr t \<Longrightarrow> record_frame s t \<and>
     (\<exists>new. st_events t = st_events s @ new \<and> (\<forall>e \<in> set new. derived_event (er_type e)))"
proof (induction es arbitrary: s)
  case (Cons e es)
  then obtain u where u: "createEvent env e s = Inr u" "record_derived env tenant es u = Inr t"
    "derived_event (de_type e)" by (auto simp: res_simps split: if_splits)
  from Cons.IH [OF u(2)] obtain new where n: "record_frame u t" "st_events t = st_events u @ new"
    "\<forall>e \<in> set new. derived_event (er_type e)" by blast
  have "st_events t = st_events s @ (event_record e # new)"
    using n(2) createEvent_frame(2) [OF u(1)] by simp
  moreover have "\<forall>e \<in> set (event_record e # new). derived_event (er_type e)"
    using n(3) u(3) by (simp add: event_record_def)
  ultimately show ?case using record_frame_trans [OF createEvent_frame(1) [OF u(1)] n(1)] by blast
qed (simp add: record_frame_def)

lemma work_frame:
  assumes w: "work env b s = Inr t"
  shows "record_frame s t \<and>
     (\<exists>new. st_events t = st_events s @ new \<and> (\<forall>e \<in> set new. derived_event (er_type e)))"
proof (cases b)
  case (BComplete tenant i wk events messages now)
  with w obtain job u where "find (effects_held tenant i wk now) (st_effects s) = Some job"
    and u: "record_derived env (ex_tenant job) events s = Inr u"
    and t: "t = (fold (insert_message (ex_tenant job)) messages u)\<lparr>st_effects :=
       update_where (effects_held tenant i wk now)
      (\<lambda>r. r\<lparr>ex_status := ''COMPLETED'', ex_completed_at := Some now, ex_locked_by := [],
              ex_locked_until := None, ex_error := []\<rparr>)
         (st_effects (fold (insert_message (ex_tenant job)) messages u))\<rparr>"
    by (auto simp: CompleteDeliveryEffects_def res_simps Let_def split: option.splits)
  have "record_frame (fold (insert_message (ex_tenant job)) messages u) t" by (simp add: t record_frame_def)
  with derived_record_frame [OF u] messages_record_frame have "record_frame s t"
    by (blast intro: record_frame_trans)
  moreover have "st_events t = st_events u" by (simp add: t messages_events)
  ultimately show ?thesis using derived_record_frame [OF u] by simp
qed (use w in \<open>auto simp: EnqueueNotification_def append_outbox_def ClaimNotificationOutbox_def
    ClaimDeliveryEffects_def res_simps Let_def MarkNotificationOutboxSent_def
    MarkNotificationOutboxRetry_def mark_notification_def RetryDeliveryEffects_def record_frame_def
    split: if_splits\<close>)

lemma derived_orderly:
  "orderly_history before (xs) \<Longrightarrow> \<forall>e \<in> set new. derived_event (er_type e) \<Longrightarrow>
   orderly_history before (xs @ new)"
proof (induction new arbitrary: xs)
  case (Cons e es)
  have "deciding (er_type e) = None" using Cons.prems(2) by (auto simp: derived_event_def)
  then have "orderly_history before (xs @ [e])"
    using Cons.prems(1) by (simp add: orderly_history_append decided_on_def)
  with Cons.IH [of "xs @ [e]"] Cons.prems(2) show ?case by simp
qed simp

definition machine_inv :: "env \<Rightarrow> store \<Rightarrow> bool" where
  "machine_inv env s \<longleftrightarrow> delivery_inv env s \<and> projects_inv s \<and> orderly_history [] (st_events s) \<and> queue_inv s"

fun well_formed :: "call \<Rightarrow> bool" where
  "well_formed (Front tr) \<longleftrightarrow> admissible tr \<and> orderly tr"
| "well_formed (Back b) \<longleftrightarrow> True"

lemma machine_preserves:
  assumes inv: "machine_inv env s" and wf: "well_formed c" and p: "perform env c s = Inr t"
  shows "machine_inv env t"
proof -
  have q: "queue_inv t" using perform_queue_inv [OF p] inv by (simp add: machine_inv_def)
  show ?thesis
  proof (cases c)
    case (Front tr)
    with assms have e: "execute env tr s = Inr t" "admissible tr" "orderly tr" by simp_all
    with inv q show ?thesis
      using execute_preserves [OF e(1)] projects_preserved [OF e(1)] history.step_inv [OF _ e(3,1)]
      by (simp add: machine_inv_def)
  next
    case (Back b)
    with p have "work env b s = Inr t" by simp
    from work_frame [OF this] obtain new where f: "record_frame s t"
      and h: "st_events t = st_events s @ new" "\<forall>e \<in> set new. derived_event (er_type e)" by blast
    note same = record_frame_fields [OF f]
    have "delivery_inv env t"
      using inv same by (auto simp: machine_inv_def delivery_inv_def package_inv_def intro: ledger_ok_cong)
    moreover have "projects_inv t"
      using inv same by (simp add: machine_inv_def projects_inv_def project_synced_def [abs_def] status_items_def)
    moreover have "orderly_history [] (st_events t)"
      using inv h derived_orderly by (simp add: machine_inv_def)
    ultimately show ?thesis using q by (simp add: machine_inv_def)
  qed
qed

interpretation machine: transactional "perform env" well_formed "machine_inv env" for env
  by unfold_locales (rule machine_preserves)

end
