(* ===== verification/SplitRules.thy ===== *)
theory SplitRules
  imports Store GoText
begin

text \<open>
  The rules that split a contract into service items (\<open>domain/split_rule_config.go\<close>): the grouping
  policy of a tenant, the catalogue of detection categories, and the overrides that replace parts of
  the policy for some contracts, with their validation and the test whether an override applies.
  The \<open>Updated\<close> strings and the labels built for display are left out.
\<close>

section \<open>Vocabulary\<close>

definition SplitDimensionBatch :: string where "SplitDimensionBatch = ''batch''"
definition SplitDimensionSite :: string where "SplitDimensionSite = ''site''"
definition SplitDimensionCustomer :: string where "SplitDimensionCustomer = ''customer''"
definition SplitDimensionContract :: string where "SplitDimensionContract = ''contract''"
definition SplitDimensionCategory :: string where "SplitDimensionCategory = ''category''"
definition SplitDimensionSystemStandard :: string where
  "SplitDimensionSystemStandard = ''system_standard''"
definition SplitDimensionTestMode :: string where "SplitDimensionTestMode = ''test_mode''"

lemmas dimension_defs =
  SplitDimensionBatch_def SplitDimensionSite_def SplitDimensionCustomer_def
  SplitDimensionContract_def SplitDimensionCategory_def SplitDimensionSystemStandard_def
  SplitDimensionTestMode_def

definition SplitMissingHumanConfirm :: string where "SplitMissingHumanConfirm = ''HUMAN_CONFIRM''"
definition SplitMissingDefaultRule :: string where "SplitMissingDefaultRule = ''DEFAULT_RULE''"
definition SplitMissingSilent :: string where "SplitMissingSilent = ''SILENT''"

lemmas missing_defs =
  SplitMissingHumanConfirm_def SplitMissingDefaultRule_def SplitMissingSilent_def

definition SpecialMethodNo :: string where "SpecialMethodNo = ''NO''"
definition SpecialMethodMarkable :: string where "SpecialMethodMarkable = ''MARKABLE''"
definition SpecialMethodRequired :: string where "SpecialMethodRequired = ''REQUIRED''"

lemmas special_defs = SpecialMethodNo_def SpecialMethodMarkable_def SpecialMethodRequired_def

text \<open>The second initial status of a service item is the string of the project status.\<close>

definition ServiceItemStatusPendingAssign :: string where
  "ServiceItemStatusPendingAssign = ProjectStatusPendingAllocation"

lemma pending_differ [simp]:
  "ServiceItemStatusPendingConfirm \<noteq> ServiceItemStatusPendingAssign"
  "ServiceItemStatusPendingAssign \<noteq> ServiceItemStatusPendingConfirm"
  by (simp_all add: ServiceItemStatusPendingAssign_def)

definition split_dimensions :: "string list" where
  "split_dimensions =
     [SplitDimensionBatch, SplitDimensionSite, SplitDimensionCustomer, SplitDimensionContract,
      SplitDimensionCategory, SplitDimensionSystemStandard, SplitDimensionTestMode]"

definition validSplitDimension :: "string \<Rightarrow> bool" where
  "validSplitDimension value \<longleftrightarrow> List.member split_dimensions (trim_space value)"

section \<open>The policy of a tenant\<close>

record split_policy =
  pol_tenant :: string
  pol_id :: int
  pol_primary :: string
  pol_secondary :: string
  pol_tertiary :: string
  pol_status :: string
  pol_summary :: bool
  pol_locked :: bool
  pol_missing :: string
  pol_detection :: bool
  pol_enabled :: bool

definition DefaultSplitPolicy :: split_policy where
  "DefaultSplitPolicy =
     \<lparr>pol_tenant = [], pol_id = 0, pol_primary = SplitDimensionBatch,
      pol_secondary = SplitDimensionCategory, pol_tertiary = [],
      pol_status = ServiceItemStatusPendingConfirm, pol_summary = True, pol_locked = False,
      pol_missing = SplitMissingHumanConfirm, pol_detection = True, pol_enabled = True\<rparr>"

text \<open>The refusals of the validations; the offending value is part of the message.\<close>

datatype split_error =
    DimensionInvalid nat string | TertiaryRepeats | DimensionsEqual | StatusInvalid string
  | MissingActionInvalid string
  | CategoryBlank | CategoryTooLong | StandardTooLong | QualificationsTooLong
  | SpecialInvalid string | CodeTooLong string
  | NameBlank | NameTooLong | CustomerMatchTooLong | ContractMatchTooLong | MatchCategoryTooLong
  | MatchEmpty | SettingsEmpty | RangeNegative | RangeReversed | PriorityNotPositive

definition initial_status :: "string \<Rightarrow> bool" where
  "initial_status s \<longleftrightarrow> s = ServiceItemStatusPendingConfirm \<or> s = ServiceItemStatusPendingAssign"

definition missing_action :: "string \<Rightarrow> bool" where
  "missing_action s \<longleftrightarrow>
     s = SplitMissingHumanConfirm \<or> s = SplitMissingDefaultRule \<or> s = SplitMissingSilent"

definition ValidateSplitPolicy :: "'a split_policy_scheme \<Rightarrow> split_error + unit" where
  "ValidateSplitPolicy p =
     (if \<not> validSplitDimension (pol_primary p) then Inl (DimensionInvalid 1 (pol_primary p))
      else if \<not> validSplitDimension (pol_secondary p) then Inl (DimensionInvalid 2 (pol_secondary p))
      else
        let tertiary = trim_space (pol_tertiary p) in
        if tertiary \<noteq> [] \<and> \<not> validSplitDimension tertiary then Inl (DimensionInvalid 3 tertiary)
        else if tertiary \<noteq> [] \<and> (tertiary = pol_primary p \<or> tertiary = pol_secondary p)
        then Inl TertiaryRepeats
        else if pol_primary p = pol_secondary p then Inl DimensionsEqual
        else if \<not> initial_status (pol_status p) then Inl (StatusInvalid (pol_status p))
        else if \<not> missing_action (pol_missing p) then Inl (MissingActionInvalid (pol_missing p))
        else Inr ())"

lemma DefaultSplitPolicy_valid: "ValidateSplitPolicy DefaultSplitPolicy = Inr ()"
  by code_simp

section \<open>Detection categories\<close>

text \<open>
  \<open>strings.FieldsFunc\<close> on the comma and the semicolon, ASCII and full-width (three bytes
  each): the non-empty stretches between them.
\<close>

definition wide_separator :: "string \<Rightarrow> bool" where
  "wide_separator s \<longleftrightarrow>
     take 3 s = [CHR 0xEF, CHR 0xBC, CHR 0x8C] \<or> take 3 s = [CHR 0xEF, CHR 0xBC, CHR 0x9B]"

function code_fields :: "string \<Rightarrow> string \<Rightarrow> string list" where
  "code_fields acc [] = (if acc = [] then [] else [rev acc])"
| "code_fields acc (c # s) =
     (if c = CHR '','' \<or> c = CHR '';''
      then (if acc = [] then code_fields [] s else rev acc # code_fields [] s)
      else if wide_separator (c # s)
      then (if acc = [] then code_fields [] (drop 2 s) else rev acc # code_fields [] (drop 2 s))
      else code_fields (c # acc) s)"
  by pat_completeness auto
termination by (relation "measure (\<lambda>(acc, s). length s)") auto

definition SplitCapabilityCodes :: "string \<Rightarrow> string list" where
  "SplitCapabilityCodes value =
     uniq (filter (\<lambda>code. code \<noteq> []) (map trim_space (code_fields [] value)))"

record detection_category =
  dc_tenant :: string
  dc_id :: int
  dc_category :: string
  dc_standard :: string
  dc_qualifications :: string
  dc_codes :: string
  dc_special :: string
  dc_enabled :: bool
  dc_count :: int

definition special_method :: "string \<Rightarrow> bool" where
  "special_method s \<longleftrightarrow>
     s = SpecialMethodNo \<or> s = SpecialMethodMarkable \<or> s = SpecialMethodRequired"

fun long_code :: "string list \<Rightarrow> split_error + unit" where
  "long_code [] = Inr ()"
| "long_code (code # codes) = (if 64 < rune_count code then Inl (CodeTooLong code) else long_code codes)"

definition ValidateDetectionCategory :: "detection_category \<Rightarrow> split_error + unit" where
  "ValidateDetectionCategory item =
     (if blank (dc_category item) then Inl CategoryBlank
      else if 128 < rune_count (dc_category item) then Inl CategoryTooLong
      else if 128 < rune_count (dc_standard item) then Inl StandardTooLong
      else if 255 < rune_count (dc_qualifications item) then Inl QualificationsTooLong
      else if \<not> special_method (dc_special item) then Inl (SpecialInvalid (dc_special item))
      else long_code (SplitCapabilityCodes (dc_codes item)))"

definition default_category :: "string \<Rightarrow> string \<Rightarrow> string \<Rightarrow> string \<Rightarrow> detection_category" where
  "default_category category standard qualifications special =
     \<lparr>dc_tenant = [], dc_id = 0, dc_category = category, dc_standard = standard,
      dc_qualifications = qualifications, dc_codes = [], dc_special = special, dc_enabled = True,
      dc_count = 0\<rparr>"

definition DefaultDetectionCategories :: "detection_category list" where
  "DefaultDetectionCategories =
    [
     default_category
      ([CHR 0xE7, CHR 0xAD, CHR 0x89, CHR 0xE4, CHR 0xBF, CHR 0x9D, CHR 0xE6, CHR 0xB5, CHR 0x8B,
       CHR 0xE8, CHR 0xAF, CHR 0x84])
      ([CHR 0xE7, CHR 0xAD, CHR 0x89, CHR 0xE4, CHR 0xBF, CHR 0x9D, CHR 0x20, CHR 0x32, CHR 0x2E,
       CHR 0x30])
      ([CHR 0xE7, CHR 0xAD, CHR 0x89, CHR 0xE7, CHR 0xBA, CHR 0xA7, CHR 0xE4, CHR 0xBF, CHR 0x9D,
       CHR 0xE6, CHR 0x8A, CHR 0xA4, CHR 0xE6, CHR 0xB5, CHR 0x8B, CHR 0xE8, CHR 0xAF, CHR 0x84,
       CHR 0xE5, CHR 0xB8, CHR 0x88, CHR 0xEF, CHR 0xBC, CHR 0x88, CHR 0xE4, CHR 0xB8, CHR 0xAD,
       CHR 0xE7, CHR 0xBA, CHR 0xA7, CHR 0x2B, CHR 0xEF, CHR 0xBC, CHR 0x89])
      SpecialMethodNo,
     default_category
      ([CHR 0xE5, CHR 0x95, CHR 0x86, CHR 0xE7, CHR 0x94, CHR 0xA8, CHR 0xE5, CHR 0xAF, CHR 0x86,
       CHR 0xE7, CHR 0xA0, CHR 0x81, CHR 0xE5, CHR 0xBA, CHR 0x94, CHR 0xE7, CHR 0x94, CHR 0xA8,
       CHR 0xE5, CHR 0xAE, CHR 0x89, CHR 0xE5, CHR 0x85, CHR 0xA8, CHR 0xE6, CHR 0x80, CHR 0xA7,
       CHR 0xE8, CHR 0xAF, CHR 0x84, CHR 0xE4, CHR 0xBC, CHR 0xB0])
      ([CHR 0xE5, CHR 0x95, CHR 0x86, CHR 0xE7, CHR 0x94, CHR 0xA8, CHR 0xE5, CHR 0xAF, CHR 0x86,
       CHR 0xE7, CHR 0xA0, CHR 0x81])
      ([CHR 0xE5, CHR 0x95, CHR 0x86, CHR 0xE7, CHR 0x94, CHR 0xA8, CHR 0xE5, CHR 0xAF, CHR 0x86,
       CHR 0xE7, CHR 0xA0, CHR 0x81, CHR 0xE8, CHR 0xAF, CHR 0x84, CHR 0xE4, CHR 0xBC, CHR 0xB0,
       CHR 0xE4, CHR 0xBA, CHR 0xBA, CHR 0xE5, CHR 0x91, CHR 0x98])
      SpecialMethodMarkable,
     default_category
      ([CHR 0xE8, CHR 0xBD, CHR 0xAF, CHR 0xE4, CHR 0xBB, CHR 0xB6, CHR 0xE6, CHR 0xB5, CHR 0x8B,
       CHR 0xE8, CHR 0xAF, CHR 0x95])
      (''ISO 9001'')
      ([CHR 0xE8, CHR 0xBD, CHR 0xAF, CHR 0xE4, CHR 0xBB, CHR 0xB6, CHR 0xE8, CHR 0xAF, CHR 0x84,
       CHR 0xE6, CHR 0xB5, CHR 0x8B, CHR 0xE5, CHR 0xB8, CHR 0x88])
      SpecialMethodNo,
     default_category
      ([CHR 0xE6, CHR 0xBA, CHR 0x90, CHR 0xE4, CHR 0xBB, CHR 0xA3, CHR 0xE7, CHR 0xA0, CHR 0x81,
       CHR 0xE5, CHR 0xAE, CHR 0xA1, CHR 0xE8, CHR 0xAE, CHR 0xA1])
      ([CHR 0xE7, CHR 0xAD, CHR 0x89, CHR 0xE4, CHR 0xBF, CHR 0x9D, CHR 0x20, CHR 0x32, CHR 0x2E,
       CHR 0x30])
      ([CHR 0xE7, CHR 0xAD, CHR 0x89, CHR 0xE7, CHR 0xBA, CHR 0xA7, CHR 0xE4, CHR 0xBF, CHR 0x9D,
       CHR 0xE6, CHR 0x8A, CHR 0xA4, CHR 0xE6, CHR 0xB5, CHR 0x8B, CHR 0xE8, CHR 0xAF, CHR 0x84,
       CHR 0xE5, CHR 0xB8, CHR 0x88, CHR 0xEF, CHR 0xBC, CHR 0x88, CHR 0xE4, CHR 0xB8, CHR 0xAD,
       CHR 0xE7, CHR 0xBA, CHR 0xA7, CHR 0x2B, CHR 0xEF, CHR 0xBC, CHR 0x89])
      SpecialMethodNo,
     default_category
      ([CHR 0xE6, CHR 0xB8, CHR 0x97, CHR 0xE9, CHR 0x80, CHR 0x8F, CHR 0xE6, CHR 0xB5, CHR 0x8B,
       CHR 0xE8, CHR 0xAF, CHR 0x95])
      (''ISO 27001'')
      (''CISP-PTE'')
      SpecialMethodRequired,
     default_category
      ([CHR 0xE6, CHR 0xBC, CHR 0x8F, CHR 0xE6, CHR 0xB4, CHR 0x9E, CHR 0xE6, CHR 0x89, CHR 0xAB,
       CHR 0xE6, CHR 0x8F, CHR 0x8F])
      ([])
      ([])
      SpecialMethodNo,
     default_category
      ([CHR 0x41, CHR 0x50, CHR 0x50, CHR 0x20, CHR 0xE5, CHR 0xAE, CHR 0x89, CHR 0xE5, CHR 0x85,
       CHR 0xA8, CHR 0xE5, CHR 0x8A, CHR 0xA0, CHR 0xE5, CHR 0x9B, CHR 0xBA])
      ([])
      ([])
      SpecialMethodNo,
     default_category
      ([CHR 0xE4, CHR 0xB8, CHR 0x8A, CHR 0xE7, CHR 0xBA, CHR 0xBF, CHR 0xE6, CHR 0xB5, CHR 0x8B,
       CHR 0xE8, CHR 0xAF, CHR 0x95])
      ([])
      ([])
      SpecialMethodNo,
     default_category
      ([CHR 0xE7, CHR 0xBD, CHR 0x91, CHR 0xE7, CHR 0xBB, CHR 0x9C, CHR 0xE5, CHR 0xAE, CHR 0x89,
       CHR 0xE5, CHR 0x85, CHR 0xA8, CHR 0xE9, CHR 0xA3, CHR 0x8E, CHR 0xE9, CHR 0x99, CHR 0xA9,
       CHR 0xE8, CHR 0xAF, CHR 0x84, CHR 0xE4, CHR 0xBC, CHR 0xB0])
      (''ISO 27001'')
      ([])
      SpecialMethodNo,
     default_category
      ([CHR 0xE5, CHR 0xB7, CHR 0xAE, CHR 0xE8, CHR 0xB7, CHR 0x9D, CHR 0xE5, CHR 0x88, CHR 0x86,
       CHR 0xE6, CHR 0x9E, CHR 0x90])
      ([])
      ([])
      SpecialMethodNo,
     default_category
      ([CHR 0xE6, CHR 0x9C, CHR 0xBA, CHR 0xE6, CHR 0x88, CHR 0xBF, CHR 0xE6, CHR 0xA3, CHR 0x80,
       CHR 0xE6, CHR 0xB5, CHR 0x8B])
      ([])
      ([])
      SpecialMethodNo,
     default_category
      ([CHR 0xE7, CHR 0xBD, CHR 0x91, CHR 0xE7, CHR 0xBB, CHR 0x9C, CHR 0xE5, CHR 0xAE, CHR 0x89,
       CHR 0xE5, CHR 0x85, CHR 0xA8, CHR 0xE5, CHR 0xB7, CHR 0xA1, CHR 0xE6, CHR 0xA3, CHR 0x80,
       CHR 0xE6, CHR 0x9C, CHR 0x8D, CHR 0xE5, CHR 0x8A, CHR 0xA1])
      ([])
      ([])
      SpecialMethodNo,
     default_category
      ([CHR 0xE5, CHR 0xAE, CHR 0x89, CHR 0xE5, CHR 0x85, CHR 0xA8, CHR 0xE5, CHR 0x9F, CHR 0xB9,
       CHR 0xE8, CHR 0xAE, CHR 0xAD])
      ([])
      ([])
      SpecialMethodNo,
     default_category
      ([CHR 0xE5, CHR 0xAE, CHR 0x89, CHR 0xE5, CHR 0x85, CHR 0xA8, CHR 0xE6, CHR 0x80, CHR 0xA7,
       CHR 0xE6, CHR 0xB5, CHR 0x8B, CHR 0xE8, CHR 0xAF, CHR 0x95])
      ([])
      ([])
      SpecialMethodNo,
     default_category
      ([CHR 0xE5, CHR 0xBA, CHR 0x94, CHR 0xE6, CHR 0x80, CHR 0xA5, CHR 0xE5, CHR 0x93, CHR 0x8D,
       CHR 0xE5, CHR 0xBA, CHR 0x94, CHR 0xE6, CHR 0x9C, CHR 0x8D, CHR 0xE5, CHR 0x8A, CHR 0xA1])
      ([])
      ([])
      SpecialMethodMarkable,
     default_category
      ([CHR 0xE7, CHR 0xBD, CHR 0x91, CHR 0xE7, CHR 0xBB, CHR 0x9C, CHR 0xE5, CHR 0xAE, CHR 0x89,
       CHR 0xE5, CHR 0x85, CHR 0xA8, CHR 0xE6, CHR 0x94, CHR 0xBB, CHR 0xE9, CHR 0x98, CHR 0xB2,
       CHR 0xE6, CHR 0xBC, CHR 0x94, CHR 0xE7, CHR 0xBB, CHR 0x83])
      ([])
      ([])
      SpecialMethodMarkable,
     default_category
      ([CHR 0xE5, CHR 0xAE, CHR 0x89, CHR 0xE5, CHR 0x85, CHR 0xA8, CHR 0xE8, CHR 0xBF, CHR 0x90,
       CHR 0xE7, CHR 0xBB, CHR 0xB4])
      ([])
      ([])
      SpecialMethodNo,
     default_category
      ([CHR 0xE6, CHR 0xA8, CHR 0xA1, CHR 0xE5, CHR 0x9D, CHR 0x97, CHR 0xE5, CHR 0xBC, CHR 0x80,
       CHR 0xE5, CHR 0x8F, CHR 0x91])
      ([])
      ([])
      SpecialMethodNo,
     default_category
      ([CHR 0xE6, CHR 0x8A, CHR 0x80, CHR 0xE6, CHR 0x9C, CHR 0xAF, CHR 0xE5, CHR 0x92, CHR 0xA8,
       CHR 0xE8, CHR 0xAF, CHR 0xA2])
      ([])
      ([])
      SpecialMethodNo]"

lemma default_categories_valid:
  "list_all (\<lambda>c. ValidateDetectionCategory c = Inr ()) DefaultDetectionCategories"
  by code_simp

lemma default_categories_distinct: "distinct (map dc_category DefaultDetectionCategories)"
  by code_simp

section \<open>Overrides\<close>

record override_match =
  om_customer :: string
  om_contract :: string
  om_min :: int
  om_max :: int
  om_categories :: "string list"

definition Empty_match :: "override_match \<Rightarrow> bool" where
  "Empty_match m \<longleftrightarrow> blank (om_customer m) \<and> blank (om_contract m) \<and> om_min m = 0 \<and> om_max m = 0 \<and>
     om_categories m = []"

text \<open>An absent setting (\<open>nil\<close>) keeps the value of the policy.\<close>

record override_settings =
  os_primary :: "string option"
  os_secondary :: "string option"
  os_tertiary :: "string option"
  os_status :: "string option"
  os_summary :: "bool option"
  os_locked :: "bool option"
  os_missing :: "string option"
  os_detection :: "bool option"

definition Empty_settings :: "override_settings \<Rightarrow> bool" where
  "Empty_settings s \<longleftrightarrow> os_primary s = None \<and> os_secondary s = None \<and> os_tertiary s = None \<and>
     os_status s = None \<and> os_summary s = None \<and> os_locked s = None \<and> os_missing s = None \<and>
     os_detection s = None"

record split_override =
  so_tenant :: string
  so_id :: int
  so_name :: string
  so_match :: override_match
  so_settings :: override_settings
  so_priority :: int
  so_enabled :: bool

text \<open>The checks of a setting that is given.\<close>

definition opt_check :: "('a \<Rightarrow> bool) \<Rightarrow> ('a \<Rightarrow> split_error) \<Rightarrow> 'a option \<Rightarrow> split_error + unit" where
  "opt_check ok err v = (case v of None \<Rightarrow> Inr () | Some x \<Rightarrow> if ok x then Inr () else Inl (err x))"

lemma opt_check_Inr [res_simps]: "opt_check ok err v = Inr u \<longleftrightarrow> (\<forall>x. v = Some x \<longrightarrow> ok x)"
  by (auto simp: opt_check_def split: option.splits)

definition validate_settings :: "override_settings \<Rightarrow> split_error + unit" where
  "validate_settings s =
     rbind (opt_check validSplitDimension (DimensionInvalid 1) (os_primary s)) (\<lambda>_.
     rbind (opt_check validSplitDimension (DimensionInvalid 2) (os_secondary s)) (\<lambda>_.
     rbind (opt_check (\<lambda>v. blank v \<or> validSplitDimension v) (DimensionInvalid 3) (os_tertiary s)) (\<lambda>_.
     rbind (opt_check (\<lambda>v. initial_status (trim_space v)) StatusInvalid (os_status s)) (\<lambda>_.
     opt_check (\<lambda>v. missing_action (trim_space v)) MissingActionInvalid (os_missing s)))))"

definition ValidateSplitOverride :: "split_override \<Rightarrow> split_error + unit" where
  "ValidateSplitOverride item =
     (let m = so_match item in
      if blank (so_name item) then Inl NameBlank
      else if 255 < rune_count (so_name item) then Inl NameTooLong
      else if 255 < rune_count (om_customer m) then Inl CustomerMatchTooLong
      else if 64 < rune_count (om_contract m) then Inl ContractMatchTooLong
      else if list_ex (\<lambda>c. 128 < rune_count c) (om_categories m) then Inl MatchCategoryTooLong
      else if Empty_match m then Inl MatchEmpty
      else if Empty_settings (so_settings item) then Inl SettingsEmpty
      else if om_min m < 0 \<or> om_max m < 0 then Inl RangeNegative
      else if 0 < om_max m \<and> om_max m < om_min m then Inl RangeReversed
      else if so_priority item \<le> 0 then Inl PriorityNotPositive
      else validate_settings (so_settings item))"

definition lower_key :: "string \<Rightarrow> string" where
  "lower_key s = to_lower (trim_space s)"

definition Matches :: "split_override \<Rightarrow> string \<Rightarrow> string \<Rightarrow> int \<Rightarrow> string list \<Rightarrow> bool" where
  "Matches ov customer contract serviceItemCount categories \<longleftrightarrow>
     (let m = so_match ov in
      so_enabled ov \<and>
      \<not> Empty_match m \<and>
      (lower_key (om_customer m) \<noteq> [] \<longrightarrow>
         str_contains (to_lower customer) (lower_key (om_customer m))) \<and>
      (lower_key (om_contract m) \<noteq> [] \<longrightarrow>
         str_contains (to_lower contract) (lower_key (om_contract m))) \<and>
      \<not> (0 < om_min m \<and> serviceItemCount < om_min m) \<and>
      \<not> (0 < om_max m \<and> om_max m < serviceItemCount) \<and>
      (om_categories m \<noteq> [] \<longrightarrow>
         list_ex (\<lambda>c. List.member (map lower_key categories) (lower_key c)) (om_categories m)))"

lemma ValidateSplitOverride_facts:
  assumes "ValidateSplitOverride item = Inr ()"
  shows "\<not> Empty_match (so_match item)" and "\<not> Empty_settings (so_settings item)"
    and "0 < so_priority item" and "validate_settings (so_settings item) = Inr ()"
  using assms by (auto simp: ValidateSplitOverride_def Let_def split: if_splits)

end
