(* ===== verification/CapabilityCodes.thy ===== *)
theory CapabilityCodes
  imports SplitRules
begin

text \<open>
  The catalogue of qualification and capability codes (\<open>application/capability_code.go\<close>): codes are
  compared after trimming and upper-casing, a code of the catalogue is unique for its type and keeps
  its identity, and a new reference must name an enabled code of the right type.
\<close>

section \<open>Normal forms\<close>

definition normalizeCapabilityCode :: "string \<Rightarrow> string" where
  "normalizeCapabilityCode value = to_upper (trim_space value)"

definition normalizeCapabilityCodes :: "string list \<Rightarrow> string list" where
  "normalizeCapabilityCodes values =
     uniq (filter (\<lambda>code. code \<noteq> []) (map normalizeCapabilityCode values))"

lemma normalizeCapabilityCode_idem [simp]:
  "normalizeCapabilityCode (normalizeCapabilityCode s) = normalizeCapabilityCode s"
  by (simp add: normalizeCapabilityCode_def trim_space_to_upper)

definition normal_codes :: "string list \<Rightarrow> bool" where
  "normal_codes codes \<longleftrightarrow> distinct codes \<and>
     list_all (\<lambda>c. c \<noteq> [] \<and> normalizeCapabilityCode c = c) codes"

lemma normalizeCapabilityCodes_normal: "normal_codes (normalizeCapabilityCodes values)"
  by (auto simp: normal_codes_def normalizeCapabilityCodes_def list_all_iff)

lemma normal_codes_fixed: "normal_codes codes \<Longrightarrow> normalizeCapabilityCodes codes = codes"
proof -
  assume n: "normal_codes codes"
  then have "map normalizeCapabilityCode codes = codes"
    by (auto simp: normal_codes_def list_all_iff intro: map_idI)
  moreover have "filter (\<lambda>c. c \<noteq> []) codes = codes" "distinct codes"
    using n by (auto simp: normal_codes_def list_all_iff)
  ultimately show ?thesis by (simp add: normalizeCapabilityCodes_def uniq_def uniq_from_id)
qed

lemma normalizeCapabilityCodes_idem [simp]:
  "normalizeCapabilityCodes (normalizeCapabilityCodes values) = normalizeCapabilityCodes values"
  by (rule normal_codes_fixed [OF normalizeCapabilityCodes_normal])

section \<open>Entries of the catalogue\<close>

record capability_rule =
  cr_id :: int
  cr_name :: string
  cr_scope :: string
  cr_check_type :: string
  cr_enabled :: bool

datatype code_error =
    CodeNameBlank | CodeNameTooLong | CodeBlank | CodeScopeTooLong | CodeControl | CodeTypeInvalid
  | CodeExists string | CodeIdentityChanged | CodeNotFound
  | CatalogNotConfigured | CodesNotEnabled "string list"

text \<open>\<open>unicode.IsControl\<close>: U+0000 to U+001F, and U+007F to U+009F (two bytes from U+0080).\<close>

fun has_control :: "string \<Rightarrow> bool" where
  "has_control [] = False"
| "has_control [c] = (of_char c < (32 :: nat) \<or> of_char c = (127 :: nat))"
| "has_control (c # d # s) =
     (of_char c < (32 :: nat) \<or> of_char c = (127 :: nat) \<or>
      (c = CHR 0xC2 \<and> (128 :: nat) \<le> of_char d \<and> of_char d < (160 :: nat)) \<or> has_control (d # s))"

definition normalizeCapabilityCodeRule :: "capability_rule \<Rightarrow> code_error + capability_rule" where
  "normalizeCapabilityCodeRule item =
     (let item = item\<lparr>cr_name := trim_space (cr_name item),
                      cr_scope := normalizeCapabilityCode (cr_scope item),
                      cr_check_type := to_upper (trim_space (cr_check_type item))\<rparr> in
      if cr_name item = [] then Inl CodeNameBlank
      else if 255 < rune_count (cr_name item) then Inl CodeNameTooLong
      else if cr_scope item = [] then Inl CodeBlank
      else if 128 < rune_count (cr_scope item) then Inl CodeScopeTooLong
      else if has_control (cr_name item) \<or> has_control (cr_scope item) then Inl CodeControl
      else if cr_check_type item \<noteq> ''PERSON'' \<and> cr_check_type item \<noteq> ''EQUIPMENT''
      then Inl CodeTypeInvalid
      else Inr item)"

definition same_code :: "capability_rule \<Rightarrow> capability_rule \<Rightarrow> bool" where
  "same_code existing item \<longleftrightarrow>
     equal_fold (trim_space (cr_check_type existing)) (cr_check_type item) \<and>
     normalizeCapabilityCode (cr_scope existing) = cr_scope item"

fun ensureCapabilityCodeUnique ::
  "capability_rule list \<Rightarrow> capability_rule \<Rightarrow> int \<Rightarrow> code_error + unit" where
  "ensureCapabilityCodeUnique [] item excludingID = Inr ()"
| "ensureCapabilityCodeUnique (existing # rules) item excludingID =
     (if cr_id existing = excludingID then ensureCapabilityCodeUnique rules item excludingID
      else if same_code existing item then Inl (CodeExists (cr_scope item))
      else ensureCapabilityCodeUnique rules item excludingID)"

fun ensureCapabilityCodeIdentityUnchanged ::
  "capability_rule list \<Rightarrow> capability_rule \<Rightarrow> code_error + unit" where
  "ensureCapabilityCodeIdentityUnchanged [] item = Inl CodeNotFound"
| "ensureCapabilityCodeIdentityUnchanged (existing # rules) item =
     (if cr_id existing \<noteq> cr_id item then ensureCapabilityCodeIdentityUnchanged rules item
      else if \<not> same_code existing item then Inl CodeIdentityChanged
      else Inr ())"

section \<open>References to the catalogue\<close>

record capabilityCodeCatalog =
  cat_configured :: bool
  cat_enabled :: "string list"

definition of_type :: "string \<Rightarrow> capability_rule \<Rightarrow> bool" where
  "of_type resourceType rule \<longleftrightarrow> equal_fold (trim_space (cr_check_type rule)) resourceType"

definition capabilityCatalogFor :: "capability_rule list \<Rightarrow> string \<Rightarrow> capabilityCodeCatalog" where
  "capabilityCatalogFor rules resourceType =
     (let typed = filter (of_type resourceType) rules in
      \<lparr>cat_configured = typed \<noteq> [],
       cat_enabled = map (\<lambda>r. normalizeCapabilityCode (cr_scope r)) (filter cr_enabled typed)\<rparr>)"

definition refuse_codes :: "capabilityCodeCatalog \<Rightarrow> string list \<Rightarrow> code_error + unit" where
  "refuse_codes catalog invalid =
     (if invalid = [] then Inr ()
      else if \<not> cat_configured catalog then Inl CatalogNotConfigured
      else Inl (CodesNotEnabled (sort invalid)))"

definition validateCapabilityCodesAgainstCatalog ::
  "capability_rule list \<Rightarrow> string \<Rightarrow> string list \<Rightarrow> string list \<Rightarrow> code_error + unit" where
  "validateCapabilityCodesAgainstCatalog rules resourceType codes grandfathered =
     (let catalog = capabilityCatalogFor rules resourceType;
          retained = normalizeCapabilityCodes grandfathered in
      refuse_codes catalog
        (filter (\<lambda>code. \<not> List.member (cat_enabled catalog) code \<and> \<not> List.member retained code)
          codes))"

definition validateRequiredCodesAgainstCatalog ::
  "capability_rule list \<Rightarrow> string list \<Rightarrow> code_error + unit" where
  "validateRequiredCodesAgainstCatalog rules codes =
     (if codes = [] then Inr ()
      else let catalog = capabilityCatalogFor rules ''PERSON'' in
        refuse_codes catalog (filter (\<lambda>code. \<not> List.member (cat_enabled catalog) code) codes))"

lemma refuse_codes_Inr [simp]: "refuse_codes catalog invalid = Inr u \<longleftrightarrow> invalid = []"
  by (simp add: refuse_codes_def)

definition enabled_code :: "capability_rule list \<Rightarrow> string \<Rightarrow> string \<Rightarrow> bool" where
  "enabled_code rules resourceType code \<longleftrightarrow>
     (\<exists>r \<in> set rules. of_type resourceType r \<and> cr_enabled r \<and> normalizeCapabilityCode (cr_scope r) = code)"

lemma cat_enabled_iff [simp]:
  "code \<in> set (cat_enabled (capabilityCatalogFor rules ty)) \<longleftrightarrow> enabled_code rules ty code"
  by (auto simp: capabilityCatalogFor_def enabled_code_def Let_def)

lemma validateRequiredCodes_iff:
  "validateRequiredCodesAgainstCatalog rules codes = Inr () \<longleftrightarrow>
     (\<forall>c \<in> set codes. enabled_code rules ''PERSON'' c)"
  by (auto simp: validateRequiredCodesAgainstCatalog_def Let_def filter_empty_conv)

lemma validateCapabilityCodes_iff:
  "validateCapabilityCodesAgainstCatalog rules ty codes old = Inr () \<longleftrightarrow>
     (\<forall>c \<in> set codes. enabled_code rules ty c \<or> c \<in> set (normalizeCapabilityCodes old))"
  by (auto simp: validateCapabilityCodesAgainstCatalog_def Let_def filter_empty_conv)

section \<open>The catalogue as a whole\<close>

text \<open>
  Entries with normal codes and pairwise different codes for a type: adding an entry that passed
  the normalisation and the uniqueness check keeps this.
\<close>

definition code_key :: "capability_rule \<Rightarrow> string \<times> string" where
  "code_key r = (to_lower (trim_space (cr_check_type r)), normalizeCapabilityCode (cr_scope r))"

definition catalog_ok :: "capability_rule list \<Rightarrow> bool" where
  "catalog_ok rules \<longleftrightarrow> distinct (map code_key rules)"

lemma trim_types: "trim_space ''PERSON'' = ''PERSON''" "trim_space ''EQUIPMENT'' = ''EQUIPMENT''"
  by code_simp+

lemma normalizeCapabilityCodeRule_normal:
  assumes "normalizeCapabilityCodeRule item = Inr n"
  shows "normalizeCapabilityCode (cr_scope n) = cr_scope n"
    and "trim_space (cr_check_type n) = cr_check_type n" and "cr_id n = cr_id item"
    and "cr_scope n \<noteq> []"
  using assms
  by (auto simp: normalizeCapabilityCodeRule_def Let_def trim_types split: if_splits)

lemma same_code_key:
  assumes "normalizeCapabilityCode (cr_scope n) = cr_scope n"
    and "trim_space (cr_check_type n) = cr_check_type n"
  shows "same_code r n \<longleftrightarrow> code_key r = code_key n"
  using assms by (simp add: same_code_def code_key_def equal_fold_def)

lemma ensureCapabilityCodeUnique_iff:
  "ensureCapabilityCodeUnique rules item excluded = Inr () \<longleftrightarrow>
     (\<forall>r \<in> set rules. cr_id r \<noteq> excluded \<longrightarrow> \<not> same_code r item)"
  by (induction rules) auto

lemma catalog_insert:
  assumes ok: "catalog_ok rules" and n: "normalizeCapabilityCodeRule item = Inr n"
    and u: "ensureCapabilityCodeUnique rules n 0 = Inr ()" and ids: "\<forall>r \<in> set rules. cr_id r \<noteq> 0"
  shows "catalog_ok (rules @ [n\<lparr>cr_id := i\<rparr>])"
proof -
  have "code_key (n\<lparr>cr_id := i\<rparr>) = code_key n" by (simp add: code_key_def)
  moreover have "code_key n \<notin> code_key ` set rules"
  proof
    assume "code_key n \<in> code_key ` set rules"
    then obtain r where "r \<in> set rules" "code_key r = code_key n" by force
    then show False
      using u ids same_code_key [OF normalizeCapabilityCodeRule_normal(1,2) [OF n]]
      by (auto simp: ensureCapabilityCodeUnique_iff)
  qed
  ultimately show ?thesis using ok by (simp add: catalog_ok_def)
qed

end
