(* ===== verification/SplitStore.thy ===== *)
theory SplitStore
  imports CapabilityCodes "HOL-Library.Product_Lexorder"
begin

text \<open>
  The tables of the splitting configuration and the operations of their pages
  (\<open>mysql/split_config.go\<close>, and the first half of \<open>application/split_config.go\<close>): one policy per
  tenant, the catalogue of detection categories (seeded at the first reading), and the overrides,
  whose conditions and settings are JSON columns.

  The number of service items per category is an aggregate the database computes; the operations
  that use it take it as an argument.
\<close>

section \<open>Tables\<close>

record override_row =
  or_tenant :: string
  or_id :: int
  or_name :: string
  or_match :: payload
  or_settings :: payload
  or_priority :: int
  or_enabled :: bool

record split_store =
  ss_policies :: "split_policy list"
  ss_categories :: "detection_category list"
  ss_overrides :: "override_row list"
  ss_next :: int

text \<open>Identifiers come from one counter; a row of any table takes the next one.\<close>

subsection \<open>The JSON columns of an override\<close>

definition omit_int :: "string \<Rightarrow> int \<Rightarrow> payload" where
  "omit_int k n = (if n = 0 then [] else [(k, JNum n)])"

definition omit_strs :: "string \<Rightarrow> string list \<Rightarrow> payload" where
  "omit_strs k ss = (if ss = [] then [] else [(k, JStrs ss)])"

definition omit_none :: "string \<Rightarrow> ('a \<Rightarrow> json) \<Rightarrow> 'a option \<Rightarrow> payload" where
  "omit_none k f v = (case v of None \<Rightarrow> [] | Some x \<Rightarrow> [(k, f x)])"

definition encode_match :: "override_match \<Rightarrow> payload" where
  "encode_match m =
     omit_empty ''customer_contains'' (om_customer m) @ omit_empty ''contract_contains'' (om_contract m)
     @ omit_int ''min_service_items'' (om_min m) @ omit_int ''max_service_items'' (om_max m)
     @ omit_strs ''categories'' (om_categories m)"

definition encode_settings :: "override_settings \<Rightarrow> payload" where
  "encode_settings s =
     omit_none ''dimension_primary'' JStr (os_primary s)
     @ omit_none ''dimension_secondary'' JStr (os_secondary s)
     @ omit_none ''dimension_tertiary'' JStr (os_tertiary s)
     @ omit_none ''default_status'' JStr (os_status s)
     @ omit_none ''generate_requirement_summary'' JBool (os_summary s)
     @ omit_none ''requirement_summary_locked'' JBool (os_locked s)
     @ omit_none ''missing_rule_action'' JStr (os_missing s)
     @ omit_none ''scope_change_detection'' JBool (os_detection s)"

text \<open>
  Decoding ignores errors: \<open>json.Unmarshal\<close> leaves a field of another type as it was and goes on.
\<close>

definition field_str :: "payload \<Rightarrow> string \<Rightarrow> string" where
  "field_str p k = (case map_of p k of Some (JStr s) \<Rightarrow> s | _ \<Rightarrow> [])"

definition field_int :: "payload \<Rightarrow> string \<Rightarrow> int" where
  "field_int p k = (case map_of p k of Some (JNum n) \<Rightarrow> n | _ \<Rightarrow> 0)"

definition field_strs :: "payload \<Rightarrow> string \<Rightarrow> string list" where
  "field_strs p k =
     (case map_of p k of Some (JArr xs) \<Rightarrow> map (\<lambda>x. case x of JStr s \<Rightarrow> s | _ \<Rightarrow> []) xs | _ \<Rightarrow> [])"

definition field_opt_str :: "payload \<Rightarrow> string \<Rightarrow> string option" where
  "field_opt_str p k = (case map_of p k of Some (JStr s) \<Rightarrow> Some s | _ \<Rightarrow> None)"

definition field_opt_bool :: "payload \<Rightarrow> string \<Rightarrow> bool option" where
  "field_opt_bool p k = (case map_of p k of Some (JBool b) \<Rightarrow> Some b | _ \<Rightarrow> None)"

definition decode_match :: "payload \<Rightarrow> override_match" where
  "decode_match p =
     \<lparr>om_customer = field_str p ''customer_contains'', om_contract = field_str p ''contract_contains'',
      om_min = field_int p ''min_service_items'', om_max = field_int p ''max_service_items'',
      om_categories = field_strs p ''categories''\<rparr>"

definition decode_settings :: "payload \<Rightarrow> override_settings" where
  "decode_settings p =
     \<lparr>os_primary = field_opt_str p ''dimension_primary'',
      os_secondary = field_opt_str p ''dimension_secondary'',
      os_tertiary = field_opt_str p ''dimension_tertiary'',
      os_status = field_opt_str p ''default_status'',
      os_summary = field_opt_bool p ''generate_requirement_summary'',
      os_locked = field_opt_bool p ''requirement_summary_locked'',
      os_missing = field_opt_str p ''missing_rule_action'',
      os_detection = field_opt_bool p ''scope_change_detection''\<rparr>"

lemma map_of_omit:
  "map_of (omit_int k n) k' = (if k' = k \<and> n \<noteq> 0 then Some (JNum n) else None)"
  "map_of (omit_strs k ss) k' = (if k' = k \<and> ss \<noteq> [] then Some (JStrs ss) else None)"
  "map_of (omit_none k f v) k' = (if k' = k then map_option f v else None)"
  by (auto simp: omit_int_def omit_strs_def omit_none_def split: option.splits)

lemma decode_encode_match [simp]: "decode_match (encode_match m) = m"
  by (cases m) (simp add: decode_match_def encode_match_def field_str_def field_int_def field_strs_def
      map_add_def map_of_omit map_of_omit_empty JStrs_def comp_def)

text \<open>Reading a key skips the fields before it; an absent setting leaves it to the fields after.\<close>

lemma field_opt_skip:
  "k' \<noteq> k \<Longrightarrow> field_opt_str (omit_none k f v @ p) k' = field_opt_str p k'"
  "k' \<noteq> k \<Longrightarrow> field_opt_bool (omit_none k f v @ p) k' = field_opt_bool p k'"
  "k' \<noteq> k \<Longrightarrow> field_opt_str (omit_none k f v) k' = None"
  "k' \<noteq> k \<Longrightarrow> field_opt_bool (omit_none k f v) k' = None"
  by (cases v; simp add: field_opt_str_def field_opt_bool_def omit_none_def)+

lemma field_opt_hit:
  "field_opt_str p k = None \<Longrightarrow> field_opt_str (omit_none k JStr v @ p) k = v"
  "field_opt_bool p k = None \<Longrightarrow> field_opt_bool (omit_none k JBool w @ p) k = w"
  "field_opt_bool (omit_none k JBool w) k = w"
  by (cases v; cases w; simp add: field_opt_str_def field_opt_bool_def omit_none_def)+

lemma decode_encode_settings [simp]: "decode_settings (encode_settings s) = s"
  by (cases s) (simp add: decode_settings_def encode_settings_def field_opt_skip field_opt_hit)

section \<open>The rows of the repository\<close>

definition splitOverrideFromRecord :: "override_row \<Rightarrow> split_override" where
  "splitOverrideFromRecord r =
     \<lparr>so_tenant = or_tenant r, so_id = or_id r, so_name = or_name r,
      so_match = decode_match (or_match r), so_settings = decode_settings (or_settings r),
      so_priority = or_priority r, so_enabled = or_enabled r\<rparr>"

definition GetSplitPolicy :: "split_store \<Rightarrow> string \<Rightarrow> split_policy" where
  "GetSplitPolicy st tenant =
     (case find (\<lambda>p. pol_tenant p = tenant) (ss_policies st) of
        None \<Rightarrow> DefaultSplitPolicy\<lparr>pol_tenant := tenant\<rparr>
      | Some p \<Rightarrow> p)"

text \<open>\<open>INSERT \<dots> ON DUPLICATE KEY UPDATE\<close>: the row of the tenant keeps its identifier.\<close>

definition SaveSplitPolicy :: "string \<Rightarrow> split_policy \<Rightarrow> split_store \<Rightarrow> split_policy \<times> split_store" where
  "SaveSplitPolicy tenant policy st =
     (let st' =
        (if list_ex (\<lambda>p. pol_tenant p = tenant) (ss_policies st)
         then st\<lparr>ss_policies := update_where (\<lambda>p. pol_tenant p = tenant)
                (\<lambda>p. policy\<lparr>pol_tenant := tenant, pol_id := pol_id p\<rparr>) (ss_policies st)\<rparr>
         else st\<lparr>ss_policies := ss_policies st @ [policy\<lparr>pol_tenant := tenant, pol_id := ss_next st\<rparr>],
                 ss_next := ss_next st + 1\<rparr>)
      in (GetSplitPolicy st' tenant, st'))"

definition category_row :: "env \<Rightarrow> string \<Rightarrow> string \<Rightarrow> detection_category \<Rightarrow> bool" where
  "category_row env tenant category c \<longleftrightarrow> dc_tenant c = tenant \<and> sql_eq env (dc_category c) category"

definition insert_category :: "string \<Rightarrow> detection_category \<Rightarrow> split_store \<Rightarrow> split_store" where
  "insert_category tenant item st =
     st\<lparr>ss_categories := ss_categories st @
          [item\<lparr>dc_tenant := tenant, dc_id := ss_next st, dc_count := 0\<rparr>],
        ss_next := ss_next st + 1\<rparr>"

text \<open>\<open>OnConflict{DoNothing}\<close>.\<close>

fun seedDetectionCategories ::
  "env \<Rightarrow> string \<Rightarrow> detection_category list \<Rightarrow> split_store \<Rightarrow> split_store" where
  "seedDetectionCategories env tenant [] st = st"
| "seedDetectionCategories env tenant (item # items) st =
     seedDetectionCategories env tenant items
       (if list_ex (category_row env tenant (dc_category item)) (ss_categories st) then st
        else insert_category tenant item st)"

definition tenant_categories :: "split_store \<Rightarrow> string \<Rightarrow> detection_category list" where
  "tenant_categories st tenant =
     sort_key dc_id (filter (\<lambda>c. dc_tenant c = tenant) (ss_categories st))"

definition ListDetectionCategories ::
  "env \<Rightarrow> (string \<Rightarrow> int) \<Rightarrow> string \<Rightarrow> split_store \<Rightarrow> detection_category list \<times> split_store" where
  "ListDetectionCategories env counts tenant st =
     (let st' = (if tenant_categories st tenant = []
                 then seedDetectionCategories env tenant DefaultDetectionCategories st else st)
      in (map (\<lambda>c. c\<lparr>dc_count := counts (to_lower (dc_category c))\<rparr>) (tenant_categories st' tenant), st'))"

definition SaveDetectionCategory ::
  "env \<Rightarrow> string \<Rightarrow> detection_category \<Rightarrow> split_store \<Rightarrow> split_store" where
  "SaveDetectionCategory env tenant item st =
     (if list_ex (category_row env tenant (dc_category item)) (ss_categories st)
      then st\<lparr>ss_categories := update_where (category_row env tenant (dc_category item))
             (\<lambda>c. c\<lparr>dc_standard := dc_standard item, dc_qualifications := dc_qualifications item,
                   dc_codes := dc_codes item, dc_special := dc_special item,
                   dc_enabled := dc_enabled item\<rparr>) (ss_categories st)\<rparr>
      else insert_category tenant item st)"

definition DeleteDetectionCategory ::
  "env \<Rightarrow> (string \<Rightarrow> int) \<Rightarrow> string \<Rightarrow> string \<Rightarrow> split_store \<Rightarrow> app_error + split_store" where
  "DeleteDetectionCategory env counts tenant category st =
     (if 0 < counts (to_lower (trim_space category)) then Inl ErrResourceConflict
      else if \<not> list_ex (category_row env tenant (trim_space category)) (ss_categories st)
      then Inl ErrNotFound
      else Inr (st\<lparr>ss_categories :=
             filter (\<lambda>c. \<not> category_row env tenant (trim_space category) c) (ss_categories st)\<rparr>))"

definition ListSplitOverrides :: "split_store \<Rightarrow> string \<Rightarrow> split_override list" where
  "ListSplitOverrides st tenant =
     map splitOverrideFromRecord
       (sort_key (\<lambda>r. (or_priority r, or_id r)) (filter (\<lambda>r. or_tenant r = tenant) (ss_overrides st)))"

definition override_key :: "string \<Rightarrow> int \<Rightarrow> override_row \<Rightarrow> bool" where
  "override_key tenant i r \<longleftrightarrow> or_tenant r = tenant \<and> or_id r = i"

definition GetSplitOverride :: "split_store \<Rightarrow> string \<Rightarrow> int \<Rightarrow> app_error + split_override" where
  "GetSplitOverride st tenant i =
     (case find (override_key tenant i) (ss_overrides st) of
        None \<Rightarrow> Inl ErrNotFound | Some r \<Rightarrow> Inr (splitOverrideFromRecord r))"

definition override_record :: "string \<Rightarrow> int \<Rightarrow> split_override \<Rightarrow> override_row" where
  "override_record tenant i item =
     \<lparr>or_tenant = tenant, or_id = i, or_name = so_name item, or_match = encode_match (so_match item),
      or_settings = encode_settings (so_settings item), or_priority = so_priority item,
      or_enabled = so_enabled item\<rparr>"

definition SaveSplitOverride ::
  "string \<Rightarrow> split_override \<Rightarrow> split_store \<Rightarrow> app_error + split_override \<times> split_store" where
  "SaveSplitOverride tenant item st =
     (if 0 < so_id item then
        (if \<not> list_ex (override_key tenant (so_id item)) (ss_overrides st) then Inl ErrNotFound
         else let st' = st\<lparr>ss_overrides := update_where (override_key tenant (so_id item))
                             (\<lambda>r. override_record tenant (or_id r) item) (ss_overrides st)\<rparr>
              in rbind (GetSplitOverride st' tenant (so_id item)) (\<lambda>o'. Inr (o', st')))
      else let r = override_record tenant (ss_next st) item
           in Inr (splitOverrideFromRecord r,
                   st\<lparr>ss_overrides := ss_overrides st @ [r], ss_next := ss_next st + 1\<rparr>))"

definition DeleteSplitOverride ::
  "string \<Rightarrow> int \<Rightarrow> split_store \<Rightarrow> app_error + split_override \<times> split_store" where
  "DeleteSplitOverride tenant i st =
     rbind (GetSplitOverride st tenant i) (\<lambda>existing.
       Inr (existing, st\<lparr>ss_overrides := filter (\<lambda>r. \<not> override_key tenant i r) (ss_overrides st)\<rparr>))"

section \<open>The operations of the pages\<close>

text \<open>\<open>may\<close> tells which permissions the caller holds over the whole data of the tenant.\<close>

definition valid_or :: "'e + unit \<Rightarrow> app_error + unit" where
  "valid_or r = (case r of Inl _ \<Rightarrow> Inl ErrValidation | Inr _ \<Rightarrow> Inr ())"

lemma valid_or_Inr [res_simps]: "valid_or r = Inr u \<longleftrightarrow> r = Inr ()"
  by (cases r) (auto simp: valid_or_def)

definition normal_policy :: "split_policy \<Rightarrow> split_policy" where
  "normal_policy input =
     \<lparr>pol_tenant = [], pol_id = 0, pol_primary = trim_space (pol_primary input),
      pol_secondary = trim_space (pol_secondary input),
      pol_tertiary = trim_space (pol_tertiary input), pol_status = trim_space (pol_status input),
      pol_summary = pol_summary input, pol_locked = pol_locked input,
      pol_missing = to_upper (trim_space (pol_missing input)),
      pol_detection = pol_detection input, pol_enabled = pol_enabled input\<rparr>"

definition Service_SaveSplitPolicy ::
  "(string \<Rightarrow> bool) \<Rightarrow> string \<Rightarrow> split_policy \<Rightarrow> split_store \<Rightarrow> app_error + split_policy \<times> split_store" where
  "Service_SaveSplitPolicy may tenant input st =
     rbind (rguard (may ''project_rule.manage'') ErrForbidden) (\<lambda>_.
     rbind (valid_or (ValidateSplitPolicy (normal_policy input))) (\<lambda>_.
       Inr (SaveSplitPolicy tenant (normal_policy input) st)))"

definition category_codes :: "detection_category \<Rightarrow> string list" where
  "category_codes c = normalizeCapabilityCodes (SplitCapabilityCodes (dc_codes c))"

definition normal_category :: "detection_category \<Rightarrow> detection_category" where
  "normal_category input =
     (let special = to_upper (trim_space (dc_special input)) in
      \<lparr>dc_tenant = [], dc_id = 0, dc_category = trim_space (dc_category input),
       dc_standard = trim_space (dc_standard input),
       dc_qualifications = trim_space (dc_qualifications input),
       dc_codes = join_with '','' (category_codes input),
       dc_special = (if special = [] then SpecialMethodNo else special),
       dc_enabled = dc_enabled input, dc_count = 0\<rparr>)"

definition Service_SaveDetectionCategory ::
  "(string \<Rightarrow> bool) \<Rightarrow> env \<Rightarrow> capability_rule list \<Rightarrow> string \<Rightarrow> detection_category \<Rightarrow> split_store \<Rightarrow>
     app_error + split_store" where
  "Service_SaveDetectionCategory may env codeRules tenant input st =
     rbind (rguard (may ''project_rule.manage'') ErrForbidden) (\<lambda>_.
     rbind (valid_or (ValidateDetectionCategory (normal_category input))) (\<lambda>_.
     rbind (valid_or (validateRequiredCodesAgainstCatalog codeRules (category_codes input))) (\<lambda>_.
       Inr (SaveDetectionCategory env tenant (normal_category input) st))))"

definition Service_DeleteDetectionCategory ::
  "(string \<Rightarrow> bool) \<Rightarrow> env \<Rightarrow> (string \<Rightarrow> int) \<Rightarrow> string \<Rightarrow> string \<Rightarrow> split_store \<Rightarrow> app_error + split_store"
where
  "Service_DeleteDetectionCategory may env counts tenant category st =
     rbind (rguard (may ''project_rule.manage'') ErrForbidden) (\<lambda>_.
     rbind (rguard (\<not> blank category) ErrValidation) (\<lambda>_.
       DeleteDetectionCategory env counts tenant category st))"

definition normal_override :: "split_override \<Rightarrow> split_override" where
  "normal_override input =
     \<lparr>so_tenant = [], so_id = so_id input, so_name = trim_space (so_name input),
      so_match = so_match input, so_settings = so_settings input,
      so_priority = (if so_priority input \<le> 0 then 100 else so_priority input),
      so_enabled = so_enabled input\<rparr>"

definition Service_SaveSplitOverride ::
  "(string \<Rightarrow> bool) \<Rightarrow> string \<Rightarrow> split_override \<Rightarrow> split_store \<Rightarrow>
     app_error + split_override \<times> split_store" where
  "Service_SaveSplitOverride may tenant input st =
     rbind (rguard (may ''project_rule.manage'') ErrForbidden) (\<lambda>_.
     rbind (valid_or (ValidateSplitOverride (normal_override input))) (\<lambda>_.
       SaveSplitOverride tenant (normal_override input) st))"

definition Service_DeleteSplitOverride ::
  "(string \<Rightarrow> bool) \<Rightarrow> string \<Rightarrow> int \<Rightarrow> split_store \<Rightarrow> app_error + split_override \<times> split_store" where
  "Service_DeleteSplitOverride may tenant i st =
     rbind (rguard (may ''project_rule.manage'') ErrForbidden) (\<lambda>_.
     rbind (rguard (0 < i) ErrValidation) (\<lambda>_. DeleteSplitOverride tenant i st))"

subsection \<open>The import of categories\<close>

text \<open>A refused row is skipped with its number and the reason; the others are saved.\<close>

record category_import =
  ci_imported :: nat
  ci_skipped :: nat
  ci_errors :: "(nat \<times> (split_error + code_error)) list"

definition import_row ::
  "env \<Rightarrow> capability_rule list \<Rightarrow> string \<Rightarrow> detection_category \<Rightarrow> split_store \<Rightarrow>
     (split_error + code_error) + split_store" where
  "import_row env codeRules tenant row st =
     (case ValidateDetectionCategory (normal_category row) of
        Inl e \<Rightarrow> Inl (Inl e)
      | Inr _ \<Rightarrow>
         (case validateRequiredCodesAgainstCatalog codeRules (category_codes row) of
            Inl e \<Rightarrow> Inl (Inr e)
          | Inr _ \<Rightarrow> Inr (SaveDetectionCategory env tenant (normal_category row) st)))"

fun import_rows ::
  "env \<Rightarrow> capability_rule list \<Rightarrow> string \<Rightarrow> nat \<Rightarrow> detection_category list \<Rightarrow> category_import \<Rightarrow>
     split_store \<Rightarrow> category_import \<times> split_store" where
  "import_rows env codeRules tenant index [] res st = (res, st)"
| "import_rows env codeRules tenant index (row # rows) res st =
     (case import_row env codeRules tenant row st of
        Inl e \<Rightarrow> import_rows env codeRules tenant (index + 1) rows
          (res\<lparr>ci_skipped := ci_skipped res + 1, ci_errors := ci_errors res @ [(index + 1, e)]\<rparr>) st
      | Inr st' \<Rightarrow> import_rows env codeRules tenant (index + 1) rows
          (res\<lparr>ci_imported := ci_imported res + 1\<rparr>) st')"

definition ImportDetectionCategories ::
  "(string \<Rightarrow> bool) \<Rightarrow> env \<Rightarrow> capability_rule list \<Rightarrow> string \<Rightarrow> detection_category list \<Rightarrow> split_store \<Rightarrow>
     app_error + category_import \<times> split_store" where
  "ImportDetectionCategories may env codeRules tenant rows st =
     rbind (rguard (may ''project_rule.manage'') ErrForbidden) (\<lambda>_.
       Inr (import_rows env codeRules tenant 0 rows
              \<lparr>ci_imported = 0, ci_skipped = 0, ci_errors = []\<rparr> st))"

end
