(* ===== verification/SplitConfig.thy ===== *)
theory SplitConfig
  imports SplitStore
begin

text \<open>
  Properties of the splitting configuration: the codes of a category survive the comma-separated
  column, an override is read back as it was saved, and every sequence of operations keeps the
  configuration well formed.
\<close>

section \<open>Codes in a comma-separated column\<close>

definition clean :: "string \<Rightarrow> bool" where
  "clean s \<longleftrightarrow> CHR '','' \<notin> set s \<and> CHR '';'' \<notin> set s \<and>
     (\<forall>i. \<not> wide_separator (drop i s))"

lemma wide_separator_length: "wide_separator s \<Longrightarrow> 3 \<le> length s"
  by (cases s; cases "tl s"; cases "tl (tl s)") (auto simp: wide_separator_def)

lemma wide_separator_append: "wide_separator s \<Longrightarrow> wide_separator (s @ t)"
  using wide_separator_length [of s] by (simp add: wide_separator_def)

lemma wide_separator_drop:
  assumes "wide_separator (drop i s)"
  shows "wide_separator (drop (length p + i) (p @ s @ q))"
proof -
  have "i \<le> length s" using wide_separator_length [OF assms] by simp
  then have "drop (length p + i) (p @ s @ q) = drop i s @ q" by simp
  with assms show ?thesis by (simp add: wide_separator_append)
qed

lemma clean_infix: "clean (p @ s @ q) \<Longrightarrow> clean s"
  unfolding clean_def by (auto simp del: drop_append dest: wide_separator_drop [of _ s p q])

lemma clean_Nil [simp]: "clean []"
  by (simp add: clean_def wide_separator_def)

lemma clean_Cons:
  "clean (c # s) \<longleftrightarrow> c \<noteq> CHR '','' \<and> c \<noteq> CHR '';'' \<and> \<not> wide_separator (c # s) \<and> clean s"
proof -
  have "(\<forall>i. \<not> wide_separator (drop i (c # s))) \<longleftrightarrow>
      \<not> wide_separator (c # s) \<and> (\<forall>i. \<not> wide_separator (drop i s))"
    by (metis drop0 drop_Suc_Cons not0_implies_Suc)
  then show ?thesis by (auto simp: clean_def)
qed

lemma wide_separator_upper: "wide_separator (map upper_char s) = wide_separator s"
proof -
  have "take 3 (map upper_char s) = [a, b, c] \<longleftrightarrow> take 3 s = [a, b, c]"
    if "a = CHR 0xEF" "b = CHR 0xBC" "c = CHR 0x8C \<or> c = CHR 0x9B" for a b c
    using that by (auto simp: take_map map_eq_Cons_conv upper_char_eq_nonletter)
  then show ?thesis by (simp add: wide_separator_def)
qed

lemma image_upper_nonletter:
  assumes "\<And>c. upper_char c = d \<longleftrightarrow> c = d"
  shows "d \<in> upper_char ` S \<longleftrightarrow> d \<in> S"
  by (auto simp: image_iff assms eq_commute [of d])

lemma separator_upper:
  "CHR '','' \<in> upper_char ` S \<longleftrightarrow> CHR '','' \<in> S" "CHR '';'' \<in> upper_char ` S \<longleftrightarrow> CHR '';'' \<in> S"
  by (rule image_upper_nonletter, simp add: upper_char_eq_nonletter)+

lemma clean_upper: "clean s \<Longrightarrow> clean (to_upper s)"
  by (simp add: clean_def to_upper_def drop_map wide_separator_upper separator_upper)

lemma trim_left_suffix: "\<exists>p. s = p @ trim_left s"
  by (induction s rule: trim_left.induct) (simp_all, metis append_Cons append_Nil)+

lemma trim_space_infix: "\<exists>p q. s = p @ trim_space s @ q"
proof -
  obtain p where p: "s = p @ trim_left s" using trim_left_suffix by blast
  obtain q where "rev (trim_left s) = q @ trim_rev (rev (trim_left s))" using trim_rev_suffix by blast
  then have "trim_left s = trim_space s @ rev q"
    unfolding trim_space_def by (metis rev_append rev_rev_ident)
  with p show ?thesis by metis
qed

lemma clean_trim: "clean s \<Longrightarrow> clean (trim_space s)"
  using trim_space_infix [of s] clean_infix by metis

lemma clean_normal_code: "clean s \<Longrightarrow> clean (normalizeCapabilityCode s)"
  by (simp add: normalizeCapabilityCode_def clean_upper clean_trim)

text \<open>The stretches \<open>code_fields\<close> returns hold no separator.\<close>

definition scanning :: "string \<Rightarrow> string \<Rightarrow> bool" where
  "scanning acc s \<longleftrightarrow> CHR '','' \<notin> set acc \<and> CHR '';'' \<notin> set acc \<and>
     (\<forall>i < length acc. \<not> wide_separator (drop i (rev acc @ s)))"

lemma scanning_clean: "scanning acc s \<Longrightarrow> clean (rev acc)"
  using wide_separator_drop [of _ "rev acc" "[]" s] wide_separator_length
  by (fastforce simp: scanning_def clean_def)

lemma scanning_Nil [simp]: "scanning [] s"
  by (simp add: scanning_def)

lemma scanning_step:
  assumes "scanning acc (c # s)" and "c \<noteq> CHR '',''" and "c \<noteq> CHR '';''"
    and "\<not> wide_separator (c # s)"
  shows "scanning (c # acc) s"
  using assms by (auto simp: scanning_def less_Suc_eq)

lemma code_fields_clean: "scanning acc s \<Longrightarrow> f \<in> set (code_fields acc s) \<Longrightarrow> clean f"
proof (induction acc s rule: code_fields.induct)
  case (2 acc c s)
  then show ?case
    using scanning_clean [OF 2(6)] scanning_step [OF 2(6)] by (auto split: if_splits)
qed (auto split: if_splits dest: scanning_clean)

lemma code_fields_append:
  "clean s \<Longrightarrow> t = [] \<or> hd t = CHR '','' \<Longrightarrow> code_fields acc (s @ t) = code_fields (rev s @ acc) t"
proof (induction s arbitrary: acc)
  case (Cons c s)
  have "\<not> wide_separator (c # s @ t)"
  proof
    assume w: "wide_separator (c # s @ t)"
    have "\<not> wide_separator (c # s)" using Cons(2) by (simp add: clean_Cons)
    then have "length s < 2"
      using w by (cases s; cases "tl s") (auto simp: wide_separator_def)
    then show False
      using w Cons(3) by (cases t; cases s; cases "tl s") (auto simp: wide_separator_def)
  qed
  with Cons show ?case by (simp add: clean_Cons)
qed simp

lemma code_fields_join:
  "list_all (\<lambda>c. c \<noteq> [] \<and> clean c) codes \<Longrightarrow> code_fields [] (join_with '','' codes) = codes"
proof (induction "'',''" codes rule: join_with.induct)
  case (2 x)
  then show ?case using code_fields_append [of x "[]" "[]"] by simp
next
  case (3 x y ys)
  then show ?case
    using code_fields_append [of x "'','' @ join_with '','' (y # ys)" "[]"] by simp
qed simp

lemma category_codes_clean: "list_all (\<lambda>c. c \<noteq> [] \<and> clean c) (category_codes c)"
proof -
  have "clean code" if "code \<in> set (SplitCapabilityCodes s)" for code s
    using that code_fields_clean [OF scanning_Nil] clean_trim
    by (auto simp: SplitCapabilityCodes_def)
  then show ?thesis
    by (auto simp: category_codes_def normalizeCapabilityCodes_def list_all_iff
        intro: clean_normal_code)
qed

lemma category_codes_normal: "normal_codes (category_codes c)"
  by (simp add: category_codes_def normalizeCapabilityCodes_normal)

lemma trim_normal_code: "normalizeCapabilityCode c = c \<Longrightarrow> trim_space c = c"
  by (metis normalizeCapabilityCode_def trim_space_idem trim_space_to_upper)

text \<open>Reading the joined column gives back the codes that were joined.\<close>

lemma SplitCapabilityCodes_join:
  "SplitCapabilityCodes (join_with '','' (category_codes c)) = category_codes c"
proof -
  let ?cs = "category_codes c"
  have n: "normal_codes ?cs" by (rule category_codes_normal)
  then have "map trim_space ?cs = ?cs" "filter (\<lambda>c. c \<noteq> []) ?cs = ?cs" "distinct ?cs"
    by (auto simp: normal_codes_def list_all_iff trim_normal_code intro: map_idI)
  then show ?thesis
    by (simp add: SplitCapabilityCodes_def code_fields_join category_codes_clean uniq_def uniq_from_id)
qed

lemma normal_category_codes: "category_codes (normal_category c) = category_codes c"
  by (subst category_codes_def)
    (simp add: normal_category_def Let_def SplitCapabilityCodes_join
      normal_codes_fixed [OF category_codes_normal])

section \<open>Well-formed configurations\<close>

definition policy_wf :: "'a split_policy_scheme \<Rightarrow> bool" where
  "policy_wf p \<longleftrightarrow>
     pol_primary p \<in> set split_dimensions \<and> pol_secondary p \<in> set split_dimensions \<and>
     pol_primary p \<noteq> pol_secondary p \<and>
     (pol_tertiary p = [] \<or>
        pol_tertiary p \<in> set split_dimensions \<and> pol_tertiary p \<noteq> pol_primary p \<and>
        pol_tertiary p \<noteq> pol_secondary p) \<and>
     initial_status (pol_status p) \<and> missing_action (pol_missing p)"

definition category_wf :: "detection_category \<Rightarrow> bool" where
  "category_wf c \<longleftrightarrow> \<not> blank (dc_category c) \<and> special_method (dc_special c) \<and>
     SplitCapabilityCodes (dc_codes c) = category_codes c"

definition override_wf :: "override_row \<Rightarrow> bool" where
  "override_wf r \<longleftrightarrow> ValidateSplitOverride (splitOverrideFromRecord r) = Inr ()"

definition category_index :: "env \<Rightarrow> detection_category \<Rightarrow> string \<times> string" where
  "category_index env c = (dc_tenant c, env_fold env (dc_category c))"

definition config_ok :: "env \<Rightarrow> split_store \<Rightarrow> bool" where
  "config_ok env st \<longleftrightarrow>
     distinct (map pol_tenant (ss_policies st)) \<and> (\<forall>p \<in> set (ss_policies st). policy_wf p) \<and>
     distinct (map (category_index env) (ss_categories st)) \<and>
     (\<forall>c \<in> set (ss_categories st). category_wf c) \<and>
     distinct (map or_id (ss_overrides st)) \<and> (\<forall>r \<in> set (ss_overrides st). override_wf r) \<and>
     (\<forall>r \<in> set (ss_overrides st). 0 < or_id r \<and> or_id r < ss_next st) \<and> 0 < ss_next st"

definition no_config :: split_store where
  "no_config = \<lparr>ss_policies = [], ss_categories = [], ss_overrides = [], ss_next = 1\<rparr>"

lemma config_ok_empty: "config_ok env no_config"
  by (simp add: config_ok_def no_config_def)

lemma DefaultSplitPolicy_wf [simp]: "policy_wf DefaultSplitPolicy"
  by code_simp

lemma policy_wf_more [simp]:
  "policy_wf (p\<lparr>pol_tenant := t\<rparr>) = policy_wf p" "policy_wf (p\<lparr>pol_id := i\<rparr>) = policy_wf p"
  by (simp_all add: policy_wf_def)

lemma normal_policy_wf:
  assumes "ValidateSplitPolicy (normal_policy input) = Inr ()"
  shows "policy_wf (normal_policy input)"
  using assms
  by (auto simp: ValidateSplitPolicy_def normal_policy_def policy_wf_def validSplitDimension_def Let_def
      split: if_splits)

lemma normal_category_wf:
  assumes "ValidateDetectionCategory (normal_category input) = Inr ()"
  shows "category_wf (normal_category input)"
proof -
  have "dc_codes (normal_category input) = join_with '','' (category_codes input)"
    by (simp add: normal_category_def Let_def)
  with assms show ?thesis
    by (auto simp: ValidateDetectionCategory_def category_wf_def normal_category_codes
        SplitCapabilityCodes_join split: if_splits)
qed

lemma default_categories_wf: "list_all category_wf DefaultDetectionCategories"
  by code_simp

lemma category_wf_more [simp]:
  "category_wf (c\<lparr>dc_tenant := t\<rparr>) = category_wf c" "category_wf (c\<lparr>dc_id := i\<rparr>) = category_wf c"
  "category_wf (c\<lparr>dc_count := n\<rparr>) = category_wf c"
  by (simp_all add: category_wf_def category_codes_def)

lemma override_of_record [simp]:
  "splitOverrideFromRecord (override_record tenant i item) = item\<lparr>so_tenant := tenant, so_id := i\<rparr>"
  by (cases item) (simp add: splitOverrideFromRecord_def override_record_def)

lemma ValidateSplitOverride_more [simp]:
  "ValidateSplitOverride (item\<lparr>so_tenant := t\<rparr>) = ValidateSplitOverride item"
  "ValidateSplitOverride (item\<lparr>so_id := i\<rparr>) = ValidateSplitOverride item"
  by (simp_all add: ValidateSplitOverride_def cong: if_cong)

lemma override_record_fields [simp]:
  "or_tenant (override_record t i item) = t" "or_id (override_record t i item) = i"
  "or_priority (override_record t i item) = so_priority item"
  "or_enabled (override_record t i item) = so_enabled item"
  by (simp_all add: override_record_def)

subsection \<open>The commands keep the configuration well formed\<close>

lemma in_update_where:
  "q \<in> set (update_where P f rows) \<Longrightarrow> \<exists>r \<in> set rows. (P r \<and> q = f r) \<or> (\<not> P r \<and> q = r)"
  by (induction rows) (auto split: if_splits)

lemma bump: "\<forall>r \<in> S. 0 < or_id r \<and> or_id r < n \<Longrightarrow> \<forall>r \<in> S. or_id r \<le> n"
  by (auto intro: less_imp_le)

lemma SaveSplitPolicy_ok:
  assumes "config_ok env st" and "policy_wf p" and "SaveSplitPolicy tenant p st = (q, st')"
  shows "config_ok env st'"
  using assms
  by (auto simp: config_ok_def SaveSplitPolicy_def Let_def list_ex_iff map_key_update_where
      split: if_splits dest: bump dest!: in_update_where)

lemma category_row_index:
  "category_row env tenant category c \<longleftrightarrow> category_index env c = (tenant, env_fold env category)"
  by (simp add: category_row_def category_index_def sql_eq_def)

lemma insert_category_ok:
  assumes "config_ok env st" and "category_wf item"
    and "\<not> list_ex (category_row env tenant (dc_category item)) (ss_categories st)"
  shows "config_ok env (insert_category tenant item st)"
proof -
  have "(tenant, env_fold env (dc_category item)) \<notin> category_index env ` set (ss_categories st)"
    using assms(3) by (force simp: list_ex_iff category_row_index)
  with assms(1,2) show ?thesis
    by (auto simp: config_ok_def insert_category_def category_index_def dest: bump)
qed

lemma seed_ok:
  "config_ok env st \<Longrightarrow> list_all category_wf items \<Longrightarrow>
   config_ok env (seedDetectionCategories env tenant items st)"
  by (induction env tenant items st rule: seedDetectionCategories.induct)
    (auto simp: insert_category_ok)

lemma SaveDetectionCategory_ok:
  assumes "config_ok env st" and "category_wf item"
  shows "config_ok env (SaveDetectionCategory env tenant item st)"
proof (cases "list_ex (category_row env tenant (dc_category item)) (ss_categories st)")
  case True
  have "category_wf (c\<lparr>dc_standard := dc_standard item, dc_qualifications := dc_qualifications item,
      dc_codes := dc_codes item, dc_special := dc_special item, dc_enabled := dc_enabled item\<rparr>)"
    if "category_wf c" for c
    using that assms(2) by (simp add: category_wf_def category_codes_def)
  with True assms show ?thesis
    by (auto simp: config_ok_def SaveDetectionCategory_def map_key_update_where category_index_def
        dest!: in_update_where)
next
  case False
  then show ?thesis by (simp add: SaveDetectionCategory_def insert_category_ok assms)
qed

lemma import_rows_ok:
  "config_ok env st \<Longrightarrow> config_ok env (snd (import_rows env codeRules tenant index rows res st))"
  by (induction env codeRules tenant index rows res st rule: import_rows.induct)
    (auto simp: import_row_def SaveDetectionCategory_ok normal_category_wf split: sum.splits)

lemma DeleteDetectionCategory_ok:
  assumes "config_ok env st" and "DeleteDetectionCategory env counts tenant category st = Inr st'"
  shows "config_ok env st'"
  using assms by (auto simp: config_ok_def DeleteDetectionCategory_def distinct_map_filter split: if_splits)

lemma SaveSplitOverride_ok:
  assumes ok: "config_ok env st" and v: "ValidateSplitOverride item = Inr ()"
    and save: "SaveSplitOverride tenant item st = Inr (q, st')"
  shows "config_ok env st'"
proof (cases "0 < so_id item")
  case True
  with save have "st' = st\<lparr>ss_overrides := update_where (override_key tenant (so_id item))
      (\<lambda>r. override_record tenant (or_id r) item) (ss_overrides st)\<rparr>"
    by (auto simp: SaveSplitOverride_def Let_def res_simps split: if_splits)
  with ok v show ?thesis
    by (auto simp: config_ok_def map_key_update_where override_wf_def dest!: in_update_where)
next
  case False
  with save have "st' = st\<lparr>ss_overrides := ss_overrides st @ [override_record tenant (ss_next st) item],
      ss_next := ss_next st + 1\<rparr>"
    by (auto simp: SaveSplitOverride_def Let_def)
  with ok v show ?thesis by (auto simp: config_ok_def override_wf_def dest: bump)
qed

lemma DeleteSplitOverride_ok:
  assumes "config_ok env st" and "DeleteSplitOverride tenant i st = Inr (q, st')"
  shows "config_ok env st'"
  using assms by (auto simp: config_ok_def DeleteSplitOverride_def res_simps distinct_map_filter)

datatype config_command =
    SavePolicy split_policy
  | ListCategories
  | SaveCategory detection_category
  | DeleteCategory string
  | ImportCategories "detection_category list"
  | SaveOverride split_override
  | DeleteOverride int

text \<open>
  A command of a tenant. Reading the catalogue is one: it seeds it. The permissions of the caller,
  the collation, the codes of the catalogue and the counts per category are fixed for a run.
\<close>

record config_context =
  cx_may :: "string \<Rightarrow> bool"
  cx_env :: env
  cx_rules :: "capability_rule list"
  cx_counts :: "string \<Rightarrow> int"

fun config_step ::
  "config_context \<Rightarrow> string \<times> config_command \<Rightarrow> split_store \<Rightarrow> app_error + split_store" where
  "config_step cx (tenant, SavePolicy p) st =
     map_sum id snd (Service_SaveSplitPolicy (cx_may cx) tenant p st)"
| "config_step cx (tenant, ListCategories) st =
     rbind (rguard (cx_may cx ''project.read'') ErrForbidden) (\<lambda>_.
       Inr (snd (ListDetectionCategories (cx_env cx) (cx_counts cx) tenant st)))"
| "config_step cx (tenant, SaveCategory c) st =
     Service_SaveDetectionCategory (cx_may cx) (cx_env cx) (cx_rules cx) tenant c st"
| "config_step cx (tenant, DeleteCategory c) st =
     Service_DeleteDetectionCategory (cx_may cx) (cx_env cx) (cx_counts cx) tenant c st"
| "config_step cx (tenant, ImportCategories rows) st =
     map_sum id snd (ImportDetectionCategories (cx_may cx) (cx_env cx) (cx_rules cx) tenant rows st)"
| "config_step cx (tenant, SaveOverride ov) st =
     map_sum id snd (Service_SaveSplitOverride (cx_may cx) tenant ov st)"
| "config_step cx (tenant, DeleteOverride i) st =
     map_sum id snd (Service_DeleteSplitOverride (cx_may cx) tenant i st)"

lemma map_sum_id_Inr [res_simps]: "map_sum id f x = Inr y \<longleftrightarrow> (\<exists>a. x = Inr a \<and> f a = y)"
  by (cases x) auto

lemma config_step_ok:
  assumes ok: "config_ok (cx_env cx) st" and step: "config_step cx c st = Inr st'"
  shows "config_ok (cx_env cx) st'"
proof -
  obtain tenant d where c: "c = (tenant, d)" by (cases c)
  note step = step [unfolded c]
  show ?thesis
  proof (cases d)
    case (SavePolicy p)
    with step ok show ?thesis
      by (auto simp: Service_SaveSplitPolicy_def res_simps prod_eq_iff
          intro: SaveSplitPolicy_ok [OF ok normal_policy_wf])
  next
    case ListCategories
    with step ok show ?thesis
      by (auto simp: ListDetectionCategories_def Let_def res_simps seed_ok default_categories_wf)
  next
    case (SaveCategory cat)
    with step ok show ?thesis
      by (auto simp: Service_SaveDetectionCategory_def res_simps
          intro: SaveDetectionCategory_ok normal_category_wf)
  next
    case (DeleteCategory cat)
    with step ok show ?thesis
      by (auto simp: Service_DeleteDetectionCategory_def res_simps intro: DeleteDetectionCategory_ok)
  next
    case (ImportCategories rows)
    with step ok show ?thesis
      by (auto simp: ImportDetectionCategories_def res_simps import_rows_ok)
  next
    case (SaveOverride ov)
    with step ok show ?thesis
      by (auto simp: Service_SaveSplitOverride_def res_simps intro: SaveSplitOverride_ok)
  next
    case (DeleteOverride i)
    with step ok show ?thesis
      by (auto simp: Service_DeleteSplitOverride_def res_simps intro: DeleteSplitOverride_ok)
  qed
qed

interpretation configuration: transactional "config_step cx" "\<lambda>_. True" "config_ok (cx_env cx)"
  for cx
  by unfold_locales (rule config_step_ok)

end
