(* ===== verification/SplitPlans.thy ===== *)
theory SplitPlans
  imports SplitConfig
begin

text \<open>
  From a contract to its service items (second half of \<open>application/split_config.go\<close>, and
  \<open>groupContractServicesByPlan\<close> of \<open>application/delivery_contract.go\<close>): the plan in force for a
  contract, the initial status and method of a category under the plan, and the grouping of the
  lines of the contract into service items.
\<close>

section \<open>Small helpers of the application layer\<close>

definition firstNonEmpty :: "string \<Rightarrow> string \<Rightarrow> string" where
  "firstNonEmpty a b = (if \<not> blank a then trim_space a else if \<not> blank b then trim_space b else [])"

definition yes :: string where
  "yes = [CHR 0xE6, CHR 0x98, CHR 0xAF]"

definition no :: string where
  "no = [CHR 0xE5, CHR 0x90, CHR 0xA6]"

definition yesNo :: "bool \<Rightarrow> string" where
  "yesNo v = (if v then yes else no)"

text \<open>The ideographic comma, three bytes.\<close>

definition list_comma :: string where
  "list_comma = [CHR 0xE3, CHR 0x80, CHR 0x81]"

definition joinUnique :: "string \<Rightarrow> string \<Rightarrow> string" where
  "joinUnique existing nxt =
     (if nxt = [] then existing
      else if List.member (split_on existing list_comma) nxt then existing
      else if existing = [] then nxt
      else existing @ list_comma @ nxt)"

section \<open>The plan of a contract\<close>

text \<open>\<open>SplitPlan\<close> embeds the policy it was derived from.\<close>

record split_plan = split_policy +
  pa_id :: int
  pa_name :: string

definition plan_of :: "split_policy \<Rightarrow> split_plan" where
  "plan_of p = split_policy.extend p \<lparr>pa_id = 0, pa_name = []\<rparr>"

definition applySplitOverride :: "'a split_policy_scheme \<Rightarrow> override_settings \<Rightarrow> 'a split_policy_scheme" where
  "applySplitOverride p s =
     p\<lparr>pol_primary := (case os_primary s of Some v \<Rightarrow> trim_space v | None \<Rightarrow> pol_primary p),
       pol_secondary := (case os_secondary s of Some v \<Rightarrow> trim_space v | None \<Rightarrow> pol_secondary p),
       pol_tertiary := (case os_tertiary s of Some v \<Rightarrow> trim_space v | None \<Rightarrow> pol_tertiary p),
       pol_status := (case os_status s of Some v \<Rightarrow> trim_space v | None \<Rightarrow> pol_status p),
       pol_summary := (case os_summary s of Some v \<Rightarrow> v | None \<Rightarrow> pol_summary p),
       pol_locked := (case os_locked s of Some v \<Rightarrow> v | None \<Rightarrow> pol_locked p),
       pol_missing := (case os_missing s of Some v \<Rightarrow> to_upper (trim_space v) | None \<Rightarrow> pol_missing p),
       pol_detection := (case os_detection s of Some v \<Rightarrow> v | None \<Rightarrow> pol_detection p)\<rparr>"

definition resolveSplitPlan ::
  "split_store \<Rightarrow> string \<Rightarrow> string \<Rightarrow> string \<Rightarrow> int \<Rightarrow> string list \<Rightarrow> split_plan" where
  "resolveSplitPlan st tenant customer contract serviceItemCount categories =
     (let policy = GetSplitPolicy st tenant in
      if \<not> pol_enabled policy then plan_of (DefaultSplitPolicy\<lparr>pol_enabled := False\<rparr>)
      else case find (\<lambda>ov. Matches ov customer contract serviceItemCount categories)
                  (ListSplitOverrides st tenant) of
        None \<Rightarrow> plan_of policy
      | Some ov \<Rightarrow>
          applySplitOverride ((plan_of policy)\<lparr>pa_id := so_id ov, pa_name := so_name ov\<rparr>)
            (so_settings ov))"

section \<open>The outcome for a category\<close>

definition splitCategoryKey :: "string \<Rightarrow> string" where
  "splitCategoryKey category = lower_key category"

text \<open>The index of the catalogue: of two categories with one key the later one wins.\<close>

definition splitCategoryDomain :: "detection_category list \<Rightarrow> (string \<rightharpoonup> detection_category)" where
  "splitCategoryDomain items = map_of (rev (map (\<lambda>c. (splitCategoryKey (dc_category c), c)) items))"

record split_outcome =
  oc_status :: string
  oc_test_mode :: string
  oc_special :: string
  oc_standard :: string
  oc_missing :: bool
  oc_qualifications :: string
  oc_codes :: "string list"

definition resolveSplitOutcome ::
  "split_plan \<Rightarrow> string \<Rightarrow> string \<Rightarrow> string \<Rightarrow> (string \<rightharpoonup> detection_category) \<Rightarrow> split_outcome" where
  "resolveSplitOutcome plan category sourceMode sourceStandard domainIndex =
     (let mode = to_upper (firstNonEmpty sourceMode ''STANDARD'');
          standard = trim_space sourceStandard in
      case domainIndex (splitCategoryKey category) of
        None \<Rightarrow>
          \<lparr>oc_status = (if pol_missing plan \<noteq> SplitMissingHumanConfirm then pol_status plan
                        else ServiceItemStatusPendingConfirm),
           oc_test_mode = mode, oc_special = yesNo (mode = ''PENETRATION''), oc_standard = standard,
           oc_missing = True, oc_qualifications = [], oc_codes = []\<rparr>
      | Some entry \<Rightarrow>
          let mode' = (if dc_special entry = SpecialMethodRequired then ''PENETRATION''
                       else if dc_special entry = SpecialMethodNo then ''STANDARD'' else mode) in
          \<lparr>oc_status = pol_status plan, oc_test_mode = mode',
           oc_special = yesNo (mode' = ''PENETRATION''),
           oc_standard = (if standard = [] then dc_standard entry else standard),
           oc_missing = False, oc_qualifications = dc_qualifications entry,
           oc_codes = category_codes entry\<rparr>)"

section \<open>Grouping\<close>

record contract_service =
  cs_source :: string
  cs_name :: string
  cs_site :: string
  cs_site_code :: string
  cs_batch :: string
  cs_category :: string
  cs_system :: string
  cs_system_level :: string
  cs_requirement :: string
  cs_test_mode :: string

definition contractServiceCategories :: "contract_service list \<Rightarrow> string list" where
  "contractServiceCategories sources =
     uniq (filter (\<lambda>c. c \<noteq> []) (map (\<lambda>s. trim_space (cs_category s)) sources))"

definition splitDimensionValue ::
  "string \<Rightarrow> string \<Rightarrow> string \<Rightarrow> contract_service \<Rightarrow> string \<Rightarrow> string \<Rightarrow> string" where
  "splitDimensionValue dimension customer contract source mode standard =
     (let d = trim_space dimension in
      if d = SplitDimensionBatch then trim_space (cs_batch source)
      else if d = SplitDimensionSite then trim_space (cs_site source)
      else if d = SplitDimensionCustomer then trim_space customer
      else if d = SplitDimensionContract then trim_space contract
      else if d = SplitDimensionCategory then trim_space (cs_category source)
      else if d = SplitDimensionSystemStandard then trim_space standard
      else if d = SplitDimensionTestMode then mode
      else [])"

definition plan_dimensions :: "split_plan \<Rightarrow> string list" where
  "plan_dimensions plan =
     [pol_primary plan, pol_secondary plan]
     @ (if blank (pol_tertiary plan) then [] else [trim_space (pol_tertiary plan)])"

definition splitGroupKey ::
  "split_plan \<Rightarrow> string \<Rightarrow> string \<Rightarrow> contract_service \<Rightarrow> string \<Rightarrow> string \<Rightarrow> string" where
  "splitGroupKey plan customer contract source mode standard =
     join_with [CHR 0x00]
       (map (\<lambda>d. splitDimensionValue d customer contract source mode standard) (plan_dimensions plan))"

record split_group =
  sg_item :: contract_service
  sg_outcome :: split_outcome

text \<open>The fields of a line the loop trims before anything else.\<close>

definition trim_source :: "contract_service \<Rightarrow> contract_service" where
  "trim_source s = s\<lparr>cs_source := trim_space (cs_source s), cs_site := trim_space (cs_site s),
     cs_batch := trim_space (cs_batch s), cs_category := trim_space (cs_category s)\<rparr>"

definition source_mode :: "contract_service \<Rightarrow> string" where
  "source_mode s = to_upper (firstNonEmpty (cs_test_mode s) ''STANDARD'')"

definition merge_source :: "split_group \<Rightarrow> contract_service \<Rightarrow> split_group" where
  "merge_source g s =
     (let i = sg_item g in
      g\<lparr>sg_item := i\<lparr>cs_source := joinUnique (cs_source i) (cs_source s),
          cs_requirement := joinUnique (cs_requirement i) (trim_space (cs_requirement s)),
          cs_system := joinUnique (cs_system i) (trim_space (cs_system s)),
          cs_system_level := joinUnique (cs_system_level i) (trim_space (cs_system_level s)),
          cs_name := joinUnique (cs_name i) (trim_space (cs_name s))\<rparr>\<rparr>)"

definition source_outcome ::
  "split_plan \<Rightarrow> (string \<rightharpoonup> detection_category) \<Rightarrow> contract_service \<Rightarrow> split_outcome" where
  "source_outcome plan domainIndex s =
     resolveSplitOutcome plan (cs_category s) (source_mode s) [] domainIndex"

definition source_key ::
  "split_plan \<Rightarrow> string \<Rightarrow> string \<Rightarrow> (string \<rightharpoonup> detection_category) \<Rightarrow> contract_service \<Rightarrow> string" where
  "source_key plan customer contract domainIndex s =
     (let outcome = source_outcome plan domainIndex s in
      splitGroupKey plan customer contract s (oc_test_mode outcome) (oc_standard outcome))"

definition first_group ::
  "split_plan \<Rightarrow> (string \<rightharpoonup> detection_category) \<Rightarrow> contract_service \<Rightarrow> split_group" where
  "first_group plan domainIndex s =
     \<lparr>sg_item = s\<lparr>cs_test_mode := source_mode s\<rparr>, sg_outcome = source_outcome plan domainIndex s\<rparr>"

definition source_ok :: "string list \<Rightarrow> contract_service \<Rightarrow> bool" where
  "source_ok seen s \<longleftrightarrow> cs_source s \<noteq> [] \<and> cs_site s \<noteq> [] \<and> cs_batch s \<noteq> [] \<and> cs_category s \<noteq> [] \<and>
     \<not> List.member seen (cs_source s) \<and>
     (source_mode s = ''STANDARD'' \<or> source_mode s = ''PENETRATION'')"

fun group_scan ::
  "split_plan \<Rightarrow> string \<Rightarrow> string \<Rightarrow> (string \<rightharpoonup> detection_category) \<Rightarrow> string list \<Rightarrow>
     (string \<rightharpoonup> split_group) \<Rightarrow> string list \<Rightarrow> contract_service list \<Rightarrow>
     app_error + (string \<rightharpoonup> split_group) \<times> string list" where
  "group_scan plan customer contract cats seen groups keys [] = Inr (groups, keys)"
| "group_scan plan customer contract cats seen groups keys (source # sources) =
     (let s = trim_source source in
      if \<not> source_ok seen s then Inl ErrValidation
      else
        let key = source_key plan customer contract cats s in
        case groups key of
          Some current \<Rightarrow>
            group_scan plan customer contract cats (cs_source s # seen)
              (groups(key \<mapsto> merge_source current s)) keys sources
        | None \<Rightarrow>
            group_scan plan customer contract cats (cs_source s # seen)
              (groups(key \<mapsto> first_group plan cats s)) (keys @ [key]) sources)"

definition groupContractServicesByPlan ::
  "split_plan \<Rightarrow> string \<Rightarrow> string \<Rightarrow> contract_service list \<Rightarrow> (string \<rightharpoonup> detection_category) \<Rightarrow>
     app_error + split_group list" where
  "groupContractServicesByPlan plan customer contract sources domainIndex =
     rbind (group_scan plan customer contract domainIndex [] Map.empty [] sources)
       (\<lambda>(groups, keys). Inr (map (\<lambda>k. the (groups k)) (sort keys)))"

end
