(* ===== verification/SplitProps.thy ===== *)
theory SplitProps
  imports SplitPlans
begin

text \<open>
  What the splitting of contracts guarantees: which override is in force, when an item may skip the
  confirmation, and how the lines of a contract are grouped.
\<close>

section \<open>The override in force\<close>

lemma find_sort_key_least:
  assumes "find P (sort_key k xs) = Some x"
  shows "x \<in> set xs" and "P x" and "y \<in> set xs \<Longrightarrow> P y \<Longrightarrow> k x \<le> k y"
proof -
  from assms obtain i where i: "i < length xs" "x = sort_key k xs ! i" "P x"
      "\<And>j. j < i \<Longrightarrow> \<not> P (sort_key k xs ! j)"
    by (auto simp: find_Some_iff)
  then show "x \<in> set xs" "P x" by (metis length_sort nth_mem set_sort)+
  assume "y \<in> set xs" "P y"
  then obtain j where j: "j < length xs" "y = sort_key k xs ! j"
    by (metis in_set_conv_nth length_sort set_sort)
  with i \<open>P y\<close> have "i \<le> j" by (metis not_le)
  with i j show "k x \<le> k y"
    using sorted_nth_mono [of "map k (sort_key k xs)" i j] by simp
qed

lemma find_sort_key_None: "find P (sort_key k xs) = None \<longleftrightarrow> (\<forall>x \<in> set xs. \<not> P x)"
  by (auto simp: find_None_iff)

lemma find_map: "find P (map f xs) = map_option f (find (\<lambda>x. P (f x)) xs)"
  by (induction xs) auto

definition override_hits ::
  "split_store \<Rightarrow> string \<Rightarrow> string \<Rightarrow> string \<Rightarrow> int \<Rightarrow> string list \<Rightarrow> override_row \<Rightarrow> bool" where
  "override_hits st tenant customer contract n categories r \<longleftrightarrow>
     r \<in> set (ss_overrides st) \<and> or_tenant r = tenant \<and>
     Matches (splitOverrideFromRecord r) customer contract n categories"

lemma find_override:
  "find (\<lambda>ov. Matches ov customer contract n categories) (ListSplitOverrides st tenant) =
     map_option splitOverrideFromRecord
       (find (\<lambda>r. Matches (splitOverrideFromRecord r) customer contract n categories)
          (sort_key (\<lambda>r. (or_priority r, or_id r))
             (filter (\<lambda>r. or_tenant r = tenant) (ss_overrides st))))"
  by (simp add: ListSplitOverrides_def find_map)

lemma plan_of_fields [simp]:
  "pol_primary (plan_of p) = pol_primary p" "pol_secondary (plan_of p) = pol_secondary p"
  "pol_tertiary (plan_of p) = pol_tertiary p" "pol_status (plan_of p) = pol_status p"
  "pol_missing (plan_of p) = pol_missing p" "pa_id (plan_of p) = 0" "pa_name (plan_of p) = []"
  "pol_enabled (plan_of p) = pol_enabled p"
  by (simp_all add: plan_of_def split_policy.defs)

lemma applied_id [simp]: "pa_id (applySplitOverride p s) = pa_id p"
  by (simp add: applySplitOverride_def)

lemma resolve_enabled:
  assumes "pol_enabled (GetSplitPolicy st tenant)"
  shows "resolveSplitPlan st tenant customer contract n categories =
      plan_of (GetSplitPolicy st tenant) \<and>
      (\<forall>r. \<not> override_hits st tenant customer contract n categories r) \<or>
    (\<exists>r. override_hits st tenant customer contract n categories r \<and>
      (\<forall>q. override_hits st tenant customer contract n categories q \<longrightarrow>
             (or_priority r, or_id r) \<le> (or_priority q, or_id q)) \<and>
      resolveSplitPlan st tenant customer contract n categories =
        applySplitOverride ((plan_of (GetSplitPolicy st tenant))\<lparr>pa_id := or_id r, pa_name := or_name r\<rparr>)
          (decode_settings (or_settings r)))"
    (is "?default \<or> ?override")
proof -
  let ?m = "\<lambda>r. Matches (splitOverrideFromRecord r) customer contract n categories"
  let ?rows = "filter (\<lambda>r. or_tenant r = tenant) (ss_overrides st)"
  let ?f = "find ?m (sort_key (\<lambda>r. (or_priority r, or_id r)) ?rows)"
  show ?thesis
  proof (cases ?f)
    case None
    then have "resolveSplitPlan st tenant customer contract n categories =
        plan_of (GetSplitPolicy st tenant)"
      using assms by (simp add: resolveSplitPlan_def Let_def find_override)
    moreover have "\<not> override_hits st tenant customer contract n categories r" for r
      using None by (auto simp: find_sort_key_None override_hits_def)
    ultimately show ?thesis by blast
  next
    case (Some r)
    have "override_hits st tenant customer contract n categories r"
      using find_sort_key_least(1,2) [OF Some] by (simp add: override_hits_def)
    moreover have "(or_priority r, or_id r) \<le> (or_priority q, or_id q)"
      if "override_hits st tenant customer contract n categories q" for q
      using find_sort_key_least(3) [OF Some, of q] that by (simp add: override_hits_def)
    moreover have "resolveSplitPlan st tenant customer contract n categories =
        applySplitOverride ((plan_of (GetSplitPolicy st tenant))\<lparr>pa_id := or_id r, pa_name := or_name r\<rparr>)
          (decode_settings (or_settings r))"
      using Some assms by (simp add: resolveSplitPlan_def Let_def find_override splitOverrideFromRecord_def)
    ultimately have ?override by blast
    then show ?thesis ..
  qed
qed

section \<open>Grouping\<close>

definition sources_valid :: "string list \<Rightarrow> contract_service list \<Rightarrow> bool" where
  "sources_valid seen ts \<longleftrightarrow> list_all (source_ok seen) ts \<and> distinct (map cs_source ts)"

definition merge_class ::
  "split_plan \<Rightarrow> (string \<rightharpoonup> detection_category) \<Rightarrow> contract_service list \<Rightarrow> split_group" where
  "merge_class plan cats c = foldl merge_source (first_group plan cats (hd c)) (tl c)"

lemma source_ok_Cons: "source_ok (x # seen) s \<longleftrightarrow> source_ok seen s \<and> cs_source s \<noteq> x"
  by (auto simp: source_ok_def)

lemma sources_valid_Cons:
  "sources_valid seen (s # ts) \<longleftrightarrow> source_ok seen s \<and> sources_valid (cs_source s # seen) ts"
  by (auto simp: sources_valid_def source_ok_Cons list_all_iff intro: rev_image_eqI)

lemma uniq_from_set: "set a = set b \<Longrightarrow> uniq_from a xs = uniq_from b xs"
proof (induction xs arbitrary: a b)
  case (Cons x xs)
  have "x \<in> set a \<longleftrightarrow> x \<in> set b" and "set (x # a) = set (x # b)" using Cons.prems by simp_all
  with Cons.IH [OF Cons.prems] Cons.IH [OF this(2)] show ?case by (simp add: uniq_from.simps)
qed simp

definition continue_group ::
  "split_plan \<Rightarrow> (string \<rightharpoonup> detection_category) \<Rightarrow> split_group option \<Rightarrow> contract_service list \<Rightarrow>
     split_group option" where
  "continue_group plan cats g c =
     (case g of Some g \<Rightarrow> Some (foldl merge_source g c)
      | None \<Rightarrow> if c = [] then None else Some (merge_class plan cats c))"

lemma continue_group_Nil [simp]: "continue_group plan cats g [] = g"
  by (cases g) (simp_all add: continue_group_def)

definition scan_result ::
  "split_plan \<Rightarrow> (contract_service \<Rightarrow> string) \<Rightarrow> (string \<rightharpoonup> detection_category) \<Rightarrow> string list \<Rightarrow>
     (string \<rightharpoonup> split_group) \<Rightarrow> string list \<Rightarrow> contract_service list \<Rightarrow>
     app_error + (string \<rightharpoonup> split_group) \<times> string list" where
  "scan_result plan key cats seen groups keys ts =
     (if sources_valid seen ts
      then Inr (\<lambda>k. continue_group plan cats (groups k) (filter (\<lambda>s. key s = k) ts),
                keys @ uniq_from keys (map key ts))
      else Inl ErrValidation)"

lemma scan_result_new:
  assumes "source_ok seen s" and "groups (key s) = None" and "key s \<notin> set keys"
  shows "scan_result plan key cats (cs_source s # seen) (groups(key s \<mapsto> first_group plan cats s))
      (keys @ [key s]) ts = scan_result plan key cats seen groups keys (s # ts)"
proof -
  have "continue_group plan cats ((groups(key s \<mapsto> first_group plan cats s)) k)
        (filter (\<lambda>s. key s = k) ts) =
      continue_group plan cats (groups k) (filter (\<lambda>s. key s = k) (s # ts))" for k
    using assms(2) by (cases "k = key s") (simp_all add: continue_group_def merge_class_def)
  moreover have "uniq_from (keys @ [key s]) (map key ts) = uniq_from (key s # keys) (map key ts)"
    by (rule uniq_from_set) simp
  ultimately show ?thesis using assms by (simp only: scan_result_def sources_valid_Cons) simp
qed

lemma scan_result_old:
  assumes "source_ok seen s" and "groups (key s) = Some g" and "key s \<in> set keys"
  shows "scan_result plan key cats (cs_source s # seen) (groups(key s \<mapsto> merge_source g s)) keys ts =
    scan_result plan key cats seen groups keys (s # ts)"
proof -
  have "continue_group plan cats ((groups(key s \<mapsto> merge_source g s)) k) (filter (\<lambda>s. key s = k) ts) =
      continue_group plan cats (groups k) (filter (\<lambda>s. key s = k) (s # ts))" for k
    using assms(2) by (cases "k = key s") (simp_all add: continue_group_def)
  then show ?thesis using assms by (simp only: scan_result_def sources_valid_Cons) simp
qed

lemma group_scan_spec:
  "dom groups = set keys \<Longrightarrow>
   group_scan plan customer contract cats seen groups keys sources =
     scan_result plan (source_key plan customer contract cats) cats seen groups keys
       (map trim_source sources)"
proof (induction sources arbitrary: seen groups keys)
  case Nil
  then show ?case
    by (simp add: scan_result_def sources_valid_def continue_group_Nil)
next
  case (Cons a sources)
  let ?s = "trim_source a" and ?key = "source_key plan customer contract cats"
  show ?case
  proof (cases "source_ok seen ?s")
    case ok: True
    show ?thesis
    proof (cases "groups (?key ?s)")
      case None
      with Cons.prems have new: "?key ?s \<notin> set keys" by blast
      have "dom (groups(?key ?s \<mapsto> first_group plan cats ?s)) = set (keys @ [?key ?s])"
        using Cons.prems by auto
      note ih = Cons.IH [OF this, of "cs_source ?s # seen"]
      show ?thesis
        using ok None
        by (simp add: Let_def ih scan_result_new [of seen ?s groups ?key, OF ok None new] del: fun_upd_apply)
    next
      case (Some g)
      with Cons.prems have old: "?key ?s \<in> set keys" by blast
      then have "dom (groups(?key ?s \<mapsto> merge_source g ?s)) = set keys"
        using Cons.prems by auto
      note ih = Cons.IH [OF this, of "cs_source ?s # seen"]
      show ?thesis
        using ok Some
        by (simp add: Let_def ih scan_result_old [of seen ?s groups ?key, OF ok Some old] del: fun_upd_apply)
    qed
  qed (simp add: Let_def scan_result_def sources_valid_Cons)
qed

text \<open>The reference: one class of lines per key, in the order of the keys, merged in the order of the contract.\<close>

definition line_classes :: "(contract_service \<Rightarrow> string) \<Rightarrow> contract_service list \<Rightarrow> contract_service list list"
where
  "line_classes key ts = map (\<lambda>k. filter (\<lambda>s. key s = k) ts) (sort (uniq (map key ts)))"

lemma grouping_spec:
  "groupContractServicesByPlan plan customer contract sources cats =
     (let ts = map trim_source sources in
      if sources_valid [] ts
      then Inr (map (merge_class plan cats)
             (line_classes (source_key plan customer contract cats) ts))
      else Inl ErrValidation)"
proof (cases "sources_valid [] (map trim_source sources)")
  case True
  have "the (continue_group plan cats None (filter (\<lambda>s. key s = k) ts)) =
      merge_class plan cats (filter (\<lambda>s. key s = k) ts)"
    if "k \<in> set (sort (uniq (map key ts)))" for k key and ts :: "contract_service list"
    using that by (auto simp: continue_group_def filter_empty_conv)
  note this [of _ "source_key plan customer contract cats" "map trim_source sources"]
  with True show ?thesis
    by (simp add: groupContractServicesByPlan_def group_scan_spec [of Map.empty "[]"] scan_result_def
        line_classes_def uniq_def Let_def)
next
  case False
  then show ?thesis
    by (simp add: groupContractServicesByPlan_def group_scan_spec [of Map.empty "[]"] scan_result_def Let_def)
qed

lemma line_classes_partition:
  shows "set (concat (line_classes key ts)) = set ts"
    and "distinct ts \<Longrightarrow> distinct (concat (line_classes key ts))"
    and "c \<in> set (line_classes key ts) \<Longrightarrow> c \<noteq> []"
    and "c \<in> set (line_classes key ts) \<Longrightarrow> s \<in> set c \<Longrightarrow> t \<in> set c \<longleftrightarrow> t \<in> set ts \<and> key t = key s"
proof -
  show "set (concat (line_classes key ts)) = set ts" by (auto simp: line_classes_def)
  show "c \<in> set (line_classes key ts) \<Longrightarrow> c \<noteq> []"
    by (auto simp: line_classes_def filter_empty_conv)
  show "c \<in> set (line_classes key ts) \<Longrightarrow> s \<in> set c \<Longrightarrow> t \<in> set c \<longleftrightarrow> t \<in> set ts \<and> key t = key s"
    by (auto simp: line_classes_def)
  have "distinct (concat (map (\<lambda>k. filter (\<lambda>s. key s = k) ts) ks))"
    if "distinct ts" "distinct ks" for ks
    using that by (induction ks) auto
  then show "distinct ts \<Longrightarrow> distinct (concat (line_classes key ts))"
    by (simp add: line_classes_def)
qed

subsection \<open>Keys and dimension values\<close>

definition dimension_values ::
  "split_plan \<Rightarrow> string \<Rightarrow> string \<Rightarrow> (string \<rightharpoonup> detection_category) \<Rightarrow> contract_service \<Rightarrow> string list" where
  "dimension_values plan customer contract cats s =
     map (\<lambda>d. splitDimensionValue d customer contract s
            (oc_test_mode (source_outcome plan cats s)) (oc_standard (source_outcome plan cats s)))
       (plan_dimensions plan)"

lemma source_key_join:
  "source_key plan customer contract cats s =
     join_with [CHR 0x00] (dimension_values plan customer contract cats s)"
  by (simp add: source_key_def splitGroupKey_def dimension_values_def Let_def)

lemma append_sep_eq:
  "c \<notin> set a \<Longrightarrow> c \<notin> set b \<Longrightarrow> a @ c # x = b @ c # y \<longleftrightarrow> a = b \<and> x = y"
proof (induction a arbitrary: b)
  case Nil
  then show ?case by (cases b) auto
next
  case (Cons d a)
  then show ?case by (cases b) auto
qed

lemma join_sep_inj:
  "length xs = length ys \<Longrightarrow> \<forall>x \<in> set xs. c \<notin> set x \<Longrightarrow> \<forall>y \<in> set ys. c \<notin> set y \<Longrightarrow>
   join_with [c] xs = join_with [c] ys \<longleftrightarrow> xs = ys"
proof (induction xs arbitrary: ys)
  case (Cons x xs)
  then obtain y ys' where ys: "ys = y # ys'" "length xs = length ys'" by (cases ys) auto
  have "join_with [c] xs = join_with [c] ys' \<longleftrightarrow> xs = ys'"
    using Cons.prems ys by (intro Cons.IH) auto
  moreover have "c \<notin> set x" "c \<notin> set y" using Cons.prems ys by auto
  ultimately show ?case
    using ys by (cases xs; cases ys') (simp_all add: append_sep_eq)
qed simp

lemma source_key_eq_iff:
  assumes "\<forall>v \<in> set (dimension_values plan customer contract cats s). CHR 0x00 \<notin> set v"
    and "\<forall>v \<in> set (dimension_values plan customer contract cats t). CHR 0x00 \<notin> set v"
  shows "source_key plan customer contract cats s = source_key plan customer contract cats t \<longleftrightarrow>
    dimension_values plan customer contract cats s = dimension_values plan customer contract cats t"
  using assms unfolding source_key_join by (intro join_sep_inj) (simp_all add: dimension_values_def)

section \<open>Properties\<close>

text \<open>
  C14. Every sequence of operations on the configuration (saving and deleting policies, categories and
  overrides, importing a sheet of categories, seeding the catalogue at its first reading) leaves it
  well formed: one policy per tenant with known, pairwise different dimensions, an initial status
  and a known action; one category per tenant and name, whose stored codes read back as the normal
  form of the codes given; overrides with a condition, a setting and a positive priority.
\<close>

theorem split_configuration_stays_valid:
  "config_ok (cx_env cx) (run_all (config_step cx) cs no_config)"
  by (rule configuration.run_inv [OF config_ok_empty]) simp

lemma saved_override_facts:
  assumes ok: "config_ok env st"
    and save: "Service_SaveSplitOverride may tenant input st = Inr (q, st')"
  shows "so_match q = so_match input" and "so_settings q = so_settings input"
    and "GetSplitOverride st' tenant (so_id q) = Inr q"
    and "List.member (ListSplitOverrides st' tenant) q"
proof -
  let ?item = "normal_override input"
  from save have s: "SaveSplitOverride tenant ?item st = Inr (q, st')"
    by (auto simp: Service_SaveSplitOverride_def res_simps)
  have "\<exists>r \<in> set (ss_overrides st'). override_key tenant (or_id r) r \<and>
      find (override_key tenant (or_id r)) (ss_overrides st') = Some r \<and>
      r = override_record tenant (or_id r) ?item \<and> q = splitOverrideFromRecord r"
  proof (cases "0 < so_id ?item")
    case True
    let ?rows = "update_where (override_key tenant (so_id ?item))
        (\<lambda>r. override_record tenant (or_id r) ?item) (ss_overrides st)"
    from True s obtain r where st': "st' = st\<lparr>ss_overrides := ?rows\<rparr>"
      and r: "find (override_key tenant (so_id ?item)) ?rows = Some r" "q = splitOverrideFromRecord r"
      by (auto simp: SaveSplitOverride_def GetSplitOverride_def Let_def res_simps
          split: if_splits option.splits)
    from r(1) have k: "r \<in> set ?rows" "override_key tenant (so_id ?item) r"
      by (auto simp: find_Some_iff)
    then have "r = override_record tenant (or_id r) ?item"
      by (auto dest!: in_update_where)
    moreover have "or_id r = so_id ?item" using k(2) by (simp add: override_key_def)
    ultimately show ?thesis using k r st' by (intro bexI [of _ r]) simp_all
  next
    case False
    let ?r = "override_record tenant (ss_next st) ?item"
    from False s have st': "ss_overrides st' = ss_overrides st @ [?r]" "q = splitOverrideFromRecord ?r"
      by (auto simp: SaveSplitOverride_def Let_def)
    have "find (override_key tenant (ss_next st)) (ss_overrides st) = None"
      using ok by (auto simp: find_None_iff override_key_def config_ok_def)
    then have "find (override_key tenant (ss_next st)) (ss_overrides st @ [?r]) = Some ?r"
      by (simp add: find_append override_key_def)
    with st' show ?thesis by (auto simp: override_key_def)
  qed
  then obtain r where r: "r \<in> set (ss_overrides st')" "override_key tenant (or_id r) r"
      "find (override_key tenant (or_id r)) (ss_overrides st') = Some r"
      "r = override_record tenant (or_id r) ?item" "q = splitOverrideFromRecord r"
    by blast
  have q: "q = ?item\<lparr>so_tenant := tenant, so_id := or_id r\<rparr>" using r(4,5) by (metis override_of_record)
  then show "so_match q = so_match input" "so_settings q = so_settings input"
    by (simp_all add: normal_override_def)
  have "so_id q = or_id r" using q by simp
  moreover have "GetSplitOverride st' tenant (or_id r) = Inr q" using r(3,5) by (simp add: GetSplitOverride_def)
  ultimately show "GetSplitOverride st' tenant (so_id q) = Inr q" by simp
  show "List.member (ListSplitOverrides st' tenant) q"
    using r by (auto simp: ListSplitOverrides_def override_key_def)
qed

text \<open>
  C15. An override that was saved is read back as it was given: through the JSON columns its
  conditions and its settings, absent ones included, are the ones of the request, and the list of
  the tenant shows it.
\<close>

theorem saved_override_is_read_back:
  assumes "config_ok env st" and "Service_SaveSplitOverride may tenant input st = Inr (q, st')"
  shows "so_match q = so_match input \<and> so_settings q = so_settings input \<and>
    GetSplitOverride st' tenant (so_id q) = Inr q \<and> List.member (ListSplitOverrides st' tenant) q"
  by (intro conjI saved_override_facts [OF assms])

definition sample_override :: split_override where
  "sample_override =
     \<lparr>so_tenant = [], so_id = 0, so_name = ''big'',
      so_match = \<lparr>om_customer = ''ACME'', om_contract = [], om_min = 3, om_max = 0, om_categories = []\<rparr>,
      so_settings = \<lparr>os_primary = Some ''site'', os_secondary = None, os_tertiary = None, os_status = None,
        os_summary = Some False, os_locked = None, os_missing = None, os_detection = None\<rparr>,
      so_priority = 0, so_enabled = True\<rparr>"

definition saved_store :: split_store where
  "saved_store = snd (projr (Service_SaveSplitOverride (\<lambda>_. True) ''T1'' sample_override no_config))"

lemma saved_store_result:
  "Service_SaveSplitOverride (\<lambda>_. True) ''T1'' sample_override no_config =
     Inr (normal_override sample_override\<lparr>so_tenant := ''T1'', so_id := 1\<rparr>, saved_store)"
  by code_simp

theorem saved_override_witness:
  "GetSplitOverride saved_store ''T1'' 1 =
     Inr (normal_override sample_override\<lparr>so_tenant := ''T1'', so_id := 1\<rparr>)"
  using saved_override_is_read_back [OF config_ok_empty saved_store_result] by simp

text \<open>
  C16. Which rules a contract is split by. With the configuration of the tenant switched off, the safe
  default; otherwise the policy of the tenant with the settings of one override applied, the one of
  least priority value (the older one of equals) among the overrides of the tenant that are enabled
  and whose conditions all hold; with no such override, the policy itself.
\<close>

theorem first_override_by_priority_wins:
  "let plan = resolveSplitPlan st tenant customer contract n categories;
       policy = GetSplitPolicy st tenant;
       hits = override_hits st tenant customer contract n categories in
   if \<not> pol_enabled policy then plan = plan_of (DefaultSplitPolicy\<lparr>pol_enabled := False\<rparr>)
   else plan = plan_of policy \<and> (\<forall>r. \<not> hits r) \<or>
     (\<exists>r. hits r \<and> (\<forall>q. hits q \<longrightarrow> (or_priority r, or_id r) \<le> (or_priority q, or_id q)) \<and>
        plan = applySplitOverride ((plan_of policy)\<lparr>pa_id := or_id r, pa_name := or_name r\<rparr>)
          (decode_settings (or_settings r)))"
proof (cases "pol_enabled (GetSplitPolicy st tenant)")
  case True
  then show ?thesis using resolve_enabled [OF True, of customer contract n categories]
    by (simp only: Let_def if_False not_True_eq_False)
next
  case False
  then show ?thesis by (simp add: resolveSplitPlan_def Let_def)
qed

definition two_overrides :: split_store where
  "two_overrides = snd (projr (Service_SaveSplitOverride (\<lambda>_. True) ''T1''
     (sample_override\<lparr>so_priority := 20, so_name := ''first''\<rparr>) saved_store))"

theorem first_override_witness:
  "pa_name (resolveSplitPlan two_overrides ''T1'' ''Acme Ltd'' ''C-1'' 4 []) = ''first'' \<and>
   (let plan = resolveSplitPlan two_overrides ''T1'' ''Acme Ltd'' ''C-1'' 4 [];
        policy = GetSplitPolicy two_overrides ''T1'';
        hits = override_hits two_overrides ''T1'' ''Acme Ltd'' ''C-1'' 4 [] in
    if \<not> pol_enabled policy then plan = plan_of (DefaultSplitPolicy\<lparr>pol_enabled := False\<rparr>)
    else plan = plan_of policy \<and> (\<forall>r. \<not> hits r) \<or>
      (\<exists>r. hits r \<and> (\<forall>q. hits q \<longrightarrow> (or_priority r, or_id r) \<le> (or_priority q, or_id q)) \<and>
         plan = applySplitOverride ((plan_of policy)\<lparr>pa_id := or_id r, pa_name := or_name r\<rparr>)
           (decode_settings (or_settings r))))"
  by (rule conjI [OF _ first_override_by_priority_wins]) code_simp

text \<open>
  C17. The lines of a contract are partitioned: each service item is merged from one class of lines,
  every line is in exactly one class, and two lines are in one class just when they agree in the
  values of all dimensions of the plan (as long as no value contains the NUL byte that separates the
  values in the key).
\<close>

theorem lines_are_grouped_by_dimension_values:
  assumes g: "groupContractServicesByPlan plan customer contract sources cats = Inr groups"
    and nul: "\<forall>s \<in> set (map trim_source sources).
        \<forall>v \<in> set (dimension_values plan customer contract cats s). CHR 0x00 \<notin> set v"
  shows "\<exists>classes. groups = map (merge_class plan cats) classes \<and>
      set (concat classes) = set (map trim_source sources) \<and> distinct (concat classes) \<and>
      (\<forall>c \<in> set classes. c \<noteq> [] \<and> (\<forall>s \<in> set c. \<forall>t \<in> set (map trim_source sources).
         t \<in> set c \<longleftrightarrow> dimension_values plan customer contract cats t =
                       dimension_values plan customer contract cats s))"
proof -
  let ?ts = "map trim_source sources" and ?key = "source_key plan customer contract cats"
  from g have valid: "sources_valid [] ?ts" and groups: "groups = map (merge_class plan cats) (line_classes ?key ?ts)"
    by (auto simp: grouping_spec Let_def split: if_splits)
  from valid have "distinct (map cs_source ?ts)" by (simp add: sources_valid_def)
  then have "distinct ?ts" by (simp only: distinct_map)
  note part = line_classes_partition(1) [of ?key ?ts] line_classes_partition(2) [OF this, of ?key]
  have "t \<in> set c \<longleftrightarrow> dimension_values plan customer contract cats t =
      dimension_values plan customer contract cats s"
    if c: "c \<in> set (line_classes ?key ?ts)" and s: "s \<in> set c" and t: "t \<in> set ?ts" for c s t
  proof -
    have "s \<in> set ?ts" using line_classes_partition(4) [OF c s, of s] s by simp
    with t nul have "?key t = ?key s \<longleftrightarrow> dimension_values plan customer contract cats t =
        dimension_values plan customer contract cats s"
      by (intro source_key_eq_iff) blast+
    then show ?thesis using line_classes_partition(4) [OF c s, of t] t by simp
  qed
  with groups part line_classes_partition(3) [of _ ?key ?ts] show ?thesis by blast
qed

definition sample_line :: "string \<Rightarrow> string \<Rightarrow> contract_service" where
  "sample_line source batch =
     \<lparr>cs_source = source, cs_name = source, cs_site = ''here'', cs_site_code = [], cs_batch = batch,
      cs_category = ''scan'', cs_system = [], cs_system_level = [], cs_requirement = [], cs_test_mode = []\<rparr>"

definition sample_lines :: "contract_service list" where
  "sample_lines = [sample_line ''L1'' ''b1'', sample_line ''L2'' ''b2'', sample_line ''L3'' ''b1 '']"

definition sample_groups :: "split_group list" where
  "sample_groups =
     projr (groupContractServicesByPlan (plan_of DefaultSplitPolicy) ''ACME'' ''C-1'' sample_lines Map.empty)"

theorem grouping_witness:
  "length sample_groups = 2 \<and>
   (\<exists>classes. sample_groups = map (merge_class (plan_of DefaultSplitPolicy) Map.empty) classes \<and>
      set (concat classes) = set (map trim_source sample_lines))"
proof -
  have "length sample_groups = 2" by code_simp
  moreover have "groupContractServicesByPlan (plan_of DefaultSplitPolicy) ''ACME'' ''C-1'' sample_lines
      Map.empty = Inr sample_groups"
    unfolding sample_groups_def by code_simp
  note lines_are_grouped_by_dimension_values [OF this]
  moreover have "\<forall>s \<in> set (map trim_source sample_lines).
      \<forall>v \<in> set (dimension_values (plan_of DefaultSplitPolicy) ''ACME'' ''C-1'' Map.empty s). CHR 0x00 \<notin> set v"
    by code_simp
  ultimately show ?thesis by blast
qed

section \<open>A plan the validation would refuse\<close>

text \<open>
  The settings of an override are validated one by one and not against the policy they are applied
  to, so a valid override can give a plan whose two first dimensions are one, which
  \<open>ValidateSplitPolicy\<close> calls a configuration error.
\<close>

lemma override_makes_dimensions_equal:
  "\<exists>(p :: split_policy) ov. ValidateSplitPolicy p = Inr () \<and> ValidateSplitOverride ov = Inr () \<and>
     ValidateSplitPolicy (applySplitOverride p (so_settings ov)) = Inl DimensionsEqual"
proof (intro exI conjI)
  let ?ov = "sample_override\<lparr>so_priority := 10, so_settings := (so_settings sample_override)
      \<lparr>os_primary := Some ''category''\<rparr>\<rparr>"
  show "ValidateSplitPolicy DefaultSplitPolicy = Inr ()" by code_simp
  show "ValidateSplitOverride ?ov = Inr ()" by code_simp
  show "ValidateSplitPolicy (applySplitOverride DefaultSplitPolicy (so_settings ?ov)) = Inl DimensionsEqual"
    by code_simp
qed

end
