(* ===== verification/ProjectIdentity.thy ===== *)
theory ProjectIdentity
  imports ProjectSync
begin

text \<open>
  No transaction of the delivery changes what identifies a project: its key, its contract, its kind
  and the version of its scope.
\<close>

section \<open>The identity of a project never changes\<close>

type_synonym project_ident = "string \<times> string \<times> string \<times> string \<times> string \<times> nat"

definition ident :: "project_row \<Rightarrow> project_ident" where
  "ident p = (pj_tenant p, pj_id p, pj_contract_id p, pj_contract p, pj_source_kind p, pj_scope_version p)"

definition idents :: "store \<Rightarrow> project_ident list" where
  "idents s = map ident (st_projects s)"

lemma write_project_idents:
  assumes "write_project project e f s = Inr t" and "\<And>p. ident (f p) = ident p"
  shows "idents t = idents s"
  using assms by (auto simp: write_project_def idents_def ident_def split: if_splits
      intro!: map_key_update_where)

lemma project_event_idents:
  assumes "applyProjectEvent env project e s = Inr t"
  shows "idents t = idents s"
proof -
  have [simp]: "ident (p\<lparr>pj_services := n\<rparr>) = ident p" "ident (p\<lparr>pj_supplement := v\<rparr>) = ident p"
      "ident (supplement_required p) = ident p" for p n v
    by (simp_all add: ident_def supplement_required_def)
  have "idents u = idents s" if "adjust_decomposition env project e s = Inr (u, n)" for u n
    using adjust_frame [OF that] by (auto simp: idents_def)
  with assms show ?thesis
    by (auto simp: applyProjectEvent_def res_simps split: if_splits dest!: write_project_idents)
qed

lemma sync_idents:
  "syncProjectStatusColumn env tenant key s = Inr t \<Longrightarrow> idents t = idents s"
  by (auto simp: syncProjectStatusColumn_def Let_def idents_def ident_def split: option.splits
      intro!: map_key_update_where)

lemma item_part_idents:
  assumes i: "item_part env e s = Inr (e', t)"
  shows "idents t = idents s"
  using i
proof (cases rule: item_partE)
  case (2 item u)
  then show ?thesis using ensure_package_fields(5) applyItemEvent_fields(2) [OF 2(5)]
    by (auto simp: idents_def)
qed (simp add: idents_def)

lemma execute_idents:
  assumes "execute env tr s = Inr t"
  shows "idents t = idents s"
proof (cases "\<exists>event. tr = TEvent event")
  case True
  with assms obtain event where "ApplyDeliveryEvent env event s = Inr t" by auto
  then obtain e1 e2 s1 s2 where i: "item_part env e1 s = Inr (e2, s1)"
    and p: "project_part env e2 s1 = Inr s2" and r: "record_frame s2 t"
    by (rule ApplyDeliveryEventE)
  have "idents t = idents s2" using record_frame_fields(2) [OF r] by (simp add: idents_def)
  also have "\<dots> = idents s1"
    using p by (auto simp: project_part_def res_simps project_event_idents split: if_splits option.splits
        dest!: sync_idents)
  also have "\<dots> = idents s"
    by (rule item_part_idents [OF i])
  finally show ?thesis .
next
  case False
  then show ?thesis using other_transactions_projects [OF assms] by (auto simp: idents_def)
qed

end
