(* ===== verification/Activation.thy ===== *)
theory Activation
  imports SplitProps Delivery
begin

text \<open>
  From an approved contract to a project (\<open>ActivateContract\<close> and \<open>ActivateContractFromUser\<close> of
  \<open>application/delivery_contract.go\<close>, \<open>ActivateContract\<close> of \<open>mysql/delivery.go\<close>, and
  \<open>mysql/contract_identity_guard.go\<close>): the entry of the contract system, the entry of a user with
  the authoritative reading of the contract, and the transaction that claims the identities of the
  contract and inserts the project, its service items and the event.

  The ordinary entries are modelled; the import of historical contracts calls the same functions
  with a command of its own and is not. The contract system, the site register and the data scope
  of the caller are parameters.
\<close>

section \<open>Texts\<close>

definition default_rules_text :: string where
  "default_rules_text =
    [CHR 0xE9, CHR 0xBB, CHR 0x98, CHR 0xE8, CHR 0xAE, CHR 0xA4, CHR 0xE5, CHR 0x88, CHR 0x86,
     CHR 0xE7, CHR 0xBB, CHR 0x84, CHR 0xE8, CHR 0xA7, CHR 0x84, CHR 0xE5, CHR 0x88, CHR 0x99]"

definition override_text :: string where
  "override_text =
    [CHR 0xE8, CHR 0xA6, CHR 0x86, CHR 0xE7, CHR 0x9B, CHR 0x96, CHR 0xE8, CHR 0xA7, CHR 0x84,
     CHR 0xE5, CHR 0x88, CHR 0x99, CHR 0xEF, CHR 0xBC, CHR 0x9A]"

definition unassigned_text :: string where
  "unassigned_text =
    [CHR 0xE6, CHR 0x9C, CHR 0xAA, CHR 0xE5, CHR 0x88, CHR 0x86, CHR 0xE9, CHR 0x85, CHR 0x8D]"

definition dash_text :: string where
  "dash_text =
    [CHR 0xE2, CHR 0x80, CHR 0x94]"

definition title_before :: string where
  "title_before =
    [CHR 0xE5, CHR 0x90, CHR 0x88, CHR 0xE5, CHR 0x90, CHR 0x8C, CHR 0x20]"

definition title_after :: string where
  "title_after =
    [CHR 0x20, CHR 0xE5, CHR 0xAD, CHR 0x98, CHR 0xE5, CHR 0x9C, CHR 0xA8, CHR 0xE6, CHR 0x9C,
     CHR 0xAA, CHR 0xE9, CHR 0x85, CHR 0x8D, CHR 0xE7, CHR 0xBD, CHR 0xAE, CHR 0xE7, CHR 0x9A,
     CHR 0x84, CHR 0xE6, CHR 0xA3, CHR 0x80, CHR 0xE6, CHR 0xB5, CHR 0x8B, CHR 0xE7, CHR 0xB1,
     CHR 0xBB, CHR 0xE5, CHR 0x88, CHR 0xAB, CHR 0xEF, CHR 0xBC, CHR 0x8C, CHR 0xE5, CHR 0xB7,
     CHR 0xB2, CHR 0xE6, CHR 0xA0, CHR 0x87, CHR 0xE8, CHR 0xAE, CHR 0xB0, CHR 0xE5, CHR 0xBE,
     CHR 0x85, CHR 0xE4, CHR 0xBA, CHR 0xBA, CHR 0xE5, CHR 0xB7, CHR 0xA5, CHR 0xE7, CHR 0xA1,
     CHR 0xAE, CHR 0xE8, CHR 0xAE, CHR 0xA4]"

definition content_project :: string where
  "content_project =
    [CHR 0xE9, CHR 0xA1, CHR 0xB9, CHR 0xE7, CHR 0x9B, CHR 0xAE, CHR 0x20]"

definition content_customer :: string where
  "content_customer =
    [CHR 0xEF, CHR 0xBC, CHR 0x88, CHR 0xE5, CHR 0xAE, CHR 0xA2, CHR 0xE6, CHR 0x88, CHR 0xB7,
     CHR 0x20]"

definition content_category :: string where
  "content_category =
    [CHR 0xEF, CHR 0xBC, CHR 0x89, CHR 0xE7, CHR 0x9A, CHR 0x84, CHR 0xE6, CHR 0xA3, CHR 0x80,
     CHR 0xE6, CHR 0xB5, CHR 0x8B, CHR 0xE7, CHR 0xB1, CHR 0xBB, CHR 0xE5, CHR 0x88, CHR 0xAB,
     CHR 0x20]"

definition content_after :: string where
  "content_after =
    [CHR 0x20, CHR 0xE7, CHR 0xBC, CHR 0xBA, CHR 0xE5, CHR 0xB0, CHR 0x91, CHR 0xE6, CHR 0x8B,
     CHR 0x86, CHR 0xE8, CHR 0xA7, CHR 0xA3, CHR 0xE8, CHR 0xA7, CHR 0x84, CHR 0xE5, CHR 0x88,
     CHR 0x99, CHR 0xEF, CHR 0xBC, CHR 0x8C, CHR 0xE8, CHR 0xAF, CHR 0xB7, CHR 0xE8, CHR 0xA1,
     CHR 0xA5, CHR 0xE9, CHR 0xBD, CHR 0x90, CHR 0xE8, CHR 0xA7, CHR 0x84, CHR 0xE5, CHR 0x88,
     CHR 0x99, CHR 0xE6, CHR 0x88, CHR 0x96, CHR 0xE4, CHR 0xBA, CHR 0xBA, CHR 0xE5, CHR 0xB7,
     CHR 0xA5, CHR 0xE6, CHR 0xA0, CHR 0xB8, CHR 0xE5, CHR 0xAF, CHR 0xB9, CHR 0xE5, CHR 0x90,
     CHR 0x8E, CHR 0xE7, CHR 0xA1, CHR 0xAE, CHR 0xE8, CHR 0xAE, CHR 0xA4, CHR 0xE6, CHR 0x8B,
     CHR 0x86, CHR 0xE8, CHR 0xA7, CHR 0xA3, CHR 0xE3, CHR 0x80, CHR 0x82]"

section \<open>Contracts of the contract system\<close>

record approved_contract =
  ac_origin_kind :: string
  ac_import_mode :: string
  ac_origin_item :: string
  ac_id :: string
  ac_number :: string
  ac_title :: string
  ac_customer_id :: string
  ac_customer_name :: string
  ac_version :: nat
  ac_status :: string
  ac_approval :: bool

record approved_service =
  as_source :: string
  as_name :: string
  as_site :: string
  as_batch :: string
  as_category :: string
  as_system :: string
  as_system_level :: string
  as_requirement :: string
  as_test_mode :: string

record service_catalog =
  ca_contract :: string
  ca_version :: nat
  ca_items :: "approved_service list"

record contract_activation =
  ct_origin_kind :: string
  ct_import_mode :: string
  ct_origin_item :: string
  ct_id :: string
  ct_number :: string
  ct_version :: string
  ct_name :: string
  ct_customer :: string
  ct_customer_id :: string
  ct_effective :: "string option"
  ct_stamped :: bool
  ct_services :: "contract_service list"

text \<open>\<open>ct_effective\<close> is the text of the time in JSON, absent for the zero time.\<close>

definition normal_origin :: "string \<Rightarrow> string \<Rightarrow> string \<Rightarrow> bool" where
  "normal_origin kind mode item \<longleftrightarrow>
     (if item \<noteq> [] then kind = ''NORMAL'' \<and> mode = ''NORMAL''
      else (kind = [] \<or> kind = ''NORMAL'') \<and> (mode = [] \<or> mode = ''NORMAL''))"

definition NormalProjectContract :: "approved_contract \<Rightarrow> bool" where
  "NormalProjectContract c = normal_origin (ac_origin_kind c) (ac_import_mode c) (ac_origin_item c)"

definition contractApprovedStatus :: "string \<Rightarrow> bool" where
  "contractApprovedStatus status \<longleftrightarrow> lower_key status = ''approved'' \<or> lower_key status = ''active''"

text \<open>The lines of the request, rebuilt from the catalogue of the contract.\<close>

fun catalog_index :: "(string \<rightharpoonup> approved_service) \<Rightarrow> approved_service list \<Rightarrow>
    app_error + (string \<rightharpoonup> approved_service)" where
  "catalog_index byID [] = Inr byID"
| "catalog_index byID (item # items) =
     (let sourceID = trim_space (as_source item) in
      if sourceID = [] \<or> byID sourceID \<noteq> None then Inl ErrContractUnavailable
      else catalog_index (byID(sourceID \<mapsto> item\<lparr>as_source := sourceID\<rparr>)) items)"

definition approved_line :: "approved_service \<Rightarrow> string \<Rightarrow> string \<Rightarrow> contract_service" where
  "approved_line item site mode =
     \<lparr>cs_source = as_source item, cs_name = trim_space (as_name item), cs_site = trim_space site,
      cs_site_code = [], cs_batch = trim_space (as_batch item),
      cs_category = trim_space (as_category item), cs_system = trim_space (as_system item),
      cs_system_level = trim_space (as_system_level item),
      cs_requirement = trim_space (as_requirement item), cs_test_mode = mode\<rparr>"

fun approved_selection ::
  "(string \<rightharpoonup> approved_service) \<Rightarrow> string list \<Rightarrow> contract_service list \<Rightarrow>
     app_error + contract_service list" where
  "approved_selection byID selected [] = Inr []"
| "approved_selection byID selected (selection # requested) =
     (let sourceID = trim_space (cs_source selection) in
      case byID sourceID of
        None \<Rightarrow> Inl ErrValidation
      | Some item \<Rightarrow>
          if sourceID = [] \<or> List.member selected sourceID then Inl ErrValidation
          else
            let site = firstNonEmpty (cs_site selection) (as_site item);
                mode = to_upper (trim_space (as_test_mode item)) in
            if blank site then Inl ErrValidation
            else if mode \<noteq> ''STANDARD'' \<and> mode \<noteq> ''PENETRATION'' then Inl ErrContractUnavailable
            else rbind (approved_selection byID (sourceID # selected) requested)
                   (\<lambda>rest. Inr (approved_line item site mode # rest)))"

definition approvedContractServices ::
  "contract_service list \<Rightarrow> approved_service list \<Rightarrow> app_error + contract_service list" where
  "approvedContractServices requested catalog =
     rbind (catalog_index Map.empty catalog) (\<lambda>byID. approved_selection byID [] requested)"

section \<open>Identities of a contract\<close>

record guard_row =
  gd_tenant :: string
  gd_identity :: string
  gd_project :: string

text \<open>The tables an activation touches.\<close>

record activation_state =
  av_store :: store
  av_guards :: "guard_row list"
  av_config :: split_store

text \<open>What a request brings, and what it reads from outside.\<close>

record activation_input =
  ax_env :: env
  ax_tenant :: string
  ax_user :: string
  ax_scope :: "(project_row \<Rightarrow> bool) option"
  ax_own_scope :: bool
  ax_owner_org :: string
  ax_owner_identity :: string
  ax_site :: "string \<Rightarrow> (string \<times> string) option"
  ax_contract :: "string \<Rightarrow> approved_contract option"
  ax_catalog :: "string \<Rightarrow> service_catalog option"
  ax_project_ulid :: string
  ax_event_ulid :: string
  ax_notice_ulid :: string

text \<open>
  \<open>ax_scope\<close> is the data scope of the permission to import contracts (\<open>None\<close> without the
  permission), \<open>ax_own_scope\<close> whether it covers everything or the caller's own projects,
  \<open>ax_owner_org\<close> the single organisation of the scope, \<open>ax_site\<close> the name and code of an active
  site by its code.
\<close>

definition contract_identities :: "string \<Rightarrow> string \<Rightarrow> string list" where
  "contract_identities i number = uniq (filter (\<lambda>v. v \<noteq> []) [trim_space i, trim_space number])"

definition guard_key :: "env \<Rightarrow> string \<Rightarrow> string \<Rightarrow> guard_row \<Rightarrow> bool" where
  "guard_key env tenant identity g \<longleftrightarrow> gd_tenant g = tenant \<and> sql_eq env (gd_identity g) identity"

definition insert_guard :: "env \<Rightarrow> string \<Rightarrow> string \<Rightarrow> guard_row list \<Rightarrow> guard_row list" where
  "insert_guard env tenant identity gs =
     (if list_ex (guard_key env tenant identity) gs then gs
      else gs @ [\<lparr>gd_tenant = tenant, gd_identity = identity, gd_project = []\<rparr>])"

text \<open>The rows are inserted in the order of the identities, then locked.\<close>

definition lockContractIdentities ::
  "env \<Rightarrow> string \<Rightarrow> string \<Rightarrow> string \<Rightarrow> guard_row list \<Rightarrow> string list \<times> guard_row list" where
  "lockContractIdentities env tenant i number gs =
     (let identities = sort (contract_identities i number)
      in (identities, fold (insert_guard env tenant) identities gs))"

definition project_identity :: "env \<Rightarrow> project_row \<Rightarrow> string" where
  "project_identity env p =
     (if \<not> sql_eq env (pj_contract_id p) [] then pj_contract_id p else pj_contract p)"

definition has_identity :: "env \<Rightarrow> string \<Rightarrow> string list \<Rightarrow> project_row \<Rightarrow> bool" where
  "has_identity env tenant identities p \<longleftrightarrow>
     pj_tenant p = tenant \<and> list_ex (sql_eq env (project_identity env p)) identities"

definition bound_identity :: "env \<Rightarrow> string \<Rightarrow> string list \<Rightarrow> import_binding \<Rightarrow> bool" where
  "bound_identity env tenant identities b \<longleftrightarrow>
     ib_tenant b = tenant \<and> ib_source b = ''contract_management'' \<and>
     list_ex (sql_eq env (ib_contract b)) identities"

fun claim_guards ::
  "env \<Rightarrow> string \<Rightarrow> string \<Rightarrow> string list \<Rightarrow> guard_row list \<Rightarrow> app_error + guard_row list" where
  "claim_guards env tenant project [] gs = Inr gs"
| "claim_guards env tenant project (identity # identities) gs =
     (case find (guard_key env tenant identity) gs of
        None \<Rightarrow> Inl ErrImportConflict
      | Some g \<Rightarrow>
          if gd_project g \<noteq> [] \<and> (project = [] \<or> gd_project g \<noteq> project) then Inl ErrImportConflict
          else claim_guards env tenant project identities
            (if project \<noteq> []
             then update_where (guard_key env tenant identity) (\<lambda>g. g\<lparr>gd_project := project\<rparr>) gs
             else gs))"

text \<open>\<open>command\<close> is empty here: a binding without a project is left over only by an import in progress.\<close>

definition claimContractProject ::
  "env \<Rightarrow> string \<Rightarrow> string \<Rightarrow> string \<Rightarrow> string \<Rightarrow> store \<Rightarrow> guard_row list \<Rightarrow> app_error + guard_row list" where
  "claimContractProject env tenant i number project s gs =
     (let (identities, gs) = lockContractIdentities env tenant i number gs in
      if identities = [] then Inr gs
      else if list_ex (\<lambda>p. has_identity env tenant identities p \<and> (project = [] \<or> pj_id p \<noteq> project))
                (st_projects s) then Inl ErrImportConflict
      else if list_ex (\<lambda>b. bound_identity env tenant identities b \<and>
                (project = [] \<or> ib_project b \<noteq> project)) (st_bindings s) then Inl ErrImportConflict
      else claim_guards env tenant project identities gs)"

text \<open>The oldest project of the scope with one of the identities, or bound to one by an import.\<close>

definition older_project :: "project_row \<Rightarrow> project_row \<Rightarrow> bool" where
  "older_project p q \<longleftrightarrow> pj_created_at p < pj_created_at q \<or>
     pj_created_at p = pj_created_at q \<and> str_less (pj_id p) (pj_id q)"

definition oldest_project :: "(project_row \<Rightarrow> bool) \<Rightarrow> store \<Rightarrow> project_row option" where
  "oldest_project P s =
     fold (\<lambda>p best. case best of None \<Rightarrow> Some p
             | Some b \<Rightarrow> if older_project p b then Some p else best)
       (filter P (st_projects s)) None"

definition FindProjectByContract ::
  "env \<Rightarrow> string \<Rightarrow> (project_row \<Rightarrow> bool) \<Rightarrow> string \<Rightarrow> string \<Rightarrow> store \<Rightarrow> app_error + project_row" where
  "FindProjectByContract env tenant scope i number s =
     (let identities = contract_identities i number in
      if identities = [] then Inl ErrNotFound
      else case oldest_project (\<lambda>p. has_identity env tenant identities p \<and> scope p) s of
        Some p \<Rightarrow> Inr p
      | None \<Rightarrow>
          (case oldest_project (\<lambda>p. pj_tenant p = tenant \<and> scope p \<and>
                  list_ex (\<lambda>b. bound_identity env tenant identities b \<and> ib_project b \<noteq> [] \<and>
                     ib_project b = pj_id p) (st_bindings s)) s of
             Some p \<Rightarrow> Inr p | None \<Rightarrow> Inl ErrNotFound))"

section \<open>The transactions\<close>

text \<open>The row of a service item as the activation inserts it.\<close>

definition activated_row :: "project_row \<Rightarrow> service_item \<Rightarrow> service_item" where
  "activated_row project item =
     item\<lparr>it_status_changed_at := Some (pj_created_at project), it_version := 1,
          it_created_at := pj_created_at project, it_updated_at := pj_updated_at project\<rparr>"

fun insert_activated ::
  "project_row \<Rightarrow> service_item list \<Rightarrow> service_item list \<Rightarrow> app_error + service_item list" where
  "insert_activated project [] rows = Inr rows"
| "insert_activated project (item # items) rows =
     (if list_ex (\<lambda>r. it_id r = it_id item) rows then Inl ErrStorage
      else insert_activated project items (rows @ [activated_row project item]))"

text \<open>The unique keys of the project table: the identifier, and the identity of the contract.\<close>

definition project_duplicate :: "env \<Rightarrow> project_row \<Rightarrow> project_row \<Rightarrow> bool" where
  "project_duplicate env project p \<longleftrightarrow> pj_id p = pj_id project \<or>
     pj_tenant p = pj_tenant project \<and>
     pj_source_kind p = ''CONTRACT'' \<and> pj_source_kind project = ''CONTRACT'' \<and>
     sql_eq env (project_identity env p) (project_identity env project)"

definition Repo_ActivateContract ::
  "env \<Rightarrow> project_row \<Rightarrow> service_item list \<Rightarrow> delivery_event \<Rightarrow> activation_state \<Rightarrow>
     app_error + activation_state" where
  "Repo_ActivateContract env project items event st =
     (case claimContractProject env (pj_tenant project) (pj_contract_id project) (pj_contract project)
             (pj_id project) (av_store st) (av_guards st) of
        Inl e \<Rightarrow> Inl (if e = ErrImportConflict then ErrDuplicateContract else e)
      | Inr guards \<Rightarrow>
          let s = av_store st in
          if list_ex (project_duplicate env project) (st_projects s) then Inl ErrDuplicateContract
          else
            rbind (insert_activated project items (st_items s)) (\<lambda>rows.
            rbind (createEvent env event
                     (s\<lparr>st_projects := st_projects s @ [project], st_items := rows\<rparr>)) (\<lambda>s.
            rbind (createNotificationOutbox event s) (\<lambda>s.
              Inr (st\<lparr>av_store := s, av_guards := guards\<rparr>)))))"

definition latest_stamp :: "string \<Rightarrow> string \<Rightarrow> store \<Rightarrow> event_row option" where
  "latest_stamp tenant project s =
     fold (\<lambda>e best. case best of None \<Rightarrow> Some e
             | Some b \<Rightarrow> if er_created_at b < er_created_at e then Some e else best)
       (filter (\<lambda>e. er_tenant e = tenant \<and> er_project e = project \<and>
                    er_type e = EventContractStampStatus) (st_events s)) None"

definition SyncContractStampStatus ::
  "env \<Rightarrow> project_row \<Rightarrow> bool \<Rightarrow> delivery_event \<Rightarrow> store \<Rightarrow> app_error + store" where
  "SyncContractStampStatus env project uploaded event s =
     (if (case latest_stamp (pj_tenant project) (pj_id project) s of None \<Rightarrow> False
          | Some e \<Rightarrow> map_of (er_payload e) ''stamped_contract_uploaded'' = Some (JBool uploaded))
      then Inr s
      else rbind (createEvent env event s) (createNotificationOutbox event))"

section \<open>The project and its items\<close>

definition activation_event ::
  "activation_input \<Rightarrow> string \<Rightarrow> event_type \<Rightarrow> payload \<Rightarrow> role_notification option \<Rightarrow> delivery_event" where
  "activation_event inp project ty payload notice =
     \<lparr>de_id = ax_event_ulid inp, de_tenant = ax_tenant inp, de_project = project, de_item = [],
      de_type = ty, de_actor = ax_user inp, de_payload = payload,
      de_created_at = env_clock (ax_env inp), de_operation = [], de_captured_at = None,
      de_notification = None, de_role_notification = notice\<rparr>"

definition syncExistingContract ::
  "activation_input \<Rightarrow> project_row \<Rightarrow> bool \<Rightarrow> activation_state \<Rightarrow>
     app_error + project_row \<times> activation_state" where
  "syncExistingContract inp existing stamped st =
     (let contractID = firstNonEmpty (pj_contract_id existing) (pj_contract existing);
          event = activation_event inp (pj_id existing) EventContractStampStatus
            [(''contract_id'', JStr contractID), (''contract_number'', JStr (pj_contract existing)),
             (''contract_version'', JStr (pj_contract_version existing)),
             (''stamped_contract_uploaded'', JBool stamped)] None
      in rbind (SyncContractStampStatus (ax_env inp) existing stamped event (av_store st))
           (\<lambda>s. Inr (existing, st\<lparr>av_store := s\<rparr>)))"

definition projectID :: "env \<Rightarrow> string \<Rightarrow> string" where
  "projectID env ulid =
     ''PJ-'' @ show_nat (nat (YearOf (env_zone env) (env_clock env))) @ ''-'' @ to_upper (drop 20 ulid)"

definition splitPlanSummary :: "split_plan \<Rightarrow> string" where
  "splitPlanSummary plan =
     (if pa_name plan \<noteq> [] then override_text @ pa_name plan else default_rules_text)"

definition splitScopeSnapshot :: "service_item list \<Rightarrow> string list" where
  "splitScopeSnapshot items =
     sort (map (\<lambda>i. join_with ''|'' [trim_space (it_source_service i), trim_space (it_batch i),
                                   trim_space (it_site i), trim_space (it_category i)]) items)"

text \<open>A group becomes an item; \<open>codes\<close> of a category outside the catalogue are absent.\<close>

definition contract_item :: "activation_input \<Rightarrow> string \<Rightarrow> split_plan \<Rightarrow> nat \<Rightarrow> split_group \<Rightarrow> service_item" where
  "contract_item inp project plan index g =
     (let item = sg_item g; outcome = sg_outcome g in
      \<lparr>it_id = ''SI-'' @ trim_prefix ''PJ-'' project @ ''-'' @ show_nat3 (index + 1),
       it_tenant = ax_tenant inp, it_project = project, it_source_service = cs_source item,
       it_batch = cs_batch item, it_site = cs_site item, it_site_code = cs_site_code item,
       it_category = cs_category item,
       it_requirement = (if pol_summary plan then cs_requirement item else []),
       it_system = cs_system item, it_system_level = cs_system_level item,
       it_system_standard = oc_standard outcome, it_special = oc_special outcome,
       it_test_mode = oc_test_mode outcome, it_team_lead = [], it_manager = [],
       it_engineers = JNull, it_equipment = JNull,
       it_codes = (if oc_missing outcome then JNull else JStrs (oc_codes outcome)),
       it_planned_start = None, it_planned_end = None, it_conflict = ''UNCHECKED'',
       it_tech_status = (if oc_special outcome = yes \<and> oc_status outcome = ServiceItemStatusPendingAssign
                         then ''PENDING'' else []),
       it_tech_at = None, it_tech_by = [], it_tech_comment = [], it_report_status = [],
       it_report_at = None, it_report_by = [], it_report_revision = 0, it_prepared_by = [],
       it_reviewed_by = [], it_issued_by = [], it_status = oc_status outcome,
       it_status_changed_at = None, it_version = 0, it_created_at = 0, it_updated_at = 0,
       it_updated_by = [], it_archived_at = None\<rparr>)"

definition contract_items ::
  "activation_input \<Rightarrow> string \<Rightarrow> split_plan \<Rightarrow> split_group list \<Rightarrow> service_item list" where
  "contract_items inp project plan groups =
     map (\<lambda>(index, g). contract_item inp project plan index g) (zip [0..<length groups] groups)"

definition missing_categories :: "split_group list \<Rightarrow> string list" where
  "missing_categories groups =
     uniq (map (\<lambda>g. cs_category (sg_item g)) (filter (\<lambda>g. oc_missing (sg_outcome g)) groups))"

definition new_project :: "activation_input \<Rightarrow> contract_activation \<Rightarrow> nat \<Rightarrow> project_row" where
  "new_project inp input services =
     (let number = firstNonEmpty (trim_space (ct_number input)) (trim_space (ct_id input));
          now = env_clock (ax_env inp) in
      \<lparr>pj_id = projectID (ax_env inp) (ax_project_ulid inp), pj_tenant = ax_tenant inp,
       pj_source_kind = ''CONTRACT'', pj_source_id = [], pj_scope_version = 0,
       pj_owner_org = ax_owner_org inp,
       pj_name = firstNonEmpty (ct_name input) (firstNonEmpty number (ct_id input)),
       pj_customer = trim_space (ct_customer input), pj_customer_id = trim_space (ct_customer_id input),
       pj_contract = number, pj_contract_id = trim_space (ct_id input),
       pj_contract_version = trim_space (ct_version input), pj_supplement = ''NONE'',
       pj_services = services, pj_category = [], pj_team = unassigned_text, pj_manager = dash_text,
       pj_owner_identity = ax_owner_identity inp, pj_manager_identity = [],
       pj_status = ProjectStatusPendingDecomposition, pj_progress = 0, pj_due = [],
       pj_created_at = now, pj_updated_at = now, pj_version = 1\<rparr>)"

definition missing_notice ::
  "activation_input \<Rightarrow> project_row \<Rightarrow> string list \<Rightarrow> role_notification" where
  "missing_notice inp project missing =
     \<lparr>rn_message =
        \<lparr>nt_event_id = ax_notice_ulid inp, nt_event_type = ''SPLIT_RULE_MISSING'',
         nt_scope = ''CROSS_SYSTEM'', nt_priority = ''HIGH'',
         nt_title = title_before @ pj_contract project @ title_after,
         nt_content = content_project @ pj_id project @ content_customer @ pj_customer project
           @ content_category @ join_with list_comma missing @ content_after,
         nt_reference_type = ''project'', nt_reference_id = pj_id project, nt_recipients = [],
         nt_occurred_at = env_clock (ax_env inp), nt_key = pj_id project @ ''-split-rule-missing''\<rparr>,
      rn_roles = [''business_admin'']\<rparr>"

definition activated_payload ::
  "contract_activation \<Rightarrow> project_row \<Rightarrow> split_plan \<Rightarrow> service_item list \<Rightarrow> payload" where
  "activated_payload input project plan items =
     [(''contract_id'', JStr (pj_contract_id project)), (''contract_number'', JStr (pj_contract project)),
      (''contract_version'', JStr (pj_contract_version project)),
      (''effective_at'', (case ct_effective input of None \<Rightarrow> JNull | Some t \<Rightarrow> JStr t)),
      (''service_count'', JNum (int (length items))),
      (''stamped_contract_uploaded'', JBool (ct_stamped input)),
      (''split_rule'', JStr (splitPlanSummary plan)),
      (''scope_snapshot'', JStrs (splitScopeSnapshot items)),
      (''scope_change_detection'', JBool (pol_detection plan)),
      (''origin_kind'', JStr (ct_origin_kind input)), (''import_mode'', JStr (ct_import_mode input)),
      (''origin_import_item_id'', JStr (ct_origin_item input))]"

section \<open>The entries\<close>

text \<open>The site of each line: a code must name an active site, free text is kept.\<close>

definition resolveActiveSite :: "activation_input \<Rightarrow> contract_service \<Rightarrow> app_error + contract_service" where
  "resolveActiveSite inp s =
     (let name = trim_space (cs_site s); code = trim_space (cs_site_code s) in
      if code = [] then Inr (s\<lparr>cs_site := name, cs_site_code := []\<rparr>)
      else case ax_site inp code of None \<Rightarrow> Inl ErrValidation
        | Some (n, c) \<Rightarrow> Inr (s\<lparr>cs_site := n, cs_site_code := c\<rparr>))"

fun resolve_sites :: "activation_input \<Rightarrow> contract_service list \<Rightarrow> app_error + contract_service list" where
  "resolve_sites inp [] = Inr []"
| "resolve_sites inp (s # ss) =
     rbind (resolveActiveSite inp s) (\<lambda>s. rbind (resolve_sites inp ss) (\<lambda>ss. Inr (s # ss)))"

text \<open>A contract delivered without its number: the number is read back from the contract system.\<close>

definition resolve_number ::
  "activation_input \<Rightarrow> contract_activation \<Rightarrow> app_error + bool \<times> contract_activation" where
  "resolve_number inp input =
     (if \<not> blank (ct_number input) then Inr (False, input)
      else case ax_contract inp (trim_space (ct_id input)) of
        None \<Rightarrow> Inl ErrContractUnavailable
      | Some c \<Rightarrow>
          if trim_space (ac_id c) \<noteq> trim_space (ct_id input) \<or> blank (ac_number c) \<or>
             \<not> ac_approval c \<or> \<not> NormalProjectContract c
          then Inl ErrContractUnavailable
          else Inr (True, input\<lparr>ct_number := trim_space (ac_number c)\<rparr>))"

definition existing_contract ::
  "activation_input \<Rightarrow> bool \<Rightarrow> contract_activation \<Rightarrow> project_row \<Rightarrow> activation_state \<Rightarrow>
     app_error + project_row \<times> activation_state" where
  "existing_contract inp resolved input existing st =
     (if resolved \<and> trim_space (pj_contract existing) \<noteq> ct_number input then Inl ErrPrecondition
      else if pj_contract_id existing \<noteq> trim_space (ct_id input) \<and>
              pj_contract existing \<noteq> trim_space (ct_number input) then Inl ErrImportPolicy
      else syncExistingContract inp existing (ct_stamped input) st)"

text \<open>The plan of the contract, and the catalogue of the tenant with the configuration after reading it.\<close>

definition contract_plan :: "activation_input \<Rightarrow> contract_activation \<Rightarrow> split_store \<Rightarrow> split_plan" where
  "contract_plan inp input config =
     (let base = new_project inp input 0 in
      resolveSplitPlan config (ax_tenant inp) (pj_customer base) (pj_contract base)
        (int (length (ct_services input))) (contractServiceCategories (ct_services input)))"

definition contract_catalogue ::
  "activation_input \<Rightarrow> split_store \<Rightarrow> (string \<rightharpoonup> detection_category) \<times> split_store" where
  "contract_catalogue inp config =
     (let (categories, config) = ListDetectionCategories (ax_env inp) (\<lambda>_. 0) (ax_tenant inp) config
      in (splitCategoryDomain categories, config))"

definition create_project ::
  "activation_input \<Rightarrow> contract_activation \<Rightarrow> activation_state \<Rightarrow>
     app_error + project_row \<times> activation_state" where
  "create_project inp input st =
     (let base = new_project inp input 0;
          plan = contract_plan inp input (av_config st);
          (cats, config) = contract_catalogue inp (av_config st)
      in rbind (groupContractServicesByPlan plan (pj_customer base) (pj_contract base)
                  (ct_services input) cats) (\<lambda>groups.
         let items = contract_items inp (pj_id base) plan groups;
             project = new_project inp input (length items);
             missing = missing_categories groups;
             notice = (if missing \<noteq> [] \<and> pol_missing plan = SplitMissingHumanConfirm
                       then Some (missing_notice inp project missing) else None);
             event = activation_event inp (pj_id project) EventContractActivated
               (activated_payload input project plan items) notice
         in rbind (Repo_ActivateContract (ax_env inp) project items event (st\<lparr>av_config := config\<rparr>))
              (\<lambda>st. Inr (project, st))))"

text \<open>
  The part after the checks of the request: an existing project is synchronised, else one is
  created. When another request was faster, the project it created is synchronised; the catalogue
  seeded before is kept then, and dropped when the call fails.
\<close>

definition activate_resolved ::
  "activation_input \<Rightarrow> (project_row \<Rightarrow> bool) \<Rightarrow> bool \<Rightarrow> contract_activation \<Rightarrow> activation_state \<Rightarrow>
     app_error + project_row \<times> activation_state" where
  "activate_resolved inp scope resolved input st =
     (case FindProjectByContract (ax_env inp) (ax_tenant inp) scope
             (trim_space (ct_id input)) (trim_space (ct_number input)) (av_store st) of
        Inr existing \<Rightarrow> existing_contract inp resolved input existing st
      | Inl e \<Rightarrow>
          if e \<noteq> ErrNotFound then Inl e
          else if \<not> ax_own_scope inp \<and> ax_owner_org inp = [] then Inl ErrForbidden
          else case create_project inp input st of
            Inr r \<Rightarrow> Inr r
          | Inl e' \<Rightarrow>
              if e' \<noteq> ErrDuplicateContract then Inl e'
              else rbind (FindProjectByContract (ax_env inp) (ax_tenant inp) scope
                      (trim_space (ct_id input))
                      (firstNonEmpty (trim_space (ct_number input)) (trim_space (ct_id input)))
                      (av_store st))
                     (\<lambda>existing. existing_contract inp resolved input existing
                        (st\<lparr>av_config := snd (contract_catalogue inp (av_config st))\<rparr>)))"

definition activateContract ::
  "activation_input \<Rightarrow> contract_activation \<Rightarrow> activation_state \<Rightarrow>
     app_error + project_row \<times> activation_state" where
  "activateContract inp input st =
     (case ax_scope inp of None \<Rightarrow> Inl ErrForbidden
      | Some scope \<Rightarrow>
          if blank (ct_id input) \<or> blank (ct_version input) \<or> blank (ct_customer input) \<or>
             ct_services input = [] \<or> ct_effective input = None then Inl ErrValidation
          else
            rbind (resolve_sites inp (ct_services input)) (\<lambda>services.
            rbind (resolve_number inp (input\<lparr>ct_services := services\<rparr>)) (\<lambda>(resolved, input).
              activate_resolved inp scope resolved input st)))"

text \<open>The contract system delivers an activation: the payload is authoritative.\<close>

definition ActivateContract ::
  "activation_input \<Rightarrow> contract_activation \<Rightarrow> activation_state \<Rightarrow>
     app_error + project_row \<times> activation_state" where
  "ActivateContract inp input st =
     (if \<not> normal_origin (ct_origin_kind input) (ct_import_mode input) (ct_origin_item input)
      then Inl ErrImportPolicy else activateContract inp input st)"

text \<open>
  A user activates a contract: what the request says of the contract is replaced by what the
  contract system says.
\<close>

definition authoritative_activation ::
  "activation_input \<Rightarrow> contract_activation \<Rightarrow> app_error + contract_activation" where
  "authoritative_activation inp input =
     (let contractID = trim_space (ct_id input) in
      if contractID = [] then Inl ErrValidation
      else case ax_contract inp contractID of
        None \<Rightarrow> Inl ErrContractUnavailable
      | Some c \<Rightarrow>
          let version = show_nat (ac_version c); requested = trim_space (ct_version input) in
          if trim_space (ac_id c) \<noteq> contractID \<or> \<not> ac_approval c \<or> \<not> NormalProjectContract c \<or>
             \<not> contractApprovedStatus (ac_status c) then Inl ErrPrecondition
          else if blank (ac_number c) \<or> blank (ac_customer_name c) then Inl ErrPrecondition
          else if requested \<noteq> [] \<and> requested \<noteq> version then Inl ErrPrecondition
          else if ct_services input = [] then Inl ErrValidation
          else case ax_catalog inp contractID of
            None \<Rightarrow> Inl ErrContractUnavailable
          | Some catalog \<Rightarrow>
              if trim_space (ca_contract catalog) \<noteq> contractID \<or> ca_version catalog \<noteq> ac_version c
              then Inl ErrPrecondition
              else rbind (approvedContractServices (ct_services input) (ca_items catalog)) (\<lambda>services.
                Inr (input\<lparr>ct_id := contractID, ct_number := trim_space (ac_number c),
                  ct_version := version, ct_name := trim_space (ac_title c),
                  ct_customer := trim_space (ac_customer_name c),
                  ct_customer_id := trim_space (ac_customer_id c),
                  ct_origin_kind := ac_origin_kind c, ct_import_mode := ac_import_mode c,
                  ct_origin_item := ac_origin_item c, ct_services := services\<rparr>)))"

definition ActivateContractFromUser ::
  "activation_input \<Rightarrow> contract_activation \<Rightarrow> activation_state \<Rightarrow>
     app_error + project_row \<times> activation_state" where
  "ActivateContractFromUser inp input st =
     rbind (authoritative_activation inp input) (\<lambda>input. activateContract inp input st)"

end
