(* ===== verification/ActivationProps.thy ===== *)
theory ActivationProps
  imports Activation ProjectIdentity Identifiers
begin

text \<open>
  Properties of the activation of contracts: one project per contract, the contract system as the
  only source of what a user's activation says of the contract, and the initial state of the
  service items.
\<close>

section \<open>Claims on identities\<close>

definition guard_index :: "env \<Rightarrow> guard_row \<Rightarrow> string \<times> string" where
  "guard_index env g = (gd_tenant g, env_fold env (gd_identity g))"

lemma guard_key_index:
  "guard_key env tenant i g \<longleftrightarrow> guard_index env g = (tenant, env_fold env i)"
  by (simp add: guard_key_def guard_index_def sql_eq_def)

definition guards_distinct :: "env \<Rightarrow> guard_row list \<Rightarrow> bool" where
  "guards_distinct env gs \<longleftrightarrow> distinct (map (guard_index env) gs)"

definition claimed :: "env \<Rightarrow> guard_row list \<Rightarrow> string \<Rightarrow> string \<Rightarrow> string \<Rightarrow> bool" where
  "claimed env gs tenant identity project \<longleftrightarrow>
     (\<exists>g \<in> set gs. guard_key env tenant identity g \<and> gd_project g = project)"

lemma claimed_unique:
  assumes "guards_distinct env gs" and "claimed env gs tenant i p" and "claimed env gs tenant j q"
    and "sql_eq env i j"
  shows "p = q"
  using assms unfolding claimed_def guards_distinct_def guard_key_index sql_eq_def
  by (auto simp: distinct_map inj_on_def)

lemma insert_guard_keeps:
  "guards_distinct env gs \<Longrightarrow> guards_distinct env (insert_guard env tenant i gs)"
  by (auto simp: guards_distinct_def insert_guard_def list_ex_iff guard_key_index guard_index_def)

lemma fold_insert_guard_distinct:
  "guards_distinct env gs \<Longrightarrow> guards_distinct env (fold (insert_guard env tenant) is gs)"
  by (induction "is" arbitrary: gs) (simp_all add: insert_guard_keeps)

lemma fold_insert_guard_grows: "g \<in> set gs \<Longrightarrow> g \<in> set (fold (insert_guard env tenant) is gs)"
  by (induction "is" arbitrary: gs) (auto simp: insert_guard_def)

text \<open>A successful claim takes every identity, and takes none from another project.\<close>

lemma claim_guards_step:
  assumes d: "guards_distinct env gs" and g: "find (guard_key env tenant i) gs = Some g"
    and free: "gd_project g = [] \<or> gd_project g = project"
    and gs': "gs' = update_where (guard_key env tenant i) (\<lambda>g. g\<lparr>gd_project := project\<rparr>) gs"
  shows "guards_distinct env gs'" and "claimed env gs' tenant i project"
    and "q \<noteq> [] \<Longrightarrow> claimed env gs t j q \<Longrightarrow> claimed env gs' t j q"
proof -
  have key: "guard_key env t k (h\<lparr>gd_project := project\<rparr>) = guard_key env t k h" for t k h
    by (simp add: guard_key_def)
  show "guards_distinct env gs'"
    using d unfolding gs' guards_distinct_def by (subst map_key_update_where) (simp_all add: guard_index_def)
  from g have gi: "g \<in> set gs" "guard_key env tenant i g" by (auto simp: find_Some_iff)
  then show "claimed env gs' tenant i project"
    unfolding claimed_def gs' set_update_where
    by (intro bexI [of _ "g\<lparr>gd_project := project\<rparr>"]) (auto simp: key)
  assume q: "q \<noteq> []" and "claimed env gs t j q"
  then obtain h where h: "h \<in> set gs" "guard_key env t j h" "gd_project h = q"
    by (auto simp: claimed_def)
  show "claimed env gs' t j q"
  proof (cases "guard_key env tenant i h")
    case True
    then have "h = g" using gi h(1) d by (auto simp: guards_distinct_def guard_key_index distinct_map inj_on_def)
    with free h q have "gd_project h = project" by auto
    with True h show ?thesis
      unfolding claimed_def gs' set_update_where by (intro bexI [of _ "h\<lparr>gd_project := project\<rparr>"]) (auto simp: key)
  next
    case False
    with h show ?thesis unfolding claimed_def gs' set_update_where by (intro bexI [of _ h]) auto
  qed
qed

lemma claim_guards_ok:
  "claim_guards env tenant project is gs = Inr gs' \<Longrightarrow> guards_distinct env gs \<Longrightarrow> project \<noteq> [] \<Longrightarrow>
   guards_distinct env gs' \<and> (\<forall>i \<in> set is. claimed env gs' tenant i project) \<and>
   (\<forall>t j q. q \<noteq> [] \<longrightarrow> claimed env gs t j q \<longrightarrow> claimed env gs' t j q)"
proof (induction "is" arbitrary: gs)
  case (Cons i "is")
  let ?gs = "update_where (guard_key env tenant i) (\<lambda>g. g\<lparr>gd_project := project\<rparr>) gs"
  from Cons.prems obtain g where g: "find (guard_key env tenant i) gs = Some g"
    and free: "gd_project g = [] \<or> gd_project g = project"
    and rest: "claim_guards env tenant project is ?gs = Inr gs'"
    by (auto split: option.splits if_splits)
  note step = claim_guards_step [OF Cons.prems(2) g free refl]
  from Cons.IH [OF rest step(1) Cons.prems(3)] step(2,3) Cons.prems(3) show ?case by auto
qed simp

lemma claimContractProject_ok:
  assumes c: "claimContractProject env tenant i number project s gs = Inr gs'"
    and d: "guards_distinct env gs" and p: "project \<noteq> []"
  shows "guards_distinct env gs'"
    and "v \<in> set (contract_identities i number) \<Longrightarrow> claimed env gs' tenant v project"
    and "q \<noteq> [] \<Longrightarrow> claimed env gs t j q \<Longrightarrow> claimed env gs' t j q"
proof -
  let ?is = "sort (contract_identities i number)" and ?gs = "fold (insert_guard env tenant) (sort (contract_identities i number)) gs"
  have d': "guards_distinct env ?gs" by (rule fold_insert_guard_distinct [OF d])
  have old: "claimed env gs t j q \<Longrightarrow> claimed env ?gs t j q" for t j q
    using fold_insert_guard_grows [of _ gs env tenant ?is] by (auto simp: claimed_def)
  have r: "?is = [] \<and> gs' = ?gs \<or> claim_guards env tenant project ?is ?gs = Inr gs'"
    using c by (auto simp: claimContractProject_def lockContractIdentities_def Let_def split: if_splits)
  have "guards_distinct env gs' \<and> (\<forall>v \<in> set ?is. claimed env gs' tenant v project) \<and>
     (\<forall>t j q. q \<noteq> [] \<longrightarrow> claimed env ?gs t j q \<longrightarrow> claimed env gs' t j q)"
    using r claim_guards_ok [OF _ d' p] d' by (elim disjE) auto
  then show "guards_distinct env gs'"
    and "v \<in> set (contract_identities i number) \<Longrightarrow> claimed env gs' tenant v project"
    and "q \<noteq> [] \<Longrightarrow> claimed env gs t j q \<Longrightarrow> claimed env gs' t j q"
    using old by auto
qed

section \<open>Every identity belongs to one project\<close>

definition identities :: "project_row \<Rightarrow> string list" where
  "identities p = contract_identities (pj_contract_id p) (pj_contract p)"

definition owned :: "env \<Rightarrow> activation_state \<Rightarrow> bool" where
  "owned env st \<longleftrightarrow>
     guards_distinct env (av_guards st) \<and>
     distinct (map (\<lambda>(t, i, c, n, k). i) (idents (av_store st))) \<and>
     (\<forall>(t, i, c, n, k) \<in> set (idents (av_store st)). i \<noteq> [] \<and>
        (\<forall>v \<in> set (contract_identities c n). claimed env (av_guards st) t v i))"

lemma owned_same:
  "idents (av_store st') = idents (av_store st) \<Longrightarrow> av_guards st' = av_guards st \<Longrightarrow>
   owned env st \<Longrightarrow> owned env st'"
  by (simp add: owned_def)

lemma guard_fold:
  assumes "env_fold e = env_fold env"
  shows "guard_key e = guard_key env" and "claimed e = claimed env" and "guards_distinct e = guards_distinct env"
proof -
  show k: "guard_key e = guard_key env" by (intro ext) (simp add: guard_key_def sql_eq_def assms)
  then show "claimed e = claimed env" by (intro ext) (simp add: claimed_def)
  have "guard_index e = guard_index env" by (rule ext) (simp add: guard_index_def assms)
  then show "guards_distinct e = guards_distinct env" by (intro ext) (simp add: guards_distinct_def)
qed

lemma owned_fold: "env_fold e = env_fold env \<Longrightarrow> owned e st = owned env st"
  using guard_fold [of e env] by (simp only: owned_def)

lemma Repo_ActivateContractE:
  assumes "Repo_ActivateContract env project items event st = Inr st'"
  obtains guards rows s where
    "claimContractProject env (pj_tenant project) (pj_contract_id project) (pj_contract project)
       (pj_id project) (av_store st) (av_guards st) = Inr guards"
    "\<not> list_ex (project_duplicate env project) (st_projects (av_store st))"
    "insert_activated project items (st_items (av_store st)) = Inr rows"
    "record_frame ((av_store st)\<lparr>st_projects := st_projects (av_store st) @ [project], st_items := rows\<rparr>) s"
    "st' = st\<lparr>av_store := s, av_guards := guards\<rparr>"
proof -
  let ?s = "av_store st"
  from assms obtain guards where c: "claimContractProject env (pj_tenant project) (pj_contract_id project)
        (pj_contract project) (pj_id project) ?s (av_guards st) = Inr guards"
    and rest: "(if list_ex (project_duplicate env project) (st_projects ?s) then Inl ErrDuplicateContract
       else rbind (insert_activated project items (st_items ?s)) (\<lambda>rows.
            rbind (createEvent env event (?s\<lparr>st_projects := st_projects ?s @ [project], st_items := rows\<rparr>)) (\<lambda>s.
            rbind (createNotificationOutbox event s) (\<lambda>s.
              Inr (st\<lparr>av_store := s, av_guards := guards\<rparr>))))) = Inr st'"
    by (simp only: Repo_ActivateContract_def Let_def split: sum.splits) simp
  from rest obtain rows s1 s2 where dup: "\<not> list_ex (project_duplicate env project) (st_projects ?s)"
    and i: "insert_activated project items (st_items ?s) = Inr rows"
    and e: "createEvent env event (?s\<lparr>st_projects := st_projects ?s @ [project], st_items := rows\<rparr>) = Inr s1"
    and n: "createNotificationOutbox event s1 = Inr s2"
    and st': "st' = st\<lparr>av_store := s2, av_guards := guards\<rparr>"
    by (simp only: if_Inl_eq_Inr rbind_eq_Inr) blast
  show thesis
    by (rule that [OF c dup i record_frame_trans [OF createEvent_frame(1) [OF e] notification_frame(1) [OF n]] st'])
qed

lemma Repo_ActivateContract_owned:
  assumes r: "Repo_ActivateContract env project items event st = Inr st'"
    and own: "owned env st" and i: "pj_id project \<noteq> []"
  shows "owned env st'"
proof -
  from r obtain guards rows s where
    c: "claimContractProject env (pj_tenant project) (pj_contract_id project) (pj_contract project)
       (pj_id project) (av_store st) (av_guards st) = Inr guards"
    and dup: "\<not> list_ex (project_duplicate env project) (st_projects (av_store st))"
    and f: "record_frame ((av_store st)\<lparr>st_projects := st_projects (av_store st) @ [project], st_items := rows\<rparr>) s"
    and st': "st' = st\<lparr>av_store := s, av_guards := guards\<rparr>"
    by (rule Repo_ActivateContractE)
  note claim = claimContractProject_ok [OF c _ i]
  have ids: "idents s = idents (av_store st) @ [ident project]"
    using record_frame_fields(2) [OF f] by (simp add: idents_def)
  have new: "pj_id project \<notin> (\<lambda>(t, i, c, n, k). i) ` set (idents (av_store st))"
    using dup by (auto simp: idents_def ident_def list_ex_iff project_duplicate_def)
  have d: "guards_distinct env (av_guards st)" using own by (simp add: owned_def)
  show ?thesis
    using own new claim [OF d] i unfolding owned_def st' by (auto simp: ids ident_def)
qed

lemma create_project_owned:
  assumes c: "create_project inp input st = Inr (p, st')" and own: "owned (ax_env inp) st"
  shows "owned (ax_env inp) st'"
proof -
  have "pj_id (new_project inp input n) \<noteq> []" for n
    by (simp add: new_project_def Let_def projectID_def)
  moreover have "owned (ax_env inp) (st\<lparr>av_config := config\<rparr>)" for config
    using own by (simp add: owned_def)
  ultimately show ?thesis
    using c by (auto simp: create_project_def Let_def res_simps split: prod.splits
        intro: Repo_ActivateContract_owned)
qed

lemma existing_contract_frame:
  assumes "existing_contract inp resolved input existing st = Inr (p, st')"
  shows "p = existing" and "av_guards st' = av_guards st" and "av_config st' = av_config st"
    and "record_frame (av_store st) (av_store st')"
proof -
  have refl: "record_frame s s" for s by (cases s) (simp add: record_frame_def)
  show "p = existing" "av_guards st' = av_guards st" "av_config st' = av_config st"
    using assms by (auto simp: existing_contract_def syncExistingContract_def Let_def res_simps split: if_splits)
  show "record_frame (av_store st) (av_store st')"
    using assms refl
    by (auto simp: existing_contract_def syncExistingContract_def SyncContractStampStatus_def Let_def
        res_simps split: if_splits dest!: createEvent_frame(1) notification_frame(1)
        intro: record_frame_trans)
qed

lemma existing_contract_owned:
  assumes "existing_contract inp resolved input existing st = Inr (p, st')" and "owned env st"
  shows "owned env st'"
  using assms(2) existing_contract_frame(2) [OF assms(1)]
    record_frame_fields(2) [OF existing_contract_frame(4) [OF assms(1)]]
  by (intro owned_same [of st' st]) (simp_all add: idents_def)

text \<open>An activation either creates a project or leaves the one that exists.\<close>

lemma activateContractE:
  assumes "activateContract inp input st = Inr (p, st')"
  obtains (created) input' where "create_project inp input' st = Inr (p, st')"
  | (existing) resolved input' existing config where
      "existing_contract inp resolved input' existing (st\<lparr>av_config := config\<rparr>) = Inr (p, st')"
proof -
  from assms obtain scope resolved input' where
    "activate_resolved inp scope resolved input' st = Inr (p, st')"
    by (auto simp: activateContract_def res_simps split: option.splits if_splits)
  then show thesis
    using created existing [of resolved input' _ "av_config st"] existing
    by (auto simp: activate_resolved_def res_simps split: sum.splits if_splits)
qed

lemma activateContract_owned:
  assumes "activateContract inp input st = Inr (p, st')" and "owned (ax_env inp) st"
  shows "owned (ax_env inp) st'"
  using assms(1)
  by (cases rule: activateContractE)
    (use assms(2) create_project_owned existing_contract_owned owned_same in fastforce)+

datatype activation_call =
    Delivered activation_input contract_activation
  | ByUser activation_input contract_activation
  | Work env transaction

fun act_step :: "activation_call \<Rightarrow> activation_state \<Rightarrow> app_error + activation_state" where
  "act_step (Delivered inp c) st = map_sum id snd (ActivateContract inp c st)"
| "act_step (ByUser inp c) st = map_sum id snd (ActivateContractFromUser inp c st)"
| "act_step (Work e tr) st =
     rbind (execute e tr (av_store st)) (\<lambda>s. Inr (st\<lparr>av_store := s\<rparr>))"

fun same_collation :: "env \<Rightarrow> activation_call \<Rightarrow> bool" where
  "same_collation env (Delivered inp c) \<longleftrightarrow> env_fold (ax_env inp) = env_fold env"
| "same_collation env (ByUser inp c) \<longleftrightarrow> env_fold (ax_env inp) = env_fold env"
| "same_collation env (Work e tr) \<longleftrightarrow> True"

lemma act_step_owned:
  assumes own: "owned env st" and c: "same_collation env c" and step: "act_step c st = Inr st'"
  shows "owned env st'"
proof (cases c)
  case (Delivered inp input)
  with step obtain p where "activateContract inp input st = Inr (p, st')"
    by (auto simp: ActivateContract_def res_simps split: if_splits)
  with Delivered c own show ?thesis
    using activateContract_owned [of inp input st p st'] owned_fold [of "ax_env inp" env] by simp
next
  case (ByUser inp input)
  with step obtain p input' where "activateContract inp input' st = Inr (p, st')"
    by (auto simp: ActivateContractFromUser_def res_simps)
  with ByUser c own show ?thesis
    using activateContract_owned [of inp input' st p st'] owned_fold [of "ax_env inp" env] by simp
next
  case (Work e tr)
  with step obtain s where s: "execute e tr (av_store st) = Inr s" "st' = st\<lparr>av_store := s\<rparr>"
    by (auto simp: res_simps)
  show ?thesis
    by (rule owned_same [OF _ _ own]) (simp_all add: s(2) execute_idents [OF s(1)])
qed

interpretation activations: transactional act_step "same_collation env" "owned env" for env
  by unfold_locales (rule act_step_owned)

section \<open>Where new items come from\<close>

lemma applied_status: "pol_status (applySplitOverride p s) =
    (case os_status s of Some v \<Rightarrow> trim_space v | None \<Rightarrow> pol_status p)"
  by (simp add: applySplitOverride_def)

lemma plan_status_initial:
  assumes "config_ok env config"
  shows "initial_status (pol_status (resolveSplitPlan config tenant customer contract n categories))"
proof -
  have policy: "initial_status (pol_status (GetSplitPolicy config tenant))"
  proof (cases "find (\<lambda>p. pol_tenant p = tenant) (ss_policies config)")
    case None
    then show ?thesis by (simp add: GetSplitPolicy_def DefaultSplitPolicy_def initial_status_def)
  next
    case (Some p)
    then have "p \<in> set (ss_policies config)" by (auto simp: find_Some_iff)
    with assms Some show ?thesis by (auto simp: GetSplitPolicy_def config_ok_def policy_wf_def)
  qed
  show ?thesis
  proof (cases "pol_enabled (GetSplitPolicy config tenant)")
    case True
    from resolve_enabled [OF True, of customer contract n categories] show ?thesis
    proof (elim disjE conjE exE)
      fix r
      assume hit: "override_hits config tenant customer contract n categories r"
        and plan: "resolveSplitPlan config tenant customer contract n categories =
          applySplitOverride ((plan_of (GetSplitPolicy config tenant))\<lparr>pa_id := or_id r, pa_name := or_name r\<rparr>)
            (decode_settings (or_settings r))"
      from hit assms have "ValidateSplitOverride (splitOverrideFromRecord r) = Inr ()"
        by (auto simp: override_hits_def config_ok_def override_wf_def)
      then have "validate_settings (decode_settings (or_settings r)) = Inr ()"
        using ValidateSplitOverride_facts(4) by (fastforce simp: splitOverrideFromRecord_def)
      then have "\<forall>v. os_status (decode_settings (or_settings r)) = Some v \<longrightarrow> initial_status (trim_space v)"
        by (auto simp: validate_settings_def res_simps)
      with policy show ?thesis by (auto simp: plan applied_status split: option.splits)
    qed (simp add: policy)
  next
    case False
    then show ?thesis
      by (simp add: resolveSplitPlan_def DefaultSplitPolicy_def initial_status_def)
  qed
qed

lemma merge_sources_keep:
  "sg_outcome (foldl merge_source g c) = sg_outcome g \<and>
   cs_category (sg_item (foldl merge_source g c)) = cs_category (sg_item g) \<and>
   cs_batch (sg_item (foldl merge_source g c)) = cs_batch (sg_item g)"
  by (induction c arbitrary: g) (simp_all add: merge_source_def Let_def)

lemma group_outcome:
  assumes "groupContractServicesByPlan plan customer contract sources cats = Inr groups" and "g \<in> set groups"
  obtains mode s where "sg_outcome g = resolveSplitOutcome plan (cs_category (sg_item g)) mode [] cats"
    "s \<in> set sources" "cs_category (sg_item g) = trim_space (cs_category s)"
    "cs_batch (sg_item g) = trim_space (cs_batch s)"
proof -
  let ?key = "source_key plan customer contract cats" and ?ts = "map trim_source sources"
  from assms obtain c where c: "c \<in> set (line_classes ?key ?ts)" and g: "g = merge_class plan cats c"
    by (auto simp: grouping_spec Let_def split: if_splits)
  have "hd c \<in> set c" using line_classes_partition(3) [OF c] by simp
  then have "hd c \<in> set ?ts" using line_classes_partition(4) [OF c, of "hd c" "hd c"] by simp
  then obtain s where s: "s \<in> set sources" "hd c = trim_source s" by auto
  show thesis
    by (rule that [OF _ s(1)])
      (use merge_sources_keep [of "first_group plan cats (hd c)" "tl c"] s(2) in
        \<open>auto simp: g merge_class_def first_group_def source_outcome_def trim_source_def\<close>)
qed

lemma insert_activated_rows:
  "insert_activated project items rows = Inr rows' \<Longrightarrow>
   rows' = rows @ map (activated_row project) items"
  by (induction project items rows rule: insert_activated.induct) (auto split: if_splits)

lemma created_items:
  assumes c: "create_project inp input st = Inr (project, st')"
    and i: "i \<in> set (st_items (av_store st'))" and new: "i \<notin> set (st_items (av_store st))"
  obtains index g mode where
    "i = activated_row project (contract_item inp (pj_id project)
           (contract_plan inp input (av_config st)) index g)"
    "sg_outcome g = resolveSplitOutcome (contract_plan inp input (av_config st))
       (cs_category (sg_item g)) mode [] (fst (contract_catalogue inp (av_config st)))"
    "\<exists>s \<in> set (ct_services input). cs_category (sg_item g) = trim_space (cs_category s) \<and>
       cs_batch (sg_item g) = trim_space (cs_batch s)"
proof -
  let ?plan = "contract_plan inp input (av_config st)"
  obtain cats config where cats: "contract_catalogue inp (av_config st) = (cats, config)"
    by (cases "contract_catalogue inp (av_config st)")
  from c cats obtain groups event where
    g: "groupContractServicesByPlan ?plan (pj_customer (new_project inp input 0))
          (pj_contract (new_project inp input 0)) (ct_services input) cats = Inr groups"
    and p: "project = new_project inp input (length (contract_items inp (pj_id (new_project inp input 0)) ?plan groups))"
    and r: "Repo_ActivateContract (ax_env inp) project
          (contract_items inp (pj_id (new_project inp input 0)) ?plan groups) event (st\<lparr>av_config := config\<rparr>) = Inr st'"
    by (auto simp: create_project_def Let_def res_simps)
  from r have "st_items (av_store st') = st_items (av_store st) @
      map (activated_row project) (contract_items inp (pj_id (new_project inp input 0)) ?plan groups)"
    by (rule Repo_ActivateContractE) (auto dest: insert_activated_rows simp: record_frame_fields)
  with i new obtain index h where h: "h \<in> set groups"
      "i = activated_row project (contract_item inp (pj_id (new_project inp input 0)) ?plan index h)"
    by (auto simp: contract_items_def dest: set_zip_rightD)
  moreover have "pj_id (new_project inp input 0) = pj_id project"
    by (simp add: p new_project_def Let_def)
  moreover obtain mode s where "sg_outcome h = resolveSplitOutcome ?plan (cs_category (sg_item h)) mode [] cats"
    "s \<in> set (ct_services input)" "cs_category (sg_item h) = trim_space (cs_category s)"
    "cs_batch (sg_item h) = trim_space (cs_batch s)"
    by (rule group_outcome [OF g h(1)])
  ultimately show thesis using cats by (intro that [of index h mode]) auto
qed

section \<open>Properties\<close>

text \<open>
  C4. One project per contract: start without projects and let activations of the contract system and
  of users, for any tenants and in any order, interleave with all transactions of the delivery. Then
  two projects of one tenant that share an identity of a contract (the identifier or the number of
  one is, for the collation of the database, the identifier or the number of the other) are the
  same project; and the table of guards has, for every identity of a project, a row that names
  that project.
\<close>

theorem one_project_per_contract:
  assumes start: "st_projects (av_store start) = []" "av_guards start = []"
    and calls: "\<forall>c \<in> set calls. same_collation env c"
    and st: "st = run_all act_step calls start"
    and p: "p \<in> set (st_projects (av_store st))" and q: "q \<in> set (st_projects (av_store st))"
    and same: "pj_tenant p = pj_tenant q" "v \<in> set (identities p)" "w \<in> set (identities q)"
      "sql_eq env v w"
  shows "p = q \<and> (\<exists>g \<in> set (av_guards st). guard_key env (pj_tenant p) v g \<and> gd_project g = pj_id p)"
proof -
  have "owned env start" using start by (simp add: owned_def guards_distinct_def idents_def)
  then have own: "owned env st" unfolding st by (rule activations.run_inv [OF _ calls])
  have v: "claimed env (av_guards st) (pj_tenant p) v (pj_id p)"
    using own p same(2) by (auto simp: owned_def idents_def ident_def identities_def)
  moreover have "claimed env (av_guards st) (pj_tenant p) w (pj_id q)"
    using own q same(1,3) by (auto simp: owned_def idents_def ident_def identities_def)
  moreover have "guards_distinct env (av_guards st)" using own by (simp add: owned_def)
  ultimately have ids: "pj_id p = pj_id q" using v claimed_unique same(4) by blast
  have "distinct (map pj_id (st_projects (av_store st)))"
    using own by (simp add: owned_def idents_def ident_def comp_def)
  with ids p q have "p = q" by (auto simp: distinct_map inj_on_def)
  with v show ?thesis by (simp add: claimed_def)
qed

definition sample_input :: activation_input where
  "sample_input =
     \<lparr>ax_env = sample_env, ax_tenant = ''T1'', ax_user = ''u'', ax_scope = Some (\<lambda>_. True),
      ax_own_scope = True, ax_owner_org = [], ax_owner_identity = ''u'', ax_site = (\<lambda>_. None),
      ax_contract = (\<lambda>i. Some \<lparr>ac_origin_kind = [], ac_import_mode = [], ac_origin_item = [], ac_id = i,
          ac_number = ''N-1'', ac_title = ''Test'', ac_customer_id = ''K'', ac_customer_name = ''ACME'',
          ac_version = 3, ac_status = ''approved'', ac_approval = True\<rparr>),
      ax_catalog = (\<lambda>i. Some \<lparr>ca_contract = i, ca_version = 3,
          ca_items = [\<lparr>as_source = ''L1'', as_name = ''scan'', as_site = ''here'', as_batch = ''b1'',
             as_category = ''scan'', as_system = [], as_system_level = [], as_requirement = [],
             as_test_mode = ''standard''\<rparr>]\<rparr>),
      ax_project_ulid = ''01ABCDEFGHJKMNPQRSTVWXYZ01'', ax_event_ulid = ''E1'', ax_notice_ulid = ''N1''\<rparr>"

definition sample_activation :: contract_activation where
  "sample_activation =
     \<lparr>ct_origin_kind = [], ct_import_mode = [], ct_origin_item = [], ct_id = ''C-1'', ct_number = ''N-1'',
      ct_version = ''3'', ct_name = [], ct_customer = ''ACME'', ct_customer_id = [],
      ct_effective = Some ''2026-01-01T00:00:00Z'', ct_stamped = False,
      ct_services = [sample_line ''L1'' ''b1'']\<rparr>"

definition sample_config :: split_store where
  "sample_config = no_config\<lparr>ss_categories := [\<lparr>dc_tenant = ''T1'', dc_id = 1, dc_category = ''audit'',
     dc_standard = [], dc_qualifications = [], dc_codes = [], dc_special = SpecialMethodNo,
     dc_enabled = True, dc_count = 0\<rparr>], ss_next := 2\<rparr>"

lemma sample_config_ok: "config_ok sample_env sample_config"
proof -
  have "SplitCapabilityCodes [] = category_codes c" if "dc_codes c = []" for c
    using that by (simp add: category_codes_def SplitCapabilityCodes_def normalizeCapabilityCodes_def uniq_def)
  moreover have "\<not> blank ''audit''" by code_simp
  ultimately show ?thesis
    by (simp add: config_ok_def sample_config_def no_config_def category_wf_def special_method_def)
qed

definition no_activations :: activation_state where
  "no_activations = \<lparr>av_store = empty_store, av_guards = [], av_config = sample_config\<rparr>"

text \<open>The run of the creation on the sample, evaluated once for the witnesses.\<close>

definition activated_sample :: "project_row \<times> activation_state" where
  "activated_sample = projr (create_project sample_input sample_activation no_activations)"

definition activated_item :: service_item where
  "activated_item = hd (st_items (av_store (snd activated_sample)))"

lemma activation_run:
  "case create_project sample_input sample_activation no_activations of
     Inr x \<Rightarrow> (case st_items (av_store (snd x)) of [i] \<Rightarrow> it_category i = ''scan'' | _ \<Rightarrow> False) \<and>
              (case st_projects (av_store (snd x)) of [p] \<Rightarrow> identities p = [''C-1'', ''N-1''] | _ \<Rightarrow> False)
   | Inl _ \<Rightarrow> False"
  by code_simp

lemma activation_sample:
  shows "create_project sample_input sample_activation no_activations =
      Inr (fst activated_sample, snd activated_sample)"
    and "st_items (av_store (snd activated_sample)) = [activated_item]" and "it_category activated_item = ''scan''"
    and "\<exists>p. st_projects (av_store (snd activated_sample)) = [p] \<and> identities p = [''C-1'', ''N-1'']"
  using activation_run unfolding activated_item_def activated_sample_def
  by (auto split: sum.splits list.splits)

lemma sample_delivered:
  "act_step (Delivered sample_input sample_activation) no_activations = Inr (snd activated_sample)"
proof -
  have "normal_origin (ct_origin_kind sample_activation) (ct_import_mode sample_activation)
      (ct_origin_item sample_activation)"
    and "resolve_sites sample_input (ct_services sample_activation) = Inr (ct_services sample_activation)"
    and "\<not> blank (ct_id sample_activation)" and "\<not> blank (ct_version sample_activation)"
    and "\<not> blank (ct_customer sample_activation)" and "\<not> blank (ct_number sample_activation)"
    and "trim_space ''C-1'' = ''C-1''" and "trim_space ''N-1'' = ''N-1''"
    by code_simp+
  moreover have "ax_scope sample_input = Some (\<lambda>_. True)" "ax_own_scope sample_input"
      "ct_effective sample_activation \<noteq> None" "ct_services sample_activation \<noteq> []"
      "sample_activation\<lparr>ct_services := ct_services sample_activation\<rparr> = sample_activation"
    by (simp_all add: sample_input_def sample_activation_def)
  moreover have "FindProjectByContract e t scope i n (av_store no_activations) = Inl ErrNotFound" for e t scope i n
    by (simp add: FindProjectByContract_def oldest_project_def no_activations_def empty_store_def Let_def)
  ultimately show ?thesis
    by (simp add: ActivateContract_def activateContract_def resolve_number_def activate_resolved_def
        activation_sample(1))
qed

text \<open>The contract is delivered, then a user tries to activate it without naming it.\<close>

definition two_activations :: "activation_call list" where
  "two_activations = [Delivered sample_input sample_activation, ByUser sample_input (sample_activation\<lparr>ct_id := []\<rparr>)]"

definition activated_projects :: "project_row list" where
  "activated_projects = st_projects (av_store (run_all act_step two_activations no_activations))"

theorem one_project_witness:
  "length activated_projects = 1 \<and> hd activated_projects = last activated_projects \<and>
   (\<exists>g \<in> set (av_guards (run_all act_step two_activations no_activations)).
      gd_project g = pj_id (hd activated_projects))"
proof -
  have "run_all act_step two_activations no_activations = snd activated_sample"
    by (simp add: two_activations_def sample_delivered del: act_step.simps(1))
      (simp add: ActivateContractFromUser_def authoritative_activation_def)
  then obtain p where p: "activated_projects = [p]" and v: "identities p = [''C-1'', ''N-1'']"
    using activation_sample(4) by (auto simp: activated_projects_def)
  have 1: "length activated_projects = 1" and last: "last activated_projects = hd activated_projects"
    and v: "''N-1'' \<in> set (identities (hd activated_projects))"
    unfolding p by (simp_all add: v)
  have "hd activated_projects = last activated_projects \<and>
      (\<exists>g \<in> set (av_guards (run_all act_step two_activations no_activations)).
         guard_key sample_env (pj_tenant (hd activated_projects)) ''N-1'' g \<and>
         gd_project g = pj_id (hd activated_projects))"
  proof (rule one_project_per_contract [of no_activations two_activations sample_env])
    show "st_projects (av_store no_activations) = []" "av_guards no_activations = []"
      by (simp_all add: no_activations_def empty_store_def)
    show "\<forall>c \<in> set two_activations. same_collation sample_env c"
      by (simp add: two_activations_def sample_input_def)
    show "hd activated_projects \<in> set (st_projects (av_store (run_all act_step two_activations no_activations)))"
        "last activated_projects \<in> set (st_projects (av_store (run_all act_step two_activations no_activations)))"
      unfolding activated_projects_def [symmetric] p by simp_all
    show "pj_tenant (hd activated_projects) = pj_tenant (last activated_projects)" by (simp only: last)
    show "''N-1'' \<in> set (identities (hd activated_projects))" by (rule v)
    then show "''N-1'' \<in> set (identities (last activated_projects))" by (simp only: last)
    show "sql_eq sample_env ''N-1'' ''N-1''" by (rule sql_eq_refl)
  qed (rule refl)
  with 1 show ?thesis by blast
qed

section \<open>The contract system decides\<close>

lemma catalog_index_items:
  "catalog_index byID items = Inr byID' \<Longrightarrow> byID' k = Some a \<Longrightarrow>
   byID k = Some a \<or> (\<exists>i \<in> set items. as_category a = as_category i \<and> as_batch a = as_batch i)"
proof (induction byID items arbitrary: byID' rule: catalog_index.induct)
  case (2 byID item items)
  let ?k = "trim_space (as_source item)"
  from 2(2) have new: "\<not> (?k = [] \<or> byID ?k \<noteq> None)"
    and rest: "catalog_index (byID(?k \<mapsto> item\<lparr>as_source := ?k\<rparr>)) items = Inr byID'"
    by (auto simp: Let_def split: if_splits)
  from 2(1) [OF refl new rest 2(3)] show ?case by (auto split: if_splits)
qed simp

lemma approved_selection_lines:
  "approved_selection byID seen xs = Inr ss \<Longrightarrow> s \<in> set ss \<Longrightarrow>
   \<exists>k a. byID k = Some a \<and> cs_category s = trim_space (as_category a) \<and> cs_batch s = trim_space (as_batch a)"
proof (induction xs arbitrary: seen ss)
  case (Cons selection requested)
  from Cons.prems(1) obtain a rest site mode where a: "byID (trim_space (cs_source selection)) = Some a"
    and r: "approved_selection byID (trim_space (cs_source selection) # seen) requested = Inr rest"
    and ss: "ss = approved_line a site mode # rest"
    by (auto simp: Let_def res_simps split: option.splits if_splits)
  show ?case
  proof (cases "s = approved_line a site mode")
    case True
    with a show ?thesis by (auto simp: approved_line_def)
  next
    case False
    with Cons.prems(2) ss Cons.IH [OF r] show ?thesis by simp
  qed
qed simp

lemma approved_lines:
  assumes "approvedContractServices requested catalog = Inr ss" and "s \<in> set ss"
  shows "\<exists>a \<in> set catalog. cs_category s = trim_space (as_category a) \<and> cs_batch s = trim_space (as_batch a)"
proof -
  from assms obtain byID where b: "catalog_index Map.empty catalog = Inr byID"
    and "approved_selection byID [] requested = Inr ss"
    by (auto simp: approvedContractServices_def res_simps)
  from approved_selection_lines [OF this(2) assms(2)] catalog_index_items [OF b] show ?thesis by fastforce
qed

lemma resolved_lines:
  "resolve_sites inp ss = Inr ts \<Longrightarrow> t \<in> set ts \<Longrightarrow>
   \<exists>s \<in> set ss. cs_category t = cs_category s \<and> cs_batch t = cs_batch s"
proof (induction ss arbitrary: ts)
  case (Cons s ss)
  then obtain u us where u: "resolveActiveSite inp s = Inr u" "resolve_sites inp ss = Inr us" "ts = u # us"
    by (auto simp: res_simps)
  have "cs_category u = cs_category s \<and> cs_batch u = cs_batch s"
    using u(1) by (auto simp: resolveActiveSite_def Let_def split: if_splits option.splits)
  with Cons.IH [OF u(2)] Cons.prems(2) u(3) show ?case by auto
qed simp

text \<open>What the contract system has to say for a user's activation to go on.\<close>

definition contract_approves :: "activation_input \<Rightarrow> contract_activation \<Rightarrow> approved_contract \<Rightarrow> service_catalog \<Rightarrow> bool" where
  "contract_approves inp input c catalog \<longleftrightarrow>
     ax_contract inp (trim_space (ct_id input)) = Some c \<and>
     trim_space (ac_id c) = trim_space (ct_id input) \<and> ac_approval c \<and>
     contractApprovedStatus (ac_status c) \<and> NormalProjectContract c \<and>
     (blank (ct_version input) \<or> trim_space (ct_version input) = show_nat (ac_version c)) \<and>
     ax_catalog inp (trim_space (ct_id input)) = Some catalog \<and>
     trim_space (ca_contract catalog) = trim_space (ct_id input) \<and> ca_version catalog = ac_version c"

lemma authoritativeE:
  assumes "authoritative_activation inp input = Inr input'"
  obtains c catalog services where "contract_approves inp input c catalog"
    "\<not> blank (ac_number c)" "\<not> blank (ac_customer_name c)"
    "approvedContractServices (ct_services input) (ca_items catalog) = Inr services"
    "input' = input\<lparr>ct_id := trim_space (ct_id input), ct_number := trim_space (ac_number c),
        ct_version := show_nat (ac_version c), ct_name := trim_space (ac_title c),
        ct_customer := trim_space (ac_customer_name c), ct_customer_id := trim_space (ac_customer_id c),
        ct_origin_kind := ac_origin_kind c, ct_import_mode := ac_import_mode c,
        ct_origin_item := ac_origin_item c, ct_services := services\<rparr>"
  using assms unfolding authoritative_activation_def Let_def contract_approves_def
  by (auto simp: res_simps split: option.splits if_splits)

lemma oldest_project_mem: "oldest_project P s = Some p \<Longrightarrow> p \<in> set (st_projects s) \<and> P p"
proof -
  let ?f = "\<lambda>p best. case best of None \<Rightarrow> Some p | Some b \<Rightarrow> if older_project p b then Some p else best"
  have "fold ?f ps best = Some p \<Longrightarrow> p \<in> set ps \<or> best = Some p" for ps best
    by (induction ps arbitrary: best) (force split: option.splits if_splits)+
  from this [of "filter P (st_projects s)" None] show "oldest_project P s = Some p \<Longrightarrow> ?thesis"
    by (auto simp: oldest_project_def)
qed

lemma FindProjectByContract_mem:
  "FindProjectByContract env tenant scope i number s = Inr p \<Longrightarrow> p \<in> set (st_projects s)"
  by (auto simp: FindProjectByContract_def Let_def dest: oldest_project_mem split: option.splits if_splits)

lemma numbered_activationE:
  assumes "activateContract inp input st = Inr (p, st')" and "\<not> blank (ct_number input)"
  obtains (created) services where "resolve_sites inp (ct_services input) = Inr services"
      "\<not> blank (ct_customer input)" "create_project inp (input\<lparr>ct_services := services\<rparr>) st = Inr (p, st')"
  | (existing) services existing config where "existing \<in> set (st_projects (av_store st))"
      "existing_contract inp False (input\<lparr>ct_services := services\<rparr>) existing (st\<lparr>av_config := config\<rparr>) = Inr (p, st')"
proof -
  from assms obtain scope services where r: "resolve_sites inp (ct_services input) = Inr services"
    and c: "\<not> blank (ct_customer input)"
    and a: "activate_resolved inp scope False (input\<lparr>ct_services := services\<rparr>) st = Inr (p, st')"
    by (auto simp: activateContract_def resolve_number_def res_simps split: option.splits if_splits)
  from a show thesis
    using created [OF r c] existing [of _ services "av_config st"] existing
    by (auto simp: activate_resolved_def res_simps dest: FindProjectByContract_mem split: sum.splits if_splits)
qed

lemma trim_show_nat [simp]: "trim_space (show_nat n) = show_nat n"
  by (rule trim_space_visible)
    (simp_all add: digit_visible [THEN conjunct1] set_show_nat [OF hd_in_set] set_show_nat [OF last_in_set] del: not_None_eq)

text \<open>The row of a project an activation creates, and where its items come from.\<close>

lemma created_project:
  assumes c: "create_project inp input st = Inr (p, st')" and n: "\<not> blank (ct_number input)"
  shows "p \<notin> set (st_projects (av_store st))" and "p \<in> set (st_projects (av_store st'))"
    and "pj_contract p = trim_space (ct_number input)" "pj_contract_id p = trim_space (ct_id input)"
      "pj_contract_version p = trim_space (ct_version input)" "pj_customer p = trim_space (ct_customer input)"
      "pj_customer_id p = trim_space (ct_customer_id input)"
      "pj_name p = (if blank (ct_name input) then trim_space (ct_number input) else trim_space (ct_name input))"
    and "i \<in> set (st_items (av_store st')) \<Longrightarrow> i \<notin> set (st_items (av_store st)) \<Longrightarrow>
      it_project i = pj_id p \<and> (\<exists>s \<in> set (ct_services input).
        it_category i = trim_space (cs_category s) \<and> it_batch i = trim_space (cs_batch s))"
proof -
  from c obtain items event config k where p: "p = new_project inp input k"
    and r: "Repo_ActivateContract (ax_env inp) p items event (st\<lparr>av_config := config\<rparr>) = Inr st'"
    by (auto simp: create_project_def Let_def res_simps split: prod.splits)
  from r show "p \<notin> set (st_projects (av_store st))" "p \<in> set (st_projects (av_store st'))"
    by (rule Repo_ActivateContractE; force simp: record_frame_fields project_duplicate_def list_ex_iff)+
  show "pj_contract p = trim_space (ct_number input)" "pj_contract_id p = trim_space (ct_id input)"
      "pj_contract_version p = trim_space (ct_version input)" "pj_customer p = trim_space (ct_customer input)"
      "pj_customer_id p = trim_space (ct_customer_id input)"
      "pj_name p = (if blank (ct_name input) then trim_space (ct_number input) else trim_space (ct_name input))"
    using n by (simp_all add: p new_project_def Let_def firstNonEmpty_def)
  assume "i \<in> set (st_items (av_store st'))" "i \<notin> set (st_items (av_store st))"
  then show "it_project i = pj_id p \<and> (\<exists>s \<in> set (ct_services input).
        it_category i = trim_space (cs_category s) \<and> it_batch i = trim_space (cs_batch s))"
    by (rule created_items [OF c]) (auto simp: activated_row_def contract_item_def Let_def)
qed

text \<open>What the outcome has to do with what the contract system says.\<close>

definition project_of_contract ::
  "approved_contract \<Rightarrow> service_catalog \<Rightarrow> string \<Rightarrow> project_row \<Rightarrow> activation_state \<Rightarrow> activation_state \<Rightarrow> bool" where
  "project_of_contract c catalog i p st st' \<longleftrightarrow>
     pj_contract_id p = i \<and> pj_contract p = trim_space (ac_number c) \<and>
     pj_contract_version p = show_nat (ac_version c) \<and>
     pj_name p = (if blank (ac_title c) then trim_space (ac_number c) else trim_space (ac_title c)) \<and>
     pj_customer p = trim_space (ac_customer_name c) \<and> pj_customer p \<noteq> [] \<and>
     pj_customer_id p = trim_space (ac_customer_id c) \<and>
     (\<forall>j \<in> set (st_items (av_store st')). j \<notin> set (st_items (av_store st)) \<longrightarrow>
        it_project j = pj_id p \<and> (\<exists>a \<in> set (ca_items catalog).
          it_category j = trim_space (as_category a) \<and> it_batch j = trim_space (as_batch a)))"

lemma user_activation_outcome:
  assumes "ActivateContractFromUser inp input st = Inr (p, st')"
  obtains c catalog where "contract_approves inp input c catalog"
    "p \<notin> set (st_projects (av_store st)) \<and> p \<in> set (st_projects (av_store st')) \<and>
       project_of_contract c catalog (trim_space (ct_id input)) p st st' \<or>
     p \<in> set (st_projects (av_store st)) \<and> st_items (av_store st') = st_items (av_store st) \<and>
       (pj_contract_id p = trim_space (ct_id input) \<or> pj_contract p = trim_space (ac_number c))"
proof -
  from assms obtain input' where "authoritative_activation inp input = Inr input'"
    and a: "activateContract inp input' st = Inr (p, st')"
    by (auto simp: ActivateContractFromUser_def res_simps)
  from authoritativeE [OF this(1)] obtain c catalog services where ok: "contract_approves inp input c catalog"
    and n: "\<not> blank (ac_number c)" "\<not> blank (ac_customer_name c)"
    and l: "approvedContractServices (ct_services input) (ca_items catalog) = Inr services"
    and input': "input' = input\<lparr>ct_id := trim_space (ct_id input), ct_number := trim_space (ac_number c),
        ct_version := show_nat (ac_version c), ct_name := trim_space (ac_title c),
        ct_customer := trim_space (ac_customer_name c), ct_customer_id := trim_space (ac_customer_id c),
        ct_origin_kind := ac_origin_kind c, ct_import_mode := ac_import_mode c,
        ct_origin_item := ac_origin_item c, ct_services := services\<rparr>" by blast
  have num: "\<not> blank (ct_number input')" using n by (simp add: input')
  from a num show thesis
  proof (cases rule: numbered_activationE)
    case (created ss)
    have num': "\<not> blank (ct_number (input'\<lparr>ct_services := ss\<rparr>))" using num by simp
    have origin: "\<exists>a \<in> set (ca_items catalog). trim_space (cs_category t) = trim_space (as_category a) \<and>
        trim_space (cs_batch t) = trim_space (as_batch a)" if "t \<in> set ss" for t
      using resolved_lines [OF created(1) that] approved_lines [OF l] by (force simp: input')
    note row = created_project(3-8) [OF created(3) num']
    have "it_project j = pj_id p \<and> (\<exists>a \<in> set (ca_items catalog).
          it_category j = trim_space (as_category a) \<and> it_batch j = trim_space (as_batch a))"
      if "j \<in> set (st_items (av_store st'))" "j \<notin> set (st_items (av_store st))" for j
      using created_project(9) [OF created(3) num' that] origin by force
    with row n have "project_of_contract c catalog (trim_space (ct_id input)) p st st'"
      unfolding project_of_contract_def by (simp add: input')
    with created_project(1,2) [OF created(3) num'] ok that show ?thesis by blast
  next
    case (existing ss q config)
    note f = existing_contract_frame [OF existing(2)]
    have "pj_contract_id p = trim_space (ct_id input) \<or> pj_contract p = trim_space (ac_number c)"
      using existing(2) f(1) by (auto simp: existing_contract_def input' split: if_splits)
    with f(1) existing(1) record_frame_fields [OF f(4)] ok that show ?thesis by auto
  qed
qed

text \<open>
  C5. The contract system is the only source of a user's activation. Whatever the request says of
  the number, the name, the customer and the origin of the contract, and of its lines besides the
  identifier of the line and the site, the outcome is the same. And when the activation succeeds,
  the contract system has the contract under that identifier, approved and of the normal origin, at
  the version the request names if it names one, with a catalogue of that version. A project that
  is new then carries the contract's identifier, number, version, title and customer, which is not
  empty, and each of its items the category and batch of a line of the catalogue; otherwise a
  project that has the contract's identifier or number was there before, and no item is touched.
\<close>

theorem user_cannot_forge_the_contract:
  assumes lines: "map (\<lambda>s. (cs_source s, cs_site s)) services =
      map (\<lambda>s. (cs_source s, cs_site s)) (ct_services input)"
  shows "ActivateContractFromUser inp
      (input\<lparr>ct_number := a, ct_name := b, ct_customer := c, ct_customer_id := d, ct_origin_kind := e,
             ct_import_mode := f, ct_origin_item := g, ct_services := services\<rparr>) st =
    ActivateContractFromUser inp input st \<and>
    (\<forall>p st'. ActivateContractFromUser inp input st = Inr (p, st') \<longrightarrow>
      (\<exists>contract catalog. contract_approves inp input contract catalog \<and>
        (p \<notin> set (st_projects (av_store st)) \<and> p \<in> set (st_projects (av_store st')) \<and>
           project_of_contract contract catalog (trim_space (ct_id input)) p st st' \<or>
         p \<in> set (st_projects (av_store st)) \<and> st_items (av_store st') = st_items (av_store st) \<and>
           (pj_contract_id p = trim_space (ct_id input) \<or> pj_contract p = trim_space (ac_number contract)))))"
proof
  have sel: "approved_selection byID seen xs = approved_selection byID seen ys"
    if "map (\<lambda>s. (cs_source s, cs_site s)) xs = map (\<lambda>s. (cs_source s, cs_site s)) ys" for byID seen xs ys
    using that
  proof (induction xs arbitrary: ys seen)
    case (Cons x xs)
    then obtain y ys' where ys: "ys = y # ys'" "cs_source x = cs_source y" "cs_site x = cs_site y"
        "map (\<lambda>s. (cs_source s, cs_site s)) xs = map (\<lambda>s. (cs_source s, cs_site s)) ys'"
      by (cases ys) auto
    note ih = Cons.IH [OF ys(4)]
    show ?case by (simp add: ys(1,2,3) ih Let_def cong: option.case_cong if_cong)
  qed simp
  have "services = [] \<longleftrightarrow> ct_services input = []" using lines by (metis Nil_is_map_conv)
  then show "ActivateContractFromUser inp
      (input\<lparr>ct_number := a, ct_name := b, ct_customer := c, ct_customer_id := d, ct_origin_kind := e,
             ct_import_mode := f, ct_origin_item := g, ct_services := services\<rparr>) st =
    ActivateContractFromUser inp input st"
    unfolding ActivateContractFromUser_def authoritative_activation_def approvedContractServices_def
    by (simp add: Let_def sel [OF lines] cong: if_cong option.case_cong)
qed (use user_activation_outcome in blast)

text \<open>A user activates the contract of the sample, with a forged customer.\<close>

definition users_activation :: "project_row \<times> activation_state" where
  "users_activation = projr (ActivateContractFromUser sample_input sample_activation no_activations)"

theorem user_cannot_forge_witness:
  "ActivateContractFromUser sample_input (sample_activation\<lparr>ct_number := ''X'', ct_name := ''Y'',
      ct_customer := ''Z'', ct_customer_id := ''W'', ct_origin_kind := [], ct_import_mode := [],
      ct_origin_item := [], ct_services := [(sample_line ''L1'' ''b9'')\<lparr>cs_category := ''other''\<rparr>]\<rparr>)
      no_activations = Inr users_activation \<and>
   pj_contract (fst users_activation) = ''N-1'' \<and> pj_customer (fst users_activation) = ''ACME''"
proof -
  have "\<not> isl (ActivateContractFromUser sample_input sample_activation no_activations)" by code_simp
  then have ok: "ActivateContractFromUser sample_input sample_activation no_activations =
      Inr (fst users_activation, snd users_activation)"
    by (cases "ActivateContractFromUser sample_input sample_activation no_activations")
      (simp_all add: users_activation_def)
  have lines: "map (\<lambda>s. (cs_source s, cs_site s)) [(sample_line ''L1'' ''b9'')\<lparr>cs_category := ''other''\<rparr>] =
      map (\<lambda>s. (cs_source s, cs_site s)) (ct_services sample_activation)"
    by (simp add: sample_activation_def sample_line_def)
  note t = user_cannot_forge_the_contract [OF lines, where inp = sample_input and a = "''X''" and b = "''Y''" and c = "''Z''"
      and d = "''W''" and e = "[]" and f = "[]" and g = "[]" and st = no_activations]
  have none: "st_projects (av_store no_activations) = []" by (simp add: no_activations_def empty_store_def)
  from t [THEN conjunct2, rule_format, OF ok] obtain contract catalog where c: "contract_approves sample_input sample_activation contract catalog"
    and p: "project_of_contract contract catalog (trim_space (ct_id sample_activation)) (fst users_activation)
      no_activations (snd users_activation)"
    unfolding none by auto
  have "trim_space ''N-1'' = ''N-1''" "trim_space ''ACME'' = ''ACME''" by code_simp+
  then have "trim_space (ac_number contract) = ''N-1''" "trim_space (ac_customer_name contract) = ''ACME''"
    using c by (auto simp: contract_approves_def sample_input_def)
  with p t [THEN conjunct1] ok show ?thesis by (simp add: project_of_contract_def)
qed

lemma new_item_rules:
  assumes c: "create_project inp input st = Inr (project, st')"
    and conf: "config_ok env (av_config st)"
    and i: "i \<in> set (st_items (av_store st'))" and new: "i \<notin> set (st_items (av_store st))"
    and plan: "plan = contract_plan inp input (av_config st)"
    and entry: "entry = fst (contract_catalogue inp (av_config st)) (splitCategoryKey (it_category i))"
  shows "it_project i = pj_id project" and "initial_status (it_status i)"
    and "entry = None \<Longrightarrow> pol_missing plan = SplitMissingHumanConfirm \<Longrightarrow>
      it_status i = ServiceItemStatusPendingConfirm"
    and "\<not> pol_enabled (GetSplitPolicy (av_config st) (ax_tenant inp)) \<Longrightarrow>
      it_status i = ServiceItemStatusPendingConfirm"
    and "entry = Some e \<Longrightarrow> dc_special e = SpecialMethodRequired \<Longrightarrow>
      it_test_mode i = ''PENETRATION'' \<and> it_special i = yes"
    and "it_special i = yes \<Longrightarrow> it_status i = ServiceItemStatusPendingAssign \<Longrightarrow>
      it_tech_status i = ''PENDING''"
proof -
  from created_items [OF c i new] obtain index g mode where
    row: "i = activated_row project (contract_item inp (pj_id project) plan index g)"
    and out: "sg_outcome g = resolveSplitOutcome plan (cs_category (sg_item g)) mode []
       (fst (contract_catalogue inp (av_config st)))"
    unfolding plan by blast
  have f: "it_category i = cs_category (sg_item g)" "it_status i = oc_status (sg_outcome g)"
      "it_test_mode i = oc_test_mode (sg_outcome g)" "it_special i = oc_special (sg_outcome g)"
      "it_project i = pj_id project"
      "it_tech_status i = (if oc_special (sg_outcome g) = yes \<and>
         oc_status (sg_outcome g) = ServiceItemStatusPendingAssign then ''PENDING'' else [])"
    unfolding row by (simp_all add: activated_row_def contract_item_def Let_def)
  note out = out [folded f(1), folded entry]
  have init: "initial_status (pol_status plan)"
    unfolding plan contract_plan_def Let_def by (rule plan_status_initial [OF conf])
  show "it_project i = pj_id project" by (rule f)
  show "it_status i = ServiceItemStatusPendingConfirm" if "entry = None" "pol_missing plan = SplitMissingHumanConfirm"
    using that out entry f by (simp add: resolveSplitOutcome_def Let_def)
  show "initial_status (it_status i)"
    using init out f
    by (auto simp: resolveSplitOutcome_def Let_def initial_status_def split: option.splits)
  show "it_status i = ServiceItemStatusPendingConfirm"
    if "\<not> pol_enabled (GetSplitPolicy (av_config st) (ax_tenant inp))"
  proof -
    have "pol_status plan = ServiceItemStatusPendingConfirm"
      using that by (simp add: plan contract_plan_def Let_def resolveSplitPlan_def DefaultSplitPolicy_def)
    then show ?thesis using out f by (simp add: resolveSplitOutcome_def Let_def split: option.splits)
  qed
  show "it_test_mode i = ''PENETRATION'' \<and> it_special i = yes"
    if "entry = Some e" "dc_special e = SpecialMethodRequired"
    using that out entry f by (simp add: resolveSplitOutcome_def Let_def yesNo_def)
  show "it_tech_status i = ''PENDING''" if "it_special i = yes" "it_status i = ServiceItemStatusPendingAssign"
    using that f by simp
qed

text \<open>
  C6. Where the items of a new project start. Under a well-formed configuration the status is
  awaiting confirmation or awaiting allocation; an item of a category the catalogue does not have
  awaits the confirmation of a person whenever the plan asks for that; an item whose category
  requires the special method is a penetration test; and a special item that skips the confirmation
  is in the window of the technical review from the start.
\<close>

theorem new_items_start_by_the_rules:
  assumes "create_project inp input st = Inr (project, st')" and "config_ok env (av_config st)"
    and "i \<in> set (st_items (av_store st'))" and "i \<notin> set (st_items (av_store st))"
    and "plan = contract_plan inp input (av_config st)"
    and "entry = fst (contract_catalogue inp (av_config st)) (splitCategoryKey (it_category i))"
  shows "it_project i = pj_id project \<and> initial_status (it_status i) \<and>
    (entry = None \<longrightarrow> pol_missing plan = SplitMissingHumanConfirm \<longrightarrow>
      it_status i = ServiceItemStatusPendingConfirm) \<and>
    (\<not> pol_enabled (GetSplitPolicy (av_config st) (ax_tenant inp)) \<longrightarrow>
      it_status i = ServiceItemStatusPendingConfirm) \<and>
    (\<forall>e. entry = Some e \<longrightarrow> dc_special e = SpecialMethodRequired \<longrightarrow>
      it_test_mode i = ''PENETRATION'' \<and> it_special i = yes) \<and>
    (it_special i = yes \<longrightarrow> it_status i = ServiceItemStatusPendingAssign \<longrightarrow>
      it_tech_status i = ''PENDING'')"
  using new_item_rules [OF assms] by blast

theorem new_items_witness:
  "it_status activated_item = ServiceItemStatusPendingConfirm"
proof (rule new_items_start_by_the_rules [OF activation_sample(1) _ _ _ refl refl,
      THEN conjunct2, THEN conjunct2, THEN conjunct1, rule_format])
  show "config_ok sample_env (av_config no_activations)"
    using sample_config_ok by (simp add: no_activations_def)
  show "activated_item \<in> set (st_items (av_store (snd activated_sample)))"
    by (simp add: activation_sample(2))
  show "activated_item \<notin> set (st_items (av_store no_activations))"
    by (simp add: no_activations_def empty_store_def)
  have "fst (contract_catalogue sample_input (av_config no_activations)) (splitCategoryKey ''scan'') = None"
    by code_simp
  then show "fst (contract_catalogue sample_input (av_config no_activations))
      (splitCategoryKey (it_category activated_item)) = None"
    by (simp only: activation_sample(3))
  show "pol_missing (contract_plan sample_input sample_activation (av_config no_activations)) =
      SplitMissingHumanConfirm"
    by code_simp
qed

end
