(* ===== verification/Recipients.thy ===== *)
theory Recipients
  imports SplitProps EventRecord
begin

text \<open>
  Resolving the recipients of the notifications of a job, and building its derived events and
  messages (\<open>buildDeliveryEffects\<close> and \<open>deliveryRoleRecipients\<close> of \<open>application/delivery_effects.go\<close>).

  The personnel directory of the platform is a parameter: for a role and a page number it gives the
  page or an error. No page is asked for twice in a run, so a function of the two covers every
  behaviour of the directory, changes between two calls included. The library that parses and
  prints ULIDs is a parameter as well.
\<close>

section \<open>The pages of a role\<close>

record directory_page =
  dp_page :: int
  dp_size :: int
  dp_total :: int
  dp_users :: "string list"

definition assignmentRoleDirectorySize :: nat where
  "assignmentRoleDirectorySize = 50"

type_synonym directory = "string \<Rightarrow> nat \<Rightarrow> directory_page option"

text \<open>
  The users of a page: \<open>roleSeen\<close> are the users of the role so far, \<open>recipients\<close> those of all
  roles so far. An unusable or repeated identifier refuses the page.
\<close>

fun take_users :: "string list \<Rightarrow> string list \<Rightarrow> string list \<Rightarrow> app_error + string list \<times> string list" where
  "take_users roleSeen recipients [] = Inr (roleSeen, recipients)"
| "take_users roleSeen recipients (user # users) =
     (let i = trim_space user in
      if i = [] \<or> 26 < length i then Inl ErrPersonnelUnavailable
      else if List.member roleSeen i then Inl ErrPersonnelUnavailable
      else take_users (i # roleSeen)
             (if List.member recipients i then recipients else recipients @ [i]) users)"

text \<open>\<open>expectedTotal\<close> is negative before the first page; \<open>resolved\<close> counts the users of the role.\<close>

function role_pages ::
  "directory \<Rightarrow> string \<Rightarrow> nat \<Rightarrow> int \<Rightarrow> string list \<Rightarrow> string list \<Rightarrow> app_error + string list \<times> string list"
where
  "role_pages directory role pageNumber expectedTotal roleSeen recipients =
     (if 10000 < pageNumber then Inl ErrPersonnelUnavailable
      else case directory role pageNumber of
        None \<Rightarrow> Inl ErrPersonnelUnavailable
      | Some page \<Rightarrow>
          if dp_page page \<noteq> int pageNumber \<or> dp_size page \<noteq> int assignmentRoleDirectorySize \<or>
             dp_total page < 0 \<or> dp_size page < int (length (dp_users page))
          then Inl ErrPersonnelUnavailable
          else
            let expected = (if expectedTotal < 0 then dp_total page else expectedTotal) in
            if dp_total page \<noteq> expected then Inl ErrPersonnelUnavailable
            else
              (case take_users roleSeen recipients (dp_users page) of
                 Inl e \<Rightarrow> Inl e
               | Inr (roleSeen', recipients') \<Rightarrow>
                   if dp_total page \<le> int pageNumber * dp_size page then
                     (if int (length roleSeen') \<noteq> expected then Inl ErrPersonnelUnavailable
                      else Inr (roleSeen', recipients'))
                   else if dp_users page = [] then Inl ErrPersonnelUnavailable
                   else role_pages directory role (pageNumber + 1) expected roleSeen' recipients'))"
  by pat_completeness auto
termination by (relation "measure (\<lambda>(_, _, pageNumber, _). 10001 - pageNumber)") auto

declare role_pages.simps [simp del]

text \<open>A role nobody holds is refused: \<open>found\<close> is that the role has a user.\<close>

fun roles_recipients :: "directory \<Rightarrow> string list \<Rightarrow> string list \<Rightarrow> app_error + string list" where
  "roles_recipients directory recipients [] = Inr recipients"
| "roles_recipients directory recipients (role # roles) =
     (case role_pages directory role 1 (- 1) [] recipients of
        Inl e \<Rightarrow> Inl e
      | Inr (roleSeen, recipients') \<Rightarrow>
          if roleSeen = [] then Inl ErrPersonnelUnavailable
          else roles_recipients directory recipients' roles)"

definition deliveryRoleRecipients :: "directory \<Rightarrow> string list \<Rightarrow> app_error + string list" where
  "deliveryRoleRecipients directory roles = roles_recipients directory [] (uniq roles)"

section \<open>Events and messages of a job\<close>

definition automation_title :: string where
  "automation_title =
    [CHR 0xE9, CHR 0xA1, CHR 0xB9, CHR 0xE7, CHR 0x9B, CHR 0xAE, CHR 0xE8, CHR 0x87, CHR 0xAA,
     CHR 0xE5, CHR 0x8A, CHR 0xA8, CHR 0xE5, CHR 0x8C, CHR 0x96, CHR 0xE8, CHR 0xA7, CHR 0x84,
     CHR 0xE5, CHR 0x88, CHR 0x99, CHR 0xE8, CHR 0xA7, CHR 0xA6, CHR 0xE5, CHR 0x8F, CHR 0x91]"

definition automation_matched :: string where
  "automation_matched =
    [CHR 0xE8, CHR 0xA7, CHR 0x84, CHR 0xE5, CHR 0x88, CHR 0x99, CHR 0xE5, CHR 0x91, CHR 0xBD,
     CHR 0xE4, CHR 0xB8, CHR 0xAD, CHR 0xE7, CHR 0x9A, CHR 0x84, CHR 0xE4, CHR 0xBA, CHR 0x8B,
     CHR 0xE4, CHR 0xBB, CHR 0xB6, CHR 0xEF, CHR 0xBC, CHR 0x9A]"

definition automation_project :: string where
  "automation_project =
    [CHR 0xE3, CHR 0x80, CHR 0x82, CHR 0xE9, CHR 0xA1, CHR 0xB9, CHR 0xE7, CHR 0x9B, CHR 0xAE,
     CHR 0x20]"

definition automation_item :: string where
  "automation_item =
    [CHR 0xEF, CHR 0xBC, CHR 0x8C, CHR 0xE6, CHR 0x9C, CHR 0x8D, CHR 0xE5, CHR 0x8A, CHR 0xA1,
     CHR 0xE9, CHR 0xA1, CHR 0xB9, CHR 0x20]"

definition automation_stop :: string where
  "automation_stop =
    [CHR 0xE3, CHR 0x80, CHR 0x82]"

definition automation_event :: "effects \<Rightarrow> delivery_event" where
  "automation_event ef =
     (let source = ef_event ef in
      \<lparr>de_id = ef_id ef, de_tenant = de_tenant source, de_project = de_project source,
       de_item = de_item source, de_type = EventAutomationTriggered, de_actor = de_actor source,
       de_payload = [(''trigger'', JStr (event_name (de_type source))), (''targets'', JStrs (ef_targets ef)),
                     (''source_event_id'', JStr (de_id source))],
       de_created_at = de_created_at source + 1000000, de_operation = [], de_captured_at = None,
       de_notification = None, de_role_notification = None\<rparr>)"

definition automation_message :: "effects \<Rightarrow> string list \<Rightarrow> notification" where
  "automation_message ef recipients =
     (let source = ef_event ef in
      \<lparr>nt_event_id = ef_id ef, nt_event_type = event_name EventAutomationTriggered,
       nt_scope = ''CROSS_SYSTEM'', nt_priority = ''NORMAL'', nt_title = automation_title,
       nt_content = automation_matched @ event_name (de_type source) @ automation_project @ de_project source
         @ automation_item @ de_item source @ automation_stop,
       nt_reference_type = (if de_item source = [] then ''project'' else ''service_item''),
       nt_reference_id = (if de_item source = [] then de_project source else de_item source),
       nt_recipients = recipients, nt_occurred_at = de_created_at source,
       nt_key = de_id source @ ''-automation-notification''\<rparr>)"

definition warning_payload :: "warning \<Rightarrow> payload" where
  "warning_payload w =
     [(''conflicts'', JStrs (wn_conflicts w)), (''rules'', JStrs (wn_rules w)),
      (''threshold'', JNum (int (wn_threshold w)))]"

definition warning_event :: "effects \<Rightarrow> string \<Rightarrow> warning \<Rightarrow> delivery_event" where
  "warning_event ef i w =
     (let source = ef_event ef in
      \<lparr>de_id = i, de_tenant = de_tenant source, de_project = de_project source,
       de_item = de_item source, de_type = EventWarningTriggered, de_actor = de_actor source,
       de_payload = warning_payload w, de_created_at = de_created_at source + 2000000,
       de_operation = [], de_captured_at = None, de_notification = None, de_role_notification = None\<rparr>)"

text \<open>The platform takes at most 500 recipients at a time.\<close>

function message_parts :: "notification \<Rightarrow> nat \<Rightarrow> string list \<Rightarrow> notification list" where
  "message_parts message n recipients =
     (if recipients = [] then []
      else message\<lparr>nt_recipients := take 500 recipients,
             nt_event_id := nt_event_id message @ ''-'' @ show_nat n,
             nt_key := nt_key message @ ''-part-'' @ show_nat n\<rparr>
           # message_parts message (n + 1) (drop 500 recipients))"
  by pat_completeness auto
termination by (relation "measure (\<lambda>(_, _, recipients). length recipients)") auto

declare message_parts.simps [simp del]

definition batch_message :: "notification \<Rightarrow> notification list" where
  "batch_message message =
     (if length (nt_recipients message) \<le> 500 then [message]
      else message_parts message 1 (nt_recipients message))"

definition batch_messages :: "notification list \<Rightarrow> notification list" where
  "batch_messages messages = concat (map batch_message messages)"

text \<open>
  \<open>sibling\<close> flips a bit of a ULID: the identifier of the warning event, derived from the one of the
  job, or nothing where the identifier of the job is no ULID.
\<close>

definition automation_part ::
  "directory \<Rightarrow> effects \<Rightarrow> app_error + delivery_event list \<times> notification list" where
  "automation_part directory ef =
     (if ef_targets ef = [] then Inr ([], [])
      else rbind (deliveryRoleRecipients directory (ef_targets ef)) (\<lambda>recipients.
        Inr ([automation_event ef], [automation_message ef recipients])))"

definition warning_part :: "(string \<rightharpoonup> string) \<Rightarrow> effects \<Rightarrow> app_error + delivery_event list" where
  "warning_part sibling ef =
     (case ef_warning ef of None \<Rightarrow> Inr []
      | Some w \<Rightarrow> (case sibling (ef_id ef) of None \<Rightarrow> Inl ErrStorage | Some i \<Rightarrow> Inr [warning_event ef i w]))"

definition role_part :: "directory \<Rightarrow> effects \<Rightarrow> app_error + notification list" where
  "role_part directory ef =
     (case ef_role_notification ef of None \<Rightarrow> Inr []
      | Some rn \<Rightarrow> rbind (deliveryRoleRecipients directory (rn_roles rn)) (\<lambda>recipients.
          Inr [(rn_message rn)\<lparr>nt_recipients := recipients\<rparr>]))"

definition buildDeliveryEffects ::
  "directory \<Rightarrow> (string \<rightharpoonup> string) \<Rightarrow> effects \<Rightarrow> app_error + delivery_event list \<times> notification list" where
  "buildDeliveryEffects directory sibling ef =
     rbind (automation_part directory ef) (\<lambda>(events, messages).
     rbind (warning_part sibling ef) (\<lambda>warnings.
     rbind (role_part directory ef) (\<lambda>roles.
       Inr (events @ warnings, batch_messages (messages @ roles)))))"

end
