(* ===== verification/RecipientProps.thy ===== *)
theory RecipientProps
  imports Recipients
begin

text \<open>
  What the resolution of recipients guarantees: with a consistent directory it ends and finds
  everybody; with any directory it never returns a part; and the batches lose nobody.
\<close>

section \<open>Users of a page\<close>

definition usable :: "string \<Rightarrow> bool" where
  "usable u \<longleftrightarrow> trim_space u \<noteq> [] \<and> length (trim_space u) \<le> 26"

lemma take_users_Inr:
  "take_users seen recipients us = Inr (seen', recipients') \<longleftrightarrow>
     (\<forall>u \<in> set us. usable u) \<and> distinct (map trim_space us) \<and>
     set (map trim_space us) \<inter> set seen = {} \<and>
     seen' = rev (map trim_space us) @ seen \<and>
     recipients' = recipients @ uniq_from recipients (map trim_space us)"
proof (induction us arbitrary: seen recipients)
  case (Cons u us)
  have "uniq_from (recipients @ [trim_space u]) xs = uniq_from (trim_space u # recipients) xs" for xs
    by (rule uniq_from_set) simp
  with Cons.IH show ?case by (auto simp: Let_def usable_def)
qed auto

section \<open>Any directory\<close>

definition page_users :: "directory \<Rightarrow> string \<Rightarrow> nat \<Rightarrow> string list" where
  "page_users directory role n =
     (case directory role n of None \<Rightarrow> [] | Some p \<Rightarrow> map trim_space (dp_users p))"

definition users_upto :: "directory \<Rightarrow> string \<Rightarrow> nat \<Rightarrow> nat \<Rightarrow> string list" where
  "users_upto directory role n k = concat (map (page_users directory role) [n..<k])"

lemma users_upto_rec: "n < k \<Longrightarrow> users_upto d role n k = page_users d role n @ users_upto d role (Suc n) k"
  by (simp add: users_upto_def upt_conv_Cons)

lemma uniq_from_append: "uniq_from a (xs @ ys) = uniq_from a xs @ uniq_from (a @ uniq_from a xs) ys"
proof (induction xs arbitrary: a)
  case (Cons x xs)
  have "uniq_from (x # a @ uniq_from (x # a) xs) ys = uniq_from (a @ x # uniq_from (x # a) xs) ys"
    by (rule uniq_from_set) simp
  with Cons.IH show ?case by simp
qed simp

text \<open>
  A role that was resolved: pages \<open>n\<close> to \<open>k - 1\<close> hold different usable users, and with those
  already seen they are as many as the directory says there are.
\<close>

lemma role_pages_sound:
  "role_pages d role n e seen recipients = Inr (seen', recipients') \<Longrightarrow>
   \<exists>k. n < k \<and> k \<le> 10001 \<and> distinct (users_upto d role n k) \<and>
     set (users_upto d role n k) \<inter> set seen = {} \<and>
     seen' = rev (users_upto d role n k) @ seen \<and>
     recipients' = recipients @ uniq_from recipients (users_upto d role n k) \<and>
     (\<exists>p. d role n = Some p \<and> (e < 0 \<or> e = dp_total p) \<and> int (length seen') = dp_total p)"
proof (induction "10001 - n" arbitrary: n e seen recipients rule: less_induct)
  case less
  from less.prems obtain p s r where n: "n \<le> 10000" and p: "d role n = Some p"
    and e: "e < 0 \<or> e = dp_total p" and t: "0 \<le> dp_total p"
    and u: "take_users seen recipients (dp_users p) = Inr (s, r)"
    and rest: "(if dp_total p \<le> int n * dp_size p then
          (if int (length s) \<noteq> dp_total p then Inl ErrPersonnelUnavailable else Inr (s, r))
        else if dp_users p = [] then Inl ErrPersonnelUnavailable
        else role_pages d role (n + 1) (dp_total p) s r) = Inr (seen', recipients')"
    unfolding role_pages.simps [of d role n e seen recipients]
    by (auto simp: Let_def not_less split: option.splits if_splits sum.splits)
  have pu: "page_users d role n = map trim_space (dp_users p)" by (simp add: page_users_def p)
  note u = u [unfolded take_users_Inr, folded pu]
  show ?case
  proof (cases "dp_total p \<le> int n * dp_size p")
    case True
    with rest have "seen' = s" "recipients' = r" "int (length s) = dp_total p" by (auto split: if_splits)
    moreover have "users_upto d role n (Suc n) = page_users d role n" by (simp add: users_upto_def)
    ultimately show ?thesis using u n p e by (intro exI [of _ "Suc n"]) auto
  next
    case False
    with rest have next': "role_pages d role (n + 1) (dp_total p) s r = Inr (seen', recipients')"
      by (auto split: if_splits)
    have "10001 - (n + 1) < 10001 - n" using n by simp
    from less.hyps [OF this next'] obtain k q where k: "n + 1 < k" "k \<le> 10001"
      and d: "distinct (users_upto d role (n + 1) k)" "set (users_upto d role (n + 1) k) \<inter> set s = {}"
      and res: "seen' = rev (users_upto d role (n + 1) k) @ s"
        "recipients' = r @ uniq_from r (users_upto d role (n + 1) k)"
      and q: "d role (n + 1) = Some q" "dp_total p = dp_total q" "int (length seen') = dp_total q"
      using t by auto
    have split: "users_upto d role n k = page_users d role n @ users_upto d role (n + 1) k"
      using users_upto_rec [of n k d role] k by simp
    from u d have "distinct (users_upto d role n k)" "set (users_upto d role n k) \<inter> set seen = {}"
      unfolding split by auto
    moreover have "seen' = rev (users_upto d role n k) @ seen" using res u unfolding split by simp
    moreover have "recipients' = recipients @ uniq_from recipients (users_upto d role n k)"
      using res u unfolding split by (simp add: uniq_from_append)
    moreover have "int (length seen') = dp_total p" using q by simp
    ultimately show ?thesis using k p e by (intro exI [of _ k]) auto
  qed
qed

section \<open>Consistent directories\<close>

text \<open>The directory that pages through a fixed list of users per role.\<close>

definition listing :: "(string \<Rightarrow> string list) \<Rightarrow> directory" where
  "listing members role n =
     Some \<lparr>dp_page = int n, dp_size = 50, dp_total = int (length (members role)),
           dp_users = take 50 (drop (50 * (n - 1)) (members role))\<rparr>"

definition usable_role :: "string list \<Rightarrow> bool" where
  "usable_role us \<longleftrightarrow> us \<noteq> [] \<and> length us \<le> 500000 \<and> (\<forall>u \<in> set us. usable u) \<and>
     distinct (map trim_space us)"

lemma take_users_next:
  assumes "usable_role us"
  shows "take_users (rev (map trim_space (take k us))) recipients (take 50 (drop k us)) =
    Inr (rev (map trim_space (take (k + 50) us)),
         recipients @ uniq_from recipients (map trim_space (take 50 (drop k us))))"
proof -
  have eq: "map trim_space (take (k + 50) us) =
      map trim_space (take k us) @ map trim_space (take 50 (drop k us))"
    by (simp only: take_add map_append)
  have "map trim_space (take (k + 50) us) = take (k + 50) (map trim_space us)"
    by (simp only: take_map)
  then have dist: "distinct (map trim_space (take k us) @ map trim_space (take 50 (drop k us)))"
    using assms unfolding eq [symmetric] by (simp only: usable_role_def distinct_take)
  have us: "\<forall>u \<in> set (take 50 (drop k us)). usable u"
    using assms by (auto simp: usable_role_def dest: in_set_takeD in_set_dropD)
  have "set (map trim_space (take 50 (drop k us))) \<inter> set (rev (map trim_space (take k us))) = {}"
    using dist unfolding distinct_append set_rev by (simp only: inf_commute)
  then show ?thesis
    unfolding take_users_Inr eq rev_append
    using us dist [unfolded distinct_append, THEN conjunct2, THEN conjunct1]
    by (intro conjI) (assumption | rule refl)+
qed

lemma role_pages_next:
  assumes "n \<le> 10000" "d role n = Some p" "dp_page p = int n" "dp_size p = 50"
    "0 \<le> dp_total p" "length (dp_users p) \<le> 50" "e < 0 \<or> e = dp_total p"
    "take_users seen recipients (dp_users p) = Inr (seen', recipients')"
  shows "role_pages d role n e seen recipients =
    (if dp_total p \<le> int n * 50 then
       (if int (length seen') \<noteq> dp_total p then Inl ErrPersonnelUnavailable else Inr (seen', recipients'))
     else if dp_users p = [] then Inl ErrPersonnelUnavailable
     else role_pages d role (n + 1) (dp_total p) seen' recipients')"
proof -
  have "(if e < 0 then dp_total p else e) = dp_total p" using assms(7) by auto
  then show ?thesis
    using assms by (simp add: role_pages.simps [of d role n] Let_def assignmentRoleDirectorySize_def)
qed

lemma role_pages_listing:
  assumes us: "usable_role (members role)"
  shows "1 \<le> n \<Longrightarrow> 50 * (n - 1) < length (members role) \<Longrightarrow> e < 0 \<or> e = int (length (members role)) \<Longrightarrow>
    role_pages (listing members) role n e (rev (map trim_space (take (50 * (n - 1)) (members role)))) recipients =
      Inr (rev (map trim_space (members role)),
           recipients @ uniq_from recipients (map trim_space (drop (50 * (n - 1)) (members role))))"
proof (induction "length (members role) - 50 * (n - 1)" arbitrary: n e recipients rule: less_induct)
  case less
  let ?us = "members role"
  let ?k = "50 * (n - 1)"
  let ?page = "take 50 (drop ?k ?us)"
  let ?recipients = "recipients @ uniq_from recipients (map trim_space ?page)"
  from less.prems us have n: "n \<le> 10000" and k: "?k + 50 = 50 * n" by (auto simp: usable_role_def)
  have "drop ?k ?us = ?page @ drop (50 * n) ?us"
    using append_take_drop_id [of 50 "drop ?k ?us"] k by (simp add: add.commute)
  then have "map trim_space (drop ?k ?us) = map trim_space ?page @ map trim_space (drop (50 * n) ?us)"
    by (metis map_append)
  then have res: "recipients @ uniq_from recipients (map trim_space (drop ?k ?us)) =
      ?recipients @ uniq_from ?recipients (map trim_space (drop (50 * n) ?us))"
    by (simp add: uniq_from_append)
  have step: "take_users (rev (map trim_space (take ?k ?us))) recipients ?page =
      Inr (rev (map trim_space (take (50 * n) ?us)), ?recipients)"
    using take_users_next [OF us, of ?k recipients] unfolding k .
  have page: "listing members role n =
      Some \<lparr>dp_page = int n, dp_size = 50, dp_total = int (length ?us), dp_users = ?page\<rparr>"
    by (simp add: listing_def)
  have run: "role_pages (listing members) role n e (rev (map trim_space (take ?k ?us))) recipients =
    (if int (length ?us) \<le> int n * 50 then
       (if int (length (rev (map trim_space (take (50 * n) ?us)))) \<noteq> int (length ?us)
        then Inl ErrPersonnelUnavailable
        else Inr (rev (map trim_space (take (50 * n) ?us)), ?recipients))
     else if ?page = [] then Inl ErrPersonnelUnavailable
     else role_pages (listing members) role (n + 1) (int (length ?us))
            (rev (map trim_space (take (50 * n) ?us))) ?recipients)"
    by (rule role_pages_next [where d = "listing members" and role = role,
          OF n page, unfolded directory_page.simps])
      (use less.prems step in simp_all)
  show ?case
  proof (cases "length ?us \<le> 50 * n")
    case True
    then have "int (length ?us) \<le> int n * 50" by linarith
    with True show ?thesis
      unfolding run res by simp
  next
    case False
    have "length ?us - 50 * (n + 1 - 1) < length ?us - 50 * (n - 1)" using less.prems False by simp
    from less.hyps [OF this, of "int (length ?us)" ?recipients] False
    have ih: "role_pages (listing members) role (n + 1) (int (length ?us))
        (rev (map trim_space (take (50 * n) ?us))) ?recipients =
      Inr (rev (map trim_space ?us), ?recipients @ uniq_from ?recipients (map trim_space (drop (50 * n) ?us)))"
      by simp
    have "?page \<noteq> []" using less.prems by simp
    moreover have "\<not> int (length ?us) \<le> int n * 50" using False by linarith
    ultimately show ?thesis
      unfolding run res using ih by (simp only: if_False)
  qed
qed

section \<open>All the roles\<close>

text \<open>What the directory says of one role, read page after page.\<close>

definition whole_role :: "directory \<Rightarrow> string \<Rightarrow> string list \<Rightarrow> bool" where
  "whole_role directory role us \<longleftrightarrow>
     us \<noteq> [] \<and> distinct us \<and> (\<exists>k. us = users_upto directory role 1 k) \<and>
     (\<exists>p. directory role 1 = Some p \<and> int (length us) = dp_total p)"

lemma roles_recipients_sound:
  "roles_recipients directory recipients roles = Inr result \<Longrightarrow>
   \<exists>us. list_all2 (whole_role directory) roles us \<and> result = recipients @ uniq_from recipients (concat us)"
proof (induction roles arbitrary: recipients)
  case Nil
  then show ?case by (intro exI [of _ "[]"]) simp
next
  case (Cons role roles)
  from Cons.prems obtain seen recipients' where pages: "role_pages directory role 1 (- 1) [] recipients = Inr (seen, recipients')"
    and seen: "seen \<noteq> []" and rest: "roles_recipients directory recipients' roles = Inr result"
    by (auto split: sum.splits if_splits)
  from role_pages_sound [OF pages] obtain k p where
    "distinct (users_upto directory role 1 k)" "seen = rev (users_upto directory role 1 k)"
    and first: "recipients' = recipients @ uniq_from recipients (users_upto directory role 1 k)"
    and "directory role 1 = Some p" "int (length seen) = dp_total p" by auto
  with seen have "whole_role directory role (users_upto directory role 1 k)"
    unfolding whole_role_def by auto
  moreover from Cons.IH [OF rest] obtain us where "list_all2 (whole_role directory) roles us"
    "result = recipients' @ uniq_from recipients' (concat us)" by auto
  ultimately show ?case
    by (intro exI [of _ "users_upto directory role 1 k # us"]) (simp add: first uniq_from_append)
qed

lemma roles_recipients_listing:
  "\<forall>role \<in> set roles. usable_role (members role) \<Longrightarrow>
   roles_recipients (listing members) recipients roles =
     Inr (recipients @ uniq_from recipients (concat (map (\<lambda>role. map trim_space (members role)) roles)))"
proof (induction roles arbitrary: recipients)
  case (Cons role roles)
  then have us: "usable_role (members role)" by simp
  then have "members role \<noteq> []" by (simp add: usable_role_def)
  with role_pages_listing [where members = members, OF us, of 1 "- 1" recipients]
  have "role_pages (listing members) role 1 (- 1) [] recipients =
      Inr (rev (map trim_space (members role)), recipients @ uniq_from recipients (map trim_space (members role)))"
    by simp
  with Cons \<open>members role \<noteq> []\<close> show ?case by (simp add: uniq_from_append)
qed simp

text \<open>
  C18. A list of recipients is never a part of the truth. Whatever the directory of personnel
  answers, page by page, errors and contradictions included: if the resolution of roles succeeds,
  then for every distinct role it read all the users the directory counts for the role, at least
  one, none twice, and the result is these users of all the roles, in order and each once.
\<close>

theorem recipients_are_never_partial:
  assumes "deliveryRoleRecipients directory roles = Inr recipients"
  shows "\<exists>us. list_all2 (whole_role directory) (uniq roles) us \<and> recipients = uniq (concat us)"
  using roles_recipients_sound [of directory "[]" "uniq roles" recipients] assms
  by (simp add: deliveryRoleRecipients_def uniq_def)

definition example_leads :: "string list" where
  "example_leads = [''a1'', ''b2 '', ''c3'']"

definition example_members :: "string \<Rightarrow> string list" where
  "example_members role =
     (if role = ''lead'' then example_leads else if role = ''audit'' then ['' a1'', ''x''] else [])"

lemma example_directory_answers:
  "deliveryRoleRecipients (listing example_members) [''lead'', ''audit'', ''lead''] =
     Inr [''a1'', ''b2'', ''c3'', ''x'']"
  by code_simp

theorem recipients_are_never_partial_witness:
  "\<exists>us. list_all2 (whole_role (listing example_members)) [''lead'', ''audit''] us \<and>
     [''a1'', ''b2'', ''c3'', ''x''] = uniq (concat us)"
  using recipients_are_never_partial [OF example_directory_answers] by (simp add: uniq_def)

text \<open>
  C19. The resolution ends and finds everybody. When the directory pages through a fixed list of
  users for every role asked for (at least one user, at most 10,000 pages of 50, identifiers that
  are not blank, at most 26 bytes and different once trimmed), the result is all these users: the
  loop over the pages ends within its bound, it reads the last page, and a user who holds several
  roles is listed once.
\<close>

theorem consistent_directory_is_read_completely:
  assumes "\<forall>role \<in> set roles. usable_role (members role)"
  shows "deliveryRoleRecipients (listing members) roles =
    Inr (uniq (concat (map (\<lambda>role. map trim_space (members role)) (uniq roles))))"
  using roles_recipients_listing [of "uniq roles" members "[]"] assms
  by (simp add: deliveryRoleRecipients_def uniq_def)

theorem consistent_directory_witness:
  "deliveryRoleRecipients (listing example_members) [''lead'', ''audit'', ''lead''] =
     Inr (uniq (map trim_space (example_leads @ ['' a1'', ''x''])))"
proof -
  have lead: "example_members ''lead'' = example_leads" by (simp only: example_members_def simp_thms if_True)
  have audit: "example_members ''audit'' = ['' a1'', ''x'']" by (simp add: example_members_def)
  have "list_all usable example_leads \<and> distinct (map trim_space example_leads)" by code_simp
  then have "usable_role example_leads"
    unfolding usable_role_def list_all_iff by (simp add: example_leads_def)
  moreover have "usable_role ['' a1'', ''x'']" by (simp add: usable_role_def usable_def) code_simp
  ultimately have "\<forall>role \<in> set [''lead'', ''audit'', ''lead'']. usable_role (example_members role)"
    by (simp only: lead audit list.set ball_simps simp_thms)
  moreover have "uniq [''lead'', ''audit'', ''lead''] = [''lead'', ''audit'']" by code_simp
  ultimately show ?thesis
    using consistent_directory_is_read_completely [of "[''lead'', ''audit'', ''lead'']" example_members]
    by (simp only: lead audit list.map concat.simps append_Nil2 map_append)
qed

section \<open>Batches\<close>

lemma show_nat_inject [simp]: "show_nat a = show_nat b \<longleftrightarrow> a = b"
  by (metis digits_val_show of_nat_eq_iff option.inject)

lemma message_parts_complete:
  "concat (map nt_recipients (message_parts message n recipients)) = recipients"
proof (induction message n recipients rule: message_parts.induct)
  case (1 message n recipients)
  then show ?case by (simp add: message_parts.simps [of message n recipients])
qed

lemma message_parts_small:
  "list_all (\<lambda>m. nt_recipients m \<noteq> [] \<and> length (nt_recipients m) \<le> 500 \<and>
     nt_title m = nt_title message \<and> nt_content m = nt_content message)
     (message_parts message n recipients)"
proof (induction message n recipients rule: message_parts.induct)
  case (1 message n recipients)
  then show ?case by (simp add: message_parts.simps [of message n recipients])
qed

lemma message_parts_keys:
  "\<exists>k. map nt_key (message_parts message n recipients) =
     map (\<lambda>i. nt_key message @ ''-part-'' @ show_nat i) [n..<n + k]"
proof (induction message n recipients rule: message_parts.induct)
  case (1 message n recipients)
  show ?case
  proof (cases "recipients = []")
    case True
    then show ?thesis by (intro exI [of _ 0]) (simp add: message_parts.simps [of message n "[]"])
  next
    case False
    from 1 [OF this] obtain k where k: "map nt_key (message_parts message (n + 1) (drop 500 recipients)) =
        map (\<lambda>i. nt_key message @ ''-part-'' @ show_nat i) [n + 1..<n + 1 + k]" by blast
    have "[n..<n + Suc k] = n # [n + 1..<n + 1 + k]" by (simp add: upt_conv_Cons del: upt_Suc)
    with False k show ?thesis
      by (intro exI [of _ "Suc k"]) (simp add: message_parts.simps [of message n recipients] del: upt_Suc)
  qed
qed

text \<open>
  C20. Cutting a notification into batches loses nobody. The recipients of the batches, in order,
  are the recipients of the notification; no batch has more than the 500 recipients the platform
  takes, all carry the title and the text of the notification, and their idempotency keys differ,
  so that the platform does not take one batch for a repetition of another.
\<close>

theorem batches_lose_nobody:
  "concat (map nt_recipients (batch_message message)) = nt_recipients message \<and>
   list_all (\<lambda>m. length (nt_recipients m) \<le> 500 \<and>
     nt_title m = nt_title message \<and> nt_content m = nt_content message) (batch_message message) \<and>
   distinct (map nt_key (batch_message message))"
proof (cases "length (nt_recipients message) \<le> 500")
  case True
  then show ?thesis by (simp add: batch_message_def)
next
  case False
  obtain k where "map nt_key (message_parts message 1 (nt_recipients message)) =
      map (\<lambda>i. nt_key message @ ''-part-'' @ show_nat i) [1..<1 + k]"
    using message_parts_keys by blast
  then have "distinct (map nt_key (message_parts message 1 (nt_recipients message)))"
    by (simp add: distinct_map inj_on_def)
  moreover have "list_all (\<lambda>m. length (nt_recipients m) \<le> 500 \<and>
      nt_title m = nt_title message \<and> nt_content m = nt_content message)
      (message_parts message 1 (nt_recipients message))"
    using message_parts_small [of message 1 "nt_recipients message"] by (simp add: list_all_iff)
  ultimately show ?thesis using False by (simp add: batch_message_def message_parts_complete)
qed

end
