(* ===== verification/AuditOutbox.thy ===== *)
theory AuditOutbox
  imports EventRecord "HOL-Library.Product_Lexorder"
begin

text \<open>
  The outbox of audit events (\<open>internal/auditoutbox\<close>): the rows \<open>createEvent\<close> and the other writers
  leave behind, their delivery to the platform with a lease, a back-off and a budget of attempts,
  and the operator's retry of an event that was given up.
\<close>

section \<open>Rows and entries\<close>

text \<open>\<open>ao_content\<close> are the columns no operation of the outbox touches.\<close>

record audit_out =
  ao_id :: string
  ao_content :: audit_row
  ao_status :: string
  ao_attempts :: nat
  ao_next :: instant
  ao_locked :: "instant option"
  ao_delivered :: "instant option"
  ao_error :: string
  ao_created :: instant

record audit_item =
  ae_id :: string
  ae_content :: audit_row
  ae_attempts :: nat

text \<open>The settings of the store: \<open>Lease\<close> and \<open>MaxTries\<close>.\<close>

record audit_config =
  ag_lease :: int
  ag_max_tries :: nat

definition lease_of :: "audit_config \<Rightarrow> int" where
  "lease_of cf = (if ag_lease cf \<le> 0 then 120 * second_ns else ag_lease cf)"

section \<open>The operations of the store\<close>

definition locked_before :: "audit_out \<Rightarrow> instant \<Rightarrow> bool" where
  "locked_before r cutoff \<longleftrightarrow> (case ao_locked r of None \<Rightarrow> False | Some t \<Rightarrow> t < cutoff)"

definition audit_claimable :: "audit_config \<Rightarrow> instant \<Rightarrow> audit_out \<Rightarrow> bool" where
  "audit_claimable cf now r \<longleftrightarrow>
     (let cutoff = now - lease_of cf in
      ao_next r \<le> now \<and> (ao_locked r = None \<or> locked_before r cutoff) \<and>
      (ao_status r = ''pending'' \<or> ao_status r = ''retry'' \<or> ao_status r = ''processing'') \<and>
      (ag_max_tries cf = 0 \<or> ao_attempts r < ag_max_tries cf \<or>
       ao_status r = ''processing'' \<and> locked_before r cutoff))"

definition claim_order :: "audit_out \<Rightarrow> instant \<times> string" where
  "claim_order r = (ao_next r, ao_id r)"

definition claimed_rows :: "audit_config \<Rightarrow> nat \<Rightarrow> instant \<Rightarrow> audit_out list \<Rightarrow> audit_out list" where
  "claimed_rows cf limit now rows = take limit (sort_key claim_order (filter (audit_claimable cf now) rows))"

definition audit_item_of :: "audit_out \<Rightarrow> audit_item" where
  "audit_item_of r = \<lparr>ae_id = ao_id r, ae_content = ao_content r, ae_attempts = ao_attempts r + 1\<rparr>"

definition Claim :: "audit_config \<Rightarrow> int \<Rightarrow> instant \<Rightarrow> audit_out list \<Rightarrow> audit_item list \<times> audit_out list" where
  "Claim cf limit now rows =
     (if limit < 1 then ([], rows)
      else let claimed = claimed_rows cf (nat limit) now rows in
        (map audit_item_of claimed,
         update_where (\<lambda>r. List.member (map ao_id claimed) (ao_id r))
           (\<lambda>r. r\<lparr>ao_status := ''processing'', ao_locked := Some now, ao_attempts := ao_attempts r + 1\<rparr>) rows))"

definition MarkDelivered :: "string \<Rightarrow> instant \<Rightarrow> audit_out list \<Rightarrow> audit_out list" where
  "MarkDelivered i now =
     update_where (\<lambda>r. ao_id r = i)
       (\<lambda>r. r\<lparr>ao_status := ''delivered'', ao_delivered := Some now, ao_locked := None, ao_error := []\<rparr>)"

text \<open>
  \<open>MarkFailed\<close> is two statements outside a transaction: one reads the attempts and decides the
  status, the other writes it.
\<close>

definition failed_status :: "audit_config \<Rightarrow> string \<Rightarrow> audit_out list \<Rightarrow> app_error + string" where
  "failed_status cf i rows =
     (if ag_max_tries cf = 0 then Inr ''retry''
      else case find (\<lambda>r. ao_id r = i) rows of
        None \<Rightarrow> Inl ErrStorage
      | Some r \<Rightarrow> Inr (if ag_max_tries cf \<le> ao_attempts r then ''failed'' else ''retry''))"

definition write_failed :: "string \<Rightarrow> string \<Rightarrow> string \<Rightarrow> instant \<Rightarrow> audit_out list \<Rightarrow> audit_out list" where
  "write_failed i status code retryAt =
     update_where (\<lambda>r. ao_id r = i)
       (\<lambda>r. r\<lparr>ao_status := status, ao_next := retryAt, ao_locked := None, ao_error := code\<rparr>)"

definition MarkFailed ::
  "audit_config \<Rightarrow> string \<Rightarrow> string \<Rightarrow> instant \<Rightarrow> audit_out list \<Rightarrow> app_error + audit_out list" where
  "MarkFailed cf i code retryAt rows =
     rbind (failed_status cf i rows) (\<lambda>status. Inr (write_failed i status code retryAt rows))"

definition failed_key :: "string \<Rightarrow> string \<Rightarrow> audit_out \<Rightarrow> bool" where
  "failed_key tenant i r \<longleftrightarrow> au_tenant (ao_content r) = tenant \<and> ao_id r = i \<and> ao_status r = ''failed''"

definition RetryFailed :: "string \<Rightarrow> string \<Rightarrow> instant \<Rightarrow> audit_out list \<Rightarrow> bool \<times> audit_out list" where
  "RetryFailed tenant i now rows =
     (count_where (failed_key tenant i) rows = 1,
      update_where (failed_key tenant i)
        (\<lambda>r. r\<lparr>ao_status := ''retry'', ao_attempts := 0, ao_next := now, ao_locked := None, ao_error := []\<rparr>) rows)"

definition list_limit :: "int \<Rightarrow> nat" where
  "list_limit limit = (if limit < 1 \<or> 200 < limit then 100 else nat limit)"

definition ListFailed :: "string \<Rightarrow> int \<Rightarrow> audit_out list \<Rightarrow> audit_out list" where
  "ListFailed tenant limit rows =
     take (list_limit limit) (rev (sort_key (\<lambda>r. (ao_created r, ao_id r))
       (filter (\<lambda>r. au_tenant (ao_content r) = tenant \<and> ao_status r = ''failed'') rows)))"

text \<open>The row a writer of the outbox adds, in the transaction of what it records.\<close>

definition new_audit :: "string \<Rightarrow> audit_row \<Rightarrow> instant \<Rightarrow> audit_out" where
  "new_audit i content now =
     \<lparr>ao_id = i, ao_content = content, ao_status = ''pending'', ao_attempts = 0, ao_next = now,
      ao_locked = None, ao_delivered = None, ao_error = [], ao_created = now\<rparr>"

definition add_audit :: "audit_out \<Rightarrow> audit_out list \<Rightarrow> app_error + audit_out list" where
  "add_audit r rows = (if list_ex (\<lambda>q. ao_id q = ao_id r) rows then Inl ErrStorage else Inr (rows @ [r]))"

text \<open>
  Between its two statements a worker holds a decision on a row that others may change: the machine
  is the table with the decisions taken and not written yet.
\<close>

record failure_write =
  fw_id :: string
  fw_status :: string
  fw_code :: string
  fw_retry :: instant

record audit_machine =
  am_rows :: "audit_out list"
  am_writes :: "failure_write list"

definition read_failure ::
  "audit_config \<Rightarrow> string \<Rightarrow> string \<Rightarrow> instant \<Rightarrow> audit_machine \<Rightarrow> app_error + audit_machine" where
  "read_failure cf i code retryAt m =
     rbind (failed_status cf i (am_rows m)) (\<lambda>status.
       Inr (m\<lparr>am_writes := am_writes m @
         [\<lparr>fw_id = i, fw_status = status, fw_code = code, fw_retry = retryAt\<rparr>]\<rparr>))"

definition apply_failure :: "failure_write \<Rightarrow> audit_out list \<Rightarrow> audit_out list" where
  "apply_failure w = write_failed (fw_id w) (fw_status w) (fw_code w) (fw_retry w)"

definition write_failure :: "nat \<Rightarrow> audit_machine \<Rightarrow> app_error + audit_machine" where
  "write_failure n m =
     (if n < length (am_writes m)
      then Inr \<lparr>am_rows = apply_failure (am_writes m ! n) (am_rows m),
                 am_writes = take n (am_writes m) @ drop (n + 1) (am_writes m)\<rparr>
      else Inl ErrStorage)"

section \<open>The dispatcher\<close>

record audit_dispatcher =
  ad_batch :: int
  ad_max_backoff :: int

definition batchSize :: "audit_dispatcher \<Rightarrow> int" where
  "batchSize d = (if ad_batch d \<le> 0 \<or> 200 < ad_batch d then 50 else ad_batch d)"

text \<open>The loop \<open>for i := 1; i < attempts && i < 8; i++\<close>.\<close>

fun doubled :: "nat \<Rightarrow> int \<Rightarrow> int" where
  "doubled 0 base = base"
| "doubled (Suc n) base = doubled n (base * 2)"

definition backoff :: "audit_dispatcher \<Rightarrow> nat \<Rightarrow> int" where
  "backoff d attempts =
     (let base = doubled (min attempts 8 - 1) second_ns in
      if 0 < ad_max_backoff d \<and> ad_max_backoff d < base then ad_max_backoff d else base)"

text \<open>
  \<open>report\<close> is the platform: whether it takes an event. An error of a mark is logged, and the loop
  goes on.
\<close>

definition deliver_entry ::
  "audit_config \<Rightarrow> audit_dispatcher \<Rightarrow> (audit_item \<Rightarrow> bool) \<Rightarrow> instant \<Rightarrow> audit_item \<Rightarrow> audit_out list \<Rightarrow> audit_out list" where
  "deliver_entry cf d report now e rows =
     (if report e then MarkDelivered (ae_id e) now rows
      else case MarkFailed cf (ae_id e) ''PLATFORM_AUDIT_UNAVAILABLE'' (now + backoff d (ae_attempts e + 1)) rows of
        Inl _ \<Rightarrow> rows
      | Inr rows \<Rightarrow> rows)"

definition deliverOnce ::
  "audit_config \<Rightarrow> audit_dispatcher \<Rightarrow> (audit_item \<Rightarrow> bool) \<Rightarrow> instant \<Rightarrow> audit_out list \<Rightarrow> audit_out list" where
  "deliverOnce cf d report now rows =
     (let (entries, rows) = Claim cf (batchSize d) now rows
      in fold (deliver_entry cf d report now) entries rows)"

section \<open>The backlog\<close>

record backlog_counts =
  bk_pending :: int
  bk_dead :: int

fun backlog_scan :: "(string \<times> int) list \<Rightarrow> backlog_counts \<Rightarrow> backlog_counts" where
  "backlog_scan [] b = b"
| "backlog_scan ((status, n) # counts) b =
     backlog_scan counts
       (if n \<le> 0 \<or> status = ''delivered'' then b
        else if status = ''failed'' then b\<lparr>bk_dead := bk_dead b + n\<rparr>
        else b\<lparr>bk_pending := bk_pending b + n\<rparr>)"

definition backlogFromStatusCounts :: "(string \<times> int) list \<Rightarrow> backlog_counts" where
  "backlogFromStatusCounts counts = backlog_scan counts \<lparr>bk_pending = 0, bk_dead = 0\<rparr>"

definition status_counts :: "audit_out list \<Rightarrow> (string \<times> int) list" where
  "status_counts rows =
     map (\<lambda>s. (s, int (length (filter (\<lambda>r. ao_status r = s) rows)))) (uniq (map ao_status rows))"

definition CountBacklog :: "audit_out list \<Rightarrow> backlog_counts" where
  "CountBacklog rows = backlogFromStatusCounts (status_counts rows)"

end
