(* ===== verification/AuditProps.thy ===== *)
theory AuditProps
  imports AuditOutbox
begin

text \<open>
  What the audit outbox guarantees: no event is lost or altered, one that is neither delivered nor
  given up is handed out again, a failed delivery is not repeated before its back-off; and the case
  the two statements of \<open>MarkFailed\<close> leave open.
\<close>

section \<open>Runs\<close>

text \<open>
  The steps in which writers, workers and operators interleave. A worker's \<open>MarkFailed\<close> is two
  steps; what it decided in the first is written in the second, whatever happened in between.
\<close>

datatype audit_call =
    Add string audit_row instant
  | Take int instant
  | Done string instant
  | FailRead string string instant
  | FailWrite nat
  | Operator string string instant

fun audit_step :: "audit_config \<Rightarrow> audit_call \<Rightarrow> audit_machine \<Rightarrow> app_error + audit_machine" where
  "audit_step cf (Add i content now) m =
     rbind (add_audit (new_audit i content now) (am_rows m)) (\<lambda>rows. Inr (m\<lparr>am_rows := rows\<rparr>))"
| "audit_step cf (Take limit now) m = Inr (m\<lparr>am_rows := snd (Claim cf limit now (am_rows m))\<rparr>)"
| "audit_step cf (Done i now) m = Inr (m\<lparr>am_rows := MarkDelivered i now (am_rows m)\<rparr>)"
| "audit_step cf (FailRead i code retryAt) m = read_failure cf i code retryAt m"
| "audit_step cf (FailWrite n) m = write_failure n m"
| "audit_step cf (Operator tenant i now) m = Inr (m\<lparr>am_rows := snd (RetryFailed tenant i now (am_rows m))\<rparr>)"

text \<open>
  A row in every state is one \<open>Claim\<close> can see: only a row being processed is locked, and only it
  may have used up its attempts. \<open>stranded\<close> is the exception an interrupted failure can leave.
\<close>

definition stranded :: "audit_config \<Rightarrow> audit_out \<Rightarrow> bool" where
  "stranded cf r \<longleftrightarrow> ao_status r = ''retry'' \<and> ao_locked r = None \<and>
     ag_max_tries cf \<noteq> 0 \<and> ag_max_tries cf \<le> ao_attempts r"

definition audit_ok :: "audit_config \<Rightarrow> audit_out \<Rightarrow> bool" where
  "audit_ok cf r \<longleftrightarrow>
     (if ao_status r = ''processing'' then ao_locked r \<noteq> None
      else ao_locked r = None \<and>
        (ao_status r = ''delivered'' \<or> ao_status r = ''failed'' \<or>
         (ao_status r = ''pending'' \<or> ao_status r = ''retry'') \<and>
         (ag_max_tries cf = 0 \<or> ao_attempts r < ag_max_tries cf)))"

text \<open>\<open>sound\<close> says what a row and a decision on it may be; there are two grades of it.\<close>

definition budget :: "audit_config \<Rightarrow> audit_out list \<Rightarrow> failure_write \<Rightarrow> bool" where
  "budget cf rows w \<longleftrightarrow>
     (\<forall>r \<in> set rows. ao_id r = fw_id w \<longrightarrow> ag_max_tries cf = 0 \<or> ao_attempts r < ag_max_tries cf)"

definition audit_inv :: "bool \<Rightarrow> audit_config \<Rightarrow> audit_machine \<Rightarrow> bool" where
  "audit_inv strict cf m \<longleftrightarrow> distinct (map ao_id (am_rows m)) \<and>
     (\<forall>r \<in> set (am_rows m). audit_ok cf r \<or> \<not> strict \<and> stranded cf r) \<and>
     (\<forall>w \<in> set (am_writes m). fw_status w = ''failed'' \<or>
        fw_status w = ''retry'' \<and> (strict \<longrightarrow> budget cf (am_rows m) w))"

definition has_event :: "string \<Rightarrow> audit_row \<Rightarrow> audit_out list \<Rightarrow> bool" where
  "has_event i content rows \<longleftrightarrow> list_ex (\<lambda>r. ao_id r = i \<and> ao_content r = content) rows"

definition audit_state :: "bool \<Rightarrow> audit_config \<Rightarrow> string \<Rightarrow> audit_row \<Rightarrow> audit_machine \<Rightarrow> bool" where
  "audit_state strict cf i content m \<longleftrightarrow> audit_inv strict cf m \<and> has_event i content (am_rows m)"

lemma update_where_map: "update_where p f rows = map (\<lambda>r. if p r then f r else r) rows"
  by (induction rows) simp_all

text \<open>One update of the rows, which may drop decisions.\<close>

lemma audit_state_update:
  assumes m: "audit_state strict cf i content m"
    and key: "\<And>r. ao_id (f r) = ao_id r" "\<And>r. ao_content (f r) = ao_content r"
    and ok: "\<And>r. r \<in> set (am_rows m) \<Longrightarrow> p r \<Longrightarrow> audit_ok cf (f r) \<or> \<not> strict \<and> stranded cf (f r)"
    and less: "\<And>r w. strict \<Longrightarrow> r \<in> set (am_rows m) \<Longrightarrow> p r \<Longrightarrow> w \<in> set ws \<Longrightarrow> ao_id r = fw_id w \<Longrightarrow>
      ao_attempts (f r) \<le> ao_attempts r"
    and ws: "set ws \<subseteq> set (am_writes m)"
  shows "audit_state strict cf i content (m\<lparr>am_rows := update_where p f (am_rows m), am_writes := ws\<rparr>)"
proof -
  let ?rows = "update_where p f (am_rows m)"
  have "map ao_id ?rows = map ao_id (am_rows m)"
    unfolding update_where_map by (simp add: key)
  moreover have "\<forall>r \<in> set ?rows. audit_ok cf r \<or> \<not> strict \<and> stranded cf r"
    using m ok unfolding update_where_map audit_state_def audit_inv_def by auto
  moreover have "budget cf ?rows w" if "strict" "w \<in> set ws" "budget cf (am_rows m) w" for w
    using that less [of _ w] key unfolding budget_def update_where_map by (fastforce intro: le_less_trans)
  moreover have "has_event i content ?rows"
  proof -
    from m obtain r where "r \<in> set (am_rows m)" "ao_id r = i" "ao_content r = content"
      by (auto simp: audit_state_def has_event_def list_ex_iff)
    then show ?thesis unfolding update_where_map has_event_def list_ex_iff
      by (intro bexI [of _ "if p r then f r else r"]) (simp_all add: key)
  qed
  ultimately show ?thesis using m ws unfolding audit_state_def audit_inv_def by auto
qed

lemma failed_status_ok:
  assumes "distinct (map ao_id rows)" "failed_status cf j rows = Inr status"
  shows "status = ''failed'' \<or>
    status = ''retry'' \<and> (\<forall>r \<in> set rows. ao_id r = j \<longrightarrow> ag_max_tries cf = 0 \<or> ao_attempts r < ag_max_tries cf)"
proof (cases "ag_max_tries cf = 0")
  case False
  with assms(2) obtain q where q: "find (\<lambda>r. ao_id r = j) rows = Some q"
    and s: "status = (if ag_max_tries cf \<le> ao_attempts q then ''failed'' else ''retry'')"
    by (auto simp: failed_status_def split: option.splits)
  have "q = r" if "r \<in> set rows" "ao_id r = j" for r
    using find_SomeD [OF q] assms(1) that unfolding distinct_map by (auto dest: inj_onD)
  with s show ?thesis by auto
qed (use assms(2) in \<open>simp add: failed_status_def\<close>)

text \<open>
  A call is calm when it hands out no row a decision is held on. The other interleavings are
  allowed; only the weaker grade of the invariant survives them.
\<close>

fun calm_call :: "audit_config \<Rightarrow> audit_call \<Rightarrow> audit_machine \<Rightarrow> bool" where
  "calm_call cf (Take limit now) m \<longleftrightarrow>
     list_all (\<lambda>e. \<not> List.member (map fw_id (am_writes m)) (ae_id e)) (fst (Claim cf limit now (am_rows m)))"
| "calm_call cf _ m \<longleftrightarrow> True"

fun calm :: "audit_config \<Rightarrow> audit_call list \<Rightarrow> audit_machine \<Rightarrow> bool" where
  "calm cf [] m \<longleftrightarrow> True"
| "calm cf (c # cs) m \<longleftrightarrow> calm_call cf c m \<and>
     calm cf cs (case audit_step cf c m of Inl _ \<Rightarrow> m | Inr m' \<Rightarrow> m')"

lemma Take_state:
  assumes m: "audit_state strict cf i content m" and c: "strict \<Longrightarrow> calm_call cf (Take limit now) m"
  shows "audit_state strict cf i content (m\<lparr>am_rows := snd (Claim cf limit now (am_rows m))\<rparr>)"
proof (cases "limit < 1")
  case True
  with m show ?thesis by (simp add: Claim_def audit_state_def audit_inv_def)
next
  case False
  let ?f = "\<lambda>r. r\<lparr>ao_status := ''processing'', ao_locked := Some now, ao_attempts := ao_attempts r + 1\<rparr>"
  let ?p = "\<lambda>r. List.member (map ao_id (claimed_rows cf (nat limit) now (am_rows m))) (ao_id r)"
  have free: "ao_id r \<noteq> fw_id w" if "strict" "?p r" "w \<in> set (am_writes m)" for r w
    using c [OF that(1)] that(2,3) False
    by (fastforce simp: Claim_def Let_def list_all_iff audit_item_of_def image_iff)
  have "audit_state strict cf i content
      (m\<lparr>am_rows := update_where ?p ?f (am_rows m), am_writes := am_writes m\<rparr>)"
  proof (rule audit_state_update [OF m])
    fix r w assume "strict" "?p r" "w \<in> set (am_writes m)" "ao_id r = fw_id w"
    with free have False by blast
    then show "ao_attempts (?f r) \<le> ao_attempts r" ..
  qed (simp_all add: audit_ok_def)
  with False show ?thesis by (simp add: Claim_def Let_def)
qed

lemma MarkDelivered_state:
  assumes "audit_state strict cf i content m"
  shows "audit_state strict cf i content (m\<lparr>am_rows := MarkDelivered j now (am_rows m)\<rparr>)"
  using audit_state_update [OF assms, of "\<lambda>r. r\<lparr>ao_status := ''delivered'', ao_delivered := Some now,
      ao_locked := None, ao_error := []\<rparr>" "\<lambda>r. ao_id r = j" "am_writes m"]
  by (simp add: MarkDelivered_def audit_ok_def)

lemma RetryFailed_state:
  assumes "audit_state strict cf i content m"
  shows "audit_state strict cf i content (m\<lparr>am_rows := snd (RetryFailed tenant j now (am_rows m))\<rparr>)"
proof -
  let ?f = "\<lambda>r. r\<lparr>ao_status := ''retry'', ao_attempts := 0, ao_next := now, ao_locked := None, ao_error := []\<rparr>"
  have "audit_state strict cf i content
      (m\<lparr>am_rows := update_where (failed_key tenant j) ?f (am_rows m), am_writes := am_writes m\<rparr>)"
    by (rule audit_state_update [OF assms]) (auto simp: audit_ok_def)
  then show ?thesis by (simp add: RetryFailed_def)
qed

lemma read_failure_state:
  assumes m: "audit_state strict cf i content m" and s: "read_failure cf j code retryAt m = Inr m'"
  shows "audit_state strict cf i content m'"
proof -
  from s obtain status where st: "failed_status cf j (am_rows m) = Inr status"
    and m': "m' = m\<lparr>am_writes := am_writes m @
         [\<lparr>fw_id = j, fw_status = status, fw_code = code, fw_retry = retryAt\<rparr>]\<rparr>"
    by (auto simp: read_failure_def rbind_eq_Inr)
  from failed_status_ok [OF _ st] m show ?thesis
    unfolding m' audit_state_def audit_inv_def by (auto simp: budget_def)
qed

lemma write_failure_state:
  assumes m: "audit_state strict cf i content m" and s: "write_failure n m = Inr m'"
  shows "audit_state strict cf i content m'"
proof -
  define w where "w = am_writes m ! n"
  from s have n: "n < length (am_writes m)"
    and m': "m' = m\<lparr>am_rows := apply_failure w (am_rows m),
                    am_writes := take n (am_writes m) @ drop (n + 1) (am_writes m)\<rparr>"
    by (auto simp: write_failure_def w_def split: if_splits)
  then have "w \<in> set (am_writes m)" by (simp add: w_def)
  then have st: "fw_status w = ''failed'' \<or> fw_status w = ''retry'' \<and> (strict \<longrightarrow> budget cf (am_rows m) w)"
    using m by (simp add: audit_state_def audit_inv_def)
  show ?thesis unfolding m' apply_failure_def write_failed_def
  proof (rule audit_state_update [OF m])
    fix r assume "r \<in> set (am_rows m)" "ao_id r = fw_id w"
    with st show "audit_ok cf (r\<lparr>ao_status := fw_status w, ao_next := fw_retry w, ao_locked := None,
          ao_error := fw_code w\<rparr>) \<or> \<not> strict \<and> stranded cf (r\<lparr>ao_status := fw_status w,
          ao_next := fw_retry w, ao_locked := None, ao_error := fw_code w\<rparr>)"
      by (auto simp: audit_ok_def stranded_def budget_def)
  next
    show "set (take n (am_writes m) @ drop (n + 1) (am_writes m)) \<subseteq> set (am_writes m)"
      by (auto dest: in_set_takeD in_set_dropD)
  qed simp_all
qed

lemma add_audit_state:
  assumes "audit_state strict cf i content m" and "add_audit (new_audit j c now) (am_rows m) = Inr rows"
  shows "audit_state strict cf i content (m\<lparr>am_rows := rows\<rparr>)"
proof -
  from assms(2) have rows: "rows = am_rows m @ [new_audit j c now]" and new: "j \<notin> ao_id ` set (am_rows m)"
    by (auto simp: add_audit_def new_audit_def list_ex_iff split: if_splits)
  have "budget cf rows w" if "budget cf (am_rows m) w" for w
    using that unfolding budget_def rows by (auto simp: new_audit_def)
  moreover have "audit_ok cf (new_audit j c now)" by (auto simp: audit_ok_def new_audit_def)
  ultimately show ?thesis
    using assms(1) new unfolding audit_state_def audit_inv_def has_event_def rows
    by (auto simp: new_audit_def)
qed

lemma audit_step_state:
  "audit_state strict cf i content m \<Longrightarrow> audit_step cf c m = Inr m' \<Longrightarrow> (strict \<Longrightarrow> calm_call cf c m) \<Longrightarrow>
   audit_state strict cf i content m'"
  by (cases c) (auto simp: MarkDelivered_state RetryFailed_state rbind_eq_Inr
      dest: add_audit_state read_failure_state write_failure_state intro: Take_state)

interpretation audits: transactional "audit_step cf" "\<lambda>_. True" "audit_state False cf i content"
  for cf i content
  by unfold_locales (blast intro: audit_step_state)

lemma calm_run:
  "calm cf cs m \<Longrightarrow> audit_state True cf i content m \<Longrightarrow> audit_state True cf i content (run_all (audit_step cf) cs m)"
proof (induction cs arbitrary: m)
  case (Cons c cs)
  then show ?case by (cases "audit_step cf c m") (auto dest: audit_step_state)
qed simp

lemma run_all_append: "run_all step (cs @ ds) s = run_all step ds (run_all step cs s)"
  by (induction cs arbitrary: s) simp_all

text \<open>A round of the dispatcher, when nobody else works, is a calm run of such steps.\<close>

definition entry_calls :: "audit_config \<Rightarrow> audit_dispatcher \<Rightarrow> (audit_item \<Rightarrow> bool) \<Rightarrow> instant \<Rightarrow> audit_item \<Rightarrow> audit_call list" where
  "entry_calls cf d report now e =
     (if report e then [Done (ae_id e) now]
      else [FailRead (ae_id e) ''PLATFORM_AUDIT_UNAVAILABLE'' (now + backoff d (ae_attempts e + 1)), FailWrite 0])"

definition round_calls :: "audit_config \<Rightarrow> audit_dispatcher \<Rightarrow> (audit_item \<Rightarrow> bool) \<Rightarrow> instant \<Rightarrow> audit_out list \<Rightarrow> audit_call list" where
  "round_calls cf d report now rows =
     Take (batchSize d) now # concat (map (entry_calls cf d report now) (fst (Claim cf (batchSize d) now rows)))"

lemma entry_run:
  "run_all (audit_step cf) (entry_calls cf d report now e) \<lparr>am_rows = rows, am_writes = []\<rparr> =
     \<lparr>am_rows = deliver_entry cf d report now e rows, am_writes = []\<rparr>"
  by (auto simp: entry_calls_def deliver_entry_def MarkFailed_def read_failure_def write_failure_def
      apply_failure_def res_simps split: sum.splits)

lemma entries_run:
  "run_all (audit_step cf) (concat (map (entry_calls cf d report now) es)) \<lparr>am_rows = rows, am_writes = []\<rparr> =
     \<lparr>am_rows = fold (deliver_entry cf d report now) es rows, am_writes = []\<rparr>"
  by (induction es arbitrary: rows) (simp_all add: run_all_append entry_run)

lemma round_is_a_run:
  "run_all (audit_step cf) (round_calls cf d report now rows) \<lparr>am_rows = rows, am_writes = []\<rparr> =
     \<lparr>am_rows = deliverOnce cf d report now rows, am_writes = []\<rparr>"
  by (simp add: round_calls_def deliverOnce_def entries_run case_prod_beta)

section \<open>Claiming\<close>

text \<open>A row with fewer than \<open>n\<close> rows before it is among the first \<open>n\<close>.\<close>

lemma take_sort_key:
  fixes f :: "'a \<Rightarrow> 'b::linorder"
  assumes x: "x \<in> set xs" and few: "length (filter (\<lambda>y. f y < f x) xs) < n"
    and inj: "\<And>y. y \<in> set xs \<Longrightarrow> f y = f x \<Longrightarrow> y = x"
  shows "x \<in> set (take n (sort_key f xs))"
proof (rule ccontr)
  let ?ys = "sort_key f xs"
  assume out: "x \<notin> set (take n ?ys)"
  have split: "?ys = take n ?ys @ drop n ?ys" by simp
  have "x \<in> set ?ys" using x by simp
  then have in_drop: "x \<in> set (drop n ?ys)" using out split by (metis Un_iff set_append)
  then have len: "length (take n ?ys) = n" by (cases "n \<le> length ?ys") auto
  have "sorted (map f (take n ?ys @ drop n ?ys))" by simp
  then have le: "f y \<le> f x" if "y \<in> set (take n ?ys)" for y
    using that in_drop by (auto simp only: map_append sorted_append set_map)
  have "f y < f x" if y: "y \<in> set (take n ?ys)" for y
  proof -
    from y have "y \<in> set xs" by (metis in_set_takeD set_sort)
    with inj [of y] y out le [OF y] show ?thesis by (metis order_less_le)
  qed
  then have "filter (\<lambda>y. f y < f x) (take n ?ys) = take n ?ys" by (simp add: filter_id_conv)
  then have "n \<le> length (filter (\<lambda>y. f y < f x) ?ys)"
    using len split by (metis filter_append length_append le_add1)
  moreover have "length (filter (\<lambda>y. f y < f x) ?ys) = length (filter (\<lambda>y. f y < f x) xs)"
    by (metis filter_sort length_sort)
  ultimately show False using few by simp
qed

text \<open>How many rows come before a row in the order of a claim.\<close>

definition rows_before :: "audit_config \<Rightarrow> instant \<Rightarrow> audit_out list \<Rightarrow> audit_out \<Rightarrow> nat" where
  "rows_before cf now rows r =
     length (filter (\<lambda>q. claim_order q < claim_order r) (filter (audit_claimable cf now) rows))"

lemma claimed_if_due:
  assumes inv: "distinct (map ao_id rows)" and r: "r \<in> set rows" and ok: "audit_ok cf r"
    and live: "ao_status r \<noteq> ''delivered''" "ao_status r \<noteq> ''failed''"
    and due: "ao_next r \<le> now" "\<forall>t. ao_locked r = Some t \<longrightarrow> t < now - lease_of cf"
    and few: "int (rows_before cf now rows r) < limit"
  shows "audit_item_of r \<in> set (fst (Claim cf limit now rows))"
proof -
  from ok live due have "audit_claimable cf now r"
    by (auto simp: audit_ok_def audit_claimable_def locked_before_def Let_def split: if_splits)
  with r have "r \<in> set (filter (audit_claimable cf now) rows)" by simp
  moreover have "y = r" if "y \<in> set (filter (audit_claimable cf now) rows)" "claim_order y = claim_order r" for y
    using that inv r unfolding distinct_map claim_order_def by (auto dest: inj_onD)
  moreover have "rows_before cf now rows r < nat limit" using few by simp
  ultimately have "r \<in> set (claimed_rows cf (nat limit) now rows)"
    unfolding claimed_rows_def rows_before_def by (intro take_sort_key) auto
  then show ?thesis using few by (auto simp: Claim_def Let_def)
qed

section \<open>Nothing is lost\<close>

text \<open>What is still possible with a row: nothing is needed, the operator or the next claim takes it.\<close>

definition recoverable :: "audit_config \<Rightarrow> audit_out list \<Rightarrow> audit_out \<Rightarrow> bool" where
  "recoverable cf rows r \<longleftrightarrow>
     ao_status r = ''delivered'' \<or>
     ao_status r = ''failed'' \<and>
       (\<forall>now. fst (RetryFailed (au_tenant (ao_content r)) (ao_id r) now rows)) \<or>
     (\<forall>now limit. ao_next r \<le> now \<longrightarrow> (\<forall>t. ao_locked r = Some t \<longrightarrow> t < now - lease_of cf) \<longrightarrow>
        int (rows_before cf now rows r) < limit \<longrightarrow>
        audit_item_of r \<in> set (fst (Claim cf limit now rows)))"

lemma failed_retried:
  assumes "distinct (map ao_id rows)" "r \<in> set rows" "ao_status r = ''failed''"
  shows "fst (RetryFailed (au_tenant (ao_content r)) (ao_id r) now rows)"
proof -
  let ?p = "failed_key (au_tenant (ao_content r)) (ao_id r)"
  have "\<And>q. q \<in> set rows \<Longrightarrow> ?p q \<Longrightarrow> q = r"
    using assms(1,2) unfolding distinct_map failed_key_def by (auto dest: inj_onD)
  moreover have "distinct rows" using assms(1) by (simp add: distinct_map)
  moreover have "?p r" using assms(3) by (simp add: failed_key_def)
  ultimately have "count_where ?p rows = 1"
    using assms(2)
  proof (induction rows)
    case (Cons q qs)
    show ?case
    proof (cases "q = r")
      case True
      have "count_where ?p qs = 0"
        using Cons.prems True by (auto simp: count_where_0)
      with True Cons.prems show ?thesis by simp
    qed (use Cons in auto)
  qed simp
  then show ?thesis by (simp add: RetryFailed_def)
qed

lemma ok_recoverable:
  assumes "distinct (map ao_id rows)" "r \<in> set rows" "audit_ok cf r"
  shows "recoverable cf rows r"
  unfolding recoverable_def using failed_retried [OF assms(1,2)] claimed_if_due [OF assms] by blast

text \<open>
  C7. No audit event is lost or altered, in whatever order and with whatever clocks writers add
  events, workers claim, deliver and fail, and operators retry; a worker's failure is two steps, and
  anything may happen between them. An event recorded in the outbox is there, unchanged, after any
  run. It is delivered, or given up and open to the operator's retry, or handed out by every claim
  at a moment when it is due, its lease is over and fewer rows than the batch holds are before it -
  or it is stranded: unlocked, waiting for a retry, with its attempts used up. The last needs a claim
  of the event between the two steps of a failure of it: in a run without such a claim no event is
  stranded.
\<close>

theorem audit_events_are_never_lost:
  assumes start: "audit_inv True cf start" "has_event i content (am_rows start)"
    and rows: "rows = am_rows (run_all (audit_step cf) calls start)"
  shows "\<exists>r. r \<in> set rows \<and> ao_id r = i \<and> ao_content r = content \<and>
    (recoverable cf rows r \<or> stranded cf r) \<and> (calm cf calls start \<longrightarrow> recoverable cf rows r)"
proof -
  let ?m = "run_all (audit_step cf) calls start"
  have strict: "audit_state True cf i content start" using start by (simp add: audit_state_def)
  then have "audit_state False cf i content start" by (auto simp: audit_state_def audit_inv_def)
  then have "audit_state False cf i content ?m" by (rule audits.run_inv) simp
  then have d: "distinct (map ao_id rows)" and all: "\<forall>r \<in> set rows. audit_ok cf r \<or> stranded cf r"
    and "has_event i content rows" by (auto simp: audit_state_def audit_inv_def rows)
  then obtain r where r: "r \<in> set rows" "ao_id r = i" "ao_content r = content"
    by (auto simp: has_event_def list_ex_iff)
  moreover have "audit_ok cf r" if "calm cf calls start"
    using calm_run [OF that strict] r(1) by (auto simp: audit_state_def audit_inv_def rows)
  ultimately show ?thesis using all ok_recoverable [OF d] by blast
qed

definition sample_audit :: audit_row where
  "sample_audit = audit_entry (sample_event ''EV1'' EventFieldStarted ''U1'' [])"

definition sample_audit_config :: audit_config where
  "sample_audit_config = \<lparr>ag_lease = 60 * second_ns, ag_max_tries = 2\<rparr>"

definition sample_dispatcher :: audit_dispatcher where
  "sample_dispatcher = \<lparr>ad_batch = 0, ad_max_backoff = 0\<rparr>"

definition audit_start :: audit_machine where
  "audit_start = \<lparr>am_rows = [new_audit ''E1'' sample_audit 0], am_writes = []\<rparr>"

definition audit_calls :: "audit_call list" where
  "audit_calls = round_calls sample_audit_config sample_dispatcher (\<lambda>_. False) 0 (am_rows audit_start) @
     [Add ''E2'' sample_audit (second_ns), Take 1 (2 * second_ns), Operator ''T1'' ''E1'' (3 * second_ns)]"

theorem audit_events_are_never_lost_witness:
  "\<exists>r. r \<in> set (am_rows (run_all (audit_step sample_audit_config) audit_calls audit_start)) \<and>
     ao_id r = ''E1'' \<and> ao_content r = sample_audit \<and> recoverable sample_audit_config
       (am_rows (run_all (audit_step sample_audit_config) audit_calls audit_start)) r"
proof -
  have "calm sample_audit_config audit_calls audit_start" by code_simp
  moreover have "audit_inv True sample_audit_config audit_start"
    "has_event ''E1'' sample_audit (am_rows audit_start)"
    by (simp_all add: audit_inv_def audit_ok_def has_event_def new_audit_def sample_audit_config_def audit_start_def)
  note audit_events_are_never_lost [OF this refl, of audit_calls]
  ultimately show ?thesis by blast
qed

section \<open>Back-off\<close>

lemma doubled_power: "doubled n base = base * 2 ^ n"
  by (induction n arbitrary: base) simp_all

text \<open>The waits grow from one second to at most 128 seconds, or to the maximum configured.\<close>

lemma backoff_bounds:
  "0 < backoff d n \<and> backoff d n \<le> 128 * second_ns \<and>
   (0 < ad_max_backoff d \<longrightarrow> backoff d n \<le> ad_max_backoff d)"
proof -
  have "(2::int) ^ (min n 8 - 1) \<le> 2 ^ 7" by (rule power_increasing) auto
  then show ?thesis by (auto simp: backoff_def Let_def doubled_power second_ns_def)
qed

lemma backoff_mono: "m \<le> n \<Longrightarrow> backoff d m \<le> backoff d n"
proof -
  assume "m \<le> n"
  then have "(2::int) ^ (min m 8 - 1) \<le> 2 ^ (min n 8 - 1)" by (intro power_increasing) auto
  then have "second_ns * 2 ^ (min m 8 - 1) \<le> second_ns * 2 ^ (min n 8 - 1)"
    by (intro mult_left_mono) (simp_all add: second_ns_def)
  moreover have "(if 0 < c \<and> c < a then c else a) \<le> (if 0 < c \<and> c < b then c else b)"
    if "a \<le> b" for a b c :: int using that by auto
  ultimately show ?thesis unfolding backoff_def Let_def doubled_power by blast
qed

text \<open>A delivery that failed is not repeated before its back-off.\<close>

lemma failed_delivery_waits:
  assumes f: "MarkFailed cf i code (now + backoff d n) rows = Inr rows'" and r: "r \<in> set rows'" "ao_id r = i"
    and later: "later < now + backoff d n"
  shows "\<not> audit_claimable cf later r"
proof -
  from f obtain status where "rows' = write_failed i status code (now + backoff d n) rows"
    by (auto simp: MarkFailed_def rbind_eq_Inr)
  with r(1) obtain q where q: "r = (if ao_id q = i
      then q\<lparr>ao_status := status, ao_next := now + backoff d n, ao_locked := None, ao_error := code\<rparr> else q)"
    by (auto simp only: write_failed_def update_where_map set_map image_iff)
  from r(2) have "ao_id q = i" unfolding q by (simp split: if_splits)
  then have "ao_next r = now + backoff d n" unfolding q by simp
  with later show ?thesis by (simp add: audit_claimable_def Let_def)
qed

section \<open>The two statements of a failure\<close>

text \<open>
  A worker whose lease is over reads the attempts; another worker claims the event for its last
  attempt; then the first one writes: the event waits for a retry with its attempts used up. If the
  second worker never ends its attempt, no claim sees the event again, and it is not among the
  failed ones an operator can retry.
\<close>

definition stranding_calls :: "audit_call list" where
  "stranding_calls = [Take 1 0, FailRead ''E1'' ''PLATFORM_AUDIT_UNAVAILABLE'' (62 * second_ns),
     Take 1 (61 * second_ns), FailWrite 0]"

definition stranded_run :: "audit_out list" where
  "stranded_run = am_rows (run_all (audit_step sample_audit_config) stranding_calls audit_start)"

lemma stranded_run_rows:
  "stranded_run = [\<lparr>ao_id = ''E1'', ao_content = sample_audit, ao_status = ''retry'', ao_attempts = 2,
     ao_next = 62 * second_ns, ao_locked = None, ao_delivered = None,
     ao_error = ''PLATFORM_AUDIT_UNAVAILABLE'', ao_created = 0\<rparr>]"
  by (simp add: stranded_run_def stranding_calls_def audit_start_def Claim_def claimed_rows_def
      audit_claimable_def new_audit_def sample_audit_config_def failed_status_def write_failed_def
      read_failure_def write_failure_def apply_failure_def locked_before_def lease_of_def second_ns_def Let_def)

lemma interrupted_failure_strands_event:
  "fst (Claim sample_audit_config limit now stranded_run) = [] \<and>
   \<not> fst (RetryFailed tenant ''E1'' now stranded_run) \<and> ListFailed tenant limit stranded_run = []"
  by (simp add: stranded_run_rows Claim_def claimed_rows_def audit_claimable_def RetryFailed_def
      failed_key_def ListFailed_def sample_audit_config_def Let_def)

section \<open>The backlog\<close>

lemma backlog_scan_sum:
  "backlog_scan counts b =
     \<lparr>bk_pending = bk_pending b + (\<Sum>(s, n) \<leftarrow> counts. if 0 < n \<and> s \<noteq> ''delivered'' \<and> s \<noteq> ''failed'' then n else 0),
      bk_dead = bk_dead b + (\<Sum>(s, n) \<leftarrow> counts. if 0 < n \<and> s = ''failed'' then n else 0)\<rparr>"
  by (induction counts b rule: backlog_scan.induct) auto

end
