(* ===== verification/NativeScope.thy ===== *)
theory NativeScope
  imports Activation
begin

text \<open>
  Projects without a contract (native projects): their scope of service items is a sequence of
  versions kept beside the items, and a new version needs the approval of a second person
  (\<open>mysql/native_scope_change.go\<close>, \<open>mysql/native_scope_guards.go\<close>, \<open>NativeScopeFingerprint\<close> of
  \<open>application/native_scope_change.go\<close>).

  The digest (SHA-256 of the JSON text) is a parameter of the operations: a function on what is
  serialised.
\<close>

section \<open>Scopes\<close>

text \<open>
  A service item as a scope carries it: the fields of \<open>domain.ServiceItem\<close> that are set on it. The
  tenant is not serialised.
\<close>

record scope_line =
  sl_id :: string
  sl_project :: string
  sl_source :: string
  sl_batch :: string
  sl_site :: string
  sl_site_code :: string
  sl_category :: string
  sl_requirement :: string
  sl_system :: string
  sl_system_level :: string
  sl_standard :: string
  sl_special :: string
  sl_mode :: string
  sl_codes :: "string list"
  sl_status :: string
  sl_conflict :: string

record scope_version =
  sv_tenant :: string
  sv_project :: string
  sv_version :: nat
  sv_source :: string
  sv_actor :: string
  sv_items :: "scope_line list"
  sv_created_at :: instant

record scope_change =
  nc_id :: string
  nc_tenant :: string
  nc_project :: string
  nc_operation :: string
  nc_pending :: "string option"
  nc_fingerprint :: string
  nc_base :: nat
  nc_expected :: nat
  nc_version :: nat
  nc_status :: string
  nc_reason :: string
  nc_requested_by :: string
  nc_decided_by :: string
  nc_decision_operation :: string
  nc_decision_fingerprint :: string
  nc_comment :: string
  nc_scope_hash :: string
  nc_catalog_hash :: string
  nc_applied :: nat
  nc_items :: "scope_line list"
  nc_created_at :: instant
  nc_decided_at :: "instant option"

record scope_input =
  si_operation :: string
  si_expected :: nat
  si_base :: nat
  si_reason :: string
  si_services :: "contract_service list"

record scope_decision =
  sd_operation :: string
  sd_expected :: nat
  sd_decision :: string
  sd_comment :: string

record site_row =
  se_tenant :: string
  se_code :: string
  se_name :: string
  se_status :: string

datatype catalog_fact = FactCategory detection_category | FactSite site_row

record native_digests =
  dg_command :: "string \<times> scope_input \<times> scope_line list \<Rightarrow> string"
  dg_scope :: "scope_line list \<Rightarrow> string"
  dg_catalog :: "(string \<rightharpoonup> catalog_fact) \<Rightarrow> string"

text \<open>The idempotence fence of the creation of projects, and the local counterparties.\<close>

record project_command =
  pc_tenant :: string
  pc_source :: string
  pc_fingerprint :: string
  pc_project :: string

record counterparty =
  cy_tenant :: string
  cy_id :: string
  cy_name :: string

record native_state =
  nx_store :: store
  nx_scopes :: "scope_version list"
  nx_changes :: "scope_change list"
  nx_config :: split_store
  nx_sites :: "site_row list"
  nx_commands :: "project_command list"
  nx_parties :: "counterparty list"

text \<open>
  What a call brings: the transaction's environment, the tenant and the data scope of the caller,
  the caller, the actor the request's audit context names, and the identifiers drawn.
\<close>

record native_call =
  nq_env :: env
  nq_digests :: native_digests
  nq_tenant :: string
  nq_scope :: "project_row \<Rightarrow> bool"
  nq_actor :: string
  nq_audit_actor :: string
  nq_change_ulid :: string
  nq_event_ulid :: string
  nq_item_ulids :: "nat \<Rightarrow> string"

section \<open>Fingerprints\<close>

text \<open>Only the business fields count, and not the order of the lines or of the codes.\<close>

definition fingerprint_line :: "scope_line \<Rightarrow> scope_line" where
  "fingerprint_line l =
     l\<lparr>sl_id := [], sl_project := [], sl_codes := sort (sl_codes l), sl_status := [], sl_conflict := []\<rparr>"

definition NativeScopeFingerprint :: "native_digests \<Rightarrow> scope_line list \<Rightarrow> string" where
  "NativeScopeFingerprint dg items = dg_scope dg (sort_key sl_source (map fingerprint_line items))"

definition nativeScopeCommandFingerprint ::
  "native_digests \<Rightarrow> string \<Rightarrow> scope_input \<Rightarrow> scope_line list \<Rightarrow> string" where
  "nativeScopeCommandFingerprint dg actor input items = dg_command dg (actor, input, items)"

text \<open>The line of a row (\<open>serviceFromRecord\<close>).\<close>

definition line_of_item :: "service_item \<Rightarrow> scope_line" where
  "line_of_item i =
     \<lparr>sl_id = it_id i, sl_project = it_project i, sl_source = it_source_service i, sl_batch = it_batch i,
      sl_site = it_site i, sl_site_code = it_site_code i, sl_category = it_category i,
      sl_requirement = it_requirement i, sl_system = it_system i, sl_system_level = it_system_level i,
      sl_standard = it_system_standard i, sl_special = it_special i, sl_mode = it_test_mode i,
      sl_codes = column_strs (it_codes i), sl_status = it_status i, sl_conflict = it_conflict i\<rparr>"

section \<open>Guards\<close>

text \<open>
  The column \<open>pending_project\<close> of the proposals is what the guards of the delivery see as
  \<open>st_pending_scopes\<close>.
\<close>

definition pending_of :: "scope_change list \<Rightarrow> (string \<times> string) list" where
  "pending_of cs = map (\<lambda>c. (nc_tenant c, the (nc_pending c))) (filter (\<lambda>c. nc_pending c \<noteq> None) cs)"

definition with_pending :: "native_state \<Rightarrow> store" where
  "with_pending st = (nx_store st)\<lparr>st_pending_scopes := pending_of (nx_changes st)\<rparr>"

definition project_items :: "store \<Rightarrow> project_row \<Rightarrow> service_item list" where
  "project_items s p =
     filter (\<lambda>i. it_tenant i = pj_tenant p \<and> it_project i = pj_id p \<and> item_live i) (st_items s)"

definition lockNativeProject :: "native_call \<Rightarrow> native_state \<Rightarrow> string \<Rightarrow> app_error + project_row" where
  "lockNativeProject q st i =
     (case find (\<lambda>p. pj_tenant p = nq_tenant q \<and> nq_scope q p \<and> pj_id p = i) (st_projects (nx_store st)) of
        None \<Rightarrow> Inl ErrNotFound
      | Some p \<Rightarrow> if pj_source_kind p \<noteq> ''NATIVE'' \<or> pj_scope_version p < 1 then Inl ErrPrecondition else Inr p)"

definition decodeStrings :: "json \<Rightarrow> string list" where
  "decodeStrings j = (case json_list json_str j of None \<Rightarrow> [''INVALID''] | Some ss \<Rightarrow> ss)"

text \<open>The two states of an item nothing has been done with: to confirm, to review.\<close>

definition scope_item_idle :: "service_item \<Rightarrow> bool" where
  "scope_item_idle i \<longleftrightarrow>
     (it_status i = ServiceItemStatusPendingConfirm \<or> it_status i = ServiceItemStatusPendingReview) \<and>
     it_team_lead i = [] \<and> it_manager i = [] \<and> decodeStrings (it_engineers i) = [] \<and>
     decodeStrings (it_equipment i) = [] \<and> it_planned_start i = None \<and> it_planned_end i = None \<and>
     it_report_revision i = 0 \<and> (it_report_status i = [] \<or> it_report_status i = ''NONE'')"

definition started_event :: "event_type \<Rightarrow> bool" where
  "started_event ty \<longleftrightarrow> List.member
     [EventFieldStarted, EventFieldCheckedIn, EventFieldRecordSubmitted, EventFieldSignatureCaptured,
      EventFieldCompleted, EventReportStatusUpdated] ty"

definition lockNativeScopeEligible :: "store \<Rightarrow> project_row \<Rightarrow> app_error + service_item list" where
  "lockNativeScopeEligible s p =
     (let rows = sort_key it_id (project_items s p); ids = map it_id rows; tenant = pj_tenant p in
      if rows = [] then Inl ErrPrecondition
      else if \<not> list_all scope_item_idle rows then Inl ErrPrecondition
      else if list_ex (\<lambda>r. rv_tenant r = tenant \<and> List.member ids (rv_item r)) (st_revisions s) then Inl ErrPrecondition
      else if list_ex (\<lambda>e. ev_tenant e = tenant \<and> List.member ids (ev_item e)) (st_evidence s) then Inl ErrPrecondition
      else if list_ex (\<lambda>e. er_tenant e = tenant \<and> er_project e = pj_id p \<and> started_event (er_type e)) (st_events s)
      then Inl ErrPrecondition
      else if list_ex (\<lambda>r. pl_tenant r = tenant \<and> List.member ids (pl_item r) \<and>
                 (pl_planned_start r \<noteq> None \<or> pl_planned_end r \<noteq> None)) (st_plans s) then Inl ErrPrecondition
      else Inr rows)"

definition scope_key :: "string \<Rightarrow> string \<Rightarrow> nat \<Rightarrow> scope_version \<Rightarrow> bool" where
  "scope_key tenant project version v \<longleftrightarrow>
     sv_tenant v = tenant \<and> sv_project v = project \<and> sv_version v = version"

definition checkNativeScopeBaseline ::
  "native_digests \<Rightarrow> native_state \<Rightarrow> project_row \<Rightarrow> service_item list \<Rightarrow> app_error + unit" where
  "checkNativeScopeBaseline dg st p active =
     (case find (scope_key (pj_tenant p) (pj_id p) (pj_scope_version p)) (nx_scopes st) of
        None \<Rightarrow> Inl ErrStorage
      | Some v \<Rightarrow>
          rguard (NativeScopeFingerprint dg (sv_items v) = NativeScopeFingerprint dg (map line_of_item active))
            ErrPrecondition)"

definition site_key :: "env \<Rightarrow> string \<Rightarrow> string \<Rightarrow> site_row \<Rightarrow> bool" where
  "site_key env tenant code r \<longleftrightarrow> se_tenant r = tenant \<and> sql_eq env (se_code r) code"

text \<open>One line against the catalogue and the sites as they are now.\<close>

definition catalog_codes :: "detection_category \<Rightarrow> string list" where
  "catalog_codes c = remdups_adj (sort (map (\<lambda>code. to_upper (trim_space code)) (SplitCapabilityCodes (dc_codes c))))"

definition line_in_catalog :: "env \<Rightarrow> native_state \<Rightarrow> string \<Rightarrow> scope_line \<Rightarrow> bool" where
  "line_in_catalog env st tenant l \<longleftrightarrow>
     (case find (\<lambda>c. category_row env tenant (sl_category l) c \<and> dc_enabled c) (ss_categories (nx_config st)) of
        None \<Rightarrow> False
      | Some c \<Rightarrow>
          catalog_codes c = sort (sl_codes l) \<and> dc_standard c = sl_standard l \<and>
          \<not> (dc_special c = SpecialMethodRequired \<and> sl_mode l \<noteq> ''PENETRATION'') \<and>
          (sl_mode l = ''STANDARD'' \<or> sl_mode l = ''PENETRATION'') \<and>
          (if sl_site_code l = [] then True
           else case find (\<lambda>r. site_key env tenant (sl_site_code l) r \<and> se_status r = ''ACTIVE'') (nx_sites st) of
             None \<Rightarrow> False
           | Some r \<Rightarrow> se_name r = sl_site l))"

definition validateNativeScopeCatalog ::
  "env \<Rightarrow> native_state \<Rightarrow> string \<Rightarrow> scope_line list \<Rightarrow> app_error + unit" where
  "validateNativeScopeCatalog env st tenant items =
     (if length items < 1 \<or> 200 < length items then Inl ErrValidation
      else rguard (list_all (line_in_catalog env st tenant) items) ErrConflict)"

text \<open>What of the catalogue an approval rests on.\<close>

fun catalog_facts ::
  "env \<Rightarrow> native_state \<Rightarrow> string \<Rightarrow> (string \<rightharpoonup> catalog_fact) \<Rightarrow> scope_line list \<Rightarrow> app_error + (string \<rightharpoonup> catalog_fact)"
where
  "catalog_facts env st tenant facts [] = Inr facts"
| "catalog_facts env st tenant facts (l # ls) =
     (case find (category_row env tenant (sl_category l)) (ss_categories (nx_config st)) of
        None \<Rightarrow> Inl ErrStorage
      | Some c \<Rightarrow>
          let facts = facts(''category:'' @ sl_category l \<mapsto> FactCategory c) in
          if sl_site_code l = [] then catalog_facts env st tenant facts ls
          else case find (site_key env tenant (sl_site_code l)) (nx_sites st) of
            None \<Rightarrow> Inl ErrStorage
          | Some r \<Rightarrow> catalog_facts env st tenant (facts(''site:'' @ sl_site_code l \<mapsto> FactSite r)) ls)"

definition nativeScopeCatalogFingerprint ::
  "env \<Rightarrow> native_digests \<Rightarrow> native_state \<Rightarrow> string \<Rightarrow> scope_line list \<Rightarrow> app_error + string" where
  "nativeScopeCatalogFingerprint env dg st tenant items =
     rbind (catalog_facts env st tenant Map.empty items) (\<lambda>facts. Inr (dg_catalog dg facts))"

section \<open>The record of a change\<close>

definition scope_event :: "native_call \<Rightarrow> project_row \<Rightarrow> scope_change \<Rightarrow> string \<Rightarrow> event_row" where
  "scope_event q p c action =
     \<lparr>er_id = nq_event_ulid q, er_tenant = pj_tenant p, er_project = pj_id p, er_item = [],
      er_type = EventOther action, er_actor = nq_actor q, er_operation = None, er_captured_at = None,
      er_payload = [(''change_id'', JStr (nc_id c)), (''base_scope_version'', JNum (int (nc_base c))),
        (''applied_scope_version'', JNum (int (nc_applied c))), (''scope_hash'', JStr (nc_scope_hash c)),
        (''reason'', JStr (nc_reason c)), (''comment'', JStr (nc_comment c)),
        (''requested_by'', JStr (nc_requested_by c)), (''decided_by'', JStr (nc_decided_by c))],
      er_created_at = env_clock (nq_env q)\<rparr>"

definition scope_audit :: "native_call \<Rightarrow> project_row \<Rightarrow> scope_change \<Rightarrow> string \<Rightarrow> audit_row" where
  "scope_audit q p c action =
     \<lparr>au_tenant = pj_tenant p, au_actor = actorPointer (nq_actor q), au_actor_type = ''USER'',
      au_action = ''PROJECT_MANAGEMENT:'' @ action, au_resource_type = ''native_scope_change'',
      au_resource = nc_id c, au_result = ''SUCCESS'', au_delivery_status = ''pending''\<rparr>"

definition saveNativeScopeEvent ::
  "native_call \<Rightarrow> project_row \<Rightarrow> scope_change \<Rightarrow> string \<Rightarrow> native_state \<Rightarrow> app_error + native_state" where
  "saveNativeScopeEvent q p c action st =
     (let s = nx_store st; row = scope_event q p c action in
      if list_ex (event_duplicate row) (st_events s) then Inl ErrStorage
      else Inr (st\<lparr>nx_store := s\<lparr>st_events := st_events s @ [row],
                                  st_audit := st_audit s @ [scope_audit q p c action]\<rparr>\<rparr>))"

section \<open>Requests\<close>

text \<open>
  New lines get an identity of their own, \<open>NL-<change>-<nnn>\<close>; a line that names an identity must
  name one of the current scope, and no identity twice.
\<close>

definition line_identity :: "string \<Rightarrow> nat \<Rightarrow> scope_line \<Rightarrow> string" where
  "line_identity change index l =
     (if sl_source l = [] then ''NL-'' @ change @ ''-'' @ show_nat3 (index + 1) else sl_source l)"

fun freeze_lines ::
  "string \<Rightarrow> string \<Rightarrow> string list \<Rightarrow> nat \<Rightarrow> string list \<Rightarrow> scope_line list \<Rightarrow> app_error + scope_line list" where
  "freeze_lines change project known index seen [] = Inr []"
| "freeze_lines change project known index seen (l # ls) =
     (if sl_source l \<noteq> [] \<and> \<not> List.member known (sl_source l) then Inl ErrValidation
      else let line = line_identity change index l in
        if List.member seen line then Inl ErrValidation
        else rbind (freeze_lines change project known (index + 1) (line # seen) ls) (\<lambda>rest.
          Inr (l\<lparr>sl_source := line, sl_project := project\<rparr> # rest)))"

definition newNativeScopeChange ::
  "native_call \<Rightarrow> project_row \<Rightarrow> scope_input \<Rightarrow> scope_line list \<Rightarrow> service_item list \<Rightarrow> string \<Rightarrow> app_error + scope_change"
where
  "newNativeScopeChange q p input items active fingerprint =
     rbind (freeze_lines (nq_change_ulid q) (pj_id p) (map it_source_service active) 0 [] items) (\<lambda>lines.
       Inr \<lparr>nc_id = nq_change_ulid q, nc_tenant = pj_tenant p, nc_project = pj_id p,
            nc_operation = si_operation input, nc_pending = Some (pj_id p), nc_fingerprint = fingerprint,
            nc_base = si_base input, nc_expected = si_expected input, nc_version = 1,
            nc_status = ''PENDING'', nc_reason = si_reason input, nc_requested_by = nq_actor q,
            nc_decided_by = [], nc_decision_operation = [], nc_decision_fingerprint = [], nc_comment = [],
            nc_scope_hash = NativeScopeFingerprint (nq_digests q) lines, nc_catalog_hash = [],
            nc_applied = 0, nc_items = lines, nc_created_at = env_clock (nq_env q), nc_decided_at = None\<rparr>)"

definition operation_key :: "env \<Rightarrow> string \<Rightarrow> string \<Rightarrow> string \<Rightarrow> scope_change \<Rightarrow> bool" where
  "operation_key env tenant project operation c \<longleftrightarrow>
     nc_tenant c = tenant \<and> nc_project c = project \<and> sql_eq env (nc_operation c) operation"

text \<open>The unique keys of the table of proposals.\<close>

definition change_duplicate :: "env \<Rightarrow> scope_change \<Rightarrow> scope_change \<Rightarrow> bool" where
  "change_duplicate env c d \<longleftrightarrow>
     sql_eq env (nc_id d) (nc_id c) \<or> operation_key env (nc_tenant c) (nc_project c) (nc_operation c) d \<or>
     nc_pending c \<noteq> None \<and> nc_tenant d = nc_tenant c \<and> nc_pending d = nc_pending c"

definition insert_change :: "env \<Rightarrow> scope_change \<Rightarrow> native_state \<Rightarrow> app_error + native_state" where
  "insert_change env c st =
     (if list_ex (change_duplicate env c) (nx_changes st) then Inl ErrStorage
      else Inr (st\<lparr>nx_changes := nx_changes st @ [c]\<rparr>))"

text \<open>What the request adds when it is no repetition.\<close>

definition propose_scope ::
  "native_call \<Rightarrow> project_row \<Rightarrow> scope_input \<Rightarrow> scope_line list \<Rightarrow> native_state \<Rightarrow> app_error + scope_change \<times> native_state"
where
  "propose_scope q p input items st =
     (let env = nq_env q; dg = nq_digests q; s = with_pending st in
      if pj_version p \<noteq> si_expected input \<or> pj_scope_version p \<noteq> si_base input then Inl ErrConflict
      else
        rbind (ensureNoPendingNativeScope s p) (\<lambda>_.
        rbind (lockNativeScopeEligible s p) (\<lambda>active.
        rbind (checkNativeScopeBaseline dg st p active) (\<lambda>_.
        rbind (validateNativeScopeCatalog env st (nq_tenant q) items) (\<lambda>_.
        rbind (newNativeScopeChange q p input items active
                 (nativeScopeCommandFingerprint dg (nq_actor q) input items)) (\<lambda>row.
        rbind (nativeScopeCatalogFingerprint env dg st (nq_tenant q) (nc_items row)) (\<lambda>catalog.
        let row = row\<lparr>nc_catalog_hash := catalog\<rparr> in
        rbind (insert_change env row st) (\<lambda>st.
        rbind (saveNativeScopeEvent q p row ''NATIVE_SCOPE_CHANGE_REQUESTED'' st) (\<lambda>st.
        Inr (row, st))))))))))"

definition RequestNativeScope ::
  "native_call \<Rightarrow> string \<Rightarrow> scope_input \<Rightarrow> scope_line list \<Rightarrow> native_state \<Rightarrow> app_error + scope_change \<times> native_state"
where
  "RequestNativeScope q i input items st =
     rbind (lockNativeProject q st i) (\<lambda>p.
       case find (operation_key (nq_env q) (nq_tenant q) i (si_operation input)) (nx_changes st) of
         Some old \<Rightarrow>
           if nc_fingerprint old \<noteq> nativeScopeCommandFingerprint (nq_digests q) (nq_actor q) input items
           then Inl ErrConflict else Inr (old, st)
       | None \<Rightarrow> propose_scope q p input items st)"

section \<open>Decisions\<close>

text \<open>The \<open>CHECK\<close> constraint of the table.\<close>

definition change_check :: "env \<Rightarrow> scope_change \<Rightarrow> bool" where
  "change_check env c \<longleftrightarrow>
     nc_status c = ''PENDING'' \<and> nc_pending c = Some (nc_project c) \<and> nc_decided_at c = None \<and> nc_applied c = 0 \<or>
     (nc_status c = ''APPROVED'' \<or> nc_status c = ''REJECTED'' \<or> nc_status c = ''WITHDRAWN'') \<and>
       nc_pending c = None \<and> nc_decided_at c \<noteq> None \<and> \<not> sql_eq env (nc_decided_by c) [] \<and>
       (nc_status c = ''APPROVED'' \<longrightarrow>
          \<not> sql_eq env (nc_requested_by c) (nc_decided_by c) \<and> nc_applied c = nc_base c + 1)"

definition scope_item_row :: "native_call \<Rightarrow> project_row \<Rightarrow> scope_line \<Rightarrow> service_item" where
  "scope_item_row q p l =
     \<lparr>it_id = sl_id l, it_tenant = pj_tenant p, it_project = pj_id p, it_source_service = sl_source l,
      it_batch = sl_batch l, it_site = sl_site l, it_site_code = sl_site_code l, it_category = sl_category l,
      it_requirement = sl_requirement l, it_system = sl_system l, it_system_level = sl_system_level l,
      it_system_standard = sl_standard l, it_special = sl_special l, it_test_mode = sl_mode l,
      it_team_lead = [], it_manager = [], it_engineers = JNull, it_equipment = JNull,
      it_codes = (if sl_codes l = [] then JNull else JStrs (sl_codes l)),
      it_planned_start = None, it_planned_end = None, it_conflict = ''UNCHECKED'', it_tech_status = [],
      it_tech_at = None, it_tech_by = [], it_tech_comment = [], it_report_status = [], it_report_at = None,
      it_report_by = [], it_report_revision = 0, it_prepared_by = [], it_reviewed_by = [], it_issued_by = [],
      it_status = sl_status l, it_status_changed_at = Some (env_clock (nq_env q)), it_version = 1,
      it_created_at = env_clock (nq_env q), it_updated_at = env_clock (nq_env q), it_updated_by = nq_actor q,
      it_archived_at = None\<rparr>"

text \<open>The frozen lines become items to confirm, each with a new identifier.\<close>

definition applied_lines :: "native_call \<Rightarrow> scope_line list \<Rightarrow> scope_line list" where
  "applied_lines q ls =
     map (\<lambda>(index, l). l\<lparr>sl_id := nq_item_ulids q index, sl_status := ServiceItemStatusPendingConfirm\<rparr>)
       (enumerate 0 ls)"

fun insert_scope_items :: "service_item list \<Rightarrow> store \<Rightarrow> app_error + store" where
  "insert_scope_items [] s = Inr s"
| "insert_scope_items (i # is) s =
     (if list_ex (\<lambda>j. it_id j = it_id i) (st_items s) then Inl ErrStorage
      else insert_scope_items is (s\<lparr>st_items := st_items s @ [i]\<rparr>))"

definition archive_items :: "instant \<Rightarrow> project_row \<Rightarrow> store \<Rightarrow> store" where
  "archive_items now p s =
     s\<lparr>st_items := update_where
         (\<lambda>i. it_tenant i = pj_tenant p \<and> it_project i = pj_id p \<and> item_live i)
         (\<lambda>i. i\<lparr>it_archived_at := Some now\<rparr>) (st_items s)\<rparr>"

definition insert_scope :: "scope_version \<Rightarrow> native_state \<Rightarrow> app_error + native_state" where
  "insert_scope v st =
     (if list_ex (scope_key (sv_tenant v) (sv_project v) (sv_version v)) (nx_scopes st) then Inl ErrStorage
      else Inr (st\<lparr>nx_scopes := nx_scopes st @ [v]\<rparr>))"

definition advance_project :: "instant \<Rightarrow> project_row \<Rightarrow> nat \<Rightarrow> nat \<Rightarrow> store \<Rightarrow> store" where
  "advance_project now p next' services s =
     s\<lparr>st_projects := update_where (\<lambda>r. pj_id r = pj_id p)
         (\<lambda>r. r\<lparr>pj_scope_version := next', pj_version := pj_version p + 1, pj_services := services,
                pj_status := ProjectStatusPendingDecomposition, pj_progress := 0, pj_updated_at := now\<rparr>)
         (st_projects s)\<rparr>"

definition applyNativeScope ::
  "native_call \<Rightarrow> project_row \<Rightarrow> scope_change \<Rightarrow> native_state \<Rightarrow> app_error + scope_change \<times> native_state"
where
  "applyNativeScope q p row st =
     (let env = nq_env q; dg = nq_digests q; now = env_clock env; tenant = pj_tenant p in
      if pj_scope_version p \<noteq> nc_base row \<or> pj_version p \<noteq> nc_expected row then Inl ErrConflict
      else
        rbind (lockNativeScopeEligible (nx_store st) p) (\<lambda>active.
        rbind (checkNativeScopeBaseline dg st p active) (\<lambda>_.
        if NativeScopeFingerprint dg (nc_items row) \<noteq> nc_scope_hash row then Inl ErrConflict
        else
          rbind (validateNativeScopeCatalog env st tenant (nc_items row)) (\<lambda>_.
          rbind (nativeScopeCatalogFingerprint env dg st tenant (nc_items row)) (\<lambda>catalog.
          if catalog \<noteq> nc_catalog_hash row then Inl ErrConflict
          else
            let lines = applied_lines q (nc_items row); next' = pj_scope_version p + 1 in
            rbind (insert_scope_items (map (scope_item_row q p) lines) (archive_items now p (nx_store st))) (\<lambda>s.
            rbind (insert_scope \<lparr>sv_tenant = tenant, sv_project = pj_id p, sv_version = next',
                sv_source = pj_source_id p, sv_actor = nq_actor q, sv_items = lines, sv_created_at = now\<rparr> st) (\<lambda>st.
            Inr (row\<lparr>nc_applied := next', nc_items := lines\<rparr>,
                 st\<lparr>nx_store := advance_project now p next' (length lines) s\<rparr>))))))))"

definition decision_status :: "string \<Rightarrow> string" where
  "decision_status d =
     (if d = ''APPROVE'' then ''APPROVED'' else if d = ''REJECT'' then ''REJECTED''
      else if d = ''WITHDRAW'' then ''WITHDRAWN'' else [])"

text \<open>\<open>tx.Save\<close> of the decided proposal.\<close>

definition save_change :: "env \<Rightarrow> scope_change \<Rightarrow> native_state \<Rightarrow> app_error + native_state" where
  "save_change env c st =
     (if \<not> change_check env c then Inl ErrStorage
      else Inr (st\<lparr>nx_changes := update_where (\<lambda>d. nc_id d = nc_id c) (\<lambda>_. c) (nx_changes st)\<rparr>))"

definition decision_fingerprint :: "native_digests \<Rightarrow> string \<Rightarrow> scope_decision \<Rightarrow> string" where
  "decision_fingerprint dg actor d =
     nativeScopeCommandFingerprint dg actor
       \<lparr>si_operation = sd_operation d, si_expected = 0, si_base = sd_expected d,
        si_reason = sd_decision d @ [CHR 0x0A] @ sd_comment d, si_services = []\<rparr> []"

definition decided_change :: "native_call \<Rightarrow> scope_decision \<Rightarrow> string \<Rightarrow> scope_change \<Rightarrow> scope_change" where
  "decided_change q d status row =
     row\<lparr>nc_status := status, nc_version := nc_version row + 1, nc_pending := None,
         nc_decided_by := nq_actor q, nc_decided_at := Some (env_clock (nq_env q)),
         nc_comment := sd_comment d, nc_decision_operation := sd_operation d,
         nc_decision_fingerprint := decision_fingerprint (nq_digests q) (nq_actor q) d\<rparr>"

definition decide_pending ::
  "native_call \<Rightarrow> project_row \<Rightarrow> scope_decision \<Rightarrow> scope_change \<Rightarrow> native_state \<Rightarrow> app_error + scope_change \<times> native_state"
where
  "decide_pending q p d row st =
     (let status = decision_status (sd_decision d) in
      if nc_version row \<noteq> sd_expected d then Inl ErrConflict
      else if (if sd_decision d = ''WITHDRAW'' then nc_requested_by row \<noteq> nq_actor q
               else nc_requested_by row = nq_actor q) then Inl ErrForbidden
      else if status = [] then Inl ErrValidation
      else
        rbind (if sd_decision d = ''APPROVE'' then applyNativeScope q p row st else Inr (row, st)) (\<lambda>(row, st).
        let row = decided_change q d status row in
        rbind (save_change (nq_env q) row st) (\<lambda>st.
        rbind (saveNativeScopeEvent q p row (''NATIVE_SCOPE_CHANGE_'' @ status) st) (\<lambda>st.
        Inr (row, st)))))"

definition change_key :: "env \<Rightarrow> string \<Rightarrow> string \<Rightarrow> string \<Rightarrow> scope_change \<Rightarrow> bool" where
  "change_key env tenant project i c \<longleftrightarrow>
     nc_tenant c = tenant \<and> nc_project c = project \<and> sql_eq env (nc_id c) i"

definition DecideNativeScope ::
  "native_call \<Rightarrow> string \<Rightarrow> string \<Rightarrow> scope_decision \<Rightarrow> native_state \<Rightarrow> app_error + scope_change \<times> native_state"
where
  "DecideNativeScope q key i d st =
     rbind (lockNativeProject q st key) (\<lambda>p.
       case find (change_key (nq_env q) (nq_tenant q) key i) (nx_changes st) of
         None \<Rightarrow> Inl ErrNotFound
       | Some row \<Rightarrow>
           if nc_status row \<noteq> ''PENDING''
           then if nc_decision_operation row \<noteq> sd_operation d \<or>
                   nc_decision_fingerprint row \<noteq> decision_fingerprint (nq_digests q) (nq_actor q) d
                then Inl ErrConflict else Inr (row, st)
           else decide_pending q p d row st)"

section \<open>Repetition, reading, confirmation\<close>

text \<open>The request as it was frozen, with the identities of lines the caller gave.\<close>

definition replay_lines :: "scope_input \<Rightarrow> scope_line list \<Rightarrow> scope_line list" where
  "replay_lines input items =
     map (\<lambda>(l, s). l\<lparr>sl_id := [], sl_project := [], sl_source := trim_space (cs_source s)\<rparr>)
       (zip items (si_services input))"

definition ReplayNativeScope ::
  "native_call \<Rightarrow> string \<Rightarrow> scope_input \<Rightarrow> native_state \<Rightarrow> app_error + scope_change option" where
  "ReplayNativeScope q i input st =
     rbind (lockNativeProject q st i) (\<lambda>_.
       case find (operation_key (nq_env q) (nq_tenant q) i (si_operation input)) (nx_changes st) of
         None \<Rightarrow> Inr None
       | Some row \<Rightarrow>
           if length (si_services input) \<noteq> length (nc_items row) then Inl ErrConflict
           else if nativeScopeCommandFingerprint (nq_digests q) (nq_actor q) input
                     (replay_lines input (nc_items row)) \<noteq> nc_fingerprint row
           then Inl ErrConflict else Inr (Some row))"

record scope_state =
  ns_project :: string
  ns_project_version :: nat
  ns_scope_version :: nat
  ns_items :: "scope_line list"
  ns_changes :: "scope_change list"

definition ReadNativeScope :: "native_call \<Rightarrow> string \<Rightarrow> native_state \<Rightarrow> app_error + scope_state" where
  "ReadNativeScope q i st =
     rbind (lockNativeProject q st i) (\<lambda>p.
       case find (scope_key (nq_tenant q) i (pj_scope_version p)) (nx_scopes st) of
         None \<Rightarrow> Inl ErrStorage
       | Some v \<Rightarrow>
           Inr \<lparr>ns_project = i, ns_project_version = pj_version p, ns_scope_version = pj_scope_version p,
                ns_items = sv_items v,
                ns_changes = take 20 (rev (sort_key (\<lambda>c. (nc_created_at c, nc_id c))
                  (filter (\<lambda>c. nc_tenant c = nq_tenant q \<and> nc_project c = i) (nx_changes st))))\<rparr>)"

definition guardNativeScopeConfirmation ::
  "native_digests \<Rightarrow> string \<Rightarrow> string \<Rightarrow> native_state \<Rightarrow> app_error + unit" where
  "guardNativeScopeConfirmation dg tenant i st =
     (case find_project (nx_store st) tenant i of None \<Rightarrow> Inl ErrStorage
      | Some p \<Rightarrow>
          if pj_source_kind p = [] \<or> pj_source_kind p = ''CONTRACT'' then Inr ()
          else if pj_source_kind p \<noteq> ''NATIVE'' then Inl ErrPrecondition
          else rbind (ensureNoPendingNativeScope (with_pending st) p) (\<lambda>_.
            checkNativeScopeBaseline dg st p (project_items (nx_store st) p)))"

definition ValidateNativeScopeIfApplicable :: "native_call \<Rightarrow> string \<Rightarrow> native_state \<Rightarrow> app_error + bool" where
  "ValidateNativeScopeIfApplicable q i st =
     (case find (\<lambda>p. pj_tenant p = nq_tenant q \<and> nq_scope q p \<and> pj_id p = i) (st_projects (nx_store st)) of
        None \<Rightarrow> Inl ErrNotFound
      | Some p \<Rightarrow>
          if pj_source_kind p = [] \<or> pj_source_kind p = ''CONTRACT'' then Inr False
          else if pj_source_kind p \<noteq> ''NATIVE'' then Inl ErrPrecondition
          else rbind (guardNativeScopeConfirmation (nq_digests q) (nq_tenant q) i st) (\<lambda>_. Inr True))"

end
