(* ===== verification/NativeProject.thy ===== *)
theory NativeProject
  imports NativeScope
begin

text \<open>
  The operations of users on native projects (\<open>application/native_project.go\<close>,
  \<open>application/native_scope_change.go\<close>) and the transaction that creates one
  (\<open>mysql/native_project.go\<close>).
\<close>

section \<open>The caller\<close>

text \<open>
  \<open>nu_scope\<close> is the data scope of a permission (nothing without it), \<open>nu_frozen\<close> whether a user is
  being handed over (\<open>None\<close>: the check failed); the digests, the clock and the identifiers drawn are
  in \<open>nu_call\<close>, whose tenant and actor are the caller's.
\<close>

record native_user =
  nu_call :: native_call
  nu_has :: "string \<Rightarrow> bool"
  nu_roles :: "string list"
  nu_user :: string
  nu_scope :: "string \<Rightarrow> (project_row \<Rightarrow> bool) option"
  nu_allow_all :: bool
  nu_allow_self :: bool
  nu_orgs :: "string list"
  nu_enabled :: bool
  nu_frozen :: "string \<Rightarrow> bool option"
  nu_project_ulid :: string
  nu_project_digest :: "project_row \<times> scope_line list \<Rightarrow> string"
  nu_counts :: "string \<Rightarrow> int"

definition nu_tenant :: "native_user \<Rightarrow> string" where
  "nu_tenant u = nq_tenant (nu_call u)"

definition nu_identity :: "native_user \<Rightarrow> string" where
  "nu_identity u = nq_actor (nu_call u)"

definition mayCreateProject :: "native_user \<Rightarrow> bool" where
  "mayCreateProject u \<longleftrightarrow> nu_has u ''project.create'' \<and>
     list_ex (\<lambda>r. trim_space r = ''admin'' \<or> trim_space r = ''business_admin'') (nu_roles u)"

definition principalHasRole :: "native_user \<Rightarrow> string \<Rightarrow> bool" where
  "principalHasRole u role \<longleftrightarrow> List.member (nu_roles u) role"

definition mayRequestNativeScope :: "native_user \<Rightarrow> bool" where
  "mayRequestNativeScope u \<longleftrightarrow> nu_has u ''project.decomposition.manage'' \<and> principalHasRole u ''business_admin''"

definition mayApproveNativeScope :: "native_user \<Rightarrow> bool" where
  "mayApproveNativeScope u \<longleftrightarrow> nu_has u ''project.native_scope.approve'' \<and>
     (principalHasRole u ''technical_director'' \<or> principalHasRole u ''admin'')"

definition ensureManagerNotFrozen :: "native_user \<Rightarrow> string \<Rightarrow> app_error + unit" where
  "ensureManagerNotFrozen u manager =
     (if trim_space manager = [] then Inr ()
      else case nu_frozen u (trim_space manager) of
        None \<Rightarrow> Inl ErrStorage | Some frozen \<Rightarrow> if frozen then Inl ErrManagerFrozen else Inr ())"

text \<open>The call of the repository under the scope of a permission.\<close>

definition nativeScopeAccess :: "native_user \<Rightarrow> string \<Rightarrow> app_error + native_call" where
  "nativeScopeAccess u permission =
     (case nu_scope u permission of None \<Rightarrow> Inl ErrForbidden
      | Some scope \<Rightarrow>
          if \<not> nu_enabled u then Inl ErrPrecondition
          else if trim_space (nu_identity u) = [] \<or> trim_space (nu_tenant u) = [] then Inl ErrForbidden
          else Inr ((nu_call u)\<lparr>nq_scope := scope\<rparr>))"

section \<open>References\<close>

definition reference_start :: "char \<Rightarrow> bool" where
  "reference_start c \<longleftrightarrow>
     CHR ''A'' \<le> c \<and> c \<le> CHR ''Z'' \<or> CHR ''a'' \<le> c \<and> c \<le> CHR ''z'' \<or> CHR ''0'' \<le> c \<and> c \<le> CHR ''9''"

definition reference_char :: "char \<Rightarrow> bool" where
  "reference_char c \<longleftrightarrow> reference_start c \<or> c = CHR ''_'' \<or> c = CHR ''.'' \<or> c = CHR '':'' \<or> c = CHR ''-''"

text \<open>The pattern \<open>^[A-Za-z0-9][A-Za-z0-9_.:-]{0,63}$\<close>.\<close>

definition nativeReferencePattern :: "string \<Rightarrow> bool" where
  "nativeReferencePattern s \<longleftrightarrow>
     (case s of [] \<Rightarrow> False
      | c # cs \<Rightarrow> reference_start c \<and> list_all reference_char cs \<and> length cs \<le> 63)"

section \<open>The items of a scope\<close>

definition text_ok :: "string \<Rightarrow> nat \<Rightarrow> bool" where
  "text_ok v n \<longleftrightarrow> rune_count (trim_space v) \<le> n"

definition validateContractServiceTexts :: "contract_service list \<Rightarrow> app_error + unit" where
  "validateContractServiceTexts items =
     rguard (list_all (\<lambda>s. text_ok (cs_site s) 255 \<and> text_ok (cs_batch s) 64 \<and> text_ok (cs_category s) 255 \<and>
       text_ok (cs_system s) 128 \<and> text_ok (cs_system_level s) 64 \<and> text_ok (cs_requirement s) 2000) items)
       ErrValidation"

definition native_site :: "env \<Rightarrow> native_state \<Rightarrow> string \<Rightarrow> contract_service \<Rightarrow> app_error + string \<times> string" where
  "native_site env st tenant s =
     (let name = trim_space (cs_site s); code = trim_space (cs_site_code s) in
      if code = [] then Inr (name, [])
      else case find (site_key env tenant code) (nx_sites st) of
        None \<Rightarrow> Inl ErrValidation
      | Some r \<Rightarrow> if se_status r \<noteq> ''ACTIVE'' then Inl ErrValidation else Inr (se_name r, se_code r))"

definition first_batch_text :: string where
  "first_batch_text =
    [CHR 0xE7, CHR 0xAC, CHR 0xAC, CHR 0xE4, CHR 0xB8, CHR 0x80, CHR 0xE6, CHR 0x89, CHR 0xB9]"

definition native_entries :: "detection_category list \<Rightarrow> (string \<rightharpoonup> detection_category)" where
  "native_entries cs = foldl (\<lambda>m c. if dc_enabled c then m(splitCategoryKey (dc_category c) \<mapsto> c) else m) Map.empty cs"

definition native_line :: "nat \<Rightarrow> contract_service \<Rightarrow> detection_category \<Rightarrow> string \<Rightarrow> string \<Rightarrow> string \<Rightarrow> scope_line" where
  "native_line index s c mode site code =
     \<lparr>sl_id = [], sl_project = [], sl_source = ''NATIVE-'' @ show_nat3 (index + 1),
      sl_batch = firstNonEmpty (trim_space (cs_batch s)) first_batch_text, sl_site = trim_space site,
      sl_site_code = code, sl_category = dc_category c, sl_requirement = trim_space (cs_requirement s),
      sl_system = trim_space (cs_system s), sl_system_level = trim_space (cs_system_level s),
      sl_standard = dc_standard c, sl_special = yesNo (mode = ''PENETRATION''), sl_mode = mode,
      sl_codes = category_codes c, sl_status = ServiceItemStatusPendingConfirm, sl_conflict = ''UNCHECKED''\<rparr>"

fun native_lines ::
  "env \<Rightarrow> native_state \<Rightarrow> string \<Rightarrow> (string \<rightharpoonup> detection_category) \<Rightarrow> nat \<Rightarrow> contract_service list \<Rightarrow>
     app_error + scope_line list"
where
  "native_lines env st tenant entries index [] = Inr []"
| "native_lines env st tenant entries index (s # ss) =
     (let mode = to_upper (firstNonEmpty (trim_space (cs_test_mode s)) ''STANDARD'') in
      case entries (splitCategoryKey (cs_category s)) of None \<Rightarrow> Inl ErrValidation
      | Some c \<Rightarrow>
          if trim_space (cs_site s) = [] \<or> (mode \<noteq> ''STANDARD'' \<and> mode \<noteq> ''PENETRATION'') then Inl ErrValidation
          else
            let mode = (if dc_special c = SpecialMethodRequired then ''PENETRATION'' else mode) in
            rbind (native_site env st tenant s) (\<lambda>(site, code).
            rbind (native_lines env st tenant entries (index + 1) ss) (\<lambda>rest.
            Inr (native_line index s c mode site code # rest))))"

text \<open>The first read of the catalogue of a tenant writes it.\<close>

definition nativeServiceItems ::
  "native_user \<Rightarrow> contract_service list \<Rightarrow> native_state \<Rightarrow> app_error + scope_line list \<times> native_state" where
  "nativeServiceItems u requested st =
     (let env = nq_env (nu_call u) in
      if requested = [] \<or> 200 < length requested then Inl ErrValidation
      else
        rbind (validateContractServiceTexts requested) (\<lambda>_.
        let (catalog, config) = ListDetectionCategories env (nu_counts u) (nu_tenant u) (nx_config st);
            st = st\<lparr>nx_config := config\<rparr> in
        rbind (native_lines env st (nu_tenant u) (native_entries catalog) 0 requested) (\<lambda>lines.
        Inr (lines, st))))"

section \<open>Changes of a scope\<close>

fun take_identities :: "string list \<Rightarrow> contract_service list \<Rightarrow> app_error + unit" where
  "take_identities seen [] = Inr ()"
| "take_identities seen (s # ss) =
     (let line = trim_space (cs_source s) in
      if line \<noteq> [] \<and> (\<not> nativeReferencePattern line \<or> List.member seen line) then Inl ErrValidation
      else take_identities (if line = [] then seen else line # seen) ss)"

definition with_identities :: "contract_service list \<Rightarrow> scope_line list \<Rightarrow> scope_line list" where
  "with_identities requested items =
     map (\<lambda>(l, s). l\<lparr>sl_source := trim_space (cs_source s)\<rparr>) (zip items requested)"

definition reason_ok :: "string \<Rightarrow> bool" where
  "reason_ok reason \<longleftrightarrow> reason \<noteq> [] \<and> \<not> List.member reason (CHR 0x00) \<and> rune_count reason \<le> 500"

definition Service_RequestNativeScope ::
  "native_user \<Rightarrow> string \<Rightarrow> scope_input \<Rightarrow> native_state \<Rightarrow> app_error + scope_change \<times> native_state" where
  "Service_RequestNativeScope u i input st =
     (if \<not> mayRequestNativeScope u then Inl ErrForbidden
      else rbind (nativeScopeAccess u ''project.decomposition.manage'') (\<lambda>q.
        let input = input\<lparr>si_reason := trim_space (si_reason input)\<rparr> in
        if \<not> nativeReferencePattern (si_operation input) \<or> si_base input < 1 \<or> si_expected input < 1 \<or>
           \<not> reason_ok (si_reason input) then Inl ErrValidation
        else
          rbind (ReplayNativeScope q i input st) (\<lambda>replay.
          case replay of Some change \<Rightarrow> Inr (change, st)
          | None \<Rightarrow>
              rbind (ensureManagerNotFrozen u (nu_identity u)) (\<lambda>_.
              rbind (nativeServiceItems u (si_services input) st) (\<lambda>(items, st).
              rbind (take_identities [] (si_services input)) (\<lambda>_.
              RequestNativeScope q i input (with_identities (si_services input) items) st))))))"

text \<open>What a reader sees, and whether it may ask for a change or approve one.\<close>

definition Service_ReadNativeScope ::
  "native_user \<Rightarrow> string \<Rightarrow> native_state \<Rightarrow> app_error + scope_state \<times> bool \<times> bool \<times> string" where
  "Service_ReadNativeScope u i st =
     rbind (nativeScopeAccess u ''project.read'') (\<lambda>q.
     rbind (ReadNativeScope q i st) (\<lambda>s.
     Inr (s, mayRequestNativeScope u, mayApproveNativeScope u, nu_identity u)))"

definition normal_decision :: "scope_decision \<Rightarrow> scope_decision" where
  "normal_decision d =
     d\<lparr>sd_decision := to_upper (trim_space (sd_decision d)), sd_comment := trim_space (sd_comment d)\<rparr>"

definition Service_DecideNativeScope ::
  "native_user \<Rightarrow> string \<Rightarrow> string \<Rightarrow> scope_decision \<Rightarrow> native_state \<Rightarrow> app_error + scope_change \<times> native_state"
where
  "Service_DecideNativeScope u project change d st =
     (let d = normal_decision d in
      if (if sd_decision d = ''WITHDRAW'' then \<not> mayRequestNativeScope u else \<not> mayApproveNativeScope u)
      then Inl ErrForbidden
      else
        rbind (nativeScopeAccess u (if sd_decision d = ''WITHDRAW'' then ''project.decomposition.manage''
                                    else ''project.native_scope.approve'')) (\<lambda>q.
        if \<not> nativeReferencePattern (sd_operation d) \<or> sd_expected d < 1 \<or> \<not> reason_ok (sd_comment d) \<or>
           (sd_decision d \<noteq> ''APPROVE'' \<and> sd_decision d \<noteq> ''REJECT'' \<and> sd_decision d \<noteq> ''WITHDRAW'')
        then Inl ErrValidation
        else
          rbind (ensureManagerNotFrozen u (nu_identity u)) (\<lambda>_.
          DecideNativeScope q project change d st)))"

section \<open>Creation\<close>

definition optional_org :: "native_user \<Rightarrow> project_row \<Rightarrow> project_row" where
  "optional_org u p =
     (case nu_orgs u of
        [org] \<Rightarrow> if pj_owner_org p = [] then p\<lparr>pj_owner_org := org\<rparr> else p
      | _ \<Rightarrow> p)"

definition normalizeNativeProject :: "native_user \<Rightarrow> project_row \<Rightarrow> app_error + project_row" where
  "normalizeNativeProject u input =
     (if pj_source_kind input \<noteq> ''NATIVE'' \<or> pj_contract_id input \<noteq> [] \<or> pj_contract input \<noteq> [] \<or>
         pj_contract_version input \<noteq> [] then Inl ErrValidation
      else
        let input = input\<lparr>pj_name := trim_space (pj_name input), pj_customer := trim_space (pj_customer input),
              pj_customer_id := trim_space (pj_customer_id input), pj_source_id := trim_space (pj_source_id input)\<rparr> in
        if pj_name input = [] \<or> pj_customer input = [] \<or> \<not> nativeReferencePattern (pj_customer_id input) \<or>
           \<not> nativeReferencePattern (pj_source_id input) then Inl ErrValidation
        else if \<not> (text_ok (pj_name input) 255 \<and> text_ok (pj_customer input) 255 \<and> text_ok (pj_team input) 128 \<and>
                   text_ok (pj_manager input) 128 \<and> text_ok (pj_due input) 64 \<and> text_ok (pj_owner_org input) 64 \<and>
                   text_ok (pj_manager_identity input) 128) then Inl ErrValidation
        else if \<not> nu_allow_all u \<and> pj_owner_org input \<noteq> [] \<and> \<not> List.member (nu_orgs u) (pj_owner_org input)
        then Inl ErrForbidden
        else
          let input = (if nu_allow_all u then input else optional_org u input) in
          if \<not> nu_allow_all u \<and> \<not> nu_allow_self u \<and> pj_owner_org input = [] then Inl ErrForbidden
          else Inr
            \<lparr>pj_id = [], pj_tenant = nu_tenant u, pj_source_kind = ''NATIVE'', pj_source_id = pj_source_id input,
             pj_scope_version = 1, pj_owner_org = pj_owner_org input, pj_name = pj_name input,
             pj_customer = pj_customer input, pj_customer_id = pj_customer_id input, pj_contract = [],
             pj_contract_id = [], pj_contract_version = [], pj_supplement = ''NONE'', pj_services = 0,
             pj_category = [], pj_team = firstNonEmpty (trim_space (pj_team input)) unassigned_text,
             pj_manager = firstNonEmpty (trim_space (pj_manager input)) dash_text,
             pj_owner_identity = firstNonEmpty (nu_identity u) (nu_user u),
             pj_manager_identity = pj_manager_identity input, pj_status = ProjectStatusPendingDecomposition,
             pj_progress = 0, pj_due = trim_space (pj_due input), pj_created_at = 0, pj_updated_at = 0,
             pj_version = 1\<rparr>)"

definition command_key :: "env \<Rightarrow> string \<Rightarrow> string \<Rightarrow> project_command \<Rightarrow> bool" where
  "command_key env tenant source c \<longleftrightarrow> pc_tenant c = tenant \<and> sql_eq env (pc_source c) source"

definition party_key :: "env \<Rightarrow> string \<Rightarrow> string \<Rightarrow> counterparty \<Rightarrow> bool" where
  "party_key env tenant i c \<longleftrightarrow> cy_tenant c = tenant \<and> sql_eq env (cy_id c) i"

definition saveNativeCounterparty :: "env \<Rightarrow> project_row \<Rightarrow> counterparty list \<Rightarrow> app_error + counterparty list" where
  "saveNativeCounterparty env p cs =
     (case find (party_key env (pj_tenant p) (pj_customer_id p)) cs of
        None \<Rightarrow> Inr (cs @ [\<lparr>cy_tenant = pj_tenant p, cy_id = pj_customer_id p, cy_name = pj_customer p\<rparr>])
      | Some c \<Rightarrow> if cy_name c \<noteq> pj_customer p then Inl ErrConflict else Inr cs)"

definition native_duplicate :: "env \<Rightarrow> project_row \<Rightarrow> project_row \<Rightarrow> bool" where
  "native_duplicate env project p \<longleftrightarrow> pj_id p = pj_id project \<or>
     pj_tenant p = pj_tenant project \<and> pj_source_kind p = ''NATIVE'' \<and>
     sql_eq env (pj_source_id p) (pj_source_id project)"

definition saveNativeProjectRows ::
  "native_call \<Rightarrow> project_row \<Rightarrow> scope_line list \<Rightarrow> native_state \<Rightarrow> app_error + native_state" where
  "saveNativeProjectRows q p items st =
     (let s = nx_store st in
      if list_ex (native_duplicate (nq_env q) p) (st_projects s) then Inl ErrStorage
      else
        rbind (insert_scope_items (map (\<lambda>l. (scope_item_row q p l)\<lparr>it_codes := JStrs (sl_codes l),
                 it_conflict := sl_conflict l, it_updated_by := []\<rparr>) items)
                 (s\<lparr>st_projects := st_projects s @ [p\<lparr>pj_services := length items, pj_scope_version := 1, pj_version := 1\<rparr>]\<rparr>)) (\<lambda>s.
        if list_ex (scope_key (pj_tenant p) (pj_id p) 1) (nx_scopes st) then Inl ErrStorage
        else Inr (st\<lparr>nx_store := s, nx_scopes := nx_scopes st @
               [\<lparr>sv_tenant = pj_tenant p, sv_project = pj_id p, sv_version = 1, sv_source = pj_source_id p,
                 sv_actor = pj_owner_identity p, sv_items = items, sv_created_at = pj_created_at p\<rparr>]\<rparr>)))"

definition created_audit :: "native_call \<Rightarrow> project_row \<Rightarrow> audit_row" where
  "created_audit q p =
     \<lparr>au_tenant = pj_tenant p,
      au_actor = actorPointer (if trim_space (nq_audit_actor q) = [] then pj_owner_identity p else nq_audit_actor q),
      au_actor_type = ''USER'', au_action = ''PROJECT_MANAGEMENT:NATIVE_PROJECT_CREATED'',
      au_resource_type = ''project'', au_resource = pj_id p, au_result = ''SUCCESS'',
      au_delivery_status = ''pending''\<rparr>"

definition create_native ::
  "native_call \<Rightarrow> project_row \<Rightarrow> scope_line list \<Rightarrow> native_state \<Rightarrow> app_error + project_row \<times> native_state" where
  "create_native q p items st =
     rbind (saveNativeCounterparty (nq_env q) p (nx_parties st)) (\<lambda>parties.
     rbind (saveNativeProjectRows q p items (st\<lparr>nx_parties := parties\<rparr>)) (\<lambda>st.
     let s = nx_store st in
     Inr (p, st\<lparr>nx_store := s\<lparr>st_audit := st_audit s @ [created_audit q p]\<rparr>,
                nx_commands := update_where (command_key (nq_env q) (pj_tenant p) (pj_source_id p))
                  (\<lambda>c. c\<lparr>pc_project := pj_id p\<rparr>) (nx_commands st)\<rparr>)))"

definition Repo_CreateNativeProject ::
  "native_call \<Rightarrow> project_row \<Rightarrow> scope_line list \<Rightarrow> string \<Rightarrow> native_state \<Rightarrow> app_error + project_row \<times> native_state" where
  "Repo_CreateNativeProject q p items fingerprint st =
     (if pj_source_kind p \<noteq> ''NATIVE'' \<or> pj_contract_id p \<noteq> [] \<or> pj_contract p \<noteq> [] \<or> pj_contract_version p \<noteq> [] \<or>
         pj_scope_version p \<noteq> 1 \<or> pj_source_id p = [] \<or> pj_tenant p \<noteq> nq_tenant q \<or> items = [] \<or>
         200 < length items \<or> fingerprint = [] then Inl ErrValidation
      else
        let key = command_key (nq_env q) (pj_tenant p) (pj_source_id p);
            commands = (if list_ex key (nx_commands st) then nx_commands st
              else nx_commands st @ [\<lparr>pc_tenant = pj_tenant p, pc_source = pj_source_id p,
                                     pc_fingerprint = fingerprint, pc_project = []\<rparr>]) in
        case find key commands of None \<Rightarrow> Inl ErrStorage
        | Some command \<Rightarrow>
            if pc_fingerprint command \<noteq> fingerprint then Inl ErrConflict
            else if pc_project command \<noteq> []
            then (case find (\<lambda>r. pj_tenant r = nq_tenant q \<and> nq_scope q r \<and> pj_id r = pc_project command)
                        (st_projects (nx_store st)) of
                    None \<Rightarrow> Inl ErrForbidden
                  | Some r \<Rightarrow> Inr (r, st))
            else create_native q p items (st\<lparr>nx_commands := commands\<rparr>))"

definition numbered_lines :: "string \<Rightarrow> scope_line list \<Rightarrow> scope_line list" where
  "numbered_lines project items =
     map (\<lambda>(index, l). l\<lparr>sl_project := project, sl_id := ''SI-'' @ trim_prefix ''PJ-'' project @ ''-'' @ show_nat3 (index + 1)\<rparr>)
       (enumerate 0 items)"

definition CreateNativeProject ::
  "native_user \<Rightarrow> project_row \<Rightarrow> contract_service list \<Rightarrow> native_state \<Rightarrow> app_error + project_row \<times> native_state" where
  "CreateNativeProject u input requested st =
     (if \<not> mayCreateProject u then Inl ErrForbidden
      else case nu_scope u ''project.create'' of None \<Rightarrow> Inl ErrForbidden
      | Some scope \<Rightarrow>
          if \<not> nu_enabled u then Inl ErrPrecondition
          else
            rbind (normalizeNativeProject u input) (\<lambda>p.
            rbind (ensureManagerNotFrozen u (pj_manager_identity p)) (\<lambda>_.
            rbind (nativeServiceItems u requested st) (\<lambda>(items, st').
            let fingerprint = nu_project_digest u (p, items); now = env_clock (nq_env (nu_call u));
                i = projectID (nq_env (nu_call u)) (nu_project_ulid u);
                project = p\<lparr>pj_id := i, pj_created_at := now, pj_updated_at := now, pj_services := length items\<rparr> in
            Repo_CreateNativeProject ((nu_call u)\<lparr>nq_scope := scope\<rparr>) project (numbered_lines i items)
              fingerprint (st\<lparr>nx_config := nx_config st'\<rparr>)))))"

end
