(* ===== verification/NativeProps.thy ===== *)
theory NativeProps
  imports NativeProject ProjectIdentity SplitProps EventHistory
begin

text \<open>
  Properties of native projects: every version of a scope but the first was approved by a second
  person, versions and decisions are never rewritten, a repeated request changes nothing, and an open
  proposal holds the project.
\<close>

section \<open>Steps\<close>

datatype native_step =
    UCreate native_user project_row "contract_service list"
  | URequest native_user string scope_input
  | UDecide native_user string string scope_decision
  | UDelivery env transaction
  | UConfigure split_store "site_row list"

text \<open>Deliveries see the pending proposals through the column the guards query.\<close>

fun native_run_step :: "native_step \<Rightarrow> native_state \<Rightarrow> app_error + native_state" where
  "native_run_step (UCreate u p requested) st = map_sum id snd (CreateNativeProject u p requested st)"
| "native_run_step (URequest u i input) st = map_sum id snd (Service_RequestNativeScope u i input st)"
| "native_run_step (UDecide u i change d) st = map_sum id snd (Service_DecideNativeScope u i change d st)"
| "native_run_step (UDelivery env tr) st =
     map_sum id (\<lambda>s. st\<lparr>nx_store := s\<rparr>) (execute env tr (with_pending st))"
| "native_run_step (UConfigure config sites) st = Inr (st\<lparr>nx_config := config, nx_sites := sites\<rparr>)"

section \<open>Invariant\<close>

definition approved_as :: "scope_change \<Rightarrow> scope_version \<Rightarrow> bool" where
  "approved_as c v \<longleftrightarrow> nc_status c = ''APPROVED'' \<and> nc_requested_by c \<noteq> nc_decided_by c \<and>
     nc_tenant c = sv_tenant v \<and> nc_project c = sv_project v \<and> nc_applied c = sv_version v \<and>
     nc_base c + 1 = sv_version v \<and> nc_items c = sv_items v \<and> nc_decided_by c = sv_actor v"

definition change_ok :: "scope_change \<Rightarrow> bool" where
  "change_ok c \<longleftrightarrow>
     list_all (\<lambda>l. sl_status l = ServiceItemStatusPendingConfirm) (nc_items c) \<and>
     (nc_status c = ''PENDING'' \<and> nc_pending c = Some (nc_project c) \<and> nc_version c = 1 \<and> nc_applied c = 0 \<or>
      nc_pending c = None \<and> nc_version c = 2 \<and>
        (nc_status c = ''APPROVED'' \<and> nc_requested_by c \<noteq> nc_decided_by c \<or>
         nc_status c = ''REJECTED'' \<and> nc_requested_by c \<noteq> nc_decided_by c \<or>
         nc_status c = ''WITHDRAWN'' \<and> nc_requested_by c = nc_decided_by c))"

definition scope_index :: "scope_version \<Rightarrow> string \<times> string \<times> nat" where
  "scope_index v = (sv_tenant v, sv_project v, sv_version v)"

definition versions_of :: "scope_version list \<Rightarrow> string \<Rightarrow> string \<Rightarrow> nat set" where
  "versions_of vs t i = {n. (t, i, n) \<in> set (map scope_index vs)}"

text \<open>Every native project has the versions one to the one in force, and no other project has any.\<close>

definition ident_id :: "project_ident \<Rightarrow> string" where
  "ident_id x = fst (snd x)"

lemma ident_id_simps [simp]: "ident_id (t, i, x) = i"
  by (simp add: ident_id_def)

definition scopes_match :: "project_ident list \<Rightarrow> scope_version list \<Rightarrow> bool" where
  "scopes_match ids vs \<longleftrightarrow>
     distinct (map ident_id ids) \<and>
     (\<forall>(t, i, c, n, k, m) \<in> set ids. k = ''NATIVE'' \<longrightarrow> versions_of vs t i = {1..m}) \<and>
     (\<forall>v \<in> set vs. \<exists>c n m. (sv_tenant v, sv_project v, c, n, ''NATIVE'', m) \<in> set ids)"

definition native_inv :: "native_state \<Rightarrow> bool" where
  "native_inv st \<longleftrightarrow>
     distinct (map nc_id (nx_changes st)) \<and> list_all change_ok (nx_changes st) \<and>
     list_all (\<lambda>v. sv_version v = 1 \<or> list_ex (\<lambda>c. approved_as c v) (nx_changes st)) (nx_scopes st) \<and>
     scopes_match (idents (nx_store st)) (nx_scopes st)"

text \<open>A proposal later: the same request, and the same row once it is decided.\<close>

definition bare_line :: "scope_line \<Rightarrow> scope_line" where
  "bare_line l = l\<lparr>sl_id := [], sl_project := []\<rparr>"

definition same_request :: "scope_change \<Rightarrow> scope_change \<Rightarrow> bool" where
  "same_request c d \<longleftrightarrow>
     nc_id d = nc_id c \<and> nc_tenant d = nc_tenant c \<and> nc_project d = nc_project c \<and>
     nc_operation d = nc_operation c \<and> nc_fingerprint d = nc_fingerprint c \<and>
     nc_requested_by d = nc_requested_by c \<and>
     map bare_line (nc_items d) = map bare_line (nc_items c) \<and>
     (nc_status c \<noteq> ''PENDING'' \<longrightarrow> d = c)"

definition continues :: "native_state \<Rightarrow> native_state \<Rightarrow> bool" where
  "continues st st' \<longleftrightarrow>
     (\<exists>cs new. nx_changes st' = cs @ new \<and> list_all2 same_request (nx_changes st) cs) \<and>
     (\<exists>new. nx_scopes st' = nx_scopes st @ new)"

lemma same_request_refl: "same_request c c"
  by (simp add: same_request_def)

lemma same_request_trans: "same_request a b \<Longrightarrow> same_request b c \<Longrightarrow> same_request a c"
  by (auto simp: same_request_def)

lemma continues_refl: "continues st st"
  by (auto simp: continues_def intro: list_all2_refl same_request_refl)

lemma continues_trans:
  assumes "continues a b" "continues b c" shows "continues a c"
proof -
  from assms(1) obtain cs new vs where b: "nx_changes b = cs @ new" "list_all2 same_request (nx_changes a) cs"
    "nx_scopes b = nx_scopes a @ vs" by (auto simp: continues_def)
  from assms(2) obtain ds more ws where c: "nx_changes c = ds @ more" "list_all2 same_request (cs @ new) ds"
    "nx_scopes c = nx_scopes b @ ws" by (auto simp: continues_def b)
  from c(2) obtain d1 d2 where d: "ds = d1 @ d2" "list_all2 same_request cs d1"
    by (auto simp: list_all2_append1)
  have "list_all2 same_request (nx_changes a) d1"
    by (rule list_all2_trans [OF same_request_trans b(2) d(2)])
  then show ?thesis unfolding continues_def c(1) d(1) c(3) b(3)
    by (intro conjI exI [of _ d1] exI [of _ "d2 @ more"] exI [of _ "vs @ ws"]) simp_all
qed

section \<open>What the operations do\<close>

lemma lockNativeProjectE:
  assumes "lockNativeProject q st i = Inr p"
  shows "p \<in> set (st_projects (nx_store st))" and "pj_tenant p = nq_tenant q" and "pj_id p = i"
    and "pj_source_kind p = ''NATIVE''" and "1 \<le> pj_scope_version p"
  using assms by (auto simp: lockNativeProject_def find_Some_iff split: option.splits if_splits)

lemma saveNativeScopeEvent_fields:
  "saveNativeScopeEvent q p c action st = Inr st' \<Longrightarrow>
   nx_changes st' = nx_changes st \<and> nx_scopes st' = nx_scopes st \<and>
   st_projects (nx_store st') = st_projects (nx_store st)"
  by (auto simp: saveNativeScopeEvent_def Let_def split: if_splits)

lemma freeze_lines_bare:
  "freeze_lines change project known n seen ls = Inr ls' \<Longrightarrow>
   map (\<lambda>l. l\<lparr>sl_source := [], sl_project := []\<rparr>) ls' = map (\<lambda>l. l\<lparr>sl_source := [], sl_project := []\<rparr>) ls"
  by (induction change project known n seen ls arbitrary: ls' rule: freeze_lines.induct)
    (auto simp: Let_def res_simps split: if_splits)

lemma propose_scopeE:
  assumes "propose_scope q p input items st = Inr (c, st')"
  obtains active lines catalog where
    "newNativeScopeChange q p input items active
       (nativeScopeCommandFingerprint (nq_digests q) (nq_actor q) input items) = Inr lines"
    and "c = lines\<lparr>nc_catalog_hash := catalog\<rparr>" and "\<not> list_ex (change_duplicate (nq_env q) c) (nx_changes st)"
    and "nx_changes st' = nx_changes st @ [c]" and "nx_scopes st' = nx_scopes st"
    and "st_projects (nx_store st') = st_projects (nx_store st)"
proof -
  obtain active lines catalog st1 where
    n: "newNativeScopeChange q p input items active
       (nativeScopeCommandFingerprint (nq_digests q) (nq_actor q) input items) = Inr lines"
    and i: "insert_change (nq_env q) (lines\<lparr>nc_catalog_hash := catalog\<rparr>) st = Inr st1"
    and s: "saveNativeScopeEvent q p (lines\<lparr>nc_catalog_hash := catalog\<rparr>) ''NATIVE_SCOPE_CHANGE_REQUESTED'' st1 = Inr st'"
    and c: "c = lines\<lparr>nc_catalog_hash := catalog\<rparr>"
    using assms by (auto simp: propose_scope_def Let_def res_simps split: if_splits)
  show thesis
    by (rule that [OF n c]) (use i saveNativeScopeEvent_fields [OF s] in
        \<open>auto simp: insert_change_def c split: if_splits\<close>)
qed

text \<open>A new proposal as the store keeps it.\<close>

definition proposal :: "native_call \<Rightarrow> project_row \<Rightarrow> scope_input \<Rightarrow> scope_line list \<Rightarrow> scope_change \<Rightarrow> bool" where
  "proposal q p input items c \<longleftrightarrow>
     nc_status c = ''PENDING'' \<and> nc_pending c = Some (nc_project c) \<and> nc_version c = 1 \<and> nc_applied c = 0 \<and>
     nc_tenant c = pj_tenant p \<and> nc_project c = pj_id p \<and> nc_operation c = si_operation input \<and>
     nc_requested_by c = nq_actor q \<and>
     nc_fingerprint c = nativeScopeCommandFingerprint (nq_digests q) (nq_actor q) input items \<and>
     map (\<lambda>l. l\<lparr>sl_source := [], sl_project := []\<rparr>) (nc_items c) =
       map (\<lambda>l. l\<lparr>sl_source := [], sl_project := []\<rparr>) items"

lemma newNativeScopeChange_proposal:
  assumes "newNativeScopeChange q p input items active
      (nativeScopeCommandFingerprint (nq_digests q) (nq_actor q) input items) = Inr c"
  shows "proposal q p input items (c\<lparr>nc_catalog_hash := h\<rparr>)"
  using assms freeze_lines_bare by (fastforce simp: newNativeScopeChange_def res_simps proposal_def)

lemma RequestNativeScopeE:
  assumes "RequestNativeScope q i input items st = Inr (c, st')"
  obtains p where "lockNativeProject q st i = Inr p"
      "find (operation_key (nq_env q) (nq_tenant q) i (si_operation input)) (nx_changes st) = Some c" "st' = st"
  | p where "lockNativeProject q st i = Inr p"
      "find (operation_key (nq_env q) (nq_tenant q) i (si_operation input)) (nx_changes st) = None"
      "proposal q p input items c" "\<not> list_ex (change_duplicate (nq_env q) c) (nx_changes st)"
      "nx_changes st' = nx_changes st @ [c]" "nx_scopes st' = nx_scopes st"
      "st_projects (nx_store st') = st_projects (nx_store st)"
proof -
  from assms obtain p where l: "lockNativeProject q st i = Inr p"
    by (auto simp: RequestNativeScope_def res_simps)
  show thesis
  proof (cases "find (operation_key (nq_env q) (nq_tenant q) i (si_operation input)) (nx_changes st)")
    case None
    with assms l have "propose_scope q p input items st = Inr (c, st')" by (simp add: RequestNativeScope_def)
    then show thesis
      by (rule propose_scopeE) (rule that(2) [OF l None], auto dest: newNativeScopeChange_proposal)
  next
    case (Some old)
    with assms l have "c = old" "st' = st" by (auto simp: RequestNativeScope_def split: if_splits)
    then show thesis using that(1) [OF l] Some by simp
  qed
qed

text \<open>What an accepted decision leaves: the proposal decided, and the version it approves.\<close>

definition decided_from :: "scope_change \<Rightarrow> scope_change \<Rightarrow> bool" where
  "decided_from c d \<longleftrightarrow>
     nc_id d = nc_id c \<and> nc_tenant d = nc_tenant c \<and> nc_project d = nc_project c \<and>
     nc_operation d = nc_operation c \<and> nc_fingerprint d = nc_fingerprint c \<and>
     nc_requested_by d = nc_requested_by c \<and> nc_base d = nc_base c \<and>
     nc_version d = nc_version c + 1 \<and> nc_pending d = None"

lemma insert_scope_items_projects:
  "insert_scope_items is s = Inr t \<Longrightarrow> st_projects t = st_projects s"
  by (induction "is" s rule: insert_scope_items.induct) (auto split: if_splits)

lemma applied_lines_bare:
  assumes "list_all (\<lambda>l. sl_status l = ServiceItemStatusPendingConfirm) ls"
  shows "map bare_line (applied_lines q ls) = map bare_line ls"
    and "list_all (\<lambda>l. sl_status l = ServiceItemStatusPendingConfirm) (applied_lines q ls)"
proof -
  have n: "length (applied_lines q ls) = length ls" by (simp add: applied_lines_def)
  have l: "applied_lines q ls ! k = (ls ! k)\<lparr>sl_id := nq_item_ulids q k, sl_status := ServiceItemStatusPendingConfirm\<rparr>"
    if "k < length ls" for k using that by (simp add: applied_lines_def nth_enumerate_eq)
  have s: "sl_status (ls ! k) = ServiceItemStatusPendingConfirm" if "k < length ls" for k
    using assms that by (simp add: list_all_length)
  show "map bare_line (applied_lines q ls) = map bare_line ls"
  proof (rule nth_equalityI)
    fix k assume "k < length (map bare_line (applied_lines q ls))"
    then have k: "k < length ls" by (simp add: n)
    have "(ls ! k)\<lparr>sl_status := ServiceItemStatusPendingConfirm\<rparr> = ls ! k"
      by (simp add: s [OF k, symmetric])
    then show "map bare_line (applied_lines q ls) ! k = map bare_line ls ! k"
      using k by (cases "ls ! k") (simp add: n l bare_line_def)
  qed (simp add: n)
  show "list_all (\<lambda>l. sl_status l = ServiceItemStatusPendingConfirm) (applied_lines q ls)"
    by (simp add: list_all_length n l)
qed

lemma applyNativeScopeE:
  assumes "applyNativeScope q p row st = Inr (c, st')"
  obtains lines s where "lines = applied_lines q (nc_items row)"
    and "c = row\<lparr>nc_applied := pj_scope_version p + 1, nc_items := lines\<rparr>"
    and "pj_scope_version p = nc_base row"
    and "nx_changes st' = nx_changes st"
    and "nx_scopes st' = nx_scopes st @ [\<lparr>sv_tenant = pj_tenant p, sv_project = pj_id p,
      sv_version = pj_scope_version p + 1, sv_source = pj_source_id p, sv_actor = nq_actor q,
      sv_items = lines, sv_created_at = env_clock (nq_env q)\<rparr>]"
    and "st_projects s = st_projects (nx_store st)"
    and "nx_store st' = advance_project (env_clock (nq_env q)) p (pj_scope_version p + 1) (length lines) s"
proof -
  let ?lines = "applied_lines q (nc_items row)"
  let ?v = "\<lparr>sv_tenant = pj_tenant p, sv_project = pj_id p, sv_version = pj_scope_version p + 1,
    sv_source = pj_source_id p, sv_actor = nq_actor q, sv_items = ?lines, sv_created_at = env_clock (nq_env q)\<rparr>"
  obtain s st1 where b: "pj_scope_version p = nc_base row"
    and s: "insert_scope_items (map (scope_item_row q p) ?lines)
              (archive_items (env_clock (nq_env q)) p (nx_store st)) = Inr s"
    and v: "insert_scope ?v st = Inr st1"
    and c: "c = row\<lparr>nc_applied := pj_scope_version p + 1, nc_items := ?lines\<rparr>"
    and t: "st' = st1\<lparr>nx_store := advance_project (env_clock (nq_env q)) p (pj_scope_version p + 1) (length ?lines) s\<rparr>"
    using assms by (auto simp: applyNativeScope_def Let_def res_simps split: if_splits)
  show thesis
  proof (rule that [OF refl c b])
    show "st_projects s = st_projects (nx_store st)"
      using insert_scope_items_projects [OF s] by (simp add: archive_items_def)
  qed (use v t in \<open>auto simp: insert_scope_def split: if_splits\<close>)
qed

lemma save_changeE:
  assumes "save_change env c st = Inr st'"
  shows "change_check env c \<and> nx_scopes st' = nx_scopes st \<and> nx_store st' = nx_store st \<and>
    nx_changes st' = update_where (\<lambda>d. nc_id d = nc_id c) (\<lambda>_. c) (nx_changes st)"
  using assms by (auto simp: save_change_def split: if_splits)

lemma decide_pendingE:
  assumes "decide_pending q p d row st = Inr (c, st')"
  obtains mid st1 where "sd_decision d = ''APPROVE''" "nq_actor q \<noteq> nc_requested_by row"
      "applyNativeScope q p row st = Inr (mid, st1)" "c = decided_change q d ''APPROVED'' mid"
      "nx_scopes st' = nx_scopes st1" "st_projects (nx_store st') = st_projects (nx_store st1)"
      "nx_changes st' = update_where (\<lambda>d. nc_id d = nc_id c) (\<lambda>_. c) (nx_changes st1)"
  | "sd_decision d = ''REJECT'' \<and> nq_actor q \<noteq> nc_requested_by row \<and> c = decided_change q d ''REJECTED'' row \<or>
     sd_decision d = ''WITHDRAW'' \<and> nq_actor q = nc_requested_by row \<and> c = decided_change q d ''WITHDRAWN'' row"
      "nx_scopes st' = nx_scopes st" "st_projects (nx_store st') = st_projects (nx_store st)"
      "nx_changes st' = update_where (\<lambda>d. nc_id d = nc_id c) (\<lambda>_. c) (nx_changes st)"
proof -
  let ?status = "decision_status (sd_decision d)"
  obtain mid st1 st2 where actor: "if sd_decision d = ''WITHDRAW'' then nc_requested_by row = nq_actor q
        else nc_requested_by row \<noteq> nq_actor q"
    and status: "?status \<noteq> []"
    and m: "(if sd_decision d = ''APPROVE'' then applyNativeScope q p row st else Inr (row, st)) = Inr (mid, st1)"
    and c: "c = decided_change q d ?status mid"
    and s: "save_change (nq_env q) c st1 = Inr st2"
    and e: "saveNativeScopeEvent q p c (''NATIVE_SCOPE_CHANGE_'' @ ?status) st2 = Inr st'"
    using assms by (auto simp: decide_pending_def Let_def res_simps split: if_splits)
  note f = save_changeE [OF s] saveNativeScopeEvent_fields [OF e]
  show thesis
  proof (cases "sd_decision d = ''APPROVE''")
    case True
    then have "?status = ''APPROVED''" by (simp add: decision_status_def)
    with True c actor m f show thesis by (intro that(1)) auto
  next
    case False
    with m have "mid = row" "st1 = st" by auto
    moreover have "sd_decision d = ''REJECT'' \<and> ?status = ''REJECTED'' \<or>
        sd_decision d = ''WITHDRAW'' \<and> ?status = ''WITHDRAWN''"
      using False status by (auto simp: decision_status_def split: if_splits)
    ultimately show thesis using c actor f by (intro that(2)) auto
  qed
qed

section \<open>The invariant is kept\<close>

lemma same_request_approved:
  assumes "list_all2 same_request cs ds" and "list_ex (\<lambda>c. approved_as c v) cs"
  shows "list_ex (\<lambda>c. approved_as c v) ds"
proof -
  from assms(2) obtain k where k: "k < length cs" "approved_as (cs ! k) v"
    by (auto simp: list_ex_length)
  with assms(1) have "same_request (cs ! k) (ds ! k)" "length ds = length cs"
    by (auto simp: list_all2_conv_all_nth)
  with k have "k < length ds" "ds ! k = cs ! k" by (auto simp: same_request_def approved_as_def)
  with k show ?thesis by (auto simp: list_ex_length)
qed

lemma change_updated:
  assumes "distinct (map nc_id cs)" and "row \<in> set cs" and "nc_id c = nc_id row" and "same_request row c"
    and "list_all change_ok cs" and "change_ok c"
  defines "ds \<equiv> update_where (\<lambda>d. nc_id d = nc_id c) (\<lambda>_. c) cs"
  shows "list_all2 same_request cs ds" and "map nc_id ds = map nc_id cs" and "list_all change_ok ds"
    and "c \<in> set ds"
proof -
  have r: "d = row" if "d \<in> set cs" "nc_id d = nc_id row" for d
    using assms(1,2) that by (metis distinct_map inj_onD)
  have d: "ds = map (\<lambda>d. if nc_id d = nc_id row then c else d) cs"
    by (simp add: ds_def update_where_def assms(3))
  show "list_all2 same_request cs ds"
  proof (simp add: d list_all2_conv_all_nth same_request_refl, intro allI impI)
    fix k assume k: "k < length cs" "nc_id (cs ! k) = nc_id row"
    then have "cs ! k = row" by (intro r) simp_all
    with assms(4) show "same_request (cs ! k) c" by simp
  qed
  show "map nc_id ds = map nc_id cs" by (simp add: d assms(3))
  show "list_all change_ok ds" using assms(5,6) by (auto simp: d list_all_iff)
  show "c \<in> set ds" using assms(2) by (auto simp: d)
qed

lemma scopes_match_create:
  assumes m: "scopes_match ids vs" and i: "i \<notin> ident_id ` set ids"
    and v: "scope_index v = (t, i, 1)"
  shows "scopes_match (ids @ [(t, i, c, n, ''NATIVE'', 1)]) (vs @ [v])"
proof -
  have "sv_project w \<noteq> i" if "w \<in> set vs" for w
  proof -
    obtain c' n' m' where "(sv_tenant w, sv_project w, c', n', ''NATIVE'', m') \<in> set ids"
      using m \<open>w \<in> set vs\<close> unfolding scopes_match_def by blast
    then have "ident_id (sv_tenant w, sv_project w, c', n', ''NATIVE'', m') \<in> ident_id ` set ids"
      by (rule imageI)
    with i show ?thesis by auto
  qed
  then have none: "(t', i, k) \<notin> set (map scope_index vs)" for t' k
    by (auto simp: scope_index_def)
  have old: "versions_of (vs @ [v]) t' i' = versions_of vs t' i'" if "i' \<noteq> i" for t' i'
    using that v by (auto simp: versions_of_def)
  have new: "versions_of (vs @ [v]) t i = {1..1}"
    using none v by (auto simp: versions_of_def)
  have ne: "i' \<noteq> i" if "(t', i', c', n', k', m') \<in> set ids" for t' i' c' n' k' m'
    using i imageI [OF that, of ident_id] by auto
  show ?thesis unfolding scopes_match_def
  proof (intro conjI)
    show "distinct (map ident_id (ids @ [(t, i, c, n, ''NATIVE'', 1)]))"
      using m i by (simp add: scopes_match_def)
    show "\<forall>(t', i', c', n', k', m') \<in> set (ids @ [(t, i, c, n, ''NATIVE'', 1)]).
        k' = ''NATIVE'' \<longrightarrow> versions_of (vs @ [v]) t' i' = {1..m'}"
      using m new ne old by (auto simp: scopes_match_def)
    show "\<forall>w \<in> set (vs @ [v]). \<exists>c' n' m'. (sv_tenant w, sv_project w, c', n', ''NATIVE'', m')
        \<in> set (ids @ [(t, i, c, n, ''NATIVE'', 1)])"
    proof
      fix w assume w: "w \<in> set (vs @ [v])"
      show "\<exists>c' n' m'. (sv_tenant w, sv_project w, c', n', ''NATIVE'', m')
          \<in> set (ids @ [(t, i, c, n, ''NATIVE'', 1)])"
      proof (cases "w = v")
        case True
        with v show ?thesis by (auto simp: scope_index_def)
      next
        case False
        with w m have "\<exists>c' n' m'. (sv_tenant w, sv_project w, c', n', ''NATIVE'', m') \<in> set ids"
          by (simp add: scopes_match_def)
        then show ?thesis by auto
      qed
    qed
  qed
qed

definition ident_advanced :: "string \<Rightarrow> nat \<Rightarrow> project_ident \<Rightarrow> project_ident" where
  "ident_advanced i m' x = (case x of (t, j, c, n, k, m) \<Rightarrow> (t, j, c, n, k, if j = i then m' else m))"

lemma scopes_match_advance:
  assumes s: "scopes_match ids vs" and i: "(t, i, c, n, ''NATIVE'', m) \<in> set ids"
    and v: "scope_index v = (t, i, m + 1)"
  shows "scopes_match (map (ident_advanced i (m + 1)) ids) (vs @ [v])"
proof -
  have only: "x = (t, i, c, n, ''NATIVE'', m)" if "x \<in> set ids" "fst (snd x) = i" for x
  proof -
    have j: "inj_on ident_id (set ids)" using s by (simp add: scopes_match_def distinct_map)
    have "ident_id x = ident_id (t, i, c, n, ''NATIVE'', m)" using that(2) by (simp add: ident_id_def)
    then show ?thesis by (rule inj_onD [OF j _ that(1) i])
  qed
  have old: "versions_of (vs @ [v]) t' i' = versions_of vs t' i'" if "i' \<noteq> i" for t' i'
    using that v by (auto simp: versions_of_def)
  have now: "versions_of vs t i = {1..m}" using s i by (auto simp: scopes_match_def)
  have "versions_of (vs @ [v]) t i = insert (m + 1) (versions_of vs t i)"
    using v by (auto simp: versions_of_def)
  with now have new: "versions_of (vs @ [v]) t i = {1..m + 1}" by auto
  show ?thesis unfolding scopes_match_def
  proof (intro conjI)
    have "ident_id (ident_advanced i (m + 1) x) = ident_id x" for x
      by (simp add: ident_advanced_def ident_id_def case_prod_unfold)
    then have "ident_id \<circ> ident_advanced i (m + 1) = ident_id" by (simp add: fun_eq_iff)
    then have "map ident_id (map (ident_advanced i (m + 1)) ids) = map ident_id ids"
      by (simp del: add_Suc_right Suc_eq_plus1_left)
    then show "distinct (map ident_id (map (ident_advanced i (m + 1)) ids))"
      using s unfolding scopes_match_def by metis
    show "\<forall>(t', i', c', n', k', m') \<in> set (map (ident_advanced i (m + 1)) ids).
        k' = ''NATIVE'' \<longrightarrow> versions_of (vs @ [v]) t' i' = {1..m'}"
    proof clarify
      fix t' i' c' n' k' m'
      assume "(t', i', c', n', ''NATIVE'', m') \<in> set (map (ident_advanced i (m + 1)) ids)"
      then obtain x where x: "x \<in> set ids" "(t', i', c', n', ''NATIVE'', m') = ident_advanced i (m + 1) x" by auto
      show "versions_of (vs @ [v]) t' i' = {1..m'}"
      proof (cases "fst (snd x) = i")
        case True
        then have "x = (t, i, c, n, ''NATIVE'', m)" using only x(1) by simp
        with x(2) have "t' = t" "i' = i" "m' = m + 1" by (simp_all add: ident_advanced_def)
        with new show ?thesis by simp
      next
        case False
        with x have "(t', i', c', n', ''NATIVE'', m') \<in> set ids" "i' \<noteq> i"
          by (auto simp: ident_advanced_def split: prod.splits)
        with s old show ?thesis by (auto simp: scopes_match_def)
      qed
    qed
    show "\<forall>w \<in> set (vs @ [v]). \<exists>c' n' m'. (sv_tenant w, sv_project w, c', n', ''NATIVE'', m')
        \<in> set (map (ident_advanced i (m + 1)) ids)"
    proof
      fix w assume w: "w \<in> set (vs @ [v])"
      obtain c' n' m' where "(sv_tenant w, sv_project w, c', n', ''NATIVE'', m') \<in> set ids"
      proof (cases "w = v")
        case True
        with v i that show ?thesis by (auto simp: scope_index_def)
      next
        case False
        with w s have "\<exists>c' n' m'. (sv_tenant w, sv_project w, c', n', ''NATIVE'', m') \<in> set ids"
          by (simp add: scopes_match_def)
        with that show ?thesis by blast
      qed
      then have "ident_advanced i (m + 1) (sv_tenant w, sv_project w, c', n', ''NATIVE'', m')
          \<in> set (map (ident_advanced i (m + 1)) ids)" by simp
      moreover have "ident_advanced i (m + 1) (sv_tenant w, sv_project w, c', n', ''NATIVE'', m') =
          (sv_tenant w, sv_project w, c', n', ''NATIVE'', if sv_project w = i then m + 1 else m')"
        by (simp add: ident_advanced_def)
      ultimately show "\<exists>c' n' m'. (sv_tenant w, sv_project w, c', n', ''NATIVE'', m')
          \<in> set (map (ident_advanced i (m + 1)) ids)" by metis
    qed
  qed
qed

text \<open>The states an operation may lead to.\<close>

definition advances :: "native_state \<Rightarrow> native_state \<Rightarrow> bool" where
  "advances st st' \<longleftrightarrow> native_inv st' \<and> continues st st'"

lemma advances_same:
  assumes "native_inv st" and "nx_changes st' = nx_changes st" and "nx_scopes st' = nx_scopes st"
    and "idents (nx_store st') = idents (nx_store st)"
  shows "advances st st'"
  using assms continues_refl [of st] by (simp add: advances_def native_inv_def continues_def)

lemma advances_proposal:
  assumes i: "native_inv st" and p: "proposal q p input items c"
    and f: "list_all (\<lambda>l. sl_status l = ServiceItemStatusPendingConfirm) items"
    and d: "\<not> list_ex (change_duplicate (nq_env q) c) (nx_changes st)"
    and t: "nx_changes st' = nx_changes st @ [c]" "nx_scopes st' = nx_scopes st"
      "idents (nx_store st') = idents (nx_store st)"
  shows "advances st st'"
proof -
  have "nc_id c \<notin> set (map nc_id (nx_changes st))"
    using d by (auto simp: list_ex_iff change_duplicate_def sql_eq_refl)
  moreover have "map sl_status (nc_items c) = map sl_status items"
  proof -
    have "map sl_status (nc_items c) = map sl_status (map (\<lambda>l. l\<lparr>sl_source := [], sl_project := []\<rparr>) (nc_items c))"
      by simp
    also have "\<dots> = map sl_status items" using p by (simp add: proposal_def del: map_map) simp
    finally show ?thesis .
  qed
  then have "list_all (\<lambda>l. sl_status l = ServiceItemStatusPendingConfirm) (nc_items c)"
    using f by (metis (mono_tags, lifting) length_map list_all_length nth_map)
  then have "change_ok c" using p by (simp add: proposal_def change_ok_def)
  ultimately have "native_inv st'"
    using i by (auto simp: native_inv_def t list_all_iff list_ex_iff)
  moreover have "continues st st'"
    unfolding continues_def t
    by (intro conjI exI [of _ "nx_changes st"] exI [of _ "[c]"] exI [of _ "[]"])
      (simp_all add: list_all2_refl same_request_refl)
  ultimately show ?thesis by (simp add: advances_def)
qed

lemma advances_decided:
  assumes i: "native_inv st" and row: "row \<in> set (nx_changes st)" and c: "nc_id c = nc_id row"
    and same: "same_request row c" and ok: "change_ok c"
    and t: "nx_changes st' = update_where (\<lambda>d. nc_id d = nc_id c) (\<lambda>_. c) (nx_changes st)"
    and v: "nx_scopes st' = nx_scopes st @ vs" "list_all (approved_as c) vs"
    and m: "scopes_match (idents (nx_store st')) (nx_scopes st')"
  shows "advances st st'"
proof -
  from i have d: "distinct (map nc_id (nx_changes st))" and a: "list_all change_ok (nx_changes st)"
    by (simp_all add: native_inv_def)
  note u = change_updated [OF d row c same a ok, folded t]
  have "list_all (\<lambda>v. sv_version v = 1 \<or> list_ex (\<lambda>c. approved_as c v) (nx_changes st')) (nx_scopes st')"
  proof (simp add: v list_all_append, intro conjI)
    show "list_all (\<lambda>v. sv_version v = Suc 0 \<or> list_ex (\<lambda>c. approved_as c v) (nx_changes st')) (nx_scopes st)"
      using i same_request_approved [OF u(1)] by (auto simp: native_inv_def list_all_iff)
    show "list_all (\<lambda>v. sv_version v = Suc 0 \<or> list_ex (\<lambda>c. approved_as c v) (nx_changes st')) vs"
      using v(2) u(4) by (auto simp: list_all_iff list_ex_iff)
  qed
  with d u m have "native_inv st'" by (simp add: native_inv_def)
  moreover have "continues st st'" using u(1) v(1) by (auto simp: continues_def intro: exI [of _ "[]"])
  ultimately show ?thesis by (simp add: advances_def)
qed

lemma native_lines_status:
  "native_lines env st tenant entries n ss = Inr ls \<Longrightarrow>
   length ls = length ss \<and>
   list_all (\<lambda>l. sl_status l = ServiceItemStatusPendingConfirm \<and> sl_id l = [] \<and> sl_project l = []) ls"
  by (induction env st tenant entries n ss arbitrary: ls rule: native_lines.induct)
    (auto simp: Let_def res_simps native_line_def split: if_splits option.splits)

lemma nativeServiceItemsE:
  assumes "nativeServiceItems u requested st = Inr (items, st')"
  obtains config where "st' = st\<lparr>nx_config := config\<rparr>" "length items = length requested" and
    "list_all (\<lambda>l. sl_status l = ServiceItemStatusPendingConfirm \<and> sl_id l = [] \<and> sl_project l = []) items"
  using assms by (auto simp: nativeServiceItems_def Let_def res_simps split: if_splits prod.splits
      dest!: native_lines_status)

lemma Service_RequestNativeScopeE:
  assumes "Service_RequestNativeScope u i input st = Inr (c, st')"
  obtains q where "ReplayNativeScope q i (input\<lparr>si_reason := trim_space (si_reason input)\<rparr>) st = Inr (Some c)"
      "st' = st" "nativeScopeAccess u ''project.decomposition.manage'' = Inr q"
  | q items config where
      "ReplayNativeScope q i (input\<lparr>si_reason := trim_space (si_reason input)\<rparr>) st = Inr None"
      "nativeScopeAccess u ''project.decomposition.manage'' = Inr q"
      "length items = length (si_services input)"
      "list_all (\<lambda>l. sl_status l = ServiceItemStatusPendingConfirm \<and> sl_id l = [] \<and> sl_project l = []) items"
      "RequestNativeScope q i (input\<lparr>si_reason := trim_space (si_reason input)\<rparr>)
         (with_identities (si_services input) items) (st\<lparr>nx_config := config\<rparr>) = Inr (c, st')"
proof -
  let ?input = "input\<lparr>si_reason := trim_space (si_reason input)\<rparr>"
  from assms obtain q replay where q: "nativeScopeAccess u ''project.decomposition.manage'' = Inr q"
    and r: "ReplayNativeScope q i ?input st = Inr replay"
    by (auto simp: Service_RequestNativeScope_def Let_def res_simps split: if_splits)
  show thesis
  proof (cases replay)
    case (Some d)
    with assms q r have "d = c" "st' = st"
      by (auto simp: Service_RequestNativeScope_def Let_def res_simps split: if_splits)
    with Some q r show thesis using that(1) by blast
  next
    case None
    with assms q r obtain items st1 where n: "nativeServiceItems u (si_services input) st = Inr (items, st1)"
      and x: "RequestNativeScope q i ?input (with_identities (si_services input) items) st1 = Inr (c, st')"
      by (auto simp: Service_RequestNativeScope_def Let_def res_simps split: if_splits)
    from n show thesis
      by (rule nativeServiceItemsE) (use that(2) None q r x in blast)
  qed
qed

lemma with_identities_status:
  assumes "list_all (\<lambda>l. sl_status l = ServiceItemStatusPendingConfirm \<and> sl_id l = [] \<and> sl_project l = []) items"
  shows "list_all (\<lambda>l. sl_status l = ServiceItemStatusPendingConfirm) (with_identities ss items)"
  using assms by (auto simp: with_identities_def list_all_iff dest!: set_zip_leftD)

lemma request_advances:
  assumes i: "native_inv st" and r: "Service_RequestNativeScope u key input st = Inr (c, st')"
  shows "advances st st'"
  using r
proof (cases rule: Service_RequestNativeScopeE)
  case 1
  then show ?thesis using advances_same [OF i] by simp
next
  case (2 q items config)
  from 2(5) show ?thesis
  proof (cases rule: RequestNativeScopeE)
    case 1
    then show ?thesis using advances_same [OF i] by simp
  next
    case (2 p)
    show ?thesis
      by (rule advances_proposal [OF i 2(3) with_identities_status])
        (use 2 \<open>list_all _ items\<close> in \<open>simp_all add: idents_def\<close>)
  qed
qed

lemma advance_project_idents:
  "idents (advance_project now p next' n s) = map (ident_advanced (pj_id p) next') (idents s)"
  by (auto simp: advance_project_def idents_def ident_def ident_advanced_def update_where_def)

lemma decide_pending_advances:
  assumes i: "native_inv st" and l: "lockNativeProject q st key = Inr p"
    and row: "row \<in> set (nx_changes st)" "nc_status row = ''PENDING''"
      "nc_tenant row = nq_tenant q" "nc_project row = key"
    and d: "decide_pending q p d row st = Inr (c, st')"
  shows "advances st st'"
proof -
  have ok: "change_ok row" using i row(1) by (simp add: native_inv_def list_all_iff)
  have m: "scopes_match (idents (nx_store st)) (nx_scopes st)" using i by (simp add: native_inv_def)
  note p = lockNativeProjectE [OF l]
  from d show ?thesis
  proof (cases rule: decide_pendingE)
    case (1 mid st1)
    from 1(3) show ?thesis
    proof (cases rule: applyNativeScopeE)
      case a: (1 lines s)
      have c: "nc_status c = ''APPROVED''" "nc_decided_by c = nq_actor q" "nc_items c = lines"
        "nc_applied c = nc_base row + 1" "decided_from row c"
        unfolding 1(4) a(2) a(3) [symmetric] by (simp_all add: decided_change_def decided_from_def)
      have lines: "map bare_line lines = map bare_line (nc_items row)"
          "list_all (\<lambda>l. sl_status l = ServiceItemStatusPendingConfirm) lines"
        using applied_lines_bare [of "nc_items row" q] ok by (simp_all add: a(1) change_ok_def)
      have pos: "ident p \<in> set (idents (nx_store st))" using p(1) by (simp add: idents_def)
      show ?thesis
      proof (rule advances_decided [OF i row(1)])
        show "nc_id c = nc_id row" using c by (simp add: decided_from_def)
        show "same_request row c" using c lines row(2) by (simp add: same_request_def decided_from_def)
        show "change_ok c" using c lines ok row(2) 1(2) by (auto simp: change_ok_def decided_from_def)
        show "nx_changes st' = update_where (\<lambda>d. nc_id d = nc_id c) (\<lambda>_. c) (nx_changes st)"
          using 1(7) a(4) by simp
        show v: "nx_scopes st' = nx_scopes st @ [\<lparr>sv_tenant = pj_tenant p, sv_project = pj_id p,
            sv_version = pj_scope_version p + 1, sv_source = pj_source_id p, sv_actor = nq_actor q,
            sv_items = lines, sv_created_at = env_clock (nq_env q)\<rparr>]"
          using 1(5) a(5) by simp
        show "list_all (approved_as c) [\<lparr>sv_tenant = pj_tenant p, sv_project = pj_id p,
            sv_version = pj_scope_version p + 1, sv_source = pj_source_id p, sv_actor = nq_actor q,
            sv_items = lines, sv_created_at = env_clock (nq_env q)\<rparr>]"
          using c p row a(3) 1(2) by (auto simp: approved_as_def decided_from_def)
        have "idents (nx_store st') = map (ident_advanced (pj_id p) (pj_scope_version p + 1)) (idents (nx_store st))"
          using 1(6) a(6) advance_project_idents [of _ p _ _ s] by (simp add: a(7) idents_def)
        moreover have "(pj_tenant p, pj_id p, pj_contract_id p, pj_contract p, ''NATIVE'', pj_scope_version p)
            \<in> set (idents (nx_store st))" using pos p(4) by (simp add: ident_def)
        ultimately show "scopes_match (idents (nx_store st')) (nx_scopes st')"
          unfolding v by (simp only:) (rule scopes_match_advance [OF m], simp_all add: scope_index_def)
      qed
    qed
  next
    case 2
    show ?thesis
    proof (rule advances_decided [OF i row(1) _ _ _ 2(4)])
      show "nc_id c = nc_id row" using 2(1) by (auto simp: decided_change_def)
      show "same_request row c" using 2(1) row(2) by (auto simp: decided_change_def same_request_def)
      show "change_ok c" using 2(1) ok row(2) by (auto simp: decided_change_def change_ok_def)
      show "nx_scopes st' = nx_scopes st @ []" using 2(2) by simp
      show "scopes_match (idents (nx_store st')) (nx_scopes st')" using m 2(2,3) by (simp add: idents_def)
    qed simp
  qed
qed

lemma decide_advances:
  assumes i: "native_inv st" and r: "Service_DecideNativeScope u key change d st = Inr (c, st')"
  shows "advances st st'"
proof -
  from r obtain q e where x: "DecideNativeScope q key change e st = Inr (c, st')"
    by (auto simp: Service_DecideNativeScope_def Let_def res_simps split: if_splits)
  from x obtain p row where l: "lockNativeProject q st key = Inr p"
    and f: "find (change_key (nq_env q) (nq_tenant q) key change) (nx_changes st) = Some row"
    by (auto simp: DecideNativeScope_def res_simps split: option.splits)
  then have row: "row \<in> set (nx_changes st)" "nc_tenant row = nq_tenant q" "nc_project row = key"
    by (auto simp: find_Some_iff change_key_def)
  show ?thesis
  proof (cases "nc_status row = ''PENDING''")
    case True
    with x l f have "decide_pending q p e row st = Inr (c, st')" by (simp add: DecideNativeScope_def)
    from decide_pending_advances [OF i l row(1) True row(2,3) this] show ?thesis .
  next
    case False
    with x l f have "st' = st" by (auto simp: DecideNativeScope_def split: if_splits)
    then show ?thesis using advances_same [OF i] by simp
  qed
qed

lemma create_nativeE:
  assumes "create_native q p items st = Inr (r, st')"
  shows "nx_changes st' = nx_changes st"
    and "\<exists>n. st_projects (nx_store st') =
      st_projects (nx_store st) @ [p\<lparr>pj_services := n, pj_scope_version := 1, pj_version := 1\<rparr>]"
    and "\<exists>v. nx_scopes st' = nx_scopes st @ [v] \<and> scope_index v = (pj_tenant p, pj_id p, 1)"
    and "pj_id p \<notin> pj_id ` set (st_projects (nx_store st))"
proof -
  from assms obtain parties st1 where
    w: "saveNativeProjectRows q p items (st\<lparr>nx_parties := parties\<rparr>) = Inr st1"
    and x: "nx_changes st' = nx_changes st1" "nx_scopes st' = nx_scopes st1"
      "st_projects (nx_store st') = st_projects (nx_store st1)"
    by (auto simp: create_native_def Let_def res_simps)
  from w obtain s where d: "\<not> list_ex (native_duplicate (nq_env q) p) (st_projects (nx_store st))"
    and s: "insert_scope_items (map (\<lambda>l. (scope_item_row q p l)\<lparr>it_codes := JStrs (sl_codes l),
                 it_conflict := sl_conflict l, it_updated_by := []\<rparr>) items)
        ((nx_store st)\<lparr>st_projects := st_projects (nx_store st) @
           [p\<lparr>pj_services := length items, pj_scope_version := 1, pj_version := 1\<rparr>]\<rparr>) = Inr s"
    and t: "st1 = st\<lparr>nx_parties := parties, nx_store := s, nx_scopes := nx_scopes st @
               [\<lparr>sv_tenant = pj_tenant p, sv_project = pj_id p, sv_version = 1, sv_source = pj_source_id p,
                 sv_actor = pj_owner_identity p, sv_items = items, sv_created_at = pj_created_at p\<rparr>]\<rparr>"
    by (auto simp: saveNativeProjectRows_def Let_def res_simps split: if_splits)
  show "nx_changes st' = nx_changes st" by (simp add: x t)
  show "\<exists>n. st_projects (nx_store st') =
      st_projects (nx_store st) @ [p\<lparr>pj_services := n, pj_scope_version := 1, pj_version := 1\<rparr>]"
    using insert_scope_items_projects [OF s] by (auto simp: x t)
  show "\<exists>v. nx_scopes st' = nx_scopes st @ [v] \<and> scope_index v = (pj_tenant p, pj_id p, 1)"
    by (simp add: x t scope_index_def)
  show "pj_id p \<notin> pj_id ` set (st_projects (nx_store st))"
    using d by (auto simp: list_ex_iff native_duplicate_def)
qed

lemma create_native_advances:
  assumes i: "native_inv st" and c: "create_native q p items st = Inr (r, st')"
    and k: "pj_source_kind p = ''NATIVE''"
  shows "advances st st'"
proof -
  note f = create_nativeE [OF c]
  obtain n where n: "st_projects (nx_store st') =
      st_projects (nx_store st) @ [p\<lparr>pj_services := n, pj_scope_version := 1, pj_version := 1\<rparr>]"
    using f(2) by blast
  obtain v where v: "nx_scopes st' = nx_scopes st @ [v]" "scope_index v = (pj_tenant p, pj_id p, 1)"
    using f(3) by blast
  have "ident_id (ident r) = pj_id r" for r by (simp add: ident_def)
  then have new: "pj_id p \<notin> ident_id ` set (idents (nx_store st))"
    using f(4) by (simp add: idents_def image_image)
  have ids: "idents (nx_store st') = idents (nx_store st) @
      [(pj_tenant p, pj_id p, pj_contract_id p, pj_contract p, ''NATIVE'', 1)]"
    using k by (simp add: idents_def n ident_def)
  have "scopes_match (idents (nx_store st')) (nx_scopes st')"
    unfolding ids v(1) by (rule scopes_match_create) (use i new v(2) in \<open>simp_all add: native_inv_def\<close>)
  moreover have "sv_version v = 1" using v(2) by (simp add: scope_index_def)
  ultimately have "native_inv st'" using i by (simp add: native_inv_def f(1) v(1))
  moreover have "continues st st'"
    using continues_refl [of st] by (simp add: continues_def f(1) v(1))
  ultimately show ?thesis by (simp add: advances_def)
qed

lemma create_advances:
  assumes i: "native_inv st" and c: "CreateNativeProject u p requested st = Inr (r, st')"
  shows "advances st st'"
proof -
  from c obtain q project items fingerprint config where
    x: "Repo_CreateNativeProject q project items fingerprint (st\<lparr>nx_config := config\<rparr>) = Inr (r, st')"
    by (auto simp: CreateNativeProject_def Let_def res_simps split: if_splits option.splits)
  then have k: "pj_source_kind project = ''NATIVE''"
    by (auto simp: Repo_CreateNativeProject_def split: if_splits)
  from x consider "st' = st\<lparr>nx_config := config\<rparr>" | st1 where
      "create_native q project items st1 = Inr (r, st')" and "nx_changes st1 = nx_changes st"
      "nx_scopes st1 = nx_scopes st" "nx_store st1 = nx_store st"
    by (auto simp: Repo_CreateNativeProject_def Let_def split: if_splits option.splits)
  then show ?thesis
  proof cases
    case 1
    then show ?thesis using advances_same [OF i] by simp
  next
    case 2
    then have "native_inv st1" using i by (simp add: native_inv_def)
    from create_native_advances [OF this 2(1) k] show ?thesis by (simp add: advances_def continues_def 2)
  qed
qed

lemma native_step_advances:
  assumes "native_inv st" and "native_run_step step st = Inr st'"
  shows "advances st st'"
proof (cases step)
  case (UDelivery env tr)
  with assms(2) obtain s where s: "execute env tr (with_pending st) = Inr s" "st' = st\<lparr>nx_store := s\<rparr>"
    by (auto simp: map_sum_def split: sum.splits)
  have "idents s = idents (nx_store st)"
    using execute_idents [OF s(1)] by (simp add: with_pending_def idents_def)
  with s show ?thesis by (intro advances_same [OF assms(1)]) simp_all
next
  case (UConfigure config sites)
  with assms show ?thesis by (intro advances_same) auto
qed (use assms in \<open>auto simp: map_sum_def split: sum.splits
    dest: create_advances request_advances decide_advances\<close>)

interpretation native: transactional native_run_step "\<lambda>_. True" "advances st" for st
proof
  fix s c t assume "advances st s" and "native_run_step c s = Inr t"
  then have "native_inv t" "continues st s" "continues s t"
    using native_step_advances by (auto simp: advances_def)
  then show "advances st t" using continues_trans by (auto simp: advances_def)
qed

lemma native_run_advances:
  assumes "native_inv st"
  shows "advances st (run_all native_run_step steps st)"
  by (rule native.run_inv) (use assms continues_refl in \<open>auto simp: advances_def\<close>)

section \<open>Repeated requests\<close>

lemma find_related:
  assumes "list_all2 R xs ys" and "\<And>x y. R x y \<Longrightarrow> P x = P y" and "find P xs = Some x"
  shows "\<exists>y. find P (ys @ zs) = Some y \<and> R x y"
  using assms(1,3) by (induction rule: list_all2_induct) (auto dest: assms(2) split: if_splits)

lemma replay_lines_bare:
  "replay_lines input xs = map (\<lambda>(l, s). l\<lparr>sl_source := trim_space (cs_source s)\<rparr>) (zip (map bare_line xs) (si_services input))"
  by (simp add: replay_lines_def zip_map1 case_prod_unfold bare_line_def)

lemma replay_lines_proposal:
  assumes "proposal q p input (with_identities ss items) c" and "si_services input = ss" and "length items = length ss"
    and "list_all (\<lambda>l. sl_status l = ServiceItemStatusPendingConfirm \<and> sl_id l = [] \<and> sl_project l = []) items"
  shows "length (nc_items c) = length ss" and "replay_lines input (nc_items c) = with_identities ss items"
proof -
  let ?blank = "\<lambda>l. l\<lparr>sl_source := [], sl_project := []\<rparr>"
  have m: "map ?blank (nc_items c) = map ?blank (with_identities ss items)"
    using assms(1) by (simp add: proposal_def)
  have w: "length (with_identities ss items) = length ss" using assms(3) by (simp add: with_identities_def)
  from m w show n: "length (nc_items c) = length ss" by (metis length_map)
  show "replay_lines input (nc_items c) = with_identities ss items"
  proof (rule nth_equalityI)
    fix k assume "k < length (replay_lines input (nc_items c))"
    then have k: "k < length ss" "k < length items" using assms(2,3) n by (simp_all add: replay_lines_def)
    from m have "map ?blank (nc_items c) ! k = map ?blank (with_identities ss items) ! k" by simp
    then have "?blank (nc_items c ! k) = ?blank (with_identities ss items ! k)" using k n w by simp
    moreover have "sl_id (items ! k) = []" "sl_project (items ! k) = []"
      using assms(4) k by (simp_all add: list_all_length)
    ultimately show "replay_lines input (nc_items c) ! k = with_identities ss items ! k"
      using k n assms(2)
      by (cases "nc_items c ! k"; cases "items ! k") (simp add: replay_lines_def with_identities_def)
  qed (simp add: replay_lines_def with_identities_def n assms(2,3))
qed

text \<open>The receipt of a request: the row a repetition of it finds, and its fingerprint.\<close>

definition receipt :: "native_call \<Rightarrow> string \<Rightarrow> scope_input \<Rightarrow> native_state \<Rightarrow> scope_change \<Rightarrow> bool" where
  "receipt q i input st c \<longleftrightarrow>
     find (operation_key (nq_env q) (nq_tenant q) i (si_operation input)) (nx_changes st) = Some c \<and>
     length (si_services input) = length (nc_items c) \<and>
     nc_fingerprint c = nativeScopeCommandFingerprint (nq_digests q) (nq_actor q) input (replay_lines input (nc_items c))"

lemma receipt_iff:
  "ReplayNativeScope q i input st = Inr (Some c) \<longleftrightarrow>
   (\<exists>p. lockNativeProject q st i = Inr p) \<and> receipt q i input st c"
  by (auto simp: ReplayNativeScope_def receipt_def res_simps split: option.splits if_splits)

lemma receipt_continues:
  assumes c: "continues st later" and r: "receipt q i input st c"
  shows "\<exists>d. receipt q i input later d \<and> same_request c d"
proof -
  from c obtain cs new where l: "nx_changes later = cs @ new" "list_all2 same_request (nx_changes st) cs"
    by (auto simp: continues_def)
  let ?P = "operation_key (nq_env q) (nq_tenant q) i (si_operation input)"
  have P: "?P a = ?P b" if "same_request a b" for a b
    using that by (simp add: same_request_def operation_key_def)
  have "find ?P (nx_changes st) = Some c" using r by (simp add: receipt_def)
  from find_related [where P = ?P, OF l(2) P this, of new] obtain d where
    d: "find ?P (nx_changes later) = Some d" "same_request c d" by (auto simp: l(1))
  from d(2) have m: "map bare_line (nc_items d) = map bare_line (nc_items c)"
    and f: "nc_fingerprint d = nc_fingerprint c" by (simp_all add: same_request_def)
  from m have "length (nc_items d) = length (nc_items c)" by (metis length_map)
  moreover have "replay_lines input (nc_items d) = replay_lines input (nc_items c)"
    by (simp add: replay_lines_bare m)
  ultimately have "receipt q i input later d" using r d(1) f by (simp add: receipt_def)
  with d(2) show ?thesis by blast
qed

lemma request_receipt:
  assumes r: "Service_RequestNativeScope u i input st = Inr (c, st')"
    and q: "nativeScopeAccess u ''project.decomposition.manage'' = Inr q"
  shows "receipt q i (input\<lparr>si_reason := trim_space (si_reason input)\<rparr>) st' c"
  using r
proof (cases rule: Service_RequestNativeScopeE)
  case (1 q')
  with q show ?thesis by (simp add: receipt_iff)
next
  case (2 q' items config)
  let ?input = "input\<lparr>si_reason := trim_space (si_reason input)\<rparr>"
  have q': "q' = q" using 2(2) q by simp
  from 2(5) show ?thesis
  proof (cases rule: RequestNativeScopeE)
    case (1 p)
    with 2(1) q' show ?thesis by (auto simp: ReplayNativeScope_def lockNativeProject_def split: option.splits if_splits)
  next
    case (2 p)
    note f = replay_lines_proposal [OF 2(3) _ \<open>length items = _\<close> \<open>list_all _ items\<close>, unfolded q', simplified]
    have "operation_key (nq_env q) (nq_tenant q) i (si_operation ?input) c"
      using 2(3) lockNativeProjectE [OF 2(1)] by (simp add: proposal_def operation_key_def q')
    then have "find (operation_key (nq_env q) (nq_tenant q) i (si_operation ?input)) (nx_changes st') = Some c"
      using 2(2) by (simp add: 2(5) find_append q')
    with f 2(3) show ?thesis by (simp add: receipt_def proposal_def q')
  qed
qed

section \<open>Properties\<close>

text \<open>
  C8. A second person approves every change of a scope. From a database without native projects,
  whatever users and background work do: every project without a contract has exactly the versions
  one to the one in force; a version but the first is the version of an approved proposal of the
  project, based on the version before it, with the same items, requested by somebody else than the
  person who approved it; and later steps neither drop nor rewrite a version or a decided proposal.
\<close>

theorem every_scope_version_was_approved:
  assumes "nx_scopes start = []" and "nx_changes start = []"
    and "distinct (map pj_id (st_projects (nx_store start)))"
    and "list_all (\<lambda>p. pj_source_kind p \<noteq> ''NATIVE'') (st_projects (nx_store start))"
    and mid: "mid = run_all native_run_step steps start"
    and later: "later = run_all native_run_step rest mid"
  shows "list_all (\<lambda>v. sv_version v = 1 \<or> list_ex (\<lambda>c. approved_as c v) (nx_changes mid)) (nx_scopes mid) \<and>
    (\<forall>p \<in> set (st_projects (nx_store mid)). pj_source_kind p = ''NATIVE'' \<longrightarrow>
       versions_of (nx_scopes mid) (pj_tenant p) (pj_id p) = {1..pj_scope_version p}) \<and>
    take (length (nx_scopes mid)) (nx_scopes later) = nx_scopes mid \<and>
    (\<forall>c \<in> set (nx_changes mid). nc_status c \<noteq> ''PENDING'' \<longrightarrow> c \<in> set (nx_changes later))"
proof -
  have "ident_id \<circ> ident = pj_id" by (simp add: fun_eq_iff ident_def)
  then have "native_inv start"
    using assms(1-4) by (auto simp: native_inv_def scopes_match_def idents_def ident_def list_all_iff)
  then have i: "native_inv mid" unfolding mid using native_run_advances by (auto simp: advances_def)
  then have c: "continues mid later" unfolding later using native_run_advances by (auto simp: advances_def)
  have "versions_of (nx_scopes mid) (pj_tenant p) (pj_id p) = {1..pj_scope_version p}"
    if "p \<in> set (st_projects (nx_store mid))" "pj_source_kind p = ''NATIVE''" for p
  proof -
    have "ident p \<in> set (idents (nx_store mid))" using that(1) by (simp add: idents_def)
    with i that(2) show ?thesis by (auto simp: native_inv_def scopes_match_def ident_def)
  qed
  moreover have "c \<in> set (nx_changes later)" if "c \<in> set (nx_changes mid)" "nc_status c \<noteq> ''PENDING''" for c
  proof -
    from \<open>continues mid later\<close> obtain cs new where l: "nx_changes later = cs @ new"
      "list_all2 same_request (nx_changes mid) cs" by (auto simp: continues_def)
    from that(1) obtain k where k: "k < length (nx_changes mid)" "nx_changes mid ! k = c"
      by (auto simp: in_set_conv_nth)
    with l(2) have "same_request c (cs ! k)" "k < length cs" by (auto simp: list_all2_conv_all_nth)
    with that(2) have "cs ! k = c" "k < length cs" by (auto simp: same_request_def)
    then show ?thesis using l(1) by (auto simp: in_set_conv_nth nth_append)
  qed
  moreover have "take (length (nx_scopes mid)) (nx_scopes later) = nx_scopes mid"
    using c by (auto simp: continues_def)
  ultimately show ?thesis using i by (simp add: native_inv_def)
qed

definition sample_native_call :: "string \<Rightarrow> string \<Rightarrow> native_call" where
  "sample_native_call actor ulid =
     \<lparr>nq_env = sample_env,
      nq_digests = \<lparr>dg_command = (\<lambda>(a, input, ls). a @ si_operation input), dg_scope = (\<lambda>ls. concat (map sl_source ls)),
        dg_catalog = (\<lambda>_. ''K'')\<rparr>,
      nq_tenant = ''T1'', nq_scope = (\<lambda>_. True), nq_actor = actor, nq_audit_actor = actor,
      nq_change_ulid = ulid, nq_event_ulid = ulid, nq_item_ulids = (\<lambda>n. ulid @ show_nat3 n)\<rparr>"

definition sample_native_user :: "string \<Rightarrow> string \<Rightarrow> string \<Rightarrow> native_user" where
  "sample_native_user actor role ulid =
     \<lparr>nu_call = sample_native_call actor ulid, nu_has = (\<lambda>_. True), nu_roles = [role], nu_user = actor,
      nu_scope = (\<lambda>_. Some (\<lambda>_. True)), nu_allow_all = True, nu_allow_self = True, nu_orgs = [],
      nu_enabled = True, nu_frozen = (\<lambda>_. Some False), nu_project_ulid = ''01ABCDEFGHJKMNPQRSTVWXYZ01'',
      nu_project_digest = (\<lambda>_. ''D''), nu_counts = (\<lambda>_. 0)\<rparr>"

definition no_natives :: native_state where
  "no_natives = \<lparr>nx_store = empty_store, nx_scopes = [], nx_changes = [],
     nx_config = no_config\<lparr>ss_categories := [\<lparr>dc_tenant = ''T1'', dc_id = 1, dc_category = ''scan'',
       dc_standard = [], dc_qualifications = [], dc_codes = ''WEB'', dc_special = SpecialMethodNo,
       dc_enabled = True, dc_count = 0\<rparr>], ss_next := 2\<rparr>,
     nx_sites = [], nx_commands = [], nx_parties = []\<rparr>"

definition sample_native_project :: project_row where
  "sample_native_project = sample_project\<lparr>pj_source_kind := ''NATIVE'', pj_source_id := ''S-1'',
     pj_name := ''lab'', pj_customer := ''ACME'', pj_customer_id := ''K''\<rparr>"

definition sample_scope_input :: scope_input where
  "sample_scope_input =
     \<lparr>si_operation = ''O-1'', si_expected = 1, si_base = 1, si_reason = ''more'',
      si_services = [sample_line [] ''b1'', sample_line [] ''b2'']\<rparr>"

definition sample_approval :: scope_decision where
  "sample_approval =
     \<lparr>sd_operation = ''O-2'', sd_expected = 1, sd_decision = ''approve'', sd_comment = ''fine''\<rparr>"

text \<open>A project is created, a change of its scope is requested and approved.\<close>

definition sample_native_steps :: "native_step list" where
  "sample_native_steps =
     [UCreate (sample_native_user ''biz'' ''business_admin'' ''C0'') sample_native_project [sample_line [] ''b1''],
      URequest (sample_native_user ''biz'' ''business_admin'' ''C1'') ''PJ-1970-WXYZ01'' sample_scope_input,
      UDecide (sample_native_user ''dir'' ''technical_director'' ''C2'') ''PJ-1970-WXYZ01'' ''C1'' sample_approval]"

abbreviation sample_native_end :: native_state where
  "sample_native_end \<equiv> run_all native_run_step sample_native_steps no_natives"

lemma native_run: "map sv_version (nx_scopes sample_native_end) = [1, 2]"
  by code_simp

lemma no_natives_inv: "native_inv no_natives"
  by (simp add: native_inv_def no_natives_def empty_store_def scopes_match_def idents_def)

theorem every_scope_version_was_approved_witness:
  "\<exists>c \<in> set (nx_changes sample_native_end). nc_applied c = 2 \<and> nc_requested_by c \<noteq> nc_decided_by c"
proof -
  have ok: "list_all (\<lambda>v. sv_version v = 1 \<or> list_ex (\<lambda>c. approved_as c v) (nx_changes sample_native_end))
      (nx_scopes sample_native_end)"
    using every_scope_version_was_approved [of no_natives sample_native_end sample_native_steps
        "run_all native_run_step [] sample_native_end" "[]"]
    by (simp add: no_natives_def empty_store_def)
  have "2 \<in> set (map sv_version (nx_scopes sample_native_end))" unfolding native_run by simp
  then have "2 \<in> sv_version ` set (nx_scopes sample_native_end)" by (simp only: set_map)
  then obtain v where v: "2 = sv_version v" "v \<in> set (nx_scopes sample_native_end)" by (rule imageE)
  from ok have "sv_version v = 1 \<or> list_ex (\<lambda>c. approved_as c v) (nx_changes sample_native_end)"
    unfolding list_all_iff using v(2) by (rule bspec)
  with v(1) have "list_ex (\<lambda>c. approved_as c v) (nx_changes sample_native_end)" by simp
  then obtain c where c: "c \<in> set (nx_changes sample_native_end)" "approved_as c v"
    unfolding list_ex_iff by (rule bexE)
  from c(2) have "nc_applied c = sv_version v" "nc_requested_by c \<noteq> nc_decided_by c"
    unfolding approved_as_def by blast+
  with v(1) c(1) show ?thesis by (intro bexI [of _ c] conjI) simp_all
qed

text \<open>
  C9. A repeated request changes nothing. When the request for a change of a scope was accepted, the same
  person may send it again after any other steps, with fresh identifiers and at another time: it answers
  with the proposal it created, decided meanwhile or not, and leaves the state as it is.
\<close>

theorem repeated_request_changes_nothing:
  assumes "native_inv st"
    and first: "Service_RequestNativeScope u i input st = Inr (c, mid)"
      "nativeScopeAccess u ''project.decomposition.manage'' = Inr q"
    and later: "later = run_all native_run_step steps mid"
    and again: "mayRequestNativeScope v" "nativeScopeAccess v ''project.decomposition.manage'' = Inr r"
      "lockNativeProject r later i = Inr p"
    and same: "nq_actor r = nq_actor q" "nq_tenant r = nq_tenant q" "nq_digests r = nq_digests q"
      "env_fold (nq_env r) = env_fold (nq_env q)"
  shows "\<exists>d. Service_RequestNativeScope v i input later = Inr (d, later) \<and> same_request c d"
proof -
  let ?input = "input\<lparr>si_reason := trim_space (si_reason input)\<rparr>"
  have "advances st mid" by (rule request_advances [OF assms(1) first(1)])
  then have "continues mid later"
    unfolding later using native_run_advances by (auto simp: advances_def)
  from receipt_continues [OF this request_receipt [OF first]] obtain d where
    d: "receipt q i ?input later d" "same_request c d" by blast
  have "operation_key (nq_env r) = operation_key (nq_env q)"
    by (simp add: fun_eq_iff operation_key_def sql_eq_def same(4))
  with d(1) have "receipt r i ?input later d" by (simp add: receipt_def same)
  with again(3) have "ReplayNativeScope r i ?input later = Inr (Some d)" by (simp add: receipt_iff)
  moreover have "\<not> (\<not> nativeReferencePattern (si_operation ?input) \<or> si_base ?input < 1 \<or>
      si_expected ?input < 1 \<or> \<not> reason_ok (si_reason ?input))"
    using first(1) by (auto simp: Service_RequestNativeScope_def Let_def res_simps split: if_splits)
  ultimately have "Service_RequestNativeScope v i input later = Inr (d, later)"
    using again(1,2) by (simp add: Service_RequestNativeScope_def Let_def)
  with d(2) show ?thesis by blast
qed

definition sample_requested :: "app_error + scope_change \<times> native_state" where
  "sample_requested = Service_RequestNativeScope (sample_native_user ''biz'' ''business_admin'' ''C1'')
     ''PJ-1970-WXYZ01'' sample_scope_input (run_all native_run_step (take 1 sample_native_steps) no_natives)"

lemma requested_run:
  "\<not> isl sample_requested \<and>
   \<not> isl (lockNativeProject (sample_native_call ''biz'' ''C9'')
     (run_all native_run_step (drop 2 sample_native_steps) (snd (projr sample_requested))) ''PJ-1970-WXYZ01'')"
  by code_simp

theorem repeated_request_changes_nothing_witness:
  "\<exists>later d. later = run_all native_run_step (drop 2 sample_native_steps) (snd (projr sample_requested)) \<and>
     Service_RequestNativeScope (sample_native_user ''biz'' ''business_admin'' ''C9'') ''PJ-1970-WXYZ01''
       sample_scope_input later = Inr (d, later) \<and> same_request (fst (projr sample_requested)) d"
proof -
  let ?mid = "snd (projr sample_requested)"
  have first: "Service_RequestNativeScope (sample_native_user ''biz'' ''business_admin'' ''C1'')
     ''PJ-1970-WXYZ01'' sample_scope_input (run_all native_run_step (take 1 sample_native_steps) no_natives) =
     Inr (fst (projr sample_requested), ?mid)"
    using requested_run by (cases sample_requested) (simp_all add: sample_requested_def)
  obtain p where p: "lockNativeProject (sample_native_call ''biz'' ''C9'')
     (run_all native_run_step (drop 2 sample_native_steps) ?mid) ''PJ-1970-WXYZ01'' = Inr p"
    using requested_run by (metis isl_def sum.exhaust)
  have call: "nativeScopeAccess (sample_native_user ''biz'' ''business_admin'' x) ''project.decomposition.manage'' =
      Inr (sample_native_call ''biz'' x)" for x
    by (simp add: nativeScopeAccess_def sample_native_user_def nu_identity_def nu_tenant_def
        sample_native_call_def) code_simp
  have inv: "native_inv (run_all native_run_step (take 1 sample_native_steps) no_natives)"
    using native_run_advances [OF no_natives_inv] by (simp add: advances_def)
  have may: "mayRequestNativeScope (sample_native_user ''biz'' ''business_admin'' ''C9'')"
    by (simp add: mayRequestNativeScope_def principalHasRole_def sample_native_user_def)
  show ?thesis
    using repeated_request_changes_nothing [OF inv first call refl may call p]
    by (simp add: sample_native_call_def)
qed

text \<open>
  C10. An open proposal holds the project. While the proposal to change the scope of a project
  without a contract waits for its decision, the only event a delivery transaction can add is one of
  another project: whatever is reported for the project or its items is refused.
\<close>

theorem open_proposal_holds_the_project:
  assumes c: "c \<in> set (nx_changes st)" "nc_tenant c = pj_tenant p" "nc_pending c = Some (pj_id p)"
    and p: "find_project (nx_store st) (pj_tenant p) (pj_id p) = Some p" "pj_source_kind p = ''NATIVE''"
      "pj_id p \<noteq> []"
    and e: "execute env (TEvent event) (with_pending st) = Inr t"
  shows "\<exists>row. st_events t = st_events (nx_store st) @ [row] \<and>
    (er_tenant row, er_project row) \<noteq> (pj_tenant p, pj_id p)"
proof -
  let ?s = "with_pending st"
  have pending: "List.member (st_pending_scopes ?s) (pj_tenant p, pj_id p)"
    using c by (force simp: with_pending_def pending_of_def)
  have found: "find_project ?s (pj_tenant p) (pj_id p) = Some p"
    using p(1) by (simp add: find_project_def with_pending_def)
  have held: "ensureNoPendingNativeScope ?s p = Inl ErrPrecondition"
    using pending by (simp add: ensureNoPendingNativeScope_def)
  have "ApplyDeliveryEvent env event ?s = Inr t" using e by simp
  then obtain e1 e2 s1 s2 where i: "item_part env e1 ?s = Inr (e2, s1)" and j: "project_part env e2 s1 = Inr s2"
    and r: "st_events t = st_events s2 @ [event_record e2]"
    by (rule ApplyDeliveryEventE)
  have "st_events s1 = st_events ?s" using i
    by (cases rule: item_partE) (auto simp: applyItemEvent_fields(3) ensure_package_fields(6))
  then have h: "st_events t = st_events ?s @ [event_record e2]"
    using r project_part_fields(6) [OF j] by simp
  have "\<not> (de_tenant e2 = pj_tenant p \<and> de_project e2 = pj_id p)"
  proof
    assume at: "de_tenant e2 = pj_tenant p \<and> de_project e2 = pj_id p"
    from i show False
    proof (cases rule: item_partE)
      case 1
      with j at p found held show False
        by (auto simp: project_part_def applyProjectEvent_def res_simps split: if_splits)
    next
      case (2 item u)
      then have "it_tenant item = pj_tenant p" "it_project item = pj_id p"
        using at by (auto simp: find_item_def find_Some_iff item_key_def)
      with 2(5) p(2) found held show False
        by (simp add: applyItemEvent_def guardNativeScopeMutation_def)
    qed
  qed
  with h show ?thesis by (auto simp: event_record_def with_pending_def)
qed


definition sample_held :: native_state where
  "sample_held = run_all native_run_step (take 2 sample_native_steps) no_natives"

definition sample_other_event :: delivery_event where
  "sample_other_event = (sample_event ''E1'' EventScopeChangeDetected ''pm'' [])\<lparr>de_project := [], de_item := []\<rparr>"

lemma held_run:
  "(case nx_changes sample_held of [c] \<Rightarrow> nc_tenant c = ''T1'' \<and> nc_pending c = Some ''PJ-1970-WXYZ01'' | _ \<Rightarrow> False) \<and>
   (case find_project (nx_store sample_held) ''T1'' ''PJ-1970-WXYZ01'' of
      Some p \<Rightarrow> pj_tenant p = ''T1'' \<and> pj_id p = ''PJ-1970-WXYZ01'' \<and> pj_source_kind p = ''NATIVE'' | None \<Rightarrow> False) \<and>
   \<not> isl (execute sample_env (TEvent sample_other_event) (with_pending sample_held))"
  by code_simp

theorem open_proposal_holds_the_project_witness:
  "\<exists>row. st_events (projr (execute sample_env (TEvent sample_other_event) (with_pending sample_held))) =
      st_events (nx_store sample_held) @ [row] \<and> (er_tenant row, er_project row) \<noteq> (''T1'', ''PJ-1970-WXYZ01'')"
proof -
  obtain c where c: "nx_changes sample_held = [c]" "nc_tenant c = ''T1''" "nc_pending c = Some ''PJ-1970-WXYZ01''"
    using held_run by (auto split: list.splits)
  obtain p where p: "find_project (nx_store sample_held) ''T1'' ''PJ-1970-WXYZ01'' = Some p" "pj_tenant p = ''T1''"
      "pj_id p = ''PJ-1970-WXYZ01''" "pj_source_kind p = ''NATIVE''"
    using held_run by (auto split: option.splits)
  obtain t where t: "execute sample_env (TEvent sample_other_event) (with_pending sample_held) = Inr t"
    using held_run by (cases "execute sample_env (TEvent sample_other_event) (with_pending sample_held)") auto
  show ?thesis unfolding t sum.sel
    using open_proposal_holds_the_project [of c sample_held p, OF _ _ _ _ p(4) _ t] c p(1-3) by simp
qed

end
