(* ===== verification/FieldPermission.thy ===== *)
theory FieldPermission
  imports Activation
begin

text \<open>
  Fields hidden from a role (\<open>application/field_permission.go\<close>): the rules, the masking of projects,
  service items, overdue lists and reservations, and of the payloads of events. Sets of field names
  are lists; a rule hides a field when one of the roles of the reader has it.
\<close>

section \<open>Rules\<close>

definition maskedFieldValue :: string where
  "maskedFieldValue = ''***''"

definition maskableProjectFields :: "string list" where
  "maskableProjectFields = [''name'', ''customer'', ''contract'', ''category'', ''team'', ''manager'', ''due'']"

definition maskableServiceItemFields :: "string list" where
  "maskableServiceItemFields =
     [''batch'', ''site'', ''category'', ''requirement'', ''system'', ''system_level'', ''special'', ''test_mode'',
      ''source_service_id'', ''team_lead_id'', ''project_manager_id'', ''engineer_ids'']"

record permission_rule =
  fr_role :: string
  fr_field :: string
  fr_access :: string
  fr_enabled :: bool

definition normalizeFieldPermissionRule :: "permission_rule \<Rightarrow> app_error + permission_rule" where
  "normalizeFieldPermissionRule input =
     (let input = input\<lparr>fr_role := trim_space (fr_role input), fr_field := trim_space (fr_field input),
                        fr_access := to_lower (trim_space (fr_access input))\<rparr> in
      if fr_role input = [] \<or> fr_field input = [] then Inl ErrValidation
      else if \<not> List.member maskableProjectFields (fr_field input) \<and>
              \<not> List.member maskableServiceItemFields (fr_field input) then Inl ErrValidation
      else
        let input = (if fr_access input = [] then input\<lparr>fr_access := ''hidden''\<rparr> else input) in
        if fr_access input \<noteq> ''hidden'' then Inl ErrValidation else Inr input)"

text \<open>The rules of the tenant that count for a reader with these roles.\<close>

definition rule_hides :: "string list \<Rightarrow> permission_rule \<Rightarrow> bool" where
  "rule_hides roles r \<longleftrightarrow>
     fr_enabled r \<and> trim_space (fr_access r) = ''hidden'' \<and> List.member roles (fr_role r)"

text \<open>\<open>None\<close>: the rules could not be read.\<close>

definition hiddenFieldsFor ::
  "string list \<Rightarrow> permission_rule list option \<Rightarrow> app_error + string list \<times> string list" where
  "hiddenFieldsFor roles rules =
     (case rules of None \<Rightarrow> Inl ErrStorage
      | Some rs \<Rightarrow>
          let fields = map fr_field (filter (rule_hides roles) rs) in
          Inr (filter (List.member maskableProjectFields) fields,
               filter (List.member maskableServiceItemFields) fields))"

section \<open>Projects and items\<close>

definition maskProjectField :: "string \<Rightarrow> project_row \<Rightarrow> project_row" where
  "maskProjectField field p =
     (if field = ''name'' then p\<lparr>pj_name := maskedFieldValue\<rparr>
      else if field = ''customer'' then p\<lparr>pj_customer := maskedFieldValue\<rparr>
      else if field = ''contract'' then p\<lparr>pj_contract := maskedFieldValue\<rparr>
      else if field = ''category'' then p\<lparr>pj_category := maskedFieldValue\<rparr>
      else if field = ''team'' then p\<lparr>pj_team := maskedFieldValue\<rparr>
      else if field = ''manager'' then p\<lparr>pj_manager := maskedFieldValue\<rparr>
      else if field = ''due'' then p\<lparr>pj_due := maskedFieldValue\<rparr>
      else p)"

text \<open>The list of engineers of an item is the decoded column.\<close>

definition maskServiceItemField :: "string \<Rightarrow> service_item \<Rightarrow> service_item" where
  "maskServiceItemField field i =
     (if field = ''batch'' then i\<lparr>it_batch := maskedFieldValue\<rparr>
      else if field = ''site'' then i\<lparr>it_site := maskedFieldValue\<rparr>
      else if field = ''category'' then i\<lparr>it_category := maskedFieldValue\<rparr>
      else if field = ''requirement'' then i\<lparr>it_requirement := maskedFieldValue\<rparr>
      else if field = ''system'' then i\<lparr>it_system := maskedFieldValue\<rparr>
      else if field = ''system_level'' then i\<lparr>it_system_level := maskedFieldValue\<rparr>
      else if field = ''special'' then i\<lparr>it_special := maskedFieldValue\<rparr>
      else if field = ''test_mode'' then i\<lparr>it_test_mode := maskedFieldValue\<rparr>
      else if field = ''source_service_id'' then i\<lparr>it_source_service := maskedFieldValue\<rparr>
      else if field = ''team_lead_id'' then i\<lparr>it_team_lead := maskedFieldValue\<rparr>
      else if field = ''project_manager_id'' then i\<lparr>it_manager := maskedFieldValue\<rparr>
      else if field = ''engineer_ids''
      then (if column_strs (it_engineers i) = [] then i else i\<lparr>it_engineers := JStrs [maskedFieldValue]\<rparr>)
      else i)"

definition maskProjectAndItemFields ::
  "string list \<Rightarrow> string list \<Rightarrow> project_row list \<Rightarrow> service_item list \<Rightarrow> project_row list \<times> service_item list" where
  "maskProjectAndItemFields projectHidden itemHidden ps is =
     (fold (\<lambda>f. map (maskProjectField f)) projectHidden ps,
      fold (\<lambda>f. map (maskServiceItemField f)) itemHidden is)"

definition applyFieldPermissions ::
  "string list \<Rightarrow> permission_rule list option \<Rightarrow> project_row list \<Rightarrow> service_item list \<Rightarrow>
     app_error + project_row list \<times> service_item list"
where
  "applyFieldPermissions roles rules ps is =
     rbind (hiddenFieldsFor roles rules) (\<lambda>(projectHidden, itemHidden).
       Inr (maskProjectAndItemFields projectHidden itemHidden ps is))"

text \<open>The masked columns of the list of overdue items, and of the list of reservations.\<close>

record sla_line =
  so_id :: string
  so_project :: string
  so_site :: string
  so_category :: string
  so_status :: string

definition applyFieldPermissionsToSlaItems ::
  "string list \<Rightarrow> permission_rule list option \<Rightarrow> sla_line list \<Rightarrow> app_error + sla_line list" where
  "applyFieldPermissionsToSlaItems roles rules lines =
     rbind (hiddenFieldsFor roles rules) (\<lambda>(_, itemHidden).
       Inr (map (\<lambda>l. let l = (if List.member itemHidden ''site'' then l\<lparr>so_site := maskedFieldValue\<rparr> else l) in
                     if List.member itemHidden ''category'' then l\<lparr>so_category := maskedFieldValue\<rparr> else l) lines))"

record reservation_line =
  rl_item :: string
  rl_resource :: string
  rl_customer :: string

definition applyFieldPermissionsToReservations ::
  "string list \<Rightarrow> permission_rule list option \<Rightarrow> reservation_line list \<Rightarrow> app_error + reservation_line list" where
  "applyFieldPermissionsToReservations roles rules lines =
     rbind (hiddenFieldsFor roles rules) (\<lambda>(projectHidden, _).
       Inr (if List.member projectHidden ''customer''
            then map (\<lambda>l. l\<lparr>rl_customer := maskedFieldValue\<rparr>) lines else lines))"

section \<open>Events\<close>

text \<open>
  A payload is masked recursively: objects inside objects, and objects that are entries of an array;
  an array inside an array is left as it is.
\<close>

fun mask_value :: "string list \<Rightarrow> json \<Rightarrow> json" where
  "mask_value hidden (JObj obj) =
     JObj (map (\<lambda>(key, v). (key, if List.member hidden key then JStr maskedFieldValue else mask_value hidden v)) obj)"
| "mask_value hidden (JArr entries) =
     JArr (map (\<lambda>e. case e of JObj _ \<Rightarrow> mask_value hidden e | _ \<Rightarrow> e) entries)"
| "mask_value hidden v = v"

definition maskEventPayload :: "string list \<Rightarrow> payload \<Rightarrow> payload" where
  "maskEventPayload hidden payload =
     map (\<lambda>(key, v). (key, if List.member hidden key then JStr maskedFieldValue else mask_value hidden v)) payload"

definition maskEventPayloads :: "string list \<Rightarrow> event_row list \<Rightarrow> event_row list" where
  "maskEventPayloads hidden es =
     (if hidden = [] then es
      else map (\<lambda>e. e\<lparr>er_payload := maskEventPayload hidden (er_payload e)\<rparr>) es)"

definition applyFieldPermissionsToEvents ::
  "string list \<Rightarrow> permission_rule list option \<Rightarrow> event_row list \<Rightarrow> app_error + event_row list" where
  "applyFieldPermissionsToEvents roles rules es =
     rbind (hiddenFieldsFor roles rules) (\<lambda>(_, itemHidden). Inr (maskEventPayloads itemHidden es))"

section \<open>What a reader sees\<close>

text \<open>The keys of a value with what stands at them, at any depth.\<close>

fun bindings :: "json \<Rightarrow> (string \<times> json) list" where
  "bindings (JObj obj) = concat (map (\<lambda>(key, v). (key, v) # bindings v) obj)"
| "bindings (JArr entries) = concat (map bindings entries)"
| "bindings v = []"

definition not_array :: "json \<Rightarrow> bool" where
  "not_array j \<longleftrightarrow> (case j of JArr _ \<Rightarrow> False | _ \<Rightarrow> True)"

text \<open>No array stands directly in an array.\<close>

fun arrays_flat :: "json \<Rightarrow> bool" where
  "arrays_flat (JObj obj) = list_all (\<lambda>(key, v). arrays_flat v) obj"
| "arrays_flat (JArr entries) = list_all (\<lambda>e. not_array e \<and> arrays_flat e) entries"
| "arrays_flat v = True"

lemma maskEventPayload_value: "JObj (maskEventPayload hidden p) = mask_value hidden (JObj p)"
  by (simp add: maskEventPayload_def)

lemma masked_bindings:
  "arrays_flat j \<Longrightarrow> (key, v) \<in> set (bindings (mask_value hidden j)) \<Longrightarrow> List.member hidden key \<Longrightarrow>
   v = JStr maskedFieldValue"
proof (induction hidden j arbitrary: key v rule: mask_value.induct)
  case (1 hidden obj)
  from 1(3) obtain k w where kw: "(k, w) \<in> set obj"
    and at: "(key, v) = (k, if List.member hidden k then JStr maskedFieldValue else mask_value hidden w) \<or>
      (key, v) \<in> set (bindings (if List.member hidden k then JStr maskedFieldValue else mask_value hidden w))"
    by auto
  have "arrays_flat w" using 1(2) kw by (auto simp: list_all_iff)
  show ?case
  proof (cases "List.member hidden k")
    case True
    with at show ?thesis by auto
  next
    case False
    with at 1(4) have "(key, v) \<in> set (bindings (mask_value hidden w))" by auto
    from 1(1) [OF kw refl False \<open>arrays_flat w\<close> this 1(4)] show ?thesis .
  qed
next
  case (2 hidden entries)
  from 2(3) obtain e where e: "e \<in> set entries"
    and at: "(key, v) \<in> set (bindings (case e of JObj _ \<Rightarrow> mask_value hidden e | _ \<Rightarrow> e))" by auto
  have flat: "not_array e" "arrays_flat e" using 2(2) e by (auto simp: list_all_iff)
  from flat(1) at obtain obj where "e = JObj obj" by (cases e) (auto simp: not_array_def)
  with 2(1) [OF e this flat(2) _ 2(4)] at show ?case by simp
qed auto

section \<open>Nothing hidden is shown\<close>

text \<open>Masking column by column.\<close>

definition covered :: "string \<Rightarrow> string \<Rightarrow> string \<Rightarrow> string" where
  "covered f column v = (if f = column then maskedFieldValue else v)"

lemma covered_simps [simp]:
  "covered f f v = maskedFieldValue" "covered f column (covered f column v) = covered f column v"
  by (simp_all add: covered_def)

lemma covered_commute: "covered f column (covered g column v) = covered g column (covered f column v)"
  by (simp add: covered_def)

definition engineers_covered :: "string \<Rightarrow> json \<Rightarrow> json" where
  "engineers_covered f j =
     (if f = ''engineer_ids'' \<and> column_strs j \<noteq> [] then JStrs [maskedFieldValue] else j)"

lemma column_strs_masked [simp]: "column_strs (JStrs [maskedFieldValue]) \<noteq> []"
  by (simp add: column_strs_def JStrs_def)

lemma engineers_covered_simps:
  "engineers_covered f (engineers_covered g j) = engineers_covered g (engineers_covered f j)"
  "engineers_covered f (engineers_covered f j) = engineers_covered f j"
  by (auto simp: engineers_covered_def)

lemma maskProjectField_columns:
  "maskProjectField f p =
     p\<lparr>pj_name := covered f ''name'' (pj_name p),
       pj_customer := covered f ''customer'' (pj_customer p),
       pj_contract := covered f ''contract'' (pj_contract p),
       pj_category := covered f ''category'' (pj_category p),
       pj_team := covered f ''team'' (pj_team p),
       pj_manager := covered f ''manager'' (pj_manager p),
       pj_due := covered f ''due'' (pj_due p)\<rparr>"
  unfolding maskProjectField_def by (rule project_row.equality; simp add: covered_def)

lemma maskServiceItemField_columns:
  "maskServiceItemField f i =
     i\<lparr>it_batch := covered f ''batch'' (it_batch i),
       it_site := covered f ''site'' (it_site i),
       it_category := covered f ''category'' (it_category i),
       it_requirement := covered f ''requirement'' (it_requirement i),
       it_system := covered f ''system'' (it_system i),
       it_system_level := covered f ''system_level'' (it_system_level i),
       it_special := covered f ''special'' (it_special i),
       it_test_mode := covered f ''test_mode'' (it_test_mode i),
       it_source_service := covered f ''source_service_id'' (it_source_service i),
       it_team_lead := covered f ''team_lead_id'' (it_team_lead i),
       it_manager := covered f ''project_manager_id'' (it_manager i),
       it_engineers := engineers_covered f (it_engineers i)\<rparr>"
  unfolding maskServiceItemField_def by (rule service_item.equality; simp add: covered_def engineers_covered_def)

lemma mask_commute:
  "maskProjectField f (maskProjectField g p) = maskProjectField g (maskProjectField f p)"
  "maskServiceItemField f (maskServiceItemField g i) = maskServiceItemField g (maskServiceItemField f i)"
  unfolding maskProjectField_columns maskServiceItemField_columns
  by (simp_all add: covered_commute engineers_covered_simps(1))

lemma mask_idem:
  "maskProjectField f (maskProjectField f p) = maskProjectField f p"
  "maskServiceItemField f (maskServiceItemField f i) = maskServiceItemField f i"
  unfolding maskProjectField_columns maskServiceItemField_columns by (simp_all add: engineers_covered_simps(2))

lemma fold_map_mask:
  assumes "\<And>f g x. m f (m g x) = m g (m f x)" and "\<And>f x. m f (m f x) = m f x" and "f \<in> set hs"
  shows "fold (\<lambda>f. map (m f)) hs (map (m f) xs) = fold (\<lambda>f. map (m f)) hs xs"
  using assms(3)
proof (induction hs arbitrary: xs)
  case (Cons h hs)
  show ?case
  proof (cases "h = f")
    case True
    then show ?thesis by (simp add: assms(2) comp_def)
  next
    case False
    have "map (m h) (map (m f) xs) = map (m f) (map (m h) xs)" using assms(1) by simp
    with False Cons show ?thesis by (simp del: map_map)
  qed
qed simp

lemma masked_event:
  "e \<in> set (maskEventPayloads hidden es) \<Longrightarrow> hidden \<noteq> [] \<Longrightarrow>
   \<exists>d \<in> set es. er_payload e = maskEventPayload hidden (er_payload d)"
  by (auto simp: maskEventPayloads_def)

text \<open>
  Nothing hidden is shown. When an enabled rule hides a field from one of the roles of a reader, no
  object inside the payload of an event the reader gets has anything but the mask at that key (payloads
  whose arrays do not stand directly in arrays), and the projects and items the reader gets do not
  depend on that column: the answer is the same for any tables that agree outside the column.
\<close>

theorem hidden_fields_are_not_shown:
  assumes r: "r \<in> set rules" "rule_hides roles r"
    and f: "fr_field r = f" "List.member maskableProjectFields f \<or> List.member maskableServiceItemFields f"
    and flat: "list_all (\<lambda>e. arrays_flat (JObj (er_payload e))) es"
    and same: "map (maskProjectField f) ps = map (maskProjectField f) qs"
      "map (maskServiceItemField f) is = map (maskServiceItemField f) js"
  shows "(\<exists>es'. applyFieldPermissionsToEvents roles (Some rules) es = Inr es' \<and>
      (List.member maskableServiceItemFields f \<longrightarrow>
        (\<forall>e \<in> set es'. \<forall>v. (f, v) \<in> set (bindings (JObj (er_payload e))) \<longrightarrow> v = JStr maskedFieldValue))) \<and>
    applyFieldPermissions roles (Some rules) ps is = applyFieldPermissions roles (Some rules) qs js"
proof -
  let ?fields = "map fr_field (filter (rule_hides roles) rules)"
  let ?ph = "filter (List.member maskableProjectFields) ?fields"
  let ?ih = "filter (List.member maskableServiceItemFields) ?fields"
  have in_fields: "f \<in> set ?fields" using r f(1) by auto
  have shown: "v = JStr maskedFieldValue" if i: "List.member maskableServiceItemFields f"
    and e: "e \<in> set (maskEventPayloads ?ih es)" and v: "(f, v) \<in> set (bindings (JObj (er_payload e)))" for e v
  proof -
    have h: "f \<in> set ?ih" using in_fields i by simp
    then have "?ih \<noteq> []" by (metis empty_iff empty_set)
    with masked_event [OF e] obtain d where d: "d \<in> set es" "er_payload e = maskEventPayload ?ih (er_payload d)"
      by blast
    have "arrays_flat (JObj (er_payload d))" using flat d(1) by (auto simp only: list_all_iff)
    then show ?thesis using masked_bindings [of "JObj (er_payload d)" f v ?ih] v h
      by (simp only: d(2) maskEventPayload_value List.member_iff)
  qed
  have p: "fold (\<lambda>f. map (maskProjectField f)) ?ph ps = fold (\<lambda>f. map (maskProjectField f)) ?ph qs"
  proof (cases "List.member maskableProjectFields f")
    case True
    then have "f \<in> set ?ph" using in_fields by simp
    note m = fold_map_mask [where m = maskProjectField, OF mask_commute(1) mask_idem(1) this]
    from m [of ps] m [of qs] same(1) show ?thesis by simp
  next
    case False
    then have "maskProjectField f = (\<lambda>p. p)"
      by (auto simp: maskableProjectFields_def maskProjectField_def fun_eq_iff)
    with same(1) show ?thesis by simp
  qed
  have i: "fold (\<lambda>f. map (maskServiceItemField f)) ?ih is = fold (\<lambda>f. map (maskServiceItemField f)) ?ih js"
  proof (cases "List.member maskableServiceItemFields f")
    case True
    then have "f \<in> set ?ih" using in_fields by simp
    note m = fold_map_mask [where m = maskServiceItemField, OF mask_commute(2) mask_idem(2) this]
    from m [of "is"] m [of js] same(2) show ?thesis by simp
  next
    case False
    then have "maskServiceItemField f = (\<lambda>i. i)"
      by (auto simp: maskableServiceItemFields_def maskServiceItemField_def fun_eq_iff)
    with same(2) show ?thesis by simp
  qed
  from p i have "applyFieldPermissions roles (Some rules) ps is = applyFieldPermissions roles (Some rules) qs js"
    by (simp only: applyFieldPermissions_def hiddenFieldsFor_def maskProjectAndItemFields_def Let_def
        option.case rbind.simps prod.case)
  moreover have "applyFieldPermissionsToEvents roles (Some rules) es = Inr (maskEventPayloads ?ih es)"
    by (simp add: applyFieldPermissionsToEvents_def hiddenFieldsFor_def Let_def)
  ultimately show ?thesis using shown by blast
qed

definition sample_hiding :: permission_rule where
  "sample_hiding = \<lparr>fr_role = ''pm'', fr_field = ''site'', fr_access = ''hidden'', fr_enabled = True\<rparr>"

theorem hidden_fields_are_not_shown_witness:
  "\<exists>es'. applyFieldPermissionsToEvents [''pm''] (Some [sample_hiding])
       [event_record (sample_event ''E1'' EventFieldStarted ''pm'' [(''site'', JStr ''lab'')])] = Inr es' \<and>
     (\<exists>e. es' = [e] \<and> er_payload e = [(''site'', JStr maskedFieldValue)]) \<and>
     applyFieldPermissions [''pm''] (Some [sample_hiding]) [] [sample_item\<lparr>it_site := ''lab''\<rparr>] =
     applyFieldPermissions [''pm''] (Some [sample_hiding]) [] [sample_item\<lparr>it_site := ''yard''\<rparr>]"
proof -
  let ?e = "event_record (sample_event ''E1'' EventFieldStarted ''pm'' [(''site'', JStr ''lab'')])"
  have h: "rule_hides [''pm''] sample_hiding" by code_simp
  have s: "List.member maskableServiceItemFields ''site''" by code_simp
  note t = hidden_fields_are_not_shown [of sample_hiding "[sample_hiding]" "[''pm'']" "''site''" "[?e]" "[]" "[]"
      "[sample_item\<lparr>it_site := ''lab''\<rparr>]" "[sample_item\<lparr>it_site := ''yard''\<rparr>]", OF _ h]
  have "er_payload ?e = [(''site'', JStr ''lab'')]"
    by (simp add: event_record_def sample_event_def)
  then have "applyFieldPermissionsToEvents [''pm''] (Some [sample_hiding]) [?e] =
      Inr [?e\<lparr>er_payload := [(''site'', JStr maskedFieldValue)]\<rparr>]"
    using h s by (simp add: applyFieldPermissionsToEvents_def hiddenFieldsFor_def maskEventPayloads_def
        maskEventPayload_def Let_def sample_hiding_def)
  moreover have "applyFieldPermissions [''pm''] (Some [sample_hiding]) [] [sample_item\<lparr>it_site := ''lab''\<rparr>] =
     applyFieldPermissions [''pm''] (Some [sample_hiding]) [] [sample_item\<lparr>it_site := ''yard''\<rparr>]"
    using t s by (simp add: sample_hiding_def event_record_def sample_event_def maskServiceItemField_def)
  ultimately show ?thesis by simp
qed

text \<open>
  The event of an activation is not covered by the rules: the sites, batches and categories of the
  items stand in the text of \<open>scope_snapshot\<close>, under a key no rule can hide.
\<close>

lemma scope_snapshot_is_never_masked:
  assumes "set hidden \<subseteq> set maskableServiceItemFields"
  shows "maskEventPayload hidden (activated_payload input project plan items) =
    activated_payload input project plan items"
proof -
  have "\<not> List.member hidden k" if "k \<notin> set maskableServiceItemFields" for k
    using that assms by auto
  then show ?thesis
    by (simp add: maskEventPayload_def activated_payload_def maskableServiceItemFields_def JStrs_def comp_def
        split: option.split)
qed

end
