(* ===== verification/DataScope.thy ===== *)
theory DataScope
  imports Delivery SplitPlans
begin

text \<open>
  Who may read what: the data scopes of a principal (\<open>platform/principal.go\<close>), the authorisation of a
  call (\<open>application/service.go\<close>) and the scoped queries of the repository
  (\<open>mysql/repository.go\<close>, \<open>mysql/delivery_queries.go\<close>).
\<close>

section \<open>Principals\<close>

record data_scope =
  ds_role :: string
  ds_type :: string
  ds_id :: string

record principal =
  pn_tenant :: string
  pn_identity :: string
  pn_user :: string
  pn_roles :: "string list"
  pn_permissions :: "string list"
  pn_scopes :: "data_scope list"

definition Has :: "principal \<Rightarrow> string \<Rightarrow> bool" where
  "Has p permission \<longleftrightarrow> List.member (pn_permissions p) permission"

definition full_scope_type :: "string \<Rightarrow> bool" where
  "full_scope_type ty \<longleftrightarrow> ty = ''APPLICATION'' \<or> ty = ''ENVIRONMENT'' \<or> ty = ''TENANT''"

definition HasFullDataScope :: "principal \<Rightarrow> bool" where
  "HasFullDataScope p \<longleftrightarrow> list_ex (\<lambda>s. full_scope_type (ds_type s)) (pn_scopes p)"

definition HasOrganizationalScope :: "principal \<Rightarrow> bool" where
  "HasOrganizationalScope p \<longleftrightarrow>
     list_ex (\<lambda>s. full_scope_type (ds_type s) \<or> ds_type s = ''ORG'') (pn_scopes p)"

record scope_filter =
  sf_tenant :: string
  sf_identity :: string
  sf_user :: string
  sf_orgs :: "string list"
  sf_projects :: "string list"
  sf_all :: bool
  sf_self :: bool
  sf_assigned :: bool

definition governing_roles :: "string list" where
  "governing_roles =
     [''admin'', ''system_admin'', ''business_admin'', ''technical_director'', ''quality_manager'', ''device_admin'']"

definition operative_roles :: "string list" where
  "operative_roles = [''team_lead'', ''project_manager'', ''engineer'', ''penetration_engineer'']"

definition role_names :: "principal \<Rightarrow> string list" where
  "role_names p = map (\<lambda>r. to_lower (trim_space r)) (pn_roles p @ map ds_role (pn_scopes p))"

definition assignmentScopedOnly :: "principal \<Rightarrow> bool" where
  "assignmentScopedOnly p \<longleftrightarrow>
     \<not> list_ex (List.member (role_names p)) governing_roles \<and> list_ex (List.member (role_names p)) operative_roles"

text \<open>The identifiers of the scopes of a type, each once and sorted.\<close>

definition scope_ids :: "principal \<Rightarrow> string \<Rightarrow> string list" where
  "scope_ids p ty = sort (remdups (map ds_id (filter (\<lambda>s. ds_type s = ty) (pn_scopes p))))"

definition assignments_only :: "scope_filter \<Rightarrow> scope_filter" where
  "assignments_only f =
     f\<lparr>sf_all := False, sf_self := True, sf_orgs := [], sf_projects := [], sf_assigned := True\<rparr>"

text \<open>\<open>None\<close> is \<open>ErrDataScopeDenied\<close>.\<close>

definition ProjectScopeFilter :: "principal \<Rightarrow> scope_filter option" where
  "ProjectScopeFilter p =
     (let identity = trim_space (pn_identity p); user = trim_space (pn_user p);
          first = (if identity = [] then user else identity);
          f = \<lparr>sf_tenant = trim_space (pn_tenant p), sf_identity = first,
               sf_user = (if user = [] then first else user),
               sf_orgs = scope_ids p ''ORG'', sf_projects = scope_ids p ''PROJECT'',
               sf_all = HasFullDataScope p, sf_self = list_ex (\<lambda>s. ds_type s = ''SELF'') (pn_scopes p),
               sf_assigned = False\<rparr>;
          f = (if assignmentScopedOnly p then assignments_only f else f) in
      if sf_tenant f = [] \<or> \<not> sf_all f \<and> \<not> sf_self f \<and> sf_orgs f = [] \<and> sf_projects f = [] then None
      else Some f)"

section \<open>Authorisation\<close>

definition authorizeProjectScope :: "principal \<Rightarrow> string \<Rightarrow> app_error + scope_filter" where
  "authorizeProjectScope p permission =
     (if \<not> Has p permission then Inl ErrForbidden
      else case ProjectScopeFilter p of None \<Rightarrow> Inl ErrForbidden | Some f \<Rightarrow> Inr f)"

fun authorizeAnyProjectScope :: "principal \<Rightarrow> string list \<Rightarrow> app_error + scope_filter" where
  "authorizeAnyProjectScope p [] = Inl ErrForbidden"
| "authorizeAnyProjectScope p (permission # rest) =
     (if Has p permission then authorizeProjectScope p permission else authorizeAnyProjectScope p rest)"

definition requireApplicationAuthorization :: "principal \<Rightarrow> string \<Rightarrow> app_error + unit" where
  "requireApplicationAuthorization p permission =
     rguard (Has p permission \<and> HasFullDataScope p) ErrForbidden"

definition requireAnyApplicationAuthorization :: "principal \<Rightarrow> string list \<Rightarrow> app_error + unit" where
  "requireAnyApplicationAuthorization p permissions =
     rguard (HasFullDataScope p \<and> list_ex (Has p) permissions) ErrForbidden"

definition requireDirectoryRead :: "principal \<Rightarrow> string list \<Rightarrow> app_error + unit" where
  "requireDirectoryRead p permissions =
     rguard (HasOrganizationalScope p \<and> list_ex (Has p) permissions) ErrForbidden"

section \<open>Scopes as conditions of a query\<close>

text \<open>\<open>JSON_CONTAINS\<close> of a string in a column.\<close>

fun json_contains :: "json \<Rightarrow> string \<Rightarrow> bool" where
  "json_contains (JStr v) user = (v = user)"
| "json_contains (JArr entries) user = list_ex (\<lambda>e. json_contains e user) entries"
| "json_contains _ user = False"

text \<open>A live item whose lead, manager or engineer the user is.\<close>

definition assigned_to :: "env \<Rightarrow> string \<Rightarrow> service_item \<Rightarrow> bool" where
  "assigned_to env user i \<longleftrightarrow>
     item_live i \<and> (sql_eq env (it_team_lead i) user \<or> sql_eq env (it_manager i) user \<or>
                    json_contains (it_engineers i) user)"

definition assigned_in_project :: "env \<Rightarrow> string \<Rightarrow> store \<Rightarrow> project_row \<Rightarrow> bool" where
  "assigned_in_project env user s p \<longleftrightarrow>
     list_ex (\<lambda>i. it_tenant i = pj_tenant p \<and> it_project i = pj_id p \<and> assigned_to env user i) (st_items s)"

definition applyProjectScope :: "env \<Rightarrow> scope_filter \<Rightarrow> store \<Rightarrow> project_row \<Rightarrow> bool" where
  "applyProjectScope env f s p \<longleftrightarrow> pj_tenant p = sf_tenant f \<and>
     (if sf_assigned f then assigned_in_project env (sf_user f) s p
      else sf_all f \<or>
        list_ex (sql_eq env (pj_owner_org p)) (sf_orgs f) \<or> list_ex (sql_eq env (pj_id p)) (sf_projects f) \<or>
        sf_self f \<and> (sql_eq env (pj_owner_identity p) (sf_identity f) \<or>
          sql_eq env (pj_manager_identity p) (sf_identity f) \<or> assigned_in_project env (sf_user f) s p))"

definition scoped_project :: "env \<Rightarrow> scope_filter \<Rightarrow> store \<Rightarrow> string \<Rightarrow> bool" where
  "scoped_project env f s project \<longleftrightarrow>
     list_ex (\<lambda>p. pj_id p = project \<and> applyProjectScope env f s p) (st_projects s)"

definition applyServiceItemScope :: "env \<Rightarrow> scope_filter \<Rightarrow> store \<Rightarrow> service_item \<Rightarrow> bool" where
  "applyServiceItemScope env f s i \<longleftrightarrow> it_tenant i = sf_tenant f \<and>
     (if sf_assigned f then assigned_to env (sf_user f) i else scoped_project env f s (it_project i))"

section \<open>Queries\<close>

definition page_of :: "int \<Rightarrow> int \<Rightarrow> 'a list \<Rightarrow> 'a list" where
  "page_of page size' xs =
     (if 0 < size' then take (nat size') (drop (nat (max 0 ((page - 1) * size'))) xs) else xs)"

definition ListServiceItems ::
  "env \<Rightarrow> scope_filter \<Rightarrow> string \<Rightarrow> int \<Rightarrow> int \<Rightarrow> store \<Rightarrow> service_item list \<times> nat" where
  "ListServiceItems env f project page size' s =
     (let rows = filter (\<lambda>i. item_live i \<and> applyServiceItemScope env f s i \<and>
                            (project = [] \<or> it_project i = project)) (st_items s)
      in (page_of page size' (sort_key it_id rows), length rows))"

definition GetServiceItem :: "env \<Rightarrow> scope_filter \<Rightarrow> string \<Rightarrow> store \<Rightarrow> app_error + service_item" where
  "GetServiceItem env f key s =
     (case find (\<lambda>i. item_live i \<and> applyServiceItemScope env f s i \<and> it_id i = key) (st_items s) of
        None \<Rightarrow> Inl ErrNotFound | Some i \<Rightarrow> Inr i)"

text \<open>A project with what its items derive (\<open>applyDerivedProjectMetrics\<close>).\<close>

record project_view =
  pv_project :: project_row
  pv_stage :: string
  pv_risk :: bool

definition applyDerivedProjectMetrics :: "project_row \<Rightarrow> status_item list \<Rightarrow> project_view" where
  "applyDerivedProjectMetrics p items =
     (let status = DeriveProjectStatus items (pj_supplement p) (pj_status p) in
      \<lparr>pv_project = p\<lparr>pj_status := status, pj_progress := DeriveProjectProgress items\<rparr>,
       pv_stage = DeriveProjectReportStage items, pv_risk = IsRiskProject status items\<rparr>)"

definition project_view_of :: "scope_filter \<Rightarrow> store \<Rightarrow> project_row \<Rightarrow> project_view" where
  "project_view_of f s p = applyDerivedProjectMetrics p (status_items s (sf_tenant f) (pj_id p))"

definition GetProject :: "env \<Rightarrow> scope_filter \<Rightarrow> string \<Rightarrow> store \<Rightarrow> app_error + project_view" where
  "GetProject env f key s =
     (case find (\<lambda>p. applyProjectScope env f s p \<and> pj_id p = key) (st_projects s) of
        None \<Rightarrow> Inl ErrNotFound | Some p \<Rightarrow> Inr (project_view_of f s p))"

text \<open>
  Events of the projects in scope; who only sees own items only sees the events of these. The newest
  500 are read.
\<close>

definition scoped_event :: "env \<Rightarrow> scope_filter \<Rightarrow> store \<Rightarrow> event_row \<Rightarrow> bool" where
  "scoped_event env f s e \<longleftrightarrow> er_tenant e = sf_tenant f \<and> scoped_project env f s (er_project e) \<and>
     (sf_assigned f \<longrightarrow> list_ex (\<lambda>i. it_id i = er_item e \<and> applyServiceItemScope env f s i) (st_items s))"

definition ListDeliveryEvents :: "env \<Rightarrow> scope_filter \<Rightarrow> string \<Rightarrow> store \<Rightarrow> event_row list" where
  "ListDeliveryEvents env f project s =
     take 500 (rev (sort_key er_created_at
       (filter (\<lambda>e. scoped_event env f s e \<and> (project = [] \<or> er_project e = project)) (st_events s))))"

definition MaxServiceItemDeliveryEvents :: nat where
  "MaxServiceItemDeliveryEvents = 1000"

text \<open>All the events of an item, in the order of their identifiers; more than 1,000 are an error.\<close>

definition ListServiceItemDeliveryEvents ::
  "env \<Rightarrow> scope_filter \<Rightarrow> string \<Rightarrow> store \<Rightarrow> app_error + event_row list" where
  "ListServiceItemDeliveryEvents env f item s =
     (if blank item then Inl ErrValidation
      else
        let rows = sort_key er_id (filter (\<lambda>e. scoped_event env f s e \<and> er_item e = item) (st_events s)) in
        if MaxServiceItemDeliveryEvents < length rows then Inl ErrStorage else Inr rows)"

definition FindProjectForDeviation ::
  "env \<Rightarrow> scope_filter \<Rightarrow> string \<Rightarrow> store \<Rightarrow> app_error + string \<times> string" where
  "FindProjectForDeviation env f deviation s =
     (case find (\<lambda>e. scoped_event env f s e \<and> er_type e = EventDeviationReported \<and>
                    has_text (er_payload e) ''deviation_id'' deviation) (st_events s) of
        None \<Rightarrow> Inl ErrNotFound | Some e \<Rightarrow> Inr (er_project e, er_item e))"

section \<open>Nobody reads outside the own scope\<close>

lemma set_page_of: "set (page_of page size' xs) \<subseteq> set xs"
  by (auto simp: page_of_def dest: in_set_takeD in_set_dropD)

lemma operative_filter:
  assumes "ProjectScopeFilter p = Some f" and "assignmentScopedOnly p"
  shows "sf_assigned f" "\<not> sf_all f" "sf_orgs f = []" "sf_projects f = []"
  using assms by (auto simp: ProjectScopeFilter_def Let_def assignments_only_def split: if_splits)

lemma filter_tenant: "ProjectScopeFilter p = Some f \<Longrightarrow> sf_tenant f = trim_space (pn_tenant p) \<and> sf_tenant f \<noteq> []"
  by (auto simp: ProjectScopeFilter_def Let_def assignments_only_def split: if_splits)

lemma filter_user:
  "ProjectScopeFilter p = Some f \<Longrightarrow>
   sf_user f = firstNonEmpty (pn_user p) (pn_identity p)"
  by (auto simp: ProjectScopeFilter_def Let_def assignments_only_def firstNonEmpty_def split: if_splits)

lemma find_spec: "find Q xs = Some x \<Longrightarrow> x \<in> set xs \<and> Q x"
  by (auto simp: find_Some_iff)

lemma listed_items:
  "i \<in> set (fst (ListServiceItems env f project page size' s)) \<Longrightarrow>
   i \<in> set (st_items s) \<and> item_live i \<and> applyServiceItemScope env f s i"
  using set_page_of by (fastforce simp: ListServiceItems_def Let_def)

lemma got_item:
  "GetServiceItem env f key s = Inr i \<Longrightarrow>
   i \<in> set (st_items s) \<and> item_live i \<and> applyServiceItemScope env f s i"
  by (auto simp: GetServiceItem_def dest!: find_spec split: option.splits)

lemma listed_events:
  "e \<in> set (ListDeliveryEvents env f project s) \<Longrightarrow> e \<in> set (st_events s) \<and> scoped_event env f s e"
  by (auto simp: ListDeliveryEvents_def dest!: in_set_takeD)

lemma listed_item_events:
  "ListServiceItemDeliveryEvents env f item s = Inr es \<Longrightarrow> e \<in> set es \<Longrightarrow>
   e \<in> set (st_events s) \<and> scoped_event env f s e"
  by (auto simp: ListServiceItemDeliveryEvents_def Let_def split: if_splits)

text \<open>What an operative may see of the items: those that name the own user.\<close>

lemma operative_items:
  assumes "ProjectScopeFilter p = Some f" and "assignmentScopedOnly p" and "applyServiceItemScope env f s i"
  shows "it_tenant i = trim_space (pn_tenant p) \<and> assigned_to env (firstNonEmpty (pn_user p) (pn_identity p)) i"
  using assms operative_filter(1)[OF assms(1,2)] filter_tenant[OF assms(1)] filter_user[OF assms(1)]
  by (simp add: applyServiceItemScope_def)

lemma operative_events:
  assumes "ProjectScopeFilter p = Some f" and "assignmentScopedOnly p" and "scoped_event env f s e"
  shows "\<exists>i \<in> set (st_items s). it_id i = er_item e \<and>
           assigned_to env (firstNonEmpty (pn_user p) (pn_identity p)) i"
  using assms operative_filter(1)[OF assms(1,2)] operative_items[OF assms(1,2)]
  by (auto simp: scoped_event_def list_ex_iff)

text \<open>The authorisation of a call hands out the filter of a caller with the permission, and no other.\<close>

lemma authorized:
  "authorizeProjectScope p permission = Inr f \<longleftrightarrow> Has p permission \<and> ProjectScopeFilter p = Some f"
  by (auto simp: authorizeProjectScope_def split: option.splits)

lemma any_authorized:
  "authorizeAnyProjectScope p permissions = Inr f \<longleftrightarrow>
   list_ex (Has p) permissions \<and> ProjectScopeFilter p = Some f"
  by (induction permissions) (auto simp: authorizeProjectScope_def split: option.splits)

text \<open>
  C40. What an authorised caller reads is inside the caller's data scope: every item, project and event
  answered is of the caller's tenant, and a caller with only operative roles (team lead, project manager,
  engineer), whatever scopes the platform granted, reads only live items that name the caller as lead,
  manager or engineer, and only events of such items. No list goes beyond 500 events.
\<close>

theorem answers_stay_in_scope:
  assumes "authorizeAnyProjectScope p permissions = Inr f"
  shows "(\<forall>i. i \<in> set (fst (ListServiceItems env f project page size' s)) \<or> GetServiceItem env f key s = Inr i \<longrightarrow>
            it_tenant i = trim_space (pn_tenant p) \<and>
            (assignmentScopedOnly p \<longrightarrow> item_live i \<and>
               assigned_to env (firstNonEmpty (pn_user p) (pn_identity p)) i)) \<and>
         (\<forall>v. GetProject env f key s = Inr v \<longrightarrow> pj_tenant (pv_project v) = trim_space (pn_tenant p)) \<and>
         (\<forall>e \<in> set (ListDeliveryEvents env f project s).
            er_tenant e = trim_space (pn_tenant p) \<and>
            (assignmentScopedOnly p \<longrightarrow> (\<exists>i \<in> set (st_items s). it_id i = er_item e \<and>
               assigned_to env (firstNonEmpty (pn_user p) (pn_identity p)) i))) \<and>
         length (ListDeliveryEvents env f project s) \<le> 500"
proof -
  have f: "ProjectScopeFilter p = Some f" using assms any_authorized by blast
  note t = filter_tenant[OF f]
  have item: "it_tenant i = trim_space (pn_tenant p)" if "applyServiceItemScope env f s i" for i
    using that t by (simp add: applyServiceItemScope_def)
  have items: "it_tenant i = trim_space (pn_tenant p) \<and>
      (assignmentScopedOnly p \<longrightarrow> item_live i \<and> assigned_to env (firstNonEmpty (pn_user p) (pn_identity p)) i)"
    if "i \<in> set (fst (ListServiceItems env f project page size' s)) \<or> GetServiceItem env f key s = Inr i" for i
    using that listed_items got_item item operative_items[OF f] by metis
  have project': "pj_tenant (pv_project v) = trim_space (pn_tenant p)" if "GetProject env f key s = Inr v" for v
    using that t by (auto simp: GetProject_def project_view_of_def applyDerivedProjectMetrics_def Let_def
        applyProjectScope_def dest!: find_spec split: option.splits)
  have events: "er_tenant e = trim_space (pn_tenant p) \<and>
      (assignmentScopedOnly p \<longrightarrow> (\<exists>i \<in> set (st_items s). it_id i = er_item e \<and>
         assigned_to env (firstNonEmpty (pn_user p) (pn_identity p)) i))"
    if "e \<in> set (ListDeliveryEvents env f project s)" for e
    using listed_events[OF that] operative_events[OF f] t by (auto simp: scoped_event_def)
  have "length (ListDeliveryEvents env f project s) \<le> 500" by (simp add: ListDeliveryEvents_def)
  with items project' events show ?thesis by blast
qed

text \<open>A team lead with a scope over the whole tenant still only reads the own item.\<close>

definition sample_lead :: principal where
  "sample_lead = \<lparr>pn_tenant = ''T1'', pn_identity = ''I-1'', pn_user = ''lead'', pn_roles = [''team_lead''],
     pn_permissions = [''project.read''],
     pn_scopes = [\<lparr>ds_role = ''team_lead'', ds_type = ''TENANT'', ds_id = ''T1''\<rparr>]\<rparr>"

definition sample_lead_filter :: scope_filter where
  "sample_lead_filter = \<lparr>sf_tenant = ''T1'', sf_identity = ''I-1'', sf_user = ''lead'', sf_orgs = [],
     sf_projects = [], sf_all = False, sf_self = True, sf_assigned = True\<rparr>"

definition sample_scope_store :: store where
  "sample_scope_store = empty_store\<lparr>st_projects := [sample_project],
     st_items := [sample_item\<lparr>it_team_lead := ''lead''\<rparr>, sample_item\<lparr>it_id := ''SI-2''\<rparr>]\<rparr>"

theorem answers_stay_in_scope_witness:
  "authorizeAnyProjectScope sample_lead [''project.read''] = Inr sample_lead_filter \<and>
   map it_id (fst (ListServiceItems sample_env sample_lead_filter [] 1 0 sample_scope_store)) = [''SI-1''] \<and>
   length (ListDeliveryEvents sample_env sample_lead_filter [] sample_scope_store) \<le> 500"
proof -
  have f: "authorizeAnyProjectScope sample_lead [''project.read''] = Inr sample_lead_filter"
    by code_simp
  moreover have "map it_id (fst (ListServiceItems sample_env sample_lead_filter [] 1 0 sample_scope_store)) = [''SI-1'']"
    by code_simp
  ultimately show ?thesis
    using answers_stay_in_scope [OF f, of sample_env "[]" 1 0 sample_scope_store "[]"] by blast
qed

end
