(* ===== verification/DeliveryCommands.thy ===== *)
theory DeliveryCommands
  imports EventHistory DataScope
begin

text \<open>
  The base of the commands of the service: authorisation on an item, the version the client saw, the
  event of a command, its notification and its application (\<open>application/delivery_support.go\<close>,
  \<open>application/delivery_outbox.go\<close>). The commands themselves are in TeamCommands, PlanCommands,
  FieldCommands and RequestCommands.
\<close>

section \<open>A call of the service\<close>

text \<open>
  The caller, the time the call reads and the fresh identifiers it makes: of the event, of the
  notification, and a third one where the command needs it. Every command below
  takes one.
\<close>

record service_call =
  cl_user :: principal
  cl_now :: instant
  cl_event :: string
  cl_message :: string
  cl_fresh :: string

definition authorizeServiceItem ::
  "env \<Rightarrow> principal \<Rightarrow> string \<Rightarrow> string \<Rightarrow> store \<Rightarrow> app_error + unit" where
  "authorizeServiceItem env p permission item s =
     rbind (authorizeProjectScope p permission) (\<lambda>f.
     rbind (GetServiceItem env f item s) (\<lambda>_. Inr ()))"

definition authorizeProject ::
  "env \<Rightarrow> principal \<Rightarrow> string \<Rightarrow> string \<Rightarrow> store \<Rightarrow> app_error + unit" where
  "authorizeProject env p permission project s =
     rbind (authorizeProjectScope p permission) (\<lambda>f.
     rbind (GetProject env f project s) (\<lambda>_. Inr ()))"

text \<open>Version 0 means that the client did not say which version it saw.\<close>

definition verifyExpectedVersion ::
  "env \<Rightarrow> principal \<Rightarrow> string \<Rightarrow> string \<Rightarrow> nat \<Rightarrow> store \<Rightarrow> app_error + unit" where
  "verifyExpectedVersion env p permission item expected s =
     (if expected = 0 then Inr ()
      else rbind (authorizeProjectScope p permission) (\<lambda>f.
           rbind (GetServiceItem env f item s) (\<lambda>i.
             rguard (it_version i = expected) ErrConflict)))"

definition deliveryEvent ::
  "service_call \<Rightarrow> string \<Rightarrow> string \<Rightarrow> event_type \<Rightarrow> payload \<Rightarrow> delivery_event" where
  "deliveryEvent c project item ty p =
     \<lparr>de_id = cl_event c, de_tenant = pn_tenant (cl_user c), de_project = project, de_item = item,
      de_type = ty, de_actor = pn_user (cl_user c), de_payload = p, de_created_at = cl_now c,
      de_operation = [], de_captured_at = None, de_notification = None, de_role_notification = None\<rparr>"

definition version_entry :: "nat \<Rightarrow> string \<times> json" where
  "version_entry v = (''expected_version'', JNum (int v))"

section \<open>The notification of an assignment\<close>

text \<open>Titles and texts in UTF-8.\<close>

definition title_team_assigned :: string where
  "title_team_assigned =
    [CHR 0xE5, CHR 0xB7, CHR 0xB2, CHR 0xE6, CHR 0x8C, CHR 0x87, CHR 0xE6, CHR 0xB4, CHR 0xBE,
     CHR 0xE5, CHR 0x9B, CHR 0xA2, CHR 0xE9, CHR 0x98, CHR 0x9F, CHR 0xE8, CHR 0xB4, CHR 0x9F,
     CHR 0xE8, CHR 0xB4, CHR 0xA3, CHR 0xE4, CHR 0xBA, CHR 0xBA]"

definition content_team_assigned :: string where
  "content_team_assigned =
    [CHR 0xE4, CHR 0xBD, CHR 0xA0, CHR 0xE8, CHR 0xA2, CHR 0xAB, CHR 0xE6, CHR 0x8C, CHR 0x87,
     CHR 0xE6, CHR 0xB4, CHR 0xBE, CHR 0xE4, CHR 0xB8, CHR 0xBA, CHR 0xE6, CHR 0x9C, CHR 0x8D,
     CHR 0xE5, CHR 0x8A, CHR 0xA1, CHR 0xE9, CHR 0xA1, CHR 0xB9, CHR 0xE7, CHR 0x9A, CHR 0x84,
     CHR 0xE5, CHR 0x9B, CHR 0xA2, CHR 0xE9, CHR 0x98, CHR 0x9F, CHR 0xE8, CHR 0xB4, CHR 0x9F,
     CHR 0xE8, CHR 0xB4, CHR 0xA3, CHR 0xE4, CHR 0xBA, CHR 0xBA, CHR 0xEF, CHR 0xBC, CHR 0x8C,
     CHR 0xE8, CHR 0xAF, CHR 0xB7, CHR 0xE5, CHR 0x9C, CHR 0xA8, CHR 0xE3, CHR 0x80, CHR 0x8C,
     CHR 0xE4, CHR 0xBB, CHR 0xBB, CHR 0xE5, CHR 0x8A, CHR 0xA1, CHR 0xE5, CHR 0x88, CHR 0x86,
     CHR 0xE9, CHR 0x85, CHR 0x8D, CHR 0xE3, CHR 0x80, CHR 0x8D, CHR 0xE4, CHR 0xB8, CHR 0xAD,
     CHR 0xE6, CHR 0x8C, CHR 0x87, CHR 0xE6, CHR 0xB4, CHR 0xBE, CHR 0xE9, CHR 0xA1, CHR 0xB9,
     CHR 0xE7, CHR 0x9B, CHR 0xAE, CHR 0xE7, CHR 0xBB, CHR 0x8F, CHR 0xE7, CHR 0x90, CHR 0x86,
     CHR 0xE4, CHR 0xB8, CHR 0x8E, CHR 0xE5, CHR 0xAE, CHR 0x9E, CHR 0xE6, CHR 0x96, CHR 0xBD,
     CHR 0xE5, CHR 0xB7, CHR 0xA5, CHR 0xE7, CHR 0xA8, CHR 0x8B, CHR 0xE5, CHR 0xB8, CHR 0x88,
     CHR 0xE3, CHR 0x80, CHR 0x82]"

definition title_execution_assigned :: string where
  "title_execution_assigned =
    [CHR 0xE5, CHR 0xB7, CHR 0xB2, CHR 0xE6, CHR 0x8C, CHR 0x87, CHR 0xE6, CHR 0xB4, CHR 0xBE,
     CHR 0xE9, CHR 0xA1, CHR 0xB9, CHR 0xE7, CHR 0x9B, CHR 0xAE, CHR 0xE7, CHR 0xBB, CHR 0x8F,
     CHR 0xE7, CHR 0x90, CHR 0x86, CHR 0xE4, CHR 0xB8, CHR 0x8E, CHR 0xE5, CHR 0xAE, CHR 0x9E,
     CHR 0xE6, CHR 0x96, CHR 0xBD, CHR 0xE5, CHR 0xB7, CHR 0xA5, CHR 0xE7, CHR 0xA8, CHR 0x8B,
     CHR 0xE5, CHR 0xB8, CHR 0x88]"

definition content_execution_assigned :: string where
  "content_execution_assigned =
    [CHR 0xE4, CHR 0xBD, CHR 0xA0, CHR 0xE8, CHR 0xA2, CHR 0xAB, CHR 0xE6, CHR 0x8C, CHR 0x87,
     CHR 0xE6, CHR 0xB4, CHR 0xBE, CHR 0xE5, CHR 0x88, CHR 0xB0, CHR 0xE8, CHR 0xAF, CHR 0xA5,
     CHR 0xE6, CHR 0x9C, CHR 0x8D, CHR 0xE5, CHR 0x8A, CHR 0xA1, CHR 0xE9, CHR 0xA1, CHR 0xB9,
     CHR 0xEF, CHR 0xBC, CHR 0x8C, CHR 0xE8, CHR 0xAF, CHR 0xB7, CHR 0xE5, CHR 0x9C, CHR 0xA8,
     CHR 0xE3, CHR 0x80, CHR 0x8C, CHR 0xE5, CHR 0xAE, CHR 0x9E, CHR 0xE6, CHR 0x96, CHR 0xBD,
     CHR 0xE8, CHR 0xAE, CHR 0xA1, CHR 0xE5, CHR 0x88, CHR 0x92, CHR 0xE3, CHR 0x80, CHR 0x8D,
     CHR 0xE4, CHR 0xB8, CHR 0xAD, CHR 0xE7, CHR 0xA1, CHR 0xAE, CHR 0xE8, CHR 0xAE, CHR 0xA4,
     CHR 0xE6, CHR 0x8E, CHR 0x92, CHR 0xE6, CHR 0x9C, CHR 0x9F, CHR 0xE5, CHR 0xB9, CHR 0xB6,
     CHR 0xE6, CHR 0x8E, CHR 0xA8, CHR 0xE8, CHR 0xBF, CHR 0x9B, CHR 0xE4, CHR 0xBA, CHR 0xA4,
     CHR 0xE4, CHR 0xBB, CHR 0x98, CHR 0xE3, CHR 0x80, CHR 0x82]"

definition title_team_revoked :: string where
  "title_team_revoked =
    [CHR 0xE5, CHR 0x9B, CHR 0xA2, CHR 0xE9, CHR 0x98, CHR 0x9F, CHR 0xE8, CHR 0xB4, CHR 0x9F,
     CHR 0xE8, CHR 0xB4, CHR 0xA3, CHR 0xE4, CHR 0xBA, CHR 0xBA, CHR 0xE5, CHR 0x88, CHR 0x86,
     CHR 0xE9, CHR 0x85, CHR 0x8D, CHR 0xE5, CHR 0xB7, CHR 0xB2, CHR 0xE6, CHR 0x92, CHR 0xA4,
     CHR 0xE9, CHR 0x94, CHR 0x80]"

definition content_team_revoked :: string where
  "content_team_revoked =
    [CHR 0xE4, CHR 0xBD, CHR 0xA0, CHR 0xE4, CHR 0xB8, CHR 0x8D, CHR 0xE5, CHR 0x86, CHR 0x8D,
     CHR 0xE8, CHR 0xB4, CHR 0x9F, CHR 0xE8, CHR 0xB4, CHR 0xA3, CHR 0xE8, CHR 0xAF, CHR 0xA5,
     CHR 0xE6, CHR 0x9C, CHR 0x8D, CHR 0xE5, CHR 0x8A, CHR 0xA1, CHR 0xE9, CHR 0xA1, CHR 0xB9,
     CHR 0xEF, CHR 0xBC, CHR 0x9B, CHR 0xE6, CHR 0x92, CHR 0xA4, CHR 0xE9, CHR 0x94, CHR 0x80,
     CHR 0xE5, CHR 0x8E, CHR 0x9F, CHR 0xE5, CHR 0x9B, CHR 0xA0, CHR 0xE5, CHR 0xB7, CHR 0xB2,
     CHR 0xE8, CHR 0xAE, CHR 0xB0, CHR 0xE5, CHR 0xBD, CHR 0x95, CHR 0xEF, CHR 0xBC, CHR 0x8C,
     CHR 0xE8, CHR 0xAF, CHR 0xB7, CHR 0xE5, CHR 0x85, CHR 0xB3, CHR 0xE6, CHR 0xB3, CHR 0xA8,
     CHR 0xE5, CHR 0x90, CHR 0x8E, CHR 0xE7, CHR 0xBB, CHR 0xAD, CHR 0xE9, CHR 0x87, CHR 0x8D,
     CHR 0xE6, CHR 0x96, CHR 0xB0, CHR 0xE5, CHR 0x88, CHR 0x86, CHR 0xE9, CHR 0x85, CHR 0x8D,
     CHR 0xE3, CHR 0x80, CHR 0x82]"

definition title_execution_revoked :: string where
  "title_execution_revoked =
    [CHR 0xE6, CHR 0x89, CHR 0xA7, CHR 0xE8, CHR 0xA1, CHR 0x8C, CHR 0xE5, CHR 0x9B, CHR 0xA2,
     CHR 0xE9, CHR 0x98, CHR 0x9F, CHR 0xE5, CHR 0x88, CHR 0x86, CHR 0xE9, CHR 0x85, CHR 0x8D,
     CHR 0xE5, CHR 0xB7, CHR 0xB2, CHR 0xE6, CHR 0x92, CHR 0xA4, CHR 0xE9, CHR 0x94, CHR 0x80]"

definition title_returned :: string where
  "title_returned =
    [CHR 0xE6, CHR 0x9C, CHR 0x8D, CHR 0xE5, CHR 0x8A, CHR 0xA1, CHR 0xE9, CHR 0xA1, CHR 0xB9,
     CHR 0xE5, CHR 0xB7, CHR 0xB2, CHR 0xE9, CHR 0x80, CHR 0x80, CHR 0xE5, CHR 0x9B, CHR 0x9E,
     CHR 0xE6, CHR 0x8B, CHR 0x86, CHR 0xE8, CHR 0xA7, CHR 0xA3, CHR 0xE7, CHR 0xA1, CHR 0xAE,
     CHR 0xE8, CHR 0xAE, CHR 0xA4]"

definition content_returned :: string where
  "content_returned =
    [CHR 0xE8, CHR 0xAF, CHR 0xA5, CHR 0xE6, CHR 0x9C, CHR 0x8D, CHR 0xE5, CHR 0x8A, CHR 0xA1,
     CHR 0xE9, CHR 0xA1, CHR 0xB9, CHR 0xE5, CHR 0xB7, CHR 0xB2, CHR 0xE9, CHR 0x80, CHR 0x80,
     CHR 0xE5, CHR 0x87, CHR 0xBA, CHR 0xE4, CHR 0xBB, CHR 0xBB, CHR 0xE5, CHR 0x8A, CHR 0xA1,
     CHR 0xE5, CHR 0x88, CHR 0x86, CHR 0xE9, CHR 0x85, CHR 0x8D, CHR 0xE5, CHR 0xB9, CHR 0xB6,
     CHR 0xE9, CHR 0x80, CHR 0x80, CHR 0xE5, CHR 0x9B, CHR 0x9E, CHR 0xE6, CHR 0x8B, CHR 0x86,
     CHR 0xE8, CHR 0xA7, CHR 0xA3, CHR 0xE7, CHR 0xA1, CHR 0xAE, CHR 0xE8, CHR 0xAE, CHR 0xA4,
     CHR 0xEF, CHR 0xBC, CHR 0x9B, CHR 0xE5, CHR 0x8E, CHR 0x9F, CHR 0xE5, CHR 0x88, CHR 0x86,
     CHR 0xE9, CHR 0x85, CHR 0x8D, CHR 0xE5, CHR 0xB7, CHR 0xB2, CHR 0xE5, CHR 0xA4, CHR 0xB1,
     CHR 0xE6, CHR 0x95, CHR 0x88, CHR 0xEF, CHR 0xBC, CHR 0x8C, CHR 0xE9, CHR 0x80, CHR 0x80,
     CHR 0xE5, CHR 0x9B, CHR 0x9E, CHR 0xE5, CHR 0x8E, CHR 0x9F, CHR 0xE5, CHR 0x9B, CHR 0xA0,
     CHR 0xE5, CHR 0xB7, CHR 0xB2, CHR 0xE8, CHR 0xAE, CHR 0xB0, CHR 0xE5, CHR 0xBD, CHR 0x95,
     CHR 0xE3, CHR 0x80, CHR 0x82]"

definition title_rollback_approved :: string where
  "title_rollback_approved =
    [CHR 0xE5, CHR 0x9B, CHR 0x9E, CHR 0xE9, CHR 0x80, CHR 0x80, CHR 0xE7, CHR 0x94, CHR 0xB3,
     CHR 0xE8, CHR 0xAF, CHR 0xB7, CHR 0xE5, CHR 0xB7, CHR 0xB2, CHR 0xE6, CHR 0x89, CHR 0xB9,
     CHR 0xE5, CHR 0x87, CHR 0x86]"

definition content_rollback_approved :: string where
  "content_rollback_approved =
    [CHR 0xE4, CHR 0xBD, CHR 0xA0, CHR 0xE7, CHR 0x9A, CHR 0x84, CHR 0xE9, CHR 0xA1, CHR 0xB9,
     CHR 0xE7, CHR 0x9B, CHR 0xAE, CHR 0xE5, CHR 0x9B, CHR 0x9E, CHR 0xE9, CHR 0x80, CHR 0x80,
     CHR 0xE7, CHR 0x94, CHR 0xB3, CHR 0xE8, CHR 0xAF, CHR 0xB7, CHR 0xE5, CHR 0xB7, CHR 0xB2,
     CHR 0xE6, CHR 0x89, CHR 0xB9, CHR 0xE5, CHR 0x87, CHR 0x86, CHR 0xEF, CHR 0xBC, CHR 0x8C,
     CHR 0xE6, CHR 0x9C, CHR 0x8D, CHR 0xE5, CHR 0x8A, CHR 0xA1, CHR 0xE9, CHR 0xA1, CHR 0xB9,
     CHR 0xE5, CHR 0xB7, CHR 0xB2, CHR 0xE6, CHR 0x8C, CHR 0x89, CHR 0xE8, CHR 0xA1, CHR 0xA5,
     CHR 0xE5, CHR 0x81, CHR 0xBF, CHR 0xE8, CHR 0xA7, CHR 0x84, CHR 0xE5, CHR 0x88, CHR 0x99,
     CHR 0xE5, CHR 0x9B, CHR 0x9E, CHR 0xE9, CHR 0x80, CHR 0x80, CHR 0xE3, CHR 0x80, CHR 0x82]"

definition title_rollback_rejected :: string where
  "title_rollback_rejected =
    [CHR 0xE5, CHR 0x9B, CHR 0x9E, CHR 0xE9, CHR 0x80, CHR 0x80, CHR 0xE7, CHR 0x94, CHR 0xB3,
     CHR 0xE8, CHR 0xAF, CHR 0xB7, CHR 0xE5, CHR 0xB7, CHR 0xB2, CHR 0xE9, CHR 0xA9, CHR 0xB3,
     CHR 0xE5, CHR 0x9B, CHR 0x9E]"

definition content_rollback_rejected :: string where
  "content_rollback_rejected =
    [CHR 0xE4, CHR 0xBD, CHR 0xA0, CHR 0xE7, CHR 0x9A, CHR 0x84, CHR 0xE9, CHR 0xA1, CHR 0xB9,
     CHR 0xE7, CHR 0x9B, CHR 0xAE, CHR 0xE5, CHR 0x9B, CHR 0x9E, CHR 0xE9, CHR 0x80, CHR 0x80,
     CHR 0xE7, CHR 0x94, CHR 0xB3, CHR 0xE8, CHR 0xAF, CHR 0xB7, CHR 0xE5, CHR 0xB7, CHR 0xB2,
     CHR 0xE9, CHR 0xA9, CHR 0xB3, CHR 0xE5, CHR 0x9B, CHR 0x9E, CHR 0xEF, CHR 0xBC, CHR 0x8C,
     CHR 0xE8, CHR 0xAF, CHR 0xB7, CHR 0xE6, CHR 0x9F, CHR 0xA5, CHR 0xE7, CHR 0x9C, CHR 0x8B,
     CHR 0xE5, CHR 0xAE, CHR 0xA1, CHR 0xE6, CHR 0x89, CHR 0xB9, CHR 0xE6, CHR 0x84, CHR 0x8F,
     CHR 0xE8, CHR 0xA7, CHR 0x81, CHR 0xE3, CHR 0x80, CHR 0x82]"

definition title_planned :: string where
  "title_planned =
    [CHR 0xE5, CHR 0xAE, CHR 0x9E, CHR 0xE6, CHR 0x96, CHR 0xBD, CHR 0xE8, CHR 0xAE, CHR 0xA1,
     CHR 0xE5, CHR 0x88, CHR 0x92, CHR 0xE5, CHR 0xB7, CHR 0xB2, CHR 0xE5, CHR 0x8F, CHR 0x91,
     CHR 0xE5, CHR 0xB8, CHR 0x83]"

definition content_planned :: string where
  "content_planned =
    [CHR 0xE8, CHR 0xAF, CHR 0xA5, CHR 0xE6, CHR 0x9C, CHR 0x8D, CHR 0xE5, CHR 0x8A, CHR 0xA1,
     CHR 0xE9, CHR 0xA1, CHR 0xB9, CHR 0xE7, CHR 0x9A, CHR 0x84, CHR 0xE5, CHR 0xAE, CHR 0x9E,
     CHR 0xE6, CHR 0x96, CHR 0xBD, CHR 0xE8, CHR 0xAE, CHR 0xA1, CHR 0xE5, CHR 0x88, CHR 0x92,
     CHR 0xE5, CHR 0xB7, CHR 0xB2, CHR 0xE5, CHR 0x8F, CHR 0x91, CHR 0xE5, CHR 0xB8, CHR 0x83,
     CHR 0xEF, CHR 0xBC, CHR 0x8C, CHR 0xE8, CHR 0xAF, CHR 0xB7, CHR 0xE6, CHR 0x8C, CHR 0x89,
     CHR 0xE6, CHR 0x8E, CHR 0x92, CHR 0xE6, CHR 0x9C, CHR 0x9F, CHR 0xE6, CHR 0x8E, CHR 0xA8,
     CHR 0xE8, CHR 0xBF, CHR 0x9B, CHR 0xE7, CHR 0x8E, CHR 0xB0, CHR 0xE5, CHR 0x9C, CHR 0xBA,
     CHR 0xE5, CHR 0xAE, CHR 0x9E, CHR 0xE6, CHR 0x96, CHR 0xBD, CHR 0xE3, CHR 0x80, CHR 0x82]"

definition title_prepared :: string where
  "title_prepared =
    [CHR 0xE5, CHR 0xAE, CHR 0x9E, CHR 0xE6, CHR 0x96, CHR 0xBD, CHR 0xE5, CHR 0x87, CHR 0x86,
     CHR 0xE5, CHR 0xA4, CHR 0x87, CHR 0xE5, CHR 0xB7, CHR 0xB2, CHR 0xE5, CHR 0x8F, CHR 0x91,
     CHR 0xE8, CHR 0xB5, CHR 0xB7]"

definition content_prepared :: string where
  "content_prepared =
    [CHR 0xE8, CHR 0xAF, CHR 0xA5, CHR 0xE6, CHR 0x9C, CHR 0x8D, CHR 0xE5, CHR 0x8A, CHR 0xA1,
     CHR 0xE9, CHR 0xA1, CHR 0xB9, CHR 0xE5, CHR 0xB7, CHR 0xB2, CHR 0xE8, CHR 0xBF, CHR 0x9B,
     CHR 0xE5, CHR 0x85, CHR 0xA5, CHR 0xE5, CHR 0xAE, CHR 0x9E, CHR 0xE6, CHR 0x96, CHR 0xBD,
     CHR 0xE5, CHR 0x87, CHR 0x86, CHR 0xE5, CHR 0xA4, CHR 0x87, CHR 0xEF, CHR 0xBC, CHR 0x8C,
     CHR 0xE8, CHR 0xAF, CHR 0xB7, CHR 0xE7, CHR 0xA1, CHR 0xAE, CHR 0xE8, CHR 0xAE, CHR 0xA4,
     CHR 0xE8, CHR 0xAE, CHR 0xBE, CHR 0xE5, CHR 0xA4, CHR 0x87, CHR 0xE5, CHR 0xB7, CHR 0xB2,
     CHR 0xE5, CHR 0xB0, CHR 0xB1, CHR 0xE4, CHR 0xBD, CHR 0x8D, CHR 0xE5, CHR 0xB9, CHR 0xB6,
     CHR 0xE6, CHR 0x8C, CHR 0x89, CHR 0xE8, CHR 0xAE, CHR 0xA1, CHR 0xE5, CHR 0x88, CHR 0x92,
     CHR 0xE5, CHR 0xBC, CHR 0x80, CHR 0xE5, CHR 0xB1, CHR 0x95, CHR 0xE7, CHR 0x8E, CHR 0xB0,
     CHR 0xE5, CHR 0x9C, CHR 0xBA, CHR 0xE5, CHR 0xAE, CHR 0x9E, CHR 0xE6, CHR 0x96, CHR 0xBD,
     CHR 0xE3, CHR 0x80, CHR 0x82]"

definition title_deviation :: string where
  "title_deviation =
    [CHR 0xE6, CHR 0x9C, CHR 0x89, CHR 0xE5, CHR 0x81, CHR 0x8F, CHR 0xE7, CHR 0xA6, CHR 0xBB,
     CHR 0xE5, CHR 0xBE, CHR 0x85, CHR 0xE8, CHR 0xAF, CHR 0x84, CHR 0xE5, CHR 0xAE, CHR 0xA1]"

definition content_deviation :: string where
  "content_deviation =
    [CHR 0xE8, CHR 0xAF, CHR 0xA5, CHR 0xE6, CHR 0x9C, CHR 0x8D, CHR 0xE5, CHR 0x8A, CHR 0xA1,
     CHR 0xE9, CHR 0xA1, CHR 0xB9, CHR 0xE4, CHR 0xB8, CHR 0x8A, CHR 0xE6, CHR 0x8A, CHR 0xA5,
     CHR 0xE4, CHR 0xBA, CHR 0x86, CHR 0xE5, CHR 0xAE, CHR 0x9E, CHR 0xE6, CHR 0x96, CHR 0xBD,
     CHR 0xE5, CHR 0x81, CHR 0x8F, CHR 0xE7, CHR 0xA6, CHR 0xBB, CHR 0xEF, CHR 0xBC, CHR 0x8C,
     CHR 0xE8, CHR 0xAF, CHR 0xB7, CHR 0xE5, CHR 0x8F, CHR 0x8A, CHR 0xE6, CHR 0x97, CHR 0xB6,
     CHR 0xE5, CHR 0xAE, CHR 0x89, CHR 0xE6, CHR 0x8E, CHR 0x92, CHR 0xE8, CHR 0xAF, CHR 0x84,
     CHR 0xE5, CHR 0xAE, CHR 0xA1, CHR 0xE3, CHR 0x80, CHR 0x82]"

definition title_report :: string where
  "title_report =
    [CHR 0xE6, CHR 0x8A, CHR 0xA5, CHR 0xE5, CHR 0x91, CHR 0x8A, CHR 0xE9, CHR 0x98, CHR 0xB6,
     CHR 0xE6, CHR 0xAE, CHR 0xB5, CHR 0xE5, CHR 0xB7, CHR 0xB2, CHR 0xE6, CHR 0x8E, CHR 0xA8,
     CHR 0xE8, CHR 0xBF, CHR 0x9B]"

definition content_report :: string where
  "content_report =
    [CHR 0xE8, CHR 0xAF, CHR 0xA5, CHR 0xE6, CHR 0x9C, CHR 0x8D, CHR 0xE5, CHR 0x8A, CHR 0xA1,
     CHR 0xE9, CHR 0xA1, CHR 0xB9, CHR 0xE7, CHR 0x9A, CHR 0x84, CHR 0xE6, CHR 0x8A, CHR 0xA5,
     CHR 0xE5, CHR 0x91, CHR 0x8A, CHR 0xE9, CHR 0x98, CHR 0xB6, CHR 0xE6, CHR 0xAE, CHR 0xB5,
     CHR 0xE5, CHR 0xB7, CHR 0xB2, CHR 0xE6, CHR 0x8E, CHR 0xA8, CHR 0xE8, CHR 0xBF, CHR 0x9B,
     CHR 0xEF, CHR 0xBC, CHR 0x8C, CHR 0xE8, CHR 0xAF, CHR 0xB7, CHR 0xE6, CHR 0x8C, CHR 0x89,
     CHR 0xE5, CHR 0xBD, CHR 0x93, CHR 0xE5, CHR 0x89, CHR 0x8D, CHR 0xE9, CHR 0x98, CHR 0xB6,
     CHR 0xE6, CHR 0xAE, CHR 0xB5, CHR 0xE7, CHR 0xBB, CHR 0xA7, CHR 0xE7, CHR 0xBB, CHR 0xAD,
     CHR 0xE5, CHR 0xA4, CHR 0x84, CHR 0xE7, CHR 0x90, CHR 0x86, CHR 0xE3, CHR 0x80, CHR 0x82]"

fun assignmentNotificationFor :: "event_type \<Rightarrow> (string \<times> string) option" where
  "assignmentNotificationFor EventTeamAssigned = Some (title_team_assigned, content_team_assigned)"
| "assignmentNotificationFor EventExecutionTeamAssigned = Some (title_execution_assigned, content_execution_assigned)"
| "assignmentNotificationFor EventTeamAssignmentRevoked = Some (title_team_revoked, content_team_revoked)"
| "assignmentNotificationFor EventExecutionAssignmentRevoked = Some (title_execution_revoked, content_team_revoked)"
| "assignmentNotificationFor EventDecompositionReturned = Some (title_returned, content_returned)"
| "assignmentNotificationFor EventRollbackApproved = Some (title_rollback_approved, content_rollback_approved)"
| "assignmentNotificationFor EventRollbackRejected = Some (title_rollback_rejected, content_rollback_rejected)"
| "assignmentNotificationFor EventImplementationPlanned = Some (title_planned, content_planned)"
| "assignmentNotificationFor EventPreparationStarted = Some (title_prepared, content_prepared)"
| "assignmentNotificationFor EventDeviationReported = Some (title_deviation, content_deviation)"
| "assignmentNotificationFor EventReportStatusUpdated = Some (title_report, content_report)"
| "assignmentNotificationFor _ = None"

text \<open>
  Reading a payload the service has just built. Its lists of identifiers are \<open>[]string\<close> and its
  personnel \<open>[]PlanResource\<close>, so the type assertions of the code hold for them.
\<close>

definition payloadText :: "payload \<Rightarrow> string \<Rightarrow> string" where
  "payloadText p key = stringValue p key"

definition payloadTextList :: "payload \<Rightarrow> string \<Rightarrow> string list" where
  "payloadTextList p key =
     (case map_of p key of
        None \<Rightarrow> []
      | Some v \<Rightarrow> filter (\<lambda>t. t \<noteq> []) (map trim_space (column_strs v)))"

definition personnel_recipients :: "payload \<Rightarrow> string list" where
  "personnel_recipients p =
     (case map_of p ''personnel'' of
        None \<Rightarrow> []
      | Some v \<Rightarrow>
          (case json_list decode_resource v of
             None \<Rightarrow> []
           | Some rs \<Rightarrow> filter (\<lambda>t. t \<noteq> [])
               (map (\<lambda>r. trim_space (pr_id r)) (filter (\<lambda>r. equal_fold (trim_space (pr_type r)) ''PERSON'') rs))))"

definition assignmentRecipients :: "payload \<Rightarrow> string list" where
  "assignmentRecipients p =
     filter (\<lambda>t. t \<noteq> []) [payloadText p ''team_lead_id'', payloadText p ''project_manager_id''] @
     payloadTextList p ''engineer_ids'' @ payloadTextList p ''revoked_user_ids'' @
     filter (\<lambda>t. t \<noteq> []) [payloadText p ''rollback_requester_id''] @ personnel_recipients p"

definition tenant_filter :: "string \<Rightarrow> scope_filter" where
  "tenant_filter tenant =
     \<lparr>sf_tenant = tenant, sf_identity = [], sf_user = [], sf_orgs = [], sf_projects = [],
      sf_all = True, sf_self = False, sf_assigned = False\<rparr>"

definition itemAssignees :: "env \<Rightarrow> string \<Rightarrow> string \<Rightarrow> store \<Rightarrow> string list" where
  "itemAssignees env tenant item s =
     (if blank item then []
      else case GetServiceItem env (tenant_filter tenant) item s of
        Inl e \<Rightarrow> []
      | Inr i \<Rightarrow> filter (\<lambda>t. t \<noteq> [])
          (map trim_space ([it_team_lead i, it_manager i] @ column_strs (it_engineers i))))"

definition assignment_message ::
  "service_call \<Rightarrow> delivery_event \<Rightarrow> string \<times> string \<Rightarrow> string list \<Rightarrow> notification" where
  "assignment_message c event texts recipients =
     \<lparr>nt_event_id = cl_message c, nt_event_type = event_name (de_type event),
      nt_scope = ''CROSS_SYSTEM'', nt_priority = ''NORMAL'', nt_title = fst texts,
      nt_content = snd texts, nt_reference_type = ''service_item'', nt_reference_id = de_item event,
      nt_recipients = uniq recipients, nt_occurred_at = de_created_at event,
      nt_key = de_id event @ ''-assigned''\<rparr>"

definition attachNotification :: "env \<Rightarrow> service_call \<Rightarrow> store \<Rightarrow> delivery_event \<Rightarrow> delivery_event" where
  "attachNotification env c s event =
     (if blank (de_item event) then event
      else case assignmentNotificationFor (de_type event) of
        None \<Rightarrow> event
      | Some texts \<Rightarrow>
          let named = assignmentRecipients (de_payload event);
              recipients = (if named = [] then itemAssignees env (de_tenant event) (de_item event) s else named)
          in if recipients = [] then event
             else event\<lparr>de_notification := Some (assignment_message c event texts recipients)\<rparr>)"

text \<open>An operation that was applied before is answered as a success.\<close>

definition applyEvent ::
  "env \<Rightarrow> service_call \<Rightarrow> delivery_event \<Rightarrow> store \<Rightarrow> app_error + store" where
  "applyEvent env c event s =
     (case ApplyDeliveryEvent env (attachNotification env c s event) s of
        Inl ErrAlreadyApplied \<Rightarrow> Inr s
      | result \<Rightarrow> result)"

section \<open>What a command does to the history\<close>

lemma attach_frame [simp]:
  "de_id (attachNotification env c s event) = de_id event"
  "de_tenant (attachNotification env c s event) = de_tenant event"
  "de_project (attachNotification env c s event) = de_project event"
  "de_item (attachNotification env c s event) = de_item event"
  "de_type (attachNotification env c s event) = de_type event"
  "de_actor (attachNotification env c s event) = de_actor event"
  "de_payload (attachNotification env c s event) = de_payload event"
  "de_created_at (attachNotification env c s event) = de_created_at event"
  "de_operation (attachNotification env c s event) = de_operation event"
  "de_captured_at (attachNotification env c s event) = de_captured_at event"
  by (simp_all add: attachNotification_def Let_def split: option.splits)

lemma deliveryEvent_simps [simp]:
  "de_id (deliveryEvent c project item ty p) = cl_event c"
  "de_tenant (deliveryEvent c project item ty p) = pn_tenant (cl_user c)"
  "de_item (deliveryEvent c project item ty p) = item"
  "de_type (deliveryEvent c project item ty p) = ty"
  "de_actor (deliveryEvent c project item ty p) = pn_user (cl_user c)"
  "de_payload (deliveryEvent c project item ty p) = p"
  "de_operation (deliveryEvent c project item ty p) = []"
  "de_created_at (deliveryEvent c project item ty p) = cl_now c"
  by (simp_all add: deliveryEvent_def)

lemma direct_review_same: "direct_review event s = Inr e \<Longrightarrow>
   de_id e = de_id event \<and> de_created_at e = de_created_at event \<and>
   (de_type event \<noteq> EventDeviationReviewed \<longrightarrow> e = event)"
  by (auto simp: direct_review_def Let_def split: if_splits option.splits)

text \<open>
  An applied event stands once at the end of the history, as the command built it but for the
  project (and, for a review, the item), which are those of the item.
\<close>

definition recorded_as :: "delivery_event \<Rightarrow> event_row \<Rightarrow> bool" where
  "recorded_as event e \<longleftrightarrow>
     er_id e = de_id event \<and> er_tenant e = de_tenant event \<and> er_type e = de_type event \<and>
     er_actor e = de_actor event \<and> er_payload e = de_payload event \<and>
     er_created_at e = de_created_at event \<and>
     (de_type event \<noteq> EventDeviationReviewed \<longrightarrow> er_item e = de_item event)"

lemma applyEvent_cases:
  assumes "applyEvent env c event s = Inr t"
  obtains "t = s" "ApplyDeliveryEvent env (attachNotification env c s event) s = Inl ErrAlreadyApplied"
  | e where "ApplyDeliveryEvent env (attachNotification env c s event) s = Inr t"
      "st_events t = st_events s @ [e]" "recorded_as event e"
proof (cases "ApplyDeliveryEvent env (attachNotification env c s event) s")
  case (Inl e)
  with assms that(1) show ?thesis by (simp add: applyEvent_def split: app_error.splits)
next
  case (Inr u)
  then have u: "u = t" using assms by (simp add: applyEvent_def)
  from Inr obtain e1 e2 where e1: "direct_review (attachNotification env c s event) s = Inr e1"
    and e2: "\<exists>p. e2 = e1\<lparr>de_project := p\<rparr>" and h: "st_events u = st_events s @ [event_record e2]"
    by (rule event_history)
  have "recorded_as event (event_record e2)"
    using direct_review_same [OF e1] direct_review_type [OF e1] e2
    by (auto simp: recorded_as_def event_record_def)
  with that(2) Inr h show ?thesis by (simp add: u)
qed

lemma applyEvent_inv:
  assumes "applyEvent env c event s = Inr t" and "delivery_inv env s" and "admissible_event event"
  shows "delivery_inv env t"
  using assms(1)
proof (cases rule: applyEvent_cases)
  case (2 e)
  moreover have "admissible_event (attachNotification env c s event)"
    using assms(3) by (simp add: admissible_event_def decomposition_ok_def)
  ultimately show ?thesis using assms(2) delivery_preserves by blast
qed (use assms in simp)

lemma authorizeServiceItem_Inr:
  "authorizeServiceItem env p permission item s = Inr u \<longleftrightarrow>
   (\<exists>f i. authorizeProjectScope p permission = Inr f \<and> GetServiceItem env f item s = Inr i)"
  by (auto simp: authorizeServiceItem_def res_simps)

end
