(* ===== verification/EvidenceFiles.thy ===== *)
theory EvidenceFiles
  imports DeliveryCommands
begin

text \<open>
  Receipts of files and their verification at the file gateway: \<open>StatEvidence\<close> of
  \<open>platform/file_gateway.go\<close>, \<open>normalizeFileEvidence\<close> and \<open>verifyFileEvidence\<close> of
  \<open>application/delivery_field.go\<close>. What the gateway answers to a request is a parameter.
\<close>

section \<open>The gateway\<close>

text \<open>The fields of an answer as they arrive.\<close>

record file_metadata =
  fm_file :: string
  fm_tenant :: string
  fm_application :: string
  fm_status :: string
  fm_media :: string
  fm_name :: string
  fm_sha256 :: string
  fm_size :: nat
  fm_bound :: bool
  fm_created :: string

datatype gateway_answer =
    NoAnswer
  | Refused nat
  | Metadata file_metadata

type_synonym gateway = "string \<Rightarrow> string \<Rightarrow> string \<Rightarrow> gateway_answer"

datatype stat_error = FileUnavailable | GatewayUnavailable

text \<open>
  \<open>Refused\<close> holds the status of an answer that is not 200; a missing token, a failed request and an
  answer that does not decode are \<open>NoAnswer\<close>.
\<close>

definition normal_metadata :: "file_metadata \<Rightarrow> file_metadata" where
  "normal_metadata m =
     m\<lparr>fm_file := trim_space (fm_file m), fm_tenant := trim_space (fm_tenant m),
       fm_application := trim_space (fm_application m), fm_status := to_upper (trim_space (fm_status m)),
       fm_media := to_lower (trim_space (fm_media m)), fm_name := trim_space (fm_name m),
       fm_sha256 := to_lower (trim_space (fm_sha256 m))\<rparr>"

definition metadata_complete :: "file_metadata \<Rightarrow> bool" where
  "metadata_complete m \<longleftrightarrow>
     \<not> blank (fm_file m) \<and> \<not> blank (fm_tenant m) \<and> \<not> blank (fm_application m) \<and>
     \<not> blank (fm_sha256 m) \<and> fm_size m \<noteq> 0 \<and> parse_rfc3339 (trim_space (fm_created m)) \<noteq> None"

definition StatEvidence ::
  "string \<Rightarrow> gateway \<Rightarrow> string \<Rightarrow> string \<Rightarrow> string \<Rightarrow> stat_error + file_metadata" where
  "StatEvidence application gateway fileID resourceType resourceID =
     (let fileID = trim_space fileID; resourceType = trim_space resourceType;
          resourceID = trim_space resourceID in
      if fileID = [] \<or> resourceType = [] \<or> resourceID = [] then Inl FileUnavailable
      else case gateway fileID resourceType resourceID of
        NoAnswer \<Rightarrow> Inl GatewayUnavailable
      | Refused code \<Rightarrow>
          Inl (if code = 404 \<or> code = 409 \<or> code = 422 then FileUnavailable else GatewayUnavailable)
      | Metadata m \<Rightarrow>
          if \<not> equal_fold (trim_space (fm_application m)) (trim_space application)
          then Inl FileUnavailable
          else if \<not> metadata_complete m then Inl GatewayUnavailable
          else Inr (normal_metadata m))"

section \<open>Receipts\<close>

definition hex_digit :: "char \<Rightarrow> bool" where
  "hex_digit ch \<longleftrightarrow> List.member ''0123456789abcdef'' ch"

definition normalizeFileEvidence :: "artifact \<Rightarrow> app_error + artifact" where
  "normalizeFileEvidence a =
     (let a = a\<lparr>af_file_id := trim_space (af_file_id a), af_name := trim_space (af_name a),
                af_mime := trim_space (af_mime a), af_sha256 := to_lower (trim_space (af_sha256 a))\<rparr> in
      if af_file_id a = [] \<or> af_name a = [] \<or> af_mime a = [] \<or> af_size a = 0 \<or>
         length (af_sha256 a) \<noteq> 64 then Inl ErrValidation
      else if \<not> list_all hex_digit (af_sha256 a) then Inl ErrValidation
      else Inr a)"

definition canonicalEvidenceMediaType :: "string \<Rightarrow> string" where
  "canonicalEvidenceMediaType v =
     to_lower (trim_space (takeWhile (\<lambda>ch. ch \<noteq> CHR '';'') (trim_space v)))"

definition evidenceStatusAvailable :: "string \<Rightarrow> bool" where
  "evidenceStatusAvailable status \<longleftrightarrow>
     List.member [''READY'', ''AVAILABLE'', ''ACTIVE''] (to_upper (trim_space status))"

definition evidenceResourceType :: string where
  "evidenceResourceType = ''PROJECT_SERVICE_ITEM''"

text \<open>The application of the service and its gateway; \<open>None\<close> where none is configured.\<close>

type_synonym evidence_files = "(string \<times> gateway) option"

definition verifyFileEvidence ::
  "evidence_files \<Rightarrow> principal \<Rightarrow> string \<Rightarrow> artifact \<Rightarrow> app_error + unit" where
  "verifyFileEvidence files p item a =
     (let item = trim_space item in
      if item = [] then Inl ErrValidation
      else case files of
        None \<Rightarrow> Inl ErrServiceTimeout
      | Some (application, gateway) \<Rightarrow>
          (case StatEvidence application gateway (af_file_id a) evidenceResourceType item of
             Inl FileUnavailable \<Rightarrow> Inl ErrValidation
           | Inl GatewayUnavailable \<Rightarrow> Inl ErrServiceTimeout
           | Inr m \<Rightarrow>
               let tenant = trim_space (pn_tenant p); declared = canonicalEvidenceMediaType (af_mime a) in
               if trim_space (fm_file m) \<noteq> af_file_id a then Inl ErrValidation
               else if tenant \<noteq> [] \<and> \<not> equal_fold (trim_space (fm_tenant m)) tenant then Inl ErrValidation
               else if \<not> evidenceStatusAvailable (fm_status m) then Inl ErrValidation
               else if \<not> fm_bound m then Inl ErrValidation
               else if fm_size m \<noteq> af_size a then Inl ErrValidation
               else if \<not> equal_fold (trim_space (fm_sha256 m)) (af_sha256 a) then Inl ErrValidation
               else if declared \<noteq> [] \<and> \<not> blank (fm_media m) \<and> declared \<noteq> trim_space (fm_media m)
               then Inl ErrValidation
               else Inr ()))"

text \<open>The loop of the commands over their files: each is normalised and then verified.\<close>

fun verified_files ::
  "evidence_files \<Rightarrow> principal \<Rightarrow> string \<Rightarrow> artifact list \<Rightarrow> app_error + artifact list" where
  "verified_files files p item [] = Inr []"
| "verified_files files p item (a # as) =
     rbind (normalizeFileEvidence a) (\<lambda>a.
     rbind (verifyFileEvidence files p item a) (\<lambda>_.
     rbind (verified_files files p item as) (\<lambda>as. Inr (a # as))))"

section \<open>What a verified receipt is\<close>

text \<open>
  The gateway answered for this very file and item: the file belongs to the application and the
  tenant, is available, bound to the item, and has the size and the digest of the receipt.
\<close>

definition confirmed :: "evidence_files \<Rightarrow> string \<Rightarrow> string \<Rightarrow> artifact \<Rightarrow> bool" where
  "confirmed files tenant item a \<longleftrightarrow>
     (case files of
        None \<Rightarrow> False
      | Some (application, gateway) \<Rightarrow>
          (case gateway (af_file_id a) evidenceResourceType (trim_space item) of
             Metadata m \<Rightarrow>
               trim_space (fm_file m) = af_file_id a \<and>
               equal_fold (trim_space (fm_application m)) (trim_space application) \<and>
               (blank tenant \<or> equal_fold (trim_space (fm_tenant m)) (trim_space tenant)) \<and>
               evidenceStatusAvailable (fm_status m) \<and> fm_bound m \<and> fm_size m = af_size a \<and>
               equal_fold (trim_space (fm_sha256 m)) (af_sha256 a)
           | _ \<Rightarrow> False))"

text \<open>Trimming and lower case commute, as trimming and upper case do.\<close>

lemma of_char_lower:
  "(of_char (lower_char c) :: nat) =
     (if 65 \<le> (of_char c :: nat) \<and> (of_char c :: nat) \<le> 90 then of_char c + 32 else of_char c)"
  by (auto simp: lower_char_def less_eq_char_def)

lemma lower_char_idem [simp]: "lower_char (lower_char c) = lower_char c"
proof -
  have "(of_char (lower_char (lower_char c)) :: nat) = of_char (lower_char c)"
    by (simp only: of_char_lower) auto
  then show ?thesis by (simp only: of_char_eq_iff)
qed

lemma to_lower_idem [simp]: "to_lower (to_lower s) = to_lower s"
  by (simp add: to_lower_def)

lemma lower_char_eq_nonletter:
  assumes "\<not> (65 \<le> (of_char d :: nat) \<and> (of_char d :: nat) \<le> 90)"
    and "\<not> (97 \<le> (of_char d :: nat) \<and> (of_char d :: nat) \<le> 122)"
  shows "lower_char c = d \<longleftrightarrow> c = d"
proof -
  have "(of_char (lower_char c) :: nat) = of_char d \<longleftrightarrow> (of_char c :: nat) = of_char d"
    using assms by (simp only: of_char_lower) auto
  then show ?thesis by (simp only: of_char_eq_iff)
qed

lemma space_lower [simp]:
  "space1 (lower_char a) = space1 a"
  "space2 (lower_char a) (lower_char b) = space2 a b"
  "space3 (lower_char a) (lower_char b) (lower_char c) = space3 a b c"
  by (simp_all add: space1_def space2_def space3_def lower_char_eq_nonletter)

lemma trim_left_map_lower: "trim_left (map lower_char s) = map lower_char (trim_left s)"
  by (induction s rule: trim_left.induct) simp_all

lemma trim_rev_map_lower: "trim_rev (map lower_char s) = map lower_char (trim_rev s)"
  by (induction s rule: trim_rev.induct) simp_all

lemma trim_space_to_lower [simp]: "trim_space (to_lower s) = to_lower (trim_space s)"
  by (simp add: trim_space_def to_lower_def trim_left_map_lower trim_rev_map_lower rev_map)

lemma resource_type_trimmed: "trim_space evidenceResourceType = evidenceResourceType"
  by code_simp

lemma verified_is_confirmed:
  assumes "verifyFileEvidence files p item a = Inr u" and "trim_space (af_file_id a) = af_file_id a"
  shows "confirmed files (pn_tenant p) item a"
proof -
  obtain application gateway where f: "files = Some (application, gateway)"
    using assms(1) by (auto simp: verifyFileEvidence_def Let_def split: if_splits option.splits)
  with assms obtain m where m: "StatEvidence application gateway (af_file_id a) evidenceResourceType (trim_space item) = Inr m"
    and c: "trim_space (fm_file m) = af_file_id a"
      "blank (pn_tenant p) \<or> equal_fold (trim_space (fm_tenant m)) (trim_space (pn_tenant p))"
      "evidenceStatusAvailable (fm_status m)" "fm_bound m" "fm_size m = af_size a"
      "equal_fold (trim_space (fm_sha256 m)) (af_sha256 a)"
    by (auto simp: verifyFileEvidence_def Let_def split: if_splits sum.splits stat_error.splits)
  from m assms(2) obtain r where "gateway (af_file_id a) evidenceResourceType (trim_space item) = Metadata r"
    "equal_fold (trim_space (fm_application r)) (trim_space application)" "m = normal_metadata r"
    by (auto simp: StatEvidence_def Let_def resource_type_trimmed split: if_splits gateway_answer.splits)
  with c f show ?thesis
    by (simp add: confirmed_def normal_metadata_def equal_fold_def evidenceStatusAvailable_def
        trim_space_to_upper)
qed

lemma normal_receipt:
  assumes "normalizeFileEvidence a = Inr b"
  shows "trim_space (af_file_id b) = af_file_id b \<and> af_file_id b \<noteq> [] \<and> af_size b \<noteq> 0 \<and>
         length (af_sha256 b) = 64 \<and> list_all hex_digit (af_sha256 b)"
  using assms by (auto simp: normalizeFileEvidence_def Let_def split: if_splits)

lemma verified_files_confirmed:
  "verified_files files p item as = Inr bs \<Longrightarrow>
   list_all (confirmed files (pn_tenant p) item) bs \<and> (bs = [] \<longleftrightarrow> as = [])"
proof (induction as arbitrary: bs)
  case (Cons a as)
  then obtain b cs where "normalizeFileEvidence a = Inr b" "verifyFileEvidence files p item b = Inr ()"
    "verified_files files p item as = Inr cs" "bs = b # cs"
    by (auto simp: res_simps)
  with Cons.IH show ?case using verified_is_confirmed normal_receipt by auto
qed simp

end
