(* ===== verification/FieldCommands.thy ===== *)
theory FieldCommands
  imports EvidenceFiles
begin

text \<open>
  The commands of the field work (\<open>application/delivery_field.go\<close>): records, signatures, deviations
  and their review, the start, and the completion with its judgement of the evidence. A check-in
  (\<open>CheckInField\<close>) measures a distance with floating-point trigonometry and is not modelled as a
  command; its events are read like any other.
\<close>

section \<open>Operations of an offline device\<close>

definition operation_char :: "char \<Rightarrow> bool" where
  "operation_char ch \<longleftrightarrow>
     CHR ''a'' \<le> ch \<and> ch \<le> CHR ''z'' \<or> CHR ''A'' \<le> ch \<and> ch \<le> CHR ''Z'' \<or>
     CHR ''0'' \<le> ch \<and> ch \<le> CHR ''9'' \<or> List.member ''._:-'' ch"

text \<open>\<open>zero_time\<close> is the time of an operation that names none.\<close>

definition normalizeOfflineOperation ::
  "instant \<Rightarrow> string \<Rightarrow> string \<Rightarrow> bool \<Rightarrow> app_error + string \<times> instant" where
  "normalizeOfflineOperation now operation captured required =
     (let operation = trim_space operation; captured = trim_space captured in
      if operation = [] \<and> captured = [] \<and> \<not> required then Inr ([], zero_time)
      else if operation = [] \<or> captured = [] then Inl ErrValidation
      else if length operation < 8 \<or> 128 < length operation then Inl ErrValidation
      else if \<not> list_all operation_char operation then Inl ErrValidation
      else case parse_rfc3339 captured of
        None \<Rightarrow> Inl ErrValidation
      | Some t \<Rightarrow> if now + 10 * minute_ns < t then Inl ErrValidation else Inr (operation, t))"

text \<open>\<open>time.RFC3339Nano\<close>: the fraction without its trailing zeros.\<close>

definition nanoseconds :: "instant \<Rightarrow> string" where
  "nanoseconds t =
     (let n = t mod second_ns;
          digits = map (\<lambda>k. digit_char (n div 10 ^ k)) [8, 7, 6, 5, 4, 3, 2, 1, 0]
      in if n = 0 then []
         else CHR ''.'' # rev (dropWhile (\<lambda>ch. ch = CHR ''0'') (rev digits)))"

definition format_rfc3339_nano :: "instant \<Rightarrow> string" where
  "format_rfc3339_nano t = butlast (format_rfc3339 t) @ nanoseconds t @ ''Z''"

definition fieldDeliveryEvent ::
  "service_call \<Rightarrow> string \<Rightarrow> event_type \<Rightarrow> payload \<Rightarrow> string \<Rightarrow> instant \<Rightarrow> delivery_event" where
  "fieldDeliveryEvent c item ty p operation captured =
     (deliveryEvent c [] item ty
        (if captured = zero_time then p
         else p @ [(''captured_at'', JStr (format_rfc3339_nano captured))]))
     \<lparr>de_operation := operation, de_captured_at := timePtr captured\<rparr>"

section \<open>Upload of a file\<close>

text \<open>The upload itself is the gateway's: \<open>upload\<close> gives the receipt for item, kind, name and type.\<close>

definition upload_permission :: "string \<Rightarrow> string" where
  "upload_permission kind =
     (if kind = ''REPORT'' then ''project.report.prepare''
      else if kind = ''DEVIATION'' then ''project.deviation.report'' else ''project.field.execute'')"

definition UploadEvidence ::
  "env \<Rightarrow> (string \<Rightarrow> string \<Rightarrow> string \<Rightarrow> string \<Rightarrow> artifact option) option \<Rightarrow> principal \<Rightarrow>
   string \<Rightarrow> string \<Rightarrow> string \<Rightarrow> string \<Rightarrow> store \<Rightarrow> app_error + artifact" where
  "UploadEvidence env upload p item kind name mime s =
     (let kind = to_upper (trim_space kind);
          mime = to_lower (trim_space (takeWhile (\<lambda>ch. ch \<noteq> CHR '';'') mime)) in
      if kind \<noteq> ''FIELD'' \<and> kind \<noteq> ''DEVIATION'' \<and> kind \<noteq> ''REPORT'' then Inl ErrValidation
      else if mime \<noteq> ''application/pdf'' \<and> mime \<noteq> ''image/png'' \<and> mime \<noteq> ''image/jpeg'' then Inl ErrValidation
      else rbind (authorizeServiceItem env p (upload_permission kind) item s) (\<lambda>_.
        case upload of None \<Rightarrow> Inl ErrStorage
        | Some upload \<Rightarrow>
            (case upload item kind name mime of None \<Rightarrow> Inl ErrStorage | Some a \<Rightarrow> normalizeFileEvidence a)))"

section \<open>Records, signatures, start\<close>

record field_input =
  fi_raw_data :: string
  fi_environment :: string
  fi_files :: "artifact list"
  fi_urls :: "string list"
  fi_operation :: string
  fi_captured :: string
  fi_version :: nat

definition SubmitFieldRecord ::
  "env \<Rightarrow> evidence_files \<Rightarrow> service_call \<Rightarrow> string \<Rightarrow> field_input \<Rightarrow> store \<Rightarrow> app_error + store" where
  "SubmitFieldRecord env files c item input s =
     rbind (authorizeServiceItem env (cl_user c) ''project.field.execute'' item s) (\<lambda>_.
     if blank (fi_raw_data input) \<or> blank (fi_environment input) then Inl ErrValidation
     else rbind (validateProjectTextLength (fi_raw_data input) 2000) (\<lambda>_.
     rbind (validateProjectTextLength (fi_environment input) 500) (\<lambda>_.
     rbind (authorizeProjectScope (cl_user c) ''project.field.execute'') (\<lambda>f.
     rbind (GetServiceItem env f item s) (\<lambda>i.
     if it_status i \<noteq> ProjectStatusInProgress then Inl ErrPrecondition
     else if fi_files input = [] then Inl ErrValidation
     else if fi_urls input \<noteq> [] then Inl ErrValidation
     else rbind (verified_files files (cl_user c) item (fi_files input)) (\<lambda>as.
     rbind (normalizeOfflineOperation (cl_now c) (fi_operation input) (fi_captured input) False)
       (\<lambda>(operation, captured).
     applyEvent env c
       (fieldDeliveryEvent c item EventFieldRecordSubmitted
          [(''raw_data'', JStr (fi_raw_data input)), (''environment'', JStr (fi_environment input)),
           (''evidence_files'', JArr (map encode_artifact as)), version_entry (fi_version input)]
          operation captured) s)))))))"

record signature_input =
  si_file :: artifact
  si_operation :: string
  si_captured :: string
  si_version :: nat

definition CaptureFieldSignature ::
  "env \<Rightarrow> evidence_files \<Rightarrow> service_call \<Rightarrow> string \<Rightarrow> signature_input \<Rightarrow> store \<Rightarrow> app_error + store" where
  "CaptureFieldSignature env files c item input s =
     rbind (authorizeServiceItem env (cl_user c) ''project.field.execute'' item s) (\<lambda>_.
     rbind (normalizeFileEvidence (si_file input)) (\<lambda>a.
     if af_mime a \<noteq> ''image/png'' then Inl ErrValidation
     else rbind (verifyFileEvidence files (cl_user c) item a) (\<lambda>_.
     rbind (normalizeOfflineOperation (cl_now c) (si_operation input) (si_captured input) True)
       (\<lambda>(operation, captured).
     applyEvent env c
       (fieldDeliveryEvent c item EventFieldSignatureCaptured
          [(''evidence_files'', JArr [encode_artifact a]), (''signature_file'', encode_artifact a),
           version_entry (si_version input)] operation captured) s))))"

definition StartFieldExecution ::
  "env \<Rightarrow> service_call \<Rightarrow> string \<Rightarrow> nat \<Rightarrow> store \<Rightarrow> app_error + store" where
  "StartFieldExecution env c item expected s =
     rbind (authorizeServiceItem env (cl_user c) ''project.field.execute'' item s) (\<lambda>_.
     rbind (verifyExpectedVersion env (cl_user c) ''project.field.execute'' item expected s) (\<lambda>_.
     rbind (authorizeProjectScope (cl_user c) ''project.field.execute'') (\<lambda>f.
     rbind (GetServiceItem env f item s) (\<lambda>i.
     if it_status i \<noteq> ProjectStatusPreparing then Inl ErrPrecondition
     else applyEvent env c (deliveryEvent c [] item EventFieldStarted [version_entry expected]) s))))"

section \<open>Deviations\<close>

text \<open>\<open>None\<close> is a list of files that is missing or null.\<close>

record deviation_input =
  vi_description :: string
  vi_severity :: string
  vi_files :: "artifact list option"
  vi_url :: string

definition deviation_files ::
  "evidence_files \<Rightarrow> principal \<Rightarrow> string \<Rightarrow> artifact list option \<Rightarrow> app_error + json" where
  "deviation_files files p item given =
     (case given of
        None \<Rightarrow> Inr JNull
      | Some as \<Rightarrow> rbind (verified_files files p item as) (\<lambda>as. Inr (JArr (map encode_artifact as))))"

definition ReportDeviation ::
  "env \<Rightarrow> evidence_files \<Rightarrow> service_call \<Rightarrow> string \<Rightarrow> deviation_input \<Rightarrow> store \<Rightarrow> app_error + string \<times> store" where
  "ReportDeviation env files c item input s =
     rbind (authorizeServiceItem env (cl_user c) ''project.deviation.report'' item s) (\<lambda>_.
     if blank (vi_description input) then Inl ErrValidation
     else rbind (validateProjectTextLength (vi_description input) 1000) (\<lambda>_.
     if \<not> blank (vi_url input) then Inl ErrValidation
     else rbind (deviation_files files (cl_user c) item (vi_files input)) (\<lambda>evidence.
     let i = ''DV-'' @ cl_fresh c in
     rbind (applyEvent env c (deliveryEvent c [] item EventDeviationReported
         [(''deviation_id'', JStr i), (''description'', JStr (vi_description input)),
          (''severity'', JStr (vi_severity input)), (''evidence_files'', evidence),
          (''decision'', JStr ''PENDING'')]) s) (\<lambda>s. Inr (i, s)))))"

definition ReviewDeviation ::
  "env \<Rightarrow> service_call \<Rightarrow> string \<Rightarrow> string \<Rightarrow> string \<Rightarrow> store \<Rightarrow> app_error + store" where
  "ReviewDeviation env c deviation decision comment s =
     rbind (authorizeProjectScope (cl_user c) ''project.deviation.review'') (\<lambda>f.
     rbind (FindProjectForDeviation env f deviation s) (\<lambda>(project, item).
     let decision = to_upper (trim_space decision) in
     if decision \<noteq> ''RELEASE'' \<and> decision \<noteq> ''TERMINATE'' \<and> decision \<noteq> ''RETEST'' then Inl ErrValidation
     else rbind (validateProjectTextLength comment 1000) (\<lambda>_.
     if decision = ''TERMINATE'' \<and> blank comment then Inl ErrValidation
     else applyEvent env c (deliveryEvent c project item EventDeviationReviewed
       [(''deviation_id'', JStr deviation), (''decision'', JStr decision), (''comment'', JStr comment)]) s)))"

section \<open>The evidence of the field work\<close>

definition label_check_in :: string where
  "label_check_in =
    [CHR 0x47, CHR 0x50, CHR 0x53, CHR 0x20, CHR 0xE7, CHR 0xAD, CHR 0xBE, CHR 0xE5, CHR 0x88,
     CHR 0xB0]"

definition label_record :: string where
  "label_record =
    [CHR 0xE7, CHR 0x8E, CHR 0xB0, CHR 0xE5, CHR 0x9C, CHR 0xBA, CHR 0xE8, CHR 0xAE, CHR 0xB0,
     CHR 0xE5, CHR 0xBD, CHR 0x95]"

definition label_signature :: string where
  "label_signature =
    [CHR 0xE7, CHR 0x94, CHR 0xB5, CHR 0xE5, CHR 0xAD, CHR 0x90, CHR 0xE7, CHR 0xAD, CHR 0xBE,
     CHR 0xE5, CHR 0x90, CHR 0x8D]"

definition fieldEvidenceRequirements :: "(event_type \<times> string) list" where
  "fieldEvidenceRequirements =
     [(EventFieldCheckedIn, label_check_in), (EventFieldRecordSubmitted, label_record),
      (EventFieldSignatureCaptured, label_signature)]"

text \<open>
  An entry of the answer, without the readable summary of a check-in (which prints floating-point
  coordinates).
\<close>

record evidence_entry =
  en_type :: event_type
  en_label :: string
  en_event :: string
  en_actor :: string
  en_captured :: string
  en_file :: string

record field_evidence =
  fe_item :: string
  fe_gaps :: "string list"
  fe_missing :: "string list"
  fe_entries :: "evidence_entry list"
  fe_complete :: bool
  fe_state :: string
  fe_policy :: string
  fe_scanned :: nat

definition fieldEvidenceCapturedAt :: "event_row \<Rightarrow> string" where
  "fieldEvidenceCapturedAt e =
     (case er_captured_at e of
        Some t \<Rightarrow> format_rfc3339 t
      | None \<Rightarrow>
          let captured = payloadText (er_payload e) ''captured_at'' in
          (case parse_rfc3339 captured of Some t \<Rightarrow> format_rfc3339 t | None \<Rightarrow> captured))"

fun evidenceFileRefOf :: "json \<Rightarrow> string" where
  "evidenceFileRefOf (JObj p) = payloadText p ''file_id''"
| "evidenceFileRefOf (JArr (v # vs)) = evidenceFileRefOf v"
| "evidenceFileRefOf _ = []"

definition firstEvidenceFileRef :: "json list \<Rightarrow> string" where
  "firstEvidenceFileRef vs =
     (case find (\<lambda>r. r \<noteq> []) (map evidenceFileRefOf vs) of Some r \<Rightarrow> r | None \<Rightarrow> [])"

definition fieldEvidenceFileRef :: "event_row \<Rightarrow> string" where
  "fieldEvidenceFileRef e =
     (if er_type e = EventFieldSignatureCaptured
      then firstEvidenceFileRef [jsonValue (er_payload e) ''signature_file'', jsonValue (er_payload e) ''evidence_files'']
      else if er_type e = EventFieldRecordSubmitted
      then firstEvidenceFileRef [jsonValue (er_payload e) ''evidence_files'']
      else [])"

definition evidence_entry_of :: "event_row \<Rightarrow> string \<Rightarrow> evidence_entry" where
  "evidence_entry_of e label =
     \<lparr>en_type = er_type e, en_label = label, en_event = er_id e, en_actor = er_actor e,
      en_captured = fieldEvidenceCapturedAt e, en_file = fieldEvidenceFileRef e\<rparr>"

text \<open>The newest event of a kind replaces an older one in its place.\<close>

fun put_entry :: "evidence_entry \<Rightarrow> evidence_entry list \<Rightarrow> evidence_entry list" where
  "put_entry n [] = [n]"
| "put_entry n (e # es) = (if en_type e = en_type n then n # es else e # put_entry n es)"

fun evidence_scan :: "evidence_entry list \<Rightarrow> event_row list \<Rightarrow> evidence_entry list" where
  "evidence_scan entries [] = entries"
| "evidence_scan entries (e # es) =
     (case map_of fieldEvidenceRequirements (er_type e) of
        None \<Rightarrow> evidence_scan entries es
      | Some label \<Rightarrow> evidence_scan (put_entry (evidence_entry_of e label) entries) es)"

definition gate_policy :: "string \<Rightarrow> string" where
  "gate_policy mode =
     (if to_upper (trim_space mode) = ''ADVISORY'' then ''ADVISORY'' else ''ENFORCE'')"

definition missing_requirements :: "event_row list \<Rightarrow> (event_type \<times> string) list" where
  "missing_requirements events =
     filter (\<lambda>(ty, label). \<not> list_ex (\<lambda>e. er_type e = ty) events) fieldEvidenceRequirements"

definition judged_evidence :: "string \<Rightarrow> string \<Rightarrow> event_row list \<Rightarrow> field_evidence" where
  "judged_evidence mode item events =
     (let gaps = missing_requirements events in
      \<lparr>fe_item = item, fe_gaps = map (event_name \<circ> fst) gaps, fe_missing = map snd gaps,
       fe_entries = evidence_scan [] events, fe_complete = (gaps = []),
       fe_state = (if gaps = [] then ''COMPLETE'' else ''INCOMPLETE''), fe_policy = gate_policy mode,
       fe_scanned = length events\<rparr>)"

definition serviceItemFieldEvidence ::
  "env \<Rightarrow> string \<Rightarrow> scope_filter \<Rightarrow> string \<Rightarrow> store \<Rightarrow> app_error + field_evidence" where
  "serviceItemFieldEvidence env mode f item s =
     rbind (ListServiceItemDeliveryEvents env f item s) (\<lambda>events. Inr (judged_evidence mode item events))"

definition ServiceItemFieldEvidence ::
  "env \<Rightarrow> string \<Rightarrow> principal \<Rightarrow> string \<Rightarrow> store \<Rightarrow> app_error + field_evidence" where
  "ServiceItemFieldEvidence env mode p item s =
     rbind (authorizeServiceItem env p ''project.read'' item s) (\<lambda>_.
     rbind (authorizeProjectScope p ''project.read'') (\<lambda>f.
       serviceItemFieldEvidence env mode f item s))"

section \<open>Completion\<close>

definition requireFieldEvidenceReason :: "string \<Rightarrow> field_evidence \<Rightarrow> string \<Rightarrow> app_error + unit" where
  "requireFieldEvidenceReason policy evidence reason =
     (if fe_complete evidence \<and> reason \<noteq> []
      then rguard (policy \<noteq> ''ENFORCE'') ErrValidation
      else if \<not> fe_complete evidence \<and> reason = []
      then rguard (policy \<noteq> ''ENFORCE'') ErrValidation
      else Inr ())"

text \<open>The texts of the errors a reading of the events can end with.\<close>

definition evidence_error_text :: "app_error \<Rightarrow> string" where
  "evidence_error_text e =
     (if e = ErrValidation then ''validation failed''
      else ''service item evidence event window exceeded'')"

definition evidence_payload :: "field_evidence \<Rightarrow> payload" where
  "evidence_payload evidence =
     [(''gaps'', JStrs (fe_gaps evidence)), (''missing_evidence'', JStrs (fe_missing evidence)),
      (''evidence_complete'', JBool (fe_complete evidence)), (''evidence_state'', JStr (fe_state evidence))]"

definition unknown_evidence :: "app_error \<Rightarrow> payload" where
  "unknown_evidence e =
     [(''evidence_state'', JStr ''UNKNOWN''), (''evidence_error'', JStr (evidence_error_text e))]"

text \<open>What the completion says of the evidence, or the refusal.\<close>

definition completion_evidence ::
  "string \<Rightarrow> app_error + field_evidence \<Rightarrow> string \<Rightarrow> app_error + payload" where
  "completion_evidence mode judged reason =
     (case judged of
        Inl e \<Rightarrow> if gate_policy mode = ''ENFORCE'' then Inl e else Inr (unknown_evidence e)
      | Inr evidence \<Rightarrow>
          rbind (requireFieldEvidenceReason (gate_policy mode) evidence reason) (\<lambda>_.
            Inr (evidence_payload evidence)))"

definition CompleteServiceItemField ::
  "env \<Rightarrow> string \<Rightarrow> service_call \<Rightarrow> string \<Rightarrow> string \<Rightarrow> nat \<Rightarrow> store \<Rightarrow> app_error + store" where
  "CompleteServiceItemField env mode c item reason expected s =
     rbind (authorizeServiceItem env (cl_user c) ''project.field.complete'' item s) (\<lambda>_.
     rbind (validateProjectTextLength reason 1000) (\<lambda>_.
     rbind (verifyExpectedVersion env (cl_user c) ''project.field.complete'' item expected s) (\<lambda>_.
     rbind (authorizeProjectScope (cl_user c) ''project.field.complete'') (\<lambda>f.
     let reason = trim_space reason in
     rbind (completion_evidence mode (serviceItemFieldEvidence env mode f item s) reason) (\<lambda>p.
     applyEvent env c (deliveryEvent c [] item EventFieldCompleted
       ([(''confirmed_by'', JStr (pn_user (cl_user c))), (''incomplete_reason'', JStr reason),
         version_entry expected] @ p)) s)))))"

section \<open>What the commands record\<close>

lemma fieldDeliveryEvent_simps [simp]:
  "de_id (fieldDeliveryEvent c item ty p operation captured) = cl_event c"
  "de_tenant (fieldDeliveryEvent c item ty p operation captured) = pn_tenant (cl_user c)"
  "de_item (fieldDeliveryEvent c item ty p operation captured) = item"
  "de_type (fieldDeliveryEvent c item ty p operation captured) = ty"
  "de_actor (fieldDeliveryEvent c item ty p operation captured) = pn_user (cl_user c)"
  "de_operation (fieldDeliveryEvent c item ty p operation captured) = operation"
  by (simp_all add: fieldDeliveryEvent_def)

lemma field_payload:
  "map_of p key = Some v \<Longrightarrow>
   map_of (de_payload (fieldDeliveryEvent c item ty p operation captured)) key = Some v"
  by (simp add: fieldDeliveryEvent_def)

text \<open>Nothing is missing exactly when an event of each of the three kinds is there.\<close>

lemma complete_evidence:
  "fe_complete (judged_evidence mode item events) \<longleftrightarrow>
     list_ex (\<lambda>e. er_type e = EventFieldCheckedIn) events \<and>
     list_ex (\<lambda>e. er_type e = EventFieldRecordSubmitted) events \<and>
     list_ex (\<lambda>e. er_type e = EventFieldSignatureCaptured) events"
  by (simp add: judged_evidence_def Let_def missing_requirements_def fieldEvidenceRequirements_def)

lemma put_entry_types: "set (map en_type (put_entry n es)) = insert (en_type n) (set (map en_type es))"
  by (induction es) auto

lemma scan_types:
  "set (map en_type (evidence_scan entries events)) =
     set (map en_type entries) \<union> {ty. ty \<in> er_type ` set events \<and> map_of fieldEvidenceRequirements ty \<noteq> None}"
proof (induction events arbitrary: entries)
  case (Cons e es)
  show ?case
  proof (cases "map_of fieldEvidenceRequirements (er_type e)")
    case (Some label)
    with Cons.IH [of "put_entry (evidence_entry_of e label) entries"] show ?thesis
      using put_entry_types [of "evidence_entry_of e label" entries]
      by (auto simp: evidence_entry_of_def)
  qed (use Cons.IH [of entries] in auto)
qed simp

lemma CompleteServiceItemFieldE:
  assumes "CompleteServiceItemField env mode c item reason expected s = Inr t"
  obtains f i p where "authorizeProjectScope (cl_user c) ''project.field.complete'' = Inr f"
    "GetServiceItem env f item s = Inr i"
    "completion_evidence mode (serviceItemFieldEvidence env mode f item s) (trim_space reason) = Inr p"
    "applyEvent env c (deliveryEvent c [] item EventFieldCompleted
       ([(''confirmed_by'', JStr (pn_user (cl_user c))), (''incomplete_reason'', JStr (trim_space reason)),
         version_entry expected] @ p)) s = Inr t"
  using assms by (auto simp: CompleteServiceItemField_def res_simps Let_def authorizeServiceItem_Inr)

lemma completion_keys:
  assumes "completion_evidence mode judged reason = Inr p"
  shows "map_of p ''evidence_files'' = None"
  using assms by (auto simp: completion_evidence_def evidence_payload_def unknown_evidence_def res_simps
      split: sum.split_asm if_split_asm)

end
