(* ===== verification/RequestCommands.thy ===== *)
theory RequestCommands
  imports EvidenceFiles
begin

text \<open>
  Requests that a second person decides, and the phases of a report: rollbacks
  (\<open>application/delivery_rollback.go\<close>), report status, report files and corrections
  (\<open>application/delivery_report.go\<close>).
\<close>

section \<open>Rollbacks\<close>

definition rollbackKindAllowed :: "string \<Rightarrow> service_item \<Rightarrow> bool" where
  "rollbackKindAllowed kind i =
     (if kind = ''FIELD_TO_PREPARATION'' then it_status i = ProjectStatusInProgress
      else if kind = ''REPORT_TO_FIELD''
      then it_status i = ProjectStatusFieldCompleted \<and>
           (it_report_status i = ''RECTIFYING'' \<or> it_report_status i = ''COMPILING'' \<or>
            it_report_status i = ''REVIEWED'')
      else False)"

definition closes_rollback :: "event_row \<Rightarrow> bool" where
  "closes_rollback e \<longleftrightarrow>
     er_type e = EventRollbackApproved \<or> er_type e = EventRollbackRejected \<or> er_type e = EventRollbackWithdrawn"

definition hasPendingRollback :: "event_row list \<Rightarrow> string \<Rightarrow> string \<Rightarrow> bool" where
  "hasPendingRollback events item kind \<longleftrightarrow>
     (let closed = map (\<lambda>e. payloadText (er_payload e) ''request_id'') (filter closes_rollback events) in
      list_ex (\<lambda>e. er_type e = EventRollbackRequested \<and> er_item e = item \<and>
        equal_fold (payloadText (er_payload e) ''kind'') kind \<and> \<not> List.member closed (er_id e)) events)"

definition RequestRollback ::
  "env \<Rightarrow> service_call \<Rightarrow> string \<Rightarrow> string \<Rightarrow> string \<Rightarrow> nat \<Rightarrow> store \<Rightarrow> app_error + string \<times> store" where
  "RequestRollback env c item kind reason expected s =
     rbind (validateProjectTextLength reason 1000) (\<lambda>_.
     rbind (authorizeServiceItem env (cl_user c) ''project.rollback.request'' item s) (\<lambda>_.
     rbind (verifyExpectedVersion env (cl_user c) ''project.rollback.request'' item expected s) (\<lambda>_.
     let kind = to_upper (trim_space kind); reason = trim_space reason in
     if reason = [] then Inl ErrValidation
     else rbind (authorizeProjectScope (cl_user c) ''project.rollback.request'') (\<lambda>f.
     rbind (GetServiceItem env f item s) (\<lambda>i.
     if \<not> rollbackKindAllowed kind i then Inl ErrPrecondition
     else if hasPendingRollback (ListDeliveryEvents env f (it_project i) s) item kind then Inl ErrPrecondition
     else rbind (applyEvent env c (deliveryEvent c [] item EventRollbackRequested
         [(''kind'', JStr kind), (''reason'', JStr reason), version_entry expected,
          (''requester_user_id'', JStr (pn_user (cl_user c)))]) s) (\<lambda>s. Inr (cl_event c, s)))))))"

text \<open>The request among the events the caller may list.\<close>

definition listed_request :: "event_row list \<Rightarrow> string \<Rightarrow> string \<Rightarrow> event_type \<Rightarrow> app_error + event_row" where
  "listed_request events requestID item ty =
     (case find (\<lambda>e. er_id e = requestID \<and> er_item e = item \<and> er_type e = ty) events of
        None \<Rightarrow> Inl ErrNotFound
      | Some e \<Rightarrow> if er_id e = [] then Inl ErrNotFound else Inr e)"

definition decision_of :: "string \<Rightarrow> string \<Rightarrow> app_error + string" where
  "decision_of decision comment =
     (let decision = to_upper (trim_space decision) in
      if decision \<noteq> ''APPROVED'' \<and> decision \<noteq> ''REJECTED'' then Inl ErrValidation
      else if blank comment then Inl ErrValidation else Inr decision)"

definition DecideRollback ::
  "env \<Rightarrow> service_call \<Rightarrow> string \<Rightarrow> string \<Rightarrow> string \<Rightarrow> string \<Rightarrow> nat \<Rightarrow> store \<Rightarrow> app_error + store" where
  "DecideRollback env c item requestID decision comment expected s =
     rbind (validateProjectTextLength comment 1000) (\<lambda>_.
     rbind (authorizeServiceItem env (cl_user c) ''project.rollback.approve'' item s) (\<lambda>_.
     rbind (verifyExpectedVersion env (cl_user c) ''project.rollback.approve'' item expected s) (\<lambda>_.
     rbind (decision_of decision comment) (\<lambda>decision.
     rbind (authorizeProjectScope (cl_user c) ''project.rollback.approve'') (\<lambda>f.
     rbind (GetServiceItem env f item s) (\<lambda>i.
     rbind (listed_request (ListDeliveryEvents env f (it_project i) s) requestID item EventRollbackRequested) (\<lambda>r.
     if er_actor r = pn_user (cl_user c) then Inl ErrForbidden
     else let kind = to_upper (payloadText (er_payload r) ''kind'') in
     if decision = ''APPROVED'' \<and> \<not> rollbackKindAllowed kind i then Inl ErrPrecondition
     else applyEvent env c (deliveryEvent c [] item
         (if decision = ''REJECTED'' then EventRollbackRejected else EventRollbackApproved)
         [(''request_id'', JStr requestID), (''kind'', JStr kind), (''comment'', JStr (trim_space comment)),
          version_entry expected,
          (''rollback_requester_id'', JStr (payloadText (er_payload r) ''requester_user_id''))]) s)))))))"

definition WithdrawRollback ::
  "env \<Rightarrow> service_call \<Rightarrow> string \<Rightarrow> string \<Rightarrow> string \<Rightarrow> store \<Rightarrow> app_error + store" where
  "WithdrawRollback env c item requestID reason s =
     rbind (validateProjectTextLength reason 1000) (\<lambda>_.
     rbind (authorizeServiceItem env (cl_user c) ''project.rollback.request'' item s) (\<lambda>_.
     if blank reason then Inl ErrValidation
     else rbind (authorizeProjectScope (cl_user c) ''project.rollback.request'') (\<lambda>f.
     rbind (GetServiceItem env f item s) (\<lambda>i.
     let events = ListDeliveryEvents env f (it_project i) s in
     rbind (listed_request events requestID item EventRollbackRequested) (\<lambda>r.
     if er_actor r \<noteq> pn_user (cl_user c) then Inl ErrForbidden
     else if \<not> hasPendingRollback [r] item (payloadText (er_payload r) ''kind'') then Inl ErrPrecondition
     else if list_ex (\<lambda>e. closes_rollback e \<and> payloadText (er_payload e) ''request_id'' = requestID) events
     then Inl ErrPrecondition
     else applyEvent env c (deliveryEvent c [] item EventRollbackWithdrawn
         [(''request_id'', JStr requestID), (''kind'', JStr (payloadText (er_payload r) ''kind'')),
          (''reason'', JStr (trim_space reason)), (''rollback_requester_id'', JStr (pn_user (cl_user c)))]) s)))))"

section \<open>Reports\<close>

definition reportPhasePermission :: "string \<Rightarrow> string" where
  "reportPhasePermission phase =
     (let phase = to_upper (trim_space phase) in
      if phase = ''RECTIFYING'' \<or> phase = ''COMPILING'' then ''project.report.prepare''
      else if phase = ''REVIEWED'' then ''project.report.review''
      else if phase = ''ISSUED'' then ''project.report.issue''
      else if phase = ''ARCHIVED'' then ''project.report.archive''
      else ''project.report.prepare'')"

definition ListReportRevisions :: "string \<Rightarrow> string \<Rightarrow> store \<Rightarrow> revision_row list" where
  "ListReportRevisions tenant item s =
     rev (sort_key rv_revision
       (filter (\<lambda>r. rv_tenant r = tenant \<and> rv_subject_type r = SubjectServiceItem \<and> rv_subject r = item)
          (st_revisions s)))"

definition Service_ListReportRevisions ::
  "env \<Rightarrow> principal \<Rightarrow> string \<Rightarrow> store \<Rightarrow> app_error + revision_row list" where
  "Service_ListReportRevisions env p item s =
     rbind (authorizeServiceItem env p ''project.read'' item s) (\<lambda>_.
       Inr (ListReportRevisions (pn_tenant p) item s))"

definition revision_file :: "revision_row \<Rightarrow> artifact" where
  "revision_file r =
     \<lparr>af_file_id = rv_file_id r, af_name = rv_file_name r, af_mime = rv_file_mime r,
      af_size = rv_file_size r, af_sha256 = rv_file_sha256 r\<rparr>"

definition verifyCurrentReportArtifact ::
  "env \<Rightarrow> evidence_files \<Rightarrow> principal \<Rightarrow> string \<Rightarrow> string \<Rightarrow> store \<Rightarrow> app_error + unit" where
  "verifyCurrentReportArtifact env files p item permission s =
     rbind (authorizeProjectScope p permission) (\<lambda>f.
     rbind (GetServiceItem env f item s) (\<lambda>i.
     case find (\<lambda>r. rv_revision r = it_report_revision i \<and> equal_fold (trim_space (rv_validity r)) ''ACTIVE'')
            (ListReportRevisions (pn_tenant p) item s) of
       None \<Rightarrow> Inl ErrPrecondition
     | Some r \<Rightarrow>
         if blank (rv_file_id r) then Inl ErrPrecondition
         else rbind (normalizeFileEvidence (revision_file r)) (verifyFileEvidence files p item)))"

definition UpdateReportStatus ::
  "env \<Rightarrow> evidence_files \<Rightarrow> service_call \<Rightarrow> string \<Rightarrow> string \<Rightarrow> nat \<Rightarrow> store \<Rightarrow> app_error + store" where
  "UpdateReportStatus env files c item phase expected s =
     (let phase = to_upper (trim_space phase); permission = reportPhasePermission phase in
      rbind (authorizeServiceItem env (cl_user c) permission item s) (\<lambda>_.
      rbind (verifyExpectedVersion env (cl_user c) permission item expected s) (\<lambda>_.
      rbind (if phase = ''REVIEWED'' \<or> phase = ''ISSUED''
             then verifyCurrentReportArtifact env files (cl_user c) item permission s else Inr ()) (\<lambda>_.
      applyEvent env c (deliveryEvent c [] item EventReportStatusUpdated
        [(''phase'', JStr phase), version_entry expected]) s))))"

definition Service_RegisterReportArtifact ::
  "env \<Rightarrow> evidence_files \<Rightarrow> service_call \<Rightarrow> string \<Rightarrow> nat \<Rightarrow> artifact \<Rightarrow> store \<Rightarrow> app_error + store" where
  "Service_RegisterReportArtifact env files c item revision input s =
     rbind (authorizeServiceItem env (cl_user c) ''project.report.prepare'' item s) (\<lambda>_.
     rbind (normalizeFileEvidence input) (\<lambda>a.
     rbind (verifyFileEvidence files (cl_user c) item a) (\<lambda>_.
       RegisterReportArtifact (pn_tenant (cl_user c)) item revision a (cl_now c) s)))"

section \<open>Corrections of a report\<close>

definition in_force :: "service_item \<Rightarrow> bool" where
  "in_force i \<longleftrightarrow> it_report_status i = ''ISSUED'' \<or> it_report_status i = ''ARCHIVED''"

definition RequestReportCorrection ::
  "env \<Rightarrow> service_call \<Rightarrow> string \<Rightarrow> string \<Rightarrow> nat \<Rightarrow> store \<Rightarrow> app_error + string \<times> store" where
  "RequestReportCorrection env c item reason expected s =
     rbind (validateProjectTextLength reason 1000) (\<lambda>_.
     rbind (authorizeServiceItem env (cl_user c) ''project.report.correction.request'' item s) (\<lambda>_.
     rbind (verifyExpectedVersion env (cl_user c) ''project.report.correction.request'' item expected s) (\<lambda>_.
     if blank reason then Inl ErrValidation
     else rbind (authorizeProjectScope (cl_user c) ''project.report.correction.request'') (\<lambda>f.
     rbind (GetServiceItem env f item s) (\<lambda>i.
     if it_status i \<noteq> ProjectStatusFieldCompleted \<or> \<not> in_force i then Inl ErrPrecondition
     else rbind (applyEvent env c (deliveryEvent c [] item EventReportCorrectionRequested
         [(''reason'', JStr (trim_space reason)), (''old_revision'', JNum (int (it_report_revision i))),
          (''requester_user_id'', JStr (pn_user (cl_user c)))]) s) (\<lambda>s. Inr (cl_event c, s)))))))"

definition DecideReportCorrection ::
  "env \<Rightarrow> service_call \<Rightarrow> string \<Rightarrow> string \<Rightarrow> string \<Rightarrow> string \<Rightarrow> nat \<Rightarrow> store \<Rightarrow> app_error + store" where
  "DecideReportCorrection env c item requestID decision comment expected s =
     rbind (validateProjectTextLength comment 1000) (\<lambda>_.
     rbind (authorizeServiceItem env (cl_user c) ''project.report.correction.approve'' item s) (\<lambda>_.
     rbind (verifyExpectedVersion env (cl_user c) ''project.report.correction.approve'' item expected s) (\<lambda>_.
     rbind (decision_of decision comment) (\<lambda>decision.
     rbind (authorizeProjectScope (cl_user c) ''project.report.correction.approve'') (\<lambda>f.
     rbind (GetServiceItem env f item s) (\<lambda>i.
     rbind (listed_request (ListDeliveryEvents env f (it_project i) s) requestID item
         EventReportCorrectionRequested) (\<lambda>r.
     if er_actor r = pn_user (cl_user c) then Inl ErrForbidden
     else if decision = ''APPROVED'' \<and> \<not> in_force i then Inl ErrPrecondition
     else applyEvent env c (deliveryEvent c [] item
         (if decision = ''REJECTED'' then EventReportCorrectionRejected else EventReportCorrectionApproved)
         [(''request_id'', JStr requestID), (''comment'', JStr (trim_space comment)),
          (''reason'', JStr (payloadText (er_payload r) ''reason'')),
          (''old_revision'', jsonValue (er_payload r) ''old_revision''),
          (''report_correction_requester_id'', JStr (er_actor r)),
          version_entry expected]) s)))))))"

section \<open>Who decided what\<close>

lemma listed_request_Inr:
  assumes "listed_request (ListDeliveryEvents env f project s) requestID item ty = Inr r"
  shows "r \<in> set (st_events s) \<and> er_id r = requestID \<and> er_item r = item \<and> er_type r = ty"
  using assms by (auto simp: listed_request_def dest!: find_spec listed_events split: option.splits if_splits)

end
