(* ===== verification/TeamCommands.thy ===== *)
theory TeamCommands
  imports DeliveryCommands Recipients CapabilityCodes
begin

text \<open>
  The assignment of people (\<open>application/delivery_team.go\<close>, \<open>application/delivery.go\<close>): team lead,
  project manager and engineers, with the checks of their qualification, their roles and the freeze
  of a handover, and the revocations.
\<close>

section \<open>People\<close>

text \<open>
  The directory of the platform (as for the recipients) with the number of pages a request has time
  for, and the freezes of handovers by tenant and user (\<open>None\<close>: the query failed). The interfaces are
  optional in the code.
\<close>

record people =
  pe_directory :: "directory option"
  pe_pages :: nat
  pe_frozen :: "(string \<Rightarrow> string \<Rightarrow> bool option) option"

fun role_page_users ::
  "directory \<Rightarrow> string \<Rightarrow> nat \<Rightarrow> nat \<Rightarrow> string list \<Rightarrow> app_error + string list" where
  "role_page_users directory role 0 page allowed = Inl ErrPersonnelUnavailable"
| "role_page_users directory role (Suc n) page allowed =
     (case directory role page of
        None \<Rightarrow> Inl ErrPersonnelUnavailable
      | Some result \<Rightarrow>
          let allowed = allowed @ filter (\<lambda>u. u \<noteq> []) (map trim_space (dp_users result)) in
          if dp_users result = [] \<or> dp_total result \<le> int (page * assignmentRoleDirectorySize)
          then Inr allowed
          else role_page_users directory role n (Suc page) allowed)"

definition assignmentRoleUserIDs :: "people \<Rightarrow> string \<Rightarrow> app_error + string list" where
  "assignmentRoleUserIDs pe role =
     (let role = to_lower (trim_space role) in
      if role \<noteq> ''team_lead'' \<and> role \<noteq> ''project_manager'' \<and> role \<noteq> ''engineer'' then Inl ErrValidation
      else case pe_directory pe of
        None \<Rightarrow> Inl ErrPersonnelUnavailable
      | Some directory \<Rightarrow> role_page_users directory role (pe_pages pe) 1 [])"

fun ensurePersonnelNotFrozen :: "people \<Rightarrow> string \<Rightarrow> string list \<Rightarrow> app_error + unit" where
  "ensurePersonnelNotFrozen pe tenant [] = Inr ()"
| "ensurePersonnelNotFrozen pe tenant (i # is) =
     (case pe_frozen pe of
        None \<Rightarrow> Inr ()
      | Some frozen \<Rightarrow>
          if blank i then ensurePersonnelNotFrozen pe tenant is
          else case frozen tenant (trim_space i) of
            None \<Rightarrow> Inl ErrStorage
          | Some True \<Rightarrow> Inl ErrManagerFrozen
          | Some False \<Rightarrow> ensurePersonnelNotFrozen pe tenant is)"

section \<open>The team lead\<close>

definition AssignTeam ::
  "env \<Rightarrow> people \<Rightarrow> service_call \<Rightarrow> string \<Rightarrow> string \<Rightarrow> nat \<Rightarrow> store \<Rightarrow> app_error + store" where
  "AssignTeam env pe c item lead expected s =
     rbind (authorizeServiceItem env (cl_user c) ''project.team.assign'' item s) (\<lambda>_.
     rbind (verifyExpectedVersion env (cl_user c) ''project.team.assign'' item expected s) (\<lambda>_.
     let lead = trim_space lead; tenant = pn_tenant (cl_user c) in
     rbind (ensurePersonnelNotFrozen pe tenant [lead]) (\<lambda>_.
     if lead = [] then Inl ErrValidation
     else case qualifiedUserID lead (FindCapabilities s tenant [lead]) of
       None \<Rightarrow> Inl ErrPrecondition
     | Some canonical \<Rightarrow>
         rbind (assignmentRoleUserIDs pe ''team_lead'') (\<lambda>allowed.
         if \<not> List.member allowed canonical then Inl ErrPrecondition
         else applyEvent env c (deliveryEvent c [] item EventTeamAssigned
           [(''team_lead_id'', JStr canonical), version_entry expected]) s))))"

text \<open>A list of identifiers read from a row and written to a payload: null stays null.\<close>

definition same_strs :: "json \<Rightarrow> json" where
  "same_strs j = (if j = JNull then JNull
                  else case json_list json_str j of Some ss \<Rightarrow> JStrs ss | None \<Rightarrow> JNull)"

definition RevokeTeamAssignment ::
  "env \<Rightarrow> service_call \<Rightarrow> string \<Rightarrow> string \<Rightarrow> nat \<Rightarrow> store \<Rightarrow> app_error + store" where
  "RevokeTeamAssignment env c item reason expected s =
     rbind (authorizeServiceItem env (cl_user c) ''project.team.revoke'' item s) (\<lambda>_.
     rbind (verifyExpectedVersion env (cl_user c) ''project.team.revoke'' item expected s) (\<lambda>_.
     if blank reason then Inl ErrValidation
     else rbind (authorizeProjectScope (cl_user c) ''project.team.revoke'') (\<lambda>f.
     rbind (GetServiceItem env f item s) (\<lambda>i.
     if it_status i \<noteq> ProjectStatusPendingAllocation \<or> blank (it_team_lead i) then Inl ErrPrecondition
     else applyEvent env c (deliveryEvent c [] item EventTeamAssignmentRevoked
       [(''reason'', JStr (trim_space reason)), version_entry expected,
        (''previous_team_lead_id'', JStr (it_team_lead i)),
        (''previous_project_manager_id'', JStr (it_manager i)),
        (''previous_engineer_ids'', same_strs (it_engineers i)),
        (''revoked_user_ids'', JStrs ([it_team_lead i, it_manager i] @ column_strs (it_engineers i)))]) s))))"

section \<open>Manager and engineers\<close>

record execution_assignment =
  xa_manager :: string
  xa_engineers :: "string list"
  xa_codes :: "string list"
  xa_version :: nat

definition conflict_resource :: string where
  "conflict_resource =
    [CHR 0xE8, CHR 0xB5, CHR 0x84, CHR 0xE6, CHR 0xBA, CHR 0x90, CHR 0x20]"

definition conflict_unqualified :: string where
  "conflict_unqualified =
    [CHR 0x20, CHR 0xE7, CHR 0xBC, CHR 0xBA, CHR 0xE5, CHR 0xB0, CHR 0x91, CHR 0xE6, CHR 0x9C,
     CHR 0x89, CHR 0xE6, CHR 0x95, CHR 0x88, CHR 0xE8, CHR 0xB5, CHR 0x84, CHR 0xE8, CHR 0xB4,
     CHR 0xA8, CHR 0x2F, CHR 0xE8, CHR 0x83, CHR 0xBD, CHR 0xE5, CHR 0x8A, CHR 0x9B, CHR 0xE8,
     CHR 0xAE, CHR 0xB0, CHR 0xE5, CHR 0xBD, CHR 0x95]"

definition conflict_code :: string where
  "conflict_code =
    [CHR 0xE7, CHR 0xBC, CHR 0xBA, CHR 0xE5, CHR 0xB0, CHR 0x91, CHR 0xE8, CHR 0x83, CHR 0xBD,
     CHR 0xE5, CHR 0x8A, CHR 0x9B, CHR 0xEF, CHR 0xBC, CHR 0x9A]"

text \<open>
  \<open>checkCapabilities\<close>: the conflicts of the assigned resources and of the required codes, which it
  sorts (in the caller's slice, so the event has them sorted as well).
\<close>

definition active_ids :: "capability_row list \<Rightarrow> string \<Rightarrow> bool" where
  "active_ids items =
     fold (\<lambda>cap active.
         let is_active = cp_status cap = ''ACTIVE'';
             active = active(cp_resource cap := is_active) in
         if blank (cp_user cap) then active else active(trim_space (cp_user cap) := is_active))
       items (\<lambda>_. False)"

definition covered_codes :: "capability_row list \<Rightarrow> string list" where
  "covered_codes items = concat (map cp_codes (filter (\<lambda>cap. cp_status cap = ''ACTIVE'') items))"

definition checkCapabilities :: "string list \<Rightarrow> string list \<Rightarrow> capability_row list \<Rightarrow> string list" where
  "checkCapabilities required resources items =
     map (\<lambda>i. conflict_resource @ i @ conflict_unqualified)
       (filter (\<lambda>i. \<not> active_ids items i) resources) @
     map (\<lambda>code. conflict_code @ code)
       (filter (\<lambda>code. \<not> List.member (covered_codes items) code) (sort required))"

fun canonical_ids :: "capability_row list \<Rightarrow> string list \<Rightarrow> app_error + string list" where
  "canonical_ids caps [] = Inr []"
| "canonical_ids caps (i # is) =
     (case qualifiedUserID i caps of
        None \<Rightarrow> Inl ErrPrecondition
      | Some u \<Rightarrow> rbind (canonical_ids caps is) (\<lambda>us. Inr (u # us)))"

definition required_codes :: "service_item \<Rightarrow> service_item \<Rightarrow> string list \<Rightarrow> string list" where
  "required_codes existing listed extra =
     (let required = normalizeCapabilityCodes (column_strs (it_codes existing) @ extra) in
      if it_test_mode listed = ''PENETRATION''
      then normalizeCapabilityCodes (required @ [''PENETRATION_TEST'']) else required)"

text \<open>The people of an assignment: the manager and the engineers as user identifiers.\<close>

definition assigned_people ::
  "people \<Rightarrow> capability_row list \<Rightarrow> capability_row list \<Rightarrow> string \<Rightarrow> string list \<Rightarrow>
   app_error + string \<times> string list" where
  "assigned_people pe caps manager_caps manager engineers =
     (case qualifiedUserID manager manager_caps of
        None \<Rightarrow> Inl ErrPrecondition
      | Some manager \<Rightarrow>
          rbind (canonical_ids caps engineers) (\<lambda>engineers.
          rbind (assignmentRoleUserIDs pe ''project_manager'') (\<lambda>managers.
          if \<not> List.member managers manager then Inl ErrPrecondition
          else rbind (assignmentRoleUserIDs pe ''engineer'') (\<lambda>allowed.
          if \<not> list_all (List.member allowed) engineers then Inl ErrPrecondition
          else Inr (manager, engineers)))))"

definition execution_payload :: "string \<Rightarrow> string list \<Rightarrow> string list \<Rightarrow> string list \<Rightarrow> nat \<Rightarrow> payload" where
  "execution_payload manager users required conflicts expected =
     [(''project_manager_id'', JStr manager), (''engineer_ids'', JStrs users),
      (''required_codes'', JStrs (sort required)),
      (''conflict_status'', JStr (if conflicts = [] then ''PASSED'' else ''CONFLICT'')),
      (''conflicts'', JStrs conflicts), version_entry expected]"

definition AssignExecutionTeam ::
  "env \<Rightarrow> people \<Rightarrow> service_call \<Rightarrow> string \<Rightarrow> execution_assignment \<Rightarrow> store \<Rightarrow> app_error + string list \<times> store" where
  "AssignExecutionTeam env pe c item input s =
     rbind (authorizeProjectScope (cl_user c) ''project.execution.assign'') (\<lambda>f.
     rbind (GetServiceItem env f item s) (\<lambda>existing.
     if xa_version input \<noteq> 0 \<and> it_version existing \<noteq> xa_version input then Inl ErrConflict
     else
       let tenant = pn_tenant (cl_user c); manager = trim_space (xa_manager input);
           engineers = normalizePersonnelIDs (xa_engineers input) in
       rbind (ensurePersonnelNotFrozen pe tenant (manager # engineers)) (\<lambda>_.
       if manager = [] \<or> engineers = [] then Inl ErrValidation
       else case find (\<lambda>i. it_id i = item) (fst (ListServiceItems env f [] 0 0 s)) of
         None \<Rightarrow> Inl ErrNotFound
       | Some listed \<Rightarrow>
           let required = required_codes existing listed (xa_codes input);
               caps = FindCapabilities s tenant engineers in
           rbind (assigned_people pe caps (FindCapabilities s tenant [manager]) manager engineers)
             (\<lambda>(manager, users).
           let conflicts = checkCapabilities required engineers caps in
           rbind (applyEvent env c (deliveryEvent c [] item EventExecutionTeamAssigned
               (execution_payload manager users required conflicts (xa_version input))) s)
             (\<lambda>s. Inr (conflicts, s))))))"

lemma AssignExecutionTeamE:
  assumes "AssignExecutionTeam env pe c item input s = Inr (conflicts, t)"
  obtains f existing listed manager users where
    "authorizeProjectScope (cl_user c) ''project.execution.assign'' = Inr f"
    "GetServiceItem env f item s = Inr existing"
    "find (\<lambda>i. it_id i = item) (fst (ListServiceItems env f [] 0 0 s)) = Some listed"
    "assigned_people pe (FindCapabilities s (pn_tenant (cl_user c)) (normalizePersonnelIDs (xa_engineers input)))
       (FindCapabilities s (pn_tenant (cl_user c)) [trim_space (xa_manager input)])
       (trim_space (xa_manager input)) (normalizePersonnelIDs (xa_engineers input)) = Inr (manager, users)"
    "conflicts = checkCapabilities (required_codes existing listed (xa_codes input))
       (normalizePersonnelIDs (xa_engineers input))
       (FindCapabilities s (pn_tenant (cl_user c)) (normalizePersonnelIDs (xa_engineers input)))"
    "applyEvent env c (deliveryEvent c [] item EventExecutionTeamAssigned
       (execution_payload manager users (required_codes existing listed (xa_codes input)) conflicts
          (xa_version input))) s = Inr t"
  using assms by (auto simp: AssignExecutionTeam_def res_simps Let_def split: option.split_asm if_split_asm)

definition RevokeExecutionAssignment ::
  "env \<Rightarrow> service_call \<Rightarrow> string \<Rightarrow> string \<Rightarrow> nat \<Rightarrow> store \<Rightarrow> app_error + store" where
  "RevokeExecutionAssignment env c item reason expected s =
     rbind (authorizeServiceItem env (cl_user c) ''project.execution.revoke'' item s) (\<lambda>_.
     rbind (verifyExpectedVersion env (cl_user c) ''project.execution.revoke'' item expected s) (\<lambda>_.
     if blank reason then Inl ErrValidation
     else rbind (authorizeProjectScope (cl_user c) ''project.execution.revoke'') (\<lambda>f.
     rbind (GetServiceItem env f item s) (\<lambda>i.
     if it_status i \<noteq> ProjectStatusPendingAllocation \<or> blank (it_team_lead i) \<or> blank (it_manager i)
     then Inl ErrPrecondition
     else applyEvent env c (deliveryEvent c [] item EventExecutionAssignmentRevoked
       [(''reason'', JStr (trim_space reason)), version_entry expected,
        (''previous_project_manager_id'', JStr (it_manager i)),
        (''previous_engineer_ids'', same_strs (it_engineers i)),
        (''revoked_user_ids'', JStrs (it_manager i # column_strs (it_engineers i)))]) s))))"

section \<open>Archive numbers\<close>

text \<open>A resource without a number gets the next free one (\<open>P-0001\<close>, \<open>EQ-0001\<close>).\<close>

definition resourceIDPrefix :: "string \<Rightarrow> string" where
  "resourceIDPrefix ty = (if ty = ''EQUIPMENT'' then ''EQ-'' else ''P-'')"

definition numbered_id :: "string \<Rightarrow> int \<Rightarrow> string" where
  "numbered_id prefix n =
     prefix @ (if 0 \<le> n
       then let digits = show_nat (nat n) in replicate (4 - length digits) CHR ''0'' @ digits
       else let digits = show_nat (nat (- n)) in ''-'' @ replicate (3 - length digits) CHR ''0'' @ digits)"

definition max_number :: "string \<Rightarrow> capability_row list \<Rightarrow> int" where
  "max_number prefix items =
     fold (\<lambda>cap best.
         if take (length prefix) (cp_resource cap) \<noteq> prefix then best
         else case Atoi (trim_prefix prefix (cp_resource cap)) of
           None \<Rightarrow> best | Some n \<Rightarrow> if best < n then n else best)
       items 0"

text \<open>
  The search for a free number, which the code makes without a bound: the candidates are different,
  so one more step than the archive has rows is enough (\<open>nextResourceID_fresh\<close>).
\<close>

fun free_id :: "nat \<Rightarrow> string list \<Rightarrow> string \<Rightarrow> int \<Rightarrow> string option" where
  "free_id 0 used prefix n = None"
| "free_id (Suc k) used prefix n =
     (let m = wrap_int (n + 1); candidate = numbered_id prefix m in
      if \<not> List.member used candidate then Some candidate else free_id k used prefix m)"

definition nextResourceID :: "capability_row list \<Rightarrow> string \<Rightarrow> string option" where
  "nextResourceID existing ty =
     (let rows = filter (\<lambda>cap. cp_type cap = ty) existing; prefix = resourceIDPrefix ty in
      free_id (Suc (length rows)) (map cp_resource rows) prefix (max_number prefix rows))"

definition assignResourceID :: "capability_row list \<Rightarrow> capability_row \<Rightarrow> capability_row" where
  "assignResourceID existing item =
     (if \<not> blank (cp_resource item) then item
      else if cp_type item \<noteq> ''PERSON'' \<and> cp_type item \<noteq> ''EQUIPMENT'' then item
      else case nextResourceID existing (cp_type item) of
        None \<Rightarrow> item | Some i \<Rightarrow> item\<lparr>cp_resource := i\<rparr>)"

end
