(* ===== verification/PlanCommands.thy ===== *)
theory PlanCommands
  imports DeliveryCommands
begin

text \<open>
  The plan of an item and its preparation: personnel and equipment lists with their snapshots and
  windows, the reading of reservations, travel, and the commands that publish, prepare and revoke
  (\<open>application/delivery_plan.go\<close>, \<open>application/delivery_personnel.go\<close>,
  \<open>application/delivery_equipment.go\<close>, \<open>application/delivery_field.go\<close>,
  \<open>ListEquipmentReservations\<close> of \<open>mysql/repository.go\<close>).
\<close>

section \<open>Rows of a plan\<close>

record resource_input =
  ri_type :: string
  ri_id :: string
  ri_start :: string
  ri_end :: string
  ri_note :: string

text \<open>The window of a row; \<open>zero_time\<close> is the start of a row that uses the whole plan.\<close>

definition planResourceWindow ::
  "zone \<Rightarrow> resource_input \<Rightarrow> instant \<Rightarrow> instant \<Rightarrow> app_error + instant \<times> instant" where
  "planResourceWindow z input planStart planEnd =
     (let rawStart = trim_space (ri_start input); rawEnd = trim_space (ri_end input) in
      if rawStart = [] \<and> rawEnd = [] then Inr (zero_time, planEnd)
      else if rawStart = [] \<or> rawEnd = [] then Inl ErrValidation
      else case (parse_date rawStart, parse_date rawEnd) of
        (Some start, Some end') \<Rightarrow>
          if end' < start then Inl ErrValidation
          else if CalendarDay z start < CalendarDay z planStart \<or> CalendarDay z planEnd < CalendarDay z end'
          then Inl ErrValidation
          else Inr (start, end')
      | _ \<Rightarrow> Inl ErrValidation)"

definition effectiveWindowStart :: "instant \<Rightarrow> instant \<Rightarrow> instant" where
  "effectiveWindowStart windowStart planStart = (if windowStart = zero_time then planStart else windowStart)"

definition set_time :: "instant option \<Rightarrow> instant option" where
  "set_time t = (case t of None \<Rightarrow> None | Some v \<Rightarrow> timePtr v)"

text \<open>The certificate of a device covers the days of its window.\<close>

definition certificate_covers :: "zone \<Rightarrow> capability_row \<Rightarrow> instant \<Rightarrow> instant \<Rightarrow> bool" where
  "certificate_covers z cap start end' \<longleftrightarrow>
     (case set_time (cp_valid_from cap) of None \<Rightarrow> True | Some v \<Rightarrow> CalendarDay z v \<le> CalendarDay z start) \<and>
     (case set_time (cp_valid_until cap) of None \<Rightarrow> True | Some v \<Rightarrow> CalendarDay z end' \<le> CalendarDay z v)"

definition built_row :: "string \<Rightarrow> capability_row \<Rightarrow> resource_input \<Rightarrow> instant \<Rightarrow> instant \<Rightarrow> plan_resource" where
  "built_row ty cap input start end' =
     \<lparr>pr_type = ty, pr_id = cp_resource cap, pr_name = cp_name cap, pr_codes = cp_codes cap,
      pr_valid_until = (if ty \<noteq> ''EQUIPMENT'' then []
        else case set_time (cp_valid_until cap) of None \<Rightarrow> [] | Some v \<Rightarrow> format_date v),
      pr_start = (if start = zero_time then [] else format_date start),
      pr_end = (if start = zero_time then [] else format_date end'),
      pr_note = trim_space (ri_note input), pr_returned = []\<rparr>"

text \<open>
  The archive is looked up by \<open>known\<close>; \<open>seen\<close> are the rows before this one. Every error of a row is
  answered as a validation error of its line.
\<close>

definition buildPlanResource ::
  "zone \<Rightarrow> (string \<Rightarrow> capability_row option) \<Rightarrow> resource_input \<Rightarrow> string \<Rightarrow> instant \<Rightarrow> instant \<Rightarrow>
   string list \<Rightarrow> app_error + plan_resource \<times> string list" where
  "buildPlanResource z known input want planStart planEnd seen =
     (let ty = to_upper (trim_space (ri_type input)); i = trim_space (ri_id input) in
      if ty \<noteq> ''PERSON'' \<and> ty \<noteq> ''EQUIPMENT'' then Inl ErrValidation
      else if ty \<noteq> want then Inl ErrValidation
      else if i = [] then Inl ErrValidation
      else if List.member seen i then Inl ErrValidation
      else case known i of
        None \<Rightarrow> Inl ErrValidation
      | Some cap \<Rightarrow>
          if cp_type cap \<noteq> ty \<or> cp_status cap \<noteq> ''ACTIVE'' then Inl ErrValidation
          else rbind (planResourceWindow z input planStart planEnd) (\<lambda>(start, end').
            if ty = ''EQUIPMENT'' \<and>
               \<not> certificate_covers z cap (effectiveWindowStart start planStart) end'
            then Inl ErrValidation
            else Inr (built_row ty cap input start end', i # seen)))"

text \<open>\<open>ListCapabilities\<close>: the archive of a tenant, by type and name.\<close>

definition ListCapabilities :: "string \<Rightarrow> string \<Rightarrow> store \<Rightarrow> capability_row list" where
  "ListCapabilities tenant ty s =
     sort_key cp_type (sort_key cp_name
       (filter (\<lambda>cap. cp_tenant cap = tenant \<and> (ty = [] \<or> cp_type cap = ty)) (st_capabilities s)))"

text \<open>The maps of the code: a later row takes the place of an earlier one.\<close>

definition by_resource :: "capability_row list \<Rightarrow> string \<Rightarrow> capability_row option" where
  "by_resource caps i = find (\<lambda>cap. cp_resource cap = i) (rev caps)"

definition by_resource_or_user :: "capability_row list \<Rightarrow> string \<Rightarrow> capability_row option" where
  "by_resource_or_user caps i =
     find (\<lambda>cap. cp_resource cap = i \<or>
             cp_type cap = ''PERSON'' \<and> \<not> blank (cp_user cap) \<and> trim_space (cp_user cap) = i) (rev caps)"

fun personnel_rows ::
  "zone \<Rightarrow> (string \<Rightarrow> capability_row option) \<Rightarrow> instant \<Rightarrow> instant \<Rightarrow> string list \<Rightarrow> resource_input list \<Rightarrow>
   app_error + plan_resource list" where
  "personnel_rows z known planStart planEnd seen [] = Inr []"
| "personnel_rows z known planStart planEnd seen (input # inputs) =
     (if equal_fold (trim_space (ri_type input)) ''EQUIPMENT'' then Inl ErrValidation
      else rbind (buildPlanResource z known input ''PERSON'' planStart planEnd seen) (\<lambda>(row, seen).
           rbind (personnel_rows z known planStart planEnd seen inputs) (\<lambda>rows. Inr (row # rows))))"

definition resolvePlanPersonnel ::
  "zone \<Rightarrow> string \<Rightarrow> resource_input list \<Rightarrow> instant \<Rightarrow> instant \<Rightarrow> store \<Rightarrow> app_error + plan_resource list" where
  "resolvePlanPersonnel z tenant inputs planStart planEnd s =
     (if inputs = [] then Inl ErrValidation
      else personnel_rows z (by_resource_or_user (ListCapabilities tenant [] s)) planStart planEnd [] inputs)"

section \<open>Equipment in use\<close>

record equipment_reservation =
  qv_item :: string
  qv_project :: string
  qv_customer :: string
  qv_resource :: string
  qv_name :: string
  qv_start :: string
  qv_end :: string

definition firstValue :: "string \<Rightarrow> string \<Rightarrow> string" where
  "firstValue v fallback = (if blank v then fallback else v)"

definition holds_equipment :: "service_item \<Rightarrow> bool" where
  "holds_equipment i \<longleftrightarrow>
     List.member [ProjectStatusPreparing, ProjectStatusInProgress, ProjectStatusException,
       ProjectStatusFieldCompleted] (it_status i)"

definition date_text :: "instant option \<Rightarrow> string" where
  "date_text t = (case t of None \<Rightarrow> [] | Some v \<Rightarrow> format_date v)"

definition resource_reservations ::
  "plan_row \<Rightarrow> service_item \<Rightarrow> string \<Rightarrow> plan_resource list \<Rightarrow> equipment_reservation list" where
  "resource_reservations pl i customer resources =
     filter (\<lambda>q. qv_start q \<noteq> [] \<and> qv_end q \<noteq> [])
       (map (\<lambda>r. \<lparr>qv_item = pl_item pl, qv_project = it_project i, qv_customer = customer,
                   qv_resource = pr_id r, qv_name = pr_name r,
                   qv_start = firstValue (pr_start r) (date_text (pl_planned_start pl)),
                   qv_end = firstValue (pr_end r) (date_text (pl_planned_end pl))\<rparr>)
          (filter (\<lambda>r. blank (pr_returned r)) resources))"

text \<open>The join is over the tables themselves, archived items included.\<close>

definition ListEquipmentReservations :: "string \<Rightarrow> string \<Rightarrow> store \<Rightarrow> equipment_reservation list" where
  "ListEquipmentReservations tenant exclude s =
     concat (map (\<lambda>pl.
       case (pl_equipment pl, find (\<lambda>i. it_tenant i = pl_tenant pl \<and> it_id i = pl_item pl) (st_items s)) of
         (Some raw, Some i) \<Rightarrow>
           if \<not> holds_equipment i \<or> exclude \<noteq> [] \<and> pl_item pl = exclude then []
           else (case decode_resources raw of
             None \<Rightarrow> []
           | Some resources \<Rightarrow>
               resource_reservations pl i
                 (case find (\<lambda>p. pj_tenant p = it_tenant i \<and> pj_id p = it_project i) (st_projects s) of
                    None \<Rightarrow> [] | Some p \<Rightarrow> pj_customer p) resources)
       | _ \<Rightarrow> [])
     (filter (\<lambda>pl. pl_tenant pl = tenant) (st_plans s)))"

definition equipmentInUseAt :: "zone \<Rightarrow> equipment_reservation list \<Rightarrow> instant \<Rightarrow> string \<Rightarrow> equipment_reservation option" where
  "equipmentInUseAt z reservations now resource =
     find (\<lambda>q. qv_resource q = resource \<and> qv_start q \<le> DateKey z now \<and> DateKey z now \<le> qv_end q) reservations"

text \<open>The reservations in the way of a row: both ends count, an unreadable window counts as used.\<close>

definition equipmentUsageConflicts ::
  "plan_resource \<Rightarrow> instant \<Rightarrow> instant \<Rightarrow> equipment_reservation list \<Rightarrow> equipment_reservation list" where
  "equipmentUsageConflicts row windowStart windowEnd reserved =
     filter (\<lambda>q. qv_resource q = pr_id row \<and>
       (case (parse_date (qv_start q), parse_date (qv_end q)) of
          (Some a, Some b) \<Rightarrow> \<not> (b < windowStart \<or> windowEnd < a)
        | _ \<Rightarrow> True)) reserved"

definition row_window :: "zone \<Rightarrow> plan_resource \<Rightarrow> instant \<Rightarrow> instant \<Rightarrow> instant \<times> instant" where
  "row_window z row planStart planEnd =
     (if pr_start row = [] then (CalendarDay z planStart, CalendarDay z planEnd)
      else (case parse_date (pr_start row) of Some v \<Rightarrow> v | None \<Rightarrow> zero_time,
            case parse_date (pr_end row) of Some v \<Rightarrow> v | None \<Rightarrow> zero_time))"

definition company_only :: "(string \<Rightarrow> capability_row option) \<Rightarrow> plan_resource \<Rightarrow> bool" where
  "company_only known row \<longleftrightarrow>
     (case known (pr_id row) of None \<Rightarrow> False | Some cap \<Rightarrow> cp_usage cap = ''COMPANY_ONLY'')"

fun equipment_rows ::
  "zone \<Rightarrow> (string \<Rightarrow> capability_row option) \<Rightarrow> equipment_reservation list \<Rightarrow> instant \<Rightarrow> instant \<Rightarrow> instant \<Rightarrow>
   string list \<Rightarrow> resource_input list \<Rightarrow> app_error + plan_resource list" where
  "equipment_rows z known reserved now planStart planEnd seen [] = Inr []"
| "equipment_rows z known reserved now planStart planEnd seen (input # inputs) =
     rbind (buildPlanResource z known input ''EQUIPMENT'' planStart planEnd seen) (\<lambda>(row, seen).
     let (windowStart, windowEnd) = row_window z row planStart planEnd in
     if company_only known row then Inl ErrResourceConflict
     else if equipmentInUseAt z reserved now (pr_id row) \<noteq> None then Inl ErrResourceConflict
     else if equipmentUsageConflicts row windowStart windowEnd reserved \<noteq> [] then Inl ErrResourceConflict
     else rbind (equipment_rows z known reserved now planStart planEnd seen inputs) (\<lambda>rows. Inr (row # rows)))"

definition resolvePreparationEquipment ::
  "zone \<Rightarrow> instant \<Rightarrow> string \<Rightarrow> string \<Rightarrow> resource_input list \<Rightarrow> instant \<Rightarrow> instant \<Rightarrow> store \<Rightarrow>
   app_error + plan_resource list" where
  "resolvePreparationEquipment z now tenant item inputs planStart planEnd s =
     (if inputs = [] then Inr []
      else equipment_rows z (by_resource (ListCapabilities tenant [] s))
             (ListEquipmentReservations tenant item s) now planStart planEnd [] inputs)"

text \<open>The window of the plan as the service reads it back, to the second.\<close>

definition planWindowOf :: "service_item \<Rightarrow> app_error + instant \<times> instant" where
  "planWindowOf i =
     (case (to_second (it_planned_start i), to_second (it_planned_end i)) of
        (Some start, Some end') \<Rightarrow> if start < end' then Inr (start, end') else Inl ErrPrecondition
      | _ \<Rightarrow> Inl ErrPrecondition)"

text \<open>The reservations the selection of a preparation shows.\<close>

definition overlapping_reservations ::
  "instant \<Rightarrow> instant \<Rightarrow> equipment_reservation list \<Rightarrow> equipment_reservation list" where
  "overlapping_reservations planStart planEnd reservations =
     filter (\<lambda>q. case (parse_date (qv_start q), parse_date (qv_end q)) of
        (Some a, Some b) \<Rightarrow> planStart < b \<and> a < planEnd | _ \<Rightarrow> False) reservations"

definition shown_reservations ::
  "env \<Rightarrow> principal \<Rightarrow> string \<Rightarrow> store \<Rightarrow> app_error + equipment_reservation list" where
  "shown_reservations env p item s =
     rbind (authorizeAnyProjectScope p [''project.implementation.plan'', ''project.read'']) (\<lambda>f.
     rbind (GetServiceItem env f item s) (\<lambda>i.
     let reservations = ListEquipmentReservations (pn_tenant p) item s in
     case planWindowOf i of
       Inl _ \<Rightarrow> Inr reservations
     | Inr (planStart, planEnd) \<Rightarrow> Inr (overlapping_reservations planStart planEnd reservations)))"

section \<open>Publishing a plan\<close>

record implementation_input =
  ii_start :: string
  ii_end :: string
  ii_site_plan :: string
  ii_penetration_plan :: string
  ii_auth_doc_no :: string
  ii_auth_start :: string
  ii_auth_end :: string
  ii_auth_scope :: string
  ii_test_scope :: string
  ii_test_window :: string
  ii_emergency_contact :: string
  ii_rollback_plan :: string
  ii_personnel :: "resource_input list"
  ii_version :: nat

definition validateImplementationPlanTexts :: "implementation_input \<Rightarrow> app_error + unit" where
  "validateImplementationPlanTexts input =
     rguard (text_fits (ii_site_plan input) 5000 \<and> text_fits (ii_penetration_plan input) 5000 \<and>
             text_fits (ii_auth_doc_no input) 128 \<and> text_fits (ii_auth_scope input) 5000 \<and>
             text_fits (ii_test_scope input) 5000 \<and> text_fits (ii_test_window input) 128 \<and>
             text_fits (ii_emergency_contact input) 128 \<and> text_fits (ii_rollback_plan input) 5000 \<and>
             list_all (\<lambda>r. text_fits (ri_note r) 500) (ii_personnel input)) ErrValidation"

definition validatePenetrationCompliance :: "implementation_input \<Rightarrow> app_error + unit" where
  "validatePenetrationCompliance input =
     (if list_ex blank [ii_penetration_plan input, ii_auth_doc_no input, ii_auth_scope input,
           ii_test_scope input, ii_test_window input, ii_emergency_contact input, ii_rollback_plan input]
      then Inl ErrValidation
      else case (parse_rfc3339 (ii_auth_start input), parse_rfc3339 (ii_auth_end input)) of
        (Some a, Some b) \<Rightarrow> rguard (a < b) ErrValidation
      | _ \<Rightarrow> Inl ErrValidation)"

definition plan_payload :: "implementation_input \<Rightarrow> plan_resource list \<Rightarrow> payload" where
  "plan_payload input personnel =
     [version_entry (ii_version input),
      (''planned_start'', JStr (ii_start input)), (''planned_end'', JStr (ii_end input)),
      (''site_plan'', JStr (ii_site_plan input)), (''penetration_test_plan'', JStr (ii_penetration_plan input)),
      (''auth_doc_no'', JStr (trim_space (ii_auth_doc_no input))),
      (''auth_start'', JStr (trim_space (ii_auth_start input))),
      (''auth_end'', JStr (trim_space (ii_auth_end input))),
      (''auth_scope'', JStr (trim_space (ii_auth_scope input))),
      (''test_scope'', JStr (trim_space (ii_test_scope input))),
      (''test_window'', JStr (trim_space (ii_test_window input))),
      (''emergency_contact'', JStr (trim_space (ii_emergency_contact input))),
      (''rollback_plan'', JStr (trim_space (ii_rollback_plan input))),
      (''personnel'', encode_resources personnel)]"

definition plan_window :: "implementation_input \<Rightarrow> app_error + instant \<times> instant" where
  "plan_window input =
     (case (parse_rfc3339 (ii_start input), parse_rfc3339 (ii_end input)) of
        (Some start, Some end') \<Rightarrow> if start < end' then Inr (start, end') else Inl ErrValidation
      | _ \<Rightarrow> Inl ErrValidation)"

definition PlanImplementation ::
  "env \<Rightarrow> service_call \<Rightarrow> string \<Rightarrow> implementation_input \<Rightarrow> store \<Rightarrow> app_error + store" where
  "PlanImplementation env c item input s =
     rbind (authorizeProjectScope (cl_user c) ''project.implementation.plan'') (\<lambda>f.
     rbind (verifyExpectedVersion env (cl_user c) ''project.implementation.plan'' item (ii_version input) s) (\<lambda>_.
     rbind (GetServiceItem env f item s) (\<lambda>i.
     rbind (CheckImplementationPlanPrecondition i) (\<lambda>_.
     rbind (validateImplementationPlanTexts input) (\<lambda>_.
     rbind (plan_window input) (\<lambda>(start, end').
     rbind (if it_test_mode i = ''PENETRATION'' then validatePenetrationCompliance input else Inr ()) (\<lambda>_.
     rbind (resolvePlanPersonnel (env_zone env) (pn_tenant (cl_user c)) (ii_personnel input) start end' s)
       (\<lambda>personnel.
     applyEvent env c
       (deliveryEvent c [] item EventImplementationPlanned (plan_payload input personnel)) s))))))))"

text \<open>The shape of the commands that withdraw a step: authorised, reasoned, in the right status.\<close>

definition revoke_step ::
  "env \<Rightarrow> service_call \<Rightarrow> string \<Rightarrow> string \<Rightarrow> nat \<Rightarrow> string \<Rightarrow> event_type \<Rightarrow> store \<Rightarrow> app_error + store" where
  "revoke_step env c item reason expected status ty s =
     rbind (authorizeServiceItem env (cl_user c) ''project.implementation.revoke'' item s) (\<lambda>_.
     rbind (verifyExpectedVersion env (cl_user c) ''project.implementation.revoke'' item expected s) (\<lambda>_.
     if blank reason then Inl ErrValidation
     else rbind (authorizeProjectScope (cl_user c) ''project.implementation.revoke'') (\<lambda>f.
     rbind (GetServiceItem env f item s) (\<lambda>i.
     if it_status i \<noteq> status then Inl ErrPrecondition
     else applyEvent env c (deliveryEvent c [] item ty
       [(''reason'', JStr (trim_space reason)), version_entry expected]) s))))"

definition RevokeImplementationPlan ::
  "env \<Rightarrow> service_call \<Rightarrow> string \<Rightarrow> string \<Rightarrow> nat \<Rightarrow> store \<Rightarrow> app_error + store" where
  "RevokeImplementationPlan env c item reason expected s =
     revoke_step env c item reason expected ProjectStatusPendingExecution EventImplementationPlanRevoked s"

definition RevokePreparation ::
  "env \<Rightarrow> service_call \<Rightarrow> string \<Rightarrow> string \<Rightarrow> nat \<Rightarrow> store \<Rightarrow> app_error + store" where
  "RevokePreparation env c item reason expected s =
     revoke_step env c item reason expected ProjectStatusPreparing EventPreparationRevoked s"

definition ReviewSpecialMethod ::
  "env \<Rightarrow> service_call \<Rightarrow> string \<Rightarrow> string \<Rightarrow> string \<Rightarrow> store \<Rightarrow> app_error + store" where
  "ReviewSpecialMethod env c item decision comment s =
     rbind (authorizeServiceItem env (cl_user c) ''project.special_method.review'' item s) (\<lambda>_.
     let decision = to_upper (trim_space decision) in
     if decision \<noteq> ''APPROVED'' \<and> decision \<noteq> ''REJECTED'' then Inl ErrValidation
     else applyEvent env c (deliveryEvent c [] item EventSpecialMethodReviewed
       [(''decision'', JStr decision), (''comment'', JStr (trim_space comment))]) s)"

definition ReturnEquipment ::
  "env \<Rightarrow> service_call \<Rightarrow> string \<Rightarrow> string \<Rightarrow> store \<Rightarrow> app_error + store" where
  "ReturnEquipment env c item resource s =
     rbind (authorizeAnyProjectScope (cl_user c) [''project.implementation.plan'', ''project.device.manage'']) (\<lambda>f.
     if blank resource then Inl ErrValidation
     else rbind (GetServiceItem env f item s) (\<lambda>_.
     applyEvent env c (deliveryEvent c [] item EventEquipmentReturned
       [(''resource_id'', JStr (trim_space resource))]) s))"

section \<open>Travel and preparation\<close>

record travel =
  tv_mode :: string
  tv_reference :: string
  tv_request :: string
  tv_reason :: string
  tv_origin :: string
  tv_destination :: string
  tv_departure :: string
  tv_return :: string
  tv_transport :: string
  tv_accommodation :: string
  tv_travelers :: "string list"

definition encode_travel :: "travel \<Rightarrow> json" where
  "encode_travel t = JObj
     ([(''mode'', JStr (tv_mode t))] @ omit_empty ''reference_event_id'' (tv_reference t)
      @ omit_empty ''request_id'' (tv_request t) @ omit_empty ''no_travel_reason'' (tv_reason t)
      @ omit_empty ''origin'' (tv_origin t) @ omit_empty ''destination'' (tv_destination t)
      @ omit_empty ''departure_date'' (tv_departure t) @ omit_empty ''return_date'' (tv_return t)
      @ omit_empty ''transport'' (tv_transport t) @ omit_empty ''accommodation_need'' (tv_accommodation t)
      @ (if tv_travelers t = [] then [] else [(''traveler_ids'', JStrs (tv_travelers t))]))"

definition no_travel_record :: travel where
  "no_travel_record = \<lparr>tv_mode = [], tv_reference = [], tv_request = [], tv_reason = [], tv_origin = [],
     tv_destination = [], tv_departure = [], tv_return = [], tv_transport = [], tv_accommodation = [],
     tv_travelers = []\<rparr>"

definition validateTravelTexts :: "travel \<Rightarrow> app_error + unit" where
  "validateTravelTexts t =
     rguard (text_fits (tv_reason t) 500 \<and> text_fits (tv_origin t) 255 \<and> text_fits (tv_destination t) 255 \<and>
             text_fits (tv_transport t) 255 \<and> text_fits (tv_accommodation t) 255) ErrValidation"

definition normal_travel :: "travel \<Rightarrow> travel" where
  "normal_travel t =
     \<lparr>tv_mode = to_upper (trim_space (tv_mode t)), tv_reference = trim_space (tv_reference t),
      tv_request = trim_space (tv_request t), tv_reason = trim_space (tv_reason t),
      tv_origin = trim_space (tv_origin t), tv_destination = trim_space (tv_destination t),
      tv_departure = trim_space (tv_departure t), tv_return = trim_space (tv_return t),
      tv_transport = trim_space (tv_transport t), tv_accommodation = trim_space (tv_accommodation t),
      tv_travelers = normalizePersonnelIDs (tv_travelers t)\<rparr>"

definition newTravelRequestID :: "zone \<Rightarrow> instant \<Rightarrow> string \<Rightarrow> string" where
  "newTravelRequestID z now fresh = ''TRIP-'' @ DateString z now @ ''-'' @ to_upper (drop 20 fresh)"

definition assigned_ids :: "service_item \<Rightarrow> string list" where
  "assigned_ids i =
     filter (\<lambda>t. t \<noteq> []) (map trim_space ([it_team_lead i, it_manager i] @ column_strs (it_engineers i)))"

definition existing_travel :: "travel \<Rightarrow> service_item \<Rightarrow> event_row list \<Rightarrow> app_error + travel" where
  "existing_travel t i events =
     (if tv_reference t = [] then Inl ErrValidation
      else case find (\<lambda>e. er_id e = tv_reference t \<and> er_project e = it_project i \<and>
               er_type e = EventPreparationStarted) events of
        None \<Rightarrow> Inl ErrValidation
      | Some e \<Rightarrow>
          let request = payloadText (er_payload e) ''travel_request_id'' in
          if request = [] then Inl ErrValidation
          else Inr (no_travel_record\<lparr>tv_mode := tv_mode t, tv_reference := er_id e, tv_request := request\<rparr>))"

definition new_travel :: "zone \<Rightarrow> instant \<Rightarrow> string \<Rightarrow> travel \<Rightarrow> service_item \<Rightarrow> app_error + travel" where
  "new_travel z now fresh t i =
     (if tv_origin t = [] \<or> tv_destination t = [] then Inl ErrValidation
      else case (parse_date (tv_departure t), parse_date (tv_return t)) of
        (Some departure, Some return') \<Rightarrow>
          if return' < departure then Inl ErrValidation
          else if tv_travelers t = [] then Inl ErrValidation
          else if \<not> list_all (List.member (assigned_ids i)) (tv_travelers t) then Inl ErrValidation
          else Inr (t\<lparr>tv_request := newTravelRequestID z now fresh, tv_reference := [], tv_reason := []\<rparr>)
      | _ \<Rightarrow> Inl ErrValidation)"

definition normalizeTravelArrangement ::
  "zone \<Rightarrow> instant \<Rightarrow> string \<Rightarrow> travel \<Rightarrow> string \<Rightarrow> service_item \<Rightarrow> event_row list \<Rightarrow> app_error + travel" where
  "normalizeTravelArrangement z now fresh given request i events =
     (let t = normal_travel given in
      if tv_mode t = [] \<and> \<not> blank request
      then Inr (t\<lparr>tv_mode := ''EXISTING'', tv_request := trim_space request\<rparr>)
      else if tv_mode t = ''NO_TRAVEL''
      then if tv_reason t = [] then Inl ErrValidation
           else Inr (no_travel_record\<lparr>tv_mode := tv_mode t, tv_reason := tv_reason t\<rparr>)
      else if tv_mode t = ''EXISTING'' then existing_travel t i events
      else if tv_mode t = ''NEW'' then new_travel z now fresh t i
      else Inl ErrValidation)"

record preparation_input =
  pp_request :: string
  pp_travel :: travel
  pp_notes :: string
  pp_version :: nat
  pp_equipment :: "resource_input list"

definition StartPreparation ::
  "env \<Rightarrow> service_call \<Rightarrow> string \<Rightarrow> preparation_input \<Rightarrow> store \<Rightarrow> app_error + store" where
  "StartPreparation env c item input s =
     rbind (authorizeProjectScope (cl_user c) ''project.implementation.plan'') (\<lambda>f.
     rbind (validateTravelTexts (pp_travel input)) (\<lambda>_.
     rbind (validateProjectTextLength (pp_notes input) 2000) (\<lambda>_.
     rbind (rguard (list_all (\<lambda>r. text_fits (ri_note r) 500) (pp_equipment input)) ErrValidation) (\<lambda>_.
     rbind (verifyExpectedVersion env (cl_user c) ''project.implementation.plan'' item (pp_version input) s) (\<lambda>_.
     rbind (GetServiceItem env f item s) (\<lambda>i.
     let events = (if equal_fold (trim_space (tv_mode (pp_travel input))) ''EXISTING''
                   then ListDeliveryEvents env f (it_project i) s else []) in
     rbind (normalizeTravelArrangement (env_zone env) (cl_now c) (cl_fresh c) (pp_travel input)
              (pp_request input) i events) (\<lambda>travel.
     rbind (planWindowOf i) (\<lambda>(planStart, planEnd).
     rbind (resolvePreparationEquipment (env_zone env) (cl_now c) (pn_tenant (cl_user c)) item
              (pp_equipment input) planStart planEnd s) (\<lambda>equipment.
     applyEvent env c (deliveryEvent c [] item EventPreparationStarted
       [version_entry (pp_version input), (''travel_request_id'', JStr (tv_request travel)),
        (''travel'', encode_travel travel), (''notes'', JStr (trim_space (pp_notes input))),
        (''equipment'', encode_resources equipment)]) s)))))))))"

end
