(* ===== verification/CommandRuns.thy ===== *)
theory CommandRuns
  imports TeamCommands PlanCommands FieldCommands RequestCommands
begin

text \<open>
  The commands of the service as one machine, and what every run of it keeps: it does nothing the
  transactions of the store do not do, every event is of an authorised caller, and every file in an
  event was confirmed by the file gateway.
\<close>

section \<open>Commands\<close>

datatype command =
    AssignTeamCommand string nat
  | RevokeTeamCommand string nat
  | AssignExecutionCommand execution_assignment
  | RevokeExecutionCommand string nat
  | PlanCommand implementation_input
  | RevokePlanCommand string nat
  | PrepareCommand preparation_input
  | RevokePreparationCommand string nat
  | ReviewMethodCommand string string
  | ReturnCommand string
  | StartCommand nat
  | RecordCommand field_input
  | SignCommand signature_input
  | DeviationCommand deviation_input
  | ReviewDeviationCommand string string string
  | CompleteCommand string nat
  | RollbackCommand string string nat
  | DecideRollbackCommand string string string nat
  | WithdrawCommand string string
  | ReportCommand string nat
  | ReportFileCommand nat artifact
  | CorrectionCommand string nat
  | DecideCorrectionCommand string string string nat

text \<open>A request: the call, the item, the command, and what the gateway and the directory answer to it.\<close>

record request =
  rq_call :: service_call
  rq_item :: string
  rq_command :: command
  rq_files :: evidence_files
  rq_people :: people

definition written :: "app_error + 'a \<times> store \<Rightarrow> app_error + store" where
  "written r = rbind r (\<lambda>x. Inr (snd x))"

fun perform_command ::
  "env \<Rightarrow> string \<Rightarrow> request \<Rightarrow> command \<Rightarrow> store \<Rightarrow> app_error + store" where
  "perform_command env mode q (AssignTeamCommand lead v) s =
     AssignTeam env (rq_people q) (rq_call q) (rq_item q) lead v s"
| "perform_command env mode q (RevokeTeamCommand reason v) s =
     RevokeTeamAssignment env (rq_call q) (rq_item q) reason v s"
| "perform_command env mode q (AssignExecutionCommand input) s =
     written (AssignExecutionTeam env (rq_people q) (rq_call q) (rq_item q) input s)"
| "perform_command env mode q (RevokeExecutionCommand reason v) s =
     RevokeExecutionAssignment env (rq_call q) (rq_item q) reason v s"
| "perform_command env mode q (PlanCommand input) s = PlanImplementation env (rq_call q) (rq_item q) input s"
| "perform_command env mode q (RevokePlanCommand reason v) s =
     RevokeImplementationPlan env (rq_call q) (rq_item q) reason v s"
| "perform_command env mode q (PrepareCommand input) s = StartPreparation env (rq_call q) (rq_item q) input s"
| "perform_command env mode q (RevokePreparationCommand reason v) s =
     RevokePreparation env (rq_call q) (rq_item q) reason v s"
| "perform_command env mode q (ReviewMethodCommand decision comment) s =
     ReviewSpecialMethod env (rq_call q) (rq_item q) decision comment s"
| "perform_command env mode q (ReturnCommand resource) s = ReturnEquipment env (rq_call q) (rq_item q) resource s"
| "perform_command env mode q (StartCommand v) s = StartFieldExecution env (rq_call q) (rq_item q) v s"
| "perform_command env mode q (RecordCommand input) s =
     SubmitFieldRecord env (rq_files q) (rq_call q) (rq_item q) input s"
| "perform_command env mode q (SignCommand input) s =
     CaptureFieldSignature env (rq_files q) (rq_call q) (rq_item q) input s"
| "perform_command env mode q (DeviationCommand input) s =
     written (ReportDeviation env (rq_files q) (rq_call q) (rq_item q) input s)"
| "perform_command env mode q (ReviewDeviationCommand deviation decision comment) s =
     ReviewDeviation env (rq_call q) deviation decision comment s"
| "perform_command env mode q (CompleteCommand reason v) s =
     CompleteServiceItemField env mode (rq_call q) (rq_item q) reason v s"
| "perform_command env mode q (RollbackCommand kind reason v) s =
     written (RequestRollback env (rq_call q) (rq_item q) kind reason v s)"
| "perform_command env mode q (DecideRollbackCommand i decision comment v) s =
     DecideRollback env (rq_call q) (rq_item q) i decision comment v s"
| "perform_command env mode q (WithdrawCommand i reason) s =
     WithdrawRollback env (rq_call q) (rq_item q) i reason s"
| "perform_command env mode q (ReportCommand phase v) s =
     UpdateReportStatus env (rq_files q) (rq_call q) (rq_item q) phase v s"
| "perform_command env mode q (ReportFileCommand revision input) s =
     Service_RegisterReportArtifact env (rq_files q) (rq_call q) (rq_item q) revision input s"
| "perform_command env mode q (CorrectionCommand reason v) s =
     written (RequestReportCorrection env (rq_call q) (rq_item q) reason v s)"
| "perform_command env mode q (DecideCorrectionCommand i decision comment v) s =
     DecideReportCorrection env (rq_call q) (rq_item q) i decision comment v s"

definition perform :: "env \<Rightarrow> string \<Rightarrow> request \<Rightarrow> store \<Rightarrow> app_error + store" where
  "perform env mode q s = perform_command env mode q (rq_command q) s"

section \<open>What a command may issue\<close>

text \<open>The permissions that let a caller record an event of a type; a report needs that of its phase.\<close>

fun event_permissions :: "event_type \<Rightarrow> payload \<Rightarrow> string list" where
  "event_permissions EventTeamAssigned p = [''project.team.assign'']"
| "event_permissions EventTeamAssignmentRevoked p = [''project.team.revoke'']"
| "event_permissions EventExecutionTeamAssigned p = [''project.execution.assign'']"
| "event_permissions EventExecutionAssignmentRevoked p = [''project.execution.revoke'']"
| "event_permissions EventImplementationPlanned p = [''project.implementation.plan'']"
| "event_permissions EventImplementationPlanRevoked p = [''project.implementation.revoke'']"
| "event_permissions EventPreparationStarted p = [''project.implementation.plan'']"
| "event_permissions EventPreparationRevoked p = [''project.implementation.revoke'']"
| "event_permissions EventSpecialMethodReviewed p = [''project.special_method.review'']"
| "event_permissions EventEquipmentReturned p = [''project.implementation.plan'', ''project.device.manage'']"
| "event_permissions EventFieldStarted p = [''project.field.execute'']"
| "event_permissions EventFieldRecordSubmitted p = [''project.field.execute'']"
| "event_permissions EventFieldSignatureCaptured p = [''project.field.execute'']"
| "event_permissions EventDeviationReported p = [''project.deviation.report'']"
| "event_permissions EventDeviationReviewed p = [''project.deviation.review'']"
| "event_permissions EventFieldCompleted p = [''project.field.complete'']"
| "event_permissions EventRollbackRequested p = [''project.rollback.request'']"
| "event_permissions EventRollbackWithdrawn p = [''project.rollback.request'']"
| "event_permissions EventRollbackApproved p = [''project.rollback.approve'']"
| "event_permissions EventRollbackRejected p = [''project.rollback.approve'']"
| "event_permissions EventReportStatusUpdated p = [reportPhasePermission (raw_string p ''phase'')]"
| "event_permissions EventReportCorrectionRequested p = [''project.report.correction.request'']"
| "event_permissions EventReportCorrectionApproved p = [''project.report.correction.approve'']"
| "event_permissions EventReportCorrectionRejected p = [''project.report.correction.approve'']"
| "event_permissions _ p = []"

text \<open>The files a payload names as evidence.\<close>

definition evidence_of :: "payload \<Rightarrow> artifact list" where
  "evidence_of p =
     (case jsonBytes p ''evidence_files'' of
        None \<Rightarrow> []
      | Some v \<Rightarrow> (case json_list decode_artifact v of Some as \<Rightarrow> as | None \<Rightarrow> []))"

definition issued :: "request \<Rightarrow> delivery_event \<Rightarrow> bool" where
  "issued q event \<longleftrightarrow>
     de_id event = cl_event (rq_call q) \<and> de_actor event = pn_user (cl_user (rq_call q)) \<and>
     de_tenant event = pn_tenant (cl_user (rq_call q)) \<and>
     list_ex (Has (cl_user (rq_call q))) (event_permissions (de_type event) (de_payload event)) \<and>
     (if de_type event = EventDeviationReviewed then evidence_of (de_payload event) = []
      else de_item event = rq_item q) \<and>
     list_all (confirmed (rq_files q) (de_tenant event) (de_item event)) (evidence_of (de_payload event))"

lemma issued_admissible: "issued q event \<Longrightarrow> admissible_event event"
  by (auto simp: issued_def admissible_event_def)

lemma issued_plain:
  assumes "list_ex (Has (cl_user c)) (event_permissions ty p)" and "evidence_of p = []"
    and "c = rq_call q" and "ty \<noteq> EventDeviationReviewed \<longrightarrow> item = rq_item q"
  shows "issued q (deliveryEvent c project item ty p)"
  using assms by (auto simp: issued_def)

lemma no_evidence: "\<not> List.member (map fst p) ''evidence_files'' \<Longrightarrow> evidence_of p = []"
  using map_of_eq_None_iff [of p "''evidence_files''"] by (simp add: evidence_of_def jsonBytes_def)

lemma encoded_evidence [simp]: "those (map (decode_artifact \<circ> encode_artifact) as) = Some as"
  by (simp add: comp_def)

lemma authorizeServiceItem_Has:
  "authorizeServiceItem env p permission item s = Inr u \<Longrightarrow> Has p permission"
  by (auto simp: authorizeServiceItem_def res_simps authorized)


definition applies :: "env \<Rightarrow> request \<Rightarrow> store \<Rightarrow> store \<Rightarrow> bool" where
  "applies env q s t \<longleftrightarrow> (\<exists>event. issued q event \<and> applyEvent env (rq_call q) event s = Inr t)"

lemma appliesI:
  assumes "applyEvent env (rq_call q) (deliveryEvent (rq_call q) project item ty p) s = Inr t"
    and "list_ex (Has (cl_user (rq_call q))) (event_permissions ty p)" and "evidence_of p = []"
    and "ty = EventDeviationReviewed \<or> item = rq_item q"
  shows "applies env q s t"
  using assms issued_plain unfolding applies_def by blast

lemmas command_simps =
  res_simps Let_def authorized authorizeServiceItem_def version_entry_def evidence_of_def jsonBytes_def

lemma team_commands:
  "AssignTeam env pe (rq_call q) (rq_item q) lead v s = Inr t \<Longrightarrow> applies env q s t"
  "RevokeTeamAssignment env (rq_call q) (rq_item q) reason v s = Inr t \<Longrightarrow> applies env q s t"
  "RevokeExecutionAssignment env (rq_call q) (rq_item q) reason v s = Inr t \<Longrightarrow> applies env q s t"
  "AssignExecutionTeam env pe (rq_call q) (rq_item q) input s = Inr (conflicts, t) \<Longrightarrow> applies env q s t"
  subgoal by (auto simp: AssignTeam_def command_simps split: option.splits intro!: appliesI)
  subgoal by (auto simp: RevokeTeamAssignment_def command_simps intro!: appliesI)
  subgoal by (auto simp: RevokeExecutionAssignment_def command_simps intro!: appliesI)
  subgoal by (erule AssignExecutionTeamE) (auto simp: authorized execution_payload_def version_entry_def
        evidence_of_def jsonBytes_def intro!: appliesI)
  done

lemma plan_commands:
  "PlanImplementation env (rq_call q) (rq_item q) plan s = Inr t \<Longrightarrow> applies env q s t"
  "RevokeImplementationPlan env (rq_call q) (rq_item q) reason v s = Inr t \<Longrightarrow> applies env q s t"
  "RevokePreparation env (rq_call q) (rq_item q) reason v s = Inr t \<Longrightarrow> applies env q s t"
  "ReviewSpecialMethod env (rq_call q) (rq_item q) decision comment s = Inr t \<Longrightarrow> applies env q s t"
  "ReturnEquipment env (rq_call q) (rq_item q) resource s = Inr t \<Longrightarrow> applies env q s t"
  "StartPreparation env (rq_call q) (rq_item q) preparation s = Inr t \<Longrightarrow> applies env q s t"
  subgoal by (auto simp: PlanImplementation_def plan_payload_def command_simps intro!: appliesI)
  subgoal by (auto simp: RevokeImplementationPlan_def revoke_step_def command_simps intro!: appliesI)
  subgoal by (auto simp: RevokePreparation_def revoke_step_def command_simps intro!: appliesI)
  subgoal by (auto simp: ReviewSpecialMethod_def command_simps intro!: appliesI)
  subgoal by (auto simp: ReturnEquipment_def any_authorized command_simps simp del: authorizeAnyProjectScope.simps
        intro!: appliesI)
  subgoal by (auto simp: StartPreparation_def command_simps intro!: appliesI)
  done

lemma field_evidence_of [simp]:
  "evidence_of (de_payload (fieldDeliveryEvent c item ty p operation captured)) = evidence_of p"
  by (simp add: fieldDeliveryEvent_def evidence_of_def jsonBytes_def map_add_def split: option.splits)

lemma field_appliesI:
  assumes "applyEvent env (rq_call q)
      (fieldDeliveryEvent (rq_call q) (rq_item q) ty p operation captured) s = Inr t"
    and "Has (cl_user (rq_call q)) ''project.field.execute''"
    and "ty = EventFieldRecordSubmitted \<or> ty = EventFieldSignatureCaptured"
    and "list_all (confirmed (rq_files q) (pn_tenant (cl_user (rq_call q))) (rq_item q)) (evidence_of p)"
  shows "applies env q s t"
  unfolding applies_def using assms
  by (intro exI [of _ "fieldDeliveryEvent (rq_call q) (rq_item q) ty p operation captured"])
     (auto simp: issued_def)

lemma field_commands:
  "SubmitFieldRecord env (rq_files q) (rq_call q) (rq_item q) record_input s = Inr t \<Longrightarrow> applies env q s t"
  "CaptureFieldSignature env (rq_files q) (rq_call q) (rq_item q) signature s = Inr t \<Longrightarrow> applies env q s t"
  "StartFieldExecution env (rq_call q) (rq_item q) v s = Inr t \<Longrightarrow> applies env q s t"
  "CompleteServiceItemField env mode (rq_call q) (rq_item q) reason v s = Inr t \<Longrightarrow> applies env q s t"
  subgoal by (auto simp: SubmitFieldRecord_def command_simps dest: verified_files_confirmed intro!: field_appliesI)
  subgoal by (auto simp: CaptureFieldSignature_def command_simps verified_is_confirmed dest: normal_receipt
        intro!: field_appliesI)
  subgoal by (auto simp: StartFieldExecution_def command_simps intro!: appliesI)
  subgoal by (erule CompleteServiceItemFieldE, rule appliesI, assumption)
      (auto simp: authorized evidence_of_def jsonBytes_def version_entry_def dest!: completion_keys)
  done

lemma deviation_commands:
  "ReportDeviation env (rq_files q) (rq_call q) (rq_item q) deviation s = Inr (i, t) \<Longrightarrow> applies env q s t"
  "ReviewDeviation env (rq_call q) reviewed decision comment s = Inr t \<Longrightarrow> applies env q s t"
proof -
  assume "ReportDeviation env (rq_files q) (rq_call q) (rq_item q) deviation s = Inr (i, t)"
  then obtain evidence where h: "Has (cl_user (rq_call q)) ''project.deviation.report''"
    and e: "deviation_files (rq_files q) (cl_user (rq_call q)) (rq_item q) (vi_files deviation) = Inr evidence"
    and a: "applyEvent env (rq_call q) (deliveryEvent (rq_call q) [] (rq_item q) EventDeviationReported
      [(''deviation_id'', JStr (''DV-'' @ cl_fresh (rq_call q))), (''description'', JStr (vi_description deviation)),
       (''severity'', JStr (vi_severity deviation)), (''evidence_files'', evidence),
       (''decision'', JStr ''PENDING'')]) s = Inr t"
    by (auto simp: ReportDeviation_def res_simps Let_def authorized authorizeServiceItem_def)
  from e have "list_all (confirmed (rq_files q) (pn_tenant (cl_user (rq_call q))) (rq_item q))
      (evidence_of [(''deviation_id'', JStr (''DV-'' @ cl_fresh (rq_call q))),
        (''description'', JStr (vi_description deviation)), (''severity'', JStr (vi_severity deviation)),
        (''evidence_files'', evidence), (''decision'', JStr ''PENDING'')])"
    by (auto simp: deviation_files_def res_simps evidence_of_def jsonBytes_def
        dest: verified_files_confirmed split: option.split_asm)
  with a h show "applies env q s t"
    unfolding applies_def by (intro exI conjI) (auto simp: issued_def)
next
  assume "ReviewDeviation env (rq_call q) reviewed decision comment s = Inr t"
  then show "applies env q s t"
    by (auto simp: ReviewDeviation_def command_simps split: if_split_asm intro!: appliesI)
qed

lemma request_commands:
  "RequestRollback env (rq_call q) (rq_item q) kind reason v s = Inr (i, t) \<Longrightarrow> applies env q s t"
  "DecideRollback env (rq_call q) (rq_item q) request decision comment v s = Inr t \<Longrightarrow> applies env q s t"
  "WithdrawRollback env (rq_call q) (rq_item q) request reason s = Inr t \<Longrightarrow> applies env q s t"
  "RequestReportCorrection env (rq_call q) (rq_item q) reason v s = Inr (i, t) \<Longrightarrow> applies env q s t"
  "DecideReportCorrection env (rq_call q) (rq_item q) request decision comment v s = Inr t \<Longrightarrow> applies env q s t"
  "UpdateReportStatus env (rq_files q) (rq_call q) (rq_item q) phase v s = Inr t \<Longrightarrow> applies env q s t"
  subgoal by (auto simp: RequestRollback_def command_simps intro!: appliesI)
  subgoal by (auto simp: DecideRollback_def command_simps split: if_split_asm intro!: appliesI)
  subgoal by (auto simp: WithdrawRollback_def command_simps intro!: appliesI)
  subgoal by (auto simp: RequestReportCorrection_def command_simps intro!: appliesI)
  subgoal by (auto simp: DecideReportCorrection_def command_simps split: if_split_asm intro!: appliesI)
  subgoal by (auto simp: UpdateReportStatus_def command_simps raw_string_def intro!: appliesI)
  done

lemma perform_applies:
  assumes "perform env mode q s = Inr t"
  shows "applies env q s t \<or>
    (\<exists>revision a. RegisterReportArtifact (pn_tenant (cl_user (rq_call q))) (rq_item q) revision a
        (cl_now (rq_call q)) s = Inr t \<and>
      confirmed (rq_files q) (pn_tenant (cl_user (rq_call q))) (rq_item q) a)"
  using assms unfolding perform_def
  by (cases "rq_command q")
     (auto simp: written_def res_simps Service_RegisterReportArtifact_def
       dest: team_commands plan_commands field_commands deviation_commands request_commands
             normal_receipt verified_is_confirmed)

section \<open>Runs\<close>

lemma perform_history:
  assumes "perform env mode q s = Inr t"
  shows "\<exists>es. st_events t = st_events s @ es \<and> (\<forall>e \<in> set es. \<exists>event. issued q event \<and> recorded_as event e)"
  using perform_applies [OF assms]
proof (elim disjE exE conjE)
  assume "applies env q s t"
  then obtain event where "issued q event" and a: "applyEvent env (rq_call q) event s = Inr t"
    by (auto simp: applies_def)
  from a show ?thesis
  proof (cases rule: applyEvent_cases)
    case (2 e)
    with \<open>issued q event\<close> show ?thesis by auto
  qed simp
next
  fix revision a
  assume "RegisterReportArtifact (pn_tenant (cl_user (rq_call q))) (rq_item q) revision a (cl_now (rq_call q)) s = Inr t"
  then have "st_events t = st_events s"
    using other_transactions_events [of env "TReportFile (pn_tenant (cl_user (rq_call q))) (rq_item q) revision a
      (cl_now (rq_call q))" s t] by simp
  then show ?thesis by auto
qed

lemma run_history_issued:
  "\<exists>es. st_events (run_all (perform env mode) qs s) = st_events s @ es \<and>
     (\<forall>e \<in> set es. \<exists>q \<in> set qs. \<exists>event. issued q event \<and> recorded_as event e)"
proof (induction qs arbitrary: s)
  case (Cons q qs)
  show ?case
  proof (cases "perform env mode q s")
    case (Inl x)
    with Cons.IH [of s] show ?thesis by auto
  next
    case (Inr t)
    obtain es where es: "st_events t = st_events s @ es"
      "\<forall>e \<in> set es. \<exists>event. issued q event \<and> recorded_as event e"
      using perform_history [OF Inr] by blast
    obtain es' where es': "st_events (run_all (perform env mode) qs t) = st_events t @ es'"
      "\<forall>e \<in> set es'. \<exists>q \<in> set qs. \<exists>event. issued q event \<and> recorded_as event e"
      using Cons.IH [of t] by blast
    show ?thesis
      by (rule exI [of _ "es @ es'"]) (use Inr es es' in auto)
  qed
qed simp

lemma new_event_issued:
  assumes "e \<in> set (drop (length (st_events s)) (st_events (run_all (perform env mode) qs s)))"
  obtains q event where "q \<in> set qs" "issued q event" "recorded_as event e"
proof -
  obtain es where "st_events (run_all (perform env mode) qs s) = st_events s @ es"
    and "\<forall>e \<in> set es. \<exists>q \<in> set qs. \<exists>event. issued q event \<and> recorded_as event e"
    using run_history_issued by blast
  with assms that show ?thesis by auto
qed

lemma perform_transaction:
  assumes "perform env mode q s = Inr t"
  shows "t = s \<or> (\<exists>tr. admissible tr \<and> execute env tr s = Inr t)"
  using perform_applies [OF assms]
proof (elim disjE exE conjE)
  assume "applies env q s t"
  then obtain event where i: "issued q event" and a: "applyEvent env (rq_call q) event s = Inr t"
    by (auto simp: applies_def)
  from a show ?thesis
  proof (cases rule: applyEvent_cases)
    case (2 e)
    moreover have "admissible_event (attachNotification env (rq_call q) s event)"
      using issued_admissible [OF i] by (simp add: admissible_event_def decomposition_ok_def)
    ultimately show ?thesis
      by (intro disjI2 exI [of _ "TEvent (attachNotification env (rq_call q) s event)"]) simp
  qed simp
next
  fix revision a
  assume "RegisterReportArtifact (pn_tenant (cl_user (rq_call q))) (rq_item q) revision a (cl_now (rq_call q)) s = Inr t"
  then show ?thesis
    by (intro disjI2 exI [of _ "TReportFile (pn_tenant (cl_user (rq_call q))) (rq_item q) revision a
      (cl_now (rq_call q))"]) simp
qed

interpretation service: transactional "perform env mode" "\<lambda>_. True" "delivery_inv env" for env mode
  by unfold_locales (metis perform_transaction execute_preserves)

end
