(* ===== verification/CommandProps.thy ===== *)
theory CommandProps
  imports CommandRuns RecipientProps
begin

text \<open>
  The properties of the commands of the service.
\<close>

section \<open>Completion\<close>

text \<open>
  Only the repetition of an operation of a device is answered as applied before. The errors of the
  two events of this theory are others.
\<close>

definition plain_event :: "delivery_event \<Rightarrow> bool" where
  "plain_event event \<longleftrightarrow> de_operation event = [] \<and>
     (de_type event = EventFieldCompleted \<or> de_type event = EventExecutionTeamAssigned)"

lemma completion_gate_error: "validatePenetrationFieldCompletionGate s item = Inl e \<Longrightarrow> e = ErrPrecondition"
  by (auto simp: validatePenetrationFieldCompletionGate_def penetrationFieldCompletionGate_def
      split: option.split_asm if_split_asm)

lemma plain_item_error:
  assumes "applyItemEvent env item event s = Inl e" and "plain_event event"
  shows "e \<noteq> ErrAlreadyApplied"
  using assms
  by (auto simp: plain_event_def applyItemEvent_def guardNativeScopeMutation_def ensureNoPendingNativeScope_def
      res_simps Let_def field_completed_def execution_assigned_def ensureReportRevision_def insert_revision_def
      write_item_def dest: completion_gate_error split: option.split_asm if_split_asm)

lemma plain_project_error:
  assumes "project_part env event s = Inl e" and "plain_event event"
  shows "e \<noteq> ErrAlreadyApplied"
  using assms
  by (auto simp: plain_event_def project_part_def applyProjectEvent_def ensureNoPendingNativeScope_def
      syncProjectStatusColumn_def res_simps Let_def split: option.split_asm if_split_asm)

lemma createEvent_error: "createEvent env event s = Inl e \<Longrightarrow> e \<noteq> ErrAlreadyApplied"
  by (auto simp: createEvent_def createDeliveryEffects_def res_simps Let_def split: if_split_asm)

lemma notification_error: "createNotificationOutbox event s = Inl e \<Longrightarrow> e \<noteq> ErrAlreadyApplied"
  by (auto simp: createNotificationOutbox_def Let_def split: option.split_asm if_split_asm)

lemma package_error:
  "ensureEmbeddedPenetrationPackage env item actor key now s = Inl e \<Longrightarrow> e \<noteq> ErrAlreadyApplied"
  by (auto simp: ensureEmbeddedPenetrationPackage_def createPenetrationEvent_def Let_def split: if_split_asm)

lemma plain_item_part_error:
  assumes "item_part env event s = Inl e" and "plain_event event"
  shows "e \<noteq> ErrAlreadyApplied"
proof -
  have "plain_event (event\<lparr>de_project := p\<rparr>)" for p using assms(2) by (simp add: plain_event_def)
  then show ?thesis
    using assms
    by (auto simp: item_part_def replay_check_def plain_event_def res_simps Let_def
        split: option.split_asm if_split_asm dest: plain_item_error package_error)
qed

lemma plain_not_replayed:
  assumes "plain_event event"
  shows "ApplyDeliveryEvent env event s \<noteq> Inl ErrAlreadyApplied"
proof
  assume "ApplyDeliveryEvent env event s = Inl ErrAlreadyApplied"
  then have "\<exists>e'. item_part env event s = Inl ErrAlreadyApplied \<or>
      (\<exists>s'. item_part env event s = Inr (e', s') \<and>
        (project_part env e' s' = Inl ErrAlreadyApplied \<or>
         (\<exists>u. createEvent env e' u = Inl ErrAlreadyApplied \<or>
           (\<exists>v. createNotificationOutbox e' v = Inl ErrAlreadyApplied))))"
    using assms
    by (auto simp: plain_event_def ApplyDeliveryEvent_def supplement_check_def direct_review_def res_simps)
  moreover have "plain_event e'" if "item_part env event s = Inr (e', s')" for e' s'
    using item_part_event [OF that] assms by (auto simp: plain_event_def)
  ultimately show False
    using assms plain_item_part_error plain_project_error createEvent_error notification_error by blast
qed

lemma plain_recorded:
  assumes "applyEvent env c event s = Inr t" and "plain_event event"
  obtains e where "st_events t = st_events s @ [e]" "recorded_as event e"
  using assms(1)
proof (cases rule: applyEvent_cases)
  case 1
  have "plain_event (attachNotification env c s event)" using assms(2) by (simp add: plain_event_def)
  with 1(2) show ?thesis using plain_not_replayed by blast
qed (use that in blast)

lemma recorded_payload: "recorded_as event e \<Longrightarrow> er_payload e = de_payload event \<and> er_type e = de_type event"
  by (simp add: recorded_as_def)

text \<open>
  A completion tells the truth about the evidence. Where the gate is enforced, a completion that
  is accepted is recorded with the gaps of the event stream of the item as the caller may read it,
  says that the evidence is complete exactly when an event of each of the three kinds is in it, and
  carries a reason exactly when something is missing.
\<close>

theorem completion_tells_the_truth:
  assumes "CompleteServiceItemField env mode c item reason v s = Inr t" and "gate_policy mode = ''ENFORCE''"
  shows "\<exists>e f events. st_events t = st_events s @ [e] \<and> er_type e = EventFieldCompleted \<and>
    ProjectScopeFilter (cl_user c) = Some f \<and> ListServiceItemDeliveryEvents env f item s = Inr events \<and>
    map_of (er_payload e) ''gaps'' = Some (JStrs (map (event_name \<circ> fst) (missing_requirements events))) \<and>
    map_of (er_payload e) ''evidence_complete'' = Some (JBool (missing_requirements events = [])) \<and>
    (missing_requirements events = [] \<longleftrightarrow>
       (\<forall>ty \<in> {EventFieldCheckedIn, EventFieldRecordSubmitted, EventFieldSignatureCaptured}.
          \<exists>x \<in> set events. er_type x = ty)) \<and>
    (stringValue (er_payload e) ''incomplete_reason'' = [] \<longleftrightarrow> missing_requirements events = [])"
proof -
  from assms(1) obtain f p where f: "ProjectScopeFilter (cl_user c) = Some f"
    and p: "completion_evidence mode (serviceItemFieldEvidence env mode f item s) (trim_space reason) = Inr p"
    and a: "applyEvent env c (deliveryEvent c [] item EventFieldCompleted
       ([(''confirmed_by'', JStr (pn_user (cl_user c))), (''incomplete_reason'', JStr (trim_space reason)),
         version_entry v] @ p)) s = Inr t"
    by (rule CompleteServiceItemFieldE) (simp add: authorized)
  from p assms(2) obtain events where events: "ListServiceItemDeliveryEvents env f item s = Inr events"
    and g: "requireFieldEvidenceReason ''ENFORCE'' (judged_evidence mode item events) (trim_space reason) = Inr ()"
    and pe: "p = evidence_payload (judged_evidence mode item events)"
    by (auto simp: completion_evidence_def serviceItemFieldEvidence_def res_simps split: sum.split_asm)
  have "(trim_space reason = []) = (missing_requirements events = [])"
    using g by (auto simp: requireFieldEvidenceReason_def judged_evidence_def Let_def split: if_split_asm)
  moreover have "missing_requirements events = [] \<longleftrightarrow>
      (\<forall>ty \<in> {EventFieldCheckedIn, EventFieldRecordSubmitted, EventFieldSignatureCaptured}.
         \<exists>x \<in> set events. er_type x = ty)"
    by (auto simp: missing_requirements_def fieldEvidenceRequirements_def list_ex_iff)
  moreover from a obtain e where "st_events t = st_events s @ [e]" and
    "recorded_as (deliveryEvent c [] item EventFieldCompleted
       ([(''confirmed_by'', JStr (pn_user (cl_user c))), (''incomplete_reason'', JStr (trim_space reason)),
         version_entry v] @ p)) e"
    by (rule plain_recorded) (simp add: plain_event_def)
  ultimately show ?thesis
    using f events pe
    by (intro exI [of _ e] exI [of _ f] exI [of _ events])
       (simp add: recorded_as_def evidence_payload_def judged_evidence_def Let_def version_entry_def
          stringValue_def raw_string_def)
qed

section \<open>Assignments\<close>

lemma qualified_person:
  assumes "qualifiedUserID candidate (FindCapabilities s tenant ids) = Some u"
  shows "\<exists>cap \<in> set (st_capabilities s). cp_tenant cap = tenant \<and> cp_type cap = ''PERSON'' \<and>
    cp_status cap = ''ACTIVE'' \<and> cp_identity cap = ''ACTIVE'' \<and> trim_space (cp_user cap) = u \<and> u \<noteq> []"
  using assms by (auto simp: qualifiedUserID_def FindCapabilities_def dest!: find_spec)

lemma canonical_people:
  "canonical_ids (FindCapabilities s tenant ids) is = Inr us \<Longrightarrow> u \<in> set us \<Longrightarrow>
   \<exists>cap \<in> set (st_capabilities s). cp_tenant cap = tenant \<and> cp_type cap = ''PERSON'' \<and>
     cp_status cap = ''ACTIVE'' \<and> cp_identity cap = ''ACTIVE'' \<and> trim_space (cp_user cap) = u \<and> u \<noteq> []"
proof (induction "is" arbitrary: us)
  case (Cons i "is")
  then show ?case
    using qualified_person by (fastforce simp: res_simps split: option.split_asm)
qed simp

lemma canonical_length: "canonical_ids caps is = Inr us \<Longrightarrow> length us = length is"
  by (induction "is" arbitrary: us) (auto simp: res_simps split: option.split_asm)

lemma normal_code_kept:
  "code \<in> set codes \<Longrightarrow> normalizeCapabilityCode code \<noteq> [] \<Longrightarrow>
   normalizeCapabilityCode code \<in> set (normalizeCapabilityCodes codes)"
  by (simp add: normalizeCapabilityCodes_def)

lemma required_kept:
  assumes "code \<in> set (column_strs (it_codes existing))" and "normalizeCapabilityCode code \<noteq> []"
  shows "normalizeCapabilityCode code \<in> set (required_codes existing listed extra)"
proof -
  have 1: "normalizeCapabilityCode code \<in> set (normalizeCapabilityCodes (column_strs (it_codes existing) @ extra))"
    using assms by (intro normal_code_kept) auto
  then show ?thesis
    using normal_code_kept [of "normalizeCapabilityCode code"
        "normalizeCapabilityCodes (column_strs (it_codes existing) @ extra) @ [''PENETRATION_TEST'']"] assms(2)
    by (simp add: required_codes_def Let_def)
qed

lemma passed_codes:
  assumes "checkCapabilities required resources (FindCapabilities s tenant ids) = []" and "code \<in> set required"
  shows "\<exists>cap \<in> set (st_capabilities s). cp_tenant cap = tenant \<and>
    (cp_resource cap \<in> set ids \<or> cp_user cap \<in> set ids) \<and> code \<in> set (cp_codes cap)"
proof -
  have "code \<in> set (covered_codes (FindCapabilities s tenant ids))"
    using assms by (auto simp: checkCapabilities_def filter_empty_conv)
  then show ?thesis by (auto simp: covered_codes_def FindCapabilities_def)
qed

text \<open>
  C39. Only qualified people are assigned. An accepted assignment is recorded with user identifiers,
  not archive numbers; each is of an active person of the tenant whose platform identity is active;
  the manager and the engineers hold the roles the directory gives; and an assignment is recorded as
  free of conflicts only if every code the item requires is one of somebody assigned, whatever codes
  the client sent.
\<close>

theorem only_qualified_people_are_assigned:
  assumes "AssignExecutionTeam env pe c item input s = Inr (conflicts, t)"
  shows "\<exists>e f existing manager users managers engineers.
    st_events t = st_events s @ [e] \<and> er_type e = EventExecutionTeamAssigned \<and>
    ProjectScopeFilter (cl_user c) = Some f \<and> GetServiceItem env f item s = Inr existing \<and>
    map_of (er_payload e) ''project_manager_id'' = Some (JStr manager) \<and>
    map_of (er_payload e) ''engineer_ids'' = Some (JStrs users) \<and>
    length users = length (normalizePersonnelIDs (xa_engineers input)) \<and>
    assignmentRoleUserIDs pe ''project_manager'' = Inr managers \<and> manager \<in> set managers \<and>
    assignmentRoleUserIDs pe ''engineer'' = Inr engineers \<and> set users \<subseteq> set engineers \<and>
    (\<forall>u \<in> set (manager # users). \<exists>cap \<in> set (st_capabilities s).
       cp_tenant cap = pn_tenant (cl_user c) \<and> cp_type cap = ''PERSON'' \<and> cp_status cap = ''ACTIVE'' \<and>
       cp_identity cap = ''ACTIVE'' \<and> trim_space (cp_user cap) = u \<and> u \<noteq> []) \<and>
    map_of (er_payload e) ''conflict_status'' =
      Some (JStr (if conflicts = [] then ''PASSED'' else ''CONFLICT'')) \<and>
    (conflicts = [] \<longrightarrow>
       (\<forall>code \<in> set (column_strs (it_codes existing)). normalizeCapabilityCode code \<noteq> [] \<longrightarrow>
          (\<exists>cap \<in> set (st_capabilities s). cp_tenant cap = pn_tenant (cl_user c) \<and>
             (cp_resource cap \<in> set (normalizePersonnelIDs (xa_engineers input)) \<or>
              cp_user cap \<in> set (normalizePersonnelIDs (xa_engineers input))) \<and>
             normalizeCapabilityCode code \<in> set (cp_codes cap))))"
proof -
  let ?t = "pn_tenant (cl_user c)" and ?es = "normalizePersonnelIDs (xa_engineers input)"
  from assms obtain f existing listed manager users where
    f: "ProjectScopeFilter (cl_user c) = Some f" and i: "GetServiceItem env f item s = Inr existing"
    and p: "assigned_people pe (FindCapabilities s ?t ?es) (FindCapabilities s ?t [trim_space (xa_manager input)])
       (trim_space (xa_manager input)) ?es = Inr (manager, users)"
    and con: "conflicts = checkCapabilities (required_codes existing listed (xa_codes input)) ?es (FindCapabilities s ?t ?es)"
    and a: "applyEvent env c (deliveryEvent c [] item EventExecutionTeamAssigned
       (execution_payload manager users (required_codes existing listed (xa_codes input)) conflicts
          (xa_version input))) s = Inr t"
    by (rule AssignExecutionTeamE) (simp add: authorized)
  from p obtain managers engineers where m: "qualifiedUserID (trim_space (xa_manager input))
        (FindCapabilities s ?t [trim_space (xa_manager input)]) = Some manager"
    and us: "canonical_ids (FindCapabilities s ?t ?es) ?es = Inr users"
    and r: "assignmentRoleUserIDs pe ''project_manager'' = Inr managers" "manager \<in> set managers"
      "assignmentRoleUserIDs pe ''engineer'' = Inr engineers" "set users \<subseteq> set engineers"
    by (auto simp: assigned_people_def res_simps list_all_iff split: option.split_asm if_split_asm)
  from a obtain e where e: "st_events t = st_events s @ [e]" "recorded_as (deliveryEvent c [] item
      EventExecutionTeamAssigned (execution_payload manager users
        (required_codes existing listed (xa_codes input)) conflicts (xa_version input))) e"
    by (rule plain_recorded) (simp add: plain_event_def)
  have people: "\<forall>u \<in> set (manager # users). \<exists>cap \<in> set (st_capabilities s).
       cp_tenant cap = ?t \<and> cp_type cap = ''PERSON'' \<and> cp_status cap = ''ACTIVE'' \<and>
       cp_identity cap = ''ACTIVE'' \<and> trim_space (cp_user cap) = u \<and> u \<noteq> []"
    using qualified_person [OF m] canonical_people [OF us] by simp
  have codes: "\<exists>cap \<in> set (st_capabilities s). cp_tenant cap = ?t \<and>
      (cp_resource cap \<in> set ?es \<or> cp_user cap \<in> set ?es) \<and> normalizeCapabilityCode code \<in> set (cp_codes cap)"
    if "conflicts = []" "code \<in> set (column_strs (it_codes existing))" "normalizeCapabilityCode code \<noteq> []" for code
    using passed_codes [OF con [symmetric, unfolded that(1)] required_kept [OF that(2,3)]] .
  from e have pay: "er_type e = EventExecutionTeamAssigned"
    "map_of (er_payload e) ''project_manager_id'' = Some (JStr manager)"
    "map_of (er_payload e) ''engineer_ids'' = Some (JStrs users)"
    "map_of (er_payload e) ''conflict_status'' = Some (JStr (if conflicts = [] then ''PASSED'' else ''CONFLICT''))"
    by (simp_all add: recorded_as_def execution_payload_def)
  show ?thesis
    using e(1) pay f i canonical_length [OF us] r people codes by blast
qed

section \<open>Events\<close>

text \<open>
  C37. Nobody acts without the permission. In every run of commands, whatever their order, each event
  the run adds is recorded under the user and the tenant of the caller of one of its requests, who
  holds a permission for this very type of event (for a report: for the phase it moves to).
\<close>

theorem events_have_authorised_authors:
  assumes "e \<in> set (drop (length (st_events s)) (st_events (run_all (perform env mode) qs s)))"
  shows "\<exists>q \<in> set qs. er_actor e = pn_user (cl_user (rq_call q)) \<and> er_tenant e = pn_tenant (cl_user (rq_call q)) \<and>
    list_ex (Has (cl_user (rq_call q))) (event_permissions (er_type e) (er_payload e))"
  using assms by (rule new_event_issued) (auto simp: issued_def recorded_as_def)

text \<open>
  C38. Files in events were confirmed. In every run of commands, each file an event names as evidence
  was confirmed by the file gateway for this very item during the request that wrote the event: it is
  a file of the application and of the tenant, available and bound to the item, with the size and the
  digest the event states.
\<close>

theorem files_in_events_were_confirmed:
  assumes "e \<in> set (drop (length (st_events s)) (st_events (run_all (perform env mode) qs s)))"
    and "a \<in> set (evidence_of (er_payload e))"
  shows "\<exists>q \<in> set qs. er_id e = cl_event (rq_call q) \<and> confirmed (rq_files q) (er_tenant e) (er_item e) a"
  using assms(1)
proof (rule new_event_issued)
  fix q event
  assume "q \<in> set qs" "issued q event" "recorded_as event e"
  with assms(2) show ?thesis
    by (intro bexI [of _ q]) (auto simp: issued_def recorded_as_def list_all_iff split: if_split_asm)
qed

text \<open>
  The commands do what the transactions do. The state a run of commands reaches is one that a
  run of admissible transactions of the store reaches, of at most as many; so what holds after every
  such run (four eyes, one report in force, decisions by another person) holds
  after every run of commands.
\<close>

theorem commands_refine_transactions:
  "\<exists>trs. list_all admissible trs \<and> length trs \<le> length qs \<and>
     run_all (execute env) trs s = run_all (perform env mode) qs s"
proof (induction qs arbitrary: s)
  case (Cons q qs)
  define u where "u = (case perform env mode q s of Inl _ \<Rightarrow> s | Inr t \<Rightarrow> t)"
  obtain trs where trs: "list_all admissible trs" "length trs \<le> length qs"
    "run_all (execute env) trs u = run_all (perform env mode) qs u"
    using Cons.IH by blast
  have "u = s \<or> (\<exists>tr. admissible tr \<and> execute env tr s = Inr u)"
    using perform_transaction by (auto simp: u_def split: sum.split)
  then show ?case
  proof (elim disjE exE conjE)
    fix tr assume "admissible tr" "execute env tr s = Inr u"
    with trs show ?thesis by (intro exI [of _ "tr # trs"]) (simp add: u_def)
  qed (use trs in \<open>auto simp: u_def intro!: exI [of _ trs]\<close>)
qed (intro exI [of _ "[]"], simp)

section \<open>Searches that end\<close>

text \<open>The pages of a role are enough once they cover the total the directory gives.\<close>

lemma role_pages_suffice:
  assumes "\<And>p. \<exists>r. directory role p = Some r \<and> dp_total r \<le> int (k * assignmentRoleDirectorySize)"
    and "0 < n" and "k < page + n"
  shows "\<exists>us. role_page_users directory role n page allowed = Inr us"
  using assms(2,3)
proof (induction n arbitrary: page allowed)
  case (Suc n)
  obtain r where r: "directory role page = Some r" "dp_total r \<le> int (k * assignmentRoleDirectorySize)"
    using assms(1) by blast
  show ?case
  proof (cases "k \<le> page")
    case True
    then have "k * assignmentRoleDirectorySize \<le> page * assignmentRoleDirectorySize" by simp
    with r(2) have "dp_total r \<le> int (page * assignmentRoleDirectorySize)" by linarith
    with r(1) show ?thesis by simp
  next
    case False
    with Suc.prems have "0 < n" "k < Suc page + n" by auto
    with Suc.IH r(1) show ?thesis by (simp add: Let_def)
  qed
qed simp

lemma numbered_id_inject:
  assumes "0 \<le> a" and "0 \<le> b" and "numbered_id prefix a = numbered_id prefix b"
  shows "a = b"
proof -
  let ?pad = "\<lambda>n::int. replicate (4 - length (show_nat (nat n))) CHR ''0'' @ show_nat (nat n)"
  have "?pad a = ?pad b" using assms by (simp add: numbered_id_def Let_def)
  then have "digits_val 0 (?pad a) = digits_val 0 (?pad b)" by simp
  with assms(1,2) show ?thesis by (simp add: digits_val_zeros digits_val_show)
qed

lemma max_number_nonneg: "0 \<le> max_number prefix items"
proof -
  have "0 \<le> best \<Longrightarrow> 0 \<le> fold (\<lambda>cap best.
         if take (length prefix) (cp_resource cap) \<noteq> prefix then best
         else case Atoi (trim_prefix prefix (cp_resource cap)) of
           None \<Rightarrow> best | Some n \<Rightarrow> if best < n then n else best) items best" for best :: int
    by (induction items arbitrary: best) (auto split: option.split)
  then show ?thesis by (simp add: max_number_def)
qed

lemma free_id_None:
  assumes "free_id k used prefix n = None" and "0 \<le> n" and "n + int k \<le> max_int64"
  shows "\<forall>j \<in> {1..k}. numbered_id prefix (n + int j) \<in> set used"
  using assms
proof (induction k arbitrary: n)
  case (Suc k)
  then have w: "wrap_int (n + 1) = n + 1" by (intro wrap_int_small) (simp_all add: max_int64_def)
  with Suc.prems(1) have used: "numbered_id prefix (n + 1) \<in> set used"
    and rest: "free_id k used prefix (n + 1) = None" by (auto simp: Let_def split: if_split_asm)
  show ?case
  proof
    fix j assume j: "j \<in> {1..Suc k}"
    show "numbered_id prefix (n + int j) \<in> set used"
    proof (cases "j = 1")
      case False
      with j have m: "j - 1 \<in> {1..k}" and e: "n + int j = n + 1 + int (j - 1)" by auto
      have "\<forall>j \<in> {1..k}. numbered_id prefix (n + 1 + int j) \<in> set used"
        by (rule Suc.IH [OF rest]) (use Suc.prems in simp_all)
      with m show ?thesis unfolding e by blast
    qed (use used in simp)
  qed
qed simp

text \<open>
  The search for an archive number ends. However the numbers in use are spread, the unbounded loop
  of \<open>nextResourceID\<close> finds a number after at most one step per row of the archive and one more, and
  no row of that kind has it.
\<close>

theorem archive_number_is_found_and_free:
  assumes "max_number (resourceIDPrefix ty) (filter (\<lambda>cap. cp_type cap = ty) existing) +
    int (length existing) < max_int64"
  shows "\<exists>i. nextResourceID existing ty = Some i \<and>
    (\<forall>cap \<in> set existing. cp_type cap = ty \<longrightarrow> cp_resource cap \<noteq> i)"
proof -
  let ?rows = "filter (\<lambda>cap. cp_type cap = ty) existing" and ?p = "resourceIDPrefix ty"
  let ?used = "map cp_resource ?rows" and ?m = "max_number (resourceIDPrefix ty) ?rows"
  have len: "length ?rows \<le> length existing" by simp
  have "free_id (Suc (length ?rows)) ?used ?p ?m \<noteq> None"
  proof
    assume n: "free_id (Suc (length ?rows)) ?used ?p ?m = None"
    have sub: "(\<lambda>j. numbered_id ?p (?m + int j)) ` {1..Suc (length ?rows)} \<subseteq> set ?used"
      using free_id_None [OF n max_number_nonneg] assms len by auto
    have inj: "inj_on (\<lambda>j. numbered_id ?p (?m + int j)) {1..Suc (length ?rows)}"
    proof (rule inj_onI)
      fix j k assume "numbered_id ?p (?m + int j) = numbered_id ?p (?m + int k)"
      from numbered_id_inject [OF _ _ this] max_number_nonneg [of ?p ?rows] show "j = k" by simp
    qed
    have "Suc (length ?rows) = card ((\<lambda>j. numbered_id ?p (?m + int j)) ` {1..Suc (length ?rows)})"
      using inj by (simp add: card_image)
    also have "\<dots> \<le> card (set ?used)" using sub by (intro card_mono) simp_all
    also have "\<dots> \<le> length ?rows" using card_length [of ?used] by simp
    finally show False by simp
  qed
  then obtain i where i: "nextResourceID existing ty = Some i" by (auto simp: nextResourceID_def Let_def)
  have free: "free_id k used prefix n = Some i \<Longrightarrow> i \<notin> set used" for k used prefix n
    by (induction k arbitrary: n) (auto simp: Let_def split: if_split_asm)
  have "free_id (Suc (length ?rows)) ?used ?p ?m = Some i"
    using i by (simp add: nextResourceID_def Let_def del: free_id.simps)
  then have "i \<notin> set ?used" by (rule free)
  with i show ?thesis by auto
qed

section \<open>Cases the commands let through\<close>

definition sample_user :: "string \<Rightarrow> string list \<Rightarrow> principal" where
  "sample_user user permissions = \<lparr>pn_tenant = ''T1'', pn_identity = user, pn_user = user, pn_roles = [''admin''],
     pn_permissions = permissions, pn_scopes = [\<lparr>ds_role = ''admin'', ds_type = ''TENANT'', ds_id = ''T1''\<rparr>]\<rparr>"

definition sample_service_call :: "string \<Rightarrow> string \<Rightarrow> string list \<Rightarrow> service_call" where
  "sample_service_call i user permissions =
     \<lparr>cl_user = sample_user user permissions, cl_now = 0, cl_event = i, cl_message = i @ ''-m'', cl_fresh = i @ ''-x''\<rparr>"

definition no_people :: people where
  "no_people = \<lparr>pe_directory = None, pe_pages = 0, pe_frozen = None\<rparr>"

definition sample_request :: "string \<Rightarrow> string \<Rightarrow> string list \<Rightarrow> command \<Rightarrow> request" where
  "sample_request i user permissions command =
     \<lparr>rq_call = sample_service_call i user permissions, rq_item = ''SI-1'', rq_command = command,
      rq_files = None, rq_people = no_people\<rparr>"

text \<open>
  A rejection does not ask whether the request is still open: a rollback that was approved, and done,
  is rejected afterwards by another approver.
\<close>

definition rejected_late :: "request list" where
  "rejected_late =
     [sample_request ''R1'' ''eng'' [''project.rollback.request'']
        (RollbackCommand ''FIELD_TO_PREPARATION'' ''wrong device'' 0),
      sample_request ''E2'' ''lead'' [''project.rollback.approve'']
        (DecideRollbackCommand ''R1'' ''APPROVED'' ''yes'' 0),
      sample_request ''E3'' ''chief'' [''project.rollback.approve'']
        (DecideRollbackCommand ''R1'' ''REJECTED'' ''no'' 0)]"

lemma approved_rollback_is_rejected_late:
  "map er_type (st_events (run_all (perform sample_env ''ENFORCE'') rejected_late field_store)) =
     [EventRollbackRequested, EventRollbackApproved, EventRollbackRejected]"
  by code_simp

text \<open>
  The freeze of a handover is looked up under what the client sent, before it is resolved: a frozen
  person is refused by user identifier and assigned by archive number.
\<close>

definition bob_record :: capability_row where
  "bob_record = sample_master\<lparr>cp_type := ''PERSON'', cp_resource := ''P-0001'', cp_name := ''Bob'',
     cp_codes := [''C1''], cp_user := ''bob'', cp_identity := ''ACTIVE''\<rparr>"

definition bob_directory :: directory where
  "bob_directory role page = Some \<lparr>dp_page = int page, dp_size = 50, dp_total = 1, dp_users = [''bob'']\<rparr>"

definition bob_people :: people where
  "bob_people = \<lparr>pe_directory = Some bob_directory, pe_pages = 5,
     pe_frozen = Some (\<lambda>tenant user. Some (user = ''bob''))\<rparr>"

definition allocation_store :: store where
  "allocation_store = empty_store\<lparr>st_items := [sample_item], st_projects := [sample_project],
     st_capabilities := [bob_record]\<rparr>"

definition assign_call :: service_call where
  "assign_call = sample_service_call ''E1'' ''boss'' [''project.team.assign'', ''project.execution.assign'']"

lemma archive_number_evades_freeze:
  "AssignTeam sample_env bob_people assign_call ''SI-1'' ''bob'' 0 allocation_store = Inl ErrManagerFrozen"
  "case AssignTeam sample_env bob_people assign_call ''SI-1'' ''P-0001'' 0 allocation_store of
     Inl _ \<Rightarrow> False | Inr t \<Rightarrow> map it_team_lead (st_items t) = [''bob'']"
  by code_simp+

text \<open>The advisory mode of the gate does not reach the gate of the transaction.\<close>

definition completion_call :: service_call where
  "completion_call = sample_service_call ''E1'' ''pm'' [''project.field.complete'']"

lemma advisory_mode_is_refused:
  "requireFieldEvidenceReason ''ADVISORY'' (judged_evidence ''ADVISORY'' ''SI-1'' []) [] = Inr ()"
  "CompleteServiceItemField sample_env ''ADVISORY'' completion_call ''SI-1'' [] 0 field_store = Inl ErrPrecondition"
  "case CompleteServiceItemField sample_env ''ADVISORY'' completion_call ''SI-1'' ''no signal'' 0 field_store of
     Inl _ \<Rightarrow> False | Inr t \<Rightarrow> map it_status (st_items t) = [ProjectStatusFieldCompleted]"
  by code_simp+

text \<open>The window of a plan is not compared with that of the authorisation.\<close>

lemma plan_window_is_not_compared:
  "validatePenetrationCompliance (input\<lparr>ii_start := a, ii_end := b\<rparr>) = validatePenetrationCompliance input"
  by (simp add: validatePenetrationCompliance_def)

text \<open>A person may be in a plan twice: by archive number and by user identifier.\<close>

definition person_input :: "string \<Rightarrow> resource_input" where
  "person_input i = \<lparr>ri_type = ''PERSON'', ri_id = i, ri_start = [], ri_end = [], ri_note = []\<rparr>"

lemma person_planned_twice:
  "case resolvePlanPersonnel fixed_cst ''T1'' [person_input ''P-0001'', person_input ''bob''] 0 day_ns allocation_store of
     Inl _ \<Rightarrow> False | Inr rows \<Rightarrow> map pr_id rows = [''P-0001'', ''P-0001'']"
  by code_simp

text \<open>
  A device whose reservation ends on the first day of a plan is refused by the preparation, but not
  among the reservations the selection shows.
\<close>

definition ending_reservation :: equipment_reservation where
  "ending_reservation = \<lparr>qv_item = ''SI-2'', qv_project = ''PJ-1'', qv_customer = [], qv_resource = ''EQ-1'',
     qv_name = ''scanner'', qv_start = ''2026-01-01'', qv_end = ''2026-01-05''\<rparr>"

lemma boundary_reservation_is_not_shown:
  "case (parse_rfc3339 ''2026-01-05T09:00:00+08:00'', parse_rfc3339 ''2026-01-07T18:00:00+08:00'') of
     (Some a, Some b) \<Rightarrow>
       overlapping_reservations a b [ending_reservation] = [] \<and>
       equipmentUsageConflicts (sample_resource\<lparr>pr_id := ''EQ-1''\<rparr>) (CalendarDay fixed_cst a)
         (CalendarDay fixed_cst b) [ending_reservation] = [ending_reservation]
   | _ \<Rightarrow> False"
  by code_simp

text \<open>
  A reservation over the whole plan is read with the UTC dates of the plan, not its business days: a
  plan that starts at midnight in Beijing holds its devices from the day before.
\<close>

definition whole_plan :: plan_row where
  "whole_plan = sample_plan\<lparr>pl_planned_start := parse_rfc3339 ''2026-01-05T00:00:00+08:00'',
     pl_planned_end := parse_rfc3339 ''2026-01-07T18:00:00+08:00'',
     pl_equipment := Some (encode_resources [sample_resource\<lparr>pr_start := [], pr_end := []\<rparr>])\<rparr>"

definition held_store :: store where
  "held_store = empty_store\<lparr>st_items := [sample_item\<lparr>it_status := ProjectStatusPreparing\<rparr>],
     st_projects := [sample_project], st_plans := [whole_plan]\<rparr>"

lemma reservation_starts_a_day_early:
  "map (\<lambda>q. (qv_start q, qv_end q)) (ListEquipmentReservations ''T1'' [] held_store) = [(''2026-01-04'', ''2026-01-07'')]"
  "map_option (DateKey fixed_cst) (pl_planned_start whole_plan) = Some ''2026-01-05''"
  by code_simp+

section \<open>Witnesses\<close>

definition completed_sample :: "app_error + store" where
  "completed_sample =
     CompleteServiceItemField sample_env ''ENFORCE'' completion_call ''SI-1'' ''no signal'' 0 field_store"

theorem completion_tells_the_truth_witness:
  "\<exists>t e. completed_sample = Inr t \<and> st_events t = st_events field_store @ [e] \<and>
     map_of (er_payload e) ''evidence_complete'' = Some (JBool False) \<and>
     stringValue (er_payload e) ''incomplete_reason'' \<noteq> []"
proof -
  obtain t where t: "completed_sample = Inr t"
  proof (cases completed_sample)
    case (Inl x)
    have "case completed_sample of Inl _ \<Rightarrow> False | Inr _ \<Rightarrow> True" by code_simp
    then show ?thesis unfolding Inl sum.case by (rule FalseE)
  qed (use that in simp)
  have g: "gate_policy ''ENFORCE'' = ''ENFORCE''" by code_simp
  from completion_tells_the_truth [OF t [unfolded completed_sample_def] g] obtain e f events where
    e: "st_events t = st_events field_store @ [e]"
    and f: "ProjectScopeFilter (cl_user completion_call) = Some f"
    and l: "ListServiceItemDeliveryEvents sample_env f ''SI-1'' field_store = Inr events"
    and c: "map_of (er_payload e) ''evidence_complete'' = Some (JBool (missing_requirements events = []))"
    and r: "stringValue (er_payload e) ''incomplete_reason'' = [] \<longleftrightarrow> missing_requirements events = []"
    by blast
  have "events = []" using l
    by (auto simp: ListServiceItemDeliveryEvents_def field_store_def empty_store_def split: if_split_asm)
  then have "missing_requirements events \<noteq> []"
    by (simp add: missing_requirements_def fieldEvidenceRequirements_def)
  with t e c r show ?thesis by auto
qed

definition assigned_store :: store where
  "assigned_store = allocation_store\<lparr>st_items := [sample_item\<lparr>it_team_lead := ''lead''\<rparr>]\<rparr>"

definition sample_assignment :: execution_assignment where
  "sample_assignment = \<lparr>xa_manager = ''P-0001'', xa_engineers = [''bob''], xa_codes = [''c1''], xa_version = 1\<rparr>"

definition assigned_sample :: "app_error + string list \<times> store" where
  "assigned_sample = AssignExecutionTeam sample_env (bob_people\<lparr>pe_frozen := None\<rparr>) assign_call ''SI-1''
     sample_assignment assigned_store"

theorem only_qualified_people_are_assigned_witness:
  "\<exists>t e manager. assigned_sample = Inr ([], t) \<and> st_events t = st_events assigned_store @ [e] \<and>
     map_of (er_payload e) ''project_manager_id'' = Some (JStr manager) \<and>
     (\<exists>cap \<in> set (st_capabilities assigned_store). cp_status cap = ''ACTIVE'' \<and> trim_space (cp_user cap) = manager)"
proof -
  obtain t where t: "assigned_sample = Inr ([], t)"
  proof (cases assigned_sample)
    case (Inl x)
    have "case assigned_sample of Inl _ \<Rightarrow> False | Inr _ \<Rightarrow> True" by code_simp
    then show ?thesis unfolding Inl sum.case by (rule FalseE)
  next
    case (Inr r)
    have "case assigned_sample of Inl _ \<Rightarrow> False | Inr r \<Rightarrow> fst r = []" by code_simp
    then have "fst r = []" unfolding Inr sum.case .
    with Inr that show ?thesis by (cases r) auto
  qed
  from only_qualified_people_are_assigned [OF t [unfolded assigned_sample_def]] t show ?thesis
    by (elim exE conjE) auto
qed

theorem events_have_authorised_authors_witness:
  "\<exists>e :: event_row. er_type e = EventRollbackApproved \<and>
     (\<exists>q \<in> set rejected_late. er_actor e = pn_user (cl_user (rq_call q)) \<and>
        list_ex (Has (cl_user (rq_call q))) [''project.rollback.approve''])"
proof -
  have "list_ex (\<lambda>e. er_type e = EventRollbackApproved)
      (drop (length (st_events field_store))
        (st_events (run_all (perform sample_env ''ENFORCE'') rejected_late field_store)))"
    by code_simp
  then obtain e where t: "er_type e = EventRollbackApproved" and e: "e \<in> set (drop (length (st_events field_store))
        (st_events (run_all (perform sample_env ''ENFORCE'') rejected_late field_store)))"
    by (auto simp: list_ex_iff)
  from events_have_authorised_authors [OF e] obtain q where "q \<in> set rejected_late"
    "er_actor e = pn_user (cl_user (rq_call q))"
    "list_ex (Has (cl_user (rq_call q))) (event_permissions (er_type e) (er_payload e))" by blast
  moreover from this(3) have "list_ex (Has (cl_user (rq_call q))) [''project.rollback.approve'']"
    unfolding t event_permissions.simps .
  ultimately show ?thesis using t by blast
qed

definition signature_file :: artifact where
  "signature_file = \<lparr>af_file_id = ''F1'', af_name = ''s.png'', af_mime = ''image/png'', af_size = 7,
     af_sha256 = replicate 64 CHR ''a''\<rparr>"

definition sample_gateway :: gateway where
  "sample_gateway f kind item = Metadata \<lparr>fm_file = f, fm_tenant = ''t1'', fm_application = ''pm'', fm_status = ''ready'',
     fm_media = ''image/png'', fm_name = ''s.png'', fm_sha256 = replicate 64 CHR ''A'', fm_size = 7, fm_bound = True,
     fm_created = ''2026-01-01T00:00:00Z''\<rparr>"

definition signature_run :: "request list" where
  "signature_run = [(sample_request ''E1'' ''eng'' [''project.field.execute'']
     (SignCommand \<lparr>si_file = signature_file, si_operation = ''op-00001'', si_captured = ''1970-01-01T00:00:00Z'',
        si_version = 1\<rparr>))\<lparr>rq_files := Some (''pm'', sample_gateway)\<rparr>]"

theorem files_in_events_were_confirmed_witness:
  "\<exists>e a. e \<in> set (st_events (run_all (perform sample_env ''ENFORCE'') signature_run field_store)) \<and>
     a \<in> set (evidence_of (er_payload e)) \<and>
     (\<exists>q \<in> set signature_run. er_id e = cl_event (rq_call q) \<and> confirmed (rq_files q) (er_tenant e) (er_item e) a)"
proof -
  have "list_ex (\<lambda>e. evidence_of (er_payload e) \<noteq> []) (drop (length (st_events field_store))
        (st_events (run_all (perform sample_env ''ENFORCE'') signature_run field_store)))"
    by code_simp
  then obtain e where n: "evidence_of (er_payload e) \<noteq> []" and e: "e \<in> set (drop (length (st_events field_store))
        (st_events (run_all (perform sample_env ''ENFORCE'') signature_run field_store)))"
    by (auto simp: list_ex_iff)
  then obtain a where "a \<in> set (evidence_of (er_payload e))" by (cases "evidence_of (er_payload e)") auto
  with files_in_events_were_confirmed [OF e] e show ?thesis using in_set_dropD by fast
qed

definition one_device :: "capability_row list" where
  "one_device = [sample_master\<lparr>cp_resource := ''EQ-0001''\<rparr>]"

theorem archive_number_is_found_and_free_witness:
  "\<exists>i. nextResourceID one_device ''EQUIPMENT'' = Some i \<and> i = ''EQ-0002'' \<and> i \<noteq> ''EQ-0001''"
proof -
  have h: "max_number (resourceIDPrefix ''EQUIPMENT'') (filter (\<lambda>cap. cp_type cap = ''EQUIPMENT'') one_device) +
      int (length one_device) < max_int64" by code_simp
  have "nextResourceID one_device ''EQUIPMENT'' = Some ''EQ-0002''" by code_simp
  with archive_number_is_found_and_free [OF h] show ?thesis
    by (auto simp: one_device_def sample_master_def)
qed

end
