(* ===== verification/Confirmation.thy ===== *)
theory Confirmation
  imports NativeScope DataScope ProjectSync
begin

text \<open>
  The confirmation of a decomposition (\<open>ConfirmServiceItems\<close> of \<open>mysql/repository.go\<close>) and the
  controlled exit from a supplement (\<open>mysql/supplement_exit.go\<close>, \<open>application/supplement_exit.go\<close>);
  and what runs of events and confirmations do to the columns of a project that cache its status.
\<close>

section \<open>Leaving a supplement\<close>

definition spec_scope :: "item_spec \<Rightarrow> string" where
  "spec_scope sp = join_with ''|'' [trim_space (sp_source_service sp), trim_space (sp_batch sp),
     trim_space (sp_site sp), trim_space (sp_category sp)]"

text \<open>The scope the latest adjustment applied; a payload that cannot be read counts as none.\<close>

definition appliedSupplementScope :: "string \<Rightarrow> string \<Rightarrow> store \<Rightarrow> string list" where
  "appliedSupplementScope tenant project s =
     (case latest_event (filter (\<lambda>e. er_tenant e = tenant \<and> er_project e = project \<and>
             er_type e = EventDecompositionAdjusted) (st_events s)) of
        None \<Rightarrow> []
      | Some e \<Rightarrow> (case json_list decode_item_spec (jsonValue (er_payload e) ''service_items'') of
            None \<Rightarrow> [] | Some specs \<Rightarrow> sort (map spec_scope specs)))"

definition VerifySupplementExit :: "string list \<Rightarrow> service_item list \<Rightarrow> app_error + unit" where
  "VerifySupplementExit applied current =
     (if applied = [] then Inl ErrPrecondition
      else if applied \<noteq> splitScopeSnapshot current then Inl ErrPrecondition else Inr ())"

definition live_items :: "store \<Rightarrow> string \<Rightarrow> string \<Rightarrow> service_item list" where
  "live_items s tenant project =
     filter (\<lambda>i. it_tenant i = tenant \<and> it_project i = project \<and> item_live i) (st_items s)"

definition clearSupplementStatusAfterConfirm ::
  "string \<Rightarrow> string \<Rightarrow> instant \<Rightarrow> store \<Rightarrow> app_error + store" where
  "clearSupplementStatusAfterConfirm tenant project now s =
     (case find_project s tenant project of None \<Rightarrow> Inl ErrStorage
      | Some p \<Rightarrow>
          rbind (if equal_fold (trim_space (pj_supplement p)) ''REQUIRED''
                 then VerifySupplementExit (appliedSupplementScope tenant project s) (live_items s tenant project)
                 else Inr ()) (\<lambda>_.
            Inr (s\<lparr>st_projects := update_where (project_key tenant project)
              (\<lambda>p. p\<lparr>pj_supplement := ''NONE'', pj_updated_at := now\<rparr>) (st_projects s)\<rparr>)))"

section \<open>The confirmation\<close>

definition confirmable :: "string \<Rightarrow> bool" where
  "confirmable status \<longleftrightarrow> status = ServiceItemStatusPendingConfirm \<or> status = ServiceItemStatusPendingReview \<or>
     status = ServiceItemStatusPendingAssign"

definition unconfirmed :: "string \<Rightarrow> bool" where
  "unconfirmed status \<longleftrightarrow> status = ServiceItemStatusPendingConfirm \<or> status = ServiceItemStatusPendingReview"

definition awaits_review :: "service_item \<Rightarrow> bool" where
  "awaits_review i \<longleftrightarrow> it_special i = yes \<and> it_tech_status i \<noteq> ''APPROVED''"

fun guard_records ::
  "native_digests \<Rightarrow> string \<Rightarrow> native_state \<Rightarrow> service_item list \<Rightarrow> app_error + unit" where
  "guard_records dg tenant st [] = Inr ()"
| "guard_records dg tenant st (i # is) =
     rbind (guardNativeScopeConfirmation dg tenant (it_project i) st) (\<lambda>_.
       if \<not> confirmable (it_status i) then Inl ErrValidation else guard_records dg tenant st is)"

text \<open>A project with items left to confirm is passed over: neither its supplement nor its columns change.\<close>

fun confirm_projects :: "env \<Rightarrow> string \<Rightarrow> string list \<Rightarrow> store \<Rightarrow> app_error + store" where
  "confirm_projects env tenant [] s = Inr s"
| "confirm_projects env tenant (p # ps) s =
     (if 0 < count_where (\<lambda>i. it_tenant i = tenant \<and> it_project i = p \<and> item_live i \<and>
               unconfirmed (it_status i)) (st_items s)
      then confirm_projects env tenant ps s
      else rbind (clearSupplementStatusAfterConfirm tenant p (env_clock env) s) (\<lambda>s.
        rbind (syncProjectStatusColumn env tenant p s) (confirm_projects env tenant ps)))"

definition confirmed_row :: "instant \<Rightarrow> string \<Rightarrow> service_item \<Rightarrow> service_item" where
  "confirmed_row now actor i =
     i\<lparr>it_status := ServiceItemStatusPendingAssign, it_status_changed_at := Some now,
       it_updated_at := now, it_updated_by := actor\<rparr>"

definition review_row :: "instant \<Rightarrow> string \<Rightarrow> service_item \<Rightarrow> service_item" where
  "review_row now actor i = i\<lparr>it_tech_status := ''PENDING'', it_updated_at := now, it_updated_by := actor\<rparr>"

definition confirm_rows ::
  "string \<Rightarrow> string list \<Rightarrow> string list \<Rightarrow> instant \<Rightarrow> string \<Rightarrow> service_item list \<Rightarrow> service_item list" where
  "confirm_rows tenant ids pending now actor rows =
     update_where (\<lambda>i. it_tenant i = tenant \<and> item_live i \<and> List.member pending (it_id i))
       (review_row now actor)
       (update_where (\<lambda>i. it_tenant i = tenant \<and> item_live i \<and> List.member ids (it_id i) \<and>
            confirmable (it_status i)) (confirmed_row now actor) rows)"

definition result_row :: "service_item \<Rightarrow> service_item" where
  "result_row i = i\<lparr>it_status := ServiceItemStatusPendingAssign,
     it_tech_status := (if awaits_review i then ''PENDING'' else it_tech_status i)\<rparr>"

definition ConfirmServiceItems ::
  "native_digests \<Rightarrow> env \<Rightarrow> scope_filter \<Rightarrow> string list \<Rightarrow> string \<Rightarrow> native_state \<Rightarrow>
     app_error + service_item list \<times> native_state" where
  "ConfirmServiceItems dg env f ids actor st =
     (let s = with_pending st; tenant = sf_tenant f; now = env_clock env;
          records = filter (\<lambda>i. item_live i \<and> applyServiceItemScope env f s i \<and>
                              List.member ids (it_id i)) (st_items s)
      in if length records \<noteq> length (uniq ids) then Inl ErrNotFound
         else rbind (guard_records dg tenant st records) (\<lambda>_.
           if count_where (\<lambda>i. it_tenant i = tenant \<and> item_live i \<and> List.member ids (it_id i) \<and>
                confirmable (it_status i)) (st_items s) \<noteq> length records then Inl ErrConflict
           else rbind (confirm_projects env tenant (uniq (map it_project records))
               (s\<lparr>st_items := confirm_rows tenant ids (map it_id (filter awaits_review records)) now actor
                    (st_items s)\<rparr>)) (\<lambda>s.
             Inr (map result_row records, st\<lparr>nx_store := s\<rparr>))))"

section \<open>What a confirmation changes\<close>

text \<open>An item left to confirm, among the live items of a project.\<close>

definition awaits_confirmation :: "store \<Rightarrow> project_row \<Rightarrow> bool" where
  "awaits_confirmation s p \<longleftrightarrow>
     list_ex (\<lambda>x. unconfirmed (si_status x)) (status_items s (pj_tenant p) (pj_id p))"

definition column_ok :: "store \<Rightarrow> project_row \<Rightarrow> bool" where
  "column_ok s p \<longleftrightarrow> project_synced s p \<or> awaits_confirmation s p"

lemma column_ok_cong:
  "status_items t (pj_tenant p) (pj_id p) = status_items s (pj_tenant p) (pj_id p) \<Longrightarrow>
   column_ok s p \<Longrightarrow> column_ok t p"
  by (simp add: column_ok_def awaits_confirmation_def project_synced_def)

lemma pending_awaits:
  assumes "0 < count_where (\<lambda>i. it_tenant i = tenant \<and> it_project i = p \<and> item_live i \<and>
      unconfirmed (it_status i)) (st_items s)" and "pj_tenant q = tenant" "pj_id q = p"
  shows "awaits_confirmation s q"
  using assms(1) unfolding neq0_conv [symmetric] count_where_0
  by (auto simp: awaits_confirmation_def status_items_def list_ex_iff assms(2,3))

lemma clear_touches:
  assumes "clearSupplementStatusAfterConfirm tenant p now s = Inr t"
  shows "touches tenant p s t" and "st_items t = st_items s"
proof -
  from assms have t: "t = s\<lparr>st_projects := update_where (project_key tenant p)
      (\<lambda>p. p\<lparr>pj_supplement := ''NONE'', pj_updated_at := now\<rparr>) (st_projects s)\<rparr>"
    by (auto simp: clearSupplementStatusAfterConfirm_def res_simps split: option.splits)
  then show "st_items t = st_items s" by simp
  show "touches tenant p s t"
    by (auto simp: t touches_def status_items_def map_key_update_where set_update_where project_key_def)
qed

lemma confirm_projects_columns:
  assumes "confirm_projects env tenant ps s = Inr t" and "distinct (map pj_id (st_projects s))"
  shows "st_items t = st_items s \<and> map pj_id (st_projects t) = map pj_id (st_projects s) \<and>
    (\<forall>q \<in> set (st_projects t). column_ok t q \<or>
       q \<in> set (st_projects s) \<and> \<not> (pj_tenant q = tenant \<and> pj_id q \<in> set ps))"
  using assms
proof (induction env tenant ps s rule: confirm_projects.induct)
  case (2 env tenant p ps s)
  show ?case
  proof (cases "0 < count_where (\<lambda>i. it_tenant i = tenant \<and> it_project i = p \<and> item_live i \<and>
               unconfirmed (it_status i)) (st_items s)")
    case True
    with 2 have ih: "st_items t = st_items s" "map pj_id (st_projects t) = map pj_id (st_projects s)"
      "\<forall>q \<in> set (st_projects t). column_ok t q \<or>
         q \<in> set (st_projects s) \<and> \<not> (pj_tenant q = tenant \<and> pj_id q \<in> set ps)"
      by simp_all
    have "column_ok t q" if "pj_tenant q = tenant" "pj_id q = p" for q
      using pending_awaits [of tenant p t q] True that ih(1) by (simp add: column_ok_def)
    with ih show ?thesis by auto
  next
    case False
    with "2.prems"(1) obtain u v where u: "clearSupplementStatusAfterConfirm tenant p (env_clock env) s = Inr u"
      and v: "syncProjectStatusColumn env tenant p u = Inr v" and t: "confirm_projects env tenant ps v = Inr t"
      by (auto simp: res_simps)
    note c = sync_columns [OF v clear_touches(1) [OF u] "2.prems"(2)]
    have d: "distinct (map pj_id (st_projects v))" using c(1) "2.prems"(2) by (simp add: touches_def)
    have ih: "st_items t = st_items v" "map pj_id (st_projects t) = map pj_id (st_projects v)"
      "\<forall>q \<in> set (st_projects t). column_ok t q \<or>
         q \<in> set (st_projects v) \<and> \<not> (pj_tenant q = tenant \<and> pj_id q \<in> set ps)"
      using "2.IH"(2) [OF False t d] by simp_all
    have st: "status_items t = status_items v" by (intro ext) (simp add: status_items_def ih(1))
    have "column_ok t q \<or> q \<in> set (st_projects s) \<and> \<not> (pj_tenant q = tenant \<and> pj_id q \<in> set (p # ps))"
      if q: "q \<in> set (st_projects v)" "\<not> (pj_tenant q = tenant \<and> pj_id q \<in> set ps)" for q
    proof (cases "pj_tenant q = tenant \<and> pj_id q = p")
      case True
      then have "column_ok v q" using c(3) [OF q(1)] by (simp add: column_ok_def)
      then show ?thesis by (intro disjI1 column_ok_cong [of t q v]) (simp_all add: st)
    next
      case False
      with c(1) q(1) have "q \<in> set (st_projects s)" unfolding touches_def by blast
      with False q(2) show ?thesis by auto
    qed
    with ih c(1,2) clear_touches(2) [OF u] show ?thesis by (auto simp: touches_def)
  qed
qed simp

text \<open>The rows a confirmation writes are those it has read.\<close>

lemma records_are_all:
  assumes len: "length (filter (\<lambda>i. P i \<and> List.member ids (it_id i)) rows) = length (uniq ids)"
    and d: "distinct (map it_id rows)" and i: "i \<in> set rows" "List.member ids (it_id i)"
  shows "P i"
proof -
  let ?rs = "filter (\<lambda>i. P i \<and> List.member ids (it_id i)) rows"
  have dr: "distinct (map it_id ?rs)" using d by (simp add: distinct_map_filter)
  have "card (set (map it_id ?rs)) = length (uniq ids)" using distinct_card [OF dr] len by simp
  also have "\<dots> = card (set ids)" using distinct_card [of "uniq ids"] by simp
  finally have "set (map it_id ?rs) = set ids" 
    by (intro card_subset_eq) auto
  moreover have "it_id i \<in> set ids" using i(2) by simp
  ultimately have "it_id i \<in> set (map it_id ?rs)" by (simp only:)
  from this [unfolded set_map image_iff] obtain r where r: "r \<in> set ?rs" "it_id i = it_id r"
    by (elim bexE)
  have "r \<in> set rows" using r(1) by simp
  then have "r = i" by (rule key_unique [OF d i(1) _ r(2) [symmetric]])
  with r(1) show ?thesis by simp
qed

lemma filter_map_other:
  "(\<And>i. i \<in> set rows \<Longrightarrow> g i = i \<or> \<not> P i \<and> \<not> P (g i)) \<Longrightarrow> filter P (map g rows) = filter P rows"
  by (induction rows) fastforce+

definition confirm_row ::
  "string \<Rightarrow> string list \<Rightarrow> string list \<Rightarrow> instant \<Rightarrow> string \<Rightarrow> service_item \<Rightarrow> service_item" where
  "confirm_row tenant ids pending now actor i =
     (let i = (if it_tenant i = tenant \<and> item_live i \<and> List.member ids (it_id i) \<and> confirmable (it_status i)
               then confirmed_row now actor i else i)
      in if it_tenant i = tenant \<and> item_live i \<and> List.member pending (it_id i) then review_row now actor i else i)"

lemma confirm_rows_map: "confirm_rows tenant ids pending now actor rows = map (confirm_row tenant ids pending now actor) rows"
  by (simp add: confirm_rows_def update_where_def confirm_row_def Let_def comp_def)

text \<open>Nothing but the status and the review of an item changes; its version does not.\<close>

lemma confirm_row_keeps [simp]:
  "it_id (confirm_row tenant ids pending now actor i) = it_id i"
  "it_tenant (confirm_row tenant ids pending now actor i) = it_tenant i"
  "it_project (confirm_row tenant ids pending now actor i) = it_project i"
  "it_archived_at (confirm_row tenant ids pending now actor i) = it_archived_at i"
  "item_live (confirm_row tenant ids pending now actor i) = item_live i"
  "it_version (confirm_row tenant ids pending now actor i) = it_version i"
  by (simp_all add: confirm_row_def confirmed_row_def review_row_def item_live_def Let_def)

lemma ConfirmE:
  assumes "ConfirmServiceItems dg env f ids actor st = Inr (result, st')"
    and d: "distinct (map it_id (st_items (nx_store st)))"
  obtains pending ps t where "st' = st\<lparr>nx_store := t\<rparr>"
    "confirm_projects env (sf_tenant f) ps ((with_pending st)\<lparr>st_items :=
       confirm_rows (sf_tenant f) ids pending (env_clock env) actor (st_items (nx_store st))\<rparr>) = Inr t"
    "\<And>i. i \<in> set (st_items (nx_store st)) \<Longrightarrow>
       confirm_row (sf_tenant f) ids pending (env_clock env) actor i = i \<or>
       it_tenant i = sf_tenant f \<and> it_project i \<in> set ps"
proof -
  let ?s = "with_pending st"
  let ?P = "\<lambda>i. item_live i \<and> applyServiceItemScope env f ?s i"
  define records where "records = filter (\<lambda>i. ?P i \<and> List.member ids (it_id i)) (st_items ?s)"
  define pending where "pending = map it_id (filter awaits_review records)"
  have items: "st_items ?s = st_items (nx_store st)" by (simp add: with_pending_def)
  have eq: "filter (\<lambda>i. item_live i \<and> applyServiceItemScope env f ?s i \<and> List.member ids (it_id i)) (st_items ?s) = records"
    unfolding records_def by (rule filter_cong) auto
  from assms(1) obtain t where len: "length records = length (uniq ids)"
    and c: "confirm_projects env (sf_tenant f) (uniq (map it_project records))
        (?s\<lparr>st_items := confirm_rows (sf_tenant f) ids pending (env_clock env) actor (st_items ?s)\<rparr>) = Inr t"
    and st': "st' = st\<lparr>nx_store := t\<rparr>"
    unfolding ConfirmServiceItems_def Let_def eq pending_def by (auto simp: res_simps split: if_splits)
  have rec: "i \<in> set records" if "i \<in> set (st_items (nx_store st))" "List.member ids (it_id i)" for i
    using records_are_all [of ?P ids "st_items ?s", folded records_def, OF len] d that
    by (simp add: records_def items)
  have pend: "List.member ids x" if "List.member pending x" for x
    using that by (auto simp: pending_def records_def)
  show thesis
  proof (rule that [OF st'])
    show "confirm_projects env (sf_tenant f) (uniq (map it_project records)) (?s\<lparr>st_items :=
       confirm_rows (sf_tenant f) ids pending (env_clock env) actor (st_items (nx_store st))\<rparr>) = Inr t"
      using c by (simp only: items)
    fix i assume i: "i \<in> set (st_items (nx_store st))"
    show "confirm_row (sf_tenant f) ids pending (env_clock env) actor i = i \<or>
       it_tenant i = sf_tenant f \<and> it_project i \<in> set (uniq (map it_project records))"
    proof (cases "it_tenant i = sf_tenant f \<and> List.member ids (it_id i)")
      case True
      with rec [OF i] show ?thesis by auto
    next
      case False
      with pend [of "it_id i"] show ?thesis by (auto simp: confirm_row_def Let_def)
    qed
  qed
qed

lemma with_pending_fields [simp]:
  "st_items (with_pending st) = st_items (nx_store st)" "st_projects (with_pending st) = st_projects (nx_store st)"
  "st_events (with_pending st) = st_events (nx_store st)"
  by (simp_all add: with_pending_def)

text \<open>The keys of the tables, which every transaction keeps.\<close>

definition rows_ok :: "store \<Rightarrow> bool" where
  "rows_ok s \<longleftrightarrow> distinct (map pj_id (st_projects s)) \<and> distinct (map it_id (st_items s)) \<and>
     list_all (\<lambda>i. it_project i \<noteq> []) (st_items s)"

lemma confirmation_columns:
  assumes c: "ConfirmServiceItems dg env f ids actor st = Inr (result, st')" and ok: "rows_ok (nx_store st)"
  shows "rows_ok (nx_store st')"
    and "\<forall>q \<in> set (st_projects (nx_store st')). column_ok (nx_store st') q \<or>
       q \<in> set (st_projects (nx_store st)) \<and> status_items (nx_store st') (pj_tenant q) (pj_id q) =
         status_items (nx_store st) (pj_tenant q) (pj_id q)"
proof -
  have d: "distinct (map it_id (st_items (nx_store st)))" using ok by (simp add: rows_ok_def)
  from c d obtain pending ps t where st': "st' = st\<lparr>nx_store := t\<rparr>"
    and t: "confirm_projects env (sf_tenant f) ps ((with_pending st)\<lparr>st_items :=
       confirm_rows (sf_tenant f) ids pending (env_clock env) actor (st_items (nx_store st))\<rparr>) = Inr t"
    and other: "\<And>i. i \<in> set (st_items (nx_store st)) \<Longrightarrow>
       confirm_row (sf_tenant f) ids pending (env_clock env) actor i = i \<or>
       it_tenant i = sf_tenant f \<and> it_project i \<in> set ps"
    by (rule ConfirmE) blast
  have cols: "st_items t = map (confirm_row (sf_tenant f) ids pending (env_clock env) actor) (st_items (nx_store st))"
    "map pj_id (st_projects t) = map pj_id (st_projects (nx_store st))"
    "\<forall>q \<in> set (st_projects t). column_ok t q \<or>
       q \<in> set (st_projects (nx_store st)) \<and> \<not> (pj_tenant q = sf_tenant f \<and> pj_id q \<in> set ps)"
    using confirm_projects_columns [OF t] ok by (auto simp: rows_ok_def confirm_rows_map)
  show "rows_ok (nx_store st')"
    using ok by (simp add: st' rows_ok_def cols(1,2) comp_def list_all_iff)
  have "status_items t (pj_tenant q) (pj_id q) = status_items (nx_store st) (pj_tenant q) (pj_id q)"
    if "\<not> (pj_tenant q = sf_tenant f \<and> pj_id q \<in> set ps)" for q
    unfolding status_items_def cols(1)
    by (rule arg_cong [where f = "map _"], rule filter_map_other) (use other that in force)
  with cols(3) show "\<forall>q \<in> set (st_projects (nx_store st')). column_ok (nx_store st') q \<or>
       q \<in> set (st_projects (nx_store st)) \<and> status_items (nx_store st') (pj_tenant q) (pj_id q) =
         status_items (nx_store st) (pj_tenant q) (pj_id q)"
    by (auto simp: st')
qed

section \<open>Runs of events and confirmations\<close>

text \<open>Each step has an environment of its own.\<close>

datatype status_call =
    Transact env transaction
  | Confirm env scope_filter "string list" string

fun status_step :: "native_digests \<Rightarrow> status_call \<Rightarrow> native_state \<Rightarrow> app_error + native_state" where
  "status_step dg (Transact env tr) st = map_sum id (\<lambda>s. st\<lparr>nx_store := s\<rparr>) (execute env tr (with_pending st))"
| "status_step dg (Confirm env f ids actor) st = map_sum id snd (ConfirmServiceItems dg env f ids actor st)"

lemma project_part_ids:
  assumes p: "project_part env e s = Inr t" and d: "distinct (map it_id (st_items s))"
  shows "distinct (map it_id (st_items t))"
proof (cases "de_project e = []")
  case True
  with p d show ?thesis by (simp add: project_part_def)
next
  case False
  with p obtain project u where a: "applyProjectEvent env project e s = Inr u"
    and sync: "syncProjectStatusColumn env (de_tenant e) (de_project e) u = Inr t"
    by (auto simp: project_part_def res_simps split: option.splits)
  have "distinct (map it_id (st_items u))"
  proof (cases "de_type e = EventDecompositionAdjusted")
    case True
    with a obtain v n where v: "adjust_decomposition env project e s = Inr (v, n)"
      and w: "write_project project e (\<lambda>p. (supplement_required p)\<lparr>pj_services := n\<rparr>) v = Inr u"
      by (auto simp: applyProjectEvent_def res_simps split: if_splits)
    from v d have "distinct (map it_id (st_items v))" by (elim adjustE) blast
    then show ?thesis using write_project_frame [OF w] by auto
  next
    case False
    with a have "u = s \<or> (\<exists>f. write_project project e f s = Inr u)"
      by (auto simp: applyProjectEvent_def res_simps split: if_splits)
    with d show ?thesis by (auto dest!: write_project_frame)
  qed
  then show ?thesis using sync_frame_projects [OF sync] by auto
qed

lemma item_part_ids:
  assumes p: "item_part env e s = Inr (e', t)" and d: "distinct (map it_id (st_items s))"
  shows "distinct (map it_id (st_items t))"
  using p
proof (cases rule: item_partE)
  case (2 item u)
  note i = find_item_SomeD [OF 2(2)]
  have f: "find_item s (it_tenant item) (it_id item) = Some item" using 2(2) i by simp
  from item_event_row [OF 2(5) f d] obtain item' where st: "item_stepped e' item item'"
    and items: "st_items u = update_where (\<lambda>j. it_id j = it_id item) (\<lambda>_. item') (st_items s)" by blast
  have "st_items t = st_items u" using 2(6) ensure_package_fields(1) by auto
  then show ?thesis using d st
    by (simp only: items) (subst map_key_update_where; simp add: item_stepped_def)
qed (use d in simp)

lemma transaction_columns:
  assumes e: "execute env tr s = Inr t" and ok: "rows_ok s"
  shows "rows_ok t"
    and "\<forall>q \<in> set (st_projects t). column_ok t q \<or>
       q \<in> set (st_projects s) \<and> status_items t (pj_tenant q) (pj_id q) = status_items s (pj_tenant q) (pj_id q)"
proof -
  have "rows_ok t \<and> (\<forall>q \<in> set (st_projects t). column_ok t q \<or>
       q \<in> set (st_projects s) \<and> status_items t (pj_tenant q) (pj_id q) = status_items s (pj_tenant q) (pj_id q))"
  proof (cases "\<exists>event. tr = TEvent event")
    case True
    then obtain event where ev: "ApplyDeliveryEvent env event s = Inr t" using e by auto
    have k: "distinct (map it_id (st_items s))" "distinct (map pj_id (st_projects s))"
      "list_all (\<lambda>i. it_project i \<noteq> []) (st_items s)" using ok by (simp_all add: rows_ok_def)
    from ev k obtain tenant key where touch: "touches tenant key s t"
      and y: "key \<noteq> [] \<Longrightarrow> \<forall>q \<in> set (st_projects t). pj_tenant q = tenant \<longrightarrow> pj_id q = key \<longrightarrow> project_synced t q"
      and n: "key = [] \<Longrightarrow> st_projects t = st_projects s \<and> status_items t = status_items s"
      by (rule event_columns) blast
    have "column_ok t q \<or> q \<in> set (st_projects s) \<and>
        status_items t (pj_tenant q) (pj_id q) = status_items s (pj_tenant q) (pj_id q)"
      if q: "q \<in> set (st_projects t)" for q
    proof (cases "key \<noteq> [] \<and> pj_tenant q = tenant \<and> pj_id q = key")
      case True
      with y q show ?thesis by (simp add: column_ok_def)
    next
      case False
      then show ?thesis using touch n q by (cases "key = []") (auto simp: touches_def)
    qed
    moreover have "distinct (map it_id (st_items t))"
      using ev k(1) by (elim ApplyDeliveryEventE)
        (simp add: record_frame_fields project_part_ids [OF _ item_part_ids])
    ultimately show ?thesis using touch k by (auto simp: rows_ok_def touches_def)
  next
    case False
    with other_transactions_items [OF e] other_transactions_projects [OF e] ok show ?thesis
      by (auto simp: rows_ok_def status_items_def)
  qed
  then show "rows_ok t"
    and "\<forall>q \<in> set (st_projects t). column_ok t q \<or>
       q \<in> set (st_projects s) \<and> status_items t (pj_tenant q) (pj_id q) = status_items s (pj_tenant q) (pj_id q)"
    by blast+
qed

text \<open>The columns of the project with one identifier; other projects may have any.\<close>

definition columns_inv :: "string \<Rightarrow> native_state \<Rightarrow> bool" where
  "columns_inv i st \<longleftrightarrow> rows_ok (nx_store st) \<and>
     list_all (\<lambda>q. pj_id q = i \<longrightarrow> column_ok (nx_store st) q) (st_projects (nx_store st))"

lemma status_step_columns:
  assumes inv: "columns_inv i st" and step: "status_step dg c st = Inr st'"
  shows "columns_inv i st'"
proof -
  have "rows_ok (nx_store st') \<and> (\<forall>q \<in> set (st_projects (nx_store st')). column_ok (nx_store st') q \<or>
       q \<in> set (st_projects (nx_store st)) \<and> status_items (nx_store st') (pj_tenant q) (pj_id q) =
         status_items (nx_store st) (pj_tenant q) (pj_id q))"
  proof (cases c)
    case (Transact env tr)
    with step obtain t where t: "execute env tr (with_pending st) = Inr t" "st' = st\<lparr>nx_store := t\<rparr>"
      by (cases "execute env tr (with_pending st)") auto
    have "rows_ok (with_pending st)" using inv by (simp add: columns_inv_def rows_ok_def)
    from transaction_columns [OF t(1) this] show ?thesis by (simp add: t(2) status_items_def)
  next
    case (Confirm env f ids actor)
    with step obtain result where c: "ConfirmServiceItems dg env f ids actor st = Inr (result, st')"
      by (cases "ConfirmServiceItems dg env f ids actor st") auto
    have "rows_ok (nx_store st)" using inv by (simp add: columns_inv_def)
    from confirmation_columns [OF c this] show ?thesis by blast
  qed
  then show ?thesis using inv column_ok_cong unfolding columns_inv_def list_all_iff by blast
qed

interpretation columns: transactional "status_step dg" "\<lambda>_. True" "columns_inv i" for dg i
  by unfold_locales (rule status_step_columns)

section \<open>The stored status\<close>

definition columns_derived :: "store \<Rightarrow> project_row \<Rightarrow> bool" where
  "columns_derived s p \<longleftrightarrow>
     (let items = status_items s (pj_tenant p) (pj_id p)
      in pj_progress p = DeriveProjectProgress items \<and>
         pj_status p = DeriveProjectStatus items (pj_supplement p) (pj_status p) \<and>
         (items \<noteq> [] \<longrightarrow> pj_status p = DeriveProjectStatus items (pj_supplement p) []))"

lemma synced_derived: "project_synced s p \<Longrightarrow> columns_derived s p"
  unfolding project_synced_def columns_derived_def Let_def
  by (metis derive_stored_unused)

text \<open>
  C12. The cached status of a project. Once the status and the progress of a project are those its
  live items derive, they are after any run of events, report files, work-package calls and
  confirmations of items, each with a clock of its own, unless an item of the project is left to
  confirm; and an accepted delivery event leaves the columns of the project it is recorded for
  derived, whatever they were before. (A confirmation that leaves an item to confirm skips the
  columns, and an activation writes the initial ones: both are put right by the next event.)
\<close>

theorem stored_status_is_derived:
  assumes start: "columns_inv i st" and run: "st' = run_all (status_step dg) calls st"
    and p: "p \<in> set (st_projects (nx_store st'))" "pj_id p = i"
  shows "(columns_derived (nx_store st') p \<or> awaits_confirmation (nx_store st') p) \<and>
    (\<forall>env event t. ApplyDeliveryEvent env event (with_pending st') = Inr t \<longrightarrow>
      (\<forall>q \<in> set (st_projects t). pj_id q \<noteq> [] \<longrightarrow> pj_tenant q = er_tenant (last (st_events t)) \<longrightarrow>
         pj_id q = er_project (last (st_events t)) \<longrightarrow> columns_derived t q))"
proof -
  have inv: "columns_inv i st'" unfolding run by (rule columns.run_inv [OF start]) simp
  with p have "column_ok (nx_store st') p" by (simp add: columns_inv_def list_all_iff)
  moreover have "columns_derived t q"
    if e: "ApplyDeliveryEvent env event (with_pending st') = Inr t" and q: "q \<in> set (st_projects t)" "pj_id q \<noteq> []"
      "pj_tenant q = er_tenant (last (st_events t))" "pj_id q = er_project (last (st_events t))" for env event t q
  proof -
    have k: "distinct (map it_id (st_items (with_pending st')))" "distinct (map pj_id (st_projects (with_pending st')))"
      "list_all (\<lambda>i. it_project i \<noteq> []) (st_items (with_pending st'))"
      using inv by (simp_all add: columns_inv_def rows_ok_def)
    from e k show ?thesis by (rule event_columns) (use q synced_derived in auto)
  qed
  ultimately show ?thesis by (auto simp: column_ok_def synced_derived)
qed

text \<open>Two items, confirmed one after the other.\<close>

definition no_digests :: native_digests where
  "no_digests = \<lparr>dg_command = (\<lambda>_. []), dg_scope = (\<lambda>_. []), dg_catalog = (\<lambda>_. [])\<rparr>"

definition decomposed :: native_state where
  "decomposed = \<lparr>nx_store = empty_store\<lparr>
       st_projects := [sample_project\<lparr>pj_status := ProjectStatusPendingDecomposition, pj_progress := 0\<rparr>],
       st_items := [sample_item\<lparr>it_status := ServiceItemStatusPendingConfirm\<rparr>,
         sample_item\<lparr>it_id := ''SI-2'', it_status := ServiceItemStatusPendingConfirm\<rparr>]\<rparr>,
     nx_scopes = [], nx_changes = [], nx_config = no_config, nx_sites = [], nx_commands = [], nx_parties = []\<rparr>"

definition whole_scope :: scope_filter where
  "whole_scope = \<lparr>sf_tenant = ''T1'', sf_identity = ''u'', sf_user = ''u'', sf_orgs = [], sf_projects = [],
     sf_all = True, sf_self = False, sf_assigned = False\<rparr>"

definition confirmations :: "status_call list" where
  "confirmations = [Confirm sample_env whole_scope [''SI-1''] ''u'', Confirm sample_env whole_scope [''SI-2''] ''u'']"

theorem stored_status_is_derived_witness:
  "\<exists>p. st_projects (nx_store (run_all (status_step no_digests) confirmations decomposed)) = [p] \<and>
     pj_status p = ProjectStatusPendingAllocation"
proof -
  define t where "t = run_all (status_step no_digests) confirmations decomposed"
  have inv: "columns_inv ''PJ-1'' decomposed" by code_simp
  have 1: "map (\<lambda>p. (pj_tenant p, pj_id p, pj_supplement p)) (st_projects (nx_store t)) = [(''T1'', ''PJ-1'', ''NONE'')]"
    unfolding t_def by code_simp
  have 2: "status_items (nx_store t) ''T1'' ''PJ-1'' = [\<lparr>si_status = ServiceItemStatusPendingAssign, si_report = []\<rparr>,
      \<lparr>si_status = ServiceItemStatusPendingAssign, si_report = []\<rparr>]"
    unfolding t_def by code_simp
  have 3: "DeriveProjectStatus [\<lparr>si_status = ServiceItemStatusPendingAssign, si_report = []\<rparr>,
      \<lparr>si_status = ServiceItemStatusPendingAssign, si_report = []\<rparr>] ''NONE'' [] = ProjectStatusPendingAllocation"
    by code_simp
  have 4: "\<not> unconfirmed ServiceItemStatusPendingAssign" by code_simp
  from 1 obtain p where p: "st_projects (nx_store t) = [p]" "pj_tenant p = ''T1''" "pj_id p = ''PJ-1''" "pj_supplement p = ''NONE''"
    by (auto simp: map_eq_Cons_conv)
  have "columns_derived (nx_store t) p \<or> awaits_confirmation (nx_store t) p"
    using stored_status_is_derived [OF inv t_def, of p] p by simp
  then have "pj_status p = ProjectStatusPendingAllocation"
    using p 2 3 4 by (simp add: columns_derived_def awaits_confirmation_def Let_def)
  with p(1) show ?thesis by (auto simp: t_def)
qed

text \<open>
  A confirmation of one of two items is accepted and leaves the progress column at what it was: the
  items derive another one.
\<close>

definition half_confirmed :: native_state where
  "half_confirmed = run_all (status_step no_digests) [Confirm sample_env whole_scope [''SI-1''] ''u''] decomposed"

lemma partial_confirmation_skips_the_columns:
  "map it_status (st_items (nx_store half_confirmed)) = [ServiceItemStatusPendingAssign, ServiceItemStatusPendingConfirm]"
  "map pj_progress (st_projects (nx_store half_confirmed)) = [0]"
  "DeriveProjectProgress (status_items (nx_store half_confirmed) ''T1'' ''PJ-1'') \<noteq> 0"
  by code_simp+

text \<open>A confirmation changes rows but not their version, so an author who read them before is not refused.\<close>

lemma confirmation_keeps_versions:
  assumes "ConfirmServiceItems dg env f ids actor st = Inr (result, st')"
    and "distinct (map it_id (st_items (nx_store st)))" "distinct (map pj_id (st_projects (nx_store st)))"
  shows "map it_version (st_items (nx_store st')) = map it_version (st_items (nx_store st))"
proof -
  from assms(1,2) obtain pending ps t where "st' = st\<lparr>nx_store := t\<rparr>"
    and t: "confirm_projects env (sf_tenant f) ps ((with_pending st)\<lparr>st_items :=
       confirm_rows (sf_tenant f) ids pending (env_clock env) actor (st_items (nx_store st))\<rparr>) = Inr t"
    by (rule ConfirmE) blast
  with confirm_projects_columns [OF t] assms(3) show ?thesis by (simp add: confirm_rows_map comp_def)
qed

end
