(* ===== verification/Spec2Isabelle.thy ===== *)
theory Spec2Isabelle
  imports ProjectStatus GoTime Store ReportLedger Equipment Penetration GoText ItemEvents EventRecord
    Delivery Platform ItemRuns ProjectSync EventHistory Identifiers Leases Outbox Machine SplitRules CapabilityCodes SplitStore SplitConfig SplitPlans SplitProps ProjectIdentity Activation ActivationProps Recipients RecipientProps AuditOutbox AuditProps NativeScope NativeProject NativeProps FieldPermission DataScope DeliveryCommands EvidenceFiles FieldCommands RequestCommands TeamCommands PlanCommands CommandRuns CommandProps Confirmation
begin

text \<open>
  A verification library of the project-management service (\<open>src/\<close>, Go): the delivery of the
  projects of a testing laboratory, from the decomposition of a contract into service items to the
  archived report. The service is a set of transactions on MySQL tables, started by HTTP handlers
  (\<open>internal/application\<close> checks the request, \<open>internal/infrastructure/mysql\<close> runs the
  transaction) and by background workers that empty two outboxes.

  \<^bold>\<open>How the program is modelled.\<close> The tables are lists of records in one \<open>store\<close>
  (theory Store); a transaction is a function from the store to an error or the new store, so an
  error rolls everything back, as \<open>gorm\<close>'s \<open>Transaction\<close> does. Every early return is a branch
  of the function, every conditional update counts the rows it hits. Go strings are their UTF-8
  bytes. Instants are nanoseconds since the epoch. What a transaction reads from outside (the
  clock, the time zone, generated identifiers, the collation of the database, the catalogue of
  roles) is the record \<open>env\<close>.

  \<^bold>\<open>Theories, and what they show.\<close>
  \<^item> Prelude: results, strings, the interfaces \<open>transactional\<close> (a step function with an
    invariant) and \<open>versioned_row\<close> (a row under an optimistic version).
  \<^item> ProjectStatus (\<open>domain/project_status.go\<close>): the status derived from the service items. It is
    the least advanced active item, insensitive to their order, monotone, conservative on unknown
    codes.
  \<^item> GoTime (\<open>businessclock\<close>, \<open>time.Parse\<close>), GoText (\<open>strconv\<close>, \<open>fmt\<close>): calendar days of the
    business zone; numbers as text.
  \<^item> Store (\<open>mysql/models.go\<close>, \<open>domain/delivery.go\<close>): rows, events, payloads.
  \<^item> ReportLedger (\<open>mysql/delivery_report.go\<close>): the revisions of a report and their invariant.
  \<^item> Equipment (\<open>mysql/delivery_events.go\<close>): implementation plans and day-by-day reservations.
  \<^item> Penetration (\<open>mysql/penetration.go\<close>, \<open>application/penetration.go\<close>): work packages of
    penetration tests, their life cycle, gates, versions and idempotency keys. The service checks a
    call on the tables as it reads them and the transaction commits it later, with anything in
    between: \<open>package_service_at\<close> has both states, \<open>package_service\<close> is the case in which
    nothing happened in between.
  \<^item> ItemEvents (\<open>applyItemEvent\<close>): one definition per branch of the dispatch; the abstract life
    cycle \<open>moves\<close> and the refinement of it by the code.
  \<^item> EventRecord, Delivery (\<open>createEvent\<close>, \<open>ApplyDeliveryEvent\<close>): the record of an event and the
    whole transaction. Identifiers: the numbering of service items.
  \<^item> Platform, ItemRuns, EventHistory: properties of every run of events, registrations of report
    files and calls of work packages (\<open>execute\<close>, with one \<open>env\<close>): reports pass four eyes, one
    report is in force, no update of an item is lost, termination is final, approvals and withdrawals
    of requests act once and come from the right person, offline operations are applied once.
  \<^item> ProjectSync, Confirmation (\<open>ConfirmServiceItems\<close> of \<open>mysql/repository.go\<close>,
    \<open>mysql/supplement_exit.go\<close>): the stored status of a project over runs that have the
    confirmations as well (\<open>status_step\<close>), each step with an \<open>env\<close> of its own; the exit from a
    supplement.
  \<^item> Leases, Outbox, Machine (\<open>mysql/delivery_notification.go\<close>, \<open>mysql/delivery_effects.go\<close>):
    the contract of a table of jobs under leases as an abstract machine, the two outboxes, and the
    machine in which users and workers interleave.
  \<^item> SplitRules, SplitStore, SplitConfig (\<open>domain/split_rule_config.go\<close>, \<open>mysql/split_config.go\<close>,
    \<open>application/split_config.go\<close>), CapabilityCodes (\<open>application/capability_code.go\<close>): the
    configuration of the splitting of contracts, its validation and its tables; every command keeps
    them well formed. SplitPlans, SplitProps: the plan of a contract (policy and first matching
    override) and the grouping of its lines into service items.
  \<^item> Activation, ActivationProps (\<open>application/delivery_contract.go\<close>, \<open>mysql/delivery.go\<close>,
    \<open>mysql/contract_identity_guard.go\<close>): a contract becomes a project, once, with the content the
    contract service (a parameter) gives. Seeding of the catalogue, which the code commits on its
    own, is kept with a successful activation, a duplicate included; when the activation fails
    afterwards it is dropped here and stays in the code.
  \<^item> Recipients, RecipientProps (\<open>application/delivery_effects.go\<close>): from roles to users through
    the pages of the personnel directory (a parameter, bounded by 10,000 pages of 50), and the
    batches of a notification.
  \<^item> AuditOutbox, AuditProps (\<open>internal/auditoutbox\<close>): the outbox of audit events and its
    dispatcher. A failure is two steps, the read of the attempts and the write of the status
    (\<open>read_failure\<close>, \<open>write_failure\<close>), with any steps of others in between: nothing is lost or
    altered, and an event is stranded only by a claim of it between the two.
  \<^item> NativeScope, NativeProject, NativeProps (\<open>application/native_project.go\<close>,
    \<open>application/native_scope_change.go\<close>, \<open>mysql/native_project.go\<close>,
    \<open>mysql/native_scope_change.go\<close>, \<open>mysql/native_scope_guards.go\<close>): projects without a contract.
    The versions of their scope, proposals to change it, the approval by a second person, repetition;
    the digests are parameters. The column of open proposals the delivery guards query is derived
    from the proposals (\<open>with_pending\<close>).
  \<^item> DataScope (\<open>platform/principal.go\<close>, the scopes of \<open>mysql/repository.go\<close> and
    \<open>mysql/delivery_queries.go\<close>): the data scope of a principal, the authorisation of a call and
    the reads inside the scope; what is answered lies in it. FieldPermission
    (\<open>application/field_permission.go\<close>): masking of hidden columns and payload entries.
  \<^item> DeliveryCommands, EvidenceFiles, TeamCommands, PlanCommands, FieldCommands, RequestCommands
    (\<open>application/delivery_*.go\<close>, \<open>platform/file_gateway.go\<close>): the commands of the service, from
    the authorisation to the event they hand to the transaction and the notification attached to it.
    The file gateway, the personnel directory and the handover service are parameters; the clock,
    the identifiers and the random texts of a call are inputs (\<open>service_call\<close>).
  \<^item> CommandRuns, CommandProps: runs of commands. Each is a run of transactions; their events have
    authorised authors and confirmed files, assignments name qualified people, completions tell
    the truth about the evidence. The last lemmas show where the code falls short of its comments.

  \<^bold>\<open>Bounds.\<close> Loops are structural recursions over the rows or the days they visit. Integers of the
  sources are unbounded here where they count rows or versions (a 64-bit version does not overflow
  in the life of a row); where the code can reach the bound of an \<open>int\<close> (numbers of service
  items) the wrap-around is written out (\<open>wrap_int\<close>).

  \<^bold>\<open>Not modelled.\<close> Of the transactions that change state: projects created by hand
  (\<open>CreateProjectWithServiceItems\<close>), the explicit closure of a supplement (\<open>CloseSupplement\<close>),
  the field check-in, the upkeep of the archive of people and devices, rules other than those of
  the splitting, and the handover; the runs above do not have them, nor, but for the ones said to,
  activations, confirmations and native projects. Also HTTP routing and JSON decoding of requests
  (\<open>internal/httpapi\<close>), the identity provider and the requests of the platform clients
  (\<open>internal/platform\<close>), start-up, migrations, the Temporal
  workers and the spreadsheet imports: input and output around the transactions. Transactions run
  one after the other: the row locks the code takes make the ones on the same item or project
  serial, and no other isolation is assumed. Columns only displayed are left out of the rows.
\<close>

end
